(* ===== verification/Prelude.thy ===== *)
theory Prelude
  imports Complex_Main "HOL-Library.Char_ord" "HOL-Library.List_Lexorder"
begin

text \<open>
  Shared vocabulary of the development: the result type of the code that throws,
  the parts of the JavaScript library the modelled sources use (strings, arrays,
  \<open>Set\<close>, stable sorting, \<open>Number\<close>), optional values and truthiness, and the
  lemmas about them that the component theories rely on.

  A JavaScript string is a list of code units; here the units are 8-bit characters
  (\<open>string\<close>).  What the host decides at run time and no source file of the
  repository defines is collected in the record \<open>js_host\<close> and passed as an argument:
  collation (\<open>localeCompare\<close>), the digest of \<open>node:crypto\<close>, and the conversion between
  instants and time stamps (\<open>Date.parse\<close>, \<open>toISOString\<close>).
\<close>

named_theorems res_simps \<open>evaluation and inversion of results\<close>
named_theorems js_simps \<open>evaluation of the JavaScript library functions\<close>

section \<open>Results: values or thrown errors\<close>

datatype error = Error (message: string)

type_synonym 'a res = "error + 'a"

abbreviation throw :: "string \<Rightarrow> 'a res" where
  "throw m \<equiv> Inl (Error m)"

definition bindE :: "'a res \<Rightarrow> ('a \<Rightarrow> 'b res) \<Rightarrow> 'b res" where
  "bindE m f = (case m of Inl e \<Rightarrow> Inl e | Inr x \<Rightarrow> f x)"

lemma bindE_Inl [simp, res_simps]: "bindE (Inl e) f = Inl e"
  by (simp add: bindE_def)

lemma bindE_Inr [simp, res_simps]: "bindE (Inr x) f = f x"
  by (simp add: bindE_def)

lemma bindE_eq_Inr [res_simps]: "bindE m f = Inr y \<longleftrightarrow> (\<exists>x. m = Inr x \<and> f x = Inr y)"
  by (cases m) auto

lemma bindE_eq_Inl [res_simps]:
  "bindE m f = Inl e \<longleftrightarrow> m = Inl e \<or> (\<exists>x. m = Inr x \<and> f x = Inl e)"
  by (cases m) auto

lemma bindE_cong [fundef_cong]:
  "m = m' \<Longrightarrow> (\<And>x. m' = Inr x \<Longrightarrow> f x = f' x) \<Longrightarrow> bindE m f = bindE m' f'"
  by (cases m') auto

text \<open>A statement \<open>if (c) throw new Error(m)\<close>.\<close>

definition throw_if :: "bool \<Rightarrow> string \<Rightarrow> unit res" where
  "throw_if c m = (if c then throw m else Inr ())"

lemma throw_if_simps [simp, res_simps]:
  "throw_if True m = throw m"
  "throw_if False m = Inr ()"
  by (simp_all add: throw_if_def)

lemma throw_if_eq_Inr [simp, res_simps]: "throw_if c m = Inr u \<longleftrightarrow> \<not> c"
  by (simp add: throw_if_def)

lemma throw_if_eq_Inl [res_simps]: "throw_if c m = Inl e \<longleftrightarrow> c \<and> e = Error m"
  by (auto simp: throw_if_def)

text \<open>A loop whose body may throw.\<close>

fun for_each :: "('a \<Rightarrow> unit res) \<Rightarrow> 'a list \<Rightarrow> unit res" where
  "for_each f [] = Inr ()"
| "for_each f (x # xs) = bindE (f x) (\<lambda>_. for_each f xs)"

lemma for_each_eq_Inr [res_simps]: "for_each f xs = Inr u \<longleftrightarrow> (\<forall>x\<in>set xs. f x = Inr ())"
  by (induction xs) (auto simp: bindE_eq_Inr)

lemma for_each_append: "for_each f (xs @ ys) = bindE (for_each f xs) (\<lambda>_. for_each f ys)"
  by (induction xs) (auto simp: bindE_def split: sum.splits)

text \<open>A loop over a list that threads a state and may throw.\<close>

fun fold_res :: "('a \<Rightarrow> 's \<Rightarrow> 's res) \<Rightarrow> 'a list \<Rightarrow> 's \<Rightarrow> 's res" where
  "fold_res f [] s = Inr s"
| "fold_res f (x # xs) s = bindE (f x s) (\<lambda>s'. fold_res f xs s')"

lemma fold_res_invariant:
  assumes "fold_res f xs s = Inr s'" and "I s"
    and "\<And>x s s'. x \<in> set xs \<Longrightarrow> I s \<Longrightarrow> f x s = Inr s' \<Longrightarrow> I s'"
  shows "I s'"
  using assms
proof (induction xs arbitrary: s)
  case Nil
  then show ?case by simp
next
  case (Cons x xs)
  from Cons.prems(1) obtain t where t: "f x s = Inr t" "fold_res f xs t = Inr s'"
    by (auto simp: bindE_eq_Inr)
  have "I t" using Cons.prems(2,3) t(1) by (meson list.set_intros(1))
  with Cons.IH [OF t(2)] Cons.prems(3) show ?case by (meson list.set_intros(2))
qed

text \<open>\<open>xs.map(f)\<close> for a callback that may throw.\<close>

fun map_res :: "('a \<Rightarrow> 'b res) \<Rightarrow> 'a list \<Rightarrow> 'b list res" where
  "map_res f [] = Inr []"
| "map_res f (x # xs) = bindE (f x) (\<lambda>y. bindE (map_res f xs) (\<lambda>ys. Inr (y # ys)))"

lemma map_res_eq_Inr [res_simps]: "map_res f xs = Inr ys \<longleftrightarrow> list_all2 (\<lambda>x y. f x = Inr y) xs ys"
  by (induction xs arbitrary: ys) (auto simp: bindE_eq_Inr list_all2_Cons1)

lemma map_res_pure: "(\<And>x. x \<in> set xs \<Longrightarrow> f x = Inr (g x)) \<Longrightarrow> map_res f xs = Inr (map g xs)"
  by (induction xs) auto

lemma map_res_map [simp]: "map_res f (map g xs) = map_res (\<lambda>x. f (g x)) xs"
  by (induction xs) auto

lemma map_res_length: "map_res f xs = Inr ys \<Longrightarrow> length ys = length xs"
  by (auto simp: map_res_eq_Inr dest: list_all2_lengthD)

section \<open>Optional values and truthiness\<close>

text \<open>
  An optional property \<open>x?: T\<close> is a value of \<open>'a option\<close>, \<open>None\<close> for \<open>undefined\<close>.
  A string is falsy when it is \<open>undefined\<close> or empty.
\<close>

fun truthy :: "string option \<Rightarrow> bool" where
  "truthy None = False"
| "truthy (Some s) = (s \<noteq> [])"

lemma truthy_iff: "truthy v \<longleftrightarrow> (\<exists>s. v = Some s \<and> s \<noteq> [])"
  by (cases v) auto

text \<open>\<open>v ?? d\<close>.\<close>

definition coalesce :: "'a option \<Rightarrow> 'a \<Rightarrow> 'a" where
  "coalesce v d = (case v of None \<Rightarrow> d | Some x \<Rightarrow> x)"

lemma coalesce_simps [simp]: "coalesce None d = d" "coalesce (Some x) d = x"
  by (simp_all add: coalesce_def)

text \<open>\<open>v || d\<close> on an optional string.\<close>

definition or_str :: "string option \<Rightarrow> string \<Rightarrow> string" where
  "or_str v d = (if truthy v then the v else d)"

lemma or_str_simps [simp]:
  "or_str None d = d" "or_str (Some []) d = d" "or_str (Some (c # s)) d = c # s"
  by (simp_all add: or_str_def)

text \<open>\<open>v || undefined\<close>: the empty string is dropped.\<close>

definition some_str :: "string \<Rightarrow> string option" where
  "some_str s = (if s = [] then None else Some s)"

lemma some_str_simps [simp]: "some_str [] = None" "some_str (c # s) = Some (c # s)"
  by (simp_all add: some_str_def)

lemma truthy_some_str [simp]: "truthy (some_str s) \<longleftrightarrow> s \<noteq> []"
  by (simp add: some_str_def)


section \<open>Strings\<close>

text \<open>\<open>String.prototype.trim\<close>: the white space and line terminators among the 8-bit units.\<close>

definition js_space :: "char \<Rightarrow> bool" where
  "js_space c \<longleftrightarrow> c \<in> {CHR 0x09, CHR 0x0A, CHR 0x0B, CHR 0x0C, CHR 0x0D, CHR 0x20, CHR 0xA0}"

definition js_trim :: "string \<Rightarrow> string" where
  "js_trim s = rev (dropWhile js_space (rev (dropWhile js_space s)))"

definition js_trimmed :: "string \<Rightarrow> bool" where
  "js_trimmed s \<longleftrightarrow> s = [] \<or> \<not> js_space (hd s) \<and> \<not> js_space (last s)"

lemma js_trim_Nil [simp]: "js_trim [] = []"
  by (simp add: js_trim_def)

lemma dropWhile_hd_id: "xs = [] \<or> \<not> P (hd xs) \<Longrightarrow> dropWhile P xs = xs"
  by (cases xs) auto

lemma js_trim_id: "js_trimmed s \<Longrightarrow> js_trim s = s"
  by (auto simp: js_trimmed_def js_trim_def dropWhile_hd_id hd_rev)

lemma hd_rev_dropWhile_rev:
  "xs \<noteq> [] \<Longrightarrow> \<not> P (hd xs) \<Longrightarrow>
     dropWhile P (rev xs) \<noteq> [] \<and> last (dropWhile P (rev xs)) = hd xs"
proof -
  assume ne: "xs \<noteq> []" and h: "\<not> P (hd xs)"
  have "rev xs = takeWhile P (rev xs) @ dropWhile P (rev xs)" by simp
  moreover have "dropWhile P (rev xs) \<noteq> []"
    using ne h by (metis dropWhile_eq_Nil_conv list.set_sel(1) set_rev)
  ultimately show ?thesis using ne
    by (metis last_appendR last_rev)
qed

lemma js_trimmed_trim [simp]: "js_trimmed (js_trim s)"
proof (cases "dropWhile js_space s = []")
  case True
  then have "js_trim s = []" unfolding js_trim_def by (simp only: rev.simps dropWhile.simps)
  then show ?thesis by (simp add: js_trimmed_def)
next
  case False
  define t where "t = dropWhile js_space s"
  have h: "\<not> js_space (hd t)" using False hd_dropWhile [of js_space s] by (simp add: t_def)
  have tn: "t \<noteq> []" using False by (simp add: t_def)
  let ?u = "dropWhile js_space (rev t)"
  have u: "?u \<noteq> []" "last ?u = hd t" using hd_rev_dropWhile_rev [where P = js_space, OF tn h] by auto
  have "\<not> js_space (hd ?u)" using hd_dropWhile [OF u(1)] .
  then have "js_trimmed (rev ?u)" using u h by (simp add: js_trimmed_def hd_rev last_rev)
  then show ?thesis by (simp add: js_trim_def t_def)
qed

lemma js_trim_idem [simp]: "js_trim (js_trim s) = js_trim s"
  by (rule js_trim_id) simp

lemma js_trim_length: "length (js_trim s) \<le> length s"
  unfolding js_trim_def
  by (metis (no_types, lifting) length_dropWhile_le length_rev order_trans)

text \<open>\<open>v?.trim()\<close> and the idiom \<open>v?.trim() || undefined\<close>.\<close>

definition opt_trim :: "string option \<Rightarrow> string option" where
  "opt_trim v = map_option js_trim v"

lemma opt_trim_simps [simp]: "opt_trim None = None" "opt_trim (Some s) = Some (js_trim s)"
  by (simp_all add: opt_trim_def)

text \<open>\<open>s.startsWith(p)\<close>, \<open>s.slice(n)\<close> and \<open>s.slice(0, n)\<close> for \<open>n \<ge> 0\<close>.\<close>

fun starts_with :: "string \<Rightarrow> string \<Rightarrow> bool" where
  "starts_with [] s = True"
| "starts_with (c # p) [] = False"
| "starts_with (c # p) (d # s) = (c = d \<and> starts_with p s)"

lemma starts_with_iff: "starts_with p s \<longleftrightarrow> (\<exists>t. s = p @ t)"
  by (induction p s rule: starts_with.induct) auto

lemma starts_with_append [simp]: "starts_with p (p @ s)"
  by (auto simp: starts_with_iff)

lemma starts_with_drop: "starts_with p s \<Longrightarrow> p @ drop (length p) s = s"
  by (auto simp: starts_with_iff)

text \<open>\<open>path.replace(/^\.\//, '')\<close> and \<open>path.replace(/\\/g, '/')\<close>.\<close>

definition strip_dot_slash :: "string \<Rightarrow> string" where
  "strip_dot_slash s = (if starts_with ''./'' s then drop 2 s else s)"

definition slashes :: "string \<Rightarrow> string" where
  "slashes s = map (\<lambda>c. if c = CHR 0x5C then CHR ''/'' else c) s"

lemma slashes_idem [simp]: "slashes (slashes s) = slashes s"
  by (simp add: slashes_def)

lemma length_slashes [simp]: "length (slashes s) = length s"
  by (simp add: slashes_def)

lemma length_strip: "length (strip_dot_slash s) \<le> length s"
  by (simp add: strip_dot_slash_def)

lemma strip_same_length: "length (strip_dot_slash s) = length s \<Longrightarrow> strip_dot_slash s = s"
  by (auto simp: strip_dot_slash_def starts_with_iff split: if_splits)

text \<open>\<open>s.includes(p)\<close> and \<open>s.endsWith(p)\<close>.\<close>

fun js_includes :: "string \<Rightarrow> string \<Rightarrow> bool" where
  "js_includes p [] = (p = [])"
| "js_includes p (c # s) = (starts_with p (c # s) \<or> js_includes p s)"

definition ends_with :: "string \<Rightarrow> string \<Rightarrow> bool" where
  "ends_with p s = starts_with (rev p) (rev s)"

text \<open>\<open>s.split(c)\<close> for a one-unit separator, and \<open>ws.join(sep)\<close>.\<close>

fun js_split :: "char \<Rightarrow> string \<Rightarrow> string list" where
  "js_split c [] = [[]]"
| "js_split c (x # xs) =
     (if x = c then [] # js_split c xs
      else (case js_split c xs of [] \<Rightarrow> [[x]] | w # ws \<Rightarrow> (x # w) # ws))"

fun js_join :: "string \<Rightarrow> string list \<Rightarrow> string" where
  "js_join sep [] = []"
| "js_join sep [w] = w"
| "js_join sep (w # v # ws) = w @ sep @ js_join sep (v # ws)"

lemma js_split_nonempty [simp]: "js_split c s \<noteq> []"
  by (induction c s rule: js_split.induct) (auto split: list.splits)

lemma js_split_no_sep: "w \<in> set (js_split c s) \<Longrightarrow> c \<notin> set w"
  by (induction c s arbitrary: w rule: js_split.induct) (fastforce split: if_splits list.splits)+

lemma js_join_Cons: "ws \<noteq> [] \<Longrightarrow> js_join sep (w # ws) = w @ sep @ js_join sep ws"
  by (cases ws) auto

lemma js_split_sep_free: "c \<notin> set s \<Longrightarrow> js_split c s = [s]"
  by (induction s) auto

lemma js_join_split: "js_join [c] (js_split c s) = s"
proof (induction c s rule: js_split.induct)
  case (1 c)
  then show ?case by simp
next
  case (2 c x xs)
  show ?case
  proof (cases "js_split c xs")
    case Nil
    then show ?thesis by simp
  next
    case (Cons w ws)
    with 2 show ?thesis by (cases ws) (auto simp: js_join_Cons)
  qed
qed

text \<open>\<open>s.toUpperCase()\<close> on ASCII letters.\<close>

definition js_upper :: "string \<Rightarrow> string" where
  "js_upper s = map (\<lambda>c. if CHR ''a'' \<le> c \<and> c \<le> CHR ''z'' then char_of ((of_char c :: nat) - 32) else c) s"

text \<open>Decimal rendering of an integer in a template literal.\<close>

definition digit_char :: "nat \<Rightarrow> char" where
  "digit_char d = (char_of (48 + d mod 10) :: char)"

fun nat_digits :: "nat \<Rightarrow> string" where
  "nat_digits n = (if n < 10 then [digit_char n] else nat_digits (n div 10) @ [digit_char (n mod 10)])"

declare nat_digits.simps [simp del]

definition int_str :: "int \<Rightarrow> string" where
  "int_str i = (if i < 0 then CHR ''-'' # nat_digits (nat (- i)) else nat_digits (nat i))"

section \<open>Arrays, sets and sorting\<close>

text \<open>\<open>[...new Set(xs)]\<close>: the first occurrence of every element, in order.\<close>

definition js_uniq :: "'a list \<Rightarrow> 'a list" where
  "js_uniq xs = rev (remdups (rev xs))"

lemma set_js_uniq [simp]: "set (js_uniq xs) = set xs"
  by (simp add: js_uniq_def)

lemma distinct_js_uniq [simp]: "distinct (js_uniq xs)"
  by (simp add: js_uniq_def)

lemma js_uniq_id: "distinct xs \<Longrightarrow> js_uniq xs = xs"
  by (simp add: js_uniq_def distinct_remdups_id)

lemma js_uniq_idem [simp]: "js_uniq (js_uniq xs) = js_uniq xs"
  by (simp add: js_uniq_id)

lemma js_uniq_Nil [simp]: "js_uniq [] = []"
  by (simp add: js_uniq_def)

lemma js_uniq_eq_Nil [simp]: "js_uniq xs = [] \<longleftrightarrow> xs = []"
  by (simp add: js_uniq_def)

lemma length_js_uniq: "length (js_uniq xs) \<le> length xs"
  by (simp add: js_uniq_def) (metis length_remdups_leq length_rev)

text \<open>
  \<open>xs.sort(cmp)\<close> is stable; the comparator returns a number of which only the sign
  counts.  Insertion from the right keeps equal elements in their order.
\<close>

fun insert_by :: "('a \<Rightarrow> 'a \<Rightarrow> int) \<Rightarrow> 'a \<Rightarrow> 'a list \<Rightarrow> 'a list" where
  "insert_by cmp x [] = [x]"
| "insert_by cmp x (y # ys) = (if cmp x y \<le> 0 then x # y # ys else y # insert_by cmp x ys)"

fun sort_by :: "('a \<Rightarrow> 'a \<Rightarrow> int) \<Rightarrow> 'a list \<Rightarrow> 'a list" where
  "sort_by cmp [] = []"
| "sort_by cmp (x # xs) = insert_by cmp x (sort_by cmp xs)"

lemma set_insert_by [simp]: "set (insert_by cmp x ys) = insert x (set ys)"
  by (induction ys) auto

lemma set_sort_by [simp]: "set (sort_by cmp xs) = set xs"
  by (induction xs) auto

lemma length_insert_by [simp]: "length (insert_by cmp x ys) = Suc (length ys)"
  by (induction ys) auto

lemma length_sort_by [simp]: "length (sort_by cmp xs) = length xs"
  by (induction xs) auto

lemma distinct_insert_by [simp]: "distinct (insert_by cmp x ys) \<longleftrightarrow> x \<notin> set ys \<and> distinct ys"
  by (induction ys) auto

lemma distinct_sort_by [simp]: "distinct (sort_by cmp xs) \<longleftrightarrow> distinct xs"
  by (induction xs) auto

text \<open>
  A comparator is consistent, as the language requires of one passed to \<open>sort\<close>, when it
  is the sign of a total preorder.
\<close>

definition consistent_cmp :: "('a \<Rightarrow> 'a \<Rightarrow> int) \<Rightarrow> bool" where
  "consistent_cmp cmp \<longleftrightarrow>
     (\<forall>x y. sgn (cmp x y) = - sgn (cmp y x)) \<and>
     (\<forall>x y z. cmp x y \<le> 0 \<longrightarrow> cmp y z \<le> 0 \<longrightarrow> cmp x z \<le> 0)"

lemma sgn_flip: "sgn (a :: int) = - sgn b \<longleftrightarrow> (a < 0 \<longleftrightarrow> 0 < b) \<and> (b < 0 \<longleftrightarrow> 0 < a)"
  by (auto simp: sgn_if split: if_splits)

lemma consistent_cmp_flip: "consistent_cmp cmp \<Longrightarrow> (cmp x y < 0 \<longleftrightarrow> 0 < cmp y x)"
  by (simp add: consistent_cmp_def sgn_flip)

lemma consistent_cmp_refl: "consistent_cmp cmp \<Longrightarrow> cmp x x = 0"
  using consistent_cmp_flip [of cmp x x] by linarith

lemma consistent_cmp_trans: "consistent_cmp cmp \<Longrightarrow> cmp x y \<le> 0 \<Longrightarrow> cmp y z \<le> 0 \<Longrightarrow> cmp x z \<le> 0"
  by (auto simp: consistent_cmp_def)

lemma consistent_cmp_total: "consistent_cmp cmp \<Longrightarrow> cmp x y \<le> 0 \<or> cmp y x \<le> 0"
  using consistent_cmp_flip [of cmp x y] by linarith

lemma consistent_cmpI:
  "(\<And>x y. cmp x y < 0 \<longleftrightarrow> 0 < cmp y x) \<Longrightarrow>
   (\<And>x y z. cmp x y \<le> 0 \<Longrightarrow> cmp y z \<le> 0 \<Longrightarrow> cmp x z \<le> 0) \<Longrightarrow> consistent_cmp cmp"
  unfolding consistent_cmp_def sgn_flip by blast

definition sorted_by :: "('a \<Rightarrow> 'a \<Rightarrow> int) \<Rightarrow> 'a list \<Rightarrow> bool" where
  "sorted_by cmp = sorted_wrt (\<lambda>x y. cmp x y \<le> 0)"

lemma sorted_by_simps [simp]:
  "sorted_by cmp []"
  "sorted_by cmp (x # xs) \<longleftrightarrow> (\<forall>y\<in>set xs. cmp x y \<le> 0) \<and> sorted_by cmp xs"
  by (auto simp: sorted_by_def)

lemma sorted_insert_by:
  assumes "consistent_cmp cmp" and "sorted_by cmp ys"
  shows "sorted_by cmp (insert_by cmp x ys)"
  using assms(2)
proof (induction ys)
  case Nil
  then show ?case by simp
next
  case (Cons y ys)
  show ?case
  proof (cases "cmp x y \<le> 0")
    case True
    then have "\<forall>z\<in>set (y # ys). cmp x z \<le> 0"
      using consistent_cmp_trans [OF assms(1) True] Cons.prems by simp
    with True Cons.prems show ?thesis by simp
  next
    case False
    then have "cmp y x \<le> 0" using consistent_cmp_total [OF assms(1), of x y] by blast
    with False Cons show ?thesis by simp
  qed
qed

lemma sorted_sort_by: "consistent_cmp cmp \<Longrightarrow> sorted_by cmp (sort_by cmp xs)"
  by (induction xs) (auto simp: sorted_insert_by)

lemma sort_by_id: "sorted_by cmp xs \<Longrightarrow> sort_by cmp xs = xs"
proof (induction xs)
  case Nil
  then show ?case by simp
next
  case (Cons x xs)
  then show ?case by (cases xs) auto
qed

lemma sort_by_idem: "consistent_cmp cmp \<Longrightarrow> sort_by cmp (sort_by cmp xs) = sort_by cmp xs"
  by (simp add: sort_by_id sorted_sort_by)

text \<open>The comparison of code units used by \<open>sort()\<close> without a comparator and by \<open><\<close>.\<close>

definition unit_cmp :: "string \<Rightarrow> string \<Rightarrow> int" where
  "unit_cmp a b = (if a < b then -1 else if a = b then 0 else 1)"

lemma unit_cmp_le: "unit_cmp a b \<le> 0 \<longleftrightarrow> a \<le> b"
  by (auto simp: unit_cmp_def)

lemma consistent_unit_cmp [simp]: "consistent_cmp unit_cmp"
  by (rule consistent_cmpI) (auto simp: unit_cmp_def split: if_splits)

text \<open>Comparators chained with \<open>||\<close>.\<close>

definition cmp_then :: "int \<Rightarrow> int \<Rightarrow> int" where
  "cmp_then a b = (if a \<noteq> 0 then a else b)"

lemma consistent_cmp_then:
  assumes c: "consistent_cmp c" and d: "consistent_cmp d"
  shows "consistent_cmp (\<lambda>x y. cmp_then (c (f x) (f y)) (d (g x) (g y)))"
proof (rule consistent_cmpI)
  fix x y
  show "cmp_then (c (f x) (f y)) (d (g x) (g y)) < 0 \<longleftrightarrow> 0 < cmp_then (c (f y) (f x)) (d (g y) (g x))"
    using consistent_cmp_flip [OF c, of "f x" "f y"] consistent_cmp_flip [OF c, of "f y" "f x"]
      consistent_cmp_flip [OF d, of "g x" "g y"] unfolding cmp_then_def by presburger
next
  fix x y z
  assume xy: "cmp_then (c (f x) (f y)) (d (g x) (g y)) \<le> 0"
    and yz: "cmp_then (c (f y) (f z)) (d (g y) (g z)) \<le> 0"
  then have cxy: "c (f x) (f y) \<le> 0" and cyz: "c (f y) (f z) \<le> 0"
    by (simp_all add: cmp_then_def split: if_splits)
  have cxz: "c (f x) (f z) \<le> 0" by (rule consistent_cmp_trans [OF c cxy cyz])
  show "cmp_then (c (f x) (f z)) (d (g x) (g z)) \<le> 0"
  proof (cases "c (f x) (f z) = 0")
    case True
    then have czx: "c (f z) (f x) \<le> 0" using consistent_cmp_flip [OF c, of "f x" "f z"]
        consistent_cmp_flip [OF c, of "f z" "f x"] by linarith
    have "c (f y) (f x) \<le> 0" "c (f z) (f y) \<le> 0"
      using consistent_cmp_trans [OF c cyz czx] consistent_cmp_trans [OF c czx cxy] .
    then have "c (f x) (f y) = 0" "c (f y) (f z) = 0"
      using cxy cyz consistent_cmp_flip [OF c, of "f x" "f y"] consistent_cmp_flip [OF c, of "f y" "f z"]
      by linarith+
    with xy yz have "d (g x) (g y) \<le> 0" "d (g y) (g z) \<le> 0" by (simp_all add: cmp_then_def)
    with True consistent_cmp_trans [OF d] show ?thesis by (simp add: cmp_then_def)
  next
    case False
    with cxz show ?thesis by (simp add: cmp_then_def)
  qed
qed

text \<open>\<open>values.map(trim).filter(Boolean)\<close>, the first half of every string normalisation.\<close>

definition trim_all :: "string list \<Rightarrow> string list" where
  "trim_all xs = filter (\<lambda>s. s \<noteq> []) (map js_trim xs)"

lemma trim_all_id: "(\<forall>s\<in>set xs. js_trimmed s \<and> s \<noteq> []) \<Longrightarrow> trim_all xs = xs"
  by (induction xs) (auto simp: trim_all_def js_trim_id)

lemma set_trim_all: "set (trim_all xs) = js_trim ` set xs - {[]}"
  by (auto simp: trim_all_def)

lemma trim_all_trimmed: "s \<in> set (trim_all xs) \<Longrightarrow> js_trimmed s \<and> s \<noteq> []"
  by (auto simp: trim_all_def)

section \<open>Numbers\<close>

text \<open>
  A caller-supplied \<open>number\<close> is finite or not (\<open>NaN\<close> and the infinities, which the
  modelled code treats alike through \<open>Number.isFinite\<close>); counters the code itself
  computes are integers.
\<close>

datatype js_number = Finite rat | NotFinite

definition js_trunc :: "rat \<Rightarrow> int" where
  "js_trunc r = (if 0 \<le> r then \<lfloor>r\<rfloor> else \<lceil>r\<rceil>)"

lemma js_trunc_of_int [simp]: "js_trunc (of_int i) = i"
  by (simp add: js_trunc_def)

lemma js_trunc_numeral [simp]: "js_trunc (numeral n) = numeral n" "js_trunc 0 = 0" "js_trunc 1 = 1"
  by (simp_all add: js_trunc_def)

section \<open>The host\<close>

record js_host =
  locale_compare :: "string \<Rightarrow> string \<Rightarrow> int"
  sha256_hex :: "string \<Rightarrow> string"
  date_parse :: "string \<Rightarrow> int option"
  iso_of_ms :: "int \<Rightarrow> string"

text \<open>
  Documented behaviour of the host that some properties rely on: collation is a
  consistent comparator, and \<open>Date.parse\<close> reads back what \<open>toISOString\<close> writes.
\<close>

definition host_collates :: "js_host \<Rightarrow> bool" where
  "host_collates H \<longleftrightarrow> consistent_cmp (locale_compare H)"

definition host_dates :: "js_host \<Rightarrow> bool" where
  "host_dates H \<longleftrightarrow> (\<forall>t. date_parse H (iso_of_ms H t) = Some t)"

end
