(* ===== verification/JsJson.thy ===== *)
theory JsJson
  imports Prelude
begin

text \<open>
  \<open>JSON.stringify\<close> on the values the sources digest: a datatype of JSON values, the
  rendering of every constructor, and the fact that the rendering of a value determines the
  value (so that a digest of it identifies the value up to collisions of the hash, and two
  records compared through their renderings are the same record).  An object lists its present properties in insertion order; a property whose
  value is \<open>undefined\<close> is absent, which is what \<open>JSON.stringify\<close> does with it.
\<close>

datatype json =
    JNull
  | JBool bool
  | JNum int
  | JStr string
  | JArr "json list"
  | JObj "(string \<times> json) list"

definition hex_digit :: "nat \<Rightarrow> char" where
  "hex_digit d = char_of (if d < 10 then 48 + d else 87 + d)"

text \<open>Escaping of one code unit inside a JSON string literal.\<close>

definition json_escape :: "char \<Rightarrow> string" where
  "json_escape c =
     (if c = CHR 0x22 then [CHR 0x5C, CHR 0x22]
      else if c = CHR 0x5C then [CHR 0x5C, CHR 0x5C]
      else if c = CHR 0x08 then [CHR 0x5C, CHR ''b'']
      else if c = CHR 0x0C then [CHR 0x5C, CHR ''f'']
      else if c = CHR 0x0A then [CHR 0x5C, CHR ''n'']
      else if c = CHR 0x0D then [CHR 0x5C, CHR ''r'']
      else if c = CHR 0x09 then [CHR 0x5C, CHR ''t'']
      else if (of_char c :: nat) < 32
        then [CHR 0x5C, CHR ''u'', CHR ''0'', CHR ''0'', hex_digit (of_char c div 16), hex_digit (of_char c mod 16)]
      else [c])"

definition json_chars :: "string \<Rightarrow> string" where
  "json_chars s = concat (map json_escape s)"

definition json_quote :: "string \<Rightarrow> string" where
  "json_quote s = CHR 0x22 # json_chars s @ [CHR 0x22]"

fun json_stringify :: "json \<Rightarrow> string" where
  "json_stringify JNull = ''null''"
| "json_stringify (JBool b) = (if b then ''true'' else ''false'')"
| "json_stringify (JNum i) = int_str i"
| "json_stringify (JStr s) = json_quote s"
| "json_stringify (JArr xs) = ''['' @ js_join '','' (map json_stringify xs) @ '']''"
| "json_stringify (JObj ps) =
     ''{'' @ js_join '','' (map (\<lambda>(k, v). json_quote k @ '':'' @ json_stringify v) ps) @ ''}''"

abbreviation json_strings :: "string list \<Rightarrow> json" where
  "json_strings xs \<equiv> JArr (map JStr xs)"

text \<open>A property that is absent when its value is \<open>undefined\<close>.\<close>

definition json_opt :: "string \<Rightarrow> ('a \<Rightarrow> json) \<Rightarrow> 'a option \<Rightarrow> (string \<times> json) list" where
  "json_opt k f v = (case v of None \<Rightarrow> [] | Some x \<Rightarrow> [(k, f x)])"

section \<open>The rendering of a string literal is injective\<close>

text \<open>
  An escape sequence never starts with a quote, and no escape sequence is a proper prefix
  of another: reading a literal up to its closing quote recovers it.
\<close>

lemma json_escape_not_quote: "\<exists>d ds. json_escape c = d # ds \<and> d \<noteq> CHR 0x22"
  by (auto simp: json_escape_def)

definition hex_value :: "char \<Rightarrow> nat" where
  "hex_value c = (if of_char c < (58 :: nat) then of_char c - 48 else of_char c - 87)"

definition json_unescape :: "string \<Rightarrow> (char \<times> string) option" where
  "json_unescape s = (case s of
     [] \<Rightarrow> None
   | c # cs \<Rightarrow>
      (if c \<noteq> CHR 0x5C then Some (c, cs)
       else (case cs of
          [] \<Rightarrow> None
        | d # ds \<Rightarrow>
           (if d = CHR ''b'' then Some (CHR 0x08, ds)
            else if d = CHR ''f'' then Some (CHR 0x0C, ds)
            else if d = CHR ''n'' then Some (CHR 0x0A, ds)
            else if d = CHR ''r'' then Some (CHR 0x0D, ds)
            else if d = CHR ''t'' then Some (CHR 0x09, ds)
            else if d = CHR ''u'' then
              (case ds of
                 _ # _ # h # l # r \<Rightarrow> Some (char_of (hex_value h * 16 + hex_value l), r)
               | _ \<Rightarrow> None)
            else Some (d, ds)))))"

lemma hex_value_digit: "d < 16 \<Longrightarrow> hex_value (hex_digit d) = d"
  by (auto simp: hex_digit_def hex_value_def of_char_of)

lemma json_unescape_hex:
  "json_unescape (CHR 0x5C # CHR ''u'' # a # b # h # l # r) = Some (char_of (hex_value h * 16 + hex_value l), r)"
  by (simp add: json_unescape_def)

lemma json_unescape_escape: "json_unescape (json_escape c @ r) = Some (c, r)"
proof -
  let ?special = "{CHR 0x22, CHR 0x5C, CHR 0x08, CHR 0x0C, CHR 0x0A, CHR 0x0D, CHR 0x09}"
  consider (special) "c \<in> ?special"
    | (control) "c \<notin> ?special" "(of_char c :: nat) < 32"
    | (plain) "c \<notin> ?special" "\<not> (of_char c :: nat) < 32" by blast
  then show ?thesis
  proof cases
    case special
    then show ?thesis by (elim insertE) (simp_all add: json_escape_def json_unescape_def)
  next
    case control
    have e: "json_escape c = [CHR 0x5C, CHR ''u'', CHR ''0'', CHR ''0'',
        hex_digit (of_char c div 16), hex_digit (of_char c mod 16)]"
      using control by (simp add: json_escape_def)
    have "(of_char c :: nat) div 16 < 16" "(of_char c :: nat) mod 16 < 16"
      using control by auto
    then have "hex_value (hex_digit (of_char c div 16)) * 16 + hex_value (hex_digit (of_char c mod 16)) = of_char c"
      by (simp only: hex_value_digit div_mult_mod_eq)
    then show ?thesis by (simp only: e append_Cons append_Nil json_unescape_hex char_of_char)
  next
    case plain
    then show ?thesis by (simp add: json_escape_def json_unescape_def)
  qed
qed

lemma json_escape_inj:
  assumes "json_escape c @ r = json_escape d @ s"
  shows "c = d \<and> r = s"
proof -
  have "Some (c, r) = json_unescape (json_escape c @ r)"
    by (rule json_unescape_escape [symmetric])
  also have "\<dots> = Some (d, s)"
    unfolding assms by (rule json_unescape_escape)
  finally show ?thesis by simp
qed

lemma json_quote_inj: "json_quote s @ r = json_quote t @ u \<Longrightarrow> s = t \<and> r = u"
proof -
  have "json_chars s @ CHR 0x22 # r = json_chars t @ CHR 0x22 # u \<Longrightarrow> s = t \<and> r = u"
  proof (induction s arbitrary: t)
    case Nil
    show ?case
    proof (cases t)
      case Nil
      with \<open>json_chars [] @ CHR 0x22 # r = json_chars t @ CHR 0x22 # u\<close>
      show ?thesis by (simp add: json_chars_def)
    next
      case (Cons d t')
      obtain e ds where "json_escape d = e # ds" "e \<noteq> CHR 0x22" using json_escape_not_quote by blast
      with Cons Nil show ?thesis by (simp add: json_chars_def)
    qed
  next
    case (Cons c s)
    then show ?case
    proof (cases t)
      case Nil
      obtain d ds where "json_escape c = d # ds" "d \<noteq> CHR 0x22" using json_escape_not_quote by blast
      with Cons.prems Nil show ?thesis by (simp add: json_chars_def)
    next
      case (Cons d t')
      from Cons.prems this have
        "json_escape c @ (json_chars s @ CHR 0x22 # r) = json_escape d @ (json_chars t' @ CHR 0x22 # u)"
        by (simp add: json_chars_def)
      then have "c = d" and "json_chars s @ CHR 0x22 # r = json_chars t' @ CHR 0x22 # u"
        using json_escape_inj by blast+
      with Cons.IH Cons show ?thesis by simp
    qed
  qed
  moreover assume "json_quote s @ r = json_quote t @ u"
  ultimately show "s = t \<and> r = u" by (simp add: json_quote_def)
qed

section \<open>The rendering of a value determines the value\<close>

definition is_digit :: "char \<Rightarrow> bool" where
  "is_digit c \<longleftrightarrow> (48 :: nat) \<le> of_char c \<and> (of_char c :: nat) \<le> 57"

lemma digit_char_code: "(of_char (digit_char d) :: nat) = 48 + d mod 10"
proof -
  have "d mod 10 < 10" by simp
  then have "48 + d mod 10 < (256 :: nat)" by linarith
  then show ?thesis by (simp add: digit_char_def of_char_of)
qed

lemma nat_digits_ne: "nat_digits n \<noteq> []"
  by (subst nat_digits.simps) simp

lemma nat_digits_digit: "c \<in> set (nat_digits n) \<Longrightarrow> is_digit c"
proof (induction n rule: nat_digits.induct)
  case (1 n)
  show ?case
  proof (cases "n < 10")
    case True
    with "1.prems" have "c = digit_char n" by (subst (asm) nat_digits.simps) simp
    then show ?thesis by (simp add: is_digit_def digit_char_code)
  next
    case False
    with "1.prems" have "c \<in> set (nat_digits (n div 10)) \<or> c = digit_char (n mod 10)"
      by (subst (asm) nat_digits.simps) auto
    with "1.IH" False show ?thesis by (auto simp: is_digit_def digit_char_code)
  qed
qed

definition digits_value :: "string \<Rightarrow> nat" where
  "digits_value s = foldl (\<lambda>a c. a * 10 + (of_char c - 48)) 0 s"

lemma digits_value_nat_digits: "digits_value (nat_digits n) = n"
proof (induction n rule: nat_digits.induct)
  case (1 n)
  show ?case
  proof (cases "n < 10")
    case True
    then show ?thesis by (subst nat_digits.simps) (simp add: digits_value_def digit_char_code)
  next
    case False
    with "1.IH" show ?thesis
      by (subst nat_digits.simps) (simp add: digits_value_def digit_char_code)
  qed
qed

text \<open>What may follow a value in a rendering: the end, a separator or a closing bracket.\<close>

definition json_stop :: "string \<Rightarrow> bool" where
  "json_stop r \<longleftrightarrow> r = [] \<or> hd r \<in> {CHR '','', CHR '']'', CHR ''}''}"

lemma json_stop_simps [simp]:
  "json_stop []" "json_stop (CHR '','' # r)" "json_stop (CHR '']'' # r)" "json_stop (CHR ''}'' # r)"
  by (simp_all add: json_stop_def)

lemma json_stop_no_digit: "json_stop r \<Longrightarrow> takeWhile is_digit r = []"
  by (cases r) (auto simp: json_stop_def is_digit_def)

lemma nat_digits_prefix:
  assumes "nat_digits m @ r = nat_digits n @ s" and "json_stop r" and "json_stop s"
  shows "m = n \<and> r = s"
proof -
  have t: "takeWhile is_digit (nat_digits k @ u) = nat_digits k" if "json_stop u" for k u
    using that nat_digits_digit json_stop_no_digit by (simp add: takeWhile_append2)
  have e: "nat_digits m = nat_digits n" using t [OF assms(2)] t [OF assms(3)] assms(1) by metis
  then have "m = n" using digits_value_nat_digits by metis
  with e assms(1) show ?thesis by simp
qed

lemma nat_digits_head: "\<exists>c cs. nat_digits n = c # cs \<and> is_digit c"
  using nat_digits_ne nat_digits_digit by (metis list.exhaust list.set_intros(1))

lemma int_str_prefix:
  assumes "int_str i @ r = int_str j @ s" and "json_stop r" and "json_stop s"
  shows "i = j \<and> r = s"
proof -
  obtain c cs where c: "nat_digits (nat i) = c # cs" "is_digit c" using nat_digits_head by blast
  obtain d ds where d: "nat_digits (nat j) = d # ds" "is_digit d" using nat_digits_head by blast
  have minus: "\<not> is_digit (CHR ''-'')" by (simp add: is_digit_def)
  show ?thesis
  proof (cases "i < 0")
    case i: True
    then have "j < 0" using assms(1) d minus by (auto simp: int_str_def split: if_splits)
    with i assms nat_digits_prefix [of "nat (- i)" r "nat (- j)" s] show ?thesis
      by (auto simp: int_str_def)
  next
    case i: False
    then have "\<not> j < 0" using assms(1) c minus by (auto simp: int_str_def split: if_splits)
    with i assms nat_digits_prefix [of "nat i" r "nat j" s] show ?thesis
      by (auto simp: int_str_def)
  qed
qed

lemma int_str_inj: "int_str i = int_str j \<Longrightarrow> i = j"
  using int_str_prefix [of i "[]" j "[]"] by simp

lemma int_str_head: "\<exists>c cs. int_str i = c # cs \<and> (is_digit c \<or> c = CHR ''-'')"
proof (cases "i < 0")
  case False
  obtain c cs where "nat_digits (nat i) = c # cs" "is_digit c" using nat_digits_head by blast
  with False show ?thesis by (simp add: int_str_def)
qed (simp add: int_str_def)

text \<open>The first unit of a rendering tells the constructor.\<close>

definition json_tag :: "char \<Rightarrow> nat" where
  "json_tag c = (if c = CHR ''n'' then 0 else if c = CHR ''t'' then 1 else if c = CHR ''f'' then 2
     else if is_digit c \<or> c = CHR ''-'' then 3 else if c = CHR 0x22 then 4
     else if c = CHR ''['' then 5 else if c = CHR ''{'' then 6 else 7)"

fun json_con :: "json \<Rightarrow> nat" where
  "json_con JNull = 0"
| "json_con (JBool b) = (if b then 1 else 2)"
| "json_con (JNum i) = 3"
| "json_con (JStr s) = 4"
| "json_con (JArr xs) = 5"
| "json_con (JObj ps) = 6"

lemma json_head: "\<exists>c cs. json_stringify v = c # cs \<and> json_tag c = json_con v"
proof (cases v)
  case (JNum i)
  obtain c cs where "int_str i = c # cs" "is_digit c \<or> c = CHR ''-''" using int_str_head by blast
  with JNum show ?thesis by (auto simp: json_tag_def is_digit_def)
qed (auto simp: json_tag_def json_quote_def is_digit_def)

lemma json_same_con: "json_stringify v @ r = json_stringify w @ s \<Longrightarrow> json_con v = json_con w"
  using json_head [of v] json_head [of w] by auto

lemma json_head_not_close:
  "json_stringify v = c # cs \<Longrightarrow> c \<noteq> CHR '']'' \<and> c \<noteq> CHR ''}'' \<and> c \<noteq> CHR '',''"
proof -
  assume "json_stringify v = c # cs"
  then have "json_tag c = json_con v" using json_head [of v] by auto
  moreover have "json_con v < 7" by (cases v) auto
  ultimately show ?thesis by (auto simp: json_tag_def is_digit_def split: if_splits)
qed

text \<open>A bracketed, comma separated sequence determines its elements when each of them does.\<close>

lemma join_prefix:
  assumes elem: "\<And>x y r s. x \<in> set xs \<Longrightarrow> f x @ r = f y @ s \<Longrightarrow> json_stop r \<Longrightarrow> json_stop s \<Longrightarrow> x = y \<and> r = s"
    and hd: "\<And>x. \<exists>c cs. f x = c # cs \<and> c \<noteq> close"
    and cl: "close \<in> {CHR '']'', CHR ''}''}"
    and eq: "js_join '','' (map f xs) @ close # r = js_join '','' (map f ys) @ close # s"
  shows "xs = ys \<and> r = s"
  using elem eq
proof (induction xs arbitrary: ys)
  case Nil
  show ?case
  proof (cases ys)
    case (Cons y zs)
    obtain c cs where "f y = c # cs" "c \<noteq> close" using hd by blast
    with Cons Nil show ?thesis by (cases zs) auto
  qed (use Nil in simp)
next
  case (Cons x xs)
  show ?case
  proof (cases ys)
    case Nil
    obtain c cs where "f x = c # cs" "c \<noteq> close" using hd by blast
    with Nil Cons.prems(2) show ?thesis by (cases xs) auto
  next
    case ys: (Cons y zs)
    let ?t = "\<lambda>us q. if us = [] then close # q else CHR '','' # js_join '','' (map f us) @ close # q"
    have "f x @ ?t xs r = f y @ ?t zs s"
      using Cons.prems(2) ys by (cases xs; cases zs) (simp_all add: js_join_Cons)
    moreover have "json_stop (?t us q)" for us q using cl by auto
    ultimately have "x = y \<and> ?t xs r = ?t zs s" by (intro Cons.prems(1)) simp_all
    then have xy: "x = y" and t: "?t xs r = ?t zs s" by (rule conjunct1, rule conjunct2)
    have "js_join '','' (map f xs) @ close # r = js_join '','' (map f zs) @ close # s"
      using t cl by (auto split: if_splits)
    then have "xs = zs \<and> r = s" using Cons.IH [of zs] Cons.prems(1) by (meson list.set_intros(2))
    with xy ys show ?thesis by simp
  qed
qed

definition json_pair :: "string \<times> json \<Rightarrow> string" where
  "json_pair p = json_quote (fst p) @ '':'' @ json_stringify (snd p)"

lemma json_stringify_JObj: "json_stringify (JObj ps) = ''{'' @ js_join '','' (map json_pair ps) @ ''}''"
  by (simp add: json_pair_def case_prod_unfold cong: map_cong)

lemma json_pair_prefix:
  assumes "\<And>w r s. json_stringify (snd p) @ r = json_stringify w @ s \<Longrightarrow> json_stop r \<Longrightarrow> json_stop s
      \<Longrightarrow> snd p = w \<and> r = s"
    and "json_pair p @ r = json_pair q @ s" and "json_stop r" and "json_stop s"
  shows "p = q \<and> r = s"
proof -
  have "fst p = fst q \<and> '':'' @ json_stringify (snd p) @ r = '':'' @ json_stringify (snd q) @ s"
    using assms(2) by (intro json_quote_inj) (simp add: json_pair_def)
  with assms(1) [of r "snd q" s] assms(3,4) show ?thesis by (simp add: prod_eq_iff)
qed

lemma json_stringify_prefix:
  "json_stringify v @ r = json_stringify w @ s \<Longrightarrow> json_stop r \<Longrightarrow> json_stop s \<Longrightarrow> v = w \<and> r = s"
proof (induction v arbitrary: w r s)
  case (JArr xs)
  then obtain ys where w: "w = JArr ys" using json_same_con [OF JArr.prems(1)]
    by (cases w) (auto split: if_splits)
  have "xs = ys \<and> r = s"
  proof (rule join_prefix [where f = json_stringify and close = "CHR '']''"])
    show "\<exists>c cs. json_stringify x = c # cs \<and> c \<noteq> CHR '']''" for x
      using json_head json_head_not_close by blast
    show "js_join '','' (map json_stringify xs) @ CHR '']'' # r = js_join '','' (map json_stringify ys) @ CHR '']'' # s"
      using JArr.prems(1) w by simp
  qed (use JArr.IH in auto)
  with w show ?case by simp
next
  case (JObj ps)
  then obtain qs where w: "w = JObj qs" using json_same_con [OF JObj.prems(1)]
    by (cases w) (auto split: if_splits)
  have "ps = qs \<and> r = s"
  proof (rule join_prefix [where f = json_pair and close = "CHR ''}''"])
    fix p q r s
    assume p: "p \<in> set ps" and e: "json_pair p @ r = json_pair q @ s" "json_stop r" "json_stop s"
    have "snd p \<in> Basic_BNFs.snds p" by (cases p) simp
    then show "p = q \<and> r = s" using json_pair_prefix [OF _ e] JObj.IH [OF p] by blast
  next
    show "\<exists>c cs. json_pair x = c # cs \<and> c \<noteq> CHR ''}''" for x by (simp add: json_pair_def json_quote_def)
    show "js_join '','' (map json_pair ps) @ CHR ''}'' # r = js_join '','' (map json_pair qs) @ CHR ''}'' # s"
      using JObj.prems(1) unfolding w json_stringify_JObj by simp
  qed auto
  with w show ?case by simp
next
  case (JStr t)
  then obtain u where w: "w = JStr u" using json_same_con [OF JStr.prems(1)]
    by (cases w) (auto split: if_splits)
  with JStr.prems(1) json_quote_inj [of t r u s] show ?case by simp
next
  case (JNum i)
  then obtain j where w: "w = JNum j" using json_same_con [OF JNum.prems(1)]
    by (cases w) (auto split: if_splits)
  with JNum.prems int_str_prefix [of i r j s] show ?case by simp
next
  case (JBool b)
  then obtain d where w: "w = JBool d" using json_same_con [OF JBool.prems(1)]
    by (cases w) (auto split: if_splits)
  with JBool.prems(1) show ?case by (cases b; cases d) auto
next
  case JNull
  then have "w = JNull" using json_same_con [OF JNull.prems(1)]
    by (cases w) (auto split: if_splits)
  with JNull.prems(1) show ?case by simp
qed

theorem json_stringify_inj: "json_stringify v = json_stringify w \<longleftrightarrow> v = w"
  using json_stringify_prefix [of v "[]" w "[]"] by auto

lemma json_strings_inj:
  "json_stringify (json_strings xs) = json_stringify (json_strings ys) \<Longrightarrow> xs = ys"
  by (simp only: json_stringify_inj json.inject) (metis inj_map_eq_map json.inject(3) injI)

text \<open>Optional properties of an object are determined too.\<close>

lemma json_opt_keys [simp]: "k \<noteq> k' \<Longrightarrow> k \<notin> fst ` set (json_opt k' f v)"
  by (auto simp: json_opt_def split: option.splits)

lemma json_opt_eq: "inj f \<Longrightarrow> json_opt k f v = json_opt k f w \<longleftrightarrow> v = w"
  by (auto simp: json_opt_def inj_def split: option.splits)

lemma json_opt_app:
  "inj f \<Longrightarrow> k \<notin> set (map fst xs) \<Longrightarrow> k \<notin> set (map fst ys) \<Longrightarrow>
     json_opt k f v @ xs = json_opt k f w @ ys \<longleftrightarrow> v = w \<and> xs = ys"
  by (auto simp: json_opt_def inj_def split: option.splits)

end
