(* ===== verification/WorkTypes.thy ===== *)
theory WorkTypes
  imports JsJson
begin

text \<open>
  The data of the Kernel Work domain: the enumerations and interfaces of
  \<open>packages/kernel/work/domain/types.ts\<close> and of the receipt and snapshot modules it
  imports.  A literal union becomes a datatype whose constructors carry the literal after
  a prefix; an interface becomes a record whose fields carry a prefix; an optional
  property is an \<open>option\<close>.  A property whose content no modelled operation inspects
  (\<open>Record<string, unknown>\<close>, receipts of other domains) holds a \<open>json\<close> value.
\<close>

section \<open>Enumerations\<close>

datatype execution_mode = Mode_direct_control | Mode_goal_workloop | Mode_handoff_only

datatype facade_detail_level = Detail_summary | Detail_detail | Detail_raw

datatype work_contract_status =
    Status_open | Status_running | Status_blocked | Status_ready
  | Status_completed | Status_failed | Status_cancelled

fun status_str :: "work_contract_status \<Rightarrow> string" where
  "status_str Status_open = ''open''"
| "status_str Status_running = ''running''"
| "status_str Status_blocked = ''blocked''"
| "status_str Status_ready = ''ready''"
| "status_str Status_completed = ''completed''"
| "status_str Status_failed = ''failed''"
| "status_str Status_cancelled = ''cancelled''"

datatype work_phase =
    Phase_implementation | Phase_verification | Phase_review | Phase_delivery | Phase_cleanup

definition WORK_PHASES :: "work_phase list" where
  "WORK_PHASES = [Phase_implementation, Phase_verification, Phase_review, Phase_delivery, Phase_cleanup]"

fun phase_str :: "work_phase \<Rightarrow> string" where
  "phase_str Phase_implementation = ''implementation''"
| "phase_str Phase_verification = ''verification''"
| "phase_str Phase_review = ''review''"
| "phase_str Phase_delivery = ''delivery''"
| "phase_str Phase_cleanup = ''cleanup''"

datatype phase_evidence_state =
    PState_pending | PState_active | PState_satisfied | PState_blocked | PState_failed | PState_skipped

datatype phase_evidence_source = Source_recorded | Source_legacy_inferred

datatype work_risk = Risk_readonly | Risk_low | Risk_medium | Risk_high | Risk_destructive

definition TERMINAL_WORK_CONTRACT_STATUSES :: "work_contract_status list" where
  "TERMINAL_WORK_CONTRACT_STATUSES = [Status_completed, Status_failed, Status_cancelled]"

datatype work_kind =
    Kind_repository_change | Kind_completed_no_change | Kind_read_only_review | Kind_investigation
  | Kind_local_effect | Kind_remote_effect | Kind_reconciliation | Kind_superseded

fun kind_str :: "work_kind \<Rightarrow> string" where
  "kind_str Kind_repository_change = ''repository_change''"
| "kind_str Kind_completed_no_change = ''completed_no_change''"
| "kind_str Kind_read_only_review = ''read_only_review''"
| "kind_str Kind_investigation = ''investigation''"
| "kind_str Kind_local_effect = ''local_effect''"
| "kind_str Kind_remote_effect = ''remote_effect''"
| "kind_str Kind_reconciliation = ''reconciliation''"
| "kind_str Kind_superseded = ''superseded''"

datatype dispatch_state =
    Dispatch_not_dispatched | Dispatch_claimed | Dispatch_launching | Dispatch_running
  | Dispatch_blocked | Dispatch_terminal

fun dispatch_str :: "dispatch_state \<Rightarrow> string" where
  "dispatch_str Dispatch_not_dispatched = ''not_dispatched''"
| "dispatch_str Dispatch_claimed = ''claimed''"
| "dispatch_str Dispatch_launching = ''launching''"
| "dispatch_str Dispatch_running = ''running''"
| "dispatch_str Dispatch_blocked = ''blocked''"
| "dispatch_str Dispatch_terminal = ''terminal''"

datatype evidence_state =
    EvState_none | EvState_partial | EvState_valid | EvState_stale | EvState_contradictory | EvState_failed

fun evidence_str :: "evidence_state \<Rightarrow> string" where
  "evidence_str EvState_none = ''none''"
| "evidence_str EvState_partial = ''partial''"
| "evidence_str EvState_valid = ''valid''"
| "evidence_str EvState_stale = ''stale''"
| "evidence_str EvState_contradictory = ''contradictory''"
| "evidence_str EvState_failed = ''failed''"

datatype completion_outcome =
    Outcome_completed_changed | Outcome_completed_no_change | Outcome_completed_local
  | Outcome_completed_remote | Outcome_superseded

fun outcome_str :: "completion_outcome \<Rightarrow> string" where
  "outcome_str Outcome_completed_changed = ''completed_changed''"
| "outcome_str Outcome_completed_no_change = ''completed_no_change''"
| "outcome_str Outcome_completed_local = ''completed_local''"
| "outcome_str Outcome_completed_remote = ''completed_remote''"
| "outcome_str Outcome_superseded = ''superseded''"

datatype work_reconciliation_method =
    Method_exact_commit | Method_owned_path_tree | Method_reviewed_patch_identity

datatype work_reconciliation_outcome =
    Recon_accepted_equivalence | Recon_rejected_equivalence | Recon_superseded

datatype verification_outcome =
    Verif_valid_pass | Verif_valid_fail | Verif_invalid_check_id | Verif_infrastructure_failure
  | Verif_skipped | Verif_superseded

fun verification_outcome_str :: "verification_outcome \<Rightarrow> string" where
  "verification_outcome_str Verif_valid_pass = ''valid_pass''"
| "verification_outcome_str Verif_valid_fail = ''valid_fail''"
| "verification_outcome_str Verif_invalid_check_id = ''invalid_check_id''"
| "verification_outcome_str Verif_infrastructure_failure = ''infrastructure_failure''"
| "verification_outcome_str Verif_skipped = ''skipped''"
| "verification_outcome_str Verif_superseded = ''superseded''"

datatype resource_mode = Res_read | Res_write | Res_exclusive

datatype mutation_class =
    Mut_readonly | Mut_isolated_write | Mut_integration_write | Mut_external_effect

datatype lifecycle_role = Role_primary | Role_execution_child

section \<open>Evidence references and policies\<close>

record evidence_ref =
  er_evidenceId :: "string option"
  er_artifactId :: "string option"
  er_title :: string
  er_summary :: "string option"
  er_detailLevel :: "facade_detail_level option"

datatype wake_trigger =
    Wake_work_terminal string
  | Wake_resource_release "string list"
  | Wake_controller_release string
  | Wake_scheduler_capacity string
  | Wake_work_contract_change string

record resource_intent =
  ri_resourceKey :: string
  ri_mode :: resource_mode

datatype concurrency_status = Conc_waiting | Conc_invalid

datatype concurrency_source = Conc_work_compatibility | Conc_resource_lease | Conc_scheduler_capacity

record concurrency_projection =
  cp_status :: concurrency_status
  cp_source :: concurrency_source
  cp_attemptId :: "string option"
  cp_blockerCode :: string
  cp_blockingWorkId :: "string option"
  cp_semanticScopeKeys :: "string list"
  cp_resourceKeys :: "string list"
  cp_leaseRepoId :: "string option"
  cp_resourceIntents :: "resource_intent list"
  cp_wakeTrigger :: wake_trigger
  cp_recordedAt :: string

datatype action_tool = Tool_rh_access | Tool_rh_status | Tool_rh_inbox | Tool_rh_context | Tool_rh_work

datatype action_risk =
    ARisk_readonly | ARisk_local_repo_write | ARisk_workspace_write | ARisk_remote_write
  | ARisk_destructive_remote | ARisk_destructive | ARisk_raw_secret_config | ARisk_unknown

datatype confidence = Confidence_low | Confidence_medium | Confidence_high

record suggested_action =
  sa_label :: string
  sa_tool :: action_tool
  sa_operation :: string
  sa_payload :: "json option"
  sa_risk :: action_risk
  sa_confidence :: "confidence option"
  sa_reason :: "string option"
  sa_fallback :: "string option"

datatype policy_verdict = Policy_allowed | Policy_approval_required | Policy_denied | Policy_dry_run_only

record policy_decision =
  pd_decision :: policy_verdict
  pd_reason :: string
  pd_capabilityId :: "string option"
  pd_approvalRequestId :: "string option"
  pd_requiredConfirmationText :: "string option"
  pd_warnings :: "string list"
  pd_suggestedNextActions :: "suggested_action list"

record phase_evidence =
  pe_state :: phase_evidence_state
  pe_source :: "phase_evidence_source option"
  pe_summary :: string
  pe_evidenceRefs :: "evidence_ref list"
  pe_recordedAt :: string
  pe_receiptId :: "string option"

text \<open>
  \<open>WorkPhaseEvidenceMap = Record<WorkPhase, WorkPhaseEvidence>\<close>.  The code reads it with
  \<open>?.\<close> in one place, for records written before the map existed; \<open>None\<close> is a missing entry.
\<close>

type_synonym phase_evidence_map = "work_phase \<Rightarrow> phase_evidence option"

section \<open>Completion receipts\<close>

record read_only_review_evidence =
  roe_sourceRevision :: string
  roe_workspaceFingerprint :: "string option"
  roe_inspectedPaths :: "string list"
  roe_findings :: "string list"
  roe_recordedAt :: string

record semantic_acceptance_evidence =
  sae_criterion :: string
  sae_evidenceIds :: "string list"
  sae_rationale :: string
  sae_recordedAt :: string

datatype completion_receipt_source =
    Rsrc_direct_edit | Rsrc_controller_work | Rsrc_isolated_agent_run | Rsrc_workspace_run
  | Rsrc_remote_no_change_execution

datatype delivery_kind = Delivery_commit | Delivery_no_change | Delivery_remote | Delivery_superseded
datatype delivery_status = Delivery_integrated | Delivery_blocked
datatype delivery_strategy =
    Strategy_edit_session_commit | Strategy_already_integrated | Strategy_no_change | Strategy_remote
datatype cleanup_status = Cleanup_complete | Cleanup_maintenance_warning | Cleanup_blocked

datatype maintenance_warning_code =
    Warn_worktree_cleanup_failed | Warn_branch_cleanup_failed | Warn_edit_session_backup_retained
  | Warn_cleanup_retained_by_request

datatype resource_blocker_code =
    Blocker_unintegrated_changes | Blocker_active_write_process | Blocker_unknown_resource_ownership
  | Blocker_dirty_owned_paths | Blocker_edit_session_open | Blocker_lease_active
  | Blocker_run_not_terminal | Blocker_target_revision_unreachable

datatype resource_kind = RKind_worktree | RKind_branch | RKind_edit_session | RKind_lease | RKind_process | RKind_workspace

record maintenance_warning =
  mw_code :: maintenance_warning_code
  mw_message :: string
  mw_resourceKind :: "resource_kind option"
  mw_resourceId :: "string option"
  mw_recordedAt :: string

record resource_blocker =
  rb_code :: resource_blocker_code
  rb_message :: string
  rb_resourceKind :: "resource_kind option"
  rb_resourceId :: "string option"
  rb_recordedAt :: string

record receipt_delivery =
  dl_kind :: delivery_kind
  dl_status :: delivery_status
  dl_strategy :: delivery_strategy
  dl_reachable :: bool
  dl_recordedAt :: string

record receipt_cleanup =
  cl_status :: cleanup_status
  cl_warnings :: "maintenance_warning list"
  cl_blockers :: "resource_blocker list"
  cl_recordedAt :: string

record repository_receipt =
  rc_receiptId :: string
  rc_source :: completion_receipt_source
  rc_issueId :: string
  rc_taskId :: string
  rc_runId :: "string option"
  rc_workId :: "string option"
  rc_editSessionId :: "string option"
  rc_targetBranch :: string
  rc_targetRevision :: string
  rc_sourceRevision :: "string option"
  rc_baseRevision :: "string option"
  rc_changedPaths :: "string list"
  rc_delivery :: receipt_delivery
  rc_cleanup :: receipt_cleanup
  rc_verifiedAt :: string
  rc_recordedAt :: string

record direct_edit_receipt =
  de_receiptId :: string
  de_workId :: string
  de_editSessionId :: "string option"
  de_reconciliationId :: "string option"
  de_targetBranch :: string
  de_targetRevision :: string
  de_sourceRevision :: "string option"
  de_baseRevision :: "string option"
  de_changedPaths :: "string list"
  de_delivery :: receipt_delivery
  de_cleanup :: receipt_cleanup
  de_verifiedAt :: string
  de_recordedAt :: string

record read_only_review_receipt =
  ro_receiptId :: string
  ro_workId :: string
  ro_baseRevision :: string
  ro_sourceRevision :: string
  ro_workspaceFingerprint :: "string option"
  ro_workspaceChangedPaths :: "string list"
  ro_inspectedPaths :: "string list"
  ro_findingCount :: int
  ro_recordedAt :: string

datatype local_target_kind = Target_workspace_target | Target_controller_local

record local_target =
  lt_kind :: local_target_kind
  lt_id :: string
  lt_identityFingerprint :: "string option"

record local_effect_receipt =
  le_receiptId :: string
  le_workId :: string
  le_operation :: string
  le_target :: local_target
  le_changed :: bool
  le_recordedAt :: string

datatype remote_authority = Auth_plugin_action | Auth_repository_process

record remote_effect_receipt =
  re_receiptId :: string
  re_workId :: string
  re_authority :: "remote_authority option"
  re_pluginId :: "string option"
  re_actionId :: string
  re_requestId :: string
  re_semanticKey :: string
  re_resultDigest :: string
  re_processId :: "string option"
  re_recordedAt :: string

text \<open>
  \<open>WorkCompletionReceipt\<close>: the \<open>source\<close> property discriminates the union; every source of
  a repository receipt differs from the four others.
\<close>

datatype completion_receipt =
    Repository_receipt repository_receipt
  | Direct_edit_receipt direct_edit_receipt
  | Read_only_review_receipt read_only_review_receipt
  | Local_effect_receipt local_effect_receipt
  | Remote_effect_receipt remote_effect_receipt

fun isRepositoryCompletionReceipt :: "completion_receipt \<Rightarrow> bool" where
  "isRepositoryCompletionReceipt (Repository_receipt _) = True"
| "isRepositoryCompletionReceipt _ = False"

fun isReadOnlyReviewCompletionReceipt :: "completion_receipt \<Rightarrow> bool" where
  "isReadOnlyReviewCompletionReceipt (Read_only_review_receipt _) = True"
| "isReadOnlyReviewCompletionReceipt _ = False"

fun isRemoteEffectCompletionReceipt :: "completion_receipt \<Rightarrow> bool" where
  "isRemoteEffectCompletionReceipt (Remote_effect_receipt _) = True"
| "isRemoteEffectCompletionReceipt _ = False"

fun isDirectEditWorkCompletionReceipt :: "completion_receipt \<Rightarrow> bool" where
  "isDirectEditWorkCompletionReceipt (Direct_edit_receipt _) = True"
| "isDirectEditWorkCompletionReceipt _ = False"

fun isLocalEffectCompletionReceipt :: "completion_receipt \<Rightarrow> bool" where
  "isLocalEffectCompletionReceipt (Local_effect_receipt _) = True"
| "isLocalEffectCompletionReceipt _ = False"

text \<open>The properties every member of the union has; \<open>workId\<close> is optional in a repository receipt.\<close>

fun receipt_id :: "completion_receipt \<Rightarrow> string" where
  "receipt_id (Repository_receipt r) = rc_receiptId r"
| "receipt_id (Direct_edit_receipt r) = de_receiptId r"
| "receipt_id (Read_only_review_receipt r) = ro_receiptId r"
| "receipt_id (Local_effect_receipt r) = le_receiptId r"
| "receipt_id (Remote_effect_receipt r) = re_receiptId r"

fun receipt_work_id :: "completion_receipt \<Rightarrow> string option" where
  "receipt_work_id (Repository_receipt r) = rc_workId r"
| "receipt_work_id (Direct_edit_receipt r) = Some (de_workId r)"
| "receipt_work_id (Read_only_review_receipt r) = Some (ro_workId r)"
| "receipt_work_id (Local_effect_receipt r) = Some (le_workId r)"
| "receipt_work_id (Remote_effect_receipt r) = Some (re_workId r)"

fun receipt_recorded_at :: "completion_receipt \<Rightarrow> string" where
  "receipt_recorded_at (Repository_receipt r) = rc_recordedAt r"
| "receipt_recorded_at (Direct_edit_receipt r) = de_recordedAt r"
| "receipt_recorded_at (Read_only_review_receipt r) = ro_recordedAt r"
| "receipt_recorded_at (Local_effect_receipt r) = le_recordedAt r"
| "receipt_recorded_at (Remote_effect_receipt r) = re_recordedAt r"

section \<open>The routing snapshot\<close>

text \<open>\<open>WorkRouteDecisionSnapshot\<close> in \<open>execution-snapshot.ts\<close>.\<close>

datatype route_mode = Route_direct_edit | Route_bounded_work | Route_quick_agent | Route_issue_task
datatype route_path = Path_fast | Path_durable
datatype route_executor =
    Exec_direct_edit | Exec_local_cli | Exec_remote_api | Exec_cloud_agent | Exec_external_controller | Exec_handoff_only
datatype route_approval =
    Approval_not_required | Approval_normal | Approval_strong_confirmation | Approval_blocked_by_policy

record route_reason =
  rr_code :: string
  rr_message :: string

record route_decision =
  rd_executionMode :: execution_mode
  rd_executorKind :: route_executor
  rd_selectedProviderId :: "string option"
  rd_workMode :: route_mode
  rd_executionPath :: route_path
  rd_requiresWork :: bool
  rd_requiresApproval :: bool
  rd_requiresIsolation :: bool
  rd_requiresRecovery :: bool
  rd_createHandoff :: bool
  rd_waitForUser :: bool
  rd_approvalState :: route_approval
  rd_alternatives :: "string list"
  rd_reasons :: "route_reason list"
  rd_inputFingerprint :: string
  rd_policyVersion :: string

end
