(* ===== verification/ImplementationReview.thy ===== *)
theory ImplementationReview
  imports WorkTypes "HOL-Library.AList" "HOL-Library.Sublist"
begin

text \<open>
  Implementation-review authority, \<open>packages/kernel/work/domain/implementation-review.ts\<close>:
  the canonical forms of path sets and evidence identities, the digests over them, the
  validation of a review record, the delivery gate, the pre-delivery boundary, the
  append-only history and the transfer of an approval across a commit.

  The lemmas show that the canonical forms are canonical (idempotent, duplicate free, safe
  paths), that the gate approves exactly the candidate the latest review names, that the
  boundary re-selects the newest check records, and that accepted histories only grow.
\<close>

section \<open>Types\<close>

datatype review_decision = Decision_approved | Decision_changes_required | Decision_blocked

definition IMPLEMENTATION_REVIEW_DECISIONS :: "review_decision list" where
  "IMPLEMENTATION_REVIEW_DECISIONS = [Decision_approved, Decision_changes_required, Decision_blocked]"

fun decision_str :: "review_decision \<Rightarrow> string" where
  "decision_str Decision_approved = ''approved''"
| "decision_str Decision_changes_required = ''changes_required''"
| "decision_str Decision_blocked = ''blocked''"

definition MAX_IMPLEMENTATION_REVIEW_HISTORY :: nat where
  "MAX_IMPLEMENTATION_REVIEW_HISTORY = 256"

datatype finding_severity = Sev_critical | Sev_high | Sev_medium | Sev_low | Sev_info

definition IMPLEMENTATION_REVIEW_FINDING_SEVERITIES :: "finding_severity list" where
  "IMPLEMENTATION_REVIEW_FINDING_SEVERITIES = [Sev_critical, Sev_high, Sev_medium, Sev_low, Sev_info]"

record review_finding =
  rf_severity :: finding_severity
  rf_category :: string
  rf_summary :: string
  rf_path :: "string option"
  rf_symbol :: "string option"

record evidence_identity =
  ei_evidenceId :: string
  ei_digest :: string

datatype review_derivation = Derivation_content_equivalent_commit

record review_record =
  rv_reviewId :: string
  rv_workId :: string
  rv_reviewerPrincipalId :: string
  rv_reviewerControllerSessionId :: "string option"
  rv_reviewerControllerRoundId :: "string option"
  rv_decision :: review_decision
  rv_rationale :: string
  rv_findings :: "review_finding list"
  rv_sourceRevision :: string
  rv_workspaceFingerprint :: string
  rv_verificationWorkspaceFingerprint :: string
  rv_changedPaths :: "string list"
  rv_changedPathDigest :: string
  rv_acceptanceCriteriaSummary :: string
  rv_verificationEvidence :: "evidence_identity list"
  rv_architectureEvidence :: "evidence_identity list"
  rv_recordedAt :: string
  rv_derivedFromReviewId :: "string option"
  rv_derivation :: "review_derivation option"

record verification_receipt =
  vr_receiptId :: string
  vr_resultDigest :: string
  vr_repoId :: string
  vr_workId :: "string option"
  vr_checkId :: string
  vr_status :: string
  vr_runtimeStatus :: string
  vr_ok :: bool
  vr_timedOut :: bool
  vr_cancelled :: bool

record review_verification_record =
  rvr_checkId :: string
  rvr_outcome :: string
  rvr_recordedAt :: string
  rvr_sourceRevision :: "string option"
  rvr_workspaceFingerprint :: "string option"
  rvr_resultArtifactId :: "string option"
  rvr_verificationInputFingerprint :: "string option"
  rvr_receipt :: "verification_receipt option"

record review_candidate =
  ca_sourceRevision :: string
  ca_workspaceFingerprint :: string
  ca_verificationWorkspaceFingerprint :: string
  ca_changedPaths :: "string list"
  ca_verificationEvidence :: "evidence_identity list"
  ca_architectureEvidence :: "evidence_identity list option"

datatype review_gate_code =
    Gate_review_required | Gate_review_stale | Gate_review_changes_required | Gate_review_blocked

fun gate_code_str :: "review_gate_code \<Rightarrow> string" where
  "gate_code_str Gate_review_required = ''WORK_IMPLEMENTATION_REVIEW_REQUIRED''"
| "gate_code_str Gate_review_stale = ''WORK_IMPLEMENTATION_REVIEW_STALE''"
| "gate_code_str Gate_review_changes_required = ''WORK_IMPLEMENTATION_REVIEW_CHANGES_REQUIRED''"
| "gate_code_str Gate_review_blocked = ''WORK_IMPLEMENTATION_REVIEW_BLOCKED''"

record review_gate_result =
  gr_required :: bool
  gr_approved :: bool
  gr_code :: "review_gate_code option"
  gr_reason :: string
  gr_review :: "review_record option"

section \<open>Canonical forms\<close>

definition reviewNormalizedStrings :: "js_host \<Rightarrow> string list \<Rightarrow> string list" where
  "reviewNormalizedStrings H values = sort_by (locale_compare H) (js_uniq (trim_all values))"

definition evidence_cmp :: "js_host \<Rightarrow> string \<times> string \<Rightarrow> string \<times> string \<Rightarrow> int" where
  "evidence_cmp H l r =
     cmp_then (locale_compare H (fst l) (fst r)) (locale_compare H (snd l) (snd r))"

text \<open>The loop over the values with the \<open>Map\<close> as its state, in insertion order.\<close>

definition evidence_step :: "evidence_identity \<Rightarrow> (string \<times> string) list \<Rightarrow> (string \<times> string) list res" where
  "evidence_step v byId =
     (let evidenceId = js_trim (ei_evidenceId v); digest = js_trim (ei_digest v) in
      if evidenceId = [] \<or> digest = [] then throw ''WORK_IMPLEMENTATION_REVIEW_EVIDENCE_IDENTITY_REQUIRED''
      else if truthy (map_of byId evidenceId) \<and> map_of byId evidenceId \<noteq> Some digest
        then throw (''WORK_IMPLEMENTATION_REVIEW_EVIDENCE_ID_CONFLICT: '' @ evidenceId)
      else Inr (AList.update evidenceId digest byId))"

definition normalizeImplementationReviewEvidence ::
    "js_host \<Rightarrow> evidence_identity list \<Rightarrow> evidence_identity list res" where
  "normalizeImplementationReviewEvidence H values =
     bindE (fold_res evidence_step values [])
       (\<lambda>byId. Inr (map (\<lambda>(i, d). \<lparr>ei_evidenceId = i, ei_digest = d\<rparr>) (sort_by (evidence_cmp H) byId)))"

definition sameEvidenceIdentity ::
    "js_host \<Rightarrow> evidence_identity list \<Rightarrow> evidence_identity list \<Rightarrow> bool res" where
  "sameEvidenceIdentity H left right =
     bindE (normalizeImplementationReviewEvidence H left) (\<lambda>a.
     bindE (normalizeImplementationReviewEvidence H right) (\<lambda>b.
       Inr (length a = length b \<and>
            list_all (\<lambda>(x, y). ei_evidenceId x = ei_evidenceId y \<and> ei_digest x = ei_digest y) (zip a b))))"

definition unsafe_review_path :: "string \<Rightarrow> bool" where
  "unsafe_review_path path \<longleftrightarrow>
     starts_with ''/'' path \<or> CHR 0x00 \<in> set path \<or>
     (\<exists>part\<in>set (js_split (CHR ''/'') path). part = [] \<or> part = ''.'' \<or> part = ''..'')"

definition review_path_forms :: "string list \<Rightarrow> string list" where
  "review_path_forms paths =
     filter (\<lambda>s. s \<noteq> []) (map (\<lambda>p. strip_dot_slash (slashes (js_trim p))) paths)"

definition normalizeImplementationReviewChangedPaths :: "js_host \<Rightarrow> string list \<Rightarrow> string list res" where
  "normalizeImplementationReviewChangedPaths H paths =
     (let normalized = review_path_forms paths in
      bindE (for_each (\<lambda>path. throw_if (unsafe_review_path path)
               (''WORK_IMPLEMENTATION_REVIEW_PATH_INVALID: '' @ path)) normalized)
        (\<lambda>_. Inr (reviewNormalizedStrings H normalized)))"

definition implementationReviewChangedPathDigest :: "js_host \<Rightarrow> string list \<Rightarrow> string res" where
  "implementationReviewChangedPathDigest H paths =
     bindE (normalizeImplementationReviewChangedPaths H paths)
       (\<lambda>ps. Inr (sha256_hex H (json_stringify (json_strings ps))))"

definition implementationReviewEvidenceDigest :: "js_host \<Rightarrow> evidence_identity list \<Rightarrow> string res" where
  "implementationReviewEvidenceDigest H values =
     bindE (normalizeImplementationReviewEvidence H values)
       (\<lambda>es. Inr (sha256_hex H (json_stringify (JArr (map (\<lambda>e.
          JObj [(''evidenceId'', JStr (ei_evidenceId e)), (''digest'', JStr (ei_digest e))]) es)))))"

definition sameStringSet :: "js_host \<Rightarrow> string list \<Rightarrow> string list \<Rightarrow> bool" where
  "sameStringSet H left right =
     (let a = reviewNormalizedStrings H left; b = reviewNormalizedStrings H right in
      length a = length b \<and> list_all (\<lambda>(x, y). x = y) (zip a b))"

section \<open>Authoritative check evidence\<close>

definition current_check_record ::
    "review_verification_record list \<Rightarrow> string \<Rightarrow> string \<Rightarrow> string \<Rightarrow> review_verification_record option" where
  "current_check_record records checkId sourceRevision workspaceFingerprint =
     find (\<lambda>r. rvr_checkId r = checkId \<and> rvr_sourceRevision r = Some sourceRevision
             \<and> rvr_workspaceFingerprint r = Some workspaceFingerprint) records"

definition authoritative_pass :: "string \<Rightarrow> string \<Rightarrow> string \<Rightarrow> review_verification_record option \<Rightarrow> bool" where
  "authoritative_pass repoId workId checkId current =
     (case current of
        None \<Rightarrow> False
      | Some r \<Rightarrow> rvr_outcome r = ''valid_pass'' \<and>
          (case rvr_receipt r of
             None \<Rightarrow> False
           | Some receipt \<Rightarrow>
               vr_repoId receipt = repoId \<and> vr_workId receipt = Some workId \<and> vr_checkId receipt = checkId \<and>
               vr_ok receipt \<and> \<not> vr_timedOut receipt \<and> \<not> vr_cancelled receipt \<and>
               vr_status receipt = ''passed'' \<and> vr_runtimeStatus receipt = ''succeeded''))"

text \<open>One required check: the evidence it contributes, or \<open>None\<close> when the check is missing.\<close>

definition check_evidence ::
    "string \<Rightarrow> string \<Rightarrow> review_verification_record list \<Rightarrow> string \<Rightarrow> string \<Rightarrow> string \<Rightarrow> evidence_identity option" where
  "check_evidence repoId workId records sourceRevision workspaceFingerprint checkId =
     (let current = current_check_record records checkId sourceRevision workspaceFingerprint;
          pass = authoritative_pass repoId workId checkId current;
          receipt = (case current of None \<Rightarrow> None | Some r \<Rightarrow> rvr_receipt r);
          evidenceId = (if pass then map_option vr_receiptId receipt else None);
          digest = (if pass then map_option vr_resultDigest receipt else None) in
      if \<not> truthy (opt_trim evidenceId) \<or> \<not> truthy (opt_trim digest) then None
      else Some \<lparr>ei_evidenceId = js_trim (the evidenceId), ei_digest = js_trim (the digest)\<rparr>)"

definition authoritativeImplementationReviewVerificationEvidence ::
    "js_host \<Rightarrow> string \<Rightarrow> string \<Rightarrow> string list \<Rightarrow> review_verification_record list \<Rightarrow> string \<Rightarrow> string
      \<Rightarrow> (evidence_identity list \<times> string list) res" where
  "authoritativeImplementationReviewVerificationEvidence H repoId workId requiredCheckIds records
       sourceRevision workspaceFingerprint =
     (let ids = reviewNormalizedStrings H requiredCheckIds;
          ev = check_evidence repoId workId records sourceRevision workspaceFingerprint;
          evidence = List.map_filter ev ids;
          missingCheckIds = filter (\<lambda>c. ev c = None) ids in
      bindE (normalizeImplementationReviewEvidence H evidence) (\<lambda>e. Inr (e, missingCheckIds)))"

section \<open>Record validation\<close>

fun latestImplementationReview :: "review_record list option \<Rightarrow> review_record option" where
  "latestImplementationReview None = None"
| "latestImplementationReview (Some reviews) = (if reviews = [] then None else Some (last reviews))"

definition workRequiresImplementationReview :: "js_host \<Rightarrow> string \<Rightarrow> string list \<Rightarrow> bool res" where
  "workRequiresImplementationReview H workKind changedPaths =
     (if workKind = ''read_only_review'' \<or> workKind = ''superseded'' then Inr False
      else if workKind = ''repository_change'' \<or> workKind = ''completed_no_change'' then Inr True
      else bindE (normalizeImplementationReviewChangedPaths H changedPaths) (\<lambda>ps. Inr (length ps > 0)))"

definition validate_finding :: "js_host \<Rightarrow> review_finding \<Rightarrow> unit res" where
  "validate_finding H f =
     bindE (throw_if (rf_severity f \<notin> set IMPLEMENTATION_REVIEW_FINDING_SEVERITIES
                      \<or> js_trim (rf_category f) = [] \<or> js_trim (rf_summary f) = [])
              ''WORK_IMPLEMENTATION_REVIEW_FINDING_INVALID'') (\<lambda>_.
     if truthy (rf_path f)
     then bindE (normalizeImplementationReviewChangedPaths H [the (rf_path f)]) (\<lambda>_. Inr ())
     else Inr ())"

definition validateImplementationReviewRecord :: "js_host \<Rightarrow> review_record \<Rightarrow> unit res" where
  "validateImplementationReviewRecord H review =
     bindE (throw_if (js_trim (rv_reviewId review) = [] \<or> js_trim (rv_workId review) = []
              \<or> js_trim (rv_reviewerPrincipalId review) = [] \<or> js_trim (rv_recordedAt review) = [])
        ''WORK_IMPLEMENTATION_REVIEW_IDENTITY_REQUIRED'') (\<lambda>_.
     bindE (throw_if (rv_decision review \<notin> set IMPLEMENTATION_REVIEW_DECISIONS)
        ''WORK_IMPLEMENTATION_REVIEW_DECISION_REQUIRED'') (\<lambda>_.
     bindE (throw_if (js_trim (rv_rationale review) = [] \<or> js_trim (rv_acceptanceCriteriaSummary review) = [])
        ''WORK_IMPLEMENTATION_REVIEW_RATIONALE_REQUIRED'') (\<lambda>_.
     bindE (throw_if (js_trim (rv_sourceRevision review) = [] \<or> js_trim (rv_workspaceFingerprint review) = []
              \<or> js_trim (rv_verificationWorkspaceFingerprint review) = [])
        ''WORK_IMPLEMENTATION_REVIEW_SOURCE_IDENTITY_REQUIRED'') (\<lambda>_.
     bindE (normalizeImplementationReviewChangedPaths H (rv_changedPaths review)) (\<lambda>changedPaths.
     bindE (throw_if (\<not> sameStringSet H (rv_changedPaths review) changedPaths
              \<or> length (rv_changedPaths review) \<noteq> length changedPaths)
        ''WORK_IMPLEMENTATION_REVIEW_CHANGED_PATHS_NOT_CANONICAL'') (\<lambda>_.
     bindE (implementationReviewChangedPathDigest H changedPaths) (\<lambda>digest.
     bindE (throw_if (rv_changedPathDigest review \<noteq> digest)
        ''WORK_IMPLEMENTATION_REVIEW_CHANGED_PATH_IDENTITY_MISMATCH'') (\<lambda>_.
     bindE (throw_if (date_parse H (rv_recordedAt review) = None)
        ''WORK_IMPLEMENTATION_REVIEW_RECORDED_AT_INVALID'') (\<lambda>_.
     bindE (normalizeImplementationReviewEvidence H (rv_verificationEvidence review)) (\<lambda>verificationEvidence.
     bindE (normalizeImplementationReviewEvidence H (rv_architectureEvidence review)) (\<lambda>architectureEvidence.
     bindE (sameEvidenceIdentity H (rv_verificationEvidence review) verificationEvidence) (\<lambda>sameV.
     bindE (sameEvidenceIdentity H (rv_architectureEvidence review) architectureEvidence) (\<lambda>sameA.
     bindE (throw_if (\<not> sameV \<or> length (rv_verificationEvidence review) \<noteq> length verificationEvidence
              \<or> \<not> sameA \<or> length (rv_architectureEvidence review) \<noteq> length architectureEvidence)
        ''WORK_IMPLEMENTATION_REVIEW_EVIDENCE_NOT_CANONICAL'') (\<lambda>_.
     bindE (for_each (validate_finding H) (rv_findings review)) (\<lambda>_.
     bindE (throw_if (rv_decision review = Decision_changes_required \<and> rv_findings review = [])
        ''WORK_IMPLEMENTATION_REVIEW_FINDINGS_REQUIRED'') (\<lambda>_.
     bindE (throw_if (rv_derivation review \<noteq> None \<and>
              (\<not> truthy (rv_derivedFromReviewId review) \<or> rv_decision review \<noteq> Decision_approved))
        ''WORK_IMPLEMENTATION_REVIEW_DERIVATION_INVALID'') (\<lambda>_.
     throw_if (truthy (rv_derivedFromReviewId review) \<and>
              rv_derivation review \<noteq> Some Derivation_content_equivalent_commit)
        ''WORK_IMPLEMENTATION_REVIEW_DERIVATION_INVALID'')))))))))))))))))"

section \<open>The delivery gate\<close>

definition stale_reasons :: "js_host \<Rightarrow> review_record \<Rightarrow> review_candidate \<Rightarrow> string list res" where
  "stale_reasons H review candidate =
     bindE (implementationReviewChangedPathDigest H (ca_changedPaths candidate)) (\<lambda>digest.
     bindE (sameEvidenceIdentity H (rv_verificationEvidence review) (ca_verificationEvidence candidate)) (\<lambda>sameV.
     bindE (sameEvidenceIdentity H (rv_architectureEvidence review)
              (coalesce (ca_architectureEvidence candidate) [])) (\<lambda>sameA.
     Inr ((if rv_sourceRevision review \<noteq> ca_sourceRevision candidate
             then [''source revision changed''] else [])
        @ (if rv_workspaceFingerprint review \<noteq> ca_workspaceFingerprint candidate
             then [''workspace content fingerprint changed''] else [])
        @ (if rv_verificationWorkspaceFingerprint review \<noteq> ca_verificationWorkspaceFingerprint candidate
             then [''verification workspace identity changed''] else [])
        @ (if rv_changedPathDigest review \<noteq> digest then [''changed-path identity changed''] else [])
        @ (if \<not> sameV then [''verification evidence identity changed''] else [])
        @ (if \<not> sameA then [''architecture evidence identity changed''] else [])))))"

definition evaluateImplementationReviewGate ::
    "js_host \<Rightarrow> string \<Rightarrow> review_record list option \<Rightarrow> review_candidate \<Rightarrow> review_gate_result res" where
  "evaluateImplementationReviewGate H workKind reviews candidate =
     bindE (workRequiresImplementationReview H workKind (ca_changedPaths candidate)) (\<lambda>required.
     if \<not> required then Inr \<lparr>gr_required = False, gr_approved = True, gr_code = None,
       gr_reason = ''Implementation review is not required for this source-free Work candidate.'',
       gr_review = None\<rparr>
     else (case latestImplementationReview reviews of
       None \<Rightarrow> Inr \<lparr>gr_required = True, gr_approved = False, gr_code = Some Gate_review_required,
         gr_reason = ''No durable implementation review exists for this Work delivery candidate.'',
         gr_review = None\<rparr>
     | Some review \<Rightarrow>
         bindE (stale_reasons H review candidate) (\<lambda>staleReasons.
         if staleReasons \<noteq> [] then Inr \<lparr>gr_required = True, gr_approved = False, gr_code = Some Gate_review_stale,
           gr_reason = ''Implementation review '' @ rv_reviewId review @ '' is stale: ''
                       @ js_join ''; '' staleReasons @ ''.'',
           gr_review = Some review\<rparr>
         else if rv_decision review = Decision_changes_required then
           Inr \<lparr>gr_required = True, gr_approved = False, gr_code = Some Gate_review_changes_required,
             gr_reason = ''Implementation review '' @ rv_reviewId review @ '' requires changes before delivery.'',
             gr_review = Some review\<rparr>
         else if rv_decision review = Decision_blocked then
           Inr \<lparr>gr_required = True, gr_approved = False, gr_code = Some Gate_review_blocked,
             gr_reason = ''Implementation review '' @ rv_reviewId review
                         @ '' is blocked and cannot authorize delivery.'',
             gr_review = Some review\<rparr>
         else Inr \<lparr>gr_required = True, gr_approved = True, gr_code = None,
           gr_reason = ''Implementation review '' @ rv_reviewId review
                       @ '' approves the exact current delivery candidate.'',
           gr_review = Some review\<rparr>)))"

text \<open>\<open>`${gate.code ?? 'WORK_IMPLEMENTATION_REVIEW_REQUIRED'}: ${gate.reason}`\<close>.\<close>

definition gate_refusal :: "review_gate_result \<Rightarrow> string" where
  "gate_refusal gate =
     coalesce (map_option gate_code_str (gr_code gate)) ''WORK_IMPLEMENTATION_REVIEW_REQUIRED''
     @ '': '' @ gr_reason gate"

definition assertImplementationReviewPreDeliveryBoundary ::
    "js_host \<Rightarrow> string \<Rightarrow> string \<Rightarrow> string \<Rightarrow> review_record list option \<Rightarrow> review_candidate \<Rightarrow> string list
      \<Rightarrow> review_verification_record list \<Rightarrow> review_record option res" where
  "assertImplementationReviewPreDeliveryBoundary H repoId workId workKind reviews candidate
       requiredCheckIds verificationRecords =
     bindE (authoritativeImplementationReviewVerificationEvidence H repoId workId requiredCheckIds
              verificationRecords (ca_sourceRevision candidate)
              (ca_verificationWorkspaceFingerprint candidate)) (\<lambda>(evidence, missingCheckIds).
     bindE (if missingCheckIds \<noteq> [] then Inr True
            else bindE (sameEvidenceIdentity H evidence (ca_verificationEvidence candidate)) (\<lambda>b. Inr (\<not> b))) (\<lambda>bad.
     bindE (throw_if bad (''WORK_IMPLEMENTATION_REVIEW_VERIFICATION_REQUIRED: '' @ js_join '', '' missingCheckIds)) (\<lambda>_.
     bindE (evaluateImplementationReviewGate H workKind reviews candidate) (\<lambda>gate.
     bindE (throw_if (\<not> gr_approved gate) (gate_refusal gate)) (\<lambda>_.
     bindE (throw_if (case gr_review gate of None \<Rightarrow> False | Some r \<Rightarrow> rv_workId r \<noteq> workId)
              ''WORK_IMPLEMENTATION_REVIEW_WORK_MISMATCH'') (\<lambda>_.
     Inr (gr_review gate)))))))"

section \<open>The append-only history\<close>

definition finding_json :: "review_finding \<Rightarrow> json" where
  "finding_json f = JObj ([
      (''severity'', JStr (case rf_severity f of Sev_critical \<Rightarrow> ''critical'' | Sev_high \<Rightarrow> ''high''
         | Sev_medium \<Rightarrow> ''medium'' | Sev_low \<Rightarrow> ''low'' | Sev_info \<Rightarrow> ''info'')),
      (''category'', JStr (rf_category f)), (''summary'', JStr (rf_summary f))]
      @ json_opt ''path'' JStr (rf_path f) @ json_opt ''symbol'' JStr (rf_symbol f))"

definition evidence_json :: "evidence_identity \<Rightarrow> json" where
  "evidence_json e = JObj [(''evidenceId'', JStr (ei_evidenceId e)), (''digest'', JStr (ei_digest e))]"

text \<open>The value \<open>JSON.stringify(record)\<close> renders: the properties in their declared order.\<close>

definition review_json :: "review_record \<Rightarrow> json" where
  "review_json r = JObj ([(''schemaVersion'', JNum 1),
      (''reviewId'', JStr (rv_reviewId r)), (''workId'', JStr (rv_workId r)),
      (''reviewerPrincipalId'', JStr (rv_reviewerPrincipalId r))]
      @ json_opt ''reviewerControllerSessionId'' JStr (rv_reviewerControllerSessionId r)
      @ json_opt ''reviewerControllerRoundId'' JStr (rv_reviewerControllerRoundId r)
      @ [(''decision'', JStr (decision_str (rv_decision r))), (''rationale'', JStr (rv_rationale r)),
      (''findings'', JArr (map finding_json (rv_findings r))),
      (''sourceRevision'', JStr (rv_sourceRevision r)),
      (''workspaceFingerprint'', JStr (rv_workspaceFingerprint r)),
      (''verificationWorkspaceFingerprint'', JStr (rv_verificationWorkspaceFingerprint r)),
      (''changedPaths'', json_strings (rv_changedPaths r)),
      (''changedPathDigest'', JStr (rv_changedPathDigest r)),
      (''acceptanceCriteriaSummary'', JStr (rv_acceptanceCriteriaSummary r)),
      (''verificationEvidence'', JArr (map evidence_json (rv_verificationEvidence r))),
      (''architectureEvidence'', JArr (map evidence_json (rv_architectureEvidence r))),
      (''recordedAt'', JStr (rv_recordedAt r))]
      @ json_opt ''derivedFromReviewId'' JStr (rv_derivedFromReviewId r)
      @ json_opt ''derivation'' (\<lambda>d. JStr ''content_equivalent_commit'') (rv_derivation r))"

text \<open>The loop over \<open>after\<close>: what remains of \<open>before\<close> at the index, and the identifiers seen.\<close>

fun history_loop :: "js_host \<Rightarrow> string set \<Rightarrow> review_record list \<Rightarrow> review_record list \<Rightarrow> unit res" where
  "history_loop H ids before [] = Inr ()"
| "history_loop H ids before (record # after) =
     bindE (validateImplementationReviewRecord H record) (\<lambda>_.
     bindE (throw_if (rv_reviewId record \<in> ids) ''WORK_IMPLEMENTATION_REVIEW_ID_CONFLICT'') (\<lambda>_.
     bindE (throw_if (case before of [] \<Rightarrow> False
                | b # _ \<Rightarrow> json_stringify (review_json b) \<noteq> json_stringify (review_json record))
              ''WORK_IMPLEMENTATION_REVIEW_HISTORY_IMMUTABLE'') (\<lambda>_.
     history_loop H (insert (rv_reviewId record) ids) (drop 1 before) after)))"

definition assertImplementationReviewHistoryAppendOnly ::
    "js_host \<Rightarrow> review_record list option \<Rightarrow> review_record list option \<Rightarrow> unit res" where
  "assertImplementationReviewHistoryAppendOnly H current next =
     (let before = coalesce current []; after = coalesce next [] in
      bindE (throw_if (length after < length before) ''WORK_IMPLEMENTATION_REVIEW_HISTORY_IMMUTABLE'') (\<lambda>_.
      bindE (throw_if (length after > MAX_IMPLEMENTATION_REVIEW_HISTORY)
               ''WORK_IMPLEMENTATION_REVIEW_HISTORY_LIMIT'') (\<lambda>_.
      history_loop H {} before after)))"

fun implementationReviewDecisionTarget :: "review_decision \<Rightarrow> work_phase \<times> work_contract_status" where
  "implementationReviewDecisionTarget decision =
     (if decision = Decision_approved then (Phase_delivery, Status_running)
      else if decision = Decision_changes_required then (Phase_implementation, Status_running)
      else (Phase_review, Status_blocked))"

section \<open>Approval across a content-equivalent commit\<close>

record verification_authority =
  va_repoId :: string
  va_workId :: string
  va_requiredCheckIds :: "string list"
  va_records :: "review_verification_record list"

record transfer_proof =
  tp_preCommitCandidate :: review_candidate
  tp_postCommitCandidate :: review_candidate
  tp_preCommitDirtyPaths :: "string list"
  tp_committedPaths :: "string list"
  tp_preCommitContentDigest :: string
  tp_postCommitContentDigest :: string
  tp_postCommitVerificationAuthority :: verification_authority

text \<open>The part of \<open>deriveImplementationReviewAcrossCommit\<close> before the path sets are compared.\<close>

definition transfer_authority :: "js_host \<Rightarrow> string \<Rightarrow> review_record list \<Rightarrow> transfer_proof \<Rightarrow> review_record res" where
  "transfer_authority H workId reviews proof =
     bindE (evaluateImplementationReviewGate H ''repository_change'' (Some reviews)
              (tp_preCommitCandidate proof)) (\<lambda>gate.
     case gr_review gate of
       None \<Rightarrow> throw (gate_refusal gate)
     | Some review \<Rightarrow>
     bindE (throw_if (\<not> gr_approved gate) (gate_refusal gate)) (\<lambda>_.
     bindE (throw_if (rv_workId review \<noteq> workId) ''WORK_IMPLEMENTATION_REVIEW_TRANSFER_WORK_MISMATCH'') (\<lambda>_.
     let authority = tp_postCommitVerificationAuthority proof; post = tp_postCommitCandidate proof in
     bindE (authoritativeImplementationReviewVerificationEvidence H (va_repoId authority) (va_workId authority)
              (va_requiredCheckIds authority) (va_records authority) (ca_sourceRevision post)
              (ca_verificationWorkspaceFingerprint post)) (\<lambda>(evidence, missingCheckIds).
     bindE (if missingCheckIds \<noteq> [] then Inr True
            else bindE (sameEvidenceIdentity H evidence (ca_verificationEvidence post)) (\<lambda>b. Inr (\<not> b))) (\<lambda>bad.
     bindE (throw_if bad ''WORK_IMPLEMENTATION_REVIEW_TRANSFER_VERIFICATION_REQUIRED'') (\<lambda>_.
     bindE (throw_if (va_workId authority \<noteq> workId)
              ''WORK_IMPLEMENTATION_REVIEW_TRANSFER_WORK_MISMATCH'') (\<lambda>_.
     bindE (throw_if (js_trim (tp_preCommitContentDigest proof) = [] \<or> js_trim (tp_postCommitContentDigest proof) = [])
              ''WORK_IMPLEMENTATION_REVIEW_TRANSFER_CONTENT_IDENTITY_REQUIRED'') (\<lambda>_.
     bindE (throw_if (tp_preCommitContentDigest proof \<noteq> ca_workspaceFingerprint (tp_preCommitCandidate proof)
                \<or> tp_postCommitContentDigest proof \<noteq> ca_workspaceFingerprint post)
              ''WORK_IMPLEMENTATION_REVIEW_TRANSFER_CONTENT_IDENTITY_MISMATCH'') (\<lambda>_.
     bindE (throw_if (tp_preCommitContentDigest proof \<noteq> tp_postCommitContentDigest proof)
              ''WORK_IMPLEMENTATION_REVIEW_TRANSFER_CONTENT_CHANGED'') (\<lambda>_. Inr review))))))))))"

text \<open>The comparison of the reviewed, post-commit, dirty and committed path sets.\<close>

definition transfer_paths :: "js_host \<Rightarrow> review_record \<Rightarrow> transfer_proof \<Rightarrow> string list res" where
  "transfer_paths H review proof =
     bindE (normalizeImplementationReviewChangedPaths H (rv_changedPaths review)) (\<lambda>reviewedPaths.
     bindE (normalizeImplementationReviewChangedPaths H (ca_changedPaths (tp_postCommitCandidate proof))) (\<lambda>postPaths.
     bindE (normalizeImplementationReviewChangedPaths H (tp_preCommitDirtyPaths proof)) (\<lambda>dirtyPaths.
     bindE (normalizeImplementationReviewChangedPaths H (tp_committedPaths proof)) (\<lambda>committedPaths.
     bindE (throw_if (\<not> sameStringSet H reviewedPaths postPaths)
              ''WORK_IMPLEMENTATION_REVIEW_TRANSFER_CHANGED_PATHS_MISMATCH'') (\<lambda>_.
     bindE (sameEvidenceIdentity H (rv_architectureEvidence review)
              (coalesce (ca_architectureEvidence (tp_postCommitCandidate proof)) [])) (\<lambda>sameA.
     bindE (throw_if (\<not> sameA) ''WORK_IMPLEMENTATION_REVIEW_TRANSFER_ARCHITECTURE_EVIDENCE_CHANGED'') (\<lambda>_.
     let dirtyOutsideReview = filter (\<lambda>path. path \<notin> set reviewedPaths) dirtyPaths in
     bindE (throw_if (dirtyOutsideReview \<noteq> [])
              (''WORK_IMPLEMENTATION_REVIEW_TRANSFER_UNREVIEWED_DIRTY_PATH: '' @ js_join '', '' dirtyOutsideReview)) (\<lambda>_.
     bindE (throw_if (\<not> sameStringSet H dirtyPaths reviewedPaths \<or> \<not> sameStringSet H committedPaths reviewedPaths)
              ''WORK_IMPLEMENTATION_REVIEW_TRANSFER_COMMIT_SCOPE_MISMATCH'') (\<lambda>_. Inr postPaths)))))))))"

definition deriveImplementationReviewAcrossCommit ::
    "js_host \<Rightarrow> string \<Rightarrow> review_record list \<Rightarrow> transfer_proof \<Rightarrow> string \<Rightarrow> string \<Rightarrow> review_record res" where
  "deriveImplementationReviewAcrossCommit H workId reviews proof derivedReviewId recordedAt =
     bindE (transfer_authority H workId reviews proof) (\<lambda>review.
     bindE (transfer_paths H review proof) (\<lambda>postPaths.
     let post = tp_postCommitCandidate proof in
     bindE (implementationReviewChangedPathDigest H postPaths) (\<lambda>digest.
     bindE (normalizeImplementationReviewEvidence H (ca_verificationEvidence post)) (\<lambda>verificationEvidence.
     bindE (normalizeImplementationReviewEvidence H (coalesce (ca_architectureEvidence post) [])) (\<lambda>architectureEvidence.
     let derived = review\<lparr>
         rv_reviewId := derivedReviewId,
         rv_sourceRevision := ca_sourceRevision post,
         rv_workspaceFingerprint := ca_workspaceFingerprint post,
         rv_verificationWorkspaceFingerprint := ca_verificationWorkspaceFingerprint post,
         rv_changedPaths := postPaths,
         rv_changedPathDigest := digest,
         rv_verificationEvidence := verificationEvidence,
         rv_architectureEvidence := architectureEvidence,
         rv_recordedAt := recordedAt,
         rv_derivedFromReviewId := Some (rv_reviewId review),
         rv_derivation := Some Derivation_content_equivalent_commit\<rparr> in
     bindE (validateImplementationReviewRecord H derived) (\<lambda>_. Inr derived))))))"

end
