(* ===== verification/Contracts.thy ===== *)
theory Contracts
  imports Prelude "HOL-Library.Sublist"
begin

text \<open>
  The interfaces the components share, as locales: what a client relies on, with the facts
  that follow from it.  Each is interpreted on the model's own definitions in the theory of
  the component that provides it.
\<close>

section \<open>Append-only logs\<close>

text \<open>
  A store accepts the replacement of a list by another; it promises that the new list
  extends the old one, that its entries have distinct identifiers and that it is bounded.
\<close>

locale append_log =
  fixes accepts :: "'a list \<Rightarrow> 'a list \<Rightarrow> bool"
    and ident :: "'a \<Rightarrow> 'b"
    and capacity :: nat
  assumes accepts_prefix: "accepts xs ys \<Longrightarrow> prefix xs ys"
    and accepts_distinct: "accepts xs ys \<Longrightarrow> distinct (map ident ys)"
    and accepts_capacity: "accepts xs ys \<Longrightarrow> length ys \<le> capacity"
begin

lemma accepted_prefix: "accepts\<^sup>*\<^sup>* xs ys \<Longrightarrow> prefix xs ys"
  by (induction rule: rtranclp_induct) (auto dest: accepts_prefix intro: prefix_order.trans)

lemma accepted_bounded: "accepts\<^sup>*\<^sup>* xs ys \<Longrightarrow> length xs \<le> capacity \<Longrightarrow> length ys \<le> capacity"
  by (induction rule: rtranclp_induct) (auto dest: accepts_capacity)

lemma accepted_position: "accepts\<^sup>*\<^sup>* xs ys \<Longrightarrow> i < length xs \<Longrightarrow> ys ! i = xs ! i"
  using accepted_prefix by (metis nth_append prefixE)

text \<open>An identifier names the same entry in every later state of the log.\<close>

lemma accepted_entry:
  assumes "accepts\<^sup>*\<^sup>* xs ys" and "distinct (map ident xs)"
    and "x \<in> set xs" and "y \<in> set ys" and "ident x = ident y"
  shows "x = y"
proof -
  have "distinct (map ident ys)"
    using assms(1,2) by (induction rule: rtranclp_induct) (auto dest: accepts_distinct)
  moreover have "x \<in> set ys" using accepted_prefix [OF assms(1)] assms(3) by (auto simp: prefix_def)
  ultimately show ?thesis using assms(4,5) by (auto simp: distinct_map dest: inj_onD)
qed

end

section \<open>Transition tables\<close>

text \<open>
  A table lists, for every state, the states a record may move to next; staying is always
  allowed.
\<close>

locale transition_table =
  fixes table :: "'s \<Rightarrow> 's list"
  assumes table_refl: "s \<in> set (table s)"
begin

lemma absorbing:
  assumes "(\<lambda>a b. b \<in> set (table a))\<^sup>*\<^sup>* s t" and "table s = [s]"
  shows "t = s"
  using assms by (induction rule: rtranclp_induct) auto

lemma never_reentered:
  assumes "(\<lambda>a b. b \<in> set (table a))\<^sup>*\<^sup>* s t" and "\<And>a. t \<in> set (table a) \<Longrightarrow> a = t"
  shows "s = t"
  using assms by (induction rule: converse_rtranclp_induct) auto

lemma stuttering: "(\<lambda>a b. b \<in> set (table a))\<^sup>*\<^sup>* s t \<longleftrightarrow> (\<lambda>a b. b \<in> set (table a))\<^sup>+\<^sup>+ s t"
proof
  assume "(\<lambda>a b. b \<in> set (table a))\<^sup>*\<^sup>* s t"
  then show "(\<lambda>a b. b \<in> set (table a))\<^sup>+\<^sup>+ s t"
    by (rule rtranclp_into_tranclp1) (rule table_refl)
qed (rule tranclp_into_rtranclp)

end

section \<open>Step relations with an invariant\<close>

text \<open>A relation between states and an invariant every step keeps.\<close>

locale invariant_steps =
  fixes step :: "'s \<Rightarrow> 's \<Rightarrow> bool" and inv :: "'s \<Rightarrow> bool"
  assumes inv_step: "inv s \<Longrightarrow> step s t \<Longrightarrow> inv t"
begin

lemma inv_reachable: "step\<^sup>*\<^sup>* s t \<Longrightarrow> inv s \<Longrightarrow> inv t"
  by (induction rule: rtranclp_induct) (auto intro: inv_step)

lemma stable_reachable:
  assumes "step\<^sup>*\<^sup>* s t" and "inv s" and "\<And>a b. inv a \<Longrightarrow> step a b \<Longrightarrow> f b = f a"
  shows "f t = f s"
  using assms(1,2)
proof (induction rule: rtranclp_induct)
  case (step a b)
  with assms(3) inv_reachable [OF step.hyps(1)] show ?case by simp
qed simp

end

section \<open>Step relations that reach their goal\<close>

text \<open>From a live state with work left some step leaves one unit less.\<close>

locale progress_steps =
  fixes step :: "'s \<Rightarrow> 's \<Rightarrow> bool" and live :: "'s \<Rightarrow> bool" and effort :: "'s \<Rightarrow> nat"
  assumes advance: "live s \<Longrightarrow> 0 < effort s \<Longrightarrow> \<exists>t. step s t \<and> live t \<and> Suc (effort t) = effort s"
begin

lemma completes: "live s \<Longrightarrow> \<exists>t. (step ^^ effort s) s t \<and> live t \<and> effort t = 0"
proof (induction "effort s" arbitrary: s)
  case 0
  then show ?case by (metis relpowp_0_I)
next
  case (Suc n)
  from Suc.hyps(2) have "0 < effort s" by simp
  with Suc.prems obtain u where u: "step s u" "live u" "Suc (effort u) = effort s" using advance by blast
  with Suc.hyps(2) have "n = effort u" by simp
  with Suc.hyps(1) u(2) obtain t where "(step ^^ effort u) u t" "live t" "effort t = 0" by blast
  with u(1,3) show ?case by (metis relpowp_Suc_I2)
qed

end

section \<open>Steps seen through a view\<close>

text \<open>Every step from a state with a view leads to one whose view has evolved from it.\<close>

locale viewed_steps =
  fixes step :: "'s \<Rightarrow> 's \<Rightarrow> bool" and view :: "'s \<Rightarrow> 'v \<Rightarrow> bool" and evolves :: "'v \<Rightarrow> 'v \<Rightarrow> bool"
  assumes step_view: "view s v \<Longrightarrow> step s t \<Longrightarrow> \<exists>w. view t w \<and> evolves v w"
    and evolves_refl: "evolves v v"
    and evolves_trans: "evolves u v \<Longrightarrow> evolves v w \<Longrightarrow> evolves u w"
begin

lemma reachable_view:
  assumes "step\<^sup>*\<^sup>* s t" and "view s v"
  shows "\<exists>w. view t w \<and> evolves v w"
  using assms
proof (induction rule: rtranclp_induct)
  case base
  then show ?case using evolves_refl by blast
next
  case (step t u)
  then obtain w where w: "view t w" "evolves v w" by blast
  from step_view [OF w(1) step.hyps(2)] obtain x where "view u x" "evolves w x" by blast
  with w(2) show ?case using evolves_trans by blast
qed

end

section \<open>Exclusive ownership\<close>

text \<open>Holders of conflicting entries are the same.\<close>

definition exclusive :: "('a \<Rightarrow> 'a \<Rightarrow> bool) \<Rightarrow> ('a \<Rightarrow> 'o) \<Rightarrow> 'a set \<Rightarrow> bool" where
  "exclusive conflicts owner X \<longleftrightarrow> (\<forall>x\<in>X. \<forall>y\<in>X. owner x \<noteq> owner y \<longrightarrow> \<not> conflicts x y)"

locale ownership =
  fixes conflicts :: "'a \<Rightarrow> 'a \<Rightarrow> bool" and owner :: "'a \<Rightarrow> 'o"
  assumes conflicts_sym: "conflicts x y \<Longrightarrow> conflicts y x"
begin

lemma exclusive_empty: "exclusive conflicts owner {}"
  by (simp add: exclusive_def)

lemma exclusive_subset: "exclusive conflicts owner Y \<Longrightarrow> X \<subseteq> Y \<Longrightarrow> exclusive conflicts owner X"
  by (auto simp: exclusive_def)

lemma exclusive_union:
  assumes "exclusive conflicts owner X" and "\<forall>y\<in>Y. owner y = o'"
    and "\<forall>y\<in>Y. \<forall>x\<in>X. owner x \<noteq> o' \<longrightarrow> \<not> conflicts y x"
  shows "exclusive conflicts owner (X \<union> Y)"
  using assms conflicts_sym unfolding exclusive_def by (metis Un_iff)

text \<open>Replacing entries by entries of the same owner that conflict with the same.\<close>

lemma exclusive_image:
  assumes "exclusive conflicts owner X"
    and "\<And>y. y \<in> Y \<Longrightarrow> \<exists>x\<in>X. owner x = owner y \<and> (\<forall>z. conflicts x z \<longleftrightarrow> conflicts y z)"
  shows "exclusive conflicts owner Y"
  unfolding exclusive_def
proof (intro ballI impI notI)
  fix a b assume "a \<in> Y" "b \<in> Y" "owner a \<noteq> owner b" "conflicts a b"
  with assms(2) obtain x y where x: "x \<in> X" "owner x = owner a" "\<forall>z. conflicts x z \<longleftrightarrow> conflicts a z"
    and y: "y \<in> X" "owner y = owner b" "\<forall>z. conflicts y z \<longleftrightarrow> conflicts b z" by metis
  have "conflicts x b" using x(3) \<open>conflicts a b\<close> by blast
  then have "conflicts y x" using conflicts_sym y(3) by blast
  then have "conflicts x y" by (rule conflicts_sym)
  with assms(1) x y \<open>owner a \<noteq> owner b\<close> show False by (auto simp: exclusive_def)
qed

end

end
