(* ===== verification/ReviewFacts.thy ===== *)
theory ReviewFacts
  imports ImplementationReview Contracts
begin

text \<open>
  Facts about \<open>ImplementationReview\<close>: what the normalisations return and when they throw, that
  they are idempotent, that a validated record holds canonical paths, what the gate and the
  boundary let through, which histories are accepted, and what a derived review names.
\<close>

section \<open>Normalised string lists\<close>

lemma set_reviewNormalizedStrings: "set (reviewNormalizedStrings H xs) = js_trim ` set xs - {[]}"
  by (simp add: reviewNormalizedStrings_def set_trim_all)

lemma distinct_reviewNormalizedStrings [simp]: "distinct (reviewNormalizedStrings H xs)"
  by (simp add: reviewNormalizedStrings_def)

lemma reviewNormalizedStrings_trimmed:
  "s \<in> set (reviewNormalizedStrings H xs) \<Longrightarrow> js_trimmed s \<and> s \<noteq> []"
  by (auto simp: set_reviewNormalizedStrings)

lemma reviewNormalizedStrings_fixed:
  "host_collates H \<Longrightarrow> reviewNormalizedStrings H (reviewNormalizedStrings H xs) = reviewNormalizedStrings H xs"
proof -
  assume h: "host_collates H"
  let ?n = "reviewNormalizedStrings H xs"
  have "trim_all ?n = ?n" using reviewNormalizedStrings_trimmed by (intro trim_all_id) blast
  then have "reviewNormalizedStrings H ?n = sort_by (locale_compare H) ?n"
    by (subst reviewNormalizedStrings_def) (simp only: js_uniq_id distinct_reviewNormalizedStrings)
  also have "\<dots> = ?n" using h by (simp add: reviewNormalizedStrings_def host_collates_def sort_by_idem)
  finally show ?thesis .
qed

lemma list_all_zip_eq: "length xs = length ys \<Longrightarrow> list_all (\<lambda>(x, y). x = y) (zip xs ys) \<longleftrightarrow> xs = ys"
  by (induction xs ys rule: list_induct2) auto

lemma sameStringSet_iff:
  "sameStringSet H xs ys \<longleftrightarrow> reviewNormalizedStrings H xs = reviewNormalizedStrings H ys"
  by (cases "length (reviewNormalizedStrings H xs) = length (reviewNormalizedStrings H ys)")
    (auto simp: sameStringSet_def Let_def list_all_zip_eq)

lemma sameStringSet_sets:
  "sameStringSet H xs ys \<Longrightarrow> js_trim ` set xs - {[]} = js_trim ` set ys - {[]}"
  by (metis sameStringSet_iff set_reviewNormalizedStrings)

section \<open>Evidence identities\<close>

definition trimmed_identity :: "evidence_identity \<Rightarrow> string \<times> string" where
  "trimmed_identity v = (js_trim (ei_evidenceId v), js_trim (ei_digest v))"

definition blank_identity :: "evidence_identity \<Rightarrow> bool" where
  "blank_identity v \<longleftrightarrow> fst (trimmed_identity v) = [] \<or> snd (trimmed_identity v) = []"

definition evidence_pair :: "evidence_identity \<Rightarrow> string \<times> string" where
  "evidence_pair e = (ei_evidenceId e, ei_digest e)"

definition id_map :: "(string \<times> string) list \<Rightarrow> bool" where
  "id_map m \<longleftrightarrow> distinct (map fst m) \<and> (\<forall>p\<in>set m. snd p \<noteq> [])"

lemma set_update_same:
  "distinct (map fst m) \<Longrightarrow> map_of m k = None \<or> map_of m k = Some v \<Longrightarrow>
     set (AList.update k v m) = insert (k, v) (set m)"
proof (induction m)
  case (Cons p m)
  show ?case
  proof (cases "fst p = k")
    case True
    with Cons.prems have "p = (k, v)" by (cases p) auto
    then show ?thesis by simp
  next
    case False
    with Cons show ?thesis by (cases p) auto
  qed
qed simp

lemma id_map_mem: "id_map m \<Longrightarrow> (k, v) \<in> set m \<longleftrightarrow> map_of m k = Some v"
  by (simp add: id_map_def)

lemma single_valued_insert:
  assumes "id_map m"
  shows "single_valued (insert (i, d) (set m)) \<longleftrightarrow> map_of m i = None \<or> map_of m i = Some d"
proof -
  have "single_valued (insert (i, d) (set m)) \<longleftrightarrow> (\<forall>x. map_of m i = Some x \<longrightarrow> x = d)"
    unfolding single_valued_def using assms by (auto simp: id_map_mem)
  then show ?thesis by (cases "map_of m i") auto
qed

lemma evidence_step_Inr:
  assumes "id_map m"
  shows "evidence_step v m = Inr m' \<longleftrightarrow> \<not> blank_identity v \<and>
     single_valued (insert (trimmed_identity v) (set m)) \<and>
     m' = AList.update (fst (trimmed_identity v)) (snd (trimmed_identity v)) m"
proof -
  have tr: "truthy (map_of m i) \<longleftrightarrow> map_of m i \<noteq> None" for i
    using assms by (cases "map_of m i") (auto simp: id_map_def dest: map_of_SomeD)
  show ?thesis
    by (auto simp: evidence_step_def trimmed_identity_def blank_identity_def Let_def single_valued_insert [OF assms] tr)
qed

lemma id_map_update:
  assumes "id_map m" and "v \<noteq> []"
  shows "id_map (AList.update k v m)"
proof -
  have "set (AList.update k v m) \<subseteq> insert (k, v) (set m)"
    by (induction m) auto
  with assms show ?thesis unfolding id_map_def
    by (metis (no_types, lifting) distinct_update insert_iff snd_conv subsetD)
qed

lemma evidence_fold_Inr:
  assumes "id_map m"
  shows "fold_res evidence_step vs m = Inr m' \<Longrightarrow>
    id_map m' \<and> set m' = set m \<union> trimmed_identity ` set vs \<and> (\<forall>v\<in>set vs. \<not> blank_identity v)"
  using assms
proof (induction vs arbitrary: m)
  case (Cons v vs)
  from Cons.prems(1) obtain m1 where m1: "evidence_step v m = Inr m1" "fold_res evidence_step vs m1 = Inr m'"
    by (auto simp: bindE_eq_Inr)
  from m1(1) evidence_step_Inr [OF Cons.prems(2)] have v: "\<not> blank_identity v"
    "single_valued (insert (trimmed_identity v) (set m))"
    "m1 = AList.update (fst (trimmed_identity v)) (snd (trimmed_identity v)) m" by auto
  have "id_map m1" using v(1,3) id_map_update [OF Cons.prems(2)] by (simp add: blank_identity_def)
  moreover have "set m1 = insert (trimmed_identity v) (set m)"
  proof -
    have "map_of m (fst (trimmed_identity v)) = None
        \<or> map_of m (fst (trimmed_identity v)) = Some (snd (trimmed_identity v))"
      using v(2) single_valued_insert [OF Cons.prems(2)] by (metis prod.collapse)
    with Cons.prems(2) have "set (AList.update (fst (trimmed_identity v)) (snd (trimmed_identity v)) m)
        = insert (fst (trimmed_identity v), snd (trimmed_identity v)) (set m)"
      by (intro set_update_same) (simp_all add: id_map_def)
    then show ?thesis by (simp add: v(3))
  qed
  ultimately show ?case using Cons.IH [OF m1(2)] v(1) by auto
qed simp

lemma evidence_fold_total:
  assumes "id_map m" and "\<forall>v\<in>set vs. \<not> blank_identity v"
    and "single_valued (set m \<union> trimmed_identity ` set vs)"
  shows "\<exists>m'. fold_res evidence_step vs m = Inr m'"
  using assms
proof (induction vs arbitrary: m)
  case (Cons v vs)
  let ?m1 = "AList.update (fst (trimmed_identity v)) (snd (trimmed_identity v)) m"
  have sv: "single_valued (insert (trimmed_identity v) (set m))"
    by (rule single_valued_subset [OF _ Cons.prems(3)]) auto
  have s: "evidence_step v m = Inr ?m1" using evidence_step_Inr [OF Cons.prems(1)] Cons.prems(2) sv by simp
  have f: "fold_res evidence_step [v] m = Inr ?m1" by (simp add: s)
  from evidence_fold_Inr [OF Cons.prems(1) this]
  have "id_map ?m1" "set ?m1 \<union> trimmed_identity ` set vs = set m \<union> trimmed_identity ` set (v # vs)" by auto
  with Cons.IH [of ?m1] Cons.prems(2,3) s show ?case by simp
qed simp

lemma id_map_Nil [simp]: "id_map []"
  by (simp add: id_map_def)

lemma evidence_pair_mk [simp]: "evidence_pair \<lparr>ei_evidenceId = i, ei_digest = d\<rparr> = (i, d)"
  by (simp add: evidence_pair_def)

text \<open>When the normalisation returns, and what it returns.\<close>

lemma normalize_evidence_total:
  "(\<exists>es. normalizeImplementationReviewEvidence H vs = Inr es) \<longleftrightarrow>
     (\<forall>v\<in>set vs. \<not> blank_identity v) \<and> single_valued (trimmed_identity ` set vs)"
proof
  assume "\<exists>es. normalizeImplementationReviewEvidence H vs = Inr es"
  then obtain m where "fold_res evidence_step vs [] = Inr m"
    by (auto simp: normalizeImplementationReviewEvidence_def bindE_eq_Inr)
  from evidence_fold_Inr [OF id_map_Nil this]
  have m: "id_map m" "set m = trimmed_identity ` set vs" "\<forall>v\<in>set vs. \<not> blank_identity v" by auto
  have "single_valued (set m)" using m(1)
    by (auto simp: id_map_def single_valued_def) (metis eq_key_imp_eq_value)
  with m show "(\<forall>v\<in>set vs. \<not> blank_identity v) \<and> single_valued (trimmed_identity ` set vs)" by simp
next
  assume "(\<forall>v\<in>set vs. \<not> blank_identity v) \<and> single_valued (trimmed_identity ` set vs)"
  then obtain m where "fold_res evidence_step vs [] = Inr m" using evidence_fold_total [OF id_map_Nil] by auto
  then show "\<exists>es. normalizeImplementationReviewEvidence H vs = Inr es"
    by (simp add: normalizeImplementationReviewEvidence_def)
qed

lemma normalize_evidence_Inr:
  assumes "normalizeImplementationReviewEvidence H vs = Inr es"
  shows "evidence_pair ` set es = trimmed_identity ` set vs" and "distinct (map ei_evidenceId es)"
    and "\<exists>m. map evidence_pair es = sort_by (evidence_cmp H) m" and "\<forall>v\<in>set vs. \<not> blank_identity v"
proof -
  from assms obtain m where m: "fold_res evidence_step vs [] = Inr m"
    "es = map (\<lambda>(i, d). \<lparr>ei_evidenceId = i, ei_digest = d\<rparr>) (sort_by (evidence_cmp H) m)"
    by (auto simp: normalizeImplementationReviewEvidence_def bindE_eq_Inr)
  from evidence_fold_Inr [OF id_map_Nil m(1)]
  have i: "id_map m" "set m = trimmed_identity ` set vs" "\<forall>v\<in>set vs. \<not> blank_identity v" by auto
  have p: "map evidence_pair es = sort_by (evidence_cmp H) m"
    by (simp add: m(2) comp_def case_prod_unfold)
  have "evidence_pair ` set es = set (map evidence_pair es)" by simp
  then show "evidence_pair ` set es = trimmed_identity ` set vs" using p i(2) by simp
  have "map ei_evidenceId es = map fst (map evidence_pair es)" by (simp add: evidence_pair_def)
  moreover have "distinct (map fst (sort_by (evidence_cmp H) m))"
    using i(1) unfolding id_map_def
    by (metis distinct_map distinct_sort_by set_sort_by)
  ultimately show "distinct (map ei_evidenceId es)" using p by metis
  show "\<exists>m. map evidence_pair es = sort_by (evidence_cmp H) m" using p by blast
  show "\<forall>v\<in>set vs. \<not> blank_identity v" by (rule i(3))
qed

lemma consistent_evidence_cmp: "host_collates H \<Longrightarrow> consistent_cmp (evidence_cmp H)"
  unfolding host_collates_def evidence_cmp_def by (rule consistent_cmp_then)

lemma evidence_pair_inj: "map evidence_pair xs = map evidence_pair ys \<Longrightarrow> xs = ys"
  by (rule map_injective [where f = evidence_pair]) (auto simp: inj_def evidence_pair_def)

lemma trimmed_pair_fixed:
  assumes "normalizeImplementationReviewEvidence H vs = Inr es" and "e \<in> set es"
  shows "trimmed_identity e = evidence_pair e" and "\<not> blank_identity e"
proof -
  from assms normalize_evidence_Inr(1) [OF assms(1)] obtain v where v: "v \<in> set vs" "evidence_pair e = trimmed_identity v"
    by (metis imageE image_eqI)
  from v(2) show t: "trimmed_identity e = evidence_pair e"
    by (simp add: trimmed_identity_def evidence_pair_def)
  show "\<not> blank_identity e" using normalize_evidence_Inr(4) [OF assms(1)] v t
    by (simp add: blank_identity_def)
qed

lemma fold_evidence_distinct:
  assumes "distinct (map fst m @ map ei_evidenceId es)"
    and "\<forall>e\<in>set es. trimmed_identity e = evidence_pair e \<and> \<not> blank_identity e"
  shows "fold_res evidence_step es m = Inr (m @ map evidence_pair es)"
  using assms
proof (induction es arbitrary: m)
  case (Cons e es)
  have "ei_evidenceId e \<notin> set (map fst m)" using Cons.prems(1) by auto
  then have n: "map_of m (ei_evidenceId e) = None" by (simp add: map_of_eq_None_iff)
  have u: "AList.update k v m = m @ [(k, v)]" if "k \<notin> fst ` set m" for k v
    using that by (induction m) auto
  have "evidence_step e m = Inr (m @ [evidence_pair e])"
    using Cons.prems n u [of "ei_evidenceId e"]
    by (auto simp: evidence_step_def trimmed_identity_def evidence_pair_def blank_identity_def Let_def)
  moreover have "fold_res evidence_step es (m @ [evidence_pair e]) = Inr ((m @ [evidence_pair e]) @ map evidence_pair es)"
    using Cons.prems by (intro Cons.IH) (auto simp: evidence_pair_def)
  ultimately show ?case by simp
qed simp

lemma normalize_evidence_fixed:
  assumes "host_collates H" and n: "normalizeImplementationReviewEvidence H vs = Inr es"
  shows "normalizeImplementationReviewEvidence H es = Inr es"
proof -
  have f: "fold_res evidence_step es [] = Inr ([] @ map evidence_pair es)"
    using normalize_evidence_Inr(2) [OF n] trimmed_pair_fixed [OF n] by (intro fold_evidence_distinct) auto
  obtain m where "map evidence_pair es = sort_by (evidence_cmp H) m" using normalize_evidence_Inr(3) [OF n] by blast
  then have "sort_by (evidence_cmp H) (map evidence_pair es) = map evidence_pair es"
    using consistent_evidence_cmp [OF assms(1)] by (simp add: sort_by_idem)
  moreover have "map (\<lambda>(i, d). \<lparr>ei_evidenceId = i, ei_digest = d\<rparr>) (map evidence_pair es) = es"
    by (induction es) (simp_all add: evidence_pair_def)
  ultimately show ?thesis using f by (simp add: normalizeImplementationReviewEvidence_def)
qed

lemma sameEvidenceIdentity_Inr:
  "sameEvidenceIdentity H xs ys = Inr b \<longleftrightarrow>
     (\<exists>a c. normalizeImplementationReviewEvidence H xs = Inr a \<and>
            normalizeImplementationReviewEvidence H ys = Inr c \<and> b = (a = c))"
proof -
  have "(length a = length c \<and> list_all (\<lambda>(x, y). ei_evidenceId x = ei_evidenceId y \<and> ei_digest x = ei_digest y) (zip a c))
      \<longleftrightarrow> a = c" for a c :: "evidence_identity list"
  proof (cases "length a = length c")
    case True
    then show ?thesis by (induction a c rule: list_induct2) auto
  qed auto
  then show ?thesis unfolding sameEvidenceIdentity_def bindE_eq_Inr by auto
qed

section \<open>Changed paths\<close>

definition path_form :: "string \<Rightarrow> string" where
  "path_form p = strip_dot_slash (slashes (js_trim p))"

text \<open>A path no normalisation changes and no guard refuses.\<close>

definition canonical_path :: "string \<Rightarrow> bool" where
  "canonical_path p \<longleftrightarrow> p \<noteq> [] \<and> js_trim p = p \<and> path_form p = p \<and> \<not> unsafe_review_path p"

lemma dropWhile_same_length: "length (dropWhile P xs) = length xs \<Longrightarrow> dropWhile P xs = xs"
  by (metis append_eq_append_conv append_self_conv2 takeWhile_dropWhile_id)

lemma js_trim_same_length: "length (js_trim s) = length s \<Longrightarrow> js_trim s = s"
proof -
  assume e: "length (js_trim s) = length s"
  let ?t = "dropWhile js_space s"
  have a: "length (dropWhile js_space (rev ?t)) \<le> length ?t" "length ?t \<le> length s"
    using length_dropWhile_le [of js_space "rev ?t"] length_dropWhile_le [of js_space s] by auto
  have b: "length (dropWhile js_space (rev ?t)) = length s" using e by (simp add: js_trim_def)
  then have t: "?t = s" using a by (intro dropWhile_same_length) linarith
  have "dropWhile js_space (rev s) = rev s" using b t by (intro dropWhile_same_length) simp
  then show ?thesis by (simp add: js_trim_def t)
qed

lemma path_form_trim [simp]: "path_form (js_trim p) = path_form p"
  by (simp add: path_form_def)

lemma path_form_Nil [simp]: "path_form [] = []"
  by (simp add: path_form_def slashes_def strip_dot_slash_def)

lemma review_path_forms_eq: "review_path_forms ps = filter (\<lambda>s. s \<noteq> []) (map path_form ps)"
  by (simp add: review_path_forms_def path_form_def [abs_def])

lemma normalize_paths_Inr:
  "normalizeImplementationReviewChangedPaths H ps = Inr qs \<longleftrightarrow>
     (\<forall>p\<in>set (review_path_forms ps). \<not> unsafe_review_path p) \<and>
     qs = reviewNormalizedStrings H (review_path_forms ps)"
  by (auto simp: normalizeImplementationReviewChangedPaths_def Let_def bindE_eq_Inr for_each_eq_Inr)

lemma normalize_paths_set:
  "normalizeImplementationReviewChangedPaths H ps = Inr qs \<Longrightarrow>
     set qs = js_trim ` path_form ` set ps - {[]}"
  by (auto simp: normalize_paths_Inr set_reviewNormalizedStrings review_path_forms_eq)

lemma normalize_paths_total:
  "(\<exists>qs. normalizeImplementationReviewChangedPaths H ps = Inr qs) \<longleftrightarrow>
     (\<forall>p\<in>set ps. path_form p = [] \<or> \<not> unsafe_review_path (path_form p))"
  by (auto simp: normalize_paths_Inr review_path_forms_eq)

text \<open>
  A finite set of paths that one pass of the normalisation maps onto itself consists of
  canonical forms: the pass never lengthens a path, so on such a set it keeps every length.
\<close>

lemma paths_fixpoint:
  assumes fin: "finite S" and sub: "S \<subseteq> (\<lambda>p. js_trim (path_form p)) ` S" and tr: "\<forall>p\<in>S. js_trim p = p"
    and q: "q \<in> S"
  shows "path_form q = q"
proof -
  let ?f = "\<lambda>p. js_trim (path_form p)"
  have card: "card (?f ` S) = card S"
    using card_image_le [OF fin, of ?f] card_mono [OF finite_imageI [OF fin] sub] by linarith
  then have img: "?f ` S = S" using card_subset_eq [OF finite_imageI [OF fin] sub] by simp
  have inj: "inj_on ?f S" by (rule eq_card_imp_inj_on [OF fin card])
  have le: "length (?f p) \<le> length p" if "p \<in> S" for p
  proof -
    have "length (?f p) \<le> length (path_form p)" by (rule js_trim_length)
    also have "\<dots> \<le> length p" using length_strip [of "slashes p"] tr that by (simp add: path_form_def)
    finally show ?thesis .
  qed
  have total: "(\<Sum>p\<in>S. length (?f p)) = (\<Sum>p\<in>S. length p)"
    using sum.reindex [OF inj, of length] img by (simp add: comp_def)
  have eq: "length (?f p) = length p" if "p \<in> S" for p
  proof (rule ccontr)
    assume "length (?f p) \<noteq> length p"
    then have "length (?f p) < length p" using le [OF that] by linarith
    then have "(\<Sum>p\<in>S. length (?f p)) < (\<Sum>p\<in>S. length p)"
      using le that by (intro sum_strict_mono_ex1 [OF fin]) auto
    with total show False by simp
  qed
  have form: "?f p = slashes p \<and> path_form p = slashes p" if "p \<in> S" for p
  proof -
    have p: "path_form p = strip_dot_slash (slashes p)" using tr that by (simp add: path_form_def)
    have "length (path_form p) = length p"
      using eq [OF that] js_trim_length [of "path_form p"] length_strip [of "slashes p"] p by simp
    then have "path_form p = slashes p" using p strip_same_length [of "slashes p"] by simp
    moreover have "?f p = path_form p"
      using eq [OF that] \<open>length (path_form p) = length p\<close> by (intro js_trim_same_length) simp
    ultimately show ?thesis by simp
  qed
  have s: "slashes q \<in> S" using form [OF q] img q by (metis imageI)
  have "?f (slashes q) = ?f q" using form [OF s] form [OF q] by simp
  then have "slashes q = q" using inj s q by (auto dest: inj_onD)
  with form [OF q] show ?thesis by simp
qed

lemma canonical_paths_fixed:
  assumes "host_collates H" and "normalizeImplementationReviewChangedPaths H ps = Inr qs"
    and "\<forall>q\<in>set qs. canonical_path q"
  shows "normalizeImplementationReviewChangedPaths H qs = Inr qs"
proof -
  have "map path_form qs = qs" using assms(3) by (intro map_idI) (simp add: canonical_path_def)
  moreover have "filter (\<lambda>s. s \<noteq> []) qs = qs" using assms(3) by (auto simp: canonical_path_def filter_id_conv)
  ultimately have "review_path_forms qs = qs" by (simp add: review_path_forms_eq)
  moreover have "reviewNormalizedStrings H qs = qs"
    using assms(1,2) reviewNormalizedStrings_fixed by (auto simp: normalize_paths_Inr)
  ultimately show ?thesis using assms(3) by (simp add: normalize_paths_Inr canonical_path_def)
qed

section \<open>Validated records\<close>

lemma validated_facts:
  assumes "validateImplementationReviewRecord H r = Inr ()"
  obtains qs where "normalizeImplementationReviewChangedPaths H (rv_changedPaths r) = Inr qs"
    and "sameStringSet H (rv_changedPaths r) qs" and "length (rv_changedPaths r) = length qs"
    and "implementationReviewChangedPathDigest H qs = Inr (rv_changedPathDigest r)"
    and "js_trim (rv_reviewId r) \<noteq> []" and "js_trim (rv_rationale r) \<noteq> []"
    and "date_parse H (rv_recordedAt r) \<noteq> None"
    and "rv_decision r = Decision_changes_required \<longrightarrow> rv_findings r \<noteq> []"
    and "rv_derivation r \<noteq> None \<longrightarrow> truthy (rv_derivedFromReviewId r) \<and> rv_decision r = Decision_approved"
  using assms unfolding validateImplementationReviewRecord_def bindE_eq_Inr throw_if_eq_Inr by blast

lemma validated_paths:
  assumes v: "validateImplementationReviewRecord H r = Inr ()"
    and n: "normalizeImplementationReviewChangedPaths H (rv_changedPaths r) = Inr qs"
  shows "\<forall>q\<in>set qs. canonical_path q" and "set qs = js_trim ` set (rv_changedPaths r)"
    and "distinct (map js_trim (rv_changedPaths r))"
proof -
  let ?ps = "rv_changedPaths r"
  from validated_facts [OF v] n have same: "sameStringSet H ?ps qs" and len: "length ?ps = length qs"
    and dig: "implementationReviewChangedPathDigest H qs = Inr (rv_changedPathDigest r)" by auto
  have tq: "\<forall>q\<in>set qs. js_trim q = q \<and> q \<noteq> []"
    using n reviewNormalizedStrings_trimmed by (auto simp: normalize_paths_Inr js_trim_id)
  have S: "set qs = js_trim ` set ?ps - {[]}"
    using sameStringSet_sets [OF same] tq by (auto simp: image_iff)
  have dq: "distinct qs" using n by (simp add: normalize_paths_Inr)
  have sub: "set qs \<subseteq> (\<lambda>p. js_trim (path_form p)) ` set qs"
  proof
    fix q assume q: "q \<in> set qs"
    then have "q \<in> js_trim ` path_form ` set ?ps" and qn: "q \<noteq> []"
      unfolding normalize_paths_set [OF n] by (rule DiffD1, simp)
    then obtain p where p: "p \<in> set ?ps" "q = js_trim (path_form p)" by (elim imageE) blast
    then have "js_trim p \<noteq> []" using qn by (metis js_trim_Nil path_form_Nil path_form_trim)
    then have "js_trim p \<in> set qs" using S p(1) by simp
    with p show "q \<in> (\<lambda>p. js_trim (path_form p)) ` set qs" by (metis imageI path_form_trim)
  qed
  have form: "path_form q = q" if "q \<in> set qs" for q
    using paths_fixpoint [OF finite_set sub _ that] tq by blast
  obtain qs' where "normalizeImplementationReviewChangedPaths H qs = Inr qs'"
    using dig by (auto simp: implementationReviewChangedPathDigest_def bindE_eq_Inr)
  then have "\<forall>q\<in>set qs. \<not> unsafe_review_path q"
    using form tq normalize_paths_total [of H qs] by auto
  with form tq show "\<forall>q\<in>set qs. canonical_path q" by (auto simp: canonical_path_def)
  have "card (set qs) \<le> length (filter (\<lambda>p. p \<noteq> []) (map js_trim ?ps))"
    using S card_length [of "filter (\<lambda>p. p \<noteq> []) (map js_trim ?ps)"] by (simp add: set_diff_eq)
  then have "length (map js_trim ?ps) \<le> length (filter (\<lambda>p. p \<noteq> []) (map js_trim ?ps))"
    using len dq by (simp add: distinct_card)
  then have "\<forall>p\<in>set (map js_trim ?ps). p \<noteq> []"
    by (metis (mono_tags, lifting) length_filter_less linorder_not_le)
  with S show eq: "set qs = js_trim ` set ?ps" by auto
  show "distinct (map js_trim ?ps)"
    by (rule card_distinct) (metis eq distinct_card dq len length_map set_map)
qed

section \<open>The gate\<close>

text \<open>A review names a candidate when every identity it recorded is the candidate's.\<close>

definition names_candidate :: "js_host \<Rightarrow> review_record \<Rightarrow> review_candidate \<Rightarrow> bool" where
  "names_candidate H r c \<longleftrightarrow>
     rv_sourceRevision r = ca_sourceRevision c \<and>
     rv_workspaceFingerprint r = ca_workspaceFingerprint c \<and>
     rv_verificationWorkspaceFingerprint r = ca_verificationWorkspaceFingerprint c \<and>
     implementationReviewChangedPathDigest H (ca_changedPaths c) = Inr (rv_changedPathDigest r) \<and>
     sameEvidenceIdentity H (rv_verificationEvidence r) (ca_verificationEvidence c) = Inr True \<and>
     sameEvidenceIdentity H (rv_architectureEvidence r) (coalesce (ca_architectureEvidence c) []) = Inr True"

lemma stale_reasons_Nil: "stale_reasons H r c = Inr [] \<longleftrightarrow> names_candidate H r c"
  unfolding stale_reasons_def names_candidate_def bindE_eq_Inr by (auto split: if_splits)

lemma stale_reasons_Inr: "stale_reasons H r c = Inr xs \<Longrightarrow> xs = [] \<longleftrightarrow> names_candidate H r c"
  using stale_reasons_Nil [of H r c] by (cases "xs = []") auto

lemma gate_on_history:
  assumes "evaluateImplementationReviewGate H kind (Some (rs @ [r])) c = Inr g" and "gr_required g"
  shows "gr_review g = Some r" and "gr_approved g \<longleftrightarrow> rv_decision r = Decision_approved \<and> names_candidate H r c"
proof -
  from assms obtain xs where xs: "stale_reasons H r c = Inr xs" and
    g: "g = (if xs \<noteq> [] then \<lparr>gr_required = True, gr_approved = False, gr_code = Some Gate_review_stale,
           gr_reason = ''Implementation review '' @ rv_reviewId r @ '' is stale: '' @ js_join ''; '' xs @ ''.'',
           gr_review = Some r\<rparr>
         else if rv_decision r = Decision_changes_required then
           \<lparr>gr_required = True, gr_approved = False, gr_code = Some Gate_review_changes_required,
             gr_reason = ''Implementation review '' @ rv_reviewId r @ '' requires changes before delivery.'',
             gr_review = Some r\<rparr>
         else if rv_decision r = Decision_blocked then
           \<lparr>gr_required = True, gr_approved = False, gr_code = Some Gate_review_blocked,
             gr_reason = ''Implementation review '' @ rv_reviewId r @ '' is blocked and cannot authorize delivery.'',
             gr_review = Some r\<rparr>
         else \<lparr>gr_required = True, gr_approved = True, gr_code = None,
           gr_reason = ''Implementation review '' @ rv_reviewId r @ '' approves the exact current delivery candidate.'',
           gr_review = Some r\<rparr>)"
    unfolding evaluateImplementationReviewGate_def bindE_eq_Inr
    by (fastforce simp: bindE_eq_Inr split: if_splits)
  show "gr_review g = Some r" by (simp add: g)
  show "gr_approved g \<longleftrightarrow> rv_decision r = Decision_approved \<and> names_candidate H r c"
    using stale_reasons_Inr [OF xs] by (cases "rv_decision r") (auto simp: g)
qed

lemma gate_reviewless:
  assumes "evaluateImplementationReviewGate H kind reviews c = Inr g" and "gr_review g = None"
  shows "gr_approved g \<longleftrightarrow> \<not> gr_required g"
  using assms unfolding evaluateImplementationReviewGate_def bindE_eq_Inr
  by (auto simp: bindE_eq_Inr split: if_splits option.splits)

lemma gate_review_latest:
  assumes "evaluateImplementationReviewGate H kind reviews c = Inr g" and "gr_review g = Some r"
  shows "gr_required g \<and> (\<exists>rs. reviews = Some (rs @ [r]))"
proof -
  from assms have req: "gr_required g" and l: "latestImplementationReview reviews = Some r"
    unfolding evaluateImplementationReviewGate_def bindE_eq_Inr
    by (auto simp: bindE_eq_Inr split: if_splits option.splits)
  from l obtain rs where "reviews = Some rs" "rs \<noteq> []" "last rs = r"
    by (cases reviews) (auto split: if_splits)
  with req show ?thesis by (metis append_butlast_last_id)
qed

lemma gate_required_iff:
  assumes "evaluateImplementationReviewGate H kind reviews c = Inr g"
  shows "workRequiresImplementationReview H kind (ca_changedPaths c) = Inr (gr_required g)"
proof -
  from assms obtain b where b: "workRequiresImplementationReview H kind (ca_changedPaths c) = Inr b"
    by (auto simp: evaluateImplementationReviewGate_def bindE_eq_Inr)
  have "gr_required g = b"
    using assms unfolding evaluateImplementationReviewGate_def b bindE_Inr
    by (cases b) (auto simp: bindE_eq_Inr split: if_splits option.splits)
  with b show ?thesis by simp
qed

lemma gate_approves:
  assumes "workRequiresImplementationReview H kind (ca_changedPaths c) = Inr True"
    and "names_candidate H r c" and "rv_decision r = Decision_approved"
  shows "\<exists>g. evaluateImplementationReviewGate H kind (Some (rs @ [r])) c = Inr g \<and> gr_approved g \<and> gr_review g = Some r"
  using assms(1,3) stale_reasons_Nil [of H r c] assms(2)
  by (simp add: evaluateImplementationReviewGate_def)

section \<open>Digests identify what they digest\<close>

text \<open>The digest has no collision on the two path sets compared.\<close>

definition digests_distinct :: "js_host \<Rightarrow> string list \<Rightarrow> string list \<Rightarrow> bool" where
  "digests_distinct H ps qs =
     (case (normalizeImplementationReviewChangedPaths H ps, normalizeImplementationReviewChangedPaths H qs) of
        (Inr us, Inr vs) \<Rightarrow>
          sha256_hex H (json_stringify (json_strings us)) = sha256_hex H (json_stringify (json_strings vs))
            \<longrightarrow> json_stringify (json_strings us) = json_stringify (json_strings vs)
      | _ \<Rightarrow> True)"

lemma path_digest_eq:
  assumes "implementationReviewChangedPathDigest H ps = Inr d" and "implementationReviewChangedPathDigest H qs = Inr d"
    and "digests_distinct H ps qs"
  shows "normalizeImplementationReviewChangedPaths H ps = normalizeImplementationReviewChangedPaths H qs"
proof -
  from assms(1,2) obtain us vs where n: "normalizeImplementationReviewChangedPaths H ps = Inr us"
    "normalizeImplementationReviewChangedPaths H qs = Inr vs"
    and d: "sha256_hex H (json_stringify (json_strings us)) = sha256_hex H (json_stringify (json_strings vs))"
    by (auto simp: implementationReviewChangedPathDigest_def bindE_eq_Inr)
  from assms(3) n d have "json_stringify (json_strings us) = json_stringify (json_strings vs)"
    by (simp add: digests_distinct_def)
  then have "us = vs" by (rule json_strings_inj)
  with n show ?thesis by simp
qed

lemma validated_digest:
  assumes "host_collates H" and "validateImplementationReviewRecord H r = Inr ()"
  shows "implementationReviewChangedPathDigest H (rv_changedPaths r) = Inr (rv_changedPathDigest r)"
proof -
  from validated_facts [OF assms(2)] obtain qs where
    n: "normalizeImplementationReviewChangedPaths H (rv_changedPaths r) = Inr qs"
    and d: "implementationReviewChangedPathDigest H qs = Inr (rv_changedPathDigest r)" by metis
  have "normalizeImplementationReviewChangedPaths H qs = Inr qs"
    by (rule canonical_paths_fixed [OF assms(1) n validated_paths(1) [OF assms(2) n]])
  with d n show ?thesis by (simp add: implementationReviewChangedPathDigest_def)
qed

section \<open>The append-only history\<close>

lemma review_json_inj: "review_json a = review_json b \<longleftrightarrow> a = b"
proof
  have f: "finding_json x = finding_json y \<longleftrightarrow> x = y" for x y
    by (cases x; cases y)
      (auto simp: finding_json_def json_opt_app json_opt_eq json_opt_keys inj_def split: finding_severity.splits)
  have e: "evidence_json x = evidence_json y \<longleftrightarrow> x = y" for x y
    by (cases x; cases y) (auto simp: evidence_json_def)
  have fs: "map finding_json xs = map finding_json ys \<longleftrightarrow> xs = ys" for xs ys
    using f by (auto intro: map_injective simp: inj_def)
  have es: "map evidence_json xs = map evidence_json ys \<longleftrightarrow> xs = ys" for xs ys
    using e by (auto intro: map_injective simp: inj_def)
  have ss: "map JStr xs = map JStr ys \<longleftrightarrow> xs = ys" for xs ys
    by (auto intro: map_injective simp: inj_def)
  have ds: "decision_str x = decision_str y \<longleftrightarrow> x = y" for x y by (cases x; cases y) simp_all
  have dv: "(x :: review_derivation) = y" for x y by (cases x; cases y) simp
  have i: "inj JStr" "inj (\<lambda>d :: review_derivation. JStr ''content_equivalent_commit'')"
    using dv by (auto simp: inj_def)
  assume "review_json a = review_json b"
  then show "a = b"
    by (simp add: review_json_def json_opt_app json_opt_eq json_opt_keys i fs es ss ds)
qed simp

lemma history_loop_Inr:
  "history_loop H ids before after = Inr () \<Longrightarrow> length before \<le> length after \<Longrightarrow>
     prefix before after \<and> distinct (map rv_reviewId after) \<and> ids \<inter> rv_reviewId ` set after = {} \<and>
     (\<forall>r\<in>set after. validateImplementationReviewRecord H r = Inr ())"
proof (induction H ids before after rule: history_loop.induct)
  case (2 H ids before new after)
  then show ?case
    by (cases before) (auto simp: bindE_eq_Inr json_stringify_inj review_json_inj split: list.splits)
qed simp

lemma history_loop_total:
  "prefix before after \<Longrightarrow> distinct (map rv_reviewId after) \<Longrightarrow> ids \<inter> rv_reviewId ` set after = {} \<Longrightarrow>
     (\<forall>r\<in>set after. validateImplementationReviewRecord H r = Inr ()) \<Longrightarrow>
     history_loop H ids before after = Inr ()"
proof (induction H ids before after rule: history_loop.induct)
  case (2 H ids before new after)
  have "prefix (drop 1 before) after" using "2.prems"(1) by (cases before) auto
  with 2 show ?case by (cases before) (auto simp: bindE_eq_Inr)
qed simp

lemma history_accepted_iff:
  "assertImplementationReviewHistoryAppendOnly H current next = Inr () \<longleftrightarrow>
     prefix (coalesce current []) (coalesce next []) \<and>
     length (coalesce next []) \<le> MAX_IMPLEMENTATION_REVIEW_HISTORY \<and>
     distinct (map rv_reviewId (coalesce next [])) \<and>
     (\<forall>r\<in>set (coalesce next []). validateImplementationReviewRecord H r = Inr ())"
  unfolding assertImplementationReviewHistoryAppendOnly_def Let_def bindE_eq_Inr throw_if_eq_Inr
  using history_loop_Inr [of H "{}" "coalesce current []" "coalesce next []"]
    history_loop_total [of "coalesce current []" "coalesce next []" "{}" H]
    prefix_length_le [of "coalesce current []" "coalesce next []"]
  by (simp only: not_less simp_thms Int_empty_left ex_simps) blast

interpretation review_log: append_log
  "\<lambda>current next. assertImplementationReviewHistoryAppendOnly H (Some current) (Some next) = Inr ()"
  rv_reviewId MAX_IMPLEMENTATION_REVIEW_HISTORY
  for H
  by unfold_locales (auto simp: history_accepted_iff)

section \<open>The pre-delivery boundary\<close>

definition matches_check :: "string \<Rightarrow> string \<Rightarrow> string \<Rightarrow> review_verification_record \<Rightarrow> bool" where
  "matches_check c src ws r \<longleftrightarrow> rvr_checkId r = c \<and> rvr_sourceRevision r = Some src
     \<and> rvr_workspaceFingerprint r = Some ws"

lemma find_split: "find P xs = Some x \<longleftrightarrow> P x \<and> (\<exists>pre post. xs = pre @ x # post \<and> (\<forall>q\<in>set pre. \<not> P q))"
proof (induction xs)
  case (Cons y ys)
  show ?case
  proof (cases "P y")
    case True
    then show ?thesis by (auto simp: Cons_eq_append_conv)
  next
    case False
    have "(\<exists>pre post. y # ys = pre @ x # post \<and> (\<forall>q\<in>set pre. \<not> P q)) \<longleftrightarrow>
        (\<exists>pre post. ys = pre @ x # post \<and> (\<forall>q\<in>set pre. \<not> P q))" if "P x"
    proof
      assume "\<exists>pre post. y # ys = pre @ x # post \<and> (\<forall>q\<in>set pre. \<not> P q)"
      then show "\<exists>pre post. ys = pre @ x # post \<and> (\<forall>q\<in>set pre. \<not> P q)"
        using False that by (auto simp: Cons_eq_append_conv)
    next
      assume "\<exists>pre post. ys = pre @ x # post \<and> (\<forall>q\<in>set pre. \<not> P q)"
      then obtain pre post where "ys = pre @ x # post" "\<forall>q\<in>set pre. \<not> P q" by blast
      then have "y # ys = (y # pre) @ x # post" "\<forall>q\<in>set (y # pre). \<not> P q" using False by auto
      then show "\<exists>pre post. y # ys = pre @ x # post \<and> (\<forall>q\<in>set pre. \<not> P q)" by blast
    qed
    with False Cons.IH show ?thesis by auto
  qed
qed simp

lemma current_check_record_Some:
  "current_check_record rs c src ws = Some r \<longleftrightarrow>
     matches_check c src ws r \<and> (\<exists>pre post. rs = pre @ r # post \<and> (\<forall>q\<in>set pre. \<not> matches_check c src ws q))"
  unfolding current_check_record_def find_split matches_check_def [abs_def] by simp

lemma check_evidence_pass:
  "check_evidence repo work rs src ws c \<noteq> None \<Longrightarrow>
     authoritative_pass repo work c (current_check_record rs c src ws)"
  by (auto simp: check_evidence_def Let_def split: if_splits)

lemma authoritative_evidence_complete:
  assumes "authoritativeImplementationReviewVerificationEvidence H repo work ids rs src ws = Inr (ev, [])"
    and "c \<in> set ids" and "js_trim c \<noteq> []"
  shows "authoritative_pass repo work (js_trim c) (current_check_record rs (js_trim c) src ws)"
proof -
  from assms(1) have "\<forall>d\<in>set (reviewNormalizedStrings H ids). check_evidence repo work rs src ws d \<noteq> None"
    by (auto simp: authoritativeImplementationReviewVerificationEvidence_def Let_def bindE_eq_Inr filter_empty_conv)
  moreover have "js_trim c \<in> set (reviewNormalizedStrings H ids)"
    using assms(2,3) by (simp add: set_reviewNormalizedStrings)
  ultimately show ?thesis using check_evidence_pass by blast
qed

lemma boundary_facts:
  assumes "assertImplementationReviewPreDeliveryBoundary H repo work kind reviews c ids rs = Inr res"
  obtains ev g where
    "authoritativeImplementationReviewVerificationEvidence H repo work ids rs (ca_sourceRevision c)
       (ca_verificationWorkspaceFingerprint c) = Inr (ev, [])"
    and "sameEvidenceIdentity H ev (ca_verificationEvidence c) = Inr True"
    and "evaluateImplementationReviewGate H kind reviews c = Inr g" and "gr_approved g" and "gr_review g = res"
    and "\<forall>r. res = Some r \<longrightarrow> rv_workId r = work"
proof -
  from assms obtain ev missing bad g where
    a: "authoritativeImplementationReviewVerificationEvidence H repo work ids rs (ca_sourceRevision c)
       (ca_verificationWorkspaceFingerprint c) = Inr (ev, missing)"
    and b: "(if missing \<noteq> [] then Inr True
      else bindE (sameEvidenceIdentity H ev (ca_verificationEvidence c)) (\<lambda>b. Inr (\<not> b))) = Inr bad" "\<not> bad"
    and g: "evaluateImplementationReviewGate H kind reviews c = Inr g" "gr_approved g" "res = gr_review g"
      "\<not> (case gr_review g of None \<Rightarrow> False | Some r \<Rightarrow> rv_workId r \<noteq> work)"
    unfolding assertImplementationReviewPreDeliveryBoundary_def bindE_eq_Inr
    by (auto simp: bindE_eq_Inr)
  from b have "missing = []" "sameEvidenceIdentity H ev (ca_verificationEvidence c) = Inr True"
    by (auto simp: bindE_eq_Inr split: if_splits)
  with a g that show ?thesis by (auto split: option.splits)
qed

section \<open>Approval across a commit\<close>

lemma transfer_authority_facts:
  assumes "transfer_authority H work reviews p = Inr r"
  shows "rv_decision r = Decision_approved" and "names_candidate H r (tp_preCommitCandidate p)"
    and "\<exists>rs. reviews = rs @ [r]" and "rv_workId r = work"
    and "ca_workspaceFingerprint (tp_postCommitCandidate p) = rv_workspaceFingerprint r"
proof -
  from assms obtain g where g: "evaluateImplementationReviewGate H ''repository_change'' (Some reviews)
      (tp_preCommitCandidate p) = Inr g" "gr_review g = Some r" "gr_approved g"
    and w: "rv_workId r = work"
    and d: "tp_preCommitContentDigest p = ca_workspaceFingerprint (tp_preCommitCandidate p)"
      "tp_postCommitContentDigest p = ca_workspaceFingerprint (tp_postCommitCandidate p)"
      "tp_preCommitContentDigest p = tp_postCommitContentDigest p"
    unfolding transfer_authority_def Let_def bindE_eq_Inr
    by (auto simp: bindE_eq_Inr split: option.splits)
  from gate_review_latest [OF g(1,2)] obtain rs where rs: "reviews = rs @ [r]" "gr_required g" by auto
  then show "\<exists>rs. reviews = rs @ [r]" by blast
  from gate_on_history [OF g(1) [unfolded rs(1)] rs(2)] g(3)
  show a: "rv_decision r = Decision_approved" and n: "names_candidate H r (tp_preCommitCandidate p)" by auto
  show "rv_workId r = work" by (rule w)
  from d n show "ca_workspaceFingerprint (tp_postCommitCandidate p) = rv_workspaceFingerprint r"
    by (simp add: names_candidate_def)
qed

lemma transfer_paths_facts:
  assumes "transfer_paths H r p = Inr ps"
  obtains rs ds cs where
    "normalizeImplementationReviewChangedPaths H (rv_changedPaths r) = Inr rs"
    and "normalizeImplementationReviewChangedPaths H (ca_changedPaths (tp_postCommitCandidate p)) = Inr ps"
    and "normalizeImplementationReviewChangedPaths H (tp_preCommitDirtyPaths p) = Inr ds"
    and "normalizeImplementationReviewChangedPaths H (tp_committedPaths p) = Inr cs"
    and "set ps = set rs" and "set ds = set rs" and "set cs = set rs"
proof -
  from assms obtain rs ds cs where n:
    "normalizeImplementationReviewChangedPaths H (rv_changedPaths r) = Inr rs"
    "normalizeImplementationReviewChangedPaths H (ca_changedPaths (tp_postCommitCandidate p)) = Inr ps"
    "normalizeImplementationReviewChangedPaths H (tp_preCommitDirtyPaths p) = Inr ds"
    "normalizeImplementationReviewChangedPaths H (tp_committedPaths p) = Inr cs"
    and s: "sameStringSet H rs ps" "sameStringSet H ds rs" "sameStringSet H cs rs"
    unfolding transfer_paths_def Let_def bindE_eq_Inr throw_if_eq_Inr by auto
  have t: "js_trim ` set xs - {[]} = set xs" if "normalizeImplementationReviewChangedPaths H ys = Inr xs" for xs ys
  proof -
    have "\<forall>q\<in>set xs. js_trim q = q \<and> q \<noteq> []"
      using that reviewNormalizedStrings_trimmed by (auto simp: normalize_paths_Inr js_trim_id)
    then show ?thesis by force
  qed
  show ?thesis using that n sameStringSet_sets [OF s(1)] sameStringSet_sets [OF s(2)] sameStringSet_sets [OF s(3)]
    unfolding t [OF n(1)] t [OF n(2)] t [OF n(3)] t [OF n(4)] by blast
qed

lemma derive_facts:
  assumes "deriveImplementationReviewAcrossCommit H work reviews p newId now = Inr d"
  obtains r ve ae where "transfer_authority H work reviews p = Inr r"
    and "transfer_paths H r p = Inr (rv_changedPaths d)"
    and "implementationReviewChangedPathDigest H (rv_changedPaths d) = Inr (rv_changedPathDigest d)"
    and "normalizeImplementationReviewEvidence H (ca_verificationEvidence (tp_postCommitCandidate p)) = Inr (rv_verificationEvidence d)"
    and "normalizeImplementationReviewEvidence H (coalesce (ca_architectureEvidence (tp_postCommitCandidate p)) []) = Inr (rv_architectureEvidence d)"
    and "validateImplementationReviewRecord H d = Inr ()"
    and "rv_decision d = rv_decision r" and "rv_workId d = rv_workId r" and "rv_derivedFromReviewId d = Some (rv_reviewId r)"
    and "rv_sourceRevision d = ca_sourceRevision (tp_postCommitCandidate p)"
    and "rv_workspaceFingerprint d = ca_workspaceFingerprint (tp_postCommitCandidate p)"
    and "rv_verificationWorkspaceFingerprint d = ca_verificationWorkspaceFingerprint (tp_postCommitCandidate p)"
proof -
  from assms obtain r ps dg ve ae where "transfer_authority H work reviews p = Inr r" "transfer_paths H r p = Inr ps"
    "implementationReviewChangedPathDigest H ps = Inr dg"
    "normalizeImplementationReviewEvidence H (ca_verificationEvidence (tp_postCommitCandidate p)) = Inr ve"
    "normalizeImplementationReviewEvidence H (coalesce (ca_architectureEvidence (tp_postCommitCandidate p)) []) = Inr ae"
    "validateImplementationReviewRecord H d = Inr ()"
    "d = r\<lparr>rv_reviewId := newId, rv_sourceRevision := ca_sourceRevision (tp_postCommitCandidate p),
         rv_workspaceFingerprint := ca_workspaceFingerprint (tp_postCommitCandidate p),
         rv_verificationWorkspaceFingerprint := ca_verificationWorkspaceFingerprint (tp_postCommitCandidate p),
         rv_changedPaths := ps, rv_changedPathDigest := dg, rv_verificationEvidence := ve,
         rv_architectureEvidence := ae, rv_recordedAt := now, rv_derivedFromReviewId := Some (rv_reviewId r),
         rv_derivation := Some Derivation_content_equivalent_commit\<rparr>"
    unfolding deriveImplementationReviewAcrossCommit_def Let_def bindE_eq_Inr by auto
  with that show ?thesis by simp
qed

lemma derived_names_post_candidate:
  assumes h: "host_collates H" and "deriveImplementationReviewAcrossCommit H work reviews p newId now = Inr d"
  shows "names_candidate H d (tp_postCommitCandidate p)"
proof -
  from derive_facts [OF assms(2)] obtain r where paths: "transfer_paths H r p = Inr (rv_changedPaths d)"
    and dg: "implementationReviewChangedPathDigest H (rv_changedPaths d) = Inr (rv_changedPathDigest d)"
    and ev: "normalizeImplementationReviewEvidence H (ca_verificationEvidence (tp_postCommitCandidate p)) = Inr (rv_verificationEvidence d)"
      "normalizeImplementationReviewEvidence H (coalesce (ca_architectureEvidence (tp_postCommitCandidate p)) []) = Inr (rv_architectureEvidence d)"
    and v: "validateImplementationReviewRecord H d = Inr ()"
    and ids: "rv_sourceRevision d = ca_sourceRevision (tp_postCommitCandidate p)"
      "rv_workspaceFingerprint d = ca_workspaceFingerprint (tp_postCommitCandidate p)"
      "rv_verificationWorkspaceFingerprint d = ca_verificationWorkspaceFingerprint (tp_postCommitCandidate p)" by metis
  from transfer_paths_facts [OF paths] have
    n: "normalizeImplementationReviewChangedPaths H (ca_changedPaths (tp_postCommitCandidate p)) = Inr (rv_changedPaths d)" by metis
  from validated_facts [OF v] obtain qs where q: "normalizeImplementationReviewChangedPaths H (rv_changedPaths d) = Inr qs" by metis
  have "js_trim ` set (rv_changedPaths d) = set (rv_changedPaths d)"
    using n reviewNormalizedStrings_trimmed by (force simp: normalize_paths_Inr js_trim_id)
  then have "\<forall>q\<in>set (rv_changedPaths d). canonical_path q" using validated_paths(1,2) [OF v q] by simp
  then have "normalizeImplementationReviewChangedPaths H (rv_changedPaths d) = Inr (rv_changedPaths d)"
    by (rule canonical_paths_fixed [OF h n])
  with dg n have "implementationReviewChangedPathDigest H (ca_changedPaths (tp_postCommitCandidate p)) = Inr (rv_changedPathDigest d)"
    by (simp add: implementationReviewChangedPathDigest_def)
  with ids ev normalize_evidence_fixed [OF h ev(1)] normalize_evidence_fixed [OF h ev(2)] show ?thesis
    by (simp add: names_candidate_def sameEvidenceIdentity_Inr)
qed

end
