(* ===== verification/ExampleHost.thy ===== *)
theory ExampleHost
  imports JsJson
begin

text \<open>
  A concrete host on which the witnesses evaluate: collation by code units, a digest that
  tags its input, and time stamps written as decimal milliseconds.  It meets the hypotheses
  the properties make about a host.
\<close>

definition parse_int :: "string \<Rightarrow> int option" where
  "parse_int s = (case s of [] \<Rightarrow> None
     | c # cs \<Rightarrow> if c = CHR ''-'' then Some (- int (digits_value cs)) else Some (int (digits_value s)))"

lemma parse_int_int_str: "parse_int (int_str i) = Some i"
proof (cases "i < 0")
  case True
  then show ?thesis by (simp add: parse_int_def int_str_def digits_value_nat_digits)
next
  case False
  obtain c cs where c: "nat_digits (nat i) = c # cs" "is_digit c" using nat_digits_head by blast
  then have "c \<noteq> CHR ''-''" by (auto simp: is_digit_def)
  moreover have "digits_value (c # cs) = nat i" using c(1) digits_value_nat_digits by metis
  ultimately show ?thesis using False c(1) by (simp add: parse_int_def int_str_def)
qed

definition example_host :: js_host where
  "example_host = \<lparr>locale_compare = unit_cmp, sha256_hex = (\<lambda>s. ''sha256:'' @ s),
     date_parse = parse_int, iso_of_ms = int_str\<rparr>"

lemma example_host_collates: "host_collates example_host"
  by (simp add: host_collates_def example_host_def)

lemma example_host_dates: "host_dates example_host"
  by (simp add: host_dates_def example_host_def parse_int_int_str)

end
