(* ===== verification/ReviewProperties.thy ===== *)
theory ReviewProperties
  imports ReviewFacts ExampleHost
begin

text \<open>
  The properties of implementation review: the gate, the pre-delivery boundary, the
  append-only history, the canonical forms and the transfer of an approval across a commit,
  each with a concrete instance on \<open>example_host\<close>.
\<close>

section \<open>Example data\<close>

definition example_evidence :: "evidence_identity list" where
  "example_evidence = [\<lparr>ei_evidenceId = ''receipt-1'', ei_digest = ''d1''\<rparr>]"

definition example_candidate :: review_candidate where
  "example_candidate = \<lparr>ca_sourceRevision = ''rev1'', ca_workspaceFingerprint = ''ws1'',
     ca_verificationWorkspaceFingerprint = ''vw1'', ca_changedPaths = [''src/b.ts'', ''./src/a.ts''],
     ca_verificationEvidence = example_evidence, ca_architectureEvidence = None\<rparr>"

definition example_review :: review_record where
  "example_review = \<lparr>rv_reviewId = ''review-1'', rv_workId = ''work-1'', rv_reviewerPrincipalId = ''controller'',
     rv_reviewerControllerSessionId = None, rv_reviewerControllerRoundId = None,
     rv_decision = Decision_approved, rv_rationale = ''ok'', rv_findings = [],
     rv_sourceRevision = ''rev1'', rv_workspaceFingerprint = ''ws1'', rv_verificationWorkspaceFingerprint = ''vw1'',
     rv_changedPaths = [''src/a.ts'', ''src/b.ts''],
     rv_changedPathDigest = ''sha256:'' @ json_stringify (json_strings [''src/a.ts'', ''src/b.ts'']),
     rv_acceptanceCriteriaSummary = ''done'', rv_verificationEvidence = example_evidence,
     rv_architectureEvidence = [], rv_recordedAt = ''1'', rv_derivedFromReviewId = None, rv_derivation = None\<rparr>"

definition example_pass :: review_verification_record where
  "example_pass = \<lparr>rvr_checkId = ''unit'', rvr_outcome = ''valid_pass'', rvr_recordedAt = ''1'',
     rvr_sourceRevision = Some ''rev1'', rvr_workspaceFingerprint = Some ''vw1'', rvr_resultArtifactId = None,
     rvr_verificationInputFingerprint = None,
     rvr_receipt = Some \<lparr>vr_receiptId = ''receipt-1'', vr_resultDigest = ''d1'', vr_repoId = ''repo'',
       vr_workId = Some ''work-1'', vr_checkId = ''unit'', vr_status = ''passed'', vr_runtimeStatus = ''succeeded'',
       vr_ok = True, vr_timedOut = False, vr_cancelled = False\<rparr>\<rparr>"

definition example_post_candidate :: review_candidate where
  "example_post_candidate = example_candidate\<lparr>ca_sourceRevision := ''rev2'', ca_verificationWorkspaceFingerprint := ''vw2''\<rparr>"

definition example_transfer :: transfer_proof where
  "example_transfer = \<lparr>tp_preCommitCandidate = example_candidate, tp_postCommitCandidate = example_post_candidate,
     tp_preCommitDirtyPaths = [''src/a.ts'', ''src/b.ts''], tp_committedPaths = [''src/b.ts'', ''src/a.ts''],
     tp_preCommitContentDigest = ''ws1'', tp_postCommitContentDigest = ''ws1'',
     tp_postCommitVerificationAuthority = \<lparr>va_repoId = ''repo'', va_workId = ''work-1'',
       va_requiredCheckIds = [''unit''],
       va_records = [example_pass\<lparr>rvr_sourceRevision := Some ''rev2'', rvr_workspaceFingerprint := Some ''vw2''\<rparr>]\<rparr>\<rparr>"

definition example_gate :: review_gate_result where
  "example_gate = \<lparr>gr_required = True, gr_approved = True, gr_code = None,
     gr_reason = ''Implementation review review-1 approves the exact current delivery candidate.'',
     gr_review = Some example_review\<rparr>"

definition example_derived :: review_record where
  "example_derived = example_review\<lparr>rv_reviewId := ''review-2'', rv_sourceRevision := ''rev2'',
     rv_verificationWorkspaceFingerprint := ''vw2'', rv_recordedAt := ''2'',
     rv_derivedFromReviewId := Some ''review-1'', rv_derivation := Some Derivation_content_equivalent_commit\<rparr>"

lemma example_review_valid: "validateImplementationReviewRecord example_host example_review = Inr ()"
  by code_simp

lemma example_gate_result:
  "evaluateImplementationReviewGate example_host ''repository_change'' (Some ([] @ [example_review])) example_candidate
     = Inr example_gate"
  by code_simp

lemma example_boundary:
  "assertImplementationReviewPreDeliveryBoundary example_host ''repo'' ''work-1'' ''repository_change''
     (Some [example_review]) example_candidate [''unit''] [example_pass] = Inr (Some example_review)"
  by code_simp

lemma example_derivation:
  "deriveImplementationReviewAcrossCommit example_host ''work-1'' [example_review] example_transfer ''review-2'' ''2''
     = Inr example_derived"
  by code_simp

section \<open>Properties\<close>

text \<open>
  C1.  A required review gate approves exactly when the latest record of the history is an
  approval whose source revision, two workspace fingerprints, canonical changed paths and
  evidence identities are those of the delivery candidate, as long as the digest does not
  collide on the two path sets.  Nothing older in the history matters.
\<close>

theorem review_gate_approves_exact_candidate:
  assumes "host_collates H" and "validateImplementationReviewRecord H r = Inr ()"
    and "evaluateImplementationReviewGate H kind (Some (earlier @ [r])) c = Inr g" and "gr_required g"
    and "digests_distinct H (rv_changedPaths r) (ca_changedPaths c)"
  shows "gr_approved g \<longleftrightarrow>
     rv_decision r = Decision_approved \<and>
     rv_sourceRevision r = ca_sourceRevision c \<and>
     rv_workspaceFingerprint r = ca_workspaceFingerprint c \<and>
     rv_verificationWorkspaceFingerprint r = ca_verificationWorkspaceFingerprint c \<and>
     normalizeImplementationReviewChangedPaths H (rv_changedPaths r)
       = normalizeImplementationReviewChangedPaths H (ca_changedPaths c) \<and>
     sameEvidenceIdentity H (rv_verificationEvidence r) (ca_verificationEvidence c) = Inr True \<and>
     sameEvidenceIdentity H (rv_architectureEvidence r) (coalesce (ca_architectureEvidence c) []) = Inr True"
proof -
  have d: "implementationReviewChangedPathDigest H (rv_changedPaths r) = Inr (rv_changedPathDigest r)"
    by (rule validated_digest [OF assms(1,2)])
  have "implementationReviewChangedPathDigest H (ca_changedPaths c) = Inr (rv_changedPathDigest r) \<longleftrightarrow>
      normalizeImplementationReviewChangedPaths H (rv_changedPaths r)
        = normalizeImplementationReviewChangedPaths H (ca_changedPaths c)"
    using path_digest_eq [OF d _ assms(5)] d by (auto simp: implementationReviewChangedPathDigest_def)
  then show ?thesis
    by (simp add: gate_on_history(2) [OF assms(3,4)] names_candidate_def)
qed

theorem review_gate_approves_exact_candidate_witness:
  "gr_approved example_gate \<longleftrightarrow>
     rv_decision example_review = Decision_approved \<and>
     rv_sourceRevision example_review = ca_sourceRevision example_candidate \<and>
     rv_workspaceFingerprint example_review = ca_workspaceFingerprint example_candidate \<and>
     rv_verificationWorkspaceFingerprint example_review = ca_verificationWorkspaceFingerprint example_candidate \<and>
     normalizeImplementationReviewChangedPaths example_host (rv_changedPaths example_review)
       = normalizeImplementationReviewChangedPaths example_host (ca_changedPaths example_candidate) \<and>
     sameEvidenceIdentity example_host (rv_verificationEvidence example_review) (ca_verificationEvidence example_candidate) = Inr True \<and>
     sameEvidenceIdentity example_host (rv_architectureEvidence example_review)
       (coalesce (ca_architectureEvidence example_candidate) []) = Inr True"
  by (rule review_gate_approves_exact_candidate [OF example_host_collates example_review_valid example_gate_result])
    code_simp+

text \<open>
  C2.  The pre-delivery boundary lets a candidate through only if, for every declared check,
  the newest record of that check for the candidate's exact revision and verification
  workspace is a pass with a successful receipt bound to this repository and Work: a later
  failure cannot hide behind an earlier pass.
\<close>

theorem delivery_boundary_newest_record_passes:
  assumes "assertImplementationReviewPreDeliveryBoundary H repo work kind reviews c ids records = Inr res"
    and "checkId \<in> set ids" and "js_trim checkId \<noteq> []"
  shows "\<exists>newer r older receipt. records = newer @ r # older \<and>
     (\<forall>q\<in>set newer. \<not> matches_check (js_trim checkId) (ca_sourceRevision c) (ca_verificationWorkspaceFingerprint c) q) \<and>
     matches_check (js_trim checkId) (ca_sourceRevision c) (ca_verificationWorkspaceFingerprint c) r \<and>
     rvr_outcome r = ''valid_pass'' \<and> rvr_receipt r = Some receipt \<and>
     vr_repoId receipt = repo \<and> vr_workId receipt = Some work \<and> vr_checkId receipt = js_trim checkId \<and>
     vr_ok receipt \<and> \<not> vr_timedOut receipt \<and> \<not> vr_cancelled receipt \<and>
     vr_status receipt = ''passed'' \<and> vr_runtimeStatus receipt = ''succeeded''"
proof -
  from boundary_facts [OF assms(1)] obtain ev where
    "authoritativeImplementationReviewVerificationEvidence H repo work ids records (ca_sourceRevision c)
       (ca_verificationWorkspaceFingerprint c) = Inr (ev, [])" by metis
  from authoritative_evidence_complete [OF this assms(2,3)] obtain r where
    "current_check_record records (js_trim checkId) (ca_sourceRevision c) (ca_verificationWorkspaceFingerprint c) = Some r"
    and "authoritative_pass repo work (js_trim checkId) (Some r)"
    by (auto simp: authoritative_pass_def split: option.splits)
  then show ?thesis
    by (fastforce simp: current_check_record_Some authoritative_pass_def split: option.splits)
qed

theorem delivery_boundary_newest_record_passes_witness:
  "\<exists>newer r older receipt. [example_pass] = newer @ r # older \<and>
     (\<forall>q\<in>set newer. \<not> matches_check (js_trim ''unit'') (ca_sourceRevision example_candidate)
        (ca_verificationWorkspaceFingerprint example_candidate) q) \<and>
     matches_check (js_trim ''unit'') (ca_sourceRevision example_candidate)
        (ca_verificationWorkspaceFingerprint example_candidate) r \<and>
     rvr_outcome r = ''valid_pass'' \<and> rvr_receipt r = Some receipt \<and>
     vr_repoId receipt = ''repo'' \<and> vr_workId receipt = Some ''work-1'' \<and> vr_checkId receipt = js_trim ''unit'' \<and>
     vr_ok receipt \<and> \<not> vr_timedOut receipt \<and> \<not> vr_cancelled receipt \<and>
     vr_status receipt = ''passed'' \<and> vr_runtimeStatus receipt = ''succeeded''"
  by (rule delivery_boundary_newest_record_passes [OF example_boundary]) code_simp+

text \<open>
  When the boundary lets a Work of a source-changing kind through, it returns the latest
  record of the history, and that record is an approval for this very Work that names the
  candidate.
\<close>

theorem delivery_boundary_returns_latest_approval:
  assumes "assertImplementationReviewPreDeliveryBoundary H repo work kind reviews c ids records = Inr res"
    and "kind = ''repository_change'' \<or> kind = ''completed_no_change''"
  shows "\<exists>earlier r. reviews = Some (earlier @ [r]) \<and> res = Some r \<and> rv_workId r = work \<and>
     rv_decision r = Decision_approved \<and> names_candidate H r c"
proof -
  from boundary_facts [OF assms(1)] obtain g where g: "evaluateImplementationReviewGate H kind reviews c = Inr g"
    "gr_approved g" "gr_review g = res" and w: "\<forall>r. res = Some r \<longrightarrow> rv_workId r = work" by metis
  have "workRequiresImplementationReview H kind (ca_changedPaths c) = Inr True"
    using assms(2) by (auto simp: workRequiresImplementationReview_def)
  with gate_required_iff [OF g(1)] have "gr_required g" by simp
  with gate_reviewless [OF g(1)] g(2,3) obtain r where r: "res = Some r" by (cases res) auto
  with gate_review_latest [OF g(1)] g(3) obtain earlier where e: "reviews = Some (earlier @ [r])" "gr_required g" by auto
  from gate_on_history(2) [OF g(1) [unfolded e(1)] e(2)] g(2) w r e(1) show ?thesis by auto
qed

theorem delivery_boundary_returns_latest_approval_witness:
  "\<exists>earlier r. Some [example_review] = Some (earlier @ [r]) \<and> Some example_review = Some r \<and> rv_workId r = ''work-1'' \<and>
     rv_decision r = Decision_approved \<and> names_candidate example_host r example_candidate"
  by (rule delivery_boundary_returns_latest_approval [OF example_boundary]) simp

text \<open>
  C4.  A replacement of the review history is accepted exactly when it extends the current
  history, has at most 256 records with distinct identifiers, and all of them validate.
\<close>

theorem review_history_accepted_iff:
  "assertImplementationReviewHistoryAppendOnly H current next = Inr () \<longleftrightarrow>
     (\<exists>added. coalesce next [] = coalesce current [] @ added) \<and>
     length (coalesce next []) \<le> 256 \<and>
     distinct (map rv_reviewId (coalesce next [])) \<and>
     (\<forall>r\<in>set (coalesce next []). validateImplementationReviewRecord H r = Inr ())"
  by (simp add: history_accepted_iff prefix_def MAX_IMPLEMENTATION_REVIEW_HISTORY_def)

theorem review_history_accepted_iff_witness:
  "assertImplementationReviewHistoryAppendOnly example_host (Some [example_review]) (Some [example_review, example_derived]) = Inr () \<longleftrightarrow>
     (\<exists>added. coalesce (Some [example_review, example_derived]) [] = coalesce (Some [example_review]) [] @ added) \<and>
     length (coalesce (Some [example_review, example_derived]) []) \<le> 256 \<and>
     distinct (map rv_reviewId (coalesce (Some [example_review, example_derived]) [])) \<and>
     (\<forall>r\<in>set (coalesce (Some [example_review, example_derived]) []). validateImplementationReviewRecord example_host r = Inr ())"
  by (rule review_history_accepted_iff)

text \<open>
  C5.  The review history only grows: after any sequence of accepted replacements every earlier record
  stands at the position it had, unchanged and none dropped; a review identifier keeps naming the
  same record; and a history that was replaced at all has at most 256 records, all of which validate.
\<close>

theorem review_decisions_are_immutable:
  assumes "(\<lambda>current next. assertImplementationReviewHistoryAppendOnly H (Some current) (Some next) = Inr ())\<^sup>*\<^sup>* start later"
    and "distinct (map rv_reviewId start)"
  shows "(\<exists>added. later = start @ added) \<and>
    (\<forall>r\<in>set start. \<forall>r'\<in>set later. rv_reviewId r = rv_reviewId r' \<longrightarrow> r = r') \<and>
    (later \<noteq> start \<longrightarrow> length later \<le> 256 \<and> (\<forall>r\<in>set later. validateImplementationReviewRecord H r = Inr ()))"
proof -
  let ?accepts = "\<lambda>current next. assertImplementationReviewHistoryAppendOnly H (Some current) (Some next) = Inr ()"
  have "prefix start later" using assms(1) by (rule review_log.accepted_prefix)
  moreover have "r = r'" if "r \<in> set start" "r' \<in> set later" "rv_reviewId r = rv_reviewId r'" for r r'
    using assms that by (rule review_log.accepted_entry)
  moreover have "length later \<le> 256 \<and> (\<forall>r\<in>set later. validateImplementationReviewRecord H r = Inr ())" if "later \<noteq> start"
  proof -
    from assms(1) show ?thesis
      by cases (use that in \<open>simp_all add: history_accepted_iff MAX_IMPLEMENTATION_REVIEW_HISTORY_def\<close>)
  qed
  ultimately show ?thesis by (auto simp: prefix_def)
qed

theorem review_decisions_are_immutable_witness:
  "\<exists>added. [example_review, example_derived] = [example_review] @ added \<and>
     list_all (\<lambda>r. validateImplementationReviewRecord example_host r = Inr ()) ([example_review] @ added)"
proof -
  let ?accepts = "\<lambda>current next. assertImplementationReviewHistoryAppendOnly example_host (Some current) (Some next) = Inr ()"
  have "?accepts [] [example_review]" "?accepts [example_review] [example_review, example_derived]" by code_simp+
  then have steps: "?accepts\<^sup>*\<^sup>* [example_review] [example_review, example_derived]" by blast
  have "distinct (map rv_reviewId [example_review])" by simp
  from review_decisions_are_immutable [OF steps this] show ?thesis by (auto simp: list_all_iff)
qed

text \<open>
  The changed paths of a record that validates are canonical once trimmed: with forward
  slashes and no leading \<open>./\<close>, relative, without empty, \<open>.\<close> or \<open>..\<close> segments and without NUL;
  no two of them are the same path.
\<close>

theorem validated_review_paths_are_safe:
  assumes "validateImplementationReviewRecord H r = Inr ()"
  shows "list_all (\<lambda>p. canonical_path (js_trim p)) (rv_changedPaths r) \<and> distinct (map js_trim (rv_changedPaths r))"
proof -
  from validated_facts [OF assms] obtain qs where
    n: "normalizeImplementationReviewChangedPaths H (rv_changedPaths r) = Inr qs" by metis
  show ?thesis using validated_paths [OF assms n] by (auto simp: list_all_iff)
qed

theorem validated_review_paths_are_safe_witness:
  "list_all (\<lambda>p. canonical_path (js_trim p)) (rv_changedPaths example_review)
     \<and> distinct (map js_trim (rv_changedPaths example_review))"
  by (rule validated_review_paths_are_safe [OF example_review_valid])

text \<open>
  A review derived across a commit is an approval of the same Work for the same path set
  and the same workspace content as the review it derives from, the commit and the dirty
  workspace covered exactly those paths, and the delivery gate approves the post-commit
  candidate on it at once.
\<close>

theorem derived_review_authorizes_post_commit_candidate:
  assumes "host_collates H" and "deriveImplementationReviewAcrossCommit H work reviews p newId now = Inr d"
  shows "\<exists>earlier r ps ds cs g. reviews = earlier @ [r] \<and> rv_decision r = Decision_approved \<and>
     rv_decision d = Decision_approved \<and> rv_workId d = work \<and> rv_workId r = work \<and>
     rv_derivedFromReviewId d = Some (rv_reviewId r) \<and> rv_workspaceFingerprint d = rv_workspaceFingerprint r \<and>
     normalizeImplementationReviewChangedPaths H (rv_changedPaths r) = Inr ps \<and> set (rv_changedPaths d) = set ps \<and>
     normalizeImplementationReviewChangedPaths H (tp_preCommitDirtyPaths p) = Inr ds \<and> set ds = set ps \<and>
     normalizeImplementationReviewChangedPaths H (tp_committedPaths p) = Inr cs \<and> set cs = set ps \<and>
     validateImplementationReviewRecord H d = Inr () \<and>
     evaluateImplementationReviewGate H ''repository_change'' (Some (reviews @ [d])) (tp_postCommitCandidate p) = Inr g \<and>
     gr_approved g \<and> gr_review g = Some d"
proof -
  from derive_facts [OF assms(2)] obtain r where a: "transfer_authority H work reviews p = Inr r"
    and t: "transfer_paths H r p = Inr (rv_changedPaths d)" and v: "validateImplementationReviewRecord H d = Inr ()"
    and e: "rv_decision d = rv_decision r" "rv_workId d = rv_workId r" "rv_derivedFromReviewId d = Some (rv_reviewId r)"
      "rv_workspaceFingerprint d = ca_workspaceFingerprint (tp_postCommitCandidate p)" by metis
  note r = transfer_authority_facts [OF a]
  have "workRequiresImplementationReview H ''repository_change'' (ca_changedPaths (tp_postCommitCandidate p)) = Inr True"
    by (simp add: workRequiresImplementationReview_def)
  from gate_approves [OF this derived_names_post_candidate [OF assms], of reviews] e(1) r(1)
  obtain g where g: "evaluateImplementationReviewGate H ''repository_change'' (Some (reviews @ [d])) (tp_postCommitCandidate p) = Inr g"
    "gr_approved g" "gr_review g = Some d" by auto
  from transfer_paths_facts [OF t] obtain ps ds cs where
    "normalizeImplementationReviewChangedPaths H (rv_changedPaths r) = Inr ps"
    "normalizeImplementationReviewChangedPaths H (tp_preCommitDirtyPaths p) = Inr ds"
    "normalizeImplementationReviewChangedPaths H (tp_committedPaths p) = Inr cs"
    "set (rv_changedPaths d) = set ps" "set ds = set ps" "set cs = set ps" by metis
  with g r e v show ?thesis by (metis (no_types, lifting))
qed

theorem derived_review_authorizes_post_commit_candidate_witness:
  "\<exists>earlier r ps ds cs g. [example_review] = earlier @ [r] \<and> rv_decision r = Decision_approved \<and>
     rv_decision example_derived = Decision_approved \<and> rv_workId example_derived = ''work-1'' \<and> rv_workId r = ''work-1'' \<and>
     rv_derivedFromReviewId example_derived = Some (rv_reviewId r) \<and>
     rv_workspaceFingerprint example_derived = rv_workspaceFingerprint r \<and>
     normalizeImplementationReviewChangedPaths example_host (rv_changedPaths r) = Inr ps \<and>
     set (rv_changedPaths example_derived) = set ps \<and>
     normalizeImplementationReviewChangedPaths example_host (tp_preCommitDirtyPaths example_transfer) = Inr ds \<and> set ds = set ps \<and>
     normalizeImplementationReviewChangedPaths example_host (tp_committedPaths example_transfer) = Inr cs \<and> set cs = set ps \<and>
     validateImplementationReviewRecord example_host example_derived = Inr () \<and>
     evaluateImplementationReviewGate example_host ''repository_change'' (Some ([example_review] @ [example_derived]))
       (tp_postCommitCandidate example_transfer) = Inr g \<and>
     gr_approved g \<and> gr_review g = Some example_derived"
  by (rule derived_review_authorizes_post_commit_candidate [OF example_host_collates example_derivation])

text \<open>
  The evidence normalisation returns exactly when no identity is blank after trimming and
  no identifier has two digests; what it returns has the trimmed identities, each identifier
  once, and normalising it again changes nothing.
\<close>

theorem evidence_normal_form:
  assumes "host_collates H"
  shows "case normalizeImplementationReviewEvidence H vs of
     Inl e \<Rightarrow> (\<exists>v\<in>set vs. blank_identity v) \<or> \<not> single_valued (trimmed_identity ` set vs)
   | Inr es \<Rightarrow> \<not> (\<exists>v\<in>set vs. blank_identity v) \<and> single_valued (trimmed_identity ` set vs) \<and>
       evidence_pair ` set es = trimmed_identity ` set vs \<and> distinct (map ei_evidenceId es) \<and>
       normalizeImplementationReviewEvidence H es = Inr es"
proof (cases "normalizeImplementationReviewEvidence H vs")
  case (Inl e)
  then show ?thesis using normalize_evidence_total [of H vs] by auto
next
  case (Inr es)
  then show ?thesis using normalize_evidence_total [of H vs] normalize_evidence_Inr [OF Inr]
      normalize_evidence_fixed [OF assms Inr] by auto
qed

theorem evidence_normal_form_witness:
  "case normalizeImplementationReviewEvidence example_host example_evidence of
     Inl e \<Rightarrow> (\<exists>v\<in>set example_evidence. blank_identity v) \<or> \<not> single_valued (trimmed_identity ` set example_evidence)
   | Inr es \<Rightarrow> \<not> (\<exists>v\<in>set example_evidence. blank_identity v) \<and> single_valued (trimmed_identity ` set example_evidence) \<and>
       evidence_pair ` set es = trimmed_identity ` set example_evidence \<and> distinct (map ei_evidenceId es) \<and>
       normalizeImplementationReviewEvidence example_host es = Inr es"
  by (rule evidence_normal_form [OF example_host_collates])

section \<open>The path guard can be evaded\<close>

text \<open>
  \<open>normalizeImplementationReviewChangedPaths\<close> checks a path after removing a leading \<open>./\<close> and
  trims it once more afterwards, so white space behind the prefix hides an absolute path or a
  parent segment from the check.  A validated record (C6) is safe all the same, because its
  paths must already be equal to their normal forms.
\<close>

lemma path_guard_evaded:
  "normalizeImplementationReviewChangedPaths example_host [''./ /etc/passwd''] = Inr [''/etc/passwd'']"
  "normalizeImplementationReviewChangedPaths example_host [''./ ..''] = Inr [''..'']"
  by code_simp+

end
