(* ===== verification/EngineeringDesign.thy ===== *)
theory EngineeringDesign
  imports WorkTypes JsJson
begin

text \<open>
  The governance receipts of \<open>packages/kernel/work/domain/engineering-design.ts\<close>: the product
  definition of done, the design decision, the independent critique and the blocker
  disposition.  A draft is normalised field by field, its receipt identifier is a digest of
  the rendered normal form, and validation rebuilds the receipt and compares identifiers.  A
  receipt record extends its draft record, as the interface of the draft omits the two
  receipt fields, so a receipt is itself a draft.
\<close>

section \<open>Normalisation of untrusted values\<close>

definition MAX_ITEMS :: nat where "MAX_ITEMS = 64"
definition MAX_TEXT :: nat where "MAX_TEXT = 2000"
definition MAX_COMPLEXITY_COUNT :: int where "MAX_COMPLEXITY_COUNT = 10000"

text \<open>A value of type \<open>unknown\<close> is a JSON value or absent.\<close>

type_synonym unknown = "json option"

definition req_text :: "unknown \<Rightarrow> string \<Rightarrow> string res" where
  "req_text value code =
     (case value of
        Some (JStr v) \<Rightarrow>
          (let out = js_trim v in
           bindE (throw_if (out = [] \<or> length out > MAX_TEXT) code) (\<lambda>_. Inr out))
      | _ \<Rightarrow> throw code)"

definition req_timestamp :: "js_host \<Rightarrow> unknown \<Rightarrow> string \<Rightarrow> string res" where
  "req_timestamp H value code =
     bindE (req_text value code) (\<lambda>out.
     bindE (throw_if (date_parse H out = None) code) (\<lambda>_. Inr out))"

definition req_list :: "unknown \<Rightarrow> string \<Rightarrow> bool \<Rightarrow> string list res" where
  "req_list value code required =
     (case value of
        Some (JArr vs) \<Rightarrow>
          bindE (throw_if (length vs > MAX_ITEMS) code) (\<lambda>_.
          bindE (map_res (\<lambda>v. req_text (Some v) code) vs) (\<lambda>out.
          bindE (throw_if (required \<and> out = []) code) (\<lambda>_.
          bindE (throw_if (length (js_uniq out) \<noteq> length out) (code @ ''_DUPLICATE'')) (\<lambda>_. Inr out))))
      | _ \<Rightarrow> throw code)"

definition req_count :: "js_number \<Rightarrow> string \<Rightarrow> js_number res" where
  "req_count value code =
     (case value of
        Finite r \<Rightarrow> if r = of_int (js_trunc r) \<and> 0 \<le> r \<and> r \<le> of_int MAX_COMPLEXITY_COUNT
                    then Inr (Finite r) else throw code
      | NotFinite \<Rightarrow> throw code)"

definition receiptId :: "js_host \<Rightarrow> string \<Rightarrow> json \<Rightarrow> string" where
  "receiptId H prefix payload = prefix @ ''_'' @ take 32 (sha256_hex H (json_stringify payload))"

abbreviation of_str :: "string \<Rightarrow> unknown" where "of_str s \<equiv> Some (JStr s)"
abbreviation of_strs :: "string list \<Rightarrow> unknown" where "of_strs ss \<equiv> Some (json_strings ss)"

definition engineeringRequirementContextDigest :: "js_host \<Rightarrow> string \<Rightarrow> string list \<Rightarrow> string res" where
  "engineeringRequirementContextDigest H objective acceptanceCriteria =
     bindE (req_text (of_str objective) ''ENGINEERING_REQUIREMENT_OBJECTIVE_REQUIRED'') (\<lambda>objective.
     bindE (req_list (of_strs acceptanceCriteria) ''ENGINEERING_REQUIREMENT_ACCEPTANCE_REQUIRED'' False) (\<lambda>acceptanceCriteria.
     Inr (sha256_hex H (json_stringify (JObj [(''objective'', JStr objective),
       (''acceptanceCriteria'', json_strings acceptanceCriteria)])))))"

text \<open>The regular expression \<open>/^[a-f0-9]{64}$/\<close>.\<close>

definition hex64 :: "string \<Rightarrow> bool" where
  "hex64 s \<longleftrightarrow> length s = 64 \<and>
     list_all (\<lambda>c. CHR ''a'' \<le> c \<and> c \<le> CHR ''f'' \<or> CHR ''0'' \<le> c \<and> c \<le> CHR ''9'') s"

definition req_digest :: "unknown \<Rightarrow> string \<Rightarrow> string res" where
  "req_digest value code =
     bindE (req_text value code) (\<lambda>normalized.
     bindE (throw_if (\<not> hex64 normalized) code) (\<lambda>_. Inr normalized))"

section \<open>Product definition of done\<close>

record product_dod_draft =
  pd_sourceRevision :: string
  pd_userOutcome :: string
  pd_completionConditions :: "string list"
  pd_nonRegression :: "string list"
  pd_performanceExpectations :: "string list"
  pd_nonGoals :: "string list"
  pd_recordedAt :: string

record product_dod_receipt = product_dod_draft +
  pd_schemaVersion :: int
  pd_receiptId :: string

definition product_dod_json :: "'a product_dod_draft_scheme \<Rightarrow> json" where
  "product_dod_json d = JObj [
     (''sourceRevision'', JStr (pd_sourceRevision d)),
     (''userOutcome'', JStr (pd_userOutcome d)),
     (''completionConditions'', json_strings (pd_completionConditions d)),
     (''nonRegression'', json_strings (pd_nonRegression d)),
     (''performanceExpectations'', json_strings (pd_performanceExpectations d)),
     (''nonGoals'', json_strings (pd_nonGoals d)),
     (''recordedAt'', JStr (pd_recordedAt d))]"

definition normalizeProductDoD :: "js_host \<Rightarrow> 'a product_dod_draft_scheme \<Rightarrow> product_dod_draft res" where
  "normalizeProductDoD H input =
     bindE (req_text (of_str (pd_sourceRevision input)) ''PRODUCT_DOD_SOURCE_REQUIRED'') (\<lambda>sourceRevision.
     bindE (req_text (of_str (pd_userOutcome input)) ''PRODUCT_DOD_USER_OUTCOME_REQUIRED'') (\<lambda>userOutcome.
     bindE (req_list (of_strs (pd_completionConditions input)) ''PRODUCT_DOD_COMPLETION_REQUIRED'' True) (\<lambda>completionConditions.
     bindE (req_list (of_strs (pd_nonRegression input)) ''PRODUCT_DOD_NON_REGRESSION_REQUIRED'' True) (\<lambda>nonRegression.
     bindE (req_list (of_strs (pd_performanceExpectations input)) ''PRODUCT_DOD_PERFORMANCE_REQUIRED'' True) (\<lambda>performanceExpectations.
     bindE (req_list (of_strs (pd_nonGoals input)) ''PRODUCT_DOD_NON_GOALS_REQUIRED'' True) (\<lambda>nonGoals.
     bindE (req_timestamp H (of_str (pd_recordedAt input)) ''PRODUCT_DOD_RECORDED_AT_INVALID'') (\<lambda>recordedAt.
     Inr \<lparr>pd_sourceRevision = sourceRevision, pd_userOutcome = userOutcome,
       pd_completionConditions = completionConditions, pd_nonRegression = nonRegression,
       pd_performanceExpectations = performanceExpectations, pd_nonGoals = nonGoals,
       pd_recordedAt = recordedAt\<rparr>)))))))"

definition buildProductDoDReceipt :: "js_host \<Rightarrow> 'a product_dod_draft_scheme \<Rightarrow> product_dod_receipt res" where
  "buildProductDoDReceipt H input =
     bindE (normalizeProductDoD H input) (\<lambda>normalized.
     Inr (product_dod_draft.extend normalized
       (product_dod_receipt.fields 1 (receiptId H ''product_dod'' (product_dod_json normalized)))))"

definition validateProductDoDReceipt :: "js_host \<Rightarrow> product_dod_receipt \<Rightarrow> product_dod_receipt res" where
  "validateProductDoDReceipt H value =
     bindE (throw_if (pd_schemaVersion value \<noteq> 1) ''PRODUCT_DOD_SCHEMA_INVALID'') (\<lambda>_.
     bindE (buildProductDoDReceipt H value) (\<lambda>expected.
     bindE (throw_if (pd_receiptId value \<noteq> pd_receiptId expected) ''PRODUCT_DOD_RECEIPT_ID_INVALID'') (\<lambda>_.
     Inr expected)))"

section \<open>Complexity budget\<close>

record complexity_budget =
  cb_addedWriters :: js_number
  cb_addedDurableMechanisms :: js_number
  cb_projectionPaths :: js_number
  cb_globalInvalidations :: js_number
  cb_lifecycleHooks :: js_number
  cb_synchronousCriticalPathWork :: js_number
  cb_notes :: "string list option"

definition normalizeComplexityBudget :: "complexity_budget \<Rightarrow> complexity_budget res" where
  "normalizeComplexityBudget value =
     bindE (req_count (cb_addedWriters value) ''ENGINEERING_COMPLEXITY_WRITERS_INVALID'') (\<lambda>addedWriters.
     bindE (req_count (cb_addedDurableMechanisms value) ''ENGINEERING_COMPLEXITY_DURABLE_INVALID'') (\<lambda>addedDurableMechanisms.
     bindE (req_count (cb_projectionPaths value) ''ENGINEERING_COMPLEXITY_PROJECTION_INVALID'') (\<lambda>projectionPaths.
     bindE (req_count (cb_globalInvalidations value) ''ENGINEERING_COMPLEXITY_INVALIDATIONS_INVALID'') (\<lambda>globalInvalidations.
     bindE (req_count (cb_lifecycleHooks value) ''ENGINEERING_COMPLEXITY_LIFECYCLE_INVALID'') (\<lambda>lifecycleHooks.
     bindE (req_count (cb_synchronousCriticalPathWork value) ''ENGINEERING_COMPLEXITY_CRITICAL_PATH_INVALID'') (\<lambda>criticalPath.
     bindE (req_list (of_strs (coalesce (cb_notes value) [])) ''ENGINEERING_COMPLEXITY_NOTES_INVALID'' False) (\<lambda>notes.
     Inr \<lparr>cb_addedWriters = addedWriters, cb_addedDurableMechanisms = addedDurableMechanisms,
       cb_projectionPaths = projectionPaths, cb_globalInvalidations = globalInvalidations,
       cb_lifecycleHooks = lifecycleHooks, cb_synchronousCriticalPathWork = criticalPath,
       cb_notes = Some notes\<rparr>)))))))"

text \<open>
  Rendering of a number.  Only budgets that \<open>req_count\<close> let through are rendered, so the
  number is an integer.
\<close>

definition number_json :: "js_number \<Rightarrow> json" where
  "number_json n = (case n of Finite r \<Rightarrow> JNum (js_trunc r) | NotFinite \<Rightarrow> JNull)"

definition complexity_json :: "complexity_budget \<Rightarrow> json" where
  "complexity_json b = JObj [
     (''addedWriters'', number_json (cb_addedWriters b)),
     (''addedDurableMechanisms'', number_json (cb_addedDurableMechanisms b)),
     (''projectionPaths'', number_json (cb_projectionPaths b)),
     (''globalInvalidations'', number_json (cb_globalInvalidations b)),
     (''lifecycleHooks'', number_json (cb_lifecycleHooks b)),
     (''synchronousCriticalPathWork'', number_json (cb_synchronousCriticalPathWork b)),
     (''notes'', json_strings (coalesce (cb_notes b) []))]"

section \<open>Design decision\<close>

definition ENGINEERING_MUTATION_CLASSES :: "mutation_class list" where
  "ENGINEERING_MUTATION_CLASSES = [Mut_readonly, Mut_isolated_write, Mut_integration_write, Mut_external_effect]"

fun mutation_str :: "mutation_class \<Rightarrow> string" where
  "mutation_str Mut_readonly = ''readonly''"
| "mutation_str Mut_isolated_write = ''isolated_write''"
| "mutation_str Mut_integration_write = ''integration_write''"
| "mutation_str Mut_external_effect = ''external_effect''"

datatype decision_area =
    Area_ownership | Area_singleWriter | Area_transaction | Area_lifecycle | Area_concurrency | Area_persistence
  | Area_failure | Area_projectionCache | Area_time | Area_performance | Area_compatibility
  | Area_semanticScopeIdentity | Area_authorizationTrust | Area_resourceFencing | Area_deploymentTopology
  | Area_schemaEvolutionDurability | Area_idempotencyReplay | Area_retentionGc | Area_observabilityEvidence
  | Area_recoveryFailureDomain | Area_capacityBackpressure | Area_releaseUpgradeRollback | Area_securityPrivacy
  | Area_portability | Area_migrationRetirement

definition ENGINEERING_DECISION_AREAS_V1 :: "decision_area list" where
  "ENGINEERING_DECISION_AREAS_V1 = [Area_ownership, Area_singleWriter, Area_transaction, Area_lifecycle,
     Area_concurrency, Area_persistence, Area_failure, Area_projectionCache, Area_time, Area_performance,
     Area_compatibility]"

definition ENGINEERING_DECISION_AREAS :: "decision_area list" where
  "ENGINEERING_DECISION_AREAS = ENGINEERING_DECISION_AREAS_V1 @ [Area_semanticScopeIdentity,
     Area_authorizationTrust, Area_resourceFencing, Area_deploymentTopology, Area_schemaEvolutionDurability,
     Area_idempotencyReplay, Area_retentionGc, Area_observabilityEvidence, Area_recoveryFailureDomain,
     Area_capacityBackpressure, Area_releaseUpgradeRollback, Area_securityPrivacy, Area_portability,
     Area_migrationRetirement]"

fun area_str :: "decision_area \<Rightarrow> string" where
  "area_str Area_ownership = ''ownership''"
| "area_str Area_singleWriter = ''singleWriter''"
| "area_str Area_transaction = ''transaction''"
| "area_str Area_lifecycle = ''lifecycle''"
| "area_str Area_concurrency = ''concurrency''"
| "area_str Area_persistence = ''persistence''"
| "area_str Area_failure = ''failure''"
| "area_str Area_projectionCache = ''projectionCache''"
| "area_str Area_time = ''time''"
| "area_str Area_performance = ''performance''"
| "area_str Area_compatibility = ''compatibility''"
| "area_str Area_semanticScopeIdentity = ''semanticScopeIdentity''"
| "area_str Area_authorizationTrust = ''authorizationTrust''"
| "area_str Area_resourceFencing = ''resourceFencing''"
| "area_str Area_deploymentTopology = ''deploymentTopology''"
| "area_str Area_schemaEvolutionDurability = ''schemaEvolutionDurability''"
| "area_str Area_idempotencyReplay = ''idempotencyReplay''"
| "area_str Area_retentionGc = ''retentionGc''"
| "area_str Area_observabilityEvidence = ''observabilityEvidence''"
| "area_str Area_recoveryFailureDomain = ''recoveryFailureDomain''"
| "area_str Area_capacityBackpressure = ''capacityBackpressure''"
| "area_str Area_releaseUpgradeRollback = ''releaseUpgradeRollback''"
| "area_str Area_securityPrivacy = ''securityPrivacy''"
| "area_str Area_portability = ''portability''"
| "area_str Area_migrationRetirement = ''migrationRetirement''"

text \<open>
  The decisions of a draft are an object whose properties may be missing: an association list
  in insertion order.
\<close>

record design_decision_draft =
  dd_sourceRevision :: string
  dd_contextClosureReceiptId :: string
  dd_productDodReceiptId :: string
  dd_semanticScopeKeys :: "string list"
  dd_mutationClass :: mutation_class
  dd_decisions :: "(decision_area \<times> string) list"
  dd_complexityBudget :: complexity_budget
  dd_supersedesReceiptId :: "string option"
  dd_recordedAt :: string

record design_decision_receipt = design_decision_draft +
  dd_schemaVersion :: int
  dd_receiptId :: string

definition design_decision_json :: "'a design_decision_draft_scheme \<Rightarrow> json" where
  "design_decision_json d = JObj ([
     (''sourceRevision'', JStr (dd_sourceRevision d)),
     (''contextClosureReceiptId'', JStr (dd_contextClosureReceiptId d)),
     (''productDodReceiptId'', JStr (dd_productDodReceiptId d)),
     (''semanticScopeKeys'', json_strings (dd_semanticScopeKeys d)),
     (''mutationClass'', JStr (mutation_str (dd_mutationClass d))),
     (''decisions'', JObj (map (\<lambda>(a, t). (area_str a, JStr t)) (dd_decisions d))),
     (''complexityBudget'', complexity_json (dd_complexityBudget d))]
     @ json_opt ''supersedesReceiptId'' JStr (dd_supersedesReceiptId d)
     @ [(''recordedAt'', JStr (dd_recordedAt d))])"

definition decision_text :: "(decision_area \<times> string) list \<Rightarrow> decision_area \<Rightarrow> (decision_area \<times> string) res" where
  "decision_text decisions area =
     bindE (req_text (map_option JStr (map_of decisions area))
              (''DESIGN_DECISION_'' @ js_upper (area_str area) @ ''_REQUIRED'')) (\<lambda>t. Inr (area, t))"

definition normalizeDesignDecision ::
    "js_host \<Rightarrow> 'a design_decision_draft_scheme \<Rightarrow> decision_area list \<Rightarrow> design_decision_draft res" where
  "normalizeDesignDecision H input areas =
     bindE (throw_if (dd_mutationClass input \<notin> set ENGINEERING_MUTATION_CLASSES) ''ENGINEERING_MUTATION_CLASS_INVALID'') (\<lambda>_.
     bindE (map_res (decision_text (dd_decisions input)) areas) (\<lambda>decisions.
     let supersedesReceiptId = (case dd_supersedesReceiptId input of None \<Rightarrow> None | Some s \<Rightarrow> some_str (js_trim s)) in
     bindE (req_text (of_str (dd_sourceRevision input)) ''DESIGN_DECISION_SOURCE_REQUIRED'') (\<lambda>sourceRevision.
     bindE (req_text (of_str (dd_contextClosureReceiptId input)) ''DESIGN_DECISION_CONTEXT_CLOSURE_REQUIRED'') (\<lambda>contextClosureReceiptId.
     bindE (req_text (of_str (dd_productDodReceiptId input)) ''DESIGN_DECISION_PRODUCT_DOD_REQUIRED'') (\<lambda>productDodReceiptId.
     bindE (req_list (of_strs (dd_semanticScopeKeys input)) ''DESIGN_DECISION_SEMANTIC_SCOPE_REQUIRED'' True) (\<lambda>semanticScopeKeys.
     bindE (normalizeComplexityBudget (dd_complexityBudget input)) (\<lambda>complexityBudget.
     bindE (req_timestamp H (of_str (dd_recordedAt input)) ''DESIGN_DECISION_RECORDED_AT_INVALID'') (\<lambda>recordedAt.
     Inr \<lparr>dd_sourceRevision = sourceRevision, dd_contextClosureReceiptId = contextClosureReceiptId,
       dd_productDodReceiptId = productDodReceiptId, dd_semanticScopeKeys = semanticScopeKeys,
       dd_mutationClass = dd_mutationClass input, dd_decisions = decisions,
       dd_complexityBudget = complexityBudget, dd_supersedesReceiptId = supersedesReceiptId,
       dd_recordedAt = recordedAt\<rparr>))))))))"

definition buildDesignDecisionContractReceipt ::
    "js_host \<Rightarrow> 'a design_decision_draft_scheme \<Rightarrow> design_decision_receipt res" where
  "buildDesignDecisionContractReceipt H input =
     bindE (normalizeDesignDecision H input ENGINEERING_DECISION_AREAS) (\<lambda>normalized.
     let i = receiptId H ''design_decision'' (design_decision_json normalized) in
     bindE (throw_if (dd_supersedesReceiptId normalized = Some i) ''DESIGN_DECISION_CANNOT_SUPERSEDE_SELF'') (\<lambda>_.
     Inr (design_decision_draft.extend normalized (design_decision_receipt.fields 2 i))))"

definition validateDesignDecisionContractReceipt ::
    "js_host \<Rightarrow> design_decision_receipt \<Rightarrow> design_decision_receipt res" where
  "validateDesignDecisionContractReceipt H value =
     (if dd_schemaVersion value = 1 then
        bindE (normalizeDesignDecision H value ENGINEERING_DECISION_AREAS_V1) (\<lambda>normalized.
        bindE (throw_if (dd_receiptId value \<noteq> receiptId H ''design_decision'' (design_decision_json normalized))
                 ''DESIGN_DECISION_RECEIPT_ID_INVALID'') (\<lambda>_. Inr value))
      else
        bindE (throw_if (dd_schemaVersion value \<noteq> 2) ''DESIGN_DECISION_SCHEMA_INVALID'') (\<lambda>_.
        bindE (buildDesignDecisionContractReceipt H value) (\<lambda>expected.
        bindE (throw_if (dd_receiptId value \<noteq> dd_receiptId expected) ''DESIGN_DECISION_RECEIPT_ID_INVALID'') (\<lambda>_.
        Inr expected))))"

section \<open>Independent critique\<close>

datatype critique_decision = Critique_approved | Critique_changes_required | Critique_blocked

fun critique_str :: "critique_decision \<Rightarrow> string" where
  "critique_str Critique_approved = ''approved''"
| "critique_str Critique_changes_required = ''changes_required''"
| "critique_str Critique_blocked = ''blocked''"

datatype critique_severity = CSev_critical | CSev_high | CSev_medium | CSev_low | CSev_info

fun critique_severity_str :: "critique_severity \<Rightarrow> string" where
  "critique_severity_str CSev_critical = ''critical''"
| "critique_severity_str CSev_high = ''high''"
| "critique_severity_str CSev_medium = ''medium''"
| "critique_severity_str CSev_low = ''low''"
| "critique_severity_str CSev_info = ''info''"

record critique_finding =
  cf_severity :: critique_severity
  cf_summary :: string

record critique_draft =
  cr_sourceRevision :: string
  cr_contextClosureReceiptId :: string
  cr_productDodReceiptId :: string
  cr_designDecisionReceiptId :: string
  cr_requirementDigest :: string
  cr_projectContractDigest :: string
  cr_decision :: critique_decision
  cr_findings :: "critique_finding list"
  cr_recordedAt :: string

record critique_receipt = critique_draft +
  cr_schemaVersion :: int
  cr_receiptId :: string

definition critique_json :: "'a critique_draft_scheme \<Rightarrow> json" where
  "critique_json d = JObj [
     (''sourceRevision'', JStr (cr_sourceRevision d)),
     (''contextClosureReceiptId'', JStr (cr_contextClosureReceiptId d)),
     (''productDodReceiptId'', JStr (cr_productDodReceiptId d)),
     (''designDecisionReceiptId'', JStr (cr_designDecisionReceiptId d)),
     (''requirementDigest'', JStr (cr_requirementDigest d)),
     (''projectContractDigest'', JStr (cr_projectContractDigest d)),
     (''framing'', JStr ''fresh_requirement_source_contracts_only''),
     (''decision'', JStr (critique_str (cr_decision d))),
     (''findings'', JArr (map (\<lambda>f. JObj [(''severity'', JStr (critique_severity_str (cf_severity f))),
         (''summary'', JStr (cf_summary f))]) (cr_findings d))),
     (''recordedAt'', JStr (cr_recordedAt d))]"

definition critique_finding_normal :: "critique_finding \<Rightarrow> critique_finding res" where
  "critique_finding_normal finding =
     bindE (req_text (of_str (cf_summary finding)) ''ENGINEERING_CRITIQUE_SUMMARY_REQUIRED'') (\<lambda>summary.
     Inr \<lparr>cf_severity = cf_severity finding, cf_summary = summary\<rparr>)"

definition normalizeCritique :: "js_host \<Rightarrow> 'a critique_draft_scheme \<Rightarrow> critique_draft res" where
  "normalizeCritique H input =
     bindE (throw_if (length (cr_findings input) > MAX_ITEMS) ''ENGINEERING_CRITIQUE_FINDINGS_INVALID'') (\<lambda>_.
     bindE (map_res critique_finding_normal (cr_findings input)) (\<lambda>findings.
     bindE (throw_if (cr_decision input \<noteq> Critique_approved \<and> findings = []) ''ENGINEERING_CRITIQUE_FINDINGS_REQUIRED'') (\<lambda>_.
     bindE (req_text (of_str (cr_sourceRevision input)) ''ENGINEERING_CRITIQUE_SOURCE_REQUIRED'') (\<lambda>sourceRevision.
     bindE (req_text (of_str (cr_contextClosureReceiptId input)) ''ENGINEERING_CRITIQUE_CONTEXT_REQUIRED'') (\<lambda>contextClosureReceiptId.
     bindE (req_text (of_str (cr_productDodReceiptId input)) ''ENGINEERING_CRITIQUE_PRODUCT_DOD_REQUIRED'') (\<lambda>productDodReceiptId.
     bindE (req_text (of_str (cr_designDecisionReceiptId input)) ''ENGINEERING_CRITIQUE_DESIGN_REQUIRED'') (\<lambda>designDecisionReceiptId.
     bindE (req_digest (of_str (cr_requirementDigest input)) ''ENGINEERING_CRITIQUE_REQUIREMENT_DIGEST_INVALID'') (\<lambda>requirementDigest.
     bindE (req_digest (of_str (cr_projectContractDigest input)) ''ENGINEERING_CRITIQUE_PROJECT_CONTRACT_DIGEST_INVALID'') (\<lambda>projectContractDigest.
     bindE (req_timestamp H (of_str (cr_recordedAt input)) ''ENGINEERING_CRITIQUE_RECORDED_AT_INVALID'') (\<lambda>recordedAt.
     Inr \<lparr>cr_sourceRevision = sourceRevision, cr_contextClosureReceiptId = contextClosureReceiptId,
       cr_productDodReceiptId = productDodReceiptId, cr_designDecisionReceiptId = designDecisionReceiptId,
       cr_requirementDigest = requirementDigest, cr_projectContractDigest = projectContractDigest,
       cr_decision = cr_decision input, cr_findings = findings, cr_recordedAt = recordedAt\<rparr>))))))))))"

definition buildIndependentCritiqueReceipt :: "js_host \<Rightarrow> 'a critique_draft_scheme \<Rightarrow> critique_receipt res" where
  "buildIndependentCritiqueReceipt H input =
     bindE (normalizeCritique H input) (\<lambda>normalized.
     Inr (critique_draft.extend normalized
       (critique_receipt.fields 1 (receiptId H ''independent_critique'' (critique_json normalized)))))"

definition validateIndependentCritiqueReceipt :: "js_host \<Rightarrow> critique_receipt \<Rightarrow> critique_receipt res" where
  "validateIndependentCritiqueReceipt H value =
     bindE (throw_if (cr_schemaVersion value \<noteq> 1) ''ENGINEERING_CRITIQUE_SCHEMA_INVALID'') (\<lambda>_.
     bindE (buildIndependentCritiqueReceipt H value) (\<lambda>expected.
     bindE (throw_if (cr_receiptId value \<noteq> cr_receiptId expected) ''ENGINEERING_CRITIQUE_RECEIPT_ID_INVALID'') (\<lambda>_.
     Inr expected)))"

section \<open>Blocker disposition\<close>

datatype blocker_classification = Blocker_same_root_cause | Blocker_unrelated
datatype blocker_action = Action_return_to_design | Action_linked_work

record blocker_input =
  bi_sourceRevision :: string
  bi_blockerId :: string
  bi_classification :: blocker_classification
  bi_semanticScopeKeys :: "string list option"
  bi_linkedWorkId :: "string option"
  bi_rationale :: string
  bi_recordedAt :: string

record blocker_core =
  bd_sourceRevision :: string
  bd_blockerId :: string
  bd_classification :: blocker_classification
  bd_action :: blocker_action
  bd_semanticScopeKeys :: "string list"
  bd_linkedWorkId :: "string option"
  bd_rationale :: string
  bd_recordedAt :: string

record blocker_receipt = blocker_core +
  bd_schemaVersion :: int
  bd_receiptId :: string

definition blocker_json :: "'a blocker_core_scheme \<Rightarrow> json" where
  "blocker_json b = JObj ([
     (''sourceRevision'', JStr (bd_sourceRevision b)),
     (''blockerId'', JStr (bd_blockerId b)),
     (''classification'', JStr (case bd_classification b of
         Blocker_same_root_cause \<Rightarrow> ''same_root_cause'' | Blocker_unrelated \<Rightarrow> ''unrelated'')),
     (''action'', JStr (case bd_action b of
         Action_return_to_design \<Rightarrow> ''return_to_design'' | Action_linked_work \<Rightarrow> ''linked_work'')),
     (''semanticScopeKeys'', json_strings (bd_semanticScopeKeys b))]
     @ json_opt ''linkedWorkId'' JStr (bd_linkedWorkId b)
     @ [(''rationale'', JStr (bd_rationale b)), (''recordedAt'', JStr (bd_recordedAt b))])"

definition linked_work_text :: "string option \<Rightarrow> string option res" where
  "linked_work_text linked =
     (case linked of None \<Rightarrow> Inr None
      | Some w \<Rightarrow> bindE (req_text (of_str w) ''ENGINEERING_BLOCKER_LINKED_WORK_INVALID'') (\<lambda>t. Inr (Some t)))"

definition buildEngineeringBlockerDispositionReceipt :: "js_host \<Rightarrow> blocker_input \<Rightarrow> blocker_receipt res" where
  "buildEngineeringBlockerDispositionReceipt H input =
     (let linkedWorkId = (case bi_linkedWorkId input of None \<Rightarrow> None | Some w \<Rightarrow> some_str (js_trim w)) in
      bindE (throw_if (bi_classification input = Blocker_unrelated \<and> linkedWorkId = None)
               ''ENGINEERING_BLOCKER_LINKED_WORK_REQUIRED'') (\<lambda>_.
      bindE (throw_if (bi_classification input = Blocker_same_root_cause \<and> linkedWorkId \<noteq> None)
               ''ENGINEERING_BLOCKER_LINKED_WORK_FORBIDDEN'') (\<lambda>_.
      bindE (req_text (of_str (bi_sourceRevision input)) ''ENGINEERING_BLOCKER_SOURCE_REQUIRED'') (\<lambda>sourceRevision.
      bindE (req_text (of_str (bi_blockerId input)) ''ENGINEERING_BLOCKER_ID_REQUIRED'') (\<lambda>blockerId.
      bindE (req_list (of_strs (coalesce (bi_semanticScopeKeys input) [])) ''ENGINEERING_BLOCKER_SCOPE_INVALID'' False) (\<lambda>semanticScopeKeys.
      bindE (linked_work_text linkedWorkId) (\<lambda>linked.
      bindE (req_text (of_str (bi_rationale input)) ''ENGINEERING_BLOCKER_RATIONALE_REQUIRED'') (\<lambda>rationale.
      bindE (req_timestamp H (of_str (bi_recordedAt input)) ''ENGINEERING_BLOCKER_RECORDED_AT_INVALID'') (\<lambda>recordedAt.
      let core = \<lparr>bd_sourceRevision = sourceRevision, bd_blockerId = blockerId,
            bd_classification = bi_classification input,
            bd_action = (if bi_classification input = Blocker_same_root_cause then Action_return_to_design
                         else Action_linked_work),
            bd_semanticScopeKeys = semanticScopeKeys, bd_linkedWorkId = linked, bd_rationale = rationale,
            bd_recordedAt = recordedAt\<rparr> in
      Inr (blocker_core.extend core (blocker_receipt.fields 1
             (receiptId H ''engineering_blocker'' (blocker_json core)))))))))))))"

definition input_of_blocker :: "blocker_receipt \<Rightarrow> blocker_input" where
  "input_of_blocker b = \<lparr>bi_sourceRevision = bd_sourceRevision b, bi_blockerId = bd_blockerId b,
     bi_classification = bd_classification b, bi_semanticScopeKeys = Some (bd_semanticScopeKeys b),
     bi_linkedWorkId = bd_linkedWorkId b, bi_rationale = bd_rationale b, bi_recordedAt = bd_recordedAt b\<rparr>"

definition validateEngineeringBlockerDispositionReceipt :: "js_host \<Rightarrow> blocker_receipt \<Rightarrow> blocker_receipt res" where
  "validateEngineeringBlockerDispositionReceipt H value =
     bindE (throw_if (bd_schemaVersion value \<noteq> 1) ''ENGINEERING_BLOCKER_SCHEMA_INVALID'') (\<lambda>_.
     bindE (buildEngineeringBlockerDispositionReceipt H (input_of_blocker value)) (\<lambda>expected.
     bindE (throw_if (bd_receiptId value \<noteq> bd_receiptId expected \<or> bd_action value \<noteq> bd_action expected)
              ''ENGINEERING_BLOCKER_RECEIPT_ID_INVALID'') (\<lambda>_.
     Inr expected)))"

end
