(* ===== verification/EngineeringContracts.thy ===== *)
theory EngineeringContracts
  imports EngineeringDesign
begin

text \<open>
  The data of \<open>packages/kernel/work/domain/engineering-contracts.ts\<close>: risk classes and evidence
  kinds, the receipt of the project contract, the context closure receipt, the evidence a
  caller presents at admission and the engineering context persisted on a Work.  The
  validators of the two receipts declared here (\<open>project-engineering-contract.ts\<close>,
  \<open>context-closure-receipt.ts\<close>) follow their data.
\<close>

section \<open>Risk classes and evidence kinds\<close>

datatype engineering_risk = ERisk_low | ERisk_normal | ERisk_high | ERisk_critical

definition ENGINEERING_RISK_CLASSES :: "engineering_risk list" where
  "ENGINEERING_RISK_CLASSES = [ERisk_low, ERisk_normal, ERisk_high, ERisk_critical]"

fun risk_str :: "engineering_risk \<Rightarrow> string" where
  "risk_str ERisk_low = ''low''"
| "risk_str ERisk_normal = ''normal''"
| "risk_str ERisk_high = ''high''"
| "risk_str ERisk_critical = ''critical''"

datatype engineering_evidence_kind =
    EKind_project_contract | EKind_context_closure | EKind_product_dod | EKind_design_decision
  | EKind_independent_critique | EKind_semantic_tools | EKind_focused_validation
  | EKind_real_journey | EKind_fresh_review

datatype evidence_requirement = Req_required | Req_conditional | Req_optional

datatype source_identity = Source_revision string | Source_unborn | Source_unknown

datatype design_state = Design_ready | Design_revisit_required

section \<open>The project contract receipt\<close>

record provenance =
  pv_source :: string
  pv_loadedAt :: string

record project_contract_receipt =
  pr_schemaVersion :: int
  pr_contractPath :: string
  pr_projectId :: string
  pr_contractId :: string
  pr_contractVersion :: string
  pr_sourceRevision :: string
  pr_contentDigest :: string
  pr_provenance :: "provenance option"

definition validateProjectEngineeringContractReceipt ::
    "js_host \<Rightarrow> project_contract_receipt \<Rightarrow> project_contract_receipt res" where
  "validateProjectEngineeringContractReceipt H value =
     bindE (throw_if (pr_schemaVersion value \<noteq> 1) ''PROJECT_ENGINEERING_CONTRACT_RECEIPT_SCHEMA_INVALID'') (\<lambda>_.
     bindE (req_text (of_str (pr_contractPath value)) ''PROJECT_ENGINEERING_CONTRACT_RECEIPT_PATH_INVALID'') (\<lambda>contractPath.
     bindE (throw_if (starts_with ''/'' contractPath \<or> ''..'' \<in> set (js_split CHR ''/'' contractPath))
              ''PROJECT_ENGINEERING_CONTRACT_RECEIPT_PATH_INVALID'') (\<lambda>_.
     bindE (req_text (of_str (pr_sourceRevision value)) ''PROJECT_ENGINEERING_CONTRACT_RECEIPT_SOURCE_INVALID'') (\<lambda>sourceRevision.
     bindE (req_text (of_str (pr_contentDigest value)) ''PROJECT_ENGINEERING_CONTRACT_RECEIPT_DIGEST_INVALID'') (\<lambda>contentDigest.
     bindE (throw_if (\<not> hex64 contentDigest) ''PROJECT_ENGINEERING_CONTRACT_RECEIPT_DIGEST_INVALID'') (\<lambda>_.
     bindE (throw_if (case pr_provenance value of None \<Rightarrow> True
                | Some p \<Rightarrow> pv_source p \<noteq> ''repository'' \<or> date_parse H (pv_loadedAt p) = None)
              ''PROJECT_ENGINEERING_CONTRACT_RECEIPT_PROVENANCE_INVALID'') (\<lambda>_.
     bindE (req_text (of_str (pr_projectId value)) ''PROJECT_ENGINEERING_CONTRACT_RECEIPT_PROJECT_INVALID'') (\<lambda>projectId.
     bindE (req_text (of_str (pr_contractId value)) ''PROJECT_ENGINEERING_CONTRACT_RECEIPT_CONTRACT_INVALID'') (\<lambda>contractId.
     bindE (req_text (of_str (pr_contractVersion value)) ''PROJECT_ENGINEERING_CONTRACT_RECEIPT_VERSION_INVALID'') (\<lambda>contractVersion.
     Inr \<lparr>pr_schemaVersion = 1, pr_contractPath = contractPath, pr_projectId = projectId,
       pr_contractId = contractId, pr_contractVersion = contractVersion, pr_sourceRevision = sourceRevision,
       pr_contentDigest = contentDigest,
       pr_provenance = map_option (\<lambda>p. \<lparr>pv_source = ''repository'', pv_loadedAt = pv_loadedAt p\<rparr>)
         (pr_provenance value)\<rparr>))))))))))"

section \<open>Context closure\<close>

datatype closure_readiness = Closure_ready | Closure_degraded | Closure_insufficient
datatype closure_tool_status = Tools_ready | Tools_degraded | Tools_unavailable | Tools_not_required
datatype provider_status = Provider_ready | Provider_registered | Provider_degraded | Provider_unavailable
datatype guidance_status = Guidance_none | Guidance_ready | Guidance_degraded
datatype raw_source_status = Raw_current | Raw_partial | Raw_unavailable
datatype structural_status =
    Struct_disabled | Struct_ready | Struct_stale | Struct_unavailable | Struct_degraded

fun provider_status_str :: "provider_status \<Rightarrow> string" where
  "provider_status_str Provider_ready = ''ready''"
| "provider_status_str Provider_registered = ''registered''"
| "provider_status_str Provider_degraded = ''degraded''"
| "provider_status_str Provider_unavailable = ''unavailable''"

record skill_resolution =
  sk_id :: string
  sk_version :: "string option"
  sk_matchedKinds :: "string list"

record semantic_provider =
  sp_providerId :: string
  sp_languages :: "string list"
  sp_status :: provider_status
  sp_evidenceCount :: int

record recent_change =
  rc_revision :: string
  rc_committedAt :: string
  rc_summary :: string

record closure_repository =
  clr_branch :: "string option"
  clr_dirty :: bool
  clr_workId :: "string option"
  clr_activeWorkIds :: "string list"

record closure_skills =
  csk_status :: closure_tool_status
  csk_requiredKinds :: "string list"
  csk_resolved :: "skill_resolution list"
  csk_unresolvedKinds :: "string list"

record closure_semantic_tools =
  cst_required :: bool
  cst_status :: closure_tool_status
  cst_providers :: "semantic_provider list"
  cst_reasonCodes :: "string list"
  cst_compilerEvidenceRequired :: bool

record closure_source_evidence =
  cse_currentPaths :: "string list"
  cse_testPaths :: "string list"
  cse_recentChanges :: "recent_change list"
  cse_rawSourceStatus :: raw_source_status
  cse_structuralStatus :: structural_status

record context_closure =
  cc_schemaVersion :: int
  cc_receiptId :: string
  cc_sourceRevision :: "string option"
  cc_generatedAt :: string
  cc_contextPackSchemaVersion :: int
  cc_repository :: closure_repository
  cc_projectContract :: "project_contract_receipt option"
  cc_projectContractReady :: bool
  cc_guidanceStatus :: guidance_status
  cc_guidancePaths :: "string list"
  cc_languages :: "string list"
  cc_platforms :: "string list"
  cc_skills :: closure_skills
  cc_semanticTools :: closure_semantic_tools
  cc_sourceEvidence :: closure_source_evidence
  cc_readiness :: closure_readiness
  cc_reasonCodes :: "string list"
  cc_provenanceSource :: "string option"
  cc_contextGeneratedAt :: string

definition closure_unique :: "string list \<Rightarrow> nat \<Rightarrow> string list res" where
  "closure_unique values limit =
     (let out = js_uniq (trim_all values) in
      bindE (throw_if (length out > limit) ''CONTEXT_CLOSURE_RECEIPT_BOUNDS_INVALID'') (\<lambda>_. Inr out))"

text \<open>\<open>Array.prototype.sort\<close> without a comparator orders by code units.\<close>

definition contextClosureReceiptIdentity :: "js_host \<Rightarrow> context_closure \<Rightarrow> string res" where
  "contextClosureReceiptIdentity H value =
     (case cc_sourceRevision value of
        None \<Rightarrow> throw ''TypeError: value.sourceRevision is undefined''
      | Some sourceRevision \<Rightarrow>
     bindE (closure_unique (cse_currentPaths (cc_sourceEvidence value)) 48) (\<lambda>currentPaths.
     bindE (closure_unique (cse_testPaths (cc_sourceEvidence value)) 24) (\<lambda>testPaths.
     bindE (closure_unique (cc_languages value) 16) (\<lambda>languages.
     bindE (closure_unique (cc_platforms value) 16) (\<lambda>platforms.
     bindE (closure_unique (cc_reasonCodes value) 80) (\<lambda>reasonCodes.
     Inr (''context_closure_'' @ take 32 (sha256_hex H (json_stringify (JObj [
       (''sourceRevision'', JStr (js_trim sourceRevision)),
       (''projectContractDigest'', (case cc_projectContract value of None \<Rightarrow> JNull | Some p \<Rightarrow> JStr (pr_contentDigest p))),
       (''currentPaths'', json_strings currentPaths),
       (''testPaths'', json_strings testPaths),
       (''languages'', json_strings (sort_by unit_cmp languages)),
       (''platforms'', json_strings (sort_by unit_cmp platforms)),
       (''skillIds'', json_strings (map (\<lambda>s. js_trim (sk_id s) @ ''@'' @ coalesce (opt_trim (sk_version s)) [])
            (csk_resolved (cc_skills value)))),
       (''semanticProviders'', json_strings (map (\<lambda>p. js_trim (sp_providerId p) @ '':'' @ provider_status_str (sp_status p))
            (cst_providers (cc_semanticTools value)))),
       (''reasonCodes'', json_strings reasonCodes)]))))))))))"

definition validateContextClosureReceipt :: "js_host \<Rightarrow> context_closure \<Rightarrow> context_closure res" where
  "validateContextClosureReceipt H value =
     bindE (throw_if (cc_schemaVersion value \<noteq> 1) ''CONTEXT_CLOSURE_RECEIPT_SCHEMA_INVALID'') (\<lambda>_.
     bindE (throw_if (\<not> truthy (opt_trim (cc_sourceRevision value))) ''CONTEXT_CLOSURE_SOURCE_REQUIRED'') (\<lambda>_.
     bindE (throw_if (date_parse H (cc_generatedAt value) = None) ''CONTEXT_CLOSURE_GENERATED_AT_INVALID'') (\<lambda>_.
     bindE (throw_if (cc_provenanceSource value \<noteq> Some ''rh_context'' \<or> date_parse H (cc_contextGeneratedAt value) = None)
              ''CONTEXT_CLOSURE_PROVENANCE_INVALID'') (\<lambda>_.
     bindE (throw_if (cc_readiness value \<notin> {Closure_ready, Closure_degraded, Closure_insufficient})
              ''CONTEXT_CLOSURE_READINESS_INVALID'') (\<lambda>_.
     bindE (contextClosureReceiptIdentity H value) (\<lambda>i.
     bindE (throw_if (cc_receiptId value \<noteq> i) ''CONTEXT_CLOSURE_RECEIPT_ID_INVALID'') (\<lambda>_.
     Inr value)))))))"

section \<open>Admission evidence and the engineering context\<close>

record admission_evidence =
  ae_projectContractReceipt :: "project_contract_receipt option"
  ae_contextClosureReceiptId :: "string option"
  ae_contextClosureReceipt :: "context_closure option"
  ae_productDodReceiptId :: "string option"
  ae_designDecisionReceiptId :: "string option"
  ae_independentCritiqueReceiptId :: "string option"
  ae_productDodReceipt :: "product_dod_receipt option"
  ae_designDecisionReceipt :: "design_decision_receipt option"
  ae_independentCritiqueReceipt :: "critique_receipt option"
  ae_semanticToolReceiptIds :: "string list option"
  ae_validationReceiptIds :: "string list option"
  ae_journeyReceiptIds :: "string list option"
  ae_freshReviewReceiptId :: "string option"
  ae_semanticToolsRequired :: "bool option"
  ae_realJourneyRequired :: "bool option"

record semantic_scope =
  ss_keys :: "string list"
  ss_mutationClass :: mutation_class

record context_evidence =
  ce_contextClosureReceiptId :: "string option"
  ce_contextClosureReceipt :: "context_closure option"
  ce_productDodReceiptId :: "string option"
  ce_designDecisionReceiptId :: "string option"
  ce_independentCritiqueReceiptId :: "string option"
  ce_productDodReceipt :: "product_dod_receipt option"
  ce_designDecisionReceipt :: "design_decision_receipt option"
  ce_independentCritiqueReceipt :: "critique_receipt option"
  ce_semanticToolReceiptIds :: "string list"
  ce_validationReceiptIds :: "string list"
  ce_journeyReceiptIds :: "string list"
  ce_freshReviewReceiptId :: "string option"

record context_conditions =
  cx_semanticToolsRequired :: bool
  cx_realJourneyRequired :: bool

record engineering_context =
  ec_riskClass :: engineering_risk
  ec_sourceIdentity :: source_identity
  ec_projectContractReceipt :: "project_contract_receipt option"
  ec_evidence :: context_evidence
  ec_conditions :: context_conditions
  ec_semanticScope :: "semantic_scope option"
  ec_complexityBudget :: "complexity_budget option"
  ec_designState :: "design_state option"
  ec_blockerDispositions :: "blocker_receipt list option"
  ec_missingAdmissionEvidence :: "engineering_evidence_kind list"
  ec_missingCompletionEvidence :: "engineering_evidence_kind list"
  ec_recordedAt :: string

end
