(* ===== verification/WorkContract.thy ===== *)
theory WorkContract
  imports ImplementationReview EngineeringContracts
begin

text \<open>
  The Work contract, \<open>WorkContract\<close> in \<open>packages/kernel/work/domain/types.ts\<close>, with the
  records it holds: policies, verification records and their process receipts
  (\<open>check-receipt.ts\<close>), reconciliations and the portable scope and placement of
  \<open>packages/kernel/identity/domain/scope.ts\<close>.  The interface has more than sixty properties;
  they are declared in four steps of one extended record, in the order of the source.
\<close>

section \<open>Scope and placement\<close>

datatype scope_kind =
    Scope_workspace | Scope_project | Scope_requirement | Scope_plan | Scope_plan_step | Scope_work

record scope_ref =
  sr_kind :: scope_kind
  sr_id :: string

record execution_placement =
  ep_forgeInstanceId :: "string option"
  ep_repositoryId :: "string option"
  ep_checkoutId :: "string option"

definition scopeRef :: "scope_kind \<Rightarrow> string \<Rightarrow> scope_ref res" where
  "scopeRef kind i =
     (let normalized = js_trim i in
      bindE (throw_if (normalized = []) ''SEMANTIC_SCOPE_ID_REQUIRED'') (\<lambda>_.
      Inr \<lparr>sr_kind = kind, sr_id = take 512 normalized\<rparr>))"

definition trim_or_none :: "string option \<Rightarrow> string option" where
  "trim_or_none v = (case v of None \<Rightarrow> None | Some s \<Rightarrow> some_str (js_trim s))"

definition executionPlacement :: "string option \<Rightarrow> string option \<Rightarrow> string option \<Rightarrow> execution_placement res" where
  "executionPlacement forge repository checkout =
     (let forgeInstanceId = trim_or_none forge; repositoryId = trim_or_none repository;
          checkoutId = trim_or_none checkout in
      bindE (throw_if (\<not> truthy forgeInstanceId \<and> \<not> truthy repositoryId \<and> \<not> truthy checkoutId)
               ''EXECUTION_PLACEMENT_IDENTITY_REQUIRED'') (\<lambda>_.
      Inr \<lparr>ep_forgeInstanceId = forgeInstanceId, ep_repositoryId = repositoryId, ep_checkoutId = checkoutId\<rparr>))"

section \<open>Verification\<close>

datatype check_receipt_status = Check_passed | Check_failed | Check_timed_out | Check_cancelled
datatype check_runtime_status = Runtime_succeeded | Runtime_failed | Runtime_timed_out | Runtime_cancelled

record check_receipt =
  kr_receiptId :: string
  kr_resultDigest :: string
  kr_repoId :: string
  kr_checkoutId :: "string option"
  kr_workId :: "string option"
  kr_executionSessionId :: "string option"
  kr_editSessionId :: "string option"
  kr_editRevision :: "int option"
  kr_issueId :: "string option"
  kr_taskId :: "string option"
  kr_checkId :: string
  kr_requestId :: "string option"
  kr_processId :: string
  kr_commandId :: "string option"

record process_check_receipt = check_receipt +
  kr_sourceCheckoutId :: "string option"
  kr_checkCacheKey :: "string option"
  kr_checkRevision :: "string option"
  kr_checkDefinitionDigest :: "string option"
  kr_checkEnvironmentFingerprint :: "string option"
  kr_reusedExecution :: "bool option"
  kr_status :: check_receipt_status
  kr_runtimeStatus :: check_runtime_status
  kr_ok :: bool
  kr_exitCode :: "int option"
  kr_timedOut :: bool
  kr_cancelled :: bool
  kr_artifactPath :: string
  kr_summary :: string
  kr_startedAt :: string
  kr_finishedAt :: string

record verification_record =
  ver_checkId :: string
  ver_outcome :: verification_outcome
  ver_summary :: string
  ver_recordedAt :: string
  ver_sourceRevision :: "string option"
  ver_workspaceFingerprint :: "string option"
  ver_verificationInputFingerprint :: "string option"
  ver_commandFingerprint :: "string option"
  ver_resultArtifactId :: "string option"
  ver_startedAt :: "string option"
  ver_completedAt :: "string option"
  ver_supersedes :: "string option"
  ver_staleReason :: "string option"
  ver_evidenceRef :: "evidence_ref option"
  ver_receipt :: "process_check_receipt option"

record work_reconciliation =
  wr_reconciliationId :: string
  wr_originalExpectedRevision :: string
  wr_observedTargetRevision :: string
  wr_baseRevision :: string
  wr_targetBranch :: string
  wr_reachable :: bool
  wr_method :: work_reconciliation_method
  wr_comparedPaths :: "string list"
  wr_reviewer :: string
  wr_reviewedAt :: string
  wr_unrecoverableStages :: "string list"
  wr_cleanupOwnershipProof :: string
  wr_rationale :: string
  wr_outcome :: work_reconciliation_outcome

section \<open>Policies and constraints\<close>

datatype access_mode = Access_request | Access_full_access
datatype workspace_mode = Workspace_current | Workspace_isolated | Workspace_auto

record work_constraints =
  wx_maxChangedFiles :: "int option"
  wx_maxChangedLines :: "int option"
  wx_allowCommit :: "bool option"
  wx_allowMerge :: "bool option"
  wx_allowCleanup :: "bool option"
  wx_allowDestructive :: "bool option"
  wx_requireHandoffOnAmbiguity :: "bool option"
  wx_accessMode :: "access_mode option"
  wx_workspaceMode :: "workspace_mode option"
  wx_requireWorktree :: "bool option"
  wx_directMainProhibited :: "bool option"
  wx_architectureStrategyChange :: "bool option"
  wx_conflictsWithThinHarnessPolicy :: "bool option"
  wx_changesDefaultExecutionStrategy :: "bool option"
  wx_remoteDeliveryRequired :: "bool option"

datatype driver_preference =
    Driver_direct_edit | Driver_isolated_worktree | Driver_external_controller | Driver_handoff_only

record driver_policy =
  dp_preferred :: driver_preference
  dp_allowWorker :: bool
  dp_allowDirectEdit :: bool

record worktree_policy =
  wp_required :: bool
  wp_reason :: "string option"
  wp_ref :: "string option"

record evidence_policy =
  vp_defaultDetailLevel :: facade_detail_level
  vp_allowRawOptIn :: bool
  vp_maxEvidenceRefs :: int

record approval_policy =
  ap_required :: bool
  ap_reasons :: "string list"
  ap_confirmed :: bool

record recovery_policy =
  rp_allowSelfHealing :: bool
  rp_maxInfrastructureRetries :: int
  rp_handoffOnAmbiguity :: bool

datatype submitted_mode = Submitted_readonly | Submitted_mutating | Submitted_remote_write | Submitted_destructive

record operation_claim =
  oc_resourceKey :: string
  oc_mode :: string
  oc_quantity :: "int option"

record submitted_operation =
  so_name :: string
  so_semanticKey :: string
  so_argumentHash :: string
  so_mode :: submitted_mode
  so_idempotent :: bool
  so_replayable :: bool
  so_resourceClaims :: "operation_claim list"

section \<open>The contract\<close>

datatype repository_base_state = Base_revision | Base_unborn
datatype work_requester = By_chatgpt | By_user | By_system | By_scheduler

record scope_evidence =
  se_initialLikelyPaths :: "string list"
  se_inspectedPaths :: "string list"
  se_actualChangedPaths :: "string list"
  se_recordedAt :: string

record work_identity =
  wc_schemaVersion :: nat
  wc_workId :: string
  wc_scopeRef :: "scope_ref option"
  wc_executionPlacement :: "execution_placement option"
  wc_repoId :: string
  wc_checkoutId :: "string option"
  wc_principalId :: "string option"
  wc_controllerInstanceId :: "string option"
  wc_baseRevision :: "string option"
  wc_repositoryBaseState :: "repository_base_state option"
  wc_workspaceFingerprint :: "string option"
  wc_routeDecisionFingerprint :: "string option"
  wc_routeDecision :: "route_decision option"
  wc_mode :: execution_mode
  wc_objective :: string
  wc_acceptanceCriteria :: "string list"

record work_semantics = work_identity +
  wc_constraints :: work_constraints
  wc_risk :: work_risk
  wc_engineeringContext :: "engineering_context option"
  wc_executionConcurrency :: "concurrency_projection option"
  wc_phase :: work_phase
  wc_phaseEvidence :: phase_evidence_map
  wc_workKind :: work_kind
  wc_lifecycleRole :: "lifecycle_role option"
  wc_parentWorkId :: "string option"
  wc_predecessorWorkId :: "string option"
  wc_supersedes :: "string list option"
  wc_supersededBy :: "string option"
  wc_supersessionReason :: "string option"
  wc_dispatchState :: dispatch_state
  wc_evidenceState :: evidence_state
  wc_completionOutcome :: "completion_outcome option"
  wc_status :: work_contract_status

record work_links = work_semantics +
  wc_createdAt :: string
  wc_updatedAt :: string
  wc_issueId :: "string option"
  wc_taskId :: "string option"
  wc_requirementId :: "string option"
  wc_completionReceipt :: "completion_receipt option"
  wc_planId :: "string option"
  wc_planStepId :: "string option"
  wc_planSourceRevision :: "string option"
  wc_scopeSummary :: "string option"
  wc_scopeEvidence :: "scope_evidence option"
  wc_readOnlyReviewEvidence :: "read_only_review_evidence option"
  wc_semanticAcceptanceEvidence :: "semantic_acceptance_evidence list option"
  wc_allowedPaths :: "string list"
  wc_forbiddenPaths :: "string list"
  wc_checks :: "string list"

record work_contract = work_links +
  wc_driver :: driver_policy
  wc_worktreePolicy :: worktree_policy
  wc_evidencePolicy :: evidence_policy
  wc_approvalPolicy :: approval_policy
  wc_recoveryPolicy :: recovery_policy
  wc_requestedBy :: work_requester
  wc_evidenceRefs :: "evidence_ref list"
  wc_handoffRefs :: "string list"
  wc_suggestedNextActions :: "suggested_action list"
  wc_policyDecisions :: "policy_decision list"
  wc_checkRefs :: "verification_record list"
  wc_implementationReviews :: "review_record list"
  wc_reconciliations :: "work_reconciliation list"
  wc_continuationPrompt :: "string option"
  wc_worktreeRef :: "string option"
  wc_workerRef :: "string option"
  wc_requestId :: "string option"
  wc_submittedOperation :: "submitted_operation option"

section \<open>Functions of the contract\<close>

definition semanticScopeRefForWork :: "work_contract \<Rightarrow> scope_ref" where
  "semanticScopeRefForWork work =
     (case wc_scopeRef work of
        Some s \<Rightarrow> s
      | None \<Rightarrow>
          if truthy (opt_trim (wc_requirementId work))
            then \<lparr>sr_kind = Scope_requirement, sr_id = js_trim (the (wc_requirementId work))\<rparr>
          else if truthy (opt_trim (wc_planId work)) \<and> truthy (opt_trim (wc_planStepId work))
            then \<lparr>sr_kind = Scope_plan_step,
                  sr_id = js_trim (the (wc_planId work)) @ '':'' @ js_trim (the (wc_planStepId work))\<rparr>
          else if truthy (opt_trim (wc_planId work))
            then \<lparr>sr_kind = Scope_plan, sr_id = js_trim (the (wc_planId work))\<rparr>
          else \<lparr>sr_kind = Scope_work, sr_id = js_trim (wc_workId work)\<rparr>)"

definition executionPlacementForWork :: "work_contract \<Rightarrow> execution_placement" where
  "executionPlacementForWork work =
     (case wc_executionPlacement work of
        Some p \<Rightarrow> p
      | None \<Rightarrow> \<lparr>ep_forgeInstanceId = None, ep_repositoryId = Some (wc_repoId work),
                 ep_checkoutId = trim_or_none (wc_checkoutId work)\<rparr>)"

definition isTerminalWorkContractStatus :: "work_contract_status \<Rightarrow> bool" where
  "isTerminalWorkContractStatus status \<longleftrightarrow> status \<in> set TERMINAL_WORK_CONTRACT_STATUSES"

end
