(* ===== verification/WorkStateMachine.thy ===== *)
theory WorkStateMachine
  imports WorkContract Contracts
begin

text \<open>
  The Work state machine, \<open>packages/kernel/work/domain/state-machine.ts\<close>: the order of the
  technical phases, the phase-evidence map a transition writes, the semantics every stored
  contract must satisfy, the tables of dispatch and evidence transitions, and the check of a
  transition between two contracts.
\<close>

section \<open>Phases\<close>

definition js_index_of :: "'a \<Rightarrow> 'a list \<Rightarrow> int" where
  "js_index_of x xs = (if x \<in> set xs then int (length (takeWhile (\<lambda>y. y \<noteq> x) xs)) else -1)"

definition phaseIndex :: "work_phase \<Rightarrow> int" where
  "phaseIndex phase = js_index_of phase WORK_PHASES"

record phase_transition =
  ti_status :: work_contract_status
  ti_summary :: string
  ti_evidenceRefs :: "evidence_ref list option"
  ti_recordedAt :: string
  ti_source :: "phase_evidence_source option"

text \<open>One round of the loop over \<open>WORK_PHASES\<close>; reading a missing checkpoint is a \<open>TypeError\<close>.\<close>

definition phase_transition_step ::
    "work_phase \<Rightarrow> phase_transition \<Rightarrow> evidence_ref list \<Rightarrow> work_phase \<Rightarrow> phase_evidence_map \<Rightarrow> phase_evidence_map res" where
  "phase_transition_step targetPhase input refs phase evidence =
     (let source = Some (coalesce (ti_source input) Source_recorded) in
      if phaseIndex phase < phaseIndex targetPhase then
        (case evidence phase of
           None \<Rightarrow> throw ''TypeError''
         | Some old \<Rightarrow> Inr (evidence(phase \<mapsto> \<lparr>
             pe_state = (if pe_state old \<in> {PState_satisfied, PState_skipped} then pe_state old else PState_satisfied),
             pe_source = source,
             pe_summary = take 1000 (''Advanced to '' @ phase_str targetPhase @ '': '' @ ti_summary input),
             pe_evidenceRefs = refs, pe_recordedAt = ti_recordedAt input, pe_receiptId = None\<rparr>)))
      else if phaseIndex phase > phaseIndex targetPhase then
        Inr (evidence(phase \<mapsto> \<lparr>pe_state = PState_pending, pe_source = source,
             pe_summary = ''Waiting for Work phase '' @ phase_str phase @ ''.'',
             pe_evidenceRefs = [], pe_recordedAt = ti_recordedAt input, pe_receiptId = None\<rparr>))
      else Inr evidence)"

definition target_checkpoint :: "work_phase \<Rightarrow> phase_transition \<Rightarrow> evidence_ref list \<Rightarrow> phase_evidence" where
  "target_checkpoint targetPhase input refs = \<lparr>
     pe_state = (if ti_status input = Status_failed then PState_failed
        else if ti_status input = Status_cancelled then PState_skipped
        else if ti_status input = Status_blocked \<or> ti_status input = Status_ready then PState_blocked
        else PState_active),
     pe_source = Some (coalesce (ti_source input) Source_recorded),
     pe_summary = or_str (Some (take 1000 (js_trim (ti_summary input))))
        (''Work entered '' @ phase_str targetPhase @ ''.''),
     pe_evidenceRefs = refs, pe_recordedAt = ti_recordedAt input, pe_receiptId = None\<rparr>"

definition transitionPhaseEvidence ::
    "phase_evidence_map \<Rightarrow> evidence_ref list \<Rightarrow> work_phase \<Rightarrow> phase_transition \<Rightarrow> phase_evidence_map res" where
  "transitionPhaseEvidence phaseEvidence evidenceRefs targetPhase input =
     (let refs = take 20 (coalesce (ti_evidenceRefs input) evidenceRefs) in
      bindE (fold_res (phase_transition_step targetPhase input refs) WORK_PHASES phaseEvidence) (\<lambda>evidence.
      Inr (evidence(targetPhase \<mapsto> target_checkpoint targetPhase input refs))))"

section \<open>Semantics of a contract\<close>

definition phase_done :: "phase_evidence_state \<Rightarrow> bool" where
  "phase_done s \<longleftrightarrow> s \<in> {PState_satisfied, PState_skipped}"

definition validate_phase :: "work_contract \<Rightarrow> work_phase \<Rightarrow> unit res" where
  "validate_phase contract phase =
     (let currentPhaseIndex = phaseIndex (wc_phase contract); index = phaseIndex phase in
      case wc_phaseEvidence contract phase of
        None \<Rightarrow> throw (''WORK_PHASE_EVIDENCE_REQUIRED: '' @ phase_str phase)
      | Some checkpoint \<Rightarrow>
          bindE (throw_if (index < currentPhaseIndex \<and> \<not> phase_done (pe_state checkpoint))
                   (''WORK_PHASE_EVIDENCE_PREVIOUS_NOT_SATISFIED: '' @ phase_str phase)) (\<lambda>_.
          bindE (throw_if (index = currentPhaseIndex \<and> pe_state checkpoint = PState_pending)
                   (''WORK_PHASE_EVIDENCE_REQUIRED: '' @ phase_str phase)) (\<lambda>_.
          throw_if (index > currentPhaseIndex \<and> pe_state checkpoint \<noteq> PState_pending)
                   (''WORK_PHASE_EVIDENCE_FUTURE_NOT_PENDING: '' @ phase_str phase))))"

text \<open>The part the two Git receipts share.\<close>

definition validate_delivery_target :: "string \<Rightarrow> string \<Rightarrow> receipt_delivery \<Rightarrow> receipt_cleanup \<Rightarrow> unit res" where
  "validate_delivery_target targetBranch targetRevision delivery cleanup =
     bindE (throw_if (js_trim targetBranch = [] \<or> js_trim targetRevision = [])
              ''WORK_COMPLETION_RECEIPT_TARGET_REQUIRED'') (\<lambda>_.
     bindE (throw_if (dl_status delivery \<noteq> Delivery_integrated \<or> \<not> dl_reachable delivery)
              ''WORK_COMPLETION_RECEIPT_DELIVERY_NOT_PROVEN'') (\<lambda>_.
     throw_if (cl_status cleanup \<notin> {Cleanup_complete, Cleanup_maintenance_warning} \<or> length (cl_blockers cleanup) > 0)
              ''WORK_COMPLETION_RECEIPT_CLEANUP_NOT_PROVEN''))"

definition validate_direct_edit_receipt :: "work_contract \<Rightarrow> direct_edit_receipt \<Rightarrow> unit res" where
  "validate_direct_edit_receipt contract receipt =
     (let directEditAuthorityCount =
            (of_bool (truthy (opt_trim (de_editSessionId receipt))) +
             of_bool (truthy (opt_trim (de_reconciliationId receipt))) :: int) in
      bindE (throw_if (directEditAuthorityCount \<noteq> 1)
               ''WORK_COMPLETION_RECEIPT_DIRECT_EDIT_AUTHORITY_REQUIRED'') (\<lambda>_.
      bindE (validate_delivery_target (de_targetBranch receipt) (de_targetRevision receipt)
               (de_delivery receipt) (de_cleanup receipt)) (\<lambda>_.
      bindE (throw_if (wc_workKind contract \<notin> {Kind_repository_change, Kind_completed_no_change})
               ''WORK_COMPLETION_RECEIPT_DIRECT_EDIT_KIND_REQUIRED'') (\<lambda>_.
      let expectedOutcome = (if wc_workKind contract = Kind_completed_no_change
                             then Outcome_completed_no_change else Outcome_completed_changed) in
      throw_if (wc_completionOutcome contract \<noteq> Some expectedOutcome)
               ''WORK_COMPLETION_RECEIPT_DIRECT_EDIT_OUTCOME_REQUIRED''))))"

definition validate_read_only_receipt :: "work_contract \<Rightarrow> read_only_review_receipt \<Rightarrow> unit res" where
  "validate_read_only_receipt contract receipt =
     bindE (throw_if (wc_workKind contract \<noteq> Kind_read_only_review)
              ''WORK_COMPLETION_RECEIPT_READ_ONLY_REVIEW_KIND_REQUIRED'') (\<lambda>_.
     bindE (throw_if (wc_completionOutcome contract \<noteq> Some Outcome_completed_no_change)
              ''WORK_COMPLETION_RECEIPT_READ_ONLY_REVIEW_OUTCOME_REQUIRED'') (\<lambda>_.
     bindE (throw_if (js_trim (ro_baseRevision receipt) = [] \<or> ro_baseRevision receipt \<noteq> ro_sourceRevision receipt)
              ''WORK_COMPLETION_RECEIPT_READ_ONLY_REVIEW_SOURCE_REQUIRED'') (\<lambda>_.
     bindE (throw_if (truthy (wc_baseRevision contract) \<and> Some (ro_baseRevision receipt) \<noteq> wc_baseRevision contract)
              ''WORK_COMPLETION_RECEIPT_READ_ONLY_REVIEW_BASE_MISMATCH'') (\<lambda>_.
     bindE (throw_if (length (ro_workspaceChangedPaths receipt) \<noteq> 0)
              ''WORK_COMPLETION_RECEIPT_READ_ONLY_REVIEW_WORKSPACE_CHANGED'') (\<lambda>_.
     case wc_readOnlyReviewEvidence contract of
       None \<Rightarrow> throw ''WORK_COMPLETION_RECEIPT_READ_ONLY_REVIEW_EVIDENCE_REQUIRED''
     | Some reviewEvidence \<Rightarrow>
     bindE (throw_if (roe_sourceRevision reviewEvidence \<noteq> ro_sourceRevision receipt)
              ''WORK_COMPLETION_RECEIPT_READ_ONLY_REVIEW_EVIDENCE_REQUIRED'') (\<lambda>_.
     bindE (throw_if (length (roe_findings reviewEvidence) \<noteq> 0 \<or> ro_findingCount receipt \<noteq> 0
                      \<or> length (ro_inspectedPaths receipt) = 0)
              ''WORK_COMPLETION_RECEIPT_READ_ONLY_REVIEW_CLEAN_SCOPE_REQUIRED'') (\<lambda>_.
     bindE (throw_if (sort_by unit_cmp (js_uniq (roe_inspectedPaths reviewEvidence))
                      \<noteq> sort_by unit_cmp (js_uniq (ro_inspectedPaths receipt)))
              ''WORK_COMPLETION_RECEIPT_READ_ONLY_REVIEW_SCOPE_MISMATCH'') (\<lambda>_.
     throw_if (truthy (roe_workspaceFingerprint reviewEvidence) \<and> truthy (ro_workspaceFingerprint receipt)
               \<and> roe_workspaceFingerprint reviewEvidence \<noteq> ro_workspaceFingerprint receipt)
              ''WORK_COMPLETION_RECEIPT_READ_ONLY_REVIEW_WORKSPACE_MISMATCH''))))))))"

definition validate_remote_receipt :: "work_contract \<Rightarrow> remote_effect_receipt \<Rightarrow> unit res" where
  "validate_remote_receipt contract receipt =
     bindE (throw_if (wc_workKind contract \<noteq> Kind_remote_effect)
              ''WORK_COMPLETION_RECEIPT_REMOTE_EFFECT_KIND_REQUIRED'') (\<lambda>_.
     bindE (throw_if (wc_completionOutcome contract \<noteq> Some Outcome_completed_remote)
              ''WORK_COMPLETION_RECEIPT_REMOTE_EFFECT_OUTCOME_REQUIRED'') (\<lambda>_.
     let authority = coalesce (re_authority receipt) Auth_plugin_action in
     bindE (throw_if (js_trim (re_actionId receipt) = [] \<or> js_trim (re_requestId receipt) = []
                      \<or> js_trim (re_semanticKey receipt) = [] \<or> js_trim (re_resultDigest receipt) = [])
              ''WORK_COMPLETION_RECEIPT_REMOTE_EFFECT_IDENTITY_REQUIRED'') (\<lambda>_.
     bindE (throw_if (authority = Auth_plugin_action \<and> \<not> truthy (opt_trim (re_pluginId receipt)))
              ''WORK_COMPLETION_RECEIPT_REMOTE_EFFECT_PLUGIN_IDENTITY_REQUIRED'') (\<lambda>_.
     throw_if (authority = Auth_repository_process \<and> \<not> truthy (opt_trim (re_processId receipt)))
              ''WORK_COMPLETION_RECEIPT_REMOTE_EFFECT_PROCESS_IDENTITY_REQUIRED''))))"

definition validate_local_receipt :: "work_contract \<Rightarrow> local_effect_receipt \<Rightarrow> unit res" where
  "validate_local_receipt contract receipt =
     bindE (throw_if (wc_workKind contract \<noteq> Kind_local_effect)
              ''WORK_COMPLETION_RECEIPT_LOCAL_EFFECT_KIND_REQUIRED'') (\<lambda>_.
     bindE (throw_if (wc_completionOutcome contract \<noteq> Some Outcome_completed_local)
              ''WORK_COMPLETION_RECEIPT_LOCAL_EFFECT_OUTCOME_REQUIRED'') (\<lambda>_.
     throw_if (js_trim (le_operation receipt) = [] \<or> js_trim (lt_id (le_target receipt)) = [])
              ''WORK_COMPLETION_RECEIPT_LOCAL_EFFECT_TARGET_REQUIRED''))"

fun validate_receipt_kind :: "work_contract \<Rightarrow> completion_receipt \<Rightarrow> unit res" where
  "validate_receipt_kind contract (Repository_receipt r) =
     validate_delivery_target (rc_targetBranch r) (rc_targetRevision r) (rc_delivery r) (rc_cleanup r)"
| "validate_receipt_kind contract (Direct_edit_receipt r) = validate_direct_edit_receipt contract r"
| "validate_receipt_kind contract (Read_only_review_receipt r) = validate_read_only_receipt contract r"
| "validate_receipt_kind contract (Remote_effect_receipt r) = validate_remote_receipt contract r"
| "validate_receipt_kind contract (Local_effect_receipt r) = validate_local_receipt contract r"

definition with_checkpoint :: "work_contract \<Rightarrow> work_phase \<Rightarrow> (phase_evidence \<Rightarrow> unit res) \<Rightarrow> unit res" where
  "with_checkpoint contract phase f =
     (case wc_phaseEvidence contract phase of None \<Rightarrow> throw ''TypeError'' | Some c \<Rightarrow> f c)"

definition validate_completion_receipt :: "work_contract \<Rightarrow> completion_receipt \<Rightarrow> unit res" where
  "validate_completion_receipt contract receipt =
     bindE (throw_if (receipt_work_id receipt \<noteq> Some (wc_workId contract))
              ''WORK_COMPLETION_RECEIPT_IDENTITY_MISMATCH'') (\<lambda>_.
     bindE (validate_receipt_kind contract receipt) (\<lambda>_.
     bindE (throw_if (wc_status contract \<noteq> Status_completed)
              ''WORK_COMPLETION_RECEIPT_REQUIRES_COMPLETED_WORK'') (\<lambda>_.
     bindE (for_each (\<lambda>phase. with_checkpoint contract phase (\<lambda>c.
              throw_if (\<not> phase_done (pe_state c)) (''WORK_COMPLETION_PHASE_NOT_SATISFIED: '' @ phase_str phase)))
              WORK_PHASES) (\<lambda>_.
     for_each (\<lambda>phase. with_checkpoint contract phase (\<lambda>c.
              throw_if (pe_receiptId c \<noteq> Some (receipt_id receipt))
                (''WORK_COMPLETION_PHASE_RECEIPT_MISMATCH: '' @ phase_str phase)))
              [Phase_delivery, Phase_cleanup]))))"

definition receipt_is :: "(completion_receipt \<Rightarrow> bool) \<Rightarrow> work_contract \<Rightarrow> bool" where
  "receipt_is P contract = (case wc_completionReceipt contract of None \<Rightarrow> False | Some r \<Rightarrow> P r)"

definition validate_outcome :: "work_contract \<Rightarrow> completion_outcome \<Rightarrow> unit res" where
  "validate_outcome contract outcome =
     bindE (throw_if (wc_status contract \<noteq> Status_completed \<or> wc_completionReceipt contract = None)
              (''WORK_SEMANTICS_INVALID: '' @ outcome_str outcome @ '' requires a completed Work receipt'')) (\<lambda>_.
     bindE (throw_if (wc_dispatchState contract \<noteq> Dispatch_terminal)
              (''WORK_SEMANTICS_INVALID: '' @ outcome_str outcome @ '' requires terminal dispatch'')) (\<lambda>_.
     bindE (throw_if (wc_evidenceState contract \<noteq> EvState_valid)
              (''WORK_SEMANTICS_INVALID: '' @ outcome_str outcome @ '' requires valid evidence'')) (\<lambda>_.
     bindE (throw_if (outcome = Outcome_completed_changed \<and> wc_workKind contract \<noteq> Kind_repository_change)
              ''WORK_SEMANTICS_INVALID: completed_changed requires repository_change WorkKind'') (\<lambda>_.
     bindE (throw_if (outcome = Outcome_completed_no_change
                      \<and> wc_workKind contract \<notin> {Kind_completed_no_change, Kind_read_only_review})
              ''WORK_SEMANTICS_INVALID: completed_no_change requires completed_no_change or read_only_review WorkKind'') (\<lambda>_.
     bindE (throw_if (outcome = Outcome_completed_no_change \<and> wc_workKind contract = Kind_read_only_review
                      \<and> \<not> receipt_is isReadOnlyReviewCompletionReceipt contract)
              ''WORK_SEMANTICS_INVALID: read_only_review completed_no_change requires a read_only_review completion receipt'') (\<lambda>_.
     bindE (throw_if (outcome = Outcome_completed_local \<and> wc_workKind contract \<noteq> Kind_local_effect)
              ''WORK_SEMANTICS_INVALID: completed_local requires local_effect WorkKind'') (\<lambda>_.
     bindE (throw_if (outcome = Outcome_completed_local \<and> \<not> receipt_is isLocalEffectCompletionReceipt contract)
              ''WORK_SEMANTICS_INVALID: completed_local requires a local_effect completion receipt'') (\<lambda>_.
     bindE (throw_if (outcome = Outcome_completed_remote \<and> wc_workKind contract \<noteq> Kind_remote_effect)
              ''WORK_SEMANTICS_INVALID: completed_remote requires remote_effect WorkKind'') (\<lambda>_.
     bindE (throw_if (outcome = Outcome_completed_remote \<and> \<not> receipt_is isRemoteEffectCompletionReceipt contract)
              ''WORK_SEMANTICS_INVALID: completed_remote requires a remote_effect completion receipt'') (\<lambda>_.
     throw_if (outcome = Outcome_superseded \<and> wc_workKind contract \<noteq> Kind_superseded)
              ''WORK_SEMANTICS_INVALID: superseded requires superseded WorkKind''))))))))))"

definition validateWorkSemantics :: "js_host \<Rightarrow> work_contract \<Rightarrow> work_contract res" where
  "validateWorkSemantics H contract =
     bindE (throw_if (js_trim (wc_objective contract) = []) ''WORK_OBJECTIVE_REQUIRED'') (\<lambda>_.
     bindE (throw_if (wc_status contract = Status_completed \<and> wc_completionReceipt contract = None)
              ''WORK_COMPLETION_RECEIPT_REQUIRED'') (\<lambda>_.
     bindE (for_each (validate_phase contract) WORK_PHASES) (\<lambda>_.
     bindE (for_each (validateImplementationReviewRecord H) (wc_implementationReviews contract)) (\<lambda>_.
     bindE (case wc_completionReceipt contract of
              None \<Rightarrow> Inr () | Some receipt \<Rightarrow> validate_completion_receipt contract receipt) (\<lambda>_.
     bindE (case wc_completionOutcome contract of
              None \<Rightarrow> Inr () | Some outcome \<Rightarrow> validate_outcome contract outcome) (\<lambda>_.
     Inr contract))))))"

section \<open>Transitions\<close>

fun DISPATCH_TRANSITIONS :: "dispatch_state \<Rightarrow> dispatch_state list" where
  "DISPATCH_TRANSITIONS Dispatch_not_dispatched =
     [Dispatch_not_dispatched, Dispatch_claimed, Dispatch_launching, Dispatch_running, Dispatch_blocked, Dispatch_terminal]"
| "DISPATCH_TRANSITIONS Dispatch_claimed =
     [Dispatch_claimed, Dispatch_launching, Dispatch_running, Dispatch_blocked, Dispatch_terminal]"
| "DISPATCH_TRANSITIONS Dispatch_launching =
     [Dispatch_launching, Dispatch_running, Dispatch_blocked, Dispatch_terminal]"
| "DISPATCH_TRANSITIONS Dispatch_running = [Dispatch_running, Dispatch_blocked, Dispatch_terminal]"
| "DISPATCH_TRANSITIONS Dispatch_blocked =
     [Dispatch_blocked, Dispatch_claimed, Dispatch_launching, Dispatch_running, Dispatch_terminal]"
| "DISPATCH_TRANSITIONS Dispatch_terminal = [Dispatch_terminal]"

fun EVIDENCE_TRANSITIONS :: "evidence_state \<Rightarrow> evidence_state list" where
  "EVIDENCE_TRANSITIONS EvState_none = [EvState_none, EvState_partial, EvState_valid, EvState_failed]"
| "EVIDENCE_TRANSITIONS EvState_partial =
     [EvState_partial, EvState_valid, EvState_stale, EvState_contradictory, EvState_failed]"
| "EVIDENCE_TRANSITIONS EvState_valid = [EvState_valid, EvState_stale, EvState_contradictory, EvState_failed]"
| "EVIDENCE_TRANSITIONS EvState_stale =
     [EvState_stale, EvState_partial, EvState_valid, EvState_contradictory, EvState_failed]"
| "EVIDENCE_TRANSITIONS EvState_contradictory =
     [EvState_contradictory, EvState_partial, EvState_valid, EvState_failed]"
| "EVIDENCE_TRANSITIONS EvState_failed =
     [EvState_failed, EvState_partial, EvState_valid, EvState_contradictory]"

definition retrying_failed_work :: "work_contract \<Rightarrow> work_contract \<Rightarrow> bool" where
  "retrying_failed_work current next \<longleftrightarrow> wc_status current = Status_failed
     \<and> wc_completionOutcome current = None
     \<and> wc_dispatchState next \<in> {Dispatch_claimed, Dispatch_launching, Dispatch_running, Dispatch_blocked}"

text \<open>The conjunction is evaluated from left to right; reading a missing cleanup checkpoint throws.\<close>

definition resuming_retained_cancelled_work :: "bool \<Rightarrow> work_contract \<Rightarrow> work_contract \<Rightarrow> bool res" where
  "resuming_retained_cancelled_work allow current next =
     (if allow \<and> wc_status current = Status_cancelled \<and> wc_dispatchState current = Dispatch_terminal
         \<and> wc_phase current = Phase_cleanup
      then (case wc_phaseEvidence current Phase_cleanup of
              None \<Rightarrow> throw ''TypeError''
            | Some c \<Rightarrow> Inr (pe_state c = PState_skipped
                \<and> wc_completionReceipt current = None
                \<and> wc_completionOutcome current = None
                \<and> wc_status next = Status_running
                \<and> wc_dispatchState next = Dispatch_running
                \<and> wc_phase next = Phase_implementation))
      else Inr False)"

definition validateWorkSemanticTransition ::
    "js_host \<Rightarrow> work_contract \<Rightarrow> work_contract \<Rightarrow> bool \<Rightarrow> work_contract res" where
  "validateWorkSemanticTransition H current next allowRetainedCancelledResume =
     bindE (resuming_retained_cancelled_work allowRetainedCancelledResume current next) (\<lambda>resuming.
     bindE (throw_if (\<not> retrying_failed_work current next \<and> \<not> resuming
                      \<and> wc_dispatchState next \<notin> set (DISPATCH_TRANSITIONS (wc_dispatchState current)))
              (''WORK_SEMANTICS_TRANSITION_INVALID: dispatch '' @ dispatch_str (wc_dispatchState current)
               @ '' -> '' @ dispatch_str (wc_dispatchState next))) (\<lambda>_.
     bindE (throw_if (wc_evidenceState next \<notin> set (EVIDENCE_TRANSITIONS (wc_evidenceState current)))
              (''WORK_SEMANTICS_TRANSITION_INVALID: evidence '' @ evidence_str (wc_evidenceState current)
               @ '' -> '' @ evidence_str (wc_evidenceState next))) (\<lambda>_.
     bindE (throw_if (wc_completionOutcome current \<noteq> None \<and> wc_completionOutcome current \<noteq> wc_completionOutcome next)
              (''WORK_SEMANTICS_TRANSITION_INVALID: completion outcome ''
               @ (case wc_completionOutcome current of None \<Rightarrow> [] | Some o' \<Rightarrow> outcome_str o') @ '' is immutable'')) (\<lambda>_.
     bindE (throw_if (coalesce (wc_lifecycleRole current) Role_primary \<noteq> coalesce (wc_lifecycleRole next) Role_primary)
              ''WORK_SEMANTICS_TRANSITION_INVALID: lifecycleRole is immutable'') (\<lambda>_.
     bindE (throw_if (wc_parentWorkId current \<noteq> wc_parentWorkId next)
              ''WORK_SEMANTICS_TRANSITION_INVALID: parentWorkId is immutable'') (\<lambda>_.
     bindE (throw_if (wc_predecessorWorkId current \<noteq> wc_predecessorWorkId next)
              ''WORK_SEMANTICS_TRANSITION_INVALID: predecessorWorkId is immutable'') (\<lambda>_.
     bindE (assertImplementationReviewHistoryAppendOnly H
              (Some (wc_implementationReviews current)) (Some (wc_implementationReviews next))) (\<lambda>_.
     Inr next))))))))"

definition suggestedActionsForStatus :: "work_contract_status \<Rightarrow> suggested_action list \<Rightarrow> suggested_action list" where
  "suggestedActionsForStatus status actions =
     (if status = Status_completed \<or> status = Status_cancelled then [] else take 8 actions)"

end
