(* ===== verification/WorkStateFacts.thy ===== *)
theory WorkStateFacts
  imports WorkStateMachine ReviewFacts
begin

text \<open>
  Facts about \<open>WorkStateMachine\<close>: the order of the phases, what a contract that validates
  looks like, what a phase transition writes, and what every accepted transition keeps.  The
  interpretations discharge the contracts of \<open>Contracts\<close> for the two transition tables and
  for the steps of a stored Work.
\<close>

section \<open>Phases\<close>

lemma phaseIndex_simps [simp]:
  "phaseIndex Phase_implementation = 0" "phaseIndex Phase_verification = 1" "phaseIndex Phase_review = 2"
  "phaseIndex Phase_delivery = 3" "phaseIndex Phase_cleanup = 4"
  by (simp_all add: phaseIndex_def js_index_of_def WORK_PHASES_def)

lemma phaseIndex_inj [simp]: "phaseIndex p = phaseIndex q \<longleftrightarrow> p = q"
  by (cases p; cases q) simp_all

instantiation work_phase :: linorder
begin

definition less_eq_work_phase :: "work_phase \<Rightarrow> work_phase \<Rightarrow> bool" where
  "less_eq_work_phase p q \<longleftrightarrow> phaseIndex p \<le> phaseIndex q"

definition less_work_phase :: "work_phase \<Rightarrow> work_phase \<Rightarrow> bool" where
  "less_work_phase p q \<longleftrightarrow> phaseIndex p < phaseIndex q"

instance
  by standard (auto simp: less_eq_work_phase_def less_work_phase_def)

end

lemma set_WORK_PHASES [simp]: "set WORK_PHASES = UNIV"
  using work_phase.exhaust by (auto simp: WORK_PHASES_def)

lemma all_phases: "(\<forall>p\<in>set WORK_PHASES. P p) \<longleftrightarrow> (\<forall>p. P p)"
  by simp

section \<open>What a valid contract looks like\<close>

text \<open>
  Checkpoints before the current phase are done, the current one has started, later ones are
  pending.
\<close>

definition phase_profile :: "work_phase \<Rightarrow> phase_evidence_map \<Rightarrow> bool" where
  "phase_profile current m \<longleftrightarrow> (\<forall>p. case m p of
     None \<Rightarrow> False
   | Some c \<Rightarrow> (p < current \<longrightarrow> phase_done (pe_state c)) \<and> (p = current \<longrightarrow> pe_state c \<noteq> PState_pending)
       \<and> (p > current \<longrightarrow> pe_state c = PState_pending))"

lemma validate_phase_Inr:
  "validate_phase c p = Inr () \<longleftrightarrow> (case wc_phaseEvidence c p of
     None \<Rightarrow> False
   | Some k \<Rightarrow> (p < wc_phase c \<longrightarrow> phase_done (pe_state k)) \<and> (p = wc_phase c \<longrightarrow> pe_state k \<noteq> PState_pending)
       \<and> (p > wc_phase c \<longrightarrow> pe_state k = PState_pending))"
  by (simp add: validate_phase_def Let_def bindE_eq_Inr less_work_phase_def split: option.splits)

lemma validate_phases_Inr:
  "for_each (validate_phase c) WORK_PHASES = Inr () \<longleftrightarrow> phase_profile (wc_phase c) (wc_phaseEvidence c)"
  by (simp only: for_each_eq_Inr all_phases validate_phase_Inr phase_profile_def)

lemma phase_profile_read:
  assumes "phase_profile cur m"
  obtains k where "m p = Some k" and "p < cur \<Longrightarrow> phase_done (pe_state k)"
    and "p = cur \<Longrightarrow> pe_state k \<noteq> PState_pending" and "p > cur \<Longrightarrow> pe_state k = PState_pending"
  using assms that unfolding phase_profile_def by (auto split: option.splits dest: spec [of _ p])

lemma validate_work_iff:
  "validateWorkSemantics H c = Inr c' \<longleftrightarrow> c' = c \<and> js_trim (wc_objective c) \<noteq> [] \<and>
     (wc_status c = Status_completed \<longrightarrow> wc_completionReceipt c \<noteq> None) \<and>
     for_each (validate_phase c) WORK_PHASES = Inr () \<and>
     for_each (validateImplementationReviewRecord H) (wc_implementationReviews c) = Inr () \<and>
     (case wc_completionReceipt c of None \<Rightarrow> Inr () | Some receipt \<Rightarrow> validate_completion_receipt c receipt) = Inr () \<and>
     (case wc_completionOutcome c of None \<Rightarrow> Inr () | Some outcome \<Rightarrow> validate_outcome c outcome) = Inr ()"
  unfolding validateWorkSemantics_def bindE_eq_Inr by auto

lemma validate_work_Inr:
  assumes "validateWorkSemantics H c = Inr c'"
  shows "c' = c" and "js_trim (wc_objective c) \<noteq> []"
    and "wc_status c = Status_completed \<Longrightarrow> wc_completionReceipt c \<noteq> None"
    and "phase_profile (wc_phase c) (wc_phaseEvidence c)"
    and "\<forall>r\<in>set (wc_implementationReviews c). validateImplementationReviewRecord H r = Inr ()"
    and "wc_completionReceipt c = Some receipt \<Longrightarrow> validate_completion_receipt c receipt = Inr ()"
    and "wc_completionOutcome c = Some outcome \<Longrightarrow> validate_outcome c outcome = Inr ()"
proof -
  from assms have a: "js_trim (wc_objective c) \<noteq> []"
      "wc_status c = Status_completed \<longrightarrow> wc_completionReceipt c \<noteq> None"
      "for_each (validate_phase c) WORK_PHASES = Inr ()"
      "for_each (validateImplementationReviewRecord H) (wc_implementationReviews c) = Inr ()"
      "(case wc_completionReceipt c of None \<Rightarrow> Inr () | Some receipt \<Rightarrow> validate_completion_receipt c receipt) = Inr ()"
      "(case wc_completionOutcome c of None \<Rightarrow> Inr () | Some outcome \<Rightarrow> validate_outcome c outcome) = Inr ()"
      "c' = c"
    unfolding validateWorkSemantics_def bindE_eq_Inr by auto
  show "c' = c" "js_trim (wc_objective c) \<noteq> []" by (rule a(7), rule a(1))
  show "wc_status c = Status_completed \<Longrightarrow> wc_completionReceipt c \<noteq> None" using a(2) by simp
  show "phase_profile (wc_phase c) (wc_phaseEvidence c)" using a(3) by (simp add: validate_phases_Inr)
  show "\<forall>r\<in>set (wc_implementationReviews c). validateImplementationReviewRecord H r = Inr ()"
    using a(4) by (simp add: for_each_eq_Inr)
  show "wc_completionReceipt c = Some receipt \<Longrightarrow> validate_completion_receipt c receipt = Inr ()" using a(5) by simp
  show "wc_completionOutcome c = Some outcome \<Longrightarrow> validate_outcome c outcome = Inr ()" using a(6) by simp
qed

lemma completion_receipt_Inr:
  assumes "validate_completion_receipt c r = Inr ()"
  shows "receipt_work_id r = Some (wc_workId c)" and "validate_receipt_kind c r = Inr ()"
    and "wc_status c = Status_completed"
    and "\<exists>k. wc_phaseEvidence c p = Some k \<and> phase_done (pe_state k)"
    and "p \<in> {Phase_delivery, Phase_cleanup} \<Longrightarrow> \<exists>k. wc_phaseEvidence c p = Some k \<and> pe_receiptId k = Some (receipt_id r)"
proof -
  from assms have a: "receipt_work_id r = Some (wc_workId c)" "validate_receipt_kind c r = Inr ()"
    "wc_status c = Status_completed"
    "\<forall>p. with_checkpoint c p (\<lambda>k. throw_if (\<not> phase_done (pe_state k)) (''WORK_COMPLETION_PHASE_NOT_SATISFIED: '' @ phase_str p)) = Inr ()"
    "\<forall>p\<in>{Phase_delivery, Phase_cleanup}. with_checkpoint c p (\<lambda>k. throw_if (pe_receiptId k \<noteq> Some (receipt_id r))
       (''WORK_COMPLETION_PHASE_RECEIPT_MISMATCH: '' @ phase_str p)) = Inr ()"
    unfolding validate_completion_receipt_def bindE_eq_Inr for_each_eq_Inr all_phases by auto
  then show "receipt_work_id r = Some (wc_workId c)" "validate_receipt_kind c r = Inr ()" "wc_status c = Status_completed"
    by auto
  show "\<exists>k. wc_phaseEvidence c p = Some k \<and> phase_done (pe_state k)"
    using a(4) [rule_format, of p] by (auto simp: with_checkpoint_def split: option.splits)
  show "p \<in> {Phase_delivery, Phase_cleanup} \<Longrightarrow> \<exists>k. wc_phaseEvidence c p = Some k \<and> pe_receiptId k = Some (receipt_id r)"
    using a(5) [rule_format, of p] by (auto simp: with_checkpoint_def split: option.splits)
qed

lemma outcome_Inr:
  assumes "validate_outcome c out = Inr ()"
  shows "wc_status c = Status_completed" and "wc_completionReceipt c \<noteq> None"
    and "wc_dispatchState c = Dispatch_terminal" and "wc_evidenceState c = EvState_valid"
  using assms unfolding validate_outcome_def bindE_eq_Inr throw_if_eq_Inr by blast+

text \<open>A contract that is completed, or holds a receipt or an outcome, is in its last phase.\<close>

lemma receipt_phase:
  assumes "validateWorkSemantics H c = Inr c'" and "wc_completionReceipt c = Some r"
  shows "wc_phase c = Phase_cleanup"
proof (rule ccontr)
  assume "wc_phase c \<noteq> Phase_cleanup"
  then have "wc_phase c < Phase_cleanup" by (cases "wc_phase c") (simp_all add: less_work_phase_def)
  with phase_profile_read [OF validate_work_Inr(4) [OF assms(1)]]
  obtain k where "wc_phaseEvidence c Phase_cleanup = Some k" "pe_state k = PState_pending" by metis
  moreover obtain k' where "wc_phaseEvidence c Phase_cleanup = Some k'" "phase_done (pe_state k')"
    using completion_receipt_Inr(4) [OF validate_work_Inr(6) [OF assms]] by blast
  ultimately show False by (simp add: phase_done_def)
qed

section \<open>Phase transitions\<close>

lemma fold_res_append: "fold_res f (xs @ ys) s = bindE (fold_res f xs s) (fold_res f ys)"
  by (induction xs arbitrary: s) (auto simp: bindE_def split: sum.splits)

lemma phase_step_Inr:
  assumes "phase_transition_step t input refs p m = Inr m'"
  shows "\<forall>q. q \<noteq> p \<longrightarrow> m' q = m q"
    and "p < t \<Longrightarrow> \<exists>k. m' p = Some k \<and> phase_done (pe_state k)"
    and "p > t \<Longrightarrow> \<exists>k. m' p = Some k \<and> pe_state k = PState_pending"
    and "p = t \<Longrightarrow> m' = m"
  using assms by (auto simp: phase_transition_step_def Let_def less_work_phase_def phase_done_def
      split: if_splits option.splits)

lemma phase_step_total:
  "m p \<noteq> None \<Longrightarrow> \<exists>m'. phase_transition_step t input refs p m = Inr m'"
  by (auto simp: phase_transition_step_def Let_def split: option.splits)

lemma transition_profile:
  assumes "transitionPhaseEvidence m refs t input = Inr m'"
  shows "phase_profile t m'"
proof -
  let ?refs = "take 20 (coalesce (ti_evidenceRefs input) refs)"
  let ?step = "phase_transition_step t input ?refs"
  from assms obtain n where n: "fold_res ?step WORK_PHASES m = Inr n" "m' = n(t \<mapsto> target_checkpoint t input ?refs)"
    by (auto simp: transitionPhaseEvidence_def Let_def bindE_eq_Inr)
  from n(1) obtain a b c d where s: "?step Phase_implementation m = Inr a" "?step Phase_verification a = Inr b"
    "?step Phase_review b = Inr c" "?step Phase_delivery c = Inr d" "?step Phase_cleanup d = Inr n"
    by (auto simp: WORK_PHASES_def bindE_eq_Inr)
  note keep = s [THEN phase_step_Inr(1)] and below = s [THEN phase_step_Inr(2)] and above = s [THEN phase_step_Inr(3)]
  have other: "p \<noteq> t \<Longrightarrow> \<exists>k. n p = Some k \<and> (p < t \<longrightarrow> phase_done (pe_state k)) \<and> (p > t \<longrightarrow> pe_state k = PState_pending)" for p
  proof -
    assume pt: "p \<noteq> t"
    have kept: "n Phase_implementation = a Phase_implementation" "n Phase_verification = b Phase_verification"
      "n Phase_review = c Phase_review" "n Phase_delivery = d Phase_delivery" using keep by simp_all
    show ?thesis
    proof (cases "p < t")
      case True
      then have "\<exists>k. n p = Some k \<and> phase_done (pe_state k)" using below kept by (cases p) simp_all
      with True show ?thesis by auto
    next
      case False
      then have "p > t" using pt by simp
      then have "\<exists>k. n p = Some k \<and> pe_state k = PState_pending" using above kept by (cases p) simp_all
      with False show ?thesis by auto
    qed
  qed
  have tgt: "pe_state (target_checkpoint t input ?refs) \<noteq> PState_pending" by (simp add: target_checkpoint_def)
  show ?thesis unfolding phase_profile_def
  proof
    fix p
    show "case m' p of None \<Rightarrow> False
      | Some c \<Rightarrow> (p < t \<longrightarrow> phase_done (pe_state c)) \<and> (p = t \<longrightarrow> pe_state c \<noteq> PState_pending)
          \<and> (p > t \<longrightarrow> pe_state c = PState_pending)"
      using other [of p] tgt n(2) by (cases "p = t") auto
  qed
qed

lemma transition_total:
  assumes "\<forall>p. m p \<noteq> None"
  shows "\<exists>m'. transitionPhaseEvidence m refs t input = Inr m'"
proof -
  have "\<exists>n. fold_res (phase_transition_step t input (take 20 (coalesce (ti_evidenceRefs input) refs))) ps m = Inr n" for ps
    using assms
  proof (induction ps arbitrary: m)
    case (Cons p ps)
    obtain n where n: "phase_transition_step t input (take 20 (coalesce (ti_evidenceRefs input) refs)) p m = Inr n"
      using phase_step_total [of m p t input "take 20 (coalesce (ti_evidenceRefs input) refs)"] Cons.prems by auto
    have "n q \<noteq> None" for q
    proof (cases "q = p")
      case True
      consider "p < t" | "p > t" | "p = t" by (metis linorder_neqE)
      then show ?thesis
        by cases (use True phase_step_Inr(2-4) [OF n] Cons.prems in auto)
    next
      case False
      then show ?thesis using phase_step_Inr(1) [OF n] Cons.prems by simp
    qed
    with Cons.IH n show ?case by simp
  qed simp
  then show ?thesis by (simp add: transitionPhaseEvidence_def Let_def) (metis bindE_Inr)
qed

section \<open>Accepted transitions\<close>

interpretation dispatch_table: transition_table DISPATCH_TRANSITIONS
proof
  show "s \<in> set (DISPATCH_TRANSITIONS s)" for s by (cases s) simp_all
qed

interpretation evidence_table: transition_table EVIDENCE_TRANSITIONS
proof
  show "s \<in> set (EVIDENCE_TRANSITIONS s)" for s by (cases s) simp_all
qed

lemma resuming_Inr_True:
  "resuming_retained_cancelled_work allow c d = Inr True \<longleftrightarrow>
     allow \<and> wc_status c = Status_cancelled \<and> wc_dispatchState c = Dispatch_terminal \<and> wc_phase c = Phase_cleanup \<and>
     (\<exists>k. wc_phaseEvidence c Phase_cleanup = Some k \<and> pe_state k = PState_skipped) \<and>
     wc_completionReceipt c = None \<and> wc_completionOutcome c = None \<and>
     wc_status d = Status_running \<and> wc_dispatchState d = Dispatch_running \<and> wc_phase d = Phase_implementation"
  by (auto simp: resuming_retained_cancelled_work_def split: option.splits)

lemma semantic_transition_Inr:
  "validateWorkSemanticTransition H c d allow = Inr d' \<longleftrightarrow> d' = d \<and>
     (\<exists>resuming. resuming_retained_cancelled_work allow c d = Inr resuming \<and>
        (retrying_failed_work c d \<or> resuming \<or> wc_dispatchState d \<in> set (DISPATCH_TRANSITIONS (wc_dispatchState c)))) \<and>
     wc_evidenceState d \<in> set (EVIDENCE_TRANSITIONS (wc_evidenceState c)) \<and>
     (wc_completionOutcome c \<noteq> None \<longrightarrow> wc_completionOutcome d = wc_completionOutcome c) \<and>
     coalesce (wc_lifecycleRole c) Role_primary = coalesce (wc_lifecycleRole d) Role_primary \<and>
     wc_parentWorkId c = wc_parentWorkId d \<and> wc_predecessorWorkId c = wc_predecessorWorkId d \<and>
     assertImplementationReviewHistoryAppendOnly H (Some (wc_implementationReviews c)) (Some (wc_implementationReviews d)) = Inr ()"
  unfolding validateWorkSemanticTransition_def bindE_eq_Inr throw_if_eq_Inr by auto

lemma semantic_transitionI:
  assumes "retrying_failed_work c d \<or> wc_dispatchState d \<in> set (DISPATCH_TRANSITIONS (wc_dispatchState c))"
    and "wc_evidenceState d \<in> set (EVIDENCE_TRANSITIONS (wc_evidenceState c))"
    and "wc_completionOutcome c = None \<or> wc_completionOutcome d = wc_completionOutcome c"
    and "coalesce (wc_lifecycleRole c) Role_primary = coalesce (wc_lifecycleRole d) Role_primary"
    and "wc_parentWorkId c = wc_parentWorkId d" and "wc_predecessorWorkId c = wc_predecessorWorkId d"
    and "assertImplementationReviewHistoryAppendOnly H (Some (wc_implementationReviews c)) (Some (wc_implementationReviews d)) = Inr ()"
  shows "validateWorkSemanticTransition H c d False = Inr d"
  unfolding semantic_transition_Inr using assms by (auto simp: resuming_retained_cancelled_work_def)

text \<open>A step of a stored contract: the transition is accepted and the new contract validates.\<close>

definition work_step :: "js_host \<Rightarrow> work_contract \<Rightarrow> work_contract \<Rightarrow> bool" where
  "work_step H c d \<longleftrightarrow> validateWorkSemantics H d = Inr d \<and>
     (validateWorkSemanticTransition H c d False = Inr d \<or> validateWorkSemanticTransition H c d True = Inr d)"

lemma work_step_facts:
  assumes "work_step H c d"
  shows "validateWorkSemantics H d = Inr d"
    and "wc_evidenceState d \<in> set (EVIDENCE_TRANSITIONS (wc_evidenceState c))"
    and "wc_completionOutcome c \<noteq> None \<Longrightarrow> wc_completionOutcome d = wc_completionOutcome c"
    and "coalesce (wc_lifecycleRole c) Role_primary = coalesce (wc_lifecycleRole d) Role_primary"
    and "wc_parentWorkId c = wc_parentWorkId d" and "wc_predecessorWorkId c = wc_predecessorWorkId d"
    and "assertImplementationReviewHistoryAppendOnly H (Some (wc_implementationReviews c)) (Some (wc_implementationReviews d)) = Inr ()"
  using assms unfolding work_step_def semantic_transition_Inr by blast+

text \<open>A contract with an outcome: what the completion lemmas keep invariant.\<close>

definition concluded :: "completion_outcome \<Rightarrow> work_contract \<Rightarrow> bool" where
  "concluded out c \<longleftrightarrow> wc_completionOutcome c = Some out \<and> wc_status c = Status_completed \<and>
     wc_completionReceipt c \<noteq> None \<and> wc_dispatchState c = Dispatch_terminal \<and> wc_evidenceState c = EvState_valid \<and>
     wc_phase c = Phase_cleanup"

lemma concludedI:
  assumes "validateWorkSemantics H c = Inr c" and "wc_completionOutcome c = Some out"
  shows "concluded out c"
  using outcome_Inr [OF validate_work_Inr(7) [OF assms]] receipt_phase [OF assms(1)] assms(2)
  by (auto simp: concluded_def)

interpretation concluded_steps: invariant_steps "work_step H" "concluded out" for H out
proof
  fix c d assume "concluded out c" and s: "work_step H c d"
  then have "wc_completionOutcome d = Some out" using work_step_facts(3) [OF s] by (simp add: concluded_def)
  then show "concluded out d" using concludedI work_step_facts(1) [OF s] by blast
qed

interpretation lineage_steps: invariant_steps "work_step H" "\<lambda>_. True" for H
  by unfold_locales simp

end
