(* ===== verification/WorkProperties.thy ===== *)
theory WorkProperties
  imports WorkStateFacts ExampleHost
begin

text \<open>
  The properties of the Work state machine, with an example contract on which they are
  evaluated.
\<close>

section \<open>Example contracts\<close>

definition example_checkpoint :: "phase_evidence_state \<Rightarrow> string option \<Rightarrow> phase_evidence" where
  "example_checkpoint st receipt = \<lparr>pe_state = st, pe_source = Some Source_recorded, pe_summary = ''checkpoint'',
     pe_evidenceRefs = [], pe_recordedAt = ''1'', pe_receiptId = receipt\<rparr>"

definition example_constraints :: work_constraints where
  "example_constraints = \<lparr>wx_maxChangedFiles = None, wx_maxChangedLines = None, wx_allowCommit = None,
     wx_allowMerge = None, wx_allowCleanup = None, wx_allowDestructive = None, wx_requireHandoffOnAmbiguity = None,
     wx_accessMode = None, wx_workspaceMode = None, wx_requireWorktree = None, wx_directMainProhibited = None,
     wx_architectureStrategyChange = None, wx_conflictsWithThinHarnessPolicy = None,
     wx_changesDefaultExecutionStrategy = None, wx_remoteDeliveryRequired = None\<rparr>"

definition example_work :: work_contract where
  "example_work = \<lparr>wc_schemaVersion = 2, wc_workId = ''work-1'', wc_scopeRef = None, wc_executionPlacement = None,
     wc_repoId = ''repo'', wc_checkoutId = None, wc_principalId = None, wc_controllerInstanceId = None,
     wc_baseRevision = Some ''rev1'', wc_repositoryBaseState = Some Base_revision, wc_workspaceFingerprint = None,
     wc_routeDecisionFingerprint = None, wc_routeDecision = None, wc_mode = Mode_goal_workloop,
     wc_objective = ''review the store'', wc_acceptanceCriteria = [''no findings''],
     wc_constraints = example_constraints, wc_risk = Risk_low, wc_engineeringContext = None,
     wc_executionConcurrency = None, wc_phase = Phase_implementation,
     wc_phaseEvidence = (\<lambda>p. Some (example_checkpoint (if p = Phase_implementation then PState_active else PState_pending) None)),
     wc_workKind = Kind_read_only_review, wc_lifecycleRole = None, wc_parentWorkId = None, wc_predecessorWorkId = None,
     wc_supersedes = None, wc_supersededBy = None, wc_supersessionReason = None,
     wc_dispatchState = Dispatch_running, wc_evidenceState = EvState_none, wc_completionOutcome = None,
     wc_status = Status_running, wc_createdAt = ''1'', wc_updatedAt = ''1'', wc_issueId = None, wc_taskId = None,
     wc_requirementId = None, wc_completionReceipt = None, wc_planId = None, wc_planStepId = None,
     wc_planSourceRevision = None, wc_scopeSummary = None, wc_scopeEvidence = None, wc_readOnlyReviewEvidence = None,
     wc_semanticAcceptanceEvidence = None, wc_allowedPaths = [], wc_forbiddenPaths = [], wc_checks = [],
     wc_driver = \<lparr>dp_preferred = Driver_direct_edit, dp_allowWorker = False, dp_allowDirectEdit = True\<rparr>,
     wc_worktreePolicy = \<lparr>wp_required = False, wp_reason = None, wp_ref = None\<rparr>,
     wc_evidencePolicy = \<lparr>vp_defaultDetailLevel = Detail_summary, vp_allowRawOptIn = False, vp_maxEvidenceRefs = 20\<rparr>,
     wc_approvalPolicy = \<lparr>ap_required = False, ap_reasons = [], ap_confirmed = False\<rparr>,
     wc_recoveryPolicy = \<lparr>rp_allowSelfHealing = True, rp_maxInfrastructureRetries = 2, rp_handoffOnAmbiguity = True\<rparr>,
     wc_requestedBy = By_user, wc_evidenceRefs = [], wc_handoffRefs = [], wc_suggestedNextActions = [],
     wc_policyDecisions = [], wc_checkRefs = [], wc_implementationReviews = [], wc_reconciliations = [],
     wc_continuationPrompt = None, wc_worktreeRef = None, wc_workerRef = None, wc_requestId = None,
     wc_submittedOperation = None\<rparr>"

definition example_ro_receipt :: read_only_review_receipt where
  "example_ro_receipt = \<lparr>ro_receiptId = ''receipt-9'', ro_workId = ''work-1'', ro_baseRevision = ''rev1'',
     ro_sourceRevision = ''rev1'', ro_workspaceFingerprint = None, ro_workspaceChangedPaths = [],
     ro_inspectedPaths = [''src/a.ts''], ro_findingCount = 0, ro_recordedAt = ''2''\<rparr>"

definition example_completed :: work_contract where
  "example_completed = example_work\<lparr>wc_phase := Phase_cleanup,
     wc_phaseEvidence := (\<lambda>p. Some (example_checkpoint PState_satisfied (Some ''receipt-9''))),
     wc_dispatchState := Dispatch_terminal, wc_evidenceState := EvState_valid,
     wc_completionOutcome := Some Outcome_completed_no_change, wc_status := Status_completed,
     wc_completionReceipt := Some (Read_only_review_receipt example_ro_receipt),
     wc_readOnlyReviewEvidence := Some \<lparr>roe_sourceRevision = ''rev1'', roe_workspaceFingerprint = None,
       roe_inspectedPaths = [''src/a.ts''], roe_findings = [], roe_recordedAt = ''2''\<rparr>\<rparr>"

definition example_failed :: work_contract where
  "example_failed = example_work\<lparr>
     wc_phaseEvidence := (\<lambda>p. Some (example_checkpoint (if p = Phase_implementation then PState_failed else PState_pending) None)),
     wc_dispatchState := Dispatch_terminal, wc_status := Status_failed\<rparr>"

lemma example_work_valid: "validateWorkSemantics example_host example_work = Inr example_work"
  unfolding validate_work_iff by (intro conjI refl) code_simp+

lemma example_completed_valid: "validateWorkSemantics example_host example_completed = Inr example_completed"
  unfolding validate_work_iff by (intro conjI refl) code_simp+

text \<open>The completed Work after an issue was linked to it.\<close>

definition example_recorded :: work_contract where
  "example_recorded = example_completed\<lparr>wc_updatedAt := ''9'', wc_issueId := Some ''7''\<rparr>"

lemma example_recorded_valid: "validateWorkSemantics example_host example_recorded = Inr example_recorded"
  unfolding validate_work_iff by (intro conjI refl) code_simp+

lemma example_completion_step: "work_step example_host example_work example_completed"
  unfolding work_step_def
  by (intro conjI disjI1 example_completed_valid, rule semantic_transitionI) code_simp+

lemma example_retry: "validateWorkSemanticTransition example_host example_failed example_work False = Inr example_work"
  by (rule semantic_transitionI) code_simp+

section \<open>Properties\<close>

text \<open>The kinds of Work an outcome is for.\<close>

fun outcome_kinds :: "completion_outcome \<Rightarrow> work_kind set" where
  "outcome_kinds Outcome_completed_changed = {Kind_repository_change}"
| "outcome_kinds Outcome_completed_no_change = {Kind_completed_no_change, Kind_read_only_review}"
| "outcome_kinds Outcome_completed_local = {Kind_local_effect}"
| "outcome_kinds Outcome_completed_remote = {Kind_remote_effect}"
| "outcome_kinds Outcome_superseded = {Kind_superseded}"

lemma outcome_kind_fits: "validate_outcome c out = Inr () \<Longrightarrow> wc_workKind c \<in> outcome_kinds out"
  by (cases out) (auto simp: validate_outcome_def bindE_eq_Inr)

text \<open>
  C9.  A contract that validates as completed, or with a completion outcome, is proven: it is completed,
  holds a receipt bound to this Work, is in the cleanup phase with every phase checkpoint satisfied or
  skipped, and its delivery and cleanup checkpoints carry the receipt; with a completion outcome its
  dispatch is also terminal, its evidence valid, and its kind of Work one the outcome is for.
\<close>

theorem completed_work_is_proven:
  assumes "validateWorkSemantics H c = Inr c'" and "wc_status c = Status_completed \<or> wc_completionOutcome c \<noteq> None"
  shows "wc_status c = Status_completed \<and>
     (\<exists>r. wc_completionReceipt c = Some r \<and> receipt_work_id r = Some (wc_workId c) \<and> wc_phase c = Phase_cleanup \<and>
       (\<forall>p. \<exists>k. wc_phaseEvidence c p = Some k \<and> pe_state k \<in> {PState_satisfied, PState_skipped}) \<and>
       (\<forall>p\<in>{Phase_delivery, Phase_cleanup}. \<exists>k. wc_phaseEvidence c p = Some k \<and> pe_receiptId k = Some (receipt_id r))) \<and>
     (\<forall>out. wc_completionOutcome c = Some out \<longrightarrow>
       wc_dispatchState c = Dispatch_terminal \<and> wc_evidenceState c = EvState_valid \<and> wc_workKind c \<in> outcome_kinds out)"
proof -
  note v = validate_work_Inr(7) [OF assms(1)]
  have completed: "wc_status c = Status_completed" using assms(2) outcome_Inr(1) [OF v] by blast
  then obtain r where r: "wc_completionReceipt c = Some r" using validate_work_Inr(3) [OF assms(1)] by blast
  note k = completion_receipt_Inr [OF validate_work_Inr(6) [OF assms(1) r]]
  have "receipt_work_id r = Some (wc_workId c) \<and> wc_phase c = Phase_cleanup \<and>
      (\<forall>p. \<exists>k. wc_phaseEvidence c p = Some k \<and> pe_state k \<in> {PState_satisfied, PState_skipped}) \<and>
      (\<forall>p\<in>{Phase_delivery, Phase_cleanup}. \<exists>k. wc_phaseEvidence c p = Some k \<and> pe_receiptId k = Some (receipt_id r))"
    using k(1,4,5) receipt_phase [OF assms(1) r] by (auto simp: phase_done_def)
  with completed r outcome_Inr(3,4) [OF v] outcome_kind_fits [OF v] show ?thesis by blast
qed

theorem completed_work_is_proven_witness:
  "wc_status example_completed = Status_completed \<and>
     (\<exists>r. wc_completionReceipt example_completed = Some r \<and> receipt_work_id r = Some (wc_workId example_completed) \<and>
       wc_phase example_completed = Phase_cleanup \<and>
       (\<forall>p. \<exists>k. wc_phaseEvidence example_completed p = Some k \<and> pe_state k \<in> {PState_satisfied, PState_skipped})) \<and>
     wc_dispatchState example_completed = Dispatch_terminal \<and> wc_evidenceState example_completed = EvState_valid"
proof -
  have out: "wc_completionOutcome example_completed = Some Outcome_completed_no_change" by (simp add: example_completed_def)
  then have "wc_status example_completed = Status_completed \<or> wc_completionOutcome example_completed \<noteq> None" by simp
  from completed_work_is_proven [OF example_completed_valid this] out show ?thesis by blast
qed

text \<open>
  C10.  A phase transition of a complete phase-evidence map returns a map with the profile the
  validation demands of the target phase: earlier checkpoints done, the target's started,
  later ones pending; a checkpoint that was skipped stays skipped.
\<close>

theorem phase_transition_meets_profile:
  assumes "\<forall>p. m p \<noteq> None"
  shows "\<exists>m'. transitionPhaseEvidence m refs t input = Inr m' \<and>
     (\<forall>p. \<exists>k. m' p = Some k \<and> (p < t \<longrightarrow> pe_state k \<in> {PState_satisfied, PState_skipped}) \<and>
        (p = t \<longrightarrow> pe_state k \<noteq> PState_pending) \<and> (p > t \<longrightarrow> pe_state k = PState_pending)) \<and>
     (\<forall>c. wc_phase c = t \<longrightarrow> wc_phaseEvidence c = m' \<longrightarrow> for_each (validate_phase c) WORK_PHASES = Inr ())"
proof -
  obtain m' where m': "transitionPhaseEvidence m refs t input = Inr m'" using transition_total [OF assms] by blast
  have "phase_profile t m'" by (rule transition_profile [OF m'])
  then have "\<exists>k. m' p = Some k \<and> (p < t \<longrightarrow> pe_state k \<in> {PState_satisfied, PState_skipped}) \<and>
      (p = t \<longrightarrow> pe_state k \<noteq> PState_pending) \<and> (p > t \<longrightarrow> pe_state k = PState_pending)" for p
    by (rule phase_profile_read [of t m' p]) (auto simp: phase_done_def)
  with m' \<open>phase_profile t m'\<close> show ?thesis by (auto simp: validate_phases_Inr)
qed

theorem phase_transition_meets_profile_witness:
  "\<exists>m'. transitionPhaseEvidence (wc_phaseEvidence example_work) [] Phase_review
       \<lparr>ti_status = Status_running, ti_summary = ''reviewing'', ti_evidenceRefs = None, ti_recordedAt = ''2'', ti_source = None\<rparr> = Inr m' \<and>
     (\<forall>p. \<exists>k. m' p = Some k \<and> (p < Phase_review \<longrightarrow> pe_state k \<in> {PState_satisfied, PState_skipped}) \<and>
        (p = Phase_review \<longrightarrow> pe_state k \<noteq> PState_pending) \<and> (p > Phase_review \<longrightarrow> pe_state k = PState_pending)) \<and>
     (\<forall>c. wc_phase c = Phase_review \<longrightarrow> wc_phaseEvidence c = m' \<longrightarrow> for_each (validate_phase c) WORK_PHASES = Inr ())"
  by (rule phase_transition_meets_profile) (simp add: example_work_def)

text \<open>
  C11.  Completion is final: once a stored contract has an outcome, every later contract reached
  by accepted transitions has the same outcome, is completed with a receipt, has terminal
  dispatch and valid evidence, and stays in the cleanup phase.
\<close>

theorem completion_is_final:
  assumes "validateWorkSemantics H c = Inr c" and "wc_completionOutcome c = Some out"
    and "(work_step H)\<^sup>*\<^sup>* c d"
  shows "wc_completionOutcome d = Some out \<and> wc_status d = Status_completed \<and> wc_completionReceipt d \<noteq> None \<and>
     wc_dispatchState d = Dispatch_terminal \<and> wc_evidenceState d = EvState_valid \<and> wc_phase d = Phase_cleanup"
  using concluded_steps.inv_reachable [OF assms(3) concludedI [OF assms(1,2)]] by (simp add: concluded_def)

lemma example_recorded_step: "work_step example_host example_completed example_recorded"
  unfolding work_step_def
  by (intro conjI disjI1 example_recorded_valid, rule semantic_transitionI) code_simp+

theorem completion_is_final_witness:
  "wc_completionOutcome example_recorded = Some Outcome_completed_no_change \<and> wc_status example_recorded = Status_completed \<and>
     wc_completionReceipt example_recorded \<noteq> None \<and> wc_dispatchState example_recorded = Dispatch_terminal \<and>
     wc_evidenceState example_recorded = EvState_valid \<and> wc_phase example_recorded = Phase_cleanup"
  by (rule completion_is_final [OF example_completed_valid _ r_into_rtranclp [of "work_step example_host", OF example_recorded_step]])
    (simp add: example_completed_def)

text \<open>
  C12.  The lineage of a Work never changes and its review history only grows: along accepted
  transitions the parent, the predecessor and the lifecycle role are constant, and the
  recorded reviews are a prefix of the later ones.
\<close>

theorem work_lineage_is_immutable:
  assumes "(work_step H)\<^sup>*\<^sup>* c d"
  shows "wc_parentWorkId d = wc_parentWorkId c \<and> wc_predecessorWorkId d = wc_predecessorWorkId c \<and>
     coalesce (wc_lifecycleRole d) Role_primary = coalesce (wc_lifecycleRole c) Role_primary \<and>
     (\<exists>added. wc_implementationReviews d = wc_implementationReviews c @ added)"
proof -
  have l: "wc_parentWorkId d = wc_parentWorkId c" "wc_predecessorWorkId d = wc_predecessorWorkId c"
    "coalesce (wc_lifecycleRole d) Role_primary = coalesce (wc_lifecycleRole c) Role_primary"
    by (rule lineage_steps.stable_reachable [OF assms]; simp add: work_step_facts)+
  have "(\<lambda>a b. assertImplementationReviewHistoryAppendOnly H (Some a) (Some b) = Inr ())\<^sup>*\<^sup>*
      (wc_implementationReviews c) (wc_implementationReviews d)"
    using assms
  proof (induction rule: rtranclp_induct)
    case (step y z)
    from step.IH work_step_facts(7) [OF step.hyps(2)] show ?case by (rule rtranclp.rtrancl_into_rtrancl)
  qed simp
  from review_log.accepted_prefix [OF this] l show ?thesis by (auto simp: prefix_def)
qed

theorem work_lineage_is_immutable_witness:
  "wc_parentWorkId example_completed = wc_parentWorkId example_work \<and>
     wc_predecessorWorkId example_completed = wc_predecessorWorkId example_work \<and>
     coalesce (wc_lifecycleRole example_completed) Role_primary = coalesce (wc_lifecycleRole example_work) Role_primary \<and>
     (\<exists>added. wc_implementationReviews example_completed = wc_implementationReviews example_work @ added)"
  by (rule work_lineage_is_immutable) (rule r_into_rtranclp, rule example_completion_step)

text \<open>
  C13.  Terminal dispatch is left in two cases only: a failed Work without an outcome is retried,
  or, with the resume option, a cancelled Work whose cleanup was skipped and that has neither
  receipt nor outcome goes back to running implementation.
\<close>

theorem terminal_dispatch_left_only_by_retry_or_resume:
  assumes "validateWorkSemanticTransition H c d allow = Inr d'"
    and "wc_dispatchState c = Dispatch_terminal" and "wc_dispatchState d \<noteq> Dispatch_terminal"
  shows "wc_completionOutcome c = None \<and>
     (wc_status c = Status_failed \<and> wc_dispatchState d \<noteq> Dispatch_not_dispatched \<or>
      allow \<and> wc_status c = Status_cancelled \<and> wc_completionReceipt c = None \<and> wc_phase c = Phase_cleanup \<and>
        (\<exists>k. wc_phaseEvidence c Phase_cleanup = Some k \<and> pe_state k = PState_skipped) \<and>
        wc_status d = Status_running \<and> wc_dispatchState d = Dispatch_running \<and> wc_phase d = Phase_implementation)"
proof -
  from assms(1) obtain resuming where r: "resuming_retained_cancelled_work allow c d = Inr resuming"
    "retrying_failed_work c d \<or> resuming \<or> wc_dispatchState d \<in> set (DISPATCH_TRANSITIONS (wc_dispatchState c))"
    unfolding semantic_transition_Inr by blast
  then have "retrying_failed_work c d \<or> resuming_retained_cancelled_work allow c d = Inr True"
    using assms(2,3) by auto
  then show ?thesis by (auto simp: retrying_failed_work_def resuming_Inr_True)
qed

theorem terminal_dispatch_left_only_by_retry_or_resume_witness:
  "wc_completionOutcome example_failed = None \<and>
     (wc_status example_failed = Status_failed \<and> wc_dispatchState example_work \<noteq> Dispatch_not_dispatched \<or>
      False \<and> wc_status example_failed = Status_cancelled \<and> wc_completionReceipt example_failed = None \<and>
        wc_phase example_failed = Phase_cleanup \<and>
        (\<exists>k. wc_phaseEvidence example_failed Phase_cleanup = Some k \<and> pe_state k = PState_skipped) \<and>
        wc_status example_work = Status_running \<and> wc_dispatchState example_work = Dispatch_running \<and>
        wc_phase example_work = Phase_implementation)"
  by (rule terminal_dispatch_left_only_by_retry_or_resume [OF example_retry])
    (simp_all add: example_failed_def example_work_def)

text \<open>
  C14.  A Work completed by a read-only review changed nothing: the receipt names the revision
  the Work started from, no workspace path changed, the recorded evidence has no findings and
  inspected exactly the paths of the receipt.
\<close>

theorem read_only_completion_is_clean:
  assumes "validateWorkSemantics H c = Inr c'" and "wc_completionReceipt c = Some (Read_only_review_receipt r)"
  shows "wc_workKind c = Kind_read_only_review \<and> wc_completionOutcome c = Some Outcome_completed_no_change \<and>
     ro_sourceRevision r = ro_baseRevision r \<and> (\<forall>b. wc_baseRevision c = Some b \<longrightarrow> b \<noteq> [] \<longrightarrow> ro_baseRevision r = b) \<and>
     ro_workspaceChangedPaths r = [] \<and> ro_findingCount r = 0 \<and>
     (\<exists>e. wc_readOnlyReviewEvidence c = Some e \<and> roe_sourceRevision e = ro_sourceRevision r \<and> roe_findings e = [] \<and>
        set (roe_inspectedPaths e) = set (ro_inspectedPaths r) \<and> set (ro_inspectedPaths r) \<noteq> {})"
proof -
  have "validate_read_only_receipt c r = Inr ()"
    using completion_receipt_Inr(2) [OF validate_work_Inr(6) [OF assms]] by simp
  then have a: "wc_workKind c = Kind_read_only_review" "wc_completionOutcome c = Some Outcome_completed_no_change"
      "ro_baseRevision r = ro_sourceRevision r"
      "truthy (wc_baseRevision c) \<longrightarrow> Some (ro_baseRevision r) = wc_baseRevision c"
      "ro_workspaceChangedPaths r = []" "ro_findingCount r = 0" "ro_inspectedPaths r \<noteq> []"
    and "\<exists>e. wc_readOnlyReviewEvidence c = Some e \<and> roe_sourceRevision e = ro_sourceRevision r \<and> roe_findings e = [] \<and>
        sort_by unit_cmp (js_uniq (roe_inspectedPaths e)) = sort_by unit_cmp (js_uniq (ro_inspectedPaths r))"
    unfolding validate_read_only_receipt_def bindE_eq_Inr throw_if_eq_Inr by (auto simp: bindE_eq_Inr split: option.splits)
  then obtain e where e: "wc_readOnlyReviewEvidence c = Some e" "roe_sourceRevision e = ro_sourceRevision r"
    "roe_findings e = []" "sort_by unit_cmp (js_uniq (roe_inspectedPaths e)) = sort_by unit_cmp (js_uniq (ro_inspectedPaths r))"
    by blast
  have "set (roe_inspectedPaths e) = set (ro_inspectedPaths r)"
    using arg_cong [OF e(4), of set] by simp
  with a e show ?thesis by (auto simp: truthy_iff)
qed

theorem read_only_completion_is_clean_witness:
  "wc_workKind example_completed = Kind_read_only_review \<and>
     wc_completionOutcome example_completed = Some Outcome_completed_no_change \<and>
     ro_sourceRevision example_ro_receipt = ro_baseRevision example_ro_receipt \<and>
     ro_workspaceChangedPaths example_ro_receipt = [] \<and> ro_findingCount example_ro_receipt = 0 \<and>
     (\<exists>e. wc_readOnlyReviewEvidence example_completed = Some e \<and> roe_sourceRevision e = ro_sourceRevision example_ro_receipt \<and>
        roe_findings e = [] \<and> set (roe_inspectedPaths e) = set (ro_inspectedPaths example_ro_receipt) \<and>
        set (ro_inspectedPaths example_ro_receipt) \<noteq> {})"
proof -
  have "wc_completionReceipt example_completed = Some (Read_only_review_receipt example_ro_receipt)"
    by (simp add: example_completed_def)
  from read_only_completion_is_clean [OF example_completed_valid this] show ?thesis by (elim conjE) (intro conjI; assumption)
qed

end
