(* ===== verification/ClaimConflicts.thy ===== *)
theory ClaimConflicts
  imports WorkTypes Contracts "HOL-Library.AList"
begin

text \<open>
  The conflict model of resource claims, \<open>src/runtime/resources/claims/conflicts.ts\<close>: the
  normal form of a resource key, the overlap of paths, workspaces, index and ref keys, the
  conflict of two claims, and the normalisation of a claim list.
\<close>

section \<open>Claims\<close>

record resource_claim =
  cm_resourceKey :: string
  cm_mode :: resource_mode
  cm_quantity :: "int option"
  cm_repoId :: "string option"
  cm_checkoutId :: "string option"
  cm_workId :: "string option"

definition after_prefix :: "string \<Rightarrow> string \<Rightarrow> string option" where
  "after_prefix p s = (if starts_with p s then Some (drop (length p) s) else None)"

definition normalizeResourceKey :: "string \<Rightarrow> string" where
  "normalizeResourceKey key =
     (let trimmed = js_trim key in
      case after_prefix ''workspace-read:'' trimmed of
        Some rest \<Rightarrow> ''workspace:'' @ rest
      | None \<Rightarrow> trimmed)"

text \<open>The condition \<open>parts.length >= 2 && !parts[0]!.includes('/') && !parts[0]!.includes('.')\<close>.\<close>

definition checkout_scoped :: "string list \<Rightarrow> bool" where
  "checkout_scoped parts \<longleftrightarrow>
     length parts \<ge> 2 \<and> CHR ''/'' \<notin> set (hd parts) \<and> CHR ''.'' \<notin> set (hd parts)"

definition pathValue :: "string \<Rightarrow> string option" where
  "pathValue key =
     (case after_prefix ''path:'' key of
        None \<Rightarrow> None
      | Some rest \<Rightarrow>
          (let raw = strip_dot_slash rest; parts = js_split (CHR '':'') raw in
           if checkout_scoped parts then Some (strip_dot_slash (js_join '':'' (drop 1 parts)))
           else Some raw))"

definition pathCheckoutId :: "string \<Rightarrow> string option" where
  "pathCheckoutId key =
     (case after_prefix ''path:'' key of
        None \<Rightarrow> None
      | Some raw \<Rightarrow>
          (let parts = js_split (CHR '':'') raw in
           if checkout_scoped parts then Some (hd parts) else None))"

definition workspaceCheckoutId :: "string \<Rightarrow> string option" where
  "workspaceCheckoutId key = after_prefix ''workspace:'' (normalizeResourceKey key)"

definition gitIndexCheckoutId :: "string \<Rightarrow> string option" where
  "gitIndexCheckoutId key =
     (if starts_with ''git-index:'' key then after_prefix ''git-index:'' key
      else if starts_with ''git-head:'' key then after_prefix ''git-head:'' key
      else None)"

definition isGitRefKey :: "string \<Rightarrow> bool" where
  "isGitRefKey key \<longleftrightarrow> starts_with ''git-ref:'' key \<or> starts_with ''git-refs:'' key"

section \<open>Paths\<close>

definition normalizeClaimPath :: "string \<Rightarrow> string option" where
  "normalizeClaimPath raw =
     (if raw = [] then None
      else let path = strip_dot_slash (slashes raw) in
        if starts_with ''/'' path \<or> starts_with ''~/'' path \<or> CHR 0x00 \<in> set path then None
        else let segments = filter (\<lambda>s. length s > 0 \<and> s \<noteq> ''.'') (js_split (CHR ''/'') path) in
          if list_ex (\<lambda>seg. seg = ''..'' \<or> js_includes ''->'' seg \<or> seg = ''*'') segments then None
          else if length segments = 0 then None
          else Some (js_join ''/'' segments))"

text \<open>\<open>s.replace(/\*\*?$/, '').replace(/\/$/, '')\<close>.\<close>

definition strip_glob :: "string \<Rightarrow> string" where
  "strip_glob s =
     (let t = (if ends_with ''**'' s then take (length s - 2) s
               else if ends_with ''*'' s then take (length s - 1) s else s) in
      if ends_with ''/'' t then take (length t - 1) t else t)"

definition pathOverlaps :: "string \<Rightarrow> string \<Rightarrow> bool" where
  "pathOverlaps left right =
     (case (normalizeClaimPath left, normalizeClaimPath right) of
        (Some aNorm, Some bNorm) \<Rightarrow>
          (let a = strip_glob aNorm; b = strip_glob bNorm in
           a = b \<or> starts_with (b @ ''/'') a \<or> starts_with (a @ ''/'') b)
      | _ \<Rightarrow> True)"

section \<open>Keys and claims\<close>

text \<open>What \<open>repo-content:*\<close> overlaps.\<close>

definition repo_content_covers :: "string \<Rightarrow> bool" where
  "repo_content_covers key \<longleftrightarrow> starts_with ''path:'' key \<or> starts_with ''workspace:'' key \<or> isGitRefKey key
     \<or> starts_with ''git-index:'' key \<or> starts_with ''git-head:'' key"

definition resourceKeysOverlap :: "string \<Rightarrow> string \<Rightarrow> bool" where
  "resourceKeysOverlap leftRaw rightRaw =
     (let left = normalizeResourceKey leftRaw; right = normalizeResourceKey rightRaw in
      if left = right then True
      else if left = ''repo-content:*'' then right = ''repo-content:*'' \<or> repo_content_covers right
      else if right = ''repo-content:*'' then repo_content_covers left
      else let leftWs = workspaceCheckoutId left; rightWs = workspaceCheckoutId right in
        if truthy leftWs \<and> truthy rightWs then leftWs = rightWs
        else if truthy leftWs \<and> starts_with ''path:'' right
          then pathCheckoutId right = None \<or> pathCheckoutId right = leftWs
        else if truthy rightWs \<and> starts_with ''path:'' left
          then pathCheckoutId left = None \<or> pathCheckoutId left = rightWs
        else if truthy leftWs \<and> gitIndexCheckoutId right \<noteq> None then gitIndexCheckoutId right = leftWs
        else if truthy rightWs \<and> gitIndexCheckoutId left \<noteq> None then gitIndexCheckoutId left = rightWs
        else (case (pathValue left, pathValue right) of
            (Some leftPath, Some rightPath) \<Rightarrow>
              (if truthy (pathCheckoutId left) \<and> truthy (pathCheckoutId right)
                  \<and> pathCheckoutId left \<noteq> pathCheckoutId right then False
               else pathOverlaps leftPath rightPath)
          | _ \<Rightarrow> isGitRefKey left \<and> isGitRefKey right))"

text \<open>Claims and leases are compared by key and mode only.\<close>

type_synonym key_mode = "string \<times> resource_mode"

definition resourceClaimsConflict :: "key_mode \<Rightarrow> key_mode \<Rightarrow> bool" where
  "resourceClaimsConflict left right =
     (let leftKey = normalizeResourceKey (fst left); rightKey = normalizeResourceKey (fst right);
          leftRelease = starts_with ''release:'' leftKey; rightRelease = starts_with ''release:'' rightKey in
      if leftRelease \<or> rightRelease then
        (if leftRelease \<and> rightRelease then True
         else (if leftRelease then snd right else snd left) \<noteq> Res_read)
      else if \<not> resourceKeysOverlap leftKey rightKey then False
      else snd left \<noteq> Res_read \<or> snd right \<noteq> Res_read)"

definition claim_key_mode :: "resource_claim \<Rightarrow> key_mode" where
  "claim_key_mode c = (cm_resourceKey c, cm_mode c)"

text \<open>The loop of \<open>normalizeClaims\<close>, with the \<open>Map\<close> in insertion order as its state.\<close>

definition normalize_claim_step ::
    "resource_claim \<Rightarrow> (string \<times> resource_claim) list \<Rightarrow> (string \<times> resource_claim) list" where
  "normalize_claim_step claim m =
     (let key = normalizeResourceKey (cm_resourceKey claim) in
      if key = [] then m
      else if (case map_of m key of
                 None \<Rightarrow> True
               | Some existing \<Rightarrow> cm_mode existing = Res_read \<and> cm_mode claim \<noteq> Res_read
                   \<or> cm_mode existing = Res_write \<and> cm_mode claim = Res_exclusive)
        then AList.update key (claim\<lparr>cm_resourceKey := key\<rparr>) m
      else m)"

definition normalizeClaims :: "resource_claim list \<Rightarrow> bool \<Rightarrow> resource_claim list" where
  "normalizeClaims claims readOnly =
     (if length claims = 0 then
        (if readOnly then []
         else [\<lparr>cm_resourceKey = ''repo-content:*'', cm_mode = Res_write, cm_quantity = None,
                cm_repoId = None, cm_checkoutId = None, cm_workId = None\<rparr>])
      else map snd (fold normalize_claim_step claims []))"

end
