(* ===== verification/LeaseStore.thy ===== *)
theory LeaseStore
  imports ClaimConflicts JsJson
begin

text \<open>
  Execution leases, \<open>src/runtime/resources/leases/types.ts\<close> and \<open>store.ts\<close>: the lease files of
  one repository with the fencing counters per resource, and the operations that list,
  acquire, renew, release and check them.

  The state is what a repository's \<open>leases\<close> directory holds (the active leases in directory
  order, keyed by lease id, and the counters keyed by the hash of the resource), together
  with the events, projection marks and scheduler wakes sent so far and the process-local
  metrics.  An operation returns its value or the error it throws, and the state it leaves:
  expired leases are purged even when the operation fails afterwards.  The clock, the random
  identifiers, the environment, the verdict of the writer fence and the outcome of the
  repository lock are arguments; within one locked operation the clock does not advance.
\<close>

section \<open>Types\<close>

datatype lease_visibility = Visibility_durable | Visibility_ephemeral

record owner_identity =
  oi_repositoryId :: string
  oi_checkoutId :: string
  oi_worktreeId :: string
  oi_branch :: string
  oi_principalId :: string
  oi_controllerInstanceId :: string
  oi_controllerGeneration :: string

record execution_lease =
  el_leaseId :: string
  el_repoId :: string
  el_checkoutId :: "string option"
  el_workId :: "string option"
  el_resourceKey :: string
  el_mode :: resource_mode
  el_ownerJobId :: string
  el_ownerIdentity :: "owner_identity option"
  el_ownerIdentityDigest :: "string option"
  el_fencingToken :: int
  el_acquiredAt :: string
  el_expiresAt :: string
  el_heartbeatAt :: string
  el_visibility :: "lease_visibility option"

record lease_options =
  lo_visibility :: "lease_visibility option"
  lo_notifyScheduler :: "bool option"
  lo_invalidateProjection :: "bool option"
  lo_emitRuntimeEvent :: "bool option"
  lo_ttlMs :: "int option"
  lo_ownerIdentity :: "owner_identity option"

record lease_blocker =
  lb_resourceKey :: string
  lb_ownerJobId :: string
  lb_leaseId :: string
  lb_mode :: resource_mode
  lb_ownerIdentityDigest :: "string option"

record acquisition_result =
  ar_acquired :: bool
  ar_leases :: "execution_lease list"
  ar_blockers :: "lease_blocker list"

record expected_lease =
  xl_leaseId :: string
  xl_fencingToken :: int
  xl_repoId :: "string option"
  xl_checkoutId :: "string option"
  xl_workId :: "string option"
  xl_resourceKey :: "string option"
  xl_ownerIdentityDigest :: "string option"

record side_effects =
  fx_visibility :: lease_visibility
  fx_notifyScheduler :: bool
  fx_invalidateProjection :: bool
  fx_emitRuntimeEvent :: bool

datatype lease_effect =
    Event_lease_acquired execution_lease
  | Event_lease_released execution_lease
  | Projection_dirty string
  | Scheduler_wake string

record lease_metrics =
  mt_durableAcquireEvents :: int
  mt_durableReleaseEvents :: int
  mt_projectionDirtyMarks :: int
  mt_schedulerWakes :: int
  mt_ephemeralAcquires :: int
  mt_ephemeralReleases :: int

record lease_store =
  ls_active :: "execution_lease list"
  ls_counters :: "string \<Rightarrow> int option"
  ls_effects :: "lease_effect list"
  ls_metrics :: lease_metrics

record runtime_env =
  en_writerInstanceId :: "string option"
  en_daemonInstanceId :: "string option"
  en_pid :: int
  en_writerGeneration :: "string option"
  en_activeRuntimeRevision :: "string option"

text \<open>The outcome of \<open>withControllerLock\<close>: held by another (with its identity, and the message thrown).\<close>

datatype lock_outcome = Lock_acquired | Lock_contended "(string \<times> string) option" string

section \<open>Helpers\<close>

definition lease_expired :: "js_host \<Rightarrow> int \<Rightarrow> execution_lease \<Rightarrow> bool" where
  "lease_expired H now lease =
     (case date_parse H (el_expiresAt lease) of None \<Rightarrow> False | Some t \<Rightarrow> t \<le> now)"

definition validate_claim_scope :: "string \<Rightarrow> resource_claim \<Rightarrow> unit res" where
  "validate_claim_scope repoId claim =
     (let claimRepoId = opt_trim (cm_repoId claim); checkoutId = opt_trim (cm_checkoutId claim);
          workId = opt_trim (cm_workId claim) in
      bindE (throw_if (truthy claimRepoId \<and> claimRepoId \<noteq> Some repoId)
               (''LEASE_REPOSITORY_SCOPE_MISMATCH: expected '' @ repoId @ '', received '' @ the claimRepoId)) (\<lambda>_.
      throw_if (truthy workId \<and> (\<not> truthy claimRepoId \<or> \<not> truthy checkoutId))
               (''LEASE_WORK_SCOPE_INCOMPLETE: '' @ the workId)))"

definition truthy_values :: "('a \<Rightarrow> string option) \<Rightarrow> 'a list \<Rightarrow> string list" where
  "truthy_values f xs = map the (filter truthy (map (\<lambda>x. opt_trim (f x)) xs))"

definition validateClaimScopes :: "string \<Rightarrow> resource_claim list \<Rightarrow> unit res" where
  "validateClaimScopes repoId claims =
     bindE (for_each (validate_claim_scope repoId) claims) (\<lambda>_.
     bindE (throw_if (length (js_uniq (truthy_values cm_checkoutId claims)) > 1)
              ''LEASE_CHECKOUT_SCOPE_AMBIGUOUS'') (\<lambda>_.
     throw_if (length (js_uniq (truthy_values cm_workId claims)) > 1) ''LEASE_WORK_SCOPE_AMBIGUOUS''))"

definition ownerIdentityDigest :: "js_host \<Rightarrow> owner_identity \<Rightarrow> string" where
  "ownerIdentityDigest H identity = sha256_hex H (json_stringify (json_strings
     [oi_repositoryId identity, oi_checkoutId identity, oi_worktreeId identity, oi_branch identity,
      oi_principalId identity, oi_controllerInstanceId identity, oi_controllerGeneration identity]))"

text \<open>\<open>a?.trim() || b\<close>.\<close>

definition trim_or :: "string option \<Rightarrow> string \<Rightarrow> string" where
  "trim_or v d = or_str (opt_trim v) d"

definition normalizedOwnerIdentity ::
    "runtime_env \<Rightarrow> string \<Rightarrow> string \<Rightarrow> resource_claim list \<Rightarrow> owner_identity option \<Rightarrow> owner_identity res" where
  "normalizedOwnerIdentity env repoId ownerJobId claims provided =
     (let claimCheckout = (case find (\<lambda>c. truthy (opt_trim (cm_checkoutId c))) claims of
                             None \<Rightarrow> None | Some c \<Rightarrow> opt_trim (cm_checkoutId c));
          field = (\<lambda>f. map_option f provided) in
      bindE (throw_if (provided \<noteq> None \<and> field oi_repositoryId \<noteq> Some repoId)
               (''LEASE_OWNER_REPOSITORY_MISMATCH: expected '' @ repoId @ '', received '' @ the (field oi_repositoryId))) (\<lambda>_.
      bindE (throw_if (truthy (field oi_checkoutId) \<and> truthy claimCheckout \<and> field oi_checkoutId \<noteq> claimCheckout)
               (''LEASE_OWNER_CHECKOUT_MISMATCH: claim '' @ the claimCheckout @ '', owner '' @ the (field oi_checkoutId))) (\<lambda>_.
      let checkoutId = trim_or (field oi_checkoutId) (or_str claimCheckout ''unscoped'') in
      Inr \<lparr>oi_repositoryId = repoId,
           oi_checkoutId = checkoutId,
           oi_worktreeId = trim_or (field oi_worktreeId) checkoutId,
           oi_branch = trim_or (field oi_branch) ''unknown'',
           oi_principalId = trim_or (field oi_principalId) (''owner:'' @ ownerJobId),
           oi_controllerInstanceId = trim_or (field oi_controllerInstanceId)
             (trim_or (en_writerInstanceId env) (trim_or (en_daemonInstanceId env) (''process:'' @ int_str (en_pid env)))),
           oi_controllerGeneration = trim_or (field oi_controllerGeneration)
             (trim_or (en_writerGeneration env) (trim_or (en_activeRuntimeRevision env) ''unbound''))\<rparr>)))"

definition counter_key :: "js_host \<Rightarrow> string \<Rightarrow> string" where
  "counter_key H resourceKey = sha256_hex H resourceKey"

text \<open>The value read (0 when the file is missing) and the counters after the write.\<close>

definition nextFencingToken ::
    "js_host \<Rightarrow> string \<Rightarrow> (string \<Rightarrow> int option) \<Rightarrow> int \<times> (string \<Rightarrow> int option)" where
  "nextFencingToken H resourceKey counters =
     (let current = coalesce (counters (counter_key H resourceKey)) 0; value = max 0 current + 1 in
      (value, counters(counter_key H resourceKey \<mapsto> value)))"

definition resolveSideEffects :: "lease_options option \<Rightarrow> lease_visibility option \<Rightarrow> side_effects" where
  "resolveSideEffects options visibility =
     (let vis = (case Option.bind options lo_visibility of Some v \<Rightarrow> v
                 | None \<Rightarrow> coalesce visibility Visibility_durable);
          ephemeral = (vis = Visibility_ephemeral) in
      \<lparr>fx_visibility = vis,
       fx_notifyScheduler = coalesce (Option.bind options lo_notifyScheduler) (\<not> ephemeral),
       fx_invalidateProjection = coalesce (Option.bind options lo_invalidateProjection) (\<not> ephemeral),
       fx_emitRuntimeEvent = coalesce (Option.bind options lo_emitRuntimeEvent) (\<not> ephemeral)\<rparr>)"

text \<open>Writing and removing the file of a lease.\<close>

fun put_lease :: "execution_lease \<Rightarrow> execution_lease list \<Rightarrow> execution_lease list" where
  "put_lease l [] = [l]"
| "put_lease l (x # xs) = (if el_leaseId x = el_leaseId l then l # xs else x # put_lease l xs)"

definition remove_lease :: "string \<Rightarrow> execution_lease list \<Rightarrow> execution_lease list" where
  "remove_lease leaseId xs = filter (\<lambda>l. el_leaseId l \<noteq> leaseId) xs"

definition listActiveLeases :: "js_host \<Rightarrow> int \<Rightarrow> lease_store \<Rightarrow> lease_store" where
  "listActiveLeases H now s = s\<lparr>ls_active := filter (\<lambda>l. \<not> lease_expired H now l) (ls_active s)\<rparr>"

definition send :: "lease_effect \<Rightarrow> lease_store \<Rightarrow> lease_store" where
  "send e s = s\<lparr>ls_effects := ls_effects s @ [e]\<rparr>"

definition count :: "(lease_metrics \<Rightarrow> lease_metrics) \<Rightarrow> lease_store \<Rightarrow> lease_store" where
  "count f s = s\<lparr>ls_metrics := f (ls_metrics s)\<rparr>"

text \<open>The projection mark and the scheduler wake that end an acquisition or a release.\<close>

definition finish_effects :: "side_effects \<Rightarrow> string \<Rightarrow> lease_store \<Rightarrow> lease_store" where
  "finish_effects effects reason s =
     (let s1 = (if fx_invalidateProjection effects
                then count (\<lambda>m. m\<lparr>mt_projectionDirtyMarks := mt_projectionDirtyMarks m + 1\<rparr>)
                       (send (Projection_dirty reason) s) else s) in
      if fx_notifyScheduler effects
      then count (\<lambda>m. m\<lparr>mt_schedulerWakes := mt_schedulerWakes m + 1\<rparr>) (send (Scheduler_wake reason) s1)
      else s1)"

section \<open>Acquisition\<close>

definition refused :: "lease_blocker list \<Rightarrow> acquisition_result" where
  "refused blockers = \<lparr>ar_acquired = False, ar_leases = [], ar_blockers = blockers\<rparr>"

definition lease_key_mode :: "execution_lease \<Rightarrow> key_mode" where
  "lease_key_mode l = (el_resourceKey l, el_mode l)"

definition claimsConflict :: "resource_claim \<Rightarrow> execution_lease \<Rightarrow> bool" where
  "claimsConflict claim lease = resourceClaimsConflict (claim_key_mode claim) (lease_key_mode lease)"

definition blocker_of :: "execution_lease \<Rightarrow> lease_blocker" where
  "blocker_of lease = \<lparr>lb_resourceKey = el_resourceKey lease, lb_ownerJobId = el_ownerJobId lease,
     lb_leaseId = el_leaseId lease, lb_mode = el_mode lease, lb_ownerIdentityDigest = el_ownerIdentityDigest lease\<rparr>"

definition acquisition_blockers :: "resource_claim list \<Rightarrow> execution_lease list \<Rightarrow> lease_blocker list" where
  "acquisition_blockers claims active =
     concat (map (\<lambda>claim. map blocker_of (filter (claimsConflict claim) active)) claims)"

definition new_lease ::
    "js_host \<Rightarrow> string \<Rightarrow> string \<Rightarrow> owner_identity \<Rightarrow> lease_visibility \<Rightarrow> int \<Rightarrow> int \<Rightarrow> string \<Rightarrow> resource_claim
      \<Rightarrow> int \<Rightarrow> execution_lease" where
  "new_lease H repoId ownerJobId identity vis now expiresAt uuid claim token =
     \<lparr>el_leaseId = ''LEASE-'' @ int_str now @ ''-'' @ take 8 uuid,
      el_repoId = repoId,
      el_checkoutId = (if truthy (opt_trim (cm_checkoutId claim)) then opt_trim (cm_checkoutId claim) else None),
      el_workId = (if truthy (opt_trim (cm_workId claim)) then opt_trim (cm_workId claim) else None),
      el_resourceKey = cm_resourceKey claim,
      el_mode = cm_mode claim,
      el_ownerJobId = ownerJobId,
      el_ownerIdentity = Some identity,
      el_ownerIdentityDigest = Some (ownerIdentityDigest H identity),
      el_fencingToken = token,
      el_acquiredAt = iso_of_ms H now,
      el_expiresAt = iso_of_ms H expiresAt,
      el_heartbeatAt = iso_of_ms H now,
      el_visibility = Some vis\<rparr>"

text \<open>The counters are advanced claim by claim; \<open>mk\<close> builds the lease of the i-th claim.\<close>

fun build_leases ::
    "js_host \<Rightarrow> (nat \<Rightarrow> resource_claim \<Rightarrow> int \<Rightarrow> execution_lease) \<Rightarrow> nat \<Rightarrow> resource_claim list
      \<Rightarrow> (string \<Rightarrow> int option) \<Rightarrow> execution_lease list \<times> (string \<Rightarrow> int option)" where
  "build_leases H mk i [] counters = ([], counters)"
| "build_leases H mk i (claim # claims) counters =
     (case nextFencingToken H (cm_resourceKey claim) counters of
        (token, counters1) \<Rightarrow>
          (case build_leases H mk (Suc i) claims counters1 of
             (leases, counters2) \<Rightarrow> (mk i claim token # leases, counters2)))"

definition store_acquired :: "side_effects \<Rightarrow> execution_lease \<Rightarrow> lease_store \<Rightarrow> lease_store" where
  "store_acquired effects lease s =
     (let s1 = s\<lparr>ls_active := put_lease lease (ls_active s)\<rparr> in
      if fx_emitRuntimeEvent effects
      then count (\<lambda>m. m\<lparr>mt_durableAcquireEvents := mt_durableAcquireEvents m + 1\<rparr>)
             (send (Event_lease_acquired lease) s1)
      else count (\<lambda>m. m\<lparr>mt_ephemeralAcquires := mt_ephemeralAcquires m + 1\<rparr>) s1)"

text \<open>The part under the repository lock.\<close>

definition acquire_locked ::
    "js_host \<Rightarrow> string \<Rightarrow> string \<Rightarrow> resource_claim list \<Rightarrow> owner_identity \<Rightarrow> side_effects \<Rightarrow> int \<Rightarrow> int
      \<Rightarrow> (nat \<Rightarrow> string) \<Rightarrow> lease_store \<Rightarrow> acquisition_result \<times> lease_store" where
  "acquire_locked H repoId ownerJobId claims identity effects ttlMs now uuid s =
     (let s1 = listActiveLeases H now s;
          active = filter (\<lambda>l. el_ownerJobId l \<noteq> ownerJobId) (ls_active s1);
          blockers = acquisition_blockers claims active in
      if length blockers > 0 then (refused blockers, s1)
      else let (leases, counters) = build_leases H (\<lambda>i. new_lease H repoId ownerJobId identity
                 (fx_visibility effects) now (now + max 5000 ttlMs) (uuid i)) 0 claims (ls_counters s1);
               s2 = fold (store_acquired effects) leases (s1\<lparr>ls_counters := counters\<rparr>);
               s3 = (if length leases > 0 then finish_effects effects (''leases-acquired:'' @ ownerJobId) s2 else s2) in
        (\<lparr>ar_acquired = True, ar_leases = leases, ar_blockers = []\<rparr>, s3))"

text \<open>\<open>fence\<close> is the refusal of the writer fence with its reason, \<open>None\<close> when writing is allowed.\<close>

definition acquireExecutionLeases ::
    "js_host \<Rightarrow> runtime_env \<Rightarrow> string option option \<Rightarrow> lock_outcome \<Rightarrow> string \<Rightarrow> string \<Rightarrow> resource_claim list
      \<Rightarrow> lease_options \<Rightarrow> int \<Rightarrow> (nat \<Rightarrow> string) \<Rightarrow> lease_store \<Rightarrow> acquisition_result res \<times> lease_store" where
  "acquireExecutionLeases H env fence lock repoId ownerJobId claims options now uuid s =
     (case fence of
        Some reason \<Rightarrow> (Inr (refused [\<lparr>lb_resourceKey = ''runtime-authority'', lb_ownerJobId = ''runtime-fence'',
            lb_leaseId = coalesce reason ''runtime_fenced'', lb_mode = Res_exclusive,
            lb_ownerIdentityDigest = None\<rparr>]), s)
      | None \<Rightarrow>
        (case validateClaimScopes repoId claims of
           Inl e \<Rightarrow> (Inl e, s)
         | Inr _ \<Rightarrow>
           (case normalizedOwnerIdentity env repoId ownerJobId claims (lo_ownerIdentity options) of
              Inl e \<Rightarrow> (Inl e, s)
            | Inr identity \<Rightarrow>
              (case lock of
                 Lock_contended existing _ \<Rightarrow>
                   (Inr (refused [\<lparr>lb_resourceKey = ''controller-lock'',
                      lb_ownerJobId = (case existing of None \<Rightarrow> ''controller-lock'' | Some (lockId, owner) \<Rightarrow> owner),
                      lb_leaseId = (case existing of None \<Rightarrow> ''controller-lock-contention'' | Some (lockId, owner) \<Rightarrow> lockId),
                      lb_mode = Res_exclusive, lb_ownerIdentityDigest = None\<rparr>]), s)
               | Lock_acquired \<Rightarrow>
                   (let (result, s') = acquire_locked H repoId ownerJobId claims identity
                          (resolveSideEffects (Some options) None) (coalesce (lo_ttlMs options) 30000) now uuid s in
                    (Inr result, s'))))))"

section \<open>Renewal and release\<close>

text \<open>\<open>new Map(expected.map((ref) => [ref.leaseId, ref]))\<close>: a later reference replaces an earlier one.\<close>

definition expected_get :: "expected_lease list \<Rightarrow> string \<Rightarrow> expected_lease option" where
  "expected_get expected leaseId = map_of (rev (map (\<lambda>r. (xl_leaseId r, r)) expected)) leaseId"

definition expected_size :: "expected_lease list \<Rightarrow> nat" where
  "expected_size expected = length (js_uniq (map xl_leaseId expected))"

definition leaseMatchesExpected :: "execution_lease \<Rightarrow> expected_lease option \<Rightarrow> bool" where
  "leaseMatchesExpected lease expected =
     (case expected of
        None \<Rightarrow> False
      | Some x \<Rightarrow>
          if xl_fencingToken x \<noteq> el_fencingToken lease then False
          else if truthy (xl_repoId x) \<and> xl_repoId x \<noteq> Some (el_repoId lease) then False
          else if truthy (xl_checkoutId x) \<and> xl_checkoutId x \<noteq> el_checkoutId lease then False
          else if truthy (xl_workId x) \<and> xl_workId x \<noteq> el_workId lease then False
          else if truthy (xl_resourceKey x) \<and> xl_resourceKey x \<noteq> Some (el_resourceKey lease) then False
          else if truthy (xl_ownerIdentityDigest x) \<and> xl_ownerIdentityDigest x \<noteq> el_ownerIdentityDigest lease then False
          else True)"

text \<open>
  \<open>assertRuntimeMayWriteOrThrow\<close> inside a \<open>try\<close>: only a \<open>WRITER_FENCED:\<close> error is thrown on,
  any other is ignored.
\<close>

definition writer_fence :: "string option \<Rightarrow> unit res" where
  "writer_fence fence =
     (case fence of None \<Rightarrow> Inr ()
      | Some msg \<Rightarrow> if starts_with ''WRITER_FENCED:'' msg then throw msg else Inr ())"

definition under_lock :: "lock_outcome \<Rightarrow> (lease_store \<Rightarrow> 'a res \<times> lease_store) \<Rightarrow> lease_store \<Rightarrow> 'a res \<times> lease_store" where
  "under_lock lock f s = (case lock of Lock_acquired \<Rightarrow> f s | Lock_contended _ msg \<Rightarrow> (throw msg, s))"

definition renewed :: "js_host \<Rightarrow> int \<Rightarrow> int \<Rightarrow> execution_lease \<Rightarrow> execution_lease" where
  "renewed H now ttlMs lease =
     lease\<lparr>el_heartbeatAt := iso_of_ms H now, el_expiresAt := iso_of_ms H (now + ttlMs)\<rparr>"

definition renew_locked ::
    "js_host \<Rightarrow> string \<Rightarrow> int \<Rightarrow> expected_lease list option \<Rightarrow> int \<Rightarrow> lease_store
      \<Rightarrow> execution_lease list res \<times> lease_store" where
  "renew_locked H ownerJobId ttlMs expected now s =
     (let s1 = listActiveLeases H now s;
          owned = filter (\<lambda>l. case expected of None \<Rightarrow> True
                    | Some refs \<Rightarrow> leaseMatchesExpected l (expected_get refs (el_leaseId l)))
                  (filter (\<lambda>l. el_ownerJobId l = ownerJobId) (ls_active s1)) in
      if (case expected of None \<Rightarrow> False | Some refs \<Rightarrow> length owned \<noteq> expected_size refs)
      then (throw (''FENCING_TOKEN_STALE: '' @ ownerJobId @ '' no longer owns the expected scoped lease set''), s1)
      else let next = map (renewed H now ttlMs) owned in
        (Inr next, s1\<lparr>ls_active := fold put_lease next (ls_active s1)\<rparr>))"

definition renewExecutionLeases ::
    "js_host \<Rightarrow> string option \<Rightarrow> lock_outcome \<Rightarrow> string \<Rightarrow> int \<Rightarrow> expected_lease list option \<Rightarrow> int \<Rightarrow> lease_store
      \<Rightarrow> execution_lease list res \<times> lease_store" where
  "renewExecutionLeases H fence lock ownerJobId ttlMs expected now s =
     (case writer_fence fence of
        Inl e \<Rightarrow> (Inl e, s)
      | Inr _ \<Rightarrow> under_lock lock (renew_locked H ownerJobId ttlMs expected now) s)"

text \<open>The body of the release loops: remove the file and send the event.\<close>

definition release_one :: "lease_options option \<Rightarrow> execution_lease \<Rightarrow> lease_store \<Rightarrow> lease_store" where
  "release_one options lease s =
     (let s1 = s\<lparr>ls_active := remove_lease (el_leaseId lease) (ls_active s)\<rparr> in
      if fx_emitRuntimeEvent (resolveSideEffects options (el_visibility lease))
      then count (\<lambda>m. m\<lparr>mt_durableReleaseEvents := mt_durableReleaseEvents m + 1\<rparr>)
             (send (Event_lease_released lease) s1)
      else count (\<lambda>m. m\<lparr>mt_ephemeralReleases := mt_ephemeralReleases m + 1\<rparr>) s1)"

definition release_visibility :: "lease_options option \<Rightarrow> execution_lease list \<Rightarrow> lease_visibility" where
  "release_visibility options leases =
     fold (\<lambda>l v. coalesce (el_visibility l) v) leases
       (coalesce (Option.bind options lo_visibility) Visibility_durable)"

definition release_all :: "lease_options option \<Rightarrow> string \<Rightarrow> execution_lease list \<Rightarrow> lease_store \<Rightarrow> int \<times> lease_store" where
  "release_all options reason leases s =
     (let s1 = fold (release_one options) leases s in
      (int (length leases),
       if length leases > 0
       then finish_effects (resolveSideEffects options (Some (release_visibility options leases))) reason s1
       else s1))"

definition releaseExecutionLeases ::
    "js_host \<Rightarrow> string option \<Rightarrow> lock_outcome \<Rightarrow> string \<Rightarrow> expected_lease list option \<Rightarrow> lease_options option
      \<Rightarrow> int \<Rightarrow> lease_store \<Rightarrow> int res \<times> lease_store" where
  "releaseExecutionLeases H fence lock ownerJobId expected options now s =
     (case writer_fence fence of
        Inl e \<Rightarrow> (Inl e, s)
      | Inr _ \<Rightarrow> under_lock lock (\<lambda>s.
          let s1 = listActiveLeases H now s;
              leases = filter (\<lambda>l. el_ownerJobId l = ownerJobId \<and>
                         (case expected of None \<Rightarrow> True
                          | Some refs \<Rightarrow> leaseMatchesExpected l (expected_get refs (el_leaseId l)))) (ls_active s1);
              (n, s2) = release_all options (''leases-released:'' @ ownerJobId) leases s1 in
          (Inr n, s2)) s)"

definition release_exact_locked ::
    "js_host \<Rightarrow> string \<Rightarrow> expected_lease list \<Rightarrow> lease_options option \<Rightarrow> int \<Rightarrow> lease_store \<Rightarrow> int res \<times> lease_store" where
  "release_exact_locked H ownerJobId expected options now s =
     (if expected_size expected \<noteq> length expected
      then (throw (''LEASE_SET_INVALID: '' @ ownerJobId @ '' contains duplicate lease ids''), s)
      else let s1 = listActiveLeases H now s;
               owned = filter (\<lambda>l. el_ownerJobId l = ownerJobId) (ls_active s1) in
        if length owned \<noteq> expected_size expected
        then (throw (''LEASE_SET_MISMATCH: '' @ ownerJobId @ '' owns '' @ int_str (int (length owned))
                @ '' active leases, expected '' @ int_str (int (expected_size expected))), s1)
        else (case for_each (\<lambda>l. throw_if (\<not> leaseMatchesExpected l (expected_get expected (el_leaseId l)))
                       (''LEASE_SET_FENCE_MISMATCH: '' @ ownerJobId @ '' no longer owns '' @ el_leaseId l)) owned of
            Inl e \<Rightarrow> (Inl e, s1)
          | Inr _ \<Rightarrow>
              (let (n, s2) = release_all options (''leases-released-exact:'' @ ownerJobId) owned s1 in (Inr n, s2))))"

definition releaseExactExecutionLeases ::
    "js_host \<Rightarrow> string option \<Rightarrow> lock_outcome \<Rightarrow> string \<Rightarrow> expected_lease list \<Rightarrow> lease_options option
      \<Rightarrow> int \<Rightarrow> lease_store \<Rightarrow> int res \<times> lease_store" where
  "releaseExactExecutionLeases H fence lock ownerJobId expected options now s =
     (case writer_fence fence of
        Inl e \<Rightarrow> (Inl e, s)
      | Inr _ \<Rightarrow> under_lock lock (release_exact_locked H ownerJobId expected options now) s)"

definition terminal_lease_check :: "string \<Rightarrow> expected_lease list \<Rightarrow> execution_lease \<Rightarrow> unit res" where
  "terminal_lease_check processId expected lease =
     (case expected_get expected (el_leaseId lease) of
        None \<Rightarrow> throw (''TERMINAL_PROCESS_LEASE_SET_MISMATCH: '' @ processId @ '' owns an unrecorded lease '' @ el_leaseId lease)
      | Some ref \<Rightarrow> throw_if (\<not> leaseMatchesExpected lease (Some ref))
          (''TERMINAL_PROCESS_LEASE_FENCE_MISMATCH: '' @ processId @ '' no longer owns the recorded lease '' @ el_leaseId lease))"

definition release_terminal_locked ::
    "js_host \<Rightarrow> string \<Rightarrow> string \<Rightarrow> expected_lease list \<Rightarrow> lease_options option \<Rightarrow> int \<Rightarrow> lease_store
      \<Rightarrow> int res \<times> lease_store" where
  "release_terminal_locked H repoId processId expected options now s =
     (let ownerJobId = ''process:'' @ processId in
      if expected_size expected \<noteq> length expected
      then (throw (''TERMINAL_PROCESS_LEASE_SET_INVALID: '' @ processId @ '' contains duplicate lease ids''), s)
      else (case for_each (\<lambda>ref. throw_if (truthy (xl_repoId ref) \<and> xl_repoId ref \<noteq> Some repoId)
                     (''TERMINAL_PROCESS_LEASE_SCOPE_MISMATCH: '' @ processId @ '' references another repository'')) expected of
          Inl e \<Rightarrow> (Inl e, s)
        | Inr _ \<Rightarrow>
            (let s1 = listActiveLeases H now s;
                 owned = filter (\<lambda>l. el_ownerJobId l = ownerJobId) (ls_active s1) in
             case for_each (terminal_lease_check processId expected) owned of
               Inl e \<Rightarrow> (Inl e, s1)
             | Inr _ \<Rightarrow>
                 (let (n, s2) = release_all options (''terminal-leases-released:'' @ ownerJobId) owned s1 in (Inr n, s2)))))"

definition releaseTerminalProcessLeases ::
    "js_host \<Rightarrow> lock_outcome \<Rightarrow> string \<Rightarrow> string \<Rightarrow> expected_lease list \<Rightarrow> lease_options option \<Rightarrow> int \<Rightarrow> lease_store
      \<Rightarrow> int res \<times> lease_store" where
  "releaseTerminalProcessLeases H lock repoId processId expected options now s =
     (let normalizedProcessId = js_trim processId in
      if normalizedProcessId = [] then (throw ''TERMINAL_PROCESS_ID_REQUIRED'', s)
      else under_lock lock (release_terminal_locked H repoId normalizedProcessId expected options now) s)"

definition assertFencingToken ::
    "js_host \<Rightarrow> string \<Rightarrow> int \<Rightarrow> int \<Rightarrow> lease_store \<Rightarrow> execution_lease res \<times> lease_store" where
  "assertFencingToken H leaseId fencingToken now s =
     (case find (\<lambda>l. el_leaseId l = leaseId) (ls_active s) of
        None \<Rightarrow> (throw (''LEASE_EXPIRED: '' @ leaseId), s)
      | Some lease \<Rightarrow>
          if lease_expired H now lease
          then (throw (''LEASE_EXPIRED: '' @ leaseId), s\<lparr>ls_active := remove_lease leaseId (ls_active s)\<rparr>)
          else if el_fencingToken lease \<noteq> fencingToken then (throw (''FENCING_TOKEN_STALE: '' @ leaseId), s)
          else (Inr lease, s))"

end
