(* ===== verification/ClaimFacts.thy ===== *)
theory ClaimFacts
  imports LeaseStore
begin

text \<open>
  Facts about \<open>ClaimConflicts\<close>: the conflict relation is symmetric and monotone in the mode, and
  the normalisation of a claim list keeps, for every resource, the strongest mode asked for.
  The interpretation makes the leases an instance of \<open>ownership\<close>.
\<close>

section \<open>Claims\<close>

instantiation resource_mode :: linorder
begin

fun mode_rank :: "resource_mode \<Rightarrow> nat" where
  "mode_rank Res_read = 0" | "mode_rank Res_write = 1" | "mode_rank Res_exclusive = 2"

definition less_eq_resource_mode :: "resource_mode \<Rightarrow> resource_mode \<Rightarrow> bool" where
  "less_eq_resource_mode a b \<longleftrightarrow> mode_rank a \<le> mode_rank b"

definition less_resource_mode :: "resource_mode \<Rightarrow> resource_mode \<Rightarrow> bool" where
  "less_resource_mode a b \<longleftrightarrow> mode_rank a < mode_rank b"

instance
proof
  fix a b :: resource_mode
  show "a \<le> b \<Longrightarrow> b \<le> a \<Longrightarrow> a = b" by (cases a; cases b) (simp_all add: less_eq_resource_mode_def)
qed (auto simp: less_eq_resource_mode_def less_resource_mode_def)

end

lemma read_least [simp]: "Res_read \<le> (m :: resource_mode)"
  by (simp add: less_eq_resource_mode_def)

lemma pathOverlaps_sym: "pathOverlaps a b = pathOverlaps b a"
  by (auto simp: pathOverlaps_def Let_def split: option.splits)

text \<open>The order in which the two sides are asked does not matter.\<close>

lemma asked_in_turn:
  "e = e' \<Longrightarrow> z = z' \<Longrightarrow>
   (if A \<and> B then e else if A \<and> p2 then x2 else if B \<and> p1 then x1 else if A \<and> g2 then y2 else if B \<and> g1 then y1 else z) =
   (if B \<and> A then e' else if B \<and> p1 then x1 else if A \<and> p2 then x2 else if B \<and> g1 then y1 else if A \<and> g2 then y2 else z')"
  by auto

lemma covered_in_turn:
  "z = z' \<Longrightarrow> (l = s \<Longrightarrow> r = s \<Longrightarrow> False) \<Longrightarrow>
   (if l = s then r = s \<or> c r else if r = s then c l else z) = (if r = s then l = s \<or> c l else if l = s then c r else z')"
  by auto

lemma path_case_sym:
  "(case (pathValue l, pathValue r) of (Some p, Some q) \<Rightarrow> (if A \<and> B \<and> m \<noteq> n then False else pathOverlaps p q) | _ \<Rightarrow> g \<and> h) =
   (case (pathValue r, pathValue l) of (Some p, Some q) \<Rightarrow> (if B \<and> A \<and> n \<noteq> m then False else pathOverlaps p q) | _ \<Rightarrow> h \<and> g)"
  by (cases "pathValue l"; cases "pathValue r") (auto simp: pathOverlaps_sym)

lemma resourceKeysOverlap_sym: "resourceKeysOverlap a b \<longleftrightarrow> resourceKeysOverlap b a"
proof (cases "normalizeResourceKey a = normalizeResourceKey b")
  case True
  then show ?thesis by (simp add: resourceKeysOverlap_def Let_def)
next
  case False
  show ?thesis
    unfolding resourceKeysOverlap_def Let_def if_not_P [OF False] if_not_P [OF False [symmetric]]
    by (rule covered_in_turn, rule asked_in_turn, rule eq_commute, rule path_case_sym) (use False in simp)
qed

lemma resourceClaimsConflict_sym: "resourceClaimsConflict a b \<longleftrightarrow> resourceClaimsConflict b a"
  unfolding resourceClaimsConflict_def Let_def using resourceKeysOverlap_sym by auto


lemma after_prefix_Some: "after_prefix p s = Some t \<longleftrightarrow> s = p @ t"
  by (auto simp: after_prefix_def starts_with_iff)

lemma last_drop_trimmed: "js_trimmed (p @ t) \<Longrightarrow> t \<noteq> [] \<Longrightarrow> \<not> js_space (last t)"
  by (auto simp: js_trimmed_def)

lemma normalizeResourceKey_idem [simp]: "normalizeResourceKey (normalizeResourceKey k) = normalizeResourceKey k"
proof (cases "after_prefix ''workspace-read:'' (js_trim k)")
  case None
  then show ?thesis by (simp add: normalizeResourceKey_def Let_def)
next
  case (Some rest)
  then have t: "js_trim k = ''workspace-read:'' @ rest" by (simp add: after_prefix_Some)
  have "js_trimmed (''workspace:'' @ rest)"
    using js_trimmed_trim [of k] unfolding t by (auto simp: js_trimmed_def js_space_def)
  then have "js_trim (''workspace:'' @ rest) = ''workspace:'' @ rest" by (rule js_trim_id)
  moreover have "after_prefix ''workspace-read:'' (''workspace:'' @ rest) = None" by (simp add: after_prefix_def)
  ultimately show ?thesis using Some by (simp add: normalizeResourceKey_def Let_def)
qed

text \<open>A conflict depends on the normal form of the key, and on the mode only through \<open>read\<close>.\<close>

lemma conflict_normal_key:
  "resourceClaimsConflict (normalizeResourceKey k, m) r \<longleftrightarrow> resourceClaimsConflict (k, m) r"
  by (simp add: resourceClaimsConflict_def Let_def)

lemma conflict_mono:
  "resourceClaimsConflict (k, m) r \<Longrightarrow> m \<le> m' \<Longrightarrow> resourceClaimsConflict (k, m') r"
  by (cases m; cases m')
    (auto simp: resourceClaimsConflict_def Let_def less_eq_resource_mode_def split: if_splits)

interpretation claim_ownership: ownership
  "\<lambda>a b. resourceClaimsConflict (lease_key_mode a) (lease_key_mode b)" el_ownerJobId
  by unfold_locales (simp add: resourceClaimsConflict_sym)

section \<open>Normalised claims\<close>

definition claim_of :: "resource_claim list \<Rightarrow> string \<Rightarrow> resource_claim \<Rightarrow> bool" where
  "claim_of cs key c \<longleftrightarrow> key \<noteq> [] \<and> (\<exists>c0\<in>set cs. normalizeResourceKey (cm_resourceKey c0) = key \<and> c = c0\<lparr>cm_resourceKey := key\<rparr>) \<and>
     (\<forall>d\<in>set cs. normalizeResourceKey (cm_resourceKey d) = key \<longrightarrow> cm_mode d \<le> cm_mode c)"

lemma map_of_update: "map_of (AList.update k v m) = (map_of m)(k \<mapsto> v)"
  by (rule update_conv')

lemma mode_below_iff:
  "(cm_mode e = Res_read \<and> cm_mode c \<noteq> Res_read \<or> cm_mode e = Res_write \<and> cm_mode c = Res_exclusive)
     \<longleftrightarrow> cm_mode e < cm_mode c"
  by (cases "cm_mode e"; cases "cm_mode c") (simp_all add: less_resource_mode_def)

definition claims_map :: "resource_claim list \<Rightarrow> (string \<times> resource_claim) list \<Rightarrow> bool" where
  "claims_map cs m \<longleftrightarrow> distinct (map fst m) \<and>
     (\<forall>key. case map_of m key of
        None \<Rightarrow> \<forall>c\<in>set cs. normalizeResourceKey (cm_resourceKey c) = key \<longrightarrow> key = []
      | Some c \<Rightarrow> claim_of cs key c)"

lemma claims_map_step:
  assumes "claims_map cs m"
  shows "claims_map (cs @ [c]) (normalize_claim_step c m)"
proof -
  let ?k = "normalizeResourceKey (cm_resourceKey c)"
  let ?c = "c\<lparr>cm_resourceKey := ?k\<rparr>"
  have d: "distinct (map fst m)" and m: "\<And>key. case map_of m key of
        None \<Rightarrow> \<forall>c\<in>set cs. normalizeResourceKey (cm_resourceKey c) = key \<longrightarrow> key = []
      | Some c \<Rightarrow> claim_of cs key c" using assms by (auto simp: claims_map_def)
  have other: "case map_of m key of
        None \<Rightarrow> \<forall>c\<in>set (cs @ [c]). normalizeResourceKey (cm_resourceKey c) = key \<longrightarrow> key = []
      | Some c' \<Rightarrow> claim_of (cs @ [c]) key c'" if "key \<noteq> ?k \<or> key = []" for key
    using m [of key] that by (auto simp: claim_of_def split: option.splits)
  show ?thesis
  proof (cases "?k = []")
    case True
    then show ?thesis using d other by (auto simp: claims_map_def normalize_claim_step_def Let_def)
  next
    case k: False
    show ?thesis
    proof (cases "map_of m ?k")
      case None
      then have "claim_of (cs @ [c]) ?k ?c" using m [of ?k] k by (auto simp: claim_of_def)
      then show ?thesis using None k d other
        by (auto simp: claims_map_def normalize_claim_step_def Let_def map_of_update distinct_update)
    next
      case (Some e)
      have e: "claim_of cs ?k e" using m [of ?k] Some by simp
      show ?thesis
      proof (cases "cm_mode e < cm_mode c")
        case True
        then have "claim_of (cs @ [c]) ?k ?c"
          using e k by (auto simp: claim_of_def intro: order_trans less_imp_le)
        then show ?thesis using Some k d other True
          by (auto simp: claims_map_def normalize_claim_step_def Let_def map_of_update distinct_update mode_below_iff)
      next
        case False
        then have "claim_of (cs @ [c]) ?k e" using e by (auto simp: claim_of_def)
        then have "case map_of m key of
            None \<Rightarrow> \<forall>c\<in>set (cs @ [c]). normalizeResourceKey (cm_resourceKey c) = key \<longrightarrow> key = []
          | Some c' \<Rightarrow> claim_of (cs @ [c]) key c'" for key
          using other [of key] Some by (cases "key = ?k") simp_all
        moreover have "normalize_claim_step c m = m"
          using Some k False by (simp add: normalize_claim_step_def Let_def mode_below_iff)
        ultimately show ?thesis using d by (simp add: claims_map_def)
      qed
    qed
  qed
qed

lemma claims_map_fold: "claims_map cs m \<Longrightarrow> claims_map (cs @ ds) (fold normalize_claim_step ds m)"
proof (induction ds arbitrary: cs m)
  case (Cons d ds)
  from Cons.IH [OF claims_map_step [OF Cons.prems]] show ?case by simp
qed simp

lemma normalizeClaims_map:
  assumes "claims \<noteq> []"
  shows "\<exists>m. claims_map claims m \<and> normalizeClaims claims readOnly = map snd m"
proof -
  have "claims_map ([] @ claims) (fold normalize_claim_step claims [])"
    by (rule claims_map_fold) (simp add: claims_map_def)
  then show ?thesis using assms by (auto simp: normalizeClaims_def)
qed

lemma normalizeClaims_facts:
  assumes "claims \<noteq> []"
  shows "distinct (map cm_resourceKey (normalizeClaims claims readOnly))"
    and "c \<in> set (normalizeClaims claims readOnly) \<Longrightarrow> claim_of claims (cm_resourceKey c) c"
    and "d \<in> set claims \<Longrightarrow> normalizeResourceKey (cm_resourceKey d) \<noteq> [] \<Longrightarrow>
       \<exists>c\<in>set (normalizeClaims claims readOnly). cm_resourceKey c = normalizeResourceKey (cm_resourceKey d)"
proof -
  obtain m where m: "claims_map claims m" "normalizeClaims claims readOnly = map snd m"
    using normalizeClaims_map [OF assms] by blast
  have e: "claim_of claims k c" if "(k, c) \<in> set m" for k c
    using m(1) that by (auto simp: claims_map_def dest!: spec [of _ k])
  have key: "cm_resourceKey c = k" if "(k, c) \<in> set m" for k c
    using e [OF that] by (auto simp: claim_of_def)
  have keys: "map cm_resourceKey (map snd m) = map fst m" using key by auto
  show "distinct (map cm_resourceKey (normalizeClaims claims readOnly))"
    unfolding m(2) keys using m(1) by (simp add: claims_map_def)
  show "c \<in> set (normalizeClaims claims readOnly) \<Longrightarrow> claim_of claims (cm_resourceKey c) c"
    using m(2) e key by auto
  assume d: "d \<in> set claims" "normalizeResourceKey (cm_resourceKey d) \<noteq> []"
  let ?k = "normalizeResourceKey (cm_resourceKey d)"
  have "map_of m ?k \<noteq> None" using m(1) d unfolding claims_map_def by (auto split: option.splits)
  then obtain c where "(?k, c) \<in> set m" by (auto dest: map_of_SomeD)
  with key m(2) show "\<exists>c\<in>set (normalizeClaims claims readOnly). cm_resourceKey c = ?k" by force
qed

end
