(* ===== verification/LeaseFacts.thy ===== *)
theory LeaseFacts
  imports ClaimFacts
begin

text \<open>
  Facts about \<open>LeaseStore\<close>: what every operation does to the lease files and the fencing
  counters, the step relation of the store, and the invariant its steps keep (leases of
  different owners never conflict, no lease has a token above its counter).
\<close>

section \<open>The lease files\<close>

lemma set_put_lease: "set (put_lease l xs) \<subseteq> insert l (set xs)" and put_lease_mem: "l \<in> set (put_lease l xs)"
  by (induction xs) auto

lemma set_fold_put: "set (fold put_lease ls xs) \<subseteq> set ls \<union> set xs"
proof (induction ls arbitrary: xs)
  case (Cons l ls)
  then show ?case using set_put_lease [of l xs] by fastforce
qed simp

lemma put_lease_fresh: "el_leaseId l \<notin> el_leaseId ` set xs \<Longrightarrow> put_lease l xs = xs @ [l]"
  by (induction xs) auto

lemma fold_put_distinct: "distinct (map el_leaseId (xs @ ls)) \<Longrightarrow> fold put_lease ls xs = xs @ ls"
  by (induction ls arbitrary: xs) (auto simp: put_lease_fresh)

lemma expected_size_distinct: "expected_size refs = length refs \<longleftrightarrow> distinct (map xl_leaseId refs)"
  by (simp add: expected_size_def js_uniq_def) (metis card_distinct distinct_card length_map length_remdups_card_conv length_rev set_rev)

lemma matches_expected:
  assumes "leaseMatchesExpected l (expected_get refs (el_leaseId l))"
  shows "\<exists>x\<in>set refs. xl_leaseId x = el_leaseId l \<and> xl_fencingToken x = el_fencingToken l"
proof -
  from assms obtain x where x: "expected_get refs (el_leaseId l) = Some x" "xl_fencingToken x = el_fencingToken l"
    by (auto simp: leaseMatchesExpected_def split: option.splits if_splits)
  from map_of_SomeD [OF x(1) [unfolded expected_get_def]] x(2) show ?thesis by auto
qed

lemma active_send [simp]: "ls_active (send e s) = ls_active s" "ls_counters (send e s) = ls_counters s"
  by (simp_all add: send_def)

lemma active_count [simp]: "ls_active (count f s) = ls_active s" "ls_counters (count f s) = ls_counters s"
  by (simp_all add: count_def)

lemma finish_effects_leases [simp]:
  "ls_active (finish_effects e r s) = ls_active s" "ls_counters (finish_effects e r s) = ls_counters s"
  by (simp_all add: finish_effects_def Let_def)

lemma list_active_leases [simp]:
  "ls_active (listActiveLeases H now s) = filter (\<lambda>l. \<not> lease_expired H now l) (ls_active s)"
  "ls_counters (listActiveLeases H now s) = ls_counters s"
  by (simp_all add: listActiveLeases_def)

lemma store_acquired_leases [simp]:
  "ls_active (store_acquired fx l s) = put_lease l (ls_active s)"
  "ls_counters (store_acquired fx l s) = ls_counters s"
  by (simp_all add: store_acquired_def Let_def)

lemma fold_store_acquired [simp]:
  "ls_active (fold (store_acquired fx) ls s) = fold put_lease ls (ls_active s)"
  "ls_counters (fold (store_acquired fx) ls s) = ls_counters s"
  by (induction ls arbitrary: s) simp_all

lemma release_one_leases [simp]:
  "ls_active (release_one o' l s) = remove_lease (el_leaseId l) (ls_active s)"
  "ls_counters (release_one o' l s) = ls_counters s"
  by (simp_all add: release_one_def Let_def)

lemma fold_release_one [simp]:
  "ls_active (fold (release_one o') ls s) = filter (\<lambda>l. el_leaseId l \<notin> el_leaseId ` set ls) (ls_active s)"
  "ls_counters (fold (release_one o') ls s) = ls_counters s"
  by (induction ls arbitrary: s) (auto simp: remove_lease_def intro: filter_cong)

lemma release_all_leases:
  "release_all o' r ls s = (n, s') \<Longrightarrow> n = int (length ls) \<and> ls_counters s' = ls_counters s \<and>
     ls_active s' = filter (\<lambda>l. el_leaseId l \<notin> el_leaseId ` set ls) (ls_active s)"
  by (auto simp: release_all_def Let_def)

section \<open>Fencing counters\<close>

definition counter :: "js_host \<Rightarrow> (string \<Rightarrow> int option) \<Rightarrow> string \<Rightarrow> int" where
  "counter H counters key = max 0 (coalesce (counters (counter_key H key)) 0)"

lemma next_token_facts:
  assumes "nextFencingToken H key cs = (t, cs')"
  shows "t = counter H cs key + 1" and "counter H cs' k \<ge> counter H cs k" and "counter H cs' key = t"
  using assms by (auto simp: nextFencingToken_def Let_def counter_def)

lemma build_leases_counters:
  "build_leases H mk i claims cs = (ls, cs') \<Longrightarrow> counter H cs' k \<ge> counter H cs k"
proof (induction claims arbitrary: i cs ls cs')
  case (Cons c claims)
  obtain t cs1 where t: "nextFencingToken H (cm_resourceKey c) cs = (t, cs1)" by (metis surj_pair)
  obtain ls' cs2 where b: "build_leases H mk (Suc i) claims cs1 = (ls', cs2)" by (metis surj_pair)
  from Cons.prems t b have "cs' = cs2" by simp
  then show ?case using Cons.IH [OF b] next_token_facts(2) [OF t] order_trans by blast
qed simp

definition makes_lease :: "string \<Rightarrow> (nat \<Rightarrow> resource_claim \<Rightarrow> int \<Rightarrow> execution_lease) \<Rightarrow> bool" where
  "makes_lease owner mk \<longleftrightarrow> (\<forall>i c t. lease_key_mode (mk i c t) = claim_key_mode c
     \<and> el_ownerJobId (mk i c t) = owner \<and> el_fencingToken (mk i c t) = t)"

lemma makes_new_lease: "makes_lease owner (\<lambda>i. new_lease H repo owner ident vis now ex (uuid i))"
  by (simp add: makes_lease_def new_lease_def lease_key_mode_def claim_key_mode_def)

lemma build_leases_facts:
  "build_leases H mk i claims cs = (ls, cs') \<Longrightarrow> makes_lease owner mk \<Longrightarrow>
     map lease_key_mode ls = map claim_key_mode claims \<and> (\<forall>l\<in>set ls. el_ownerJobId l = owner) \<and>
     (\<forall>l\<in>set ls. el_fencingToken l > counter H cs (el_resourceKey l) \<and> el_fencingToken l \<le> counter H cs' (el_resourceKey l))"
proof (induction claims arbitrary: i cs ls cs')
  case (Cons c claims)
  obtain t cs1 where t: "nextFencingToken H (cm_resourceKey c) cs = (t, cs1)" by (metis surj_pair)
  obtain ls' cs2 where b: "build_leases H mk (Suc i) claims cs1 = (ls', cs2)" by (metis surj_pair)
  let ?l = "mk i c t"
  have l: "ls = ?l # ls'" "cs' = cs2" using Cons.prems(1) t b by auto
  have m: "lease_key_mode ?l = claim_key_mode c" "el_ownerJobId ?l = owner" "el_fencingToken ?l = t"
    "el_resourceKey ?l = cm_resourceKey c"
    using Cons.prems(2) by (auto simp: makes_lease_def lease_key_mode_def claim_key_mode_def)
  have "el_fencingToken x > counter H cs (el_resourceKey x)" if "x \<in> set ls'" for x
    using Cons.IH [OF b Cons.prems(2)] that next_token_facts(2) [OF t, of "el_resourceKey x"] by fastforce
  moreover have "t > counter H cs (cm_resourceKey c)" "t \<le> counter H cs' (cm_resourceKey c)"
    using next_token_facts [OF t] build_leases_counters [OF b, of "cm_resourceKey c"] l(2) by simp_all
  ultimately show ?case using Cons.IH [OF b Cons.prems(2)] l m by auto
qed simp

section \<open>Operations as steps\<close>

text \<open>The leases a step leaves are leases it found, possibly renewed, or leases it acquired.\<close>

definition same_claim :: "execution_lease \<Rightarrow> execution_lease \<Rightarrow> bool" where
  "same_claim a b \<longleftrightarrow> el_resourceKey a = el_resourceKey b \<and> el_mode a = el_mode b \<and> el_ownerJobId a = el_ownerJobId b
     \<and> el_fencingToken a = el_fencingToken b \<and> el_leaseId a = el_leaseId b"

inductive lease_step :: "js_host \<Rightarrow> lease_store \<Rightarrow> lease_store \<Rightarrow> bool" for H where
  list_step: "lease_step H s (listActiveLeases H now s)"
| acquire_step: "acquireExecutionLeases H env fence lock repo owner claims options now uuid s = (r, s') \<Longrightarrow> lease_step H s s'"
| renew_step: "renewExecutionLeases H wfence lock owner ttl expected now s = (r', s') \<Longrightarrow> lease_step H s s'"
| release_step: "releaseExecutionLeases H wfence lock owner expected options' now s = (n, s') \<Longrightarrow> lease_step H s s'"
| release_exact_step: "releaseExactExecutionLeases H wfence lock owner refs options' now s = (n, s') \<Longrightarrow> lease_step H s s'"
| release_terminal_step: "releaseTerminalProcessLeases H lock repo process refs options' now s = (n, s') \<Longrightarrow> lease_step H s s'"
| assert_step: "assertFencingToken H leaseId token now s = (l, s') \<Longrightarrow> lease_step H s s'"

lemma acquire_locked_cases:
  assumes "acquire_locked H repo owner claims ident fx ttl now uuid s = (r, s')"
  obtains (refused) b where "r = refused b" and "b \<noteq> []" and "s' = listActiveLeases H now s"
      and "b = acquisition_blockers claims (filter (\<lambda>l. el_ownerJobId l \<noteq> owner) (ls_active s'))"
    | (acquired) ls cs where "r = \<lparr>ar_acquired = True, ar_leases = ls, ar_blockers = []\<rparr>"
      and "build_leases H (\<lambda>i. new_lease H repo owner ident (fx_visibility fx) now (now + max 5000 ttl) (uuid i))
             0 claims (ls_counters s) = (ls, cs)"
      and "ls_counters s' = cs" and "ls_active s' = fold put_lease ls (filter (\<lambda>l. \<not> lease_expired H now l) (ls_active s))"
      and "acquisition_blockers claims (filter (\<lambda>l. el_ownerJobId l \<noteq> owner)
             (filter (\<lambda>l. \<not> lease_expired H now l) (ls_active s))) = []"
proof -
  let ?active = "filter (\<lambda>l. el_ownerJobId l \<noteq> owner) (ls_active (listActiveLeases H now s))"
  show ?thesis
  proof (cases "acquisition_blockers claims ?active = []")
    case True
    obtain ls cs where b: "build_leases H (\<lambda>i. new_lease H repo owner ident (fx_visibility fx) now (now + max 5000 ttl) (uuid i))
             0 claims (ls_counters s) = (ls, cs)"
      by (metis surj_pair)
    from assms True b have "r = \<lparr>ar_acquired = True, ar_leases = ls, ar_blockers = []\<rparr>" "ls_counters s' = cs"
      "ls_active s' = fold put_lease ls (filter (\<lambda>l. \<not> lease_expired H now l) (ls_active s))"
      by (auto simp: acquire_locked_def Let_def split: if_splits)
    with b True acquired show ?thesis by simp
  next
    case False
    with assms refused show ?thesis by (auto simp: acquire_locked_def Let_def)
  qed
qed

lemma acquire_cases:
  assumes "acquireExecutionLeases H env fence lock repo owner claims options now uuid s = (r, s')"
  obtains (unlocked) "s' = s" and "\<forall>a. r = Inr a \<longrightarrow> \<not> ar_acquired a \<and> ar_leases a = []"
    | (locked) ident a where "fence = None" and "lock = Lock_acquired" and "r = Inr a"
      and "acquire_locked H repo owner claims ident (resolveSideEffects (Some options) None)
             (coalesce (lo_ttlMs options) 30000) now uuid s = (a, s')"
  using assms that
  by (auto simp: acquireExecutionLeases_def refused_def split: option.splits sum.splits lock_outcome.splits prod.splits)

lemma renew_leases:
  assumes "renewExecutionLeases H fence lock owner ttl expected now s = (r, s')"
  shows "ls_counters s' = ls_counters s" and "\<forall>l'\<in>set (ls_active s'). \<exists>l\<in>set (ls_active s). same_claim l l'"
proof -
  have same: "same_claim l (renewed H now ttl l)" "same_claim l l" for l by (simp_all add: same_claim_def renewed_def)
  have "set (fold put_lease (map (renewed H now ttl) ls) xs) \<subseteq> renewed H now ttl ` set ls \<union> set xs" for ls xs
    using set_fold_put [of "map (renewed H now ttl) ls" xs] by simp
  then have put: "l' \<in> set (fold put_lease (map (renewed H now ttl) ls) xs) \<Longrightarrow> set ls \<subseteq> set xs \<Longrightarrow> \<exists>l\<in>set xs. same_claim l l'" for l' ls xs
    using same by blast
  show "ls_counters s' = ls_counters s"
    using assms by (auto simp: renewExecutionLeases_def under_lock_def renew_locked_def Let_def
      split: sum.splits lock_outcome.splits if_splits)
  show "\<forall>l'\<in>set (ls_active s'). \<exists>l\<in>set (ls_active s). same_claim l l'"
    using assms same put by (fastforce simp: renewExecutionLeases_def under_lock_def renew_locked_def Let_def
      split: sum.splits lock_outcome.splits if_splits)
qed

lemma release_leases:
  assumes "releaseExecutionLeases H fence lock owner expected options' now s = (n, s')"
  shows "ls_counters s' = ls_counters s" and "set (ls_active s') \<subseteq> set (ls_active s)"
  using assms by (auto simp: releaseExecutionLeases_def under_lock_def Let_def dest!: release_all_leases
      split: sum.splits lock_outcome.splits prod.splits)

lemma release_exact_leases:
  assumes "releaseExactExecutionLeases H fence lock owner refs options' now s = (n, s')"
  shows "ls_counters s' = ls_counters s" and "set (ls_active s') \<subseteq> set (ls_active s)"
  using assms by (auto simp: releaseExactExecutionLeases_def release_exact_locked_def under_lock_def Let_def
      dest!: release_all_leases split: sum.splits lock_outcome.splits prod.splits if_splits)

lemma release_terminal_leases:
  assumes "releaseTerminalProcessLeases H lock repo process refs options' now s = (n, s')"
  shows "ls_counters s' = ls_counters s" and "set (ls_active s') \<subseteq> set (ls_active s)"
  using assms by (auto simp: releaseTerminalProcessLeases_def release_terminal_locked_def under_lock_def Let_def
      dest!: release_all_leases split: sum.splits lock_outcome.splits prod.splits if_splits)

lemma assert_token_leases:
  assumes "assertFencingToken H leaseId token now s = (l, s')"
  shows "ls_counters s' = ls_counters s" and "set (ls_active s') \<subseteq> set (ls_active s)"
  using assms by (auto simp: assertFencingToken_def remove_lease_def split: option.splits if_splits)

text \<open>Leases of different owners do not conflict, and no lease has a token its counter has not reached.\<close>

abbreviation lease_conflict :: "execution_lease \<Rightarrow> execution_lease \<Rightarrow> bool" where
  "lease_conflict a b \<equiv> resourceClaimsConflict (lease_key_mode a) (lease_key_mode b)"

definition lease_inv :: "js_host \<Rightarrow> lease_store \<Rightarrow> bool" where
  "lease_inv H s \<longleftrightarrow> exclusive lease_conflict el_ownerJobId (set (ls_active s)) \<and>
     (\<forall>l\<in>set (ls_active s). el_fencingToken l \<le> counter H (ls_counters s) (el_resourceKey l))"

lemma lease_inv_image:
  assumes "lease_inv H s" and "ls_counters s' = ls_counters s"
    and "\<forall>l'\<in>set (ls_active s'). \<exists>l\<in>set (ls_active s). same_claim l l'"
  shows "lease_inv H s'"
proof -
  have "exclusive lease_conflict el_ownerJobId (set (ls_active s'))"
  proof (rule claim_ownership.exclusive_image)
    show "exclusive lease_conflict el_ownerJobId (set (ls_active s))" using assms(1) by (simp add: lease_inv_def)
    show "\<exists>x\<in>set (ls_active s). el_ownerJobId x = el_ownerJobId y \<and> (\<forall>z. lease_conflict x z \<longleftrightarrow> lease_conflict y z)"
      if "y \<in> set (ls_active s')" for y
    proof -
      obtain x where "x \<in> set (ls_active s)" "same_claim x y" using assms(3) \<open>y \<in> set (ls_active s')\<close> by blast
      then show ?thesis by (intro bexI [of _ x]) (simp_all add: same_claim_def lease_key_mode_def)
    qed
  qed
  then show ?thesis using assms by (fastforce simp: lease_inv_def same_claim_def)
qed

lemma lease_inv_subset:
  "lease_inv H s \<Longrightarrow> ls_counters s' = ls_counters s \<Longrightarrow> set (ls_active s') \<subseteq> set (ls_active s) \<Longrightarrow> lease_inv H s'"
  by (rule lease_inv_image) (auto simp: same_claim_def)

lemma acquisition_blockers_Nil:
  "acquisition_blockers claims active = [] \<longleftrightarrow> (\<forall>c\<in>set claims. \<forall>l\<in>set active. \<not> claimsConflict c l)"
  by (auto simp: acquisition_blockers_def filter_empty_conv)

lemma acquire_locked_inv:
  assumes "acquire_locked H repo owner claims ident fx ttl now uuid s = (r, s')" and "lease_inv H s"
  shows "lease_inv H s'" and "counter H (ls_counters s') k \<ge> counter H (ls_counters s) k"
proof -
  have "lease_inv H s' \<and> counter H (ls_counters s') k \<ge> counter H (ls_counters s) k"
    using assms(1)
  proof (cases rule: acquire_locked_cases)
    case (refused b)
    then show ?thesis using lease_inv_subset [OF assms(2), of s'] by auto
  next
    case (acquired ls cs)
    let ?old = "filter (\<lambda>l. \<not> lease_expired H now l) (ls_active s)"
    note b = build_leases_facts [OF acquired(2) makes_new_lease]
    have sub: "set (ls_active s') \<subseteq> set ?old \<union> set ls" using acquired(4) set_fold_put [of ls ?old] by auto
    have old: "exclusive lease_conflict el_ownerJobId (set ?old)"
      using assms(2) by (auto simp: lease_inv_def intro: claim_ownership.exclusive_subset)
    have "\<not> lease_conflict l x" if "l \<in> set ls" "x \<in> set ?old" "el_ownerJobId x \<noteq> owner" for l x
    proof -
      from b that(1) obtain c where "c \<in> set claims" "claim_key_mode c = lease_key_mode l"
        by (metis image_eqI image_iff list.set_map)
      with acquired(5) that(2,3) show ?thesis
        by (auto simp: acquisition_blockers_Nil claimsConflict_def)
    qed
    with b old have "exclusive lease_conflict el_ownerJobId (set ?old \<union> set ls)"
      by (intro claim_ownership.exclusive_union [where o' = owner]) auto
    then have ex: "exclusive lease_conflict el_ownerJobId (set (ls_active s'))"
      using sub by (rule claim_ownership.exclusive_subset)
    have up: "counter H (ls_counters s) j \<le> counter H (ls_counters s') j" for j
      using build_leases_counters [OF acquired(2), of j] acquired(3) by simp
    have "el_fencingToken l \<le> counter H (ls_counters s') (el_resourceKey l)" if "l \<in> set (ls_active s')" for l
    proof (cases "l \<in> set ls")
      case True
      then show ?thesis using b acquired(3) by auto
    next
      case False
      then have "l \<in> set (ls_active s)" using sub that by auto
      then show ?thesis using assms(2) up order_trans by (fastforce simp: lease_inv_def)
    qed
    with ex up show ?thesis by (simp add: lease_inv_def)
  qed
  then show "lease_inv H s'" "counter H (ls_counters s') k \<ge> counter H (ls_counters s) k" by auto
qed

lemma lease_step_inv:
  assumes "lease_inv H s" and "lease_step H s s'"
  shows "lease_inv H s' \<and> counter H (ls_counters s') k \<ge> counter H (ls_counters s) k"
  using assms(2)
proof (cases rule: lease_step.cases)
  case (list_step now)
  then show ?thesis using lease_inv_subset [OF assms(1), of s'] by auto
next
  case (acquire_step env fence lock repo owner claims options now uuid r)
  then show ?thesis
    by (cases rule: acquire_cases) (use acquire_locked_inv assms(1) in auto)
next
  case renew_step
  show ?thesis using renew_leases [OF renew_step] lease_inv_image [OF assms(1)] by simp
next
  case release_step
  show ?thesis using release_leases [OF release_step] lease_inv_subset [OF assms(1)] by simp
next
  case release_exact_step
  show ?thesis using release_exact_leases [OF release_exact_step] lease_inv_subset [OF assms(1)] by simp
next
  case release_terminal_step
  show ?thesis using release_terminal_leases [OF release_terminal_step] lease_inv_subset [OF assms(1)] by simp
next
  case assert_step
  show ?thesis using assert_token_leases [OF assert_step] lease_inv_subset [OF assms(1)] by simp
qed

interpretation leases: invariant_steps "lease_step H" "lease_inv H" for H
  by unfold_locales (use lease_step_inv in blast)

lemma lease_inv_empty: "ls_active s = [] \<Longrightarrow> lease_inv H s"
  by (simp add: lease_inv_def exclusive_def)

lemma counters_grow:
  assumes "(lease_step H)\<^sup>*\<^sup>* s t" and "lease_inv H s"
  shows "counter H (ls_counters s) k \<le> counter H (ls_counters t) k"
  using assms
proof (induction rule: rtranclp_induct)
  case (step t u)
  with leases.inv_reachable [OF step.hyps(1)] lease_step_inv [OF _ step.hyps(2), of k] show ?case by fastforce
qed simp

end
