(* ===== verification/LeaseProperties.thy ===== *)
theory LeaseProperties
  imports LeaseFacts ExampleHost
begin

text \<open>The properties of resource claims and execution leases.\<close>

section \<open>Example data\<close>

definition example_claim :: "string \<Rightarrow> resource_mode \<Rightarrow> resource_claim" where
  "example_claim key mode = \<lparr>cm_resourceKey = key, cm_mode = mode, cm_quantity = None, cm_repoId = None,
     cm_checkoutId = None, cm_workId = None\<rparr>"

definition example_lease_options :: lease_options where
  "example_lease_options = \<lparr>lo_visibility = None, lo_notifyScheduler = None, lo_invalidateProjection = None,
     lo_emitRuntimeEvent = None, lo_ttlMs = Some 60000, lo_ownerIdentity = None\<rparr>"

definition example_env :: runtime_env where
  "example_env = \<lparr>en_writerInstanceId = Some ''writer'', en_daemonInstanceId = None, en_pid = 7,
     en_writerGeneration = Some ''gen-1'', en_activeRuntimeRevision = None\<rparr>"

definition empty_store :: lease_store where
  "empty_store = \<lparr>ls_active = [], ls_counters = (\<lambda>_. None), ls_effects = [],
     ls_metrics = \<lparr>mt_durableAcquireEvents = 0, mt_durableReleaseEvents = 0, mt_projectionDirtyMarks = 0,
       mt_schedulerWakes = 0, mt_ephemeralAcquires = 0, mt_ephemeralReleases = 0\<rparr>\<rparr>"

definition example_uuid :: "nat \<Rightarrow> string" where
  "example_uuid i = nat_digits i @ ''aaaaaaaa''"

abbreviation example_acquire :: "string \<Rightarrow> resource_claim list \<Rightarrow> int \<Rightarrow> lease_store \<Rightarrow> acquisition_result res \<times> lease_store" where
  "example_acquire owner claims now \<equiv> acquireExecutionLeases example_host example_env None Lock_acquired
     ''repo'' owner claims example_lease_options now example_uuid"

definition example_identity :: "string \<Rightarrow> owner_identity" where
  "example_identity owner = \<lparr>oi_repositoryId = ''repo'', oi_checkoutId = ''unscoped'', oi_worktreeId = ''unscoped'',
     oi_branch = ''unknown'', oi_principalId = ''owner:'' @ owner, oi_controllerInstanceId = ''writer'',
     oi_controllerGeneration = ''gen-1''\<rparr>"

definition example_lease :: "string \<Rightarrow> string \<Rightarrow> int \<Rightarrow> int \<Rightarrow> execution_lease" where
  "example_lease owner key now token = new_lease example_host ''repo'' owner (example_identity owner)
     Visibility_durable now (now + 60000) (example_uuid 0) (example_claim key Res_write) token"

lemma example_claim_fields [simp]: "cm_resourceKey (example_claim k m) = k" "cm_mode (example_claim k m) = m"
  by (simp_all add: example_claim_def)

text \<open>An acquisition of one path nobody else holds succeeds with the next token.\<close>

lemma example_acquire_free:
  assumes "acquisition_blockers [example_claim key Res_write]
     (filter (\<lambda>l. el_ownerJobId l \<noteq> owner) (filter (\<lambda>l. \<not> lease_expired example_host now l) (ls_active s))) = []"
  shows "\<exists>s'. example_acquire owner [example_claim key Res_write] now s =
       (Inr \<lparr>ar_acquired = True, ar_leases = [example_lease owner key now (counter example_host (ls_counters s) key + 1)],
             ar_blockers = []\<rparr>, s') \<and>
     ls_active s' = put_lease (example_lease owner key now (counter example_host (ls_counters s) key + 1))
       (filter (\<lambda>l. \<not> lease_expired example_host now l) (ls_active s)) \<and>
     ls_counters s' = (ls_counters s)(counter_key example_host key \<mapsto> counter example_host (ls_counters s) key + 1)"
proof -
  have "normalizedOwnerIdentity example_env ''repo'' owner [example_claim key Res_write] None = Inr (example_identity owner)"
    by (simp add: normalizedOwnerIdentity_def Let_def example_claim_def example_env_def example_identity_def
        trim_or_def or_str_def js_trim_def js_space_def)
  moreover have "validateClaimScopes ''repo'' [example_claim key Res_write] = Inr ()"
    by (simp add: validateClaimScopes_def validate_claim_scope_def Let_def example_claim_def truthy_values_def)
  ultimately show ?thesis using assms
    by (simp add: acquireExecutionLeases_def acquire_locked_def Let_def example_lease_options_def example_lease_def
        resolveSideEffects_def nextFencingToken_def counter_def case_prod_unfold)
qed

definition store1 :: lease_store where
  "store1 = snd (example_acquire ''job-1'' [example_claim ''path:src/a.ts'' Res_write] 1000 empty_store)"

definition store2 :: lease_store where
  "store2 = snd (example_acquire ''job-2'' [example_claim ''path:src/b.ts'' Res_write] 2000 store1)"

lemma example_steps: "lease_step example_host empty_store store1" "lease_step example_host store1 store2"
  unfolding store1_def store2_def by (rule acquire_step [OF surjective_pairing])+

lemma example_lease_expired [simp]: "lease_expired example_host t (example_lease owner key now token) \<longleftrightarrow> now + 60000 \<le> t"
  by (simp add: lease_expired_def example_lease_def new_lease_def example_host_def parse_int_int_str)

lemma example_lease_fields [simp]:
  "el_ownerJobId (example_lease owner key now token) = owner" "el_resourceKey (example_lease owner key now token) = key"
  "el_mode (example_lease owner key now token) = Res_write" "el_fencingToken (example_lease owner key now token) = token"
  by (simp_all add: example_lease_def new_lease_def)

lemma example_lease_ids: "el_leaseId (example_lease o1 k1 t1 f1) = el_leaseId (example_lease o2 k2 t2 f2) \<longleftrightarrow> t1 = t2"
  by (auto simp: example_lease_def new_lease_def dest: int_str_inj)

lemma example_disjoint:
  "acquisition_blockers [example_claim ''path:src/b.ts'' Res_write] [example_lease ''job-1'' ''path:src/a.ts'' 1000 1] = []"
proof -
  have "\<not> resourceClaimsConflict (''path:src/b.ts'', Res_write) (''path:src/a.ts'', Res_write)" by code_simp
  then show ?thesis by (simp add: acquisition_blockers_Nil claimsConflict_def claim_key_mode_def lease_key_mode_def)
qed

lemma store1_facts:
  "ls_active store1 = [example_lease ''job-1'' ''path:src/a.ts'' 1000 1]"
  "counter example_host (ls_counters store1) key = (if key = ''path:src/a.ts'' then 1 else 0)"
proof -
  have "ls_active store1 = [example_lease ''job-1'' ''path:src/a.ts'' 1000 1] \<and>
      ls_counters store1 = [counter_key example_host ''path:src/a.ts'' \<mapsto> 1]"
    using example_acquire_free [of "''path:src/a.ts''" "''job-1''" 1000 empty_store]
    by (auto simp: store1_def empty_store_def acquisition_blockers_def counter_def)
  then show "ls_active store1 = [example_lease ''job-1'' ''path:src/a.ts'' 1000 1]"
    "counter example_host (ls_counters store1) key = (if key = ''path:src/a.ts'' then 1 else 0)"
    by (auto simp: counter_def counter_key_def example_host_def)
qed

lemma store2_facts:
  "ls_active store2 = [example_lease ''job-1'' ''path:src/a.ts'' 1000 1, example_lease ''job-2'' ''path:src/b.ts'' 2000 1]"
  "counter example_host (ls_counters store2) ''path:src/a.ts'' = 1"
proof -
  obtain s' where s': "example_acquire ''job-2'' [example_claim ''path:src/b.ts'' Res_write] 2000 store1 =
       (Inr \<lparr>ar_acquired = True, ar_leases = [example_lease ''job-2'' ''path:src/b.ts'' 2000 1], ar_blockers = []\<rparr>, s')"
     "ls_active s' = put_lease (example_lease ''job-2'' ''path:src/b.ts'' 2000 1) [example_lease ''job-1'' ''path:src/a.ts'' 1000 1]"
     "ls_counters s' = (ls_counters store1)(counter_key example_host ''path:src/b.ts'' \<mapsto> 1)"
    using example_acquire_free [of "''path:src/b.ts''" "''job-2''" 2000 store1] example_disjoint
    by (auto simp: store1_facts)
  then show "ls_active store2 = [example_lease ''job-1'' ''path:src/a.ts'' 1000 1, example_lease ''job-2'' ''path:src/b.ts'' 2000 1]"
    by (simp add: store2_def example_lease_ids)
  have "counter example_host (ls_counters store2) ''path:src/a.ts'' = counter example_host (ls_counters store1) ''path:src/a.ts''"
    using s' by (simp add: store2_def counter_def counter_key_def example_host_def)
  then show "counter example_host (ls_counters store2) ''path:src/a.ts'' = 1" by (simp add: store1_facts)
qed

definition example_reacquired :: acquisition_result where
  "example_reacquired = \<lparr>ar_acquired = True, ar_leases = [example_lease ''job-2'' ''path:src/a.ts'' 70000 2], ar_blockers = []\<rparr>"

lemma example_reacquisition:
  "\<exists>s'. example_acquire ''job-2'' [example_claim ''path:src/a.ts'' Res_write] 70000 store2 = (Inr example_reacquired, s') \<and>
     ls_active s' = [example_lease ''job-2'' ''path:src/a.ts'' 70000 2]"
  using example_acquire_free [of "''path:src/a.ts''" "''job-2''" 70000 store2]
  by (auto simp: store2_facts acquisition_blockers_def example_reacquired_def)

section \<open>Properties\<close>

text \<open>
  C15.  From an empty store, however acquisitions, renewals, releases and checks of any owners
  interleave, two stored leases of different owners never conflict.
\<close>

theorem active_leases_are_exclusive:
  assumes "ls_active s = []" and "(lease_step H)\<^sup>*\<^sup>* s t"
  shows "\<forall>a\<in>set (ls_active t). \<forall>b\<in>set (ls_active t). el_ownerJobId a \<noteq> el_ownerJobId b \<longrightarrow>
     \<not> resourceClaimsConflict (el_resourceKey a, el_mode a) (el_resourceKey b, el_mode b)"
  using leases.inv_reachable [OF assms(2) lease_inv_empty [OF assms(1)]]
  by (simp add: lease_inv_def exclusive_def lease_key_mode_def)

theorem active_leases_are_exclusive_witness:
  "\<not> resourceClaimsConflict (''path:src/a.ts'', Res_write) (''path:src/b.ts'', Res_write)"
proof -
  have e: "ls_active empty_store = []" by (simp add: empty_store_def)
  have "(lease_step example_host)\<^sup>*\<^sup>* empty_store store2" using example_steps by (meson rtranclp.simps)
  from active_leases_are_exclusive [OF e this] show ?thesis by (simp add: store2_facts)
qed

text \<open>
  C16.  Fencing tokens only grow: a lease acquired later on a resource has a greater token than
  every lease seen on that resource before, whether it has expired, been released or renewed
  in between.
\<close>

theorem fencing_tokens_increase:
  assumes "ls_active s0 = []" and "(lease_step H)\<^sup>*\<^sup>* s0 s" and "old \<in> set (ls_active s)"
    and "(lease_step H)\<^sup>*\<^sup>* s t"
    and "acquireExecutionLeases H env fence lock repo owner claims options now uuid t = (Inr a, t')"
    and "new \<in> set (ar_leases a)" and "el_resourceKey new = el_resourceKey old"
  shows "el_fencingToken old < el_fencingToken new"
proof -
  have s: "lease_inv H s" using leases.inv_reachable [OF assms(2) lease_inv_empty [OF assms(1)]] .
  then have "el_fencingToken old \<le> counter H (ls_counters s) (el_resourceKey old)"
    using assms(3) by (simp add: lease_inv_def)
  also have "\<dots> \<le> counter H (ls_counters t) (el_resourceKey old)" by (rule counters_grow [OF assms(4) s])
  also have "\<dots> < el_fencingToken new"
    using assms(5)
  proof (cases rule: acquire_cases)
    case unlocked
    then show ?thesis using assms(6) by simp
  next
    case (locked ident b)
    from locked(4) show ?thesis
    proof (cases rule: acquire_locked_cases)
      case (refused bs)
      then show ?thesis using locked(3) assms(6) by (simp add: refused_def)
    next
      case (acquired ls cs)
      then show ?thesis using locked(3) assms(6,7) build_leases_facts [OF acquired(2) makes_new_lease] by auto
    qed
  qed
  finally show ?thesis .
qed

theorem fencing_tokens_increase_witness:
  "el_fencingToken (example_lease ''job-1'' ''path:src/a.ts'' 1000 1) < el_fencingToken (example_lease ''job-2'' ''path:src/a.ts'' 70000 2)"
proof -
  obtain s' where s': "example_acquire ''job-2'' [example_claim ''path:src/a.ts'' Res_write] 70000 store2 = (Inr example_reacquired, s')"
    using example_reacquisition by blast
  have e: "ls_active empty_store = []" by (simp add: empty_store_def)
  have steps: "(lease_step example_host)\<^sup>*\<^sup>* empty_store store1" "(lease_step example_host)\<^sup>*\<^sup>* store1 store2"
    using example_steps by blast+
  show ?thesis
    by (rule fencing_tokens_increase [OF e steps(1) _ steps(2) s'])
      (simp_all add: store1_facts example_reacquired_def example_lease_def new_lease_def example_claim_def)
qed

text \<open>
  C17.  Acquisition is all or nothing and decided by conflicts alone: under the lock, with valid
  scopes and owner, it succeeds exactly when no unexpired lease of another owner conflicts
  with a claim.  Then every claim has its lease, in order, and the leases are stored after the
  unexpired ones; otherwise no lease is added and no token is used.
\<close>

theorem acquisition_decided_by_conflicts:
  assumes "acquireExecutionLeases H env None Lock_acquired repo owner claims options now uuid s = (Inr a, s')"
  shows "(ar_acquired a \<longleftrightarrow> \<not> (\<exists>c\<in>set claims. \<exists>l\<in>set (ls_active s). el_ownerJobId l \<noteq> owner \<and> \<not> lease_expired H now l
            \<and> claimsConflict c l)) \<and>
     (ar_acquired a \<longrightarrow> map lease_key_mode (ar_leases a) = map claim_key_mode claims
        \<and> (\<forall>l\<in>set (ar_leases a). el_ownerJobId l = owner) \<and> ar_blockers a = []
        \<and> ls_active s' = fold put_lease (ar_leases a) (filter (\<lambda>l. \<not> lease_expired H now l) (ls_active s))
        \<and> (distinct (map el_leaseId (filter (\<lambda>l. \<not> lease_expired H now l) (ls_active s) @ ar_leases a)) \<longrightarrow>
             ls_active s' = filter (\<lambda>l. \<not> lease_expired H now l) (ls_active s) @ ar_leases a)) \<and>
     (\<not> ar_acquired a \<longrightarrow> ar_leases a = [] \<and> ar_blockers a \<noteq> []
        \<and> ls_active s' = filter (\<lambda>l. \<not> lease_expired H now l) (ls_active s) \<and> ls_counters s' = ls_counters s)"
proof -
  from assms obtain ident where "acquire_locked H repo owner claims ident (resolveSideEffects (Some options) None)
      (coalesce (lo_ttlMs options) 30000) now uuid s = (a, s')"
    by (auto simp: acquireExecutionLeases_def split: sum.splits prod.splits)
  then show ?thesis
  proof (cases rule: acquire_locked_cases)
    case (refused bs)
    then have "\<not> ar_acquired a" "ar_leases a = []" "ar_blockers a = bs" by (simp_all add: refused_def)
    moreover have "\<exists>c\<in>set claims. \<exists>l\<in>set (ls_active s). el_ownerJobId l \<noteq> owner \<and> \<not> lease_expired H now l \<and> claimsConflict c l"
      using refused(2,3) acquisition_blockers_Nil refused(4) by auto
    ultimately show ?thesis using refused(2,3) by auto
  next
    case (acquired ls cs)
    have "map lease_key_mode ls = map claim_key_mode claims" "\<forall>l\<in>set ls. el_ownerJobId l = owner"
      using build_leases_facts [OF acquired(2) makes_new_lease] by blast+
    moreover have "\<not> (\<exists>c\<in>set claims. \<exists>l\<in>set (ls_active s). el_ownerJobId l \<noteq> owner \<and> \<not> lease_expired H now l \<and> claimsConflict c l)"
      using acquired(5) by (auto simp: acquisition_blockers_Nil)
    ultimately show ?thesis using acquired(4) fold_put_distinct unfolding acquired(1) by simp
  qed
qed

theorem acquisition_decided_by_conflicts_witness:
  "\<exists>s' :: lease_store. ar_acquired example_reacquired \<and> \<not> (\<exists>l\<in>set (ls_active store2). el_ownerJobId l \<noteq> ''job-2''
        \<and> \<not> lease_expired example_host 70000 l \<and> claimsConflict (example_claim ''path:src/a.ts'' Res_write) l) \<and>
     map lease_key_mode (ar_leases example_reacquired) = [claim_key_mode (example_claim ''path:src/a.ts'' Res_write)] \<and>
     ls_active s' = fold put_lease (ar_leases example_reacquired) (filter (\<lambda>l. \<not> lease_expired example_host 70000 l) (ls_active store2))"
proof -
  obtain s' where s': "example_acquire ''job-2'' [example_claim ''path:src/a.ts'' Res_write] 70000 store2 = (Inr example_reacquired, s')"
    using example_reacquisition by blast
  have "ar_acquired example_reacquired" by (simp add: example_reacquired_def)
  with acquisition_decided_by_conflicts [OF s'] show ?thesis by (intro exI [of _ s']) simp
qed

text \<open>
  C18.  An exact release is all or nothing, and only the exact set is released, in a store whose
  leases have distinct identifiers (the names of their files).  When it returns, the
  expected references name, without repetition, exactly the unexpired leases of the owner, each
  with its fencing token; it returns their number, and what is left are the unexpired leases of
  others.  When it throws, every unexpired lease is still there.
\<close>

theorem exact_release_is_all_or_nothing:
  assumes "distinct (map el_leaseId (ls_active s))"
  shows "case releaseExactExecutionLeases H fence Lock_acquired owner refs options now s of
     (Inr n, s') \<Rightarrow> n = int (length refs) \<and> distinct (map xl_leaseId refs) \<and>
        xl_leaseId ` set refs = el_leaseId ` {l \<in> set (ls_active s). el_ownerJobId l = owner \<and> \<not> lease_expired H now l} \<and>
        (\<forall>l\<in>set (ls_active s). el_ownerJobId l = owner \<and> \<not> lease_expired H now l \<longrightarrow>
           (\<exists>x\<in>set refs. xl_leaseId x = el_leaseId l \<and> xl_fencingToken x = el_fencingToken l)) \<and>
        set (ls_active s') = {l \<in> set (ls_active s). el_ownerJobId l \<noteq> owner \<and> \<not> lease_expired H now l}
   | (Inl e, s') \<Rightarrow> {l \<in> set (ls_active s). \<not> lease_expired H now l} \<subseteq> set (ls_active s')"
proof (cases "writer_fence fence")
  case (Inl e)
  then show ?thesis by (auto simp: releaseExactExecutionLeases_def)
next
  case (Inr u)
  let ?live = "filter (\<lambda>l. \<not> lease_expired H now l) (ls_active s)"
  let ?owned = "filter (\<lambda>l. el_ownerJobId l = owner) ?live"
  have keep: "el_leaseId l \<in> el_leaseId ` set ?owned \<longleftrightarrow> el_ownerJobId l = owner" if "l \<in> set ?live" for l
    using that assms by (auto simp: distinct_map dest: inj_onD)
  then have live: "set (filter (\<lambda>l. el_leaseId l \<notin> el_leaseId ` set ?owned) ?live)
      = {l \<in> set (ls_active s). el_ownerJobId l \<noteq> owner \<and> \<not> lease_expired H now l}" by auto
  obtain n s2 where r: "release_all options (''leases-released-exact:'' @ owner) ?owned (listActiveLeases H now s) = (n, s2)"
    by (metis surj_pair)
  from release_all_leases [OF r] have n: "n = int (length ?owned)"
    and s2: "ls_active s2 = filter (\<lambda>l. el_leaseId l \<notin> el_leaseId ` set ?owned) ?live" by auto
  show ?thesis
  proof (cases "expected_size refs = length refs \<and> length ?owned = expected_size refs \<and>
      (\<forall>l\<in>set ?owned. leaseMatchesExpected l (expected_get refs (el_leaseId l)))")
    case False
    then show ?thesis using Inr
      by (auto simp: releaseExactExecutionLeases_def under_lock_def release_exact_locked_def Let_def for_each_eq_Inr
          split: sum.splits)
  next
    case True
    then have all: "for_each (\<lambda>l. throw_if (\<not> leaseMatchesExpected l (expected_get refs (el_leaseId l)))
        (''LEASE_SET_FENCE_MISMATCH: '' @ owner @ '' no longer owns '' @ el_leaseId l)) ?owned = Inr ()"
      by (simp add: for_each_eq_Inr)
    then have run: "releaseExactExecutionLeases H fence Lock_acquired owner refs options now s = (Inr n, s2)"
      using Inr True r by (simp add: releaseExactExecutionLeases_def under_lock_def release_exact_locked_def Let_def)
    have d: "distinct (map xl_leaseId refs)" using True expected_size_distinct by simp
    have found: "\<exists>x\<in>set refs. xl_leaseId x = el_leaseId l \<and> xl_fencingToken x = el_fencingToken l" if "l \<in> set ?owned" for l
      using True that matches_expected by blast
    have sub: "el_leaseId ` set ?owned \<subseteq> xl_leaseId ` set refs" using found by force
    have "distinct (map el_leaseId ?owned)" using assms by (simp add: distinct_map_filter)
    then have "card (el_leaseId ` set ?owned) = length ?owned" using distinct_card by fastforce
    moreover have "card (xl_leaseId ` set refs) = length refs" using distinct_card [OF d] by simp
    ultimately have ids: "el_leaseId ` set ?owned = xl_leaseId ` set refs"
      using sub True by (intro card_subset_eq) auto
    have "xl_leaseId ` set refs = el_leaseId ` {l \<in> set (ls_active s). el_ownerJobId l = owner \<and> \<not> lease_expired H now l}"
      unfolding ids [symmetric] by (rule arg_cong [where f = "image el_leaseId"]) auto
    with n s2 live d found True show ?thesis unfolding run by auto
  qed
qed

definition job1_refs :: "expected_lease list" where
  "job1_refs = [\<lparr>xl_leaseId = el_leaseId (example_lease ''job-1'' ''path:src/a.ts'' 1000 1), xl_fencingToken = 1,
     xl_repoId = None, xl_checkoutId = None, xl_workId = None, xl_resourceKey = None,
     xl_ownerIdentityDigest = None\<rparr>]"

theorem exact_release_is_all_or_nothing_witness:
  "\<exists>s'. releaseExactExecutionLeases example_host None Lock_acquired ''job-1'' job1_refs None 2000 store2 = (Inr 1, s') \<and>
     set (ls_active s') = {l \<in> set (ls_active store2). el_ownerJobId l \<noteq> ''job-1'' \<and> \<not> lease_expired example_host 2000 l}"
proof -
  let ?r = "releaseExactExecutionLeases example_host None Lock_acquired ''job-1'' job1_refs None 2000 store2"
  have "fst ?r = Inr 1"
    by (simp add: releaseExactExecutionLeases_def writer_fence_def under_lock_def release_exact_locked_def store2_facts Let_def
        expected_size_def expected_get_def job1_refs_def js_uniq_def leaseMatchesExpected_def case_prod_unfold release_all_def)
  moreover have "distinct (map el_leaseId (ls_active store2))" by (simp add: store2_facts example_lease_ids)
  note exact_release_is_all_or_nothing [OF this, where H = example_host and fence = None and owner = "''job-1''" and refs = job1_refs
      and options = None and now = 2000]
  ultimately show ?thesis by (cases ?r) auto
qed

text \<open>
  C19.  The conflict of claims is symmetric; two reads never conflict unless both are releases;
  on one resource anything but two reads conflicts; and a release claim conflicts with every
  claim that is not a read.
\<close>

theorem claim_conflict_laws:
  "(resourceClaimsConflict a b \<longleftrightarrow> resourceClaimsConflict b a) \<and>
   (resourceClaimsConflict (k, Res_read) (k', Res_read) \<longrightarrow>
      starts_with ''release:'' (normalizeResourceKey k) \<and> starts_with ''release:'' (normalizeResourceKey k')) \<and>
   (m \<noteq> Res_read \<or> m' \<noteq> Res_read \<longrightarrow> resourceClaimsConflict (k, m) (k, m')) \<and>
   (starts_with ''release:'' (normalizeResourceKey k) \<longrightarrow> m' \<noteq> Res_read \<longrightarrow> resourceClaimsConflict (k, m) (k', m'))"
proof (intro conjI impI)
  show "resourceClaimsConflict a b \<longleftrightarrow> resourceClaimsConflict b a" by (rule resourceClaimsConflict_sym)
  assume "m \<noteq> Res_read \<or> m' \<noteq> Res_read"
  then show "resourceClaimsConflict (k, m) (k, m')"
    by (simp add: resourceClaimsConflict_def Let_def resourceKeysOverlap_def)
qed (auto simp: resourceClaimsConflict_def Let_def split: if_splits)

theorem claim_conflict_laws_witness:
  "resourceClaimsConflict (''release:r'', Res_read) (''release:r'', Res_write) \<and>
   resourceClaimsConflict (''release:r'', Res_read) (''path:src'', Res_write)"
proof -
  have release: "starts_with ''release:'' (normalizeResourceKey ''release:r'')" by code_simp
  have "resourceClaimsConflict (''release:r'', Res_read) (''release:r'', Res_write)"
    using claim_conflict_laws [where k = "''release:r''" and m = Res_read and m' = Res_write] by blast
  moreover have "resourceClaimsConflict (''release:r'', Res_read) (''path:src'', Res_write)"
    using claim_conflict_laws [where k = "''release:r''" and k' = "''path:src''" and m = Res_read and m' = Res_write] release
    by blast
  ultimately show ?thesis ..
qed

text \<open>
  C20.  Normalising a claim list keeps what it protects: every resource occurs once, with the
  strongest mode any claim asked for it, and whatever conflicts with a claim for a non-blank
  resource conflicts with a normalised claim, and conversely.
\<close>

theorem normalized_claims_protect_the_same:
  assumes "claims \<noteq> []"
  shows "distinct (map cm_resourceKey (normalizeClaims claims readOnly)) \<and>
     (\<forall>c\<in>set (normalizeClaims claims readOnly). \<forall>d\<in>set claims.
        normalizeResourceKey (cm_resourceKey d) = cm_resourceKey c \<longrightarrow> cm_mode d \<le> cm_mode c) \<and>
     ((\<exists>c\<in>set (normalizeClaims claims readOnly). resourceClaimsConflict (claim_key_mode c) r) \<longleftrightarrow>
      (\<exists>d\<in>set claims. normalizeResourceKey (cm_resourceKey d) \<noteq> [] \<and> resourceClaimsConflict (claim_key_mode d) r))"
proof (intro conjI)
  note f = normalizeClaims_facts [OF assms, where readOnly = readOnly]
  show "distinct (map cm_resourceKey (normalizeClaims claims readOnly))" by (rule f(1))
  show "\<forall>c\<in>set (normalizeClaims claims readOnly). \<forall>d\<in>set claims.
        normalizeResourceKey (cm_resourceKey d) = cm_resourceKey c \<longrightarrow> cm_mode d \<le> cm_mode c"
    using f(2) by (auto simp: claim_of_def)
  show "(\<exists>c\<in>set (normalizeClaims claims readOnly). resourceClaimsConflict (claim_key_mode c) r) \<longleftrightarrow>
      (\<exists>d\<in>set claims. normalizeResourceKey (cm_resourceKey d) \<noteq> [] \<and> resourceClaimsConflict (claim_key_mode d) r)"
    (is "?L \<longleftrightarrow> ?R")
  proof
    assume ?L
    then obtain c where c: "c \<in> set (normalizeClaims claims readOnly)" "resourceClaimsConflict (claim_key_mode c) r" by blast
    from f(2) [OF c(1)] obtain d where d: "cm_resourceKey c \<noteq> []" "d \<in> set claims"
      "normalizeResourceKey (cm_resourceKey d) = cm_resourceKey c" "c = d\<lparr>cm_resourceKey := cm_resourceKey c\<rparr>"
      by (auto simp: claim_of_def)
    have "cm_mode c = cm_mode d" by (subst d(4)) simp
    then have "resourceClaimsConflict (claim_key_mode d) r"
      using c(2) conflict_normal_key [of "cm_resourceKey d" "cm_mode d" r] d(3) by (simp add: claim_key_mode_def)
    moreover have "normalizeResourceKey (cm_resourceKey d) \<noteq> []" using d(1,3) by simp
    ultimately show ?R using d(2) by blast
  next
    assume ?R
    then obtain d where d: "d \<in> set claims" "normalizeResourceKey (cm_resourceKey d) \<noteq> []"
      "resourceClaimsConflict (claim_key_mode d) r" by blast
    from f(3) [OF d(1,2)] obtain c where c: "c \<in> set (normalizeClaims claims readOnly)"
      "cm_resourceKey c = normalizeResourceKey (cm_resourceKey d)" by blast
    have "cm_mode d \<le> cm_mode c" using f(2) [OF c(1)] d(1) c(2) by (auto simp: claim_of_def)
    moreover have "resourceClaimsConflict (cm_resourceKey c, cm_mode d) r"
      using d(3) conflict_normal_key by (simp add: c(2) claim_key_mode_def)
    ultimately have "resourceClaimsConflict (claim_key_mode c) r"
      using conflict_mono by (simp add: claim_key_mode_def)
    with c(1) show ?L by blast
  qed
qed

theorem normalized_claims_protect_the_same_witness:
  "distinct (map cm_resourceKey (normalizeClaims [example_claim '' path:a '' Res_read, example_claim ''path:a'' Res_write] False)) \<and>
     (\<exists>c\<in>set (normalizeClaims [example_claim '' path:a '' Res_read, example_claim ''path:a'' Res_write] False).
        resourceClaimsConflict (claim_key_mode c) (''path:a'', Res_read))"
proof -
  have "normalizeResourceKey ''path:a'' \<noteq> []" "resourceClaimsConflict (''path:a'', Res_write) (''path:a'', Res_read)"
    by code_simp+
  then show ?thesis
    using normalized_claims_protect_the_same
        [of "[example_claim '' path:a '' Res_read, example_claim ''path:a'' Res_write]" False "(''path:a'', Res_read)"]
    by (auto simp: claim_key_mode_def)
qed

section \<open>A glob that protects nothing\<close>

text \<open>
  A path claim that is a single \<open>*\<close> is treated as unknown and overlaps every path, but the
  claim \<open>path:**\<close> is stripped to the empty path, whose prefix test looks for a leading slash
  no normalised path has: a write on everything and a write on one file do not conflict.
\<close>

lemma double_star_claim_overlaps_nothing:
  "\<not> resourceClaimsConflict (''path:**'', Res_write) (''path:src/a.ts'', Res_write)"
  "resourceClaimsConflict (''path:*'', Res_write) (''path:src/a.ts'', Res_write)"
  by code_simp+

end
