(* ===== verification/EngineeringProfile.thy ===== *)
theory EngineeringProfile
  imports WorkContract
begin

text \<open>
  The engineering work profile, \<open>packages/kernel/work/domain/engineering-profile.ts\<close>: the
  evidence each risk class requires, the context receipt built from the evidence a caller
  presents, the admission decision and the effect of a blocker on the design.
\<close>

section \<open>Profiles\<close>

datatype admission_enforcement = Enforce_observe | Enforce_enforce

record engineering_profile =
  ep_riskClass :: engineering_risk
  ep_admissionEnforcement :: admission_enforcement
  ep_requirements :: "engineering_evidence_kind \<Rightarrow> evidence_requirement"
  ep_admissionEvidence :: "engineering_evidence_kind list"
  ep_completionEvidence :: "engineering_evidence_kind list"

fun requirement ::
    "evidence_requirement \<Rightarrow> evidence_requirement \<Rightarrow> evidence_requirement \<Rightarrow> evidence_requirement \<Rightarrow>
     evidence_requirement \<Rightarrow> evidence_requirement \<Rightarrow> evidence_requirement \<Rightarrow> evidence_requirement \<Rightarrow>
     evidence_requirement \<Rightarrow> engineering_evidence_kind \<Rightarrow> evidence_requirement" where
  "requirement pc cc pd dd ic st fv rj fr EKind_project_contract = pc"
| "requirement pc cc pd dd ic st fv rj fr EKind_context_closure = cc"
| "requirement pc cc pd dd ic st fv rj fr EKind_product_dod = pd"
| "requirement pc cc pd dd ic st fv rj fr EKind_design_decision = dd"
| "requirement pc cc pd dd ic st fv rj fr EKind_independent_critique = ic"
| "requirement pc cc pd dd ic st fv rj fr EKind_semantic_tools = st"
| "requirement pc cc pd dd ic st fv rj fr EKind_focused_validation = fv"
| "requirement pc cc pd dd ic st fv rj fr EKind_real_journey = rj"
| "requirement pc cc pd dd ic st fv rj fr EKind_fresh_review = fr"

fun PROFILES :: "engineering_risk \<Rightarrow> engineering_profile" where
  "PROFILES ERisk_low = \<lparr>ep_riskClass = ERisk_low, ep_admissionEnforcement = Enforce_observe,
     ep_requirements = requirement Req_optional Req_optional Req_optional Req_optional Req_optional Req_optional
       Req_conditional Req_optional Req_optional,
     ep_admissionEvidence = [], ep_completionEvidence = []\<rparr>"
| "PROFILES ERisk_normal = \<lparr>ep_riskClass = ERisk_normal, ep_admissionEnforcement = Enforce_observe,
     ep_requirements = requirement Req_required Req_required Req_required Req_conditional Req_optional Req_conditional
       Req_required Req_conditional Req_required,
     ep_admissionEvidence = [EKind_project_contract, EKind_context_closure, EKind_product_dod],
     ep_completionEvidence = [EKind_focused_validation, EKind_fresh_review]\<rparr>"
| "PROFILES ERisk_high = \<lparr>ep_riskClass = ERisk_high, ep_admissionEnforcement = Enforce_enforce,
     ep_requirements = requirement Req_required Req_required Req_required Req_required Req_required Req_conditional
       Req_required Req_conditional Req_required,
     ep_admissionEvidence = [EKind_project_contract, EKind_context_closure, EKind_product_dod, EKind_design_decision,
       EKind_independent_critique],
     ep_completionEvidence = [EKind_focused_validation, EKind_fresh_review]\<rparr>"
| "PROFILES ERisk_critical = \<lparr>ep_riskClass = ERisk_critical, ep_admissionEnforcement = Enforce_enforce,
     ep_requirements = requirement Req_required Req_required Req_required Req_required Req_required Req_required
       Req_required Req_required Req_required,
     ep_admissionEvidence = [EKind_project_contract, EKind_context_closure, EKind_product_dod, EKind_design_decision,
       EKind_independent_critique, EKind_semantic_tools],
     ep_completionEvidence = [EKind_focused_validation, EKind_real_journey, EKind_fresh_review]\<rparr>"

fun engineeringRiskClassForWorkRisk :: "work_risk \<Rightarrow> engineering_risk" where
  "engineeringRiskClassForWorkRisk Risk_readonly = ERisk_low"
| "engineeringRiskClassForWorkRisk Risk_low = ERisk_low"
| "engineeringRiskClassForWorkRisk Risk_medium = ERisk_normal"
| "engineeringRiskClassForWorkRisk Risk_high = ERisk_high"
| "engineeringRiskClassForWorkRisk Risk_destructive = ERisk_critical"

definition engineeringWorkProfileForRisk :: "work_risk \<Rightarrow> engineering_profile" where
  "engineeringWorkProfileForRisk risk = PROFILES (engineeringRiskClassForWorkRisk risk)"

section \<open>The context receipt\<close>

definition receipt_ids :: "string list option \<Rightarrow> string list" where
  "receipt_ids values = take 128 (js_uniq (trim_all (coalesce values [])))"

fun provided :: "engineering_evidence_kind \<Rightarrow> engineering_context \<Rightarrow> bool" where
  "provided EKind_project_contract receipt = (ec_projectContractReceipt receipt \<noteq> None)"
| "provided EKind_context_closure receipt =
     (map_option cc_readiness (ce_contextClosureReceipt (ec_evidence receipt)) = Some Closure_ready)"
| "provided EKind_product_dod receipt = (ce_productDodReceipt (ec_evidence receipt) \<noteq> None)"
| "provided EKind_design_decision receipt =
     (ce_designDecisionReceipt (ec_evidence receipt) \<noteq> None \<and> ec_designState receipt \<noteq> Some Design_revisit_required)"
| "provided EKind_independent_critique receipt =
     (map_option cr_decision (ce_independentCritiqueReceipt (ec_evidence receipt)) = Some Critique_approved
      \<and> ec_designState receipt \<noteq> Some Design_revisit_required)"
| "provided EKind_semantic_tools receipt = (ce_semanticToolReceiptIds (ec_evidence receipt) \<noteq> [])"
| "provided EKind_focused_validation receipt = (ce_validationReceiptIds (ec_evidence receipt) \<noteq> [])"
| "provided EKind_real_journey receipt = (ce_journeyReceiptIds (ec_evidence receipt) \<noteq> [])"
| "provided EKind_fresh_review receipt = truthy (ce_freshReviewReceiptId (ec_evidence receipt))"

datatype requirement_phase = At_admission | At_completion

definition requiredKinds ::
    "engineering_profile \<Rightarrow> requirement_phase \<Rightarrow> context_conditions \<Rightarrow> engineering_evidence_kind list" where
  "requiredKinds profile phase conditions =
     js_uniq ((case phase of At_admission \<Rightarrow> ep_admissionEvidence profile | At_completion \<Rightarrow> ep_completionEvidence profile)
       @ (if cx_semanticToolsRequired conditions \<and> ep_requirements profile EKind_semantic_tools = Req_conditional
          then [EKind_semantic_tools] else [])
       @ (if cx_realJourneyRequired conditions \<and> ep_requirements profile EKind_real_journey = Req_conditional
          then [EKind_real_journey] else []))"

text \<open>\<open>evidence.receipt ? validate(evidence.receipt) : undefined\<close>.\<close>

definition opt_res :: "('a \<Rightarrow> 'b res) \<Rightarrow> 'a option \<Rightarrow> 'b option res" where
  "opt_res f v = (case v of None \<Rightarrow> Inr None | Some x \<Rightarrow> bindE (f x) (\<lambda>y. Inr (Some y)))"

definition exact_revision :: "source_identity \<Rightarrow> string option" where
  "exact_revision identity = (case identity of Source_revision r \<Rightarrow> Some r | _ \<Rightarrow> None)"

definition source_drift :: "source_identity \<Rightarrow> string \<times> string option \<Rightarrow> unit res" where
  "source_drift identity entry =
     throw_if (truthy (exact_revision identity) \<and> truthy (snd entry) \<and> snd entry \<noteq> exact_revision identity)
       (''ENGINEERING_'' @ fst entry @ ''_SOURCE_DRIFT'')"

text \<open>The five receipts a caller presented, each validated or absent.\<close>

record validated_receipts =
  vd_contract :: "project_contract_receipt option"
  vd_closure :: "context_closure option"
  vd_dod :: "product_dod_receipt option"
  vd_design :: "design_decision_receipt option"
  vd_critique :: "critique_receipt option"

definition validated_evidence :: "js_host \<Rightarrow> admission_evidence \<Rightarrow> validated_receipts res" where
  "validated_evidence H evidence =
     bindE (opt_res (validateProjectEngineeringContractReceipt H) (ae_projectContractReceipt evidence)) (\<lambda>contract.
     bindE (opt_res (validateContextClosureReceipt H) (ae_contextClosureReceipt evidence)) (\<lambda>closure.
     bindE (opt_res (validateProductDoDReceipt H) (ae_productDodReceipt evidence)) (\<lambda>dod.
     bindE (opt_res (validateDesignDecisionContractReceipt H) (ae_designDecisionReceipt evidence)) (\<lambda>design.
     bindE (opt_res (validateIndependentCritiqueReceipt H) (ae_independentCritiqueReceipt evidence)) (\<lambda>critique.
     Inr \<lparr>vd_contract = contract, vd_closure = closure, vd_dod = dod, vd_design = design, vd_critique = critique\<rparr>)))))"

text \<open>\<open>a && b && test(a, b)\<close> on optional receipts.\<close>

definition both :: "'a option \<Rightarrow> 'b option \<Rightarrow> ('a \<Rightarrow> 'b \<Rightarrow> bool) \<Rightarrow> bool" where
  "both a b test = (case a of None \<Rightarrow> False | Some x \<Rightarrow> (case b of None \<Rightarrow> False | Some y \<Rightarrow> test x y))"

definition evidence_binding :: "source_identity \<Rightarrow> admission_evidence \<Rightarrow> validated_receipts \<Rightarrow> unit res" where
  "evidence_binding identity evidence v =
     bindE (for_each (source_drift identity)
       [(''PROJECT_CONTRACT'', map_option pr_sourceRevision (vd_contract v)),
        (''CONTEXT_CLOSURE'', Option.bind (vd_closure v) cc_sourceRevision),
        (''PRODUCT_DOD'', map_option pd_sourceRevision (vd_dod v)),
        (''DESIGN_DECISION'', map_option dd_sourceRevision (vd_design v)),
        (''INDEPENDENT_CRITIQUE'', map_option cr_sourceRevision (vd_critique v))]) (\<lambda>_.
     bindE (throw_if (both (vd_design v) (vd_dod v) (\<lambda>d p. dd_productDodReceiptId d \<noteq> pd_receiptId p))
              ''ENGINEERING_DESIGN_PRODUCT_DOD_MISMATCH'') (\<lambda>_.
     bindE (throw_if (both (vd_design v) (vd_closure v) (\<lambda>d c. dd_contextClosureReceiptId d \<noteq> cc_receiptId c))
              ''ENGINEERING_DESIGN_CONTEXT_MISMATCH'') (\<lambda>_.
     bindE (throw_if (both (vd_critique v) (vd_dod v) (\<lambda>k p. cr_productDodReceiptId k \<noteq> pd_receiptId p))
              ''ENGINEERING_CRITIQUE_PRODUCT_DOD_MISMATCH'') (\<lambda>_.
     bindE (throw_if (both (vd_critique v) (vd_design v) (\<lambda>k d. cr_designDecisionReceiptId k \<noteq> dd_receiptId d))
              ''ENGINEERING_CRITIQUE_DESIGN_MISMATCH'') (\<lambda>_.
     let contextReceiptId = (case vd_closure v of Some c \<Rightarrow> Some (cc_receiptId c)
                             | None \<Rightarrow> opt_trim (ae_contextClosureReceiptId evidence)) in
     bindE (throw_if (case vd_critique v of None \<Rightarrow> False
                | Some k \<Rightarrow> truthy contextReceiptId \<and> Some (cr_contextClosureReceiptId k) \<noteq> contextReceiptId)
              ''ENGINEERING_CRITIQUE_CONTEXT_MISMATCH'') (\<lambda>_.
     throw_if (both (vd_critique v) (vd_contract v) (\<lambda>k p. cr_projectContractDigest k \<noteq> pr_contentDigest p))
       ''ENGINEERING_CRITIQUE_PROJECT_CONTRACT_MISMATCH''))))))"

text \<open>\<open>receipt?.receiptId ?? (id?.trim() || undefined)\<close>.\<close>

definition receipt_or_id :: "string option \<Rightarrow> string option \<Rightarrow> string option" where
  "receipt_or_id rid legacy = (case rid of Some i \<Rightarrow> Some i | None \<Rightarrow> trim_or_none legacy)"

definition context_receipt ::
    "engineering_profile \<Rightarrow> source_identity \<Rightarrow> admission_evidence \<Rightarrow> validated_receipts \<Rightarrow> string \<Rightarrow> engineering_context" where
  "context_receipt profile identity evidence v recordedAt =
     \<lparr>ec_riskClass = ep_riskClass profile,
      ec_sourceIdentity = identity,
      ec_projectContractReceipt = vd_contract v,
      ec_evidence = \<lparr>
        ce_contextClosureReceiptId = receipt_or_id (map_option cc_receiptId (vd_closure v)) (ae_contextClosureReceiptId evidence),
        ce_contextClosureReceipt = vd_closure v,
        ce_productDodReceiptId = receipt_or_id (map_option pd_receiptId (vd_dod v)) (ae_productDodReceiptId evidence),
        ce_designDecisionReceiptId = receipt_or_id (map_option dd_receiptId (vd_design v)) (ae_designDecisionReceiptId evidence),
        ce_independentCritiqueReceiptId = receipt_or_id (map_option cr_receiptId (vd_critique v)) (ae_independentCritiqueReceiptId evidence),
        ce_productDodReceipt = vd_dod v,
        ce_designDecisionReceipt = vd_design v,
        ce_independentCritiqueReceipt = vd_critique v,
        ce_semanticToolReceiptIds = receipt_ids (ae_semanticToolReceiptIds evidence),
        ce_validationReceiptIds = receipt_ids (ae_validationReceiptIds evidence),
        ce_journeyReceiptIds = receipt_ids (ae_journeyReceiptIds evidence),
        ce_freshReviewReceiptId = trim_or_none (ae_freshReviewReceiptId evidence)\<rparr>,
      ec_conditions = \<lparr>cx_semanticToolsRequired = (ae_semanticToolsRequired evidence = Some True),
        cx_realJourneyRequired = (ae_realJourneyRequired evidence = Some True)\<rparr>,
      ec_semanticScope = map_option (\<lambda>d. \<lparr>ss_keys = dd_semanticScopeKeys d, ss_mutationClass = dd_mutationClass d\<rparr>) (vd_design v),
      ec_complexityBudget = map_option dd_complexityBudget (vd_design v),
      ec_designState = map_option (\<lambda>_. Design_ready) (vd_design v),
      ec_blockerDispositions = Some [],
      ec_missingAdmissionEvidence = [],
      ec_missingCompletionEvidence = [],
      ec_recordedAt = recordedAt\<rparr>"

definition no_evidence :: admission_evidence where
  "no_evidence = \<lparr>ae_projectContractReceipt = None, ae_contextClosureReceiptId = None, ae_contextClosureReceipt = None,
     ae_productDodReceiptId = None, ae_designDecisionReceiptId = None, ae_independentCritiqueReceiptId = None,
     ae_productDodReceipt = None, ae_designDecisionReceipt = None, ae_independentCritiqueReceipt = None,
     ae_semanticToolReceiptIds = None, ae_validationReceiptIds = None, ae_journeyReceiptIds = None,
     ae_freshReviewReceiptId = None, ae_semanticToolsRequired = None, ae_realJourneyRequired = None\<rparr>"

definition buildEngineeringContextReceipt ::
    "js_host \<Rightarrow> work_risk \<Rightarrow> source_identity \<Rightarrow> admission_evidence option \<Rightarrow> string \<Rightarrow> engineering_context res" where
  "buildEngineeringContextReceipt H risk identity evidence recordedAt =
     (let profile = engineeringWorkProfileForRisk risk; evidence = coalesce evidence no_evidence in
      bindE (validated_evidence H evidence) (\<lambda>v.
      bindE (evidence_binding identity evidence v) (\<lambda>_.
      let receipt = context_receipt profile identity evidence v recordedAt in
      Inr (receipt\<lparr>
        ec_missingAdmissionEvidence :=
          filter (\<lambda>kind. \<not> provided kind receipt) (requiredKinds profile At_admission (ec_conditions receipt)),
        ec_missingCompletionEvidence :=
          filter (\<lambda>kind. \<not> provided kind receipt) (requiredKinds profile At_completion (ec_conditions receipt))\<rparr>))))"

section \<open>Admission and blockers\<close>

datatype admission_decision = Admission_allowed | Admission_refused string "engineering_evidence_kind list"

definition evaluateEngineeringAdmission :: "engineering_profile \<Rightarrow> engineering_context \<Rightarrow> bool \<Rightarrow> admission_decision" where
  "evaluateEngineeringAdmission profile receipt mutation =
     (if \<not> mutation \<or> ep_admissionEnforcement profile = Enforce_observe then Admission_allowed
      else if ec_sourceIdentity receipt = Source_unknown
        then Admission_refused ''ENGINEERING_SOURCE_IDENTITY_REQUIRED'' (ec_missingAdmissionEvidence receipt)
      else if ec_designState receipt = Some Design_revisit_required
        then Admission_refused ''ENGINEERING_DESIGN_REVISIT_REQUIRED'' [EKind_design_decision, EKind_independent_critique]
      else if ec_missingAdmissionEvidence receipt \<noteq> []
        then Admission_refused ''ENGINEERING_ADMISSION_EVIDENCE_REQUIRED'' (ec_missingAdmissionEvidence receipt)
      else Admission_allowed)"

text \<open>\<open>xs.slice(-n)\<close>: the last \<open>n\<close> entries.\<close>

definition slice_last :: "nat \<Rightarrow> 'a list \<Rightarrow> 'a list" where
  "slice_last n xs = drop (length xs - n) xs"

definition applyEngineeringBlockerDisposition ::
    "js_host \<Rightarrow> engineering_context \<Rightarrow> blocker_receipt \<Rightarrow> engineering_context res" where
  "applyEngineeringBlockerDisposition H receipt blocker =
     bindE (validateEngineeringBlockerDispositionReceipt H blocker) (\<lambda>validated.
     bindE (throw_if (case ec_sourceIdentity receipt of Source_revision r \<Rightarrow> bd_sourceRevision validated \<noteq> r | _ \<Rightarrow> False)
              ''ENGINEERING_BLOCKER_SOURCE_DRIFT'') (\<lambda>_.
     let existing = coalesce (ec_blockerDispositions receipt) [] in
     if \<exists>entry\<in>set existing. bd_receiptId entry = bd_receiptId validated then Inr receipt
     else
       let extended = receipt\<lparr>ec_blockerDispositions := Some (slice_last 64 (existing @ [validated]))\<rparr> in
       Inr (if bd_action validated = Action_return_to_design
            then extended\<lparr>ec_designState := Some Design_revisit_required\<rparr> else extended)))"

end
