(* ===== verification/ProjectContract.thy ===== *)
theory ProjectContract
  imports EngineeringContracts
begin

text \<open>
  Validation of the source-controlled project contract,
  \<open>packages/kernel/work/domain/project-engineering-contract.ts\<close>: an untrusted JSON value is
  read into a typed contract or rejected with the code of the first defect.
\<close>

definition MAX_CONTRACT_ITEMS :: nat where "MAX_CONTRACT_ITEMS = 128"

record contract_check =
  pcc_id :: string
  pcc_purpose :: "string option"

record contract_journey =
  pcj_id :: string
  pcj_purpose :: string
  pcj_requiredFor :: "engineering_risk list option"

record contract_tooling =
  pct_id :: string
  pct_purpose :: "string option"
  pct_requiredFor :: "engineering_risk list option"

record contract_exception =
  pce_id :: string
  pce_scope :: string
  pce_rationale :: string

record contract_authority =
  pca_product :: "string list"
  pca_architecture :: "string list"
  pca_source :: "string list"

record contract_quality =
  pcq_ux :: "string list"
  pcq_performance :: "string list"
  pcq_nonRegression :: "string list"

record project_contract =
  pc_contractId :: string
  pc_contractVersion :: string
  pc_projectId :: string
  pc_authority :: contract_authority
  pc_quality :: contract_quality
  pc_checks :: "contract_check list"
  pc_journeys :: "contract_journey list"
  pc_platforms :: "string list"
  pc_tooling :: "contract_tooling list"
  pc_skillRefs :: "string list"
  pc_exceptions :: "contract_exception list"

definition stringList :: "unknown \<Rightarrow> string \<Rightarrow> string list res" where
  "stringList value code =
     (case value of
        None \<Rightarrow> Inr []
      | Some (JArr vs) \<Rightarrow>
          bindE (throw_if (length vs > MAX_CONTRACT_ITEMS) code) (\<lambda>_.
          bindE (map_res (\<lambda>item. req_text (Some item) code) vs) (\<lambda>normalized.
          bindE (throw_if (length (js_uniq normalized) \<noteq> length normalized) (code @ ''_DUPLICATE'')) (\<lambda>_.
          Inr normalized)))
      | _ \<Rightarrow> throw code)"

definition risk_of_str :: "string \<Rightarrow> string \<Rightarrow> engineering_risk res" where
  "risk_of_str code item =
     (case find (\<lambda>r. risk_str r = item) ENGINEERING_RISK_CLASSES of None \<Rightarrow> throw code | Some r \<Rightarrow> Inr r)"

definition riskClasses :: "unknown \<Rightarrow> string \<Rightarrow> engineering_risk list option res" where
  "riskClasses value code =
     (case value of
        None \<Rightarrow> Inr None
      | Some v \<Rightarrow> bindE (stringList (Some v) code) (\<lambda>values.
          bindE (map_res (risk_of_str code) values) (\<lambda>risks. Inr (Some risks))))"

type_synonym json_object = "(string \<times> json) list"

definition json_object :: "unknown \<Rightarrow> string \<Rightarrow> json_object res" where
  "json_object value code = (case value of Some (JObj ps) \<Rightarrow> Inr ps | _ \<Rightarrow> throw code)"

definition objectList :: "unknown \<Rightarrow> string \<Rightarrow> json_object list res" where
  "objectList value code =
     (case value of
        Some (JArr vs) \<Rightarrow>
          bindE (throw_if (length vs > MAX_CONTRACT_ITEMS) code) (\<lambda>_.
          map_res (\<lambda>item. json_object (Some item) code) vs)
      | _ \<Rightarrow> throw code)"

text \<open>\<open>root.k ?? d\<close>: \<open>null\<close> and \<open>undefined\<close> give the default.\<close>

definition nullish :: "unknown \<Rightarrow> json \<Rightarrow> unknown" where
  "nullish value d = (case value of None \<Rightarrow> Some d | Some JNull \<Rightarrow> Some d | Some v \<Rightarrow> Some v)"

definition opt_text :: "unknown \<Rightarrow> string \<Rightarrow> string option res" where
  "opt_text value code =
     (case value of None \<Rightarrow> Inr None | Some v \<Rightarrow> bindE (req_text (Some v) code) (\<lambda>t. Inr (Some t)))"

definition contract_check_of :: "json_object \<Rightarrow> contract_check res" where
  "contract_check_of item =
     bindE (req_text (map_of item ''id'') ''PROJECT_ENGINEERING_CONTRACT_CHECK_ID_INVALID'') (\<lambda>i.
     bindE (opt_text (map_of item ''purpose'') ''PROJECT_ENGINEERING_CONTRACT_CHECK_PURPOSE_INVALID'') (\<lambda>p.
     Inr \<lparr>pcc_id = i, pcc_purpose = p\<rparr>))"

definition contract_journey_of :: "json_object \<Rightarrow> contract_journey res" where
  "contract_journey_of item =
     bindE (req_text (map_of item ''id'') ''PROJECT_ENGINEERING_CONTRACT_JOURNEY_ID_INVALID'') (\<lambda>i.
     bindE (req_text (map_of item ''purpose'') ''PROJECT_ENGINEERING_CONTRACT_JOURNEY_PURPOSE_INVALID'') (\<lambda>p.
     bindE (riskClasses (map_of item ''requiredFor'') ''PROJECT_ENGINEERING_CONTRACT_JOURNEY_RISK_INVALID'') (\<lambda>r.
     Inr \<lparr>pcj_id = i, pcj_purpose = p, pcj_requiredFor = r\<rparr>)))"

definition contract_tooling_of :: "json_object \<Rightarrow> contract_tooling res" where
  "contract_tooling_of item =
     bindE (req_text (map_of item ''id'') ''PROJECT_ENGINEERING_CONTRACT_TOOLING_ID_INVALID'') (\<lambda>i.
     bindE (opt_text (map_of item ''purpose'') ''PROJECT_ENGINEERING_CONTRACT_TOOLING_PURPOSE_INVALID'') (\<lambda>p.
     bindE (riskClasses (map_of item ''requiredFor'') ''PROJECT_ENGINEERING_CONTRACT_TOOLING_RISK_INVALID'') (\<lambda>r.
     Inr \<lparr>pct_id = i, pct_purpose = p, pct_requiredFor = r\<rparr>)))"

definition contract_exception_of :: "json_object \<Rightarrow> contract_exception res" where
  "contract_exception_of item =
     bindE (req_text (map_of item ''id'') ''PROJECT_ENGINEERING_CONTRACT_EXCEPTION_ID_INVALID'') (\<lambda>i.
     bindE (req_text (map_of item ''scope'') ''PROJECT_ENGINEERING_CONTRACT_EXCEPTION_SCOPE_INVALID'') (\<lambda>s.
     bindE (req_text (map_of item ''rationale'') ''PROJECT_ENGINEERING_CONTRACT_EXCEPTION_RATIONALE_INVALID'') (\<lambda>r.
     Inr \<lparr>pce_id = i, pce_scope = s, pce_rationale = r\<rparr>)))"

text \<open>The list of a section that may be absent: \<open>undefined\<close> is the empty list.\<close>

definition opt_section :: "unknown \<Rightarrow> string \<Rightarrow> (json_object \<Rightarrow> 'a res) \<Rightarrow> 'a list res" where
  "opt_section value code f =
     (case value of None \<Rightarrow> Inr []
      | Some v \<Rightarrow> bindE (objectList (Some v) code) (\<lambda>items. map_res f items))"

definition duplicate_ids :: "string \<Rightarrow> string list \<Rightarrow> unit res" where
  "duplicate_ids kind ids =
     throw_if (length (js_uniq ids) \<noteq> length ids) (''PROJECT_ENGINEERING_CONTRACT_'' @ js_upper kind @ ''_ID_DUPLICATE'')"

definition contract_authority_of :: "json_object \<Rightarrow> contract_authority res" where
  "contract_authority_of authority =
     bindE (stringList (map_of authority ''product'') ''PROJECT_ENGINEERING_CONTRACT_PRODUCT_AUTHORITY_INVALID'') (\<lambda>p.
     bindE (stringList (map_of authority ''architecture'') ''PROJECT_ENGINEERING_CONTRACT_ARCHITECTURE_AUTHORITY_INVALID'') (\<lambda>a.
     bindE (stringList (map_of authority ''source'') ''PROJECT_ENGINEERING_CONTRACT_SOURCE_AUTHORITY_INVALID'') (\<lambda>s.
     Inr \<lparr>pca_product = p, pca_architecture = a, pca_source = s\<rparr>)))"

definition contract_quality_of :: "json_object \<Rightarrow> contract_quality res" where
  "contract_quality_of quality =
     bindE (stringList (map_of quality ''ux'') ''PROJECT_ENGINEERING_CONTRACT_UX_INVALID'') (\<lambda>u.
     bindE (stringList (map_of quality ''performance'') ''PROJECT_ENGINEERING_CONTRACT_PERFORMANCE_INVALID'') (\<lambda>p.
     bindE (stringList (map_of quality ''nonRegression'') ''PROJECT_ENGINEERING_CONTRACT_NON_REGRESSION_INVALID'') (\<lambda>n.
     Inr \<lparr>pcq_ux = u, pcq_performance = p, pcq_nonRegression = n\<rparr>)))"

definition validateProjectEngineeringContract :: "unknown \<Rightarrow> project_contract res" where
  "validateProjectEngineeringContract value =
     bindE (json_object value ''PROJECT_ENGINEERING_CONTRACT_INVALID'') (\<lambda>root.
     bindE (throw_if (map_of root ''schemaVersion'' \<noteq> Some (JNum 1)) ''PROJECT_ENGINEERING_CONTRACT_SCHEMA_UNSUPPORTED'') (\<lambda>_.
     bindE (json_object (nullish (map_of root ''authority'') (JObj [])) ''PROJECT_ENGINEERING_CONTRACT_AUTHORITY_INVALID'') (\<lambda>authority.
     bindE (json_object (nullish (map_of root ''quality'') (JObj [])) ''PROJECT_ENGINEERING_CONTRACT_QUALITY_INVALID'') (\<lambda>quality.
     bindE (bindE (objectList (nullish (map_of root ''checks'') (JArr [])) ''PROJECT_ENGINEERING_CONTRACT_CHECKS_INVALID'')
              (map_res contract_check_of)) (\<lambda>checks.
     bindE (bindE (objectList (nullish (map_of root ''journeys'') (JArr [])) ''PROJECT_ENGINEERING_CONTRACT_JOURNEYS_INVALID'')
              (map_res contract_journey_of)) (\<lambda>journeys.
     bindE (opt_section (map_of root ''tooling'') ''PROJECT_ENGINEERING_CONTRACT_TOOLING_INVALID'' contract_tooling_of) (\<lambda>tooling.
     bindE (opt_section (map_of root ''exceptions'') ''PROJECT_ENGINEERING_CONTRACT_EXCEPTIONS_INVALID'' contract_exception_of) (\<lambda>exceptions.
     bindE (duplicate_ids ''check'' (map pcc_id checks)) (\<lambda>_.
     bindE (duplicate_ids ''journey'' (map pcj_id journeys)) (\<lambda>_.
     bindE (duplicate_ids ''tooling'' (map pct_id tooling)) (\<lambda>_.
     bindE (duplicate_ids ''exception'' (map pce_id exceptions)) (\<lambda>_.
     bindE (req_text (map_of root ''contractId'') ''PROJECT_ENGINEERING_CONTRACT_ID_INVALID'') (\<lambda>contractId.
     bindE (req_text (map_of root ''contractVersion'') ''PROJECT_ENGINEERING_CONTRACT_VERSION_INVALID'') (\<lambda>contractVersion.
     bindE (req_text (map_of root ''projectId'') ''PROJECT_ENGINEERING_CONTRACT_PROJECT_ID_INVALID'') (\<lambda>projectId.
     bindE (contract_authority_of authority) (\<lambda>authority.
     bindE (contract_quality_of quality) (\<lambda>quality.
     bindE (stringList (map_of root ''platforms'') ''PROJECT_ENGINEERING_CONTRACT_PLATFORMS_INVALID'') (\<lambda>platforms.
     bindE (stringList (map_of root ''skillRefs'') ''PROJECT_ENGINEERING_CONTRACT_SKILLS_INVALID'') (\<lambda>skillRefs.
     Inr \<lparr>pc_contractId = contractId, pc_contractVersion = contractVersion, pc_projectId = projectId,
       pc_authority = authority, pc_quality = quality, pc_checks = checks, pc_journeys = journeys,
       pc_platforms = platforms, pc_tooling = tooling, pc_skillRefs = skillRefs,
       pc_exceptions = exceptions\<rparr>)))))))))))))))))))"

end
