(* ===== verification/EngineeringFacts.thy ===== *)
theory EngineeringFacts
  imports EngineeringProfile ProjectContract Contracts
begin

text \<open>
  Lemmas of the engineering receipts: normalising a normal value changes nothing, a rendered
  receipt determines the receipt, and the contract the four kinds of receipt share.
\<close>

section \<open>Normal values\<close>

lemma req_text_Inr [res_simps]:
  "req_text value code = Inr out \<longleftrightarrow> (\<exists>v. value = Some (JStr v) \<and> out = js_trim v \<and> out \<noteq> [] \<and> length out \<le> MAX_TEXT)"
  by (auto simp: req_text_def Let_def bindE_eq_Inr split: option.splits json.splits)

lemma req_text_again: "req_text value code = Inr out \<Longrightarrow> req_text (of_str out) code' = Inr out"
  by (auto simp: req_text_Inr)

lemma req_timestamp_Inr [res_simps]:
  "req_timestamp H value code = Inr out \<longleftrightarrow> req_text value code = Inr out \<and> date_parse H out \<noteq> None"
  by (auto simp: req_timestamp_def bindE_eq_Inr)

lemma req_timestamp_again: "req_timestamp H value code = Inr out \<Longrightarrow> req_timestamp H (of_str out) code' = Inr out"
  by (auto simp: req_timestamp_Inr intro: req_text_again)

lemma req_digest_Inr [res_simps]:
  "req_digest value code = Inr out \<longleftrightarrow> req_text value code = Inr out \<and> hex64 out"
  by (auto simp: req_digest_def bindE_eq_Inr)

lemma req_digest_again: "req_digest value code = Inr out \<Longrightarrow> req_digest (of_str out) code' = Inr out"
  by (auto simp: req_digest_Inr intro: req_text_again)

lemma map_res_text_again:
  assumes "map_res (\<lambda>v. req_text (Some v) code) vs = Inr out"
  shows "map_res (\<lambda>s. req_text (of_str s) code') out = Inr out"
proof -
  have "\<forall>s\<in>set out. req_text (of_str s) code' = Inr s"
    using assms by (auto simp: map_res_eq_Inr list_all2_conv_all_nth in_set_conv_nth) (metis req_text_again)
  then show ?thesis using map_res_pure [of out "\<lambda>s. req_text (of_str s) code'" "\<lambda>s. s"] by simp
qed

lemma req_list_again:
  assumes "req_list value code required = Inr out"
  shows "req_list (of_strs out) code' required = Inr out"
proof -
  obtain vs where vs: "length vs \<le> MAX_ITEMS" "map_res (\<lambda>v. req_text (Some v) code) vs = Inr out"
    "required \<longrightarrow> out \<noteq> []" "length (js_uniq out) = length out"
    using assms by (auto simp: req_list_def bindE_eq_Inr not_less split: option.splits json.splits)
  have "length out \<le> MAX_ITEMS" using vs(1) map_res_length [OF vs(2)] by simp
  then show ?thesis using vs(3,4) map_res_text_again [OF vs(2)] by (cases "out = []") (auto simp: req_list_def)
qed

lemma req_list_bounded: "req_list value code required = Inr out \<Longrightarrow> length out \<le> MAX_ITEMS \<and> (required \<longrightarrow> out \<noteq> [])"
  by (auto simp: req_list_def bindE_eq_Inr dest: map_res_length split: option.splits json.splits)

lemma req_count_again: "req_count value code = Inr out \<Longrightarrow> req_count out code' = Inr out"
  by (auto simp: req_count_def split: js_number.splits if_splits)

lemmas again = req_text_again req_timestamp_again req_digest_again req_list_again req_count_again

lemma throw_if_bind: "bindE (throw_if c m) (\<lambda>_. k) = (if c then throw m else k)"
  by (simp add: throw_if_def)

lemma product_dod_idem:
  assumes "normalizeProductDoD H input = Inr n"
  shows "normalizeProductDoD H (product_dod_draft.extend n ext) = Inr n"
  using assms
  by (auto simp: normalizeProductDoD_def bindE_eq_Inr product_dod_draft.defs again)

lemma complexity_idem: "normalizeComplexityBudget b = Inr n \<Longrightarrow> normalizeComplexityBudget n = Inr n"
  by (auto simp: normalizeComplexityBudget_def bindE_eq_Inr again)

lemma decision_text_Inr:
  "decision_text ds a = Inr p \<longleftrightarrow> fst p = a \<and>
     req_text (map_option JStr (map_of ds a)) (''DESIGN_DECISION_'' @ js_upper (area_str a) @ ''_REQUIRED'') = Inr (snd p)"
  by (cases p) (auto simp: decision_text_def bindE_eq_Inr)

lemma decisions_again:
  assumes "map_res (decision_text ds) areas = Inr out" and "distinct areas"
  shows "map_res (decision_text out) areas = Inr out"
proof -
  have l: "list_all2 (\<lambda>a p. decision_text ds a = Inr p) areas out" using assms(1) by (simp add: map_res_eq_Inr)
  have fst: "map fst out = areas"
    by (rule nth_equalityI) (use l in \<open>auto simp: list_all2_conv_all_nth decision_text_Inr\<close>)
  have "decision_text out (areas ! i) = Inr (out ! i)" if i: "i < length areas" for i
  proof -
    have d: "decision_text ds (areas ! i) = Inr (out ! i)" using l i by (simp add: list_all2_conv_all_nth)
    have "length out = length areas" using l by (simp add: list_all2_lengthD)
    then have "map_of out (fst (out ! i)) = Some (snd (out ! i))"
      using i assms(2) fst by (intro map_of_is_SomeI) auto
    with d show ?thesis by (auto simp: decision_text_Inr req_text_Inr)
  qed
  with l show ?thesis by (simp add: map_res_eq_Inr list_all2_conv_all_nth)
qed

lemma areas_distinct [simp]: "distinct ENGINEERING_DECISION_AREAS" "distinct ENGINEERING_DECISION_AREAS_V1"
  by (simp_all add: ENGINEERING_DECISION_AREAS_def ENGINEERING_DECISION_AREAS_V1_def)

lemma trim_or_none_again: "trim_or_none v = Some s \<Longrightarrow> trim_or_none (Some s) = Some s"
  by (auto simp: trim_or_none_def some_str_def split: option.splits if_splits)

lemma design_idem:
  assumes "normalizeDesignDecision H input areas = Inr n" and "distinct areas"
  shows "normalizeDesignDecision H (design_decision_draft.extend n ext) areas = Inr n"
proof -
  have "\<forall>s. (case dd_supersedesReceiptId input of None \<Rightarrow> None | Some s \<Rightarrow> some_str (js_trim s)) = Some s
      \<longrightarrow> some_str (js_trim s) = Some s"
    by (auto simp: some_str_def split: option.splits if_splits)
  then show ?thesis
    using assms
    by (auto simp: normalizeDesignDecision_def bindE_eq_Inr design_decision_draft.defs Let_def again complexity_idem decisions_again
        split: option.splits)
qed

lemma critique_finding_again: "critique_finding_normal f = Inr g \<Longrightarrow> critique_finding_normal g = Inr g"
  by (auto simp: critique_finding_normal_def bindE_eq_Inr again)

lemma critique_idem:
  assumes "normalizeCritique H input = Inr n"
  shows "normalizeCritique H (critique_draft.extend n ext) = Inr n"
proof -
  have fs: "map_res critique_finding_normal fs = Inr gs \<Longrightarrow> map_res critique_finding_normal gs = Inr gs \<and> length gs = length fs" for fs gs
    by (auto simp: map_res_eq_Inr list_all2_conv_all_nth intro: critique_finding_again)
  show ?thesis using assms
    by (auto simp: normalizeCritique_def bindE_eq_Inr critique_draft.defs again fs)
qed

section \<open>The contract of a receipt\<close>

text \<open>
  A kind of receipt: drafts are normalised, a normal draft is sealed with the identifier its
  digest gives, and validation rebuilds a presented receipt from its own fields and compares.
  A kind may keep \<open>legacy\<close> receipts that are checked in another way.
\<close>

locale receipt_kind =
  fixes normal :: "'d \<Rightarrow> 'n res" and admissible :: "'n \<Rightarrow> bool" and seal :: "'n \<Rightarrow> 'r" and as_draft :: "'r \<Rightarrow> 'd"
    and ident :: "'r \<Rightarrow> string" and digest :: "'n \<Rightarrow> string" and agrees :: "'r \<Rightarrow> 'r \<Rightarrow> bool"
    and legacy :: "'r \<Rightarrow> bool" and build :: "'d \<Rightarrow> 'r res" and validate :: "'r \<Rightarrow> 'r res"
  assumes normal_idem: "normal d = Inr n \<Longrightarrow> normal (as_draft (seal n)) = Inr n"
    and ident_seal: "ident (seal n) = digest n"
    and agrees_seal: "agrees (seal n) (seal n)"
    and agrees_ident: "agrees r s \<Longrightarrow> ident r = ident s"
    and seal_not_legacy: "\<not> legacy (seal n)"
    and build_iff: "build d = Inr r \<longleftrightarrow> (\<exists>n. normal d = Inr n \<and> admissible n \<and> r = seal n)"
    and validate_iff: "\<not> legacy r \<Longrightarrow> validate r = Inr s \<longleftrightarrow> build (as_draft r) = Inr s \<and> agrees r s"
begin

lemma built_validates: "build d = Inr r \<Longrightarrow> validate r = Inr r"
  by (auto simp: build_iff validate_iff seal_not_legacy agrees_seal dest: normal_idem)

lemma validated_validates: "\<not> legacy r \<Longrightarrow> validate r = Inr s \<Longrightarrow> validate s = Inr s \<and> ident s = ident r"
  using built_validates agrees_ident by (auto simp: validate_iff)

lemma same_ident_same_receipt:
  assumes "\<not> legacy r" "\<not> legacy r'" and "validate r = Inr s" "validate r' = Inr s'" and "ident r = ident r'"
    and "\<And>n n'. s = seal n \<Longrightarrow> s' = seal n' \<Longrightarrow> digest n = digest n' \<Longrightarrow> n = n'"
  shows "s = s'"
proof -
  obtain n where n: "s = seal n" using assms(1,3) by (auto simp: validate_iff build_iff)
  obtain n' where n': "s' = seal n'" using assms(2,4) by (auto simp: validate_iff build_iff)
  have "ident s = ident s'" using assms(1-5) by (auto simp: validate_iff dest!: agrees_ident)
  then have "digest n = digest n'" by (simp add: n n' ident_seal)
  with assms(6) n n' show ?thesis by blast
qed

end

definition seal_dod :: "js_host \<Rightarrow> product_dod_draft \<Rightarrow> product_dod_receipt" where
  "seal_dod H n = product_dod_draft.extend n (product_dod_receipt.fields 1 (receiptId H ''product_dod'' (product_dod_json n)))"

lemma dod_truncate: "normalizeProductDoD H (product_dod_draft.truncate r) = normalizeProductDoD H r"
  by (simp add: normalizeProductDoD_def product_dod_draft.defs)

interpretation dod_receipt: receipt_kind "normalizeProductDoD H" "\<lambda>_. True" "seal_dod H" product_dod_draft.truncate pd_receiptId
    "\<lambda>n. receiptId H ''product_dod'' (product_dod_json n)"
    "\<lambda>r s. pd_schemaVersion r = 1 \<and> pd_receiptId r = pd_receiptId s" "\<lambda>_. False"
    "buildProductDoDReceipt H" "validateProductDoDReceipt H" for H
proof
  show "normalizeProductDoD H d = Inr n \<Longrightarrow>
      normalizeProductDoD H (product_dod_draft.truncate (seal_dod H n)) = Inr n" for d :: product_dod_draft and n
    unfolding seal_dod_def dod_truncate by (rule product_dod_idem)
qed (auto simp: dod_truncate seal_dod_def product_dod_draft.extend_def product_dod_receipt.defs buildProductDoDReceipt_def
    validateProductDoDReceipt_def bindE_eq_Inr)

definition seal_design :: "js_host \<Rightarrow> design_decision_draft \<Rightarrow> design_decision_receipt" where
  "seal_design H n = design_decision_draft.extend n
     (design_decision_receipt.fields 2 (receiptId H ''design_decision'' (design_decision_json n)))"

lemma design_truncate:
  "normalizeDesignDecision H (design_decision_draft.truncate r) areas = normalizeDesignDecision H r areas"
  by (simp add: normalizeDesignDecision_def design_decision_draft.defs)

interpretation design_receipt: receipt_kind "\<lambda>d. normalizeDesignDecision H d ENGINEERING_DECISION_AREAS"
    "\<lambda>n. dd_supersedesReceiptId n \<noteq> Some (receiptId H ''design_decision'' (design_decision_json n))" "seal_design H"
    design_decision_draft.truncate dd_receiptId "\<lambda>n. receiptId H ''design_decision'' (design_decision_json n)"
    "\<lambda>r s. dd_schemaVersion r = 2 \<and> dd_receiptId r = dd_receiptId s" "\<lambda>r. dd_schemaVersion r = 1"
    "buildDesignDecisionContractReceipt H" "validateDesignDecisionContractReceipt H" for H
proof
  show "normalizeDesignDecision H d ENGINEERING_DECISION_AREAS = Inr n \<Longrightarrow>
      normalizeDesignDecision H (design_decision_draft.truncate (seal_design H n)) ENGINEERING_DECISION_AREAS = Inr n"
    for d :: design_decision_draft and n
    unfolding seal_design_def design_truncate by (rule design_idem) simp_all
qed (auto simp: design_truncate seal_design_def design_decision_draft.extend_def design_decision_receipt.defs Let_def
    buildDesignDecisionContractReceipt_def validateDesignDecisionContractReceipt_def bindE_eq_Inr)

definition seal_critique :: "js_host \<Rightarrow> critique_draft \<Rightarrow> critique_receipt" where
  "seal_critique H n = critique_draft.extend n
     (critique_receipt.fields 1 (receiptId H ''independent_critique'' (critique_json n)))"

lemma critique_truncate: "normalizeCritique H (critique_draft.truncate r) = normalizeCritique H r"
  by (simp add: normalizeCritique_def critique_draft.defs)

interpretation critique_receipt: receipt_kind "normalizeCritique H" "\<lambda>_. True" "seal_critique H" critique_draft.truncate cr_receiptId
    "\<lambda>n. receiptId H ''independent_critique'' (critique_json n)"
    "\<lambda>r s. cr_schemaVersion r = 1 \<and> cr_receiptId r = cr_receiptId s" "\<lambda>_. False"
    "buildIndependentCritiqueReceipt H" "validateIndependentCritiqueReceipt H" for H
proof
  show "normalizeCritique H d = Inr n \<Longrightarrow> normalizeCritique H (critique_draft.truncate (seal_critique H n)) = Inr n"
    for d :: critique_draft and n
    unfolding seal_critique_def critique_truncate by (rule critique_idem)
qed (auto simp: critique_truncate seal_critique_def critique_draft.extend_def critique_receipt.defs
    buildIndependentCritiqueReceipt_def validateIndependentCritiqueReceipt_def bindE_eq_Inr)

definition blocker_normal :: "js_host \<Rightarrow> blocker_input \<Rightarrow> blocker_core res" where
  "blocker_normal H input = bindE (buildEngineeringBlockerDispositionReceipt H input) (\<lambda>r. Inr (blocker_core.truncate r))"

definition seal_blocker :: "js_host \<Rightarrow> blocker_core \<Rightarrow> blocker_receipt" where
  "seal_blocker H n = blocker_core.extend n (blocker_receipt.fields 1 (receiptId H ''engineering_blocker'' (blocker_json n)))"

lemma seal_blocker_fields [simp]:
  "bd_sourceRevision (seal_blocker H n) = bd_sourceRevision n" "bd_classification (seal_blocker H n) = bd_classification n"
  "bd_action (seal_blocker H n) = bd_action n" "bd_schemaVersion (seal_blocker H n) = 1"
  "bd_receiptId (seal_blocker H n) = receiptId H ''engineering_blocker'' (blocker_json n)"
  "blocker_core.truncate (seal_blocker H n) = n"
  by (simp_all add: seal_blocker_def blocker_core.defs blocker_receipt.defs)

lemma blocker_build:
  "buildEngineeringBlockerDispositionReceipt H input = Inr r \<longleftrightarrow> (\<exists>n. blocker_normal H input = Inr n \<and> r = seal_blocker H n)"
proof
  assume b: "buildEngineeringBlockerDispositionReceipt H input = Inr r"
  then have "r = seal_blocker H (blocker_core.truncate r)"
    by (auto simp: buildEngineeringBlockerDispositionReceipt_def Let_def bindE_eq_Inr seal_blocker_def
        blocker_core.defs blocker_receipt.defs)
  with b show "\<exists>n. blocker_normal H input = Inr n \<and> r = seal_blocker H n" by (auto simp: blocker_normal_def)
next
  assume "\<exists>n. blocker_normal H input = Inr n \<and> r = seal_blocker H n"
  then show "buildEngineeringBlockerDispositionReceipt H input = Inr r"
    by (auto simp: blocker_normal_def buildEngineeringBlockerDispositionReceipt_def Let_def bindE_eq_Inr seal_blocker_def
        blocker_core.defs blocker_receipt.defs)
qed

lemma blocker_idem:
  assumes "blocker_normal H input = Inr n"
  shows "blocker_normal H (input_of_blocker (seal_blocker H n)) = Inr n"
proof -
  have linked: "linked_work_text (case v of None \<Rightarrow> None | Some w \<Rightarrow> some_str (js_trim w)) = Inr l \<Longrightarrow>
      (case l of None \<Rightarrow> None | Some w \<Rightarrow> some_str (js_trim w)) = l \<and>
      (l = None \<longleftrightarrow> (case v of None \<Rightarrow> None | Some w \<Rightarrow> some_str (js_trim w)) = None) \<and> linked_work_text l = Inr l" for v l
    by (auto simp: linked_work_text_def some_str_def bindE_eq_Inr req_text_Inr split: option.splits if_splits)
  show ?thesis using assms
    by (auto simp: blocker_normal_def buildEngineeringBlockerDispositionReceipt_def Let_def bindE_eq_Inr again
        seal_blocker_def input_of_blocker_def blocker_core.defs blocker_receipt.defs dest: linked)
qed

interpretation blocker_receipt: receipt_kind "blocker_normal H" "\<lambda>_. True" "seal_blocker H" input_of_blocker bd_receiptId
    "\<lambda>n. receiptId H ''engineering_blocker'' (blocker_json n)"
    "\<lambda>r s. bd_schemaVersion r = 1 \<and> bd_receiptId r = bd_receiptId s \<and> bd_action r = bd_action s" "\<lambda>_. False"
    "buildEngineeringBlockerDispositionReceipt H" "validateEngineeringBlockerDispositionReceipt H" for H
  by unfold_locales (auto simp: blocker_idem blocker_build validateEngineeringBlockerDispositionReceipt_def bindE_eq_Inr)

section \<open>A rendered receipt determines the receipt\<close>

lemma critique_json_inj: "critique_json c = critique_json d \<Longrightarrow> c = d"
  for c d :: critique_draft
proof -
  have "critique_str x = critique_str y \<longleftrightarrow> x = y" for x y by (cases x; cases y) auto
  moreover have "critique_severity_str x = critique_severity_str y \<longleftrightarrow> x = y" for x y by (cases x; cases y) auto
  ultimately show "critique_json c = critique_json d \<Longrightarrow> c = d"
    by (auto simp: critique_json_def inj_map_eq_map inj_def intro!: critique_draft.equality
        dest!: map_injective [where f = "\<lambda>f. JObj [(''severity'', JStr (critique_severity_str (cf_severity f))), (''summary'', JStr (cf_summary f))]"]
        intro: injI)
qed

lemma critique_payload_inj:
  "json_stringify (critique_json c) = json_stringify (critique_json d) \<Longrightarrow> c = d" for c d :: critique_draft
  by (simp add: json_stringify_inj critique_json_inj)

section \<open>Admission\<close>

text \<open>What the context receipt says about the evidence it was built from.\<close>

lemma context_receiptE:
  assumes "buildEngineeringContextReceipt H risk identity evidence stamp = Inr receipt"
  obtains v where "validated_evidence H (coalesce evidence no_evidence) = Inr v"
    and "evidence_binding identity (coalesce evidence no_evidence) v = Inr ()"
    and "ec_sourceIdentity receipt = identity" and "ec_projectContractReceipt receipt = vd_contract v"
    and "ce_contextClosureReceipt (ec_evidence receipt) = vd_closure v"
    and "ce_productDodReceipt (ec_evidence receipt) = vd_dod v"
    and "ce_designDecisionReceipt (ec_evidence receipt) = vd_design v"
    and "ce_independentCritiqueReceipt (ec_evidence receipt) = vd_critique v"
    and "ec_blockerDispositions receipt = Some []"
    and "ec_designState receipt = map_option (\<lambda>_. Design_ready) (vd_design v)"
    and "ce_semanticToolReceiptIds (ec_evidence receipt) = receipt_ids (ae_semanticToolReceiptIds (coalesce evidence no_evidence))"
    and "ec_missingAdmissionEvidence receipt = filter (\<lambda>kind. \<not> provided kind receipt)
           (requiredKinds (engineeringWorkProfileForRisk risk) At_admission (ec_conditions receipt))"
proof -
  from assms obtain v where v: "validated_evidence H (coalesce evidence no_evidence) = Inr v"
    "evidence_binding identity (coalesce evidence no_evidence) v = Inr ()"
    and r: "receipt = (let receipt = context_receipt (engineeringWorkProfileForRisk risk) identity (coalesce evidence no_evidence) v stamp in
       receipt\<lparr>
        ec_missingAdmissionEvidence := filter (\<lambda>kind. \<not> provided kind receipt)
          (requiredKinds (engineeringWorkProfileForRisk risk) At_admission (ec_conditions receipt)),
        ec_missingCompletionEvidence := filter (\<lambda>kind. \<not> provided kind receipt)
          (requiredKinds (engineeringWorkProfileForRisk risk) At_completion (ec_conditions receipt))\<rparr>)"
    unfolding buildEngineeringContextReceipt_def Let_def by (auto simp: bindE_eq_Inr)
  have p: "provided k (x\<lparr>ec_missingAdmissionEvidence := a, ec_missingCompletionEvidence := b\<rparr>) = provided k x" for k x a b
    by (cases k) simp_all
  show thesis by (rule that [OF v]) (simp_all add: r Let_def p, simp_all add: context_receipt_def)
qed

text \<open>What the binding of the presented receipts to each other establishes.\<close>

lemma evidence_bindingD:
  assumes "evidence_binding identity evidence v = Inr ()"
  shows "identity = Source_revision base \<Longrightarrow> base \<noteq> [] \<Longrightarrow> vd_contract v = Some p \<Longrightarrow> pr_sourceRevision p \<noteq> [] \<Longrightarrow> pr_sourceRevision p = base"
    and "identity = Source_revision base \<Longrightarrow> base \<noteq> [] \<Longrightarrow> vd_closure v = Some c \<Longrightarrow> truthy (cc_sourceRevision c) \<Longrightarrow> cc_sourceRevision c = Some base"
    and "identity = Source_revision base \<Longrightarrow> base \<noteq> [] \<Longrightarrow> vd_dod v = Some d \<Longrightarrow> pd_sourceRevision d \<noteq> [] \<Longrightarrow> pd_sourceRevision d = base"
    and "identity = Source_revision base \<Longrightarrow> base \<noteq> [] \<Longrightarrow> vd_design v = Some g \<Longrightarrow> dd_sourceRevision g \<noteq> [] \<Longrightarrow> dd_sourceRevision g = base"
    and "identity = Source_revision base \<Longrightarrow> base \<noteq> [] \<Longrightarrow> vd_critique v = Some k \<Longrightarrow> cr_sourceRevision k \<noteq> [] \<Longrightarrow> cr_sourceRevision k = base"
    and "vd_design v = Some g \<Longrightarrow> vd_dod v = Some d \<Longrightarrow> dd_productDodReceiptId g = pd_receiptId d"
    and "vd_design v = Some g \<Longrightarrow> vd_closure v = Some c \<Longrightarrow> dd_contextClosureReceiptId g = cc_receiptId c"
    and "vd_critique v = Some k \<Longrightarrow> vd_dod v = Some d \<Longrightarrow> cr_productDodReceiptId k = pd_receiptId d"
    and "vd_critique v = Some k \<Longrightarrow> vd_design v = Some g \<Longrightarrow> cr_designDecisionReceiptId k = dd_receiptId g"
    and "vd_critique v = Some k \<Longrightarrow> vd_closure v = Some c \<Longrightarrow> cc_receiptId c \<noteq> [] \<Longrightarrow> cr_contextClosureReceiptId k = cc_receiptId c"
    and "vd_critique v = Some k \<Longrightarrow> vd_contract v = Some p \<Longrightarrow> cr_projectContractDigest k = pr_contentDigest p"
  using assms
  by (auto simp: evidence_binding_def bindE_eq_Inr Let_def source_drift_def both_def exact_revision_def)

lemma opt_res_Inr: "opt_res f v = Inr w \<longleftrightarrow> (case v of None \<Rightarrow> w = None | Some x \<Rightarrow> \<exists>y. f x = Inr y \<and> w = Some y)"
  by (auto simp: opt_res_def bindE_eq_Inr split: option.splits)

text \<open>Validated receipts name a source revision.\<close>

lemma validated_revisions:
  "validateProjectEngineeringContractReceipt H p0 = Inr p \<Longrightarrow> pr_sourceRevision p \<noteq> []"
  "validateContextClosureReceipt H c0 = Inr c \<Longrightarrow> truthy (cc_sourceRevision c)"
  "validateContextClosureReceipt H c0 = Inr c \<Longrightarrow> cc_receiptId c \<noteq> []"
  "validateProductDoDReceipt H d0 = Inr d \<Longrightarrow> pd_sourceRevision d \<noteq> []"
  "validateDesignDecisionContractReceipt H g0 = Inr g \<Longrightarrow> dd_sourceRevision g \<noteq> []"
  "validateIndependentCritiqueReceipt H k0 = Inr k \<Longrightarrow> cr_sourceRevision k \<noteq> []"
proof -
  show "validateProjectEngineeringContractReceipt H p0 = Inr p \<Longrightarrow> pr_sourceRevision p \<noteq> []"
    by (auto simp: validateProjectEngineeringContractReceipt_def bindE_eq_Inr req_text_Inr)
  show "validateContextClosureReceipt H c0 = Inr c \<Longrightarrow> truthy (cc_sourceRevision c)"
    by (auto simp: validateContextClosureReceipt_def bindE_eq_Inr truthy_iff opt_trim_def)
  show "validateContextClosureReceipt H c0 = Inr c \<Longrightarrow> cc_receiptId c \<noteq> []"
    by (auto simp: validateContextClosureReceipt_def contextClosureReceiptIdentity_def bindE_eq_Inr split: option.splits)
  show "validateProductDoDReceipt H d0 = Inr d \<Longrightarrow> pd_sourceRevision d \<noteq> []"
    by (auto simp: dod_receipt.validate_iff dod_receipt.build_iff seal_dod_def product_dod_draft.defs
        normalizeProductDoD_def bindE_eq_Inr req_text_Inr)
  show "validateIndependentCritiqueReceipt H k0 = Inr k \<Longrightarrow> cr_sourceRevision k \<noteq> []"
    by (auto simp: critique_receipt.validate_iff critique_receipt.build_iff seal_critique_def critique_draft.defs
        normalizeCritique_def bindE_eq_Inr req_text_Inr)
  show "validateDesignDecisionContractReceipt H g0 = Inr g \<Longrightarrow> dd_sourceRevision g \<noteq> []"
    by (auto simp: validateDesignDecisionContractReceipt_def buildDesignDecisionContractReceipt_def design_decision_draft.defs
        normalizeDesignDecision_def Let_def bindE_eq_Inr req_text_Inr split: if_splits)
qed

lemma opt_res_Some: "opt_res f v = Inr (Some y) \<Longrightarrow> \<exists>x. v = Some x \<and> f x = Inr y"
  by (auto simp: opt_res_Inr split: option.splits)

lemma validated_evidence_parts:
  assumes "validated_evidence H evidence = Inr v"
  shows "opt_res (validateProjectEngineeringContractReceipt H) (ae_projectContractReceipt evidence) = Inr (vd_contract v)"
    and "opt_res (validateContextClosureReceipt H) (ae_contextClosureReceipt evidence) = Inr (vd_closure v)"
    and "opt_res (validateProductDoDReceipt H) (ae_productDodReceipt evidence) = Inr (vd_dod v)"
    and "opt_res (validateDesignDecisionContractReceipt H) (ae_designDecisionReceipt evidence) = Inr (vd_design v)"
    and "opt_res (validateIndependentCritiqueReceipt H) (ae_independentCritiqueReceipt evidence) = Inr (vd_critique v)"
  using assms unfolding validated_evidence_def bindE_eq_Inr by auto

text \<open>A recorded receipt is what its validator returned for the presented one.\<close>

lemma validated_from_presented:
  assumes "validated_evidence H evidence = Inr v"
  shows "vd_contract v = Some p \<Longrightarrow>
      \<exists>x. ae_projectContractReceipt evidence = Some x \<and> validateProjectEngineeringContractReceipt H x = Inr p"
    and "vd_closure v = Some c \<Longrightarrow> \<exists>x. ae_contextClosureReceipt evidence = Some x \<and> validateContextClosureReceipt H x = Inr c"
    and "vd_dod v = Some d \<Longrightarrow> \<exists>x. ae_productDodReceipt evidence = Some x \<and> validateProductDoDReceipt H x = Inr d"
    and "vd_design v = Some g \<Longrightarrow>
      \<exists>x. ae_designDecisionReceipt evidence = Some x \<and> validateDesignDecisionContractReceipt H x = Inr g"
    and "vd_critique v = Some k \<Longrightarrow>
      \<exists>x. ae_independentCritiqueReceipt evidence = Some x \<and> validateIndependentCritiqueReceipt H x = Inr k"
proof -
  note e = validated_evidence_parts [OF assms]
  show "vd_contract v = Some p \<Longrightarrow>
      \<exists>x. ae_projectContractReceipt evidence = Some x \<and> validateProjectEngineeringContractReceipt H x = Inr p"
    using e(1) by (simp add: opt_res_Some)
  show "vd_closure v = Some c \<Longrightarrow> \<exists>x. ae_contextClosureReceipt evidence = Some x \<and> validateContextClosureReceipt H x = Inr c"
    using e(2) by (simp add: opt_res_Some)
  show "vd_dod v = Some d \<Longrightarrow> \<exists>x. ae_productDodReceipt evidence = Some x \<and> validateProductDoDReceipt H x = Inr d"
    using e(3) by (simp add: opt_res_Some)
  show "vd_design v = Some g \<Longrightarrow>
      \<exists>x. ae_designDecisionReceipt evidence = Some x \<and> validateDesignDecisionContractReceipt H x = Inr g"
    using e(4) by (simp add: opt_res_Some)
  show "vd_critique v = Some k \<Longrightarrow>
      \<exists>x. ae_independentCritiqueReceipt evidence = Some x \<and> validateIndependentCritiqueReceipt H x = Inr k"
    using e(5) by (simp add: opt_res_Some)
qed

lemma validated_evidenceD:
  assumes "validated_evidence H evidence = Inr v"
  shows "vd_contract v = Some p \<Longrightarrow> pr_sourceRevision p \<noteq> []"
    and "vd_closure v = Some c \<Longrightarrow> truthy (cc_sourceRevision c) \<and> cc_receiptId c \<noteq> []"
    and "vd_dod v = Some d \<Longrightarrow> pd_sourceRevision d \<noteq> []"
    and "vd_design v = Some g \<Longrightarrow> dd_sourceRevision g \<noteq> []"
    and "vd_critique v = Some k \<Longrightarrow> cr_sourceRevision k \<noteq> []"
  by (auto dest: validated_from_presented [OF assms] validated_revisions)

section \<open>Blockers\<close>

definition blocker_step :: "js_host \<Rightarrow> engineering_context \<Rightarrow> engineering_context \<Rightarrow> bool" where
  "blocker_step H r s \<longleftrightarrow> (\<exists>blocker. applyEngineeringBlockerDisposition H r blocker = Inr s)"

definition dispositions :: "engineering_context \<Rightarrow> blocker_receipt list" where
  "dispositions r = coalesce (ec_blockerDispositions r) []"

definition blocker_inv :: "engineering_context \<Rightarrow> bool" where
  "blocker_inv r \<longleftrightarrow> length (dispositions r) \<le> 64 \<and> distinct (map bd_receiptId (dispositions r)) \<and>
     (\<forall>b\<in>set (dispositions r). bd_action b = Action_return_to_design \<longrightarrow> ec_designState r = Some Design_revisit_required)"

lemma set_slice_last: "set (slice_last n xs) \<subseteq> set xs"
  by (auto simp: slice_last_def dest: in_set_dropD)

lemma length_slice_last: "length (slice_last n xs) \<le> n"
  by (simp add: slice_last_def)

lemma apply_blockerE:
  assumes "applyEngineeringBlockerDisposition H r blocker = Inr s"
  obtains (known) v where "validateEngineeringBlockerDispositionReceipt H blocker = Inr v" "s = r"
      "bd_receiptId v \<in> bd_receiptId ` set (dispositions r)"
    | (added) v where "validateEngineeringBlockerDispositionReceipt H blocker = Inr v"
      "bd_receiptId v \<notin> bd_receiptId ` set (dispositions r)"
      "dispositions s = slice_last 64 (dispositions r @ [v])"
      "ec_designState s = (if bd_action v = Action_return_to_design then Some Design_revisit_required else ec_designState r)"
proof -
  from assms obtain v where v: "validateEngineeringBlockerDispositionReceipt H blocker = Inr v"
    and s: "(if \<exists>entry\<in>set (dispositions r). bd_receiptId entry = bd_receiptId v then Inr r
       else let extended = r\<lparr>ec_blockerDispositions := Some (slice_last 64 (dispositions r @ [v]))\<rparr> in
         Inr (if bd_action v = Action_return_to_design then extended\<lparr>ec_designState := Some Design_revisit_required\<rparr>
              else extended)) = (Inr s :: engineering_context res)"
    unfolding applyEngineeringBlockerDisposition_def Let_def dispositions_def [symmetric] bindE_eq_Inr by blast
  show thesis
  proof (cases "\<exists>entry\<in>set (dispositions r). bd_receiptId entry = bd_receiptId v")
    case True
    with s have "s = r" by simp
    moreover have "bd_receiptId v \<in> bd_receiptId ` set (dispositions r)" using True by (metis imageI)
    ultimately show thesis using known v by blast
  next
    case False
    then have n: "bd_receiptId v \<notin> bd_receiptId ` set (dispositions r)" by (metis imageE)
    from False s have "s = (let extended = r\<lparr>ec_blockerDispositions := Some (slice_last 64 (dispositions r @ [v]))\<rparr> in
         if bd_action v = Action_return_to_design then extended\<lparr>ec_designState := Some Design_revisit_required\<rparr> else extended)"
      by (simp add: Let_def)
    then show thesis using added [OF v n] by (simp add: Let_def dispositions_def)
  qed
qed

lemma blocker_step_inv: "blocker_inv r \<Longrightarrow> blocker_step H r s \<Longrightarrow> blocker_inv s"
proof -
  assume i: "blocker_inv r" and "blocker_step H r s"
  then obtain b where "applyEngineeringBlockerDisposition H r b = Inr s" by (auto simp: blocker_step_def)
  then show "blocker_inv s"
  proof (cases rule: apply_blockerE)
    case (added v)
    have "distinct (map bd_receiptId (dispositions r @ [v]))" using i added(2) by (auto simp: blocker_inv_def)
    then have "distinct (map bd_receiptId (dispositions s))"
      unfolding added(3) slice_last_def by (metis distinct_drop drop_map)
    moreover have "\<forall>b\<in>set (dispositions s). bd_action b = Action_return_to_design \<longrightarrow> ec_designState s = Some Design_revisit_required"
      using i added(4) set_slice_last [of 64 "dispositions r @ [v]"] by (auto simp: blocker_inv_def added(3))
    ultimately show ?thesis using length_slice_last [of 64 "dispositions r @ [v]"] by (simp add: blocker_inv_def added(3))
  qed (use i in simp)
qed

lemma revisit_step:
  "ec_designState r = Some Design_revisit_required \<Longrightarrow> blocker_step H r s \<Longrightarrow> ec_designState s = Some Design_revisit_required"
  by (auto simp: blocker_step_def elim!: apply_blockerE)

interpretation blocker_steps: invariant_steps "blocker_step H" blocker_inv for H
  by unfold_locales (rule blocker_step_inv)

interpretation revisit_steps: invariant_steps "blocker_step H" "\<lambda>r. ec_designState r = Some Design_revisit_required" for H
  by unfold_locales (rule revisit_step)

lemma built_blocker_inv: "buildEngineeringContextReceipt H risk identity evidence stamp = Inr r \<Longrightarrow> blocker_inv r"
  by (erule context_receiptE) (simp add: blocker_inv_def dispositions_def)

lemma applied_return_revisits:
  assumes "applyEngineeringBlockerDisposition H r blocker = Inr s"
    and "bd_classification blocker = Blocker_same_root_cause"
    and "bd_receiptId blocker \<notin> bd_receiptId ` set (dispositions r)"
  shows "ec_designState s = Some Design_revisit_required"
proof -
  have c: "bd_action v = Action_return_to_design \<and> bd_receiptId v = bd_receiptId blocker"
    if "validateEngineeringBlockerDispositionReceipt H blocker = Inr v" for v
    using that assms(2)
    by (auto simp: blocker_receipt.validate_iff buildEngineeringBlockerDispositionReceipt_def Let_def bindE_eq_Inr
        input_of_blocker_def blocker_core.defs)
  show ?thesis using assms(1)
    by (cases rule: apply_blockerE) (use c assms(3) in auto)
qed

end
