(* ===== verification/ProjectContractFacts.thy ===== *)
theory ProjectContractFacts
  imports ProjectContract EngineeringFacts
begin

text \<open>
  The JSON value a validated project contract is written as, and the fact that reading it
  back gives the contract.
\<close>

section \<open>Rendering\<close>

definition check_pairs :: "contract_check \<Rightarrow> json_object" where
  "check_pairs c = (''id'', JStr (pcc_id c)) # json_opt ''purpose'' JStr (pcc_purpose c)"

definition risks_json :: "engineering_risk list \<Rightarrow> json" where
  "risks_json rs = json_strings (map risk_str rs)"

definition journey_pairs :: "contract_journey \<Rightarrow> json_object" where
  "journey_pairs j = [(''id'', JStr (pcj_id j)), (''purpose'', JStr (pcj_purpose j))]
     @ json_opt ''requiredFor'' risks_json (pcj_requiredFor j)"

definition tooling_pairs :: "contract_tooling \<Rightarrow> json_object" where
  "tooling_pairs t = (''id'', JStr (pct_id t)) # json_opt ''purpose'' JStr (pct_purpose t)
     @ json_opt ''requiredFor'' risks_json (pct_requiredFor t)"

definition exception_pairs :: "contract_exception \<Rightarrow> json_object" where
  "exception_pairs e = [(''id'', JStr (pce_id e)), (''scope'', JStr (pce_scope e)), (''rationale'', JStr (pce_rationale e))]"

abbreviation objects_json :: "('a \<Rightarrow> json_object) \<Rightarrow> 'a list \<Rightarrow> json" where
  "objects_json f xs \<equiv> JArr (map (\<lambda>x. JObj (f x)) xs)"

definition authority_pairs :: "contract_authority \<Rightarrow> json_object" where
  "authority_pairs a = [(''product'', json_strings (pca_product a)), (''architecture'', json_strings (pca_architecture a)),
     (''source'', json_strings (pca_source a))]"

definition quality_pairs :: "contract_quality \<Rightarrow> json_object" where
  "quality_pairs q = [(''ux'', json_strings (pcq_ux q)), (''performance'', json_strings (pcq_performance q)),
     (''nonRegression'', json_strings (pcq_nonRegression q))]"

definition contract_json :: "project_contract \<Rightarrow> json" where
  "contract_json c = JObj [
     (''schemaVersion'', JNum 1),
     (''contractId'', JStr (pc_contractId c)),
     (''contractVersion'', JStr (pc_contractVersion c)),
     (''projectId'', JStr (pc_projectId c)),
     (''authority'', JObj (authority_pairs (pc_authority c))),
     (''quality'', JObj (quality_pairs (pc_quality c))),
     (''checks'', objects_json check_pairs (pc_checks c)),
     (''journeys'', objects_json journey_pairs (pc_journeys c)),
     (''platforms'', json_strings (pc_platforms c)),
     (''tooling'', objects_json tooling_pairs (pc_tooling c)),
     (''skillRefs'', json_strings (pc_skillRefs c)),
     (''exceptions'', objects_json exception_pairs (pc_exceptions c))]"

section \<open>Reading back\<close>

lemma stringListE:
  assumes "stringList v0 code = Inr out"
  shows "length out \<le> MAX_CONTRACT_ITEMS \<and> distinct out \<and> (\<forall>s\<in>set out. js_trim s = s \<and> s \<noteq> [] \<and> length s \<le> MAX_TEXT)"
proof (cases v0)
  case None
  then show ?thesis using assms by (simp add: stringList_def)
next
  case (Some v)
  then obtain vs where vs: "length vs \<le> MAX_CONTRACT_ITEMS" "map_res (\<lambda>v. req_text (Some v) code) vs = Inr out"
    "length (js_uniq out) = length out"
    using assms by (auto simp: stringList_def bindE_eq_Inr not_less split: json.splits)
  have "distinct out" using vs(3) by (metis card_distinct distinct_card distinct_js_uniq set_js_uniq)
  moreover have "\<forall>s\<in>set out. js_trim s = s \<and> s \<noteq> [] \<and> length s \<le> MAX_TEXT"
    using vs(2) by (auto simp: map_res_eq_Inr list_all2_conv_all_nth in_set_conv_nth req_text_Inr) (metis js_trim_idem)
  ultimately show ?thesis using vs(1) map_res_length [OF vs(2)] by simp
qed

lemma stringListI:
  assumes "length out \<le> MAX_CONTRACT_ITEMS" "distinct out" "\<forall>s\<in>set out. js_trim s = s \<and> s \<noteq> [] \<and> length s \<le> MAX_TEXT"
  shows "stringList (of_strs out) code = Inr out"
proof -
  have "map_res (\<lambda>s. req_text (of_str s) code) out = Inr (map (\<lambda>s. s) out)"
    by (rule map_res_pure) (use assms(3) in \<open>auto simp: req_text_Inr\<close>)
  with assms show ?thesis by (simp add: stringList_def js_uniq_id)
qed

lemma stringList_again: "stringList v0 code = Inr out \<Longrightarrow> stringList (of_strs out) code' = Inr out"
  using stringListE stringListI by metis

lemma opt_text_again: "opt_text v0 code = Inr t \<Longrightarrow> opt_text (map_option JStr t) code' = Inr t"
  by (auto simp: opt_text_def bindE_eq_Inr req_text_Inr split: option.splits)

lemma opt_text_simps [simp]:
  "opt_text None code = Inr None" "opt_text v0 code = Inr (Some t) \<Longrightarrow> opt_text (of_str t) code' = Inr (Some t)"
  using opt_text_again [of v0 code "Some t"] by (simp_all add: opt_text_def)

lemma risk_of_str_Inr: "risk_of_str code s = Inr r \<longleftrightarrow> s = risk_str r"
  by (cases r) (auto simp: risk_of_str_def ENGINEERING_RISK_CLASSES_def split: if_splits)

lemma riskClasses_again:
  assumes "riskClasses v0 code = Inr r"
  shows "riskClasses (map_option risks_json r) code' = Inr r"
proof (cases v0)
  case None
  then show ?thesis using assms by (simp add: riskClasses_def)
next
  case (Some v)
  then obtain names rs where v: "stringList (Some v) code = Inr names" "map_res (risk_of_str code) names = Inr rs" "r = Some rs"
    using assms by (auto simp: riskClasses_def bindE_eq_Inr)
  have "names = map risk_str rs"
    by (rule nth_equalityI) (use v(2) in \<open>auto simp: map_res_eq_Inr list_all2_conv_all_nth risk_of_str_Inr\<close>)
  then have "stringList (Some (risks_json rs)) code' = Inr (map risk_str rs)" using stringList_again [OF v(1)] by (simp add: risks_json_def)
  moreover have "map_res (risk_of_str code') (map risk_str rs) = Inr rs"
    using map_res_pure [of rs "\<lambda>r. risk_of_str code' (risk_str r)" "\<lambda>r. r"] by (simp add: risk_of_str_Inr)
  ultimately show ?thesis by (simp add: riskClasses_def risks_json_def v(3))
qed

lemma riskClasses_simps [simp]:
  "riskClasses None code = Inr None"
  "riskClasses v0 code = Inr (Some rs) \<Longrightarrow> riskClasses (Some (risks_json rs)) code' = Inr (Some rs)"
  using riskClasses_again [of v0 code "Some rs"] by (simp_all add: riskClasses_def)

lemma check_again: "contract_check_of item = Inr c \<Longrightarrow> contract_check_of (check_pairs c) = Inr c"
  by (cases "pcc_purpose c")
    (auto simp: contract_check_of_def check_pairs_def bindE_eq_Inr json_opt_def req_text_again intro: opt_text_simps)

lemma journey_again: "contract_journey_of item = Inr c \<Longrightarrow> contract_journey_of (journey_pairs c) = Inr c"
  by (cases "pcj_requiredFor c")
    (auto simp: contract_journey_of_def journey_pairs_def bindE_eq_Inr json_opt_def req_text_again intro: riskClasses_simps)

lemma tooling_again: "contract_tooling_of item = Inr c \<Longrightarrow> contract_tooling_of (tooling_pairs c) = Inr c"
  by (cases "pct_requiredFor c"; cases "pct_purpose c")
    (auto simp: contract_tooling_of_def tooling_pairs_def bindE_eq_Inr json_opt_def req_text_again
      intro: opt_text_simps riskClasses_simps)

lemma exception_again: "contract_exception_of item = Inr c \<Longrightarrow> contract_exception_of (exception_pairs c) = Inr c"
  by (auto simp: contract_exception_of_def exception_pairs_def bindE_eq_Inr req_text_again)

lemma authority_again: "contract_authority_of item = Inr c \<Longrightarrow> contract_authority_of (authority_pairs c) = Inr c"
  by (auto simp: contract_authority_of_def authority_pairs_def bindE_eq_Inr stringList_again)

lemma quality_again: "contract_quality_of item = Inr c \<Longrightarrow> contract_quality_of (quality_pairs c) = Inr c"
  by (auto simp: contract_quality_of_def quality_pairs_def bindE_eq_Inr stringList_again)

lemma map_res_again:
  assumes "map_res f items = Inr cs" and "\<And>item c. f item = Inr c \<Longrightarrow> f (g c) = Inr c"
  shows "map_res f (map g cs) = Inr cs"
proof -
  have "\<forall>c\<in>set cs. f (g c) = Inr c"
    using assms by (auto simp: map_res_eq_Inr list_all2_conv_all_nth in_set_conv_nth) metis
  then show ?thesis using map_res_pure [of cs "\<lambda>c. f (g c)" "\<lambda>c. c"] by simp
qed

lemma objectList_length: "objectList v0 code = Inr items \<Longrightarrow> length items \<le> MAX_CONTRACT_ITEMS"
  by (auto simp: objectList_def bindE_eq_Inr dest!: map_res_length split: option.splits json.splits)

lemma objectList_objects:
  "length cs \<le> MAX_CONTRACT_ITEMS \<Longrightarrow> objectList (Some (objects_json g cs)) code = Inr (map g cs)"
  using map_res_pure [of cs "\<lambda>c. json_object (Some (JObj (g c))) code" g] by (simp add: objectList_def json_object_def)

lemma objects_again:
  assumes "objectList v0 code = Inr items" "map_res f items = Inr cs" and "\<And>item c. f item = Inr c \<Longrightarrow> f (g c) = Inr c"
  shows "bindE (objectList (Some (objects_json g cs)) code') (map_res f) = Inr cs"
proof -
  have "length cs \<le> MAX_CONTRACT_ITEMS" using objectList_length [OF assms(1)] map_res_length [OF assms(2)] by simp
  then show ?thesis using map_res_again [OF assms(2,3)] by (simp add: objectList_objects)
qed

lemma section_again:
  assumes "opt_section v0 code f = Inr cs" and "\<And>item c. f item = Inr c \<Longrightarrow> f (g c) = Inr c"
  shows "opt_section (Some (objects_json g cs)) code' f = Inr cs"
proof (cases v0)
  case None
  then show ?thesis using assms(1) by (simp add: opt_section_def objectList_def MAX_CONTRACT_ITEMS_def)
next
  case (Some v)
  then obtain items where "objectList (Some v) code = Inr items" "map_res f items = Inr cs"
    using assms(1) by (auto simp: opt_section_def bindE_eq_Inr)
  from objects_again [OF this assms(2)] show ?thesis by (simp add: opt_section_def)
qed

lemma nullish_simps [simp]: "nullish (Some (JObj ps)) d = Some (JObj ps)" "nullish (Some (JArr xs)) d = Some (JArr xs)"
  by (simp_all add: nullish_def)

lemma json_object_JObj [simp]: "json_object (Some (JObj ps)) code = Inr ps"
  by (simp add: json_object_def)

lemma bindE_InrE: "bindE m f = Inr y \<Longrightarrow> (\<And>x. m = Inr x \<Longrightarrow> f x = Inr y \<Longrightarrow> P) \<Longrightarrow> P"
  by (auto simp: bindE_eq_Inr)

lemma bindE_unitE: "bindE (m :: unit res) f = Inr y \<Longrightarrow> (m = Inr () \<Longrightarrow> f () = Inr y \<Longrightarrow> P) \<Longrightarrow> P"
  by (auto simp: bindE_eq_Inr)

lemma InrD: "Inr r = Inr c \<Longrightarrow> c = r"
  by simp

text \<open>The parts a validated contract was read from.\<close>

lemma contract_partsE:
  assumes "validateProjectEngineeringContract v0 = Inr c"
  obtains root authority quality checks journeys where
     "objectList (nullish (map_of root ''checks'') (JArr [])) ''PROJECT_ENGINEERING_CONTRACT_CHECKS_INVALID'' = Inr checks"
      "map_res contract_check_of checks = Inr (pc_checks c)"
    and "objectList (nullish (map_of root ''journeys'') (JArr [])) ''PROJECT_ENGINEERING_CONTRACT_JOURNEYS_INVALID'' = Inr journeys"
      "map_res contract_journey_of journeys = Inr (pc_journeys c)"
    and "opt_section (map_of root ''tooling'') ''PROJECT_ENGINEERING_CONTRACT_TOOLING_INVALID'' contract_tooling_of = Inr (pc_tooling c)"
    and "opt_section (map_of root ''exceptions'') ''PROJECT_ENGINEERING_CONTRACT_EXCEPTIONS_INVALID'' contract_exception_of
       = Inr (pc_exceptions c)"
    and "duplicate_ids ''check'' (map pcc_id (pc_checks c)) = Inr ()" "duplicate_ids ''journey'' (map pcj_id (pc_journeys c)) = Inr ()"
      "duplicate_ids ''tooling'' (map pct_id (pc_tooling c)) = Inr ()" "duplicate_ids ''exception'' (map pce_id (pc_exceptions c)) = Inr ()"
    and "req_text (map_of root ''contractId'') ''PROJECT_ENGINEERING_CONTRACT_ID_INVALID'' = Inr (pc_contractId c)"
      "req_text (map_of root ''contractVersion'') ''PROJECT_ENGINEERING_CONTRACT_VERSION_INVALID'' = Inr (pc_contractVersion c)"
      "req_text (map_of root ''projectId'') ''PROJECT_ENGINEERING_CONTRACT_PROJECT_ID_INVALID'' = Inr (pc_projectId c)"
    and "contract_authority_of authority = Inr (pc_authority c)" "contract_quality_of quality = Inr (pc_quality c)"
    and "stringList (map_of root ''platforms'') ''PROJECT_ENGINEERING_CONTRACT_PLATFORMS_INVALID'' = Inr (pc_platforms c)"
      "stringList (map_of root ''skillRefs'') ''PROJECT_ENGINEERING_CONTRACT_SKILLS_INVALID'' = Inr (pc_skillRefs c)"
  using assms unfolding validateProjectEngineeringContract_def by (elim bindE_unitE bindE_InrE) (drule InrD, rule that, (assumption | simp only: project_contract.select_convs)+)

lemma contract_again:
  assumes "validateProjectEngineeringContract v0 = Inr c"
  shows "validateProjectEngineeringContract (Some (contract_json c)) = Inr c"
proof -
  obtain root authority quality checks journeys where
    checks: "objectList (nullish (map_of root ''checks'') (JArr [])) ''PROJECT_ENGINEERING_CONTRACT_CHECKS_INVALID'' = Inr checks"
      "map_res contract_check_of checks = Inr (pc_checks c)"
    and journeys: "objectList (nullish (map_of root ''journeys'') (JArr [])) ''PROJECT_ENGINEERING_CONTRACT_JOURNEYS_INVALID'' = Inr journeys"
      "map_res contract_journey_of journeys = Inr (pc_journeys c)"
    and tooling: "opt_section (map_of root ''tooling'') ''PROJECT_ENGINEERING_CONTRACT_TOOLING_INVALID'' contract_tooling_of = Inr (pc_tooling c)"
    and exceptions: "opt_section (map_of root ''exceptions'') ''PROJECT_ENGINEERING_CONTRACT_EXCEPTIONS_INVALID'' contract_exception_of
       = Inr (pc_exceptions c)"
    and distinct: "duplicate_ids ''check'' (map pcc_id (pc_checks c)) = Inr ()" "duplicate_ids ''journey'' (map pcj_id (pc_journeys c)) = Inr ()"
      "duplicate_ids ''tooling'' (map pct_id (pc_tooling c)) = Inr ()" "duplicate_ids ''exception'' (map pce_id (pc_exceptions c)) = Inr ()"
    and ids: "req_text (map_of root ''contractId'') ''PROJECT_ENGINEERING_CONTRACT_ID_INVALID'' = Inr (pc_contractId c)"
      "req_text (map_of root ''contractVersion'') ''PROJECT_ENGINEERING_CONTRACT_VERSION_INVALID'' = Inr (pc_contractVersion c)"
      "req_text (map_of root ''projectId'') ''PROJECT_ENGINEERING_CONTRACT_PROJECT_ID_INVALID'' = Inr (pc_projectId c)"
    and objects: "contract_authority_of authority = Inr (pc_authority c)" "contract_quality_of quality = Inr (pc_quality c)"
    and lists: "stringList (map_of root ''platforms'') ''PROJECT_ENGINEERING_CONTRACT_PLATFORMS_INVALID'' = Inr (pc_platforms c)"
      "stringList (map_of root ''skillRefs'') ''PROJECT_ENGINEERING_CONTRACT_SKILLS_INVALID'' = Inr (pc_skillRefs c)"
    by (rule contract_partsE [OF assms]) blast
  note arrays = objects_again [OF checks check_again] objects_again [OF journeys journey_again]
    section_again [OF tooling tooling_again] section_again [OF exceptions exception_again]
  show ?thesis
    by (simp add: validateProjectEngineeringContract_def contract_json_def arrays distinct ids [THEN req_text_again]
        objects(1) [THEN authority_again] objects(2) [THEN quality_again] lists [THEN stringList_again])
qed

lemma duplicate_ids_Inr: "duplicate_ids kind ids = Inr () \<longleftrightarrow> distinct ids"
  by (auto simp: duplicate_ids_def js_uniq_id) (metis card_distinct distinct_card distinct_js_uniq set_js_uniq)

lemma section_length: "opt_section v0 code f = Inr cs \<Longrightarrow> length cs \<le> MAX_CONTRACT_ITEMS"
  by (auto simp: opt_section_def bindE_eq_Inr dest!: objectList_length map_res_length split: option.splits)

lemma contract_bounds:
  assumes "validateProjectEngineeringContract v0 = Inr c"
  shows "length (pc_checks c) \<le> MAX_CONTRACT_ITEMS \<and> length (pc_journeys c) \<le> MAX_CONTRACT_ITEMS \<and>
     length (pc_tooling c) \<le> MAX_CONTRACT_ITEMS \<and> length (pc_exceptions c) \<le> MAX_CONTRACT_ITEMS \<and>
     length (pc_platforms c) \<le> MAX_CONTRACT_ITEMS \<and> length (pc_skillRefs c) \<le> MAX_CONTRACT_ITEMS \<and>
     distinct (map pcc_id (pc_checks c)) \<and> distinct (map pcj_id (pc_journeys c)) \<and> distinct (map pct_id (pc_tooling c)) \<and>
     distinct (map pce_id (pc_exceptions c)) \<and> distinct (pc_platforms c) \<and> distinct (pc_skillRefs c) \<and>
     (\<forall>i\<in>{pc_contractId c, pc_contractVersion c, pc_projectId c}. js_trim i = i \<and> i \<noteq> [] \<and> length i \<le> MAX_TEXT)"
proof (rule contract_partsE [OF assms])
  fix root checks journeys
  assume "objectList (nullish (map_of root ''checks'') (JArr [])) ''PROJECT_ENGINEERING_CONTRACT_CHECKS_INVALID'' = Inr checks"
    "map_res contract_check_of checks = Inr (pc_checks c)"
    "objectList (nullish (map_of root ''journeys'') (JArr [])) ''PROJECT_ENGINEERING_CONTRACT_JOURNEYS_INVALID'' = Inr journeys"
    "map_res contract_journey_of journeys = Inr (pc_journeys c)"
  then have "length (pc_checks c) \<le> MAX_CONTRACT_ITEMS" "length (pc_journeys c) \<le> MAX_CONTRACT_ITEMS"
    using objectList_length map_res_length by metis+
  moreover assume "opt_section (map_of root ''tooling'') ''PROJECT_ENGINEERING_CONTRACT_TOOLING_INVALID'' contract_tooling_of = Inr (pc_tooling c)"
    "opt_section (map_of root ''exceptions'') ''PROJECT_ENGINEERING_CONTRACT_EXCEPTIONS_INVALID'' contract_exception_of = Inr (pc_exceptions c)"
  then have "length (pc_tooling c) \<le> MAX_CONTRACT_ITEMS" "length (pc_exceptions c) \<le> MAX_CONTRACT_ITEMS"
    by (auto dest: section_length)
  moreover assume "stringList (map_of root ''platforms'') ''PROJECT_ENGINEERING_CONTRACT_PLATFORMS_INVALID'' = Inr (pc_platforms c)"
    "stringList (map_of root ''skillRefs'') ''PROJECT_ENGINEERING_CONTRACT_SKILLS_INVALID'' = Inr (pc_skillRefs c)"
  moreover note calculation(5,6) [THEN stringListE]
  moreover assume "duplicate_ids ''check'' (map pcc_id (pc_checks c)) = Inr ()" "duplicate_ids ''journey'' (map pcj_id (pc_journeys c)) = Inr ()"
      "duplicate_ids ''tooling'' (map pct_id (pc_tooling c)) = Inr ()" "duplicate_ids ''exception'' (map pce_id (pc_exceptions c)) = Inr ()"
  moreover assume "req_text (map_of root ''contractId'') ''PROJECT_ENGINEERING_CONTRACT_ID_INVALID'' = Inr (pc_contractId c)"
      "req_text (map_of root ''contractVersion'') ''PROJECT_ENGINEERING_CONTRACT_VERSION_INVALID'' = Inr (pc_contractVersion c)"
      "req_text (map_of root ''projectId'') ''PROJECT_ENGINEERING_CONTRACT_PROJECT_ID_INVALID'' = Inr (pc_projectId c)"
  ultimately show ?thesis by (auto simp: duplicate_ids_Inr req_text_Inr)
qed

end
