(* ===== verification/EngineeringProperties.thy ===== *)
theory EngineeringProperties
  imports EngineeringFacts ProjectContractFacts ExampleHost
begin

text \<open>The properties of the engineering receipts, the context receipt and admission.\<close>

section \<open>Example evidence\<close>

abbreviation hash64 :: string where "hash64 \<equiv> replicate 64 CHR ''a''"

text \<open>On the example host an identifier shows the first units of the rendered payload.\<close>

definition example_id :: "string \<Rightarrow> string" where
  "example_id kind = kind @ ''_sha256:{'' @ [CHR 0x22] @ ''sourceRevision'' @ [CHR 0x22] @ '':'' @ [CHR 0x22] @ ''rev1''
     @ [CHR 0x22] @ '',''"

lemma example_receiptId:
  "receiptId example_host kind (JObj ((''sourceRevision'', JStr ''rev1'') # (k, v) # rest)) = example_id kind"
  by (simp add: receiptId_def example_host_def example_id_def json_quote_def json_chars_def json_escape_def)

definition example_contract :: project_contract_receipt where
  "example_contract = \<lparr>pr_schemaVersion = 1, pr_contractPath = ''.forge/project-engineering.json'', pr_projectId = ''p'',
     pr_contractId = ''c'', pr_contractVersion = ''1'', pr_sourceRevision = ''rev1'', pr_contentDigest = hash64,
     pr_provenance = Some \<lparr>pv_source = ''repository'', pv_loadedAt = ''1''\<rparr>\<rparr>"

definition example_closure :: context_closure where
  "example_closure = \<lparr>cc_schemaVersion = 1,
     cc_receiptId = example_id ''context_closure'',
     cc_sourceRevision = Some ''rev1'', cc_generatedAt = ''1'', cc_contextPackSchemaVersion = 1,
     cc_repository = \<lparr>clr_branch = None, clr_dirty = False, clr_workId = None, clr_activeWorkIds = []\<rparr>,
     cc_projectContract = None, cc_projectContractReady = True, cc_guidanceStatus = Guidance_none, cc_guidancePaths = [],
     cc_languages = [], cc_platforms = [],
     cc_skills = \<lparr>csk_status = Tools_not_required, csk_requiredKinds = [], csk_resolved = [], csk_unresolvedKinds = []\<rparr>,
     cc_semanticTools = \<lparr>cst_required = False, cst_status = Tools_not_required, cst_providers = [], cst_reasonCodes = [],
       cst_compilerEvidenceRequired = False\<rparr>,
     cc_sourceEvidence = \<lparr>cse_currentPaths = [''src/a.ts''], cse_testPaths = [], cse_recentChanges = [],
       cse_rawSourceStatus = Raw_current, cse_structuralStatus = Struct_disabled\<rparr>,
     cc_readiness = Closure_ready, cc_reasonCodes = [], cc_provenanceSource = Some ''rh_context'', cc_contextGeneratedAt = ''1''\<rparr>"

definition example_dod_draft :: product_dod_draft where
  "example_dod_draft = \<lparr>pd_sourceRevision = ''rev1'', pd_userOutcome = ''o'', pd_completionConditions = [''c''],
     pd_nonRegression = [''n''], pd_performanceExpectations = [''p''], pd_nonGoals = [''g''], pd_recordedAt = ''1''\<rparr>"

definition example_dod :: product_dod_receipt where
  "example_dod = seal_dod example_host example_dod_draft"

definition example_design_draft :: design_decision_draft where
  "example_design_draft = \<lparr>dd_sourceRevision = ''rev1'', dd_contextClosureReceiptId = example_id ''context_closure'',
     dd_productDodReceiptId = example_id ''product_dod'', dd_semanticScopeKeys = [''scope''],
     dd_mutationClass = Mut_isolated_write, dd_decisions = map (\<lambda>a. (a, ''decided'')) ENGINEERING_DECISION_AREAS,
     dd_complexityBudget = \<lparr>cb_addedWriters = Finite 0, cb_addedDurableMechanisms = Finite 1, cb_projectionPaths = Finite 0,
       cb_globalInvalidations = Finite 0, cb_lifecycleHooks = Finite 0, cb_synchronousCriticalPathWork = Finite 0,
       cb_notes = Some []\<rparr>,
     dd_supersedesReceiptId = None, dd_recordedAt = ''1''\<rparr>"

definition example_design :: design_decision_receipt where
  "example_design = seal_design example_host example_design_draft"

definition example_critique_draft :: critique_draft where
  "example_critique_draft = \<lparr>cr_sourceRevision = ''rev1'', cr_contextClosureReceiptId = example_id ''context_closure'',
     cr_productDodReceiptId = example_id ''product_dod'', cr_designDecisionReceiptId = example_id ''design_decision'',
     cr_requirementDigest = hash64, cr_projectContractDigest = hash64, cr_decision = Critique_approved, cr_findings = [],
     cr_recordedAt = ''1''\<rparr>"

definition example_critique :: critique_receipt where
  "example_critique = seal_critique example_host example_critique_draft"

lemma example_ids:
  "pd_receiptId example_dod = example_id ''product_dod''" "dd_receiptId example_design = example_id ''design_decision''"
  "cr_receiptId example_critique = example_id ''independent_critique''"
  by (simp_all add: example_dod_def example_design_def example_critique_def seal_dod_def seal_design_def seal_critique_def
      product_dod_draft.defs product_dod_receipt.defs design_decision_draft.defs design_decision_receipt.defs
      critique_draft.defs critique_receipt.defs product_dod_json_def design_decision_json_def critique_json_def
      example_dod_draft_def example_design_draft_def example_critique_draft_def example_receiptId)

lemma example_built:
  "validateProjectEngineeringContractReceipt example_host example_contract = Inr example_contract"
  "validateContextClosureReceipt example_host example_closure = Inr example_closure"
  "normalizeProductDoD example_host example_dod_draft = Inr example_dod_draft"
  "normalizeCritique example_host example_critique_draft = Inr example_critique_draft"
  by code_simp+

lemma req_text_id: "js_trimmed s \<Longrightarrow> s \<noteq> [] \<Longrightarrow> length s \<le> 2000 \<Longrightarrow> req_text (of_str s) code = Inr s"
  by (auto simp: req_text_Inr js_trim_id MAX_TEXT_def)

lemma decision_text_const:
  "a \<in> set areas \<Longrightarrow> decision_text (map (\<lambda>a. (a, ''decided'')) areas) a = Inr (a, ''decided'')"
  by (simp add: decision_text_def map_of_map_restrict [where f = "\<lambda>_. ''decided''", simplified] req_text_id js_trimmed_def js_space_def)

lemma example_design_normal:
  "normalizeDesignDecision example_host example_design_draft ENGINEERING_DECISION_AREAS = Inr example_design_draft"
proof -
  have "map_res (decision_text (map (\<lambda>a. (a, ''decided'')) ENGINEERING_DECISION_AREAS)) ENGINEERING_DECISION_AREAS
      = Inr (map (\<lambda>a. (a, ''decided'')) ENGINEERING_DECISION_AREAS)"
    by (rule map_res_pure) (rule decision_text_const)
  moreover have "normalizeComplexityBudget (dd_complexityBudget example_design_draft) = Inr (dd_complexityBudget example_design_draft)"
    "req_list (of_strs [''scope'']) ''DESIGN_DECISION_SEMANTIC_SCOPE_REQUIRED'' True = Inr [''scope'']"
    "req_timestamp example_host (of_str ''1'') ''DESIGN_DECISION_RECORDED_AT_INVALID'' = Inr ''1''"
    by code_simp+
  moreover have "js_trimmed (example_id ''context_closure'')" "js_trimmed (example_id ''product_dod'')" "js_trimmed ''rev1''"
    by (simp_all add: example_id_def js_trimmed_def js_space_def)
  ultimately show ?thesis
    by (simp add: normalizeDesignDecision_def example_design_draft_def ENGINEERING_MUTATION_CLASSES_def req_text_id example_id_def)
qed

definition example_blocker_input :: "blocker_classification \<Rightarrow> string option \<Rightarrow> blocker_input" where
  "example_blocker_input c w = \<lparr>bi_sourceRevision = ''rev1'', bi_blockerId = ''b1'', bi_classification = c,
     bi_semanticScopeKeys = None, bi_linkedWorkId = w, bi_rationale = ''why'', bi_recordedAt = ''1''\<rparr>"

definition example_blocker :: blocker_receipt where
  "example_blocker = seal_blocker example_host \<lparr>bd_sourceRevision = ''rev1'', bd_blockerId = ''b1'',
     bd_classification = Blocker_same_root_cause, bd_action = Action_return_to_design, bd_semanticScopeKeys = [],
     bd_linkedWorkId = None, bd_rationale = ''why'', bd_recordedAt = ''1''\<rparr>"

lemma example_blocker_built:
  "buildEngineeringBlockerDispositionReceipt example_host (example_blocker_input Blocker_same_root_cause None) = Inr example_blocker"
proof -
  have "req_timestamp example_host (of_str ''1'') ''ENGINEERING_BLOCKER_RECORDED_AT_INVALID'' = Inr ''1''"
    "req_list (Some (JArr [])) ''ENGINEERING_BLOCKER_SCOPE_INVALID'' False = Inr []" by code_simp+
  then show ?thesis
    by (simp add: buildEngineeringBlockerDispositionReceipt_def example_blocker_input_def example_blocker_def seal_blocker_def
        req_text_id js_trimmed_def js_space_def linked_work_text_def Let_def)
qed

lemma example_receipts_built:
  "buildProductDoDReceipt example_host example_dod_draft = Inr example_dod"
  "buildDesignDecisionContractReceipt example_host example_design_draft = Inr example_design"
  "buildIndependentCritiqueReceipt example_host example_critique_draft = Inr example_critique"
  by (simp_all add: dod_receipt.build_iff design_receipt.build_iff critique_receipt.build_iff example_built example_design_normal
      example_dod_def example_design_def example_critique_def) (simp add: example_design_draft_def)

definition example_evidence :: admission_evidence where
  "example_evidence = no_evidence\<lparr>ae_projectContractReceipt := Some example_contract,
     ae_contextClosureReceipt := Some example_closure, ae_productDodReceipt := Some example_dod,
     ae_designDecisionReceipt := Some example_design, ae_independentCritiqueReceipt := Some example_critique,
     ae_semanticToolReceiptIds := Some [''tool-1'']\<rparr>"

definition example_validated :: validated_receipts where
  "example_validated = \<lparr>vd_contract = Some example_contract, vd_closure = Some example_closure, vd_dod = Some example_dod,
     vd_design = Some example_design, vd_critique = Some example_critique\<rparr>"

lemma example_validation: "validated_evidence example_host example_evidence = Inr example_validated"
  using dod_receipt.built_validates [OF example_receipts_built(1)] design_receipt.built_validates [OF example_receipts_built(2)]
    critique_receipt.built_validates [OF example_receipts_built(3)]
  by (simp add: validated_evidence_def example_evidence_def example_validated_def opt_res_def example_built)

lemma example_sealed [simp]:
  "pd_sourceRevision example_dod = ''rev1''" "dd_sourceRevision example_design = ''rev1''" "cr_sourceRevision example_critique = ''rev1''"
  "dd_productDodReceiptId example_design = example_id ''product_dod''"
  "dd_contextClosureReceiptId example_design = example_id ''context_closure''"
  "cr_productDodReceiptId example_critique = example_id ''product_dod''"
  "cr_designDecisionReceiptId example_critique = example_id ''design_decision''"
  "cr_contextClosureReceiptId example_critique = example_id ''context_closure''"
  "cr_projectContractDigest example_critique = hash64" "cr_decision example_critique = Critique_approved"
  by (simp_all add: example_dod_def example_design_def example_critique_def seal_dod_def seal_design_def seal_critique_def
      product_dod_draft.defs design_decision_draft.defs critique_draft.defs
      example_dod_draft_def example_design_draft_def example_critique_draft_def)

lemma example_binding: "evidence_binding (Source_revision ''rev1'') example_evidence example_validated = Inr ()"
  by (simp add: evidence_binding_def example_validated_def both_def source_drift_def exact_revision_def example_ids
      example_contract_def example_closure_def Let_def)

definition example_context :: engineering_context where
  "example_context = projr (buildEngineeringContextReceipt example_host Risk_destructive (Source_revision ''rev1'')
     (Some example_evidence) ''2'')"

lemma example_context_built:
  "buildEngineeringContextReceipt example_host Risk_destructive (Source_revision ''rev1'') (Some example_evidence) ''2'' = Inr example_context"
  by (simp add: example_context_def buildEngineeringContextReceipt_def Let_def example_validation example_binding)

lemma example_admitted:
  "evaluateEngineeringAdmission (engineeringWorkProfileForRisk Risk_destructive) example_context True = Admission_allowed"
proof (rule context_receiptE [OF example_context_built])
  fix v
  assume "validated_evidence example_host (coalesce (Some example_evidence) no_evidence) = Inr v"
  then have v: "v = example_validated" using example_validation by simp
  assume r: "ec_sourceIdentity example_context = Source_revision ''rev1''" "ec_projectContractReceipt example_context = vd_contract v"
    "ce_contextClosureReceipt (ec_evidence example_context) = vd_closure v"
    "ce_productDodReceipt (ec_evidence example_context) = vd_dod v"
    "ce_designDecisionReceipt (ec_evidence example_context) = vd_design v"
    "ce_independentCritiqueReceipt (ec_evidence example_context) = vd_critique v"
    "ec_designState example_context = map_option (\<lambda>_. Design_ready) (vd_design v)"
    "ce_semanticToolReceiptIds (ec_evidence example_context) = receipt_ids (ae_semanticToolReceiptIds (coalesce (Some example_evidence) no_evidence))"
  assume m: "ec_missingAdmissionEvidence example_context = filter (\<lambda>kind. \<not> provided kind example_context)
      (requiredKinds (engineeringWorkProfileForRisk Risk_destructive) At_admission (ec_conditions example_context))"
  have ids: "receipt_ids (ae_semanticToolReceiptIds (coalesce (Some example_evidence) no_evidence)) \<noteq> []"
    by (simp add: example_evidence_def no_evidence_def receipt_ids_def trim_all_def js_trim_def js_space_def js_uniq_def)
  have "cc_readiness example_closure = Closure_ready" by (simp add: example_closure_def)
  then have "ec_missingAdmissionEvidence example_context = []"
    unfolding m using r ids by (simp add: v example_validated_def engineeringWorkProfileForRisk_def requiredKinds_def js_uniq_def)
  then show ?thesis using r by (simp add: evaluateEngineeringAdmission_def v example_validated_def)
qed

section \<open>Properties\<close>

text \<open>
  C21.  Receipts round trip: a receipt built from any draft validates, and validation returns it
  unchanged, for the definition of done, the design decision, the critique and the blocker.
\<close>

theorem receipts_round_trip:
  "(buildProductDoDReceipt H (dod_draft :: product_dod_draft) = Inr dod \<longrightarrow> validateProductDoDReceipt H dod = Inr dod) \<and>
   (buildDesignDecisionContractReceipt H (design_draft :: design_decision_draft) = Inr design \<longrightarrow>
      validateDesignDecisionContractReceipt H design = Inr design) \<and>
   (buildIndependentCritiqueReceipt H (critique_draft :: critique_draft) = Inr critique \<longrightarrow>
      validateIndependentCritiqueReceipt H critique = Inr critique) \<and>
   (buildEngineeringBlockerDispositionReceipt H input = Inr blocker \<longrightarrow>
      validateEngineeringBlockerDispositionReceipt H blocker = Inr blocker)"
  by (intro conjI impI dod_receipt.built_validates design_receipt.built_validates critique_receipt.built_validates
      blocker_receipt.built_validates)

theorem receipts_round_trip_witness:
  "validateProductDoDReceipt example_host example_dod = Inr example_dod \<and>
   validateDesignDecisionContractReceipt example_host example_design = Inr example_design \<and>
   validateIndependentCritiqueReceipt example_host example_critique = Inr example_critique \<and>
   validateEngineeringBlockerDispositionReceipt example_host example_blocker = Inr example_blocker"
  using receipts_round_trip [of example_host example_dod_draft example_dod example_design_draft example_design
      example_critique_draft example_critique "example_blocker_input Blocker_same_root_cause None" example_blocker]
    example_receipts_built example_blocker_built by blast

text \<open>
  C22.  A critique cannot be edited under its identifier: two presented critiques with one
  identifier that both validate are the same critique, unless the digests of their two
  renderings collide on the units the identifier keeps.
\<close>

theorem critique_identifier_names_one_critique:
  assumes "validateIndependentCritiqueReceipt H r = Inr s" and "validateIndependentCritiqueReceipt H r' = Inr s'"
    and "cr_receiptId r = cr_receiptId r'"
    and no_collision: "take 32 (sha256_hex H (json_stringify (critique_json s))) = take 32 (sha256_hex H (json_stringify (critique_json s')))
       \<Longrightarrow> json_stringify (critique_json s) = json_stringify (critique_json s')"
  shows "s = s'"
proof (rule critique_receipt.same_ident_same_receipt [OF _ _ assms(1-3)])
  fix n n' assume s: "s = seal_critique H n" "s' = seal_critique H n'"
    and d: "receiptId H ''independent_critique'' (critique_json n) = receiptId H ''independent_critique'' (critique_json n')"
  have j: "critique_json (seal_critique H m) = critique_json m" for m
    by (simp add: critique_json_def seal_critique_def critique_draft.defs)
  from d no_collision have "json_stringify (critique_json n) = json_stringify (critique_json n')"
    unfolding s j by (simp add: receiptId_def)
  then show "n = n'" by (rule critique_payload_inj)
qed simp_all

theorem critique_identifier_names_one_critique_witness:
  "projr (validateIndependentCritiqueReceipt example_host example_critique) = example_critique"
proof -
  have v: "validateIndependentCritiqueReceipt example_host example_critique = Inr example_critique"
    by (rule critique_receipt.built_validates [OF example_receipts_built(3)])
  then obtain s where s: "validateIndependentCritiqueReceipt example_host example_critique = Inr s" by blast
  have "s = example_critique"
    by (rule critique_identifier_names_one_critique [OF s v refl]) (use s v in simp)
  with s show ?thesis by simp
qed

text \<open>
  C23.  An admitted high-risk or destructive mutation is evidenced: its source identity is known,
  and the context holds a project contract, a ready context closure, a definition of done, a
  design decision on exactly that closure and definition, and an approved critique of exactly
  that design, definition, closure and contract, all at the exact source revision. Each of the
  five is what its validator returned for the receipt that was presented; a destructive change
  also has semantic tool receipts.
\<close>

theorem admitted_change_is_evidenced:
  assumes "buildEngineeringContextReceipt H risk identity evidence stamp = Inr receipt"
    and "risk \<in> {Risk_high, Risk_destructive}"
    and "evaluateEngineeringAdmission (engineeringWorkProfileForRisk risk) receipt True = Admission_allowed"
  shows "identity \<noteq> Source_unknown \<and> (\<exists>contract closure dod design critique.
     ec_projectContractReceipt receipt = Some contract \<and>
     ce_contextClosureReceipt (ec_evidence receipt) = Some closure \<and> cc_readiness closure = Closure_ready \<and>
     ce_productDodReceipt (ec_evidence receipt) = Some dod \<and>
     ce_designDecisionReceipt (ec_evidence receipt) = Some design \<and>
     dd_productDodReceiptId design = pd_receiptId dod \<and> dd_contextClosureReceiptId design = cc_receiptId closure \<and>
     ce_independentCritiqueReceipt (ec_evidence receipt) = Some critique \<and> cr_decision critique = Critique_approved \<and>
     cr_productDodReceiptId critique = pd_receiptId dod \<and> cr_designDecisionReceiptId critique = dd_receiptId design \<and>
     cr_contextClosureReceiptId critique = cc_receiptId closure \<and> cr_projectContractDigest critique = pr_contentDigest contract \<and>
     (\<forall>base. identity = Source_revision base \<longrightarrow> base \<noteq> [] \<longrightarrow>
        pr_sourceRevision contract = base \<and> cc_sourceRevision closure = Some base \<and> pd_sourceRevision dod = base \<and>
        dd_sourceRevision design = base \<and> cr_sourceRevision critique = base) \<and>
     (\<exists>x. ae_projectContractReceipt (coalesce evidence no_evidence) = Some x \<and>
        validateProjectEngineeringContractReceipt H x = Inr contract) \<and>
     (\<exists>x. ae_contextClosureReceipt (coalesce evidence no_evidence) = Some x \<and> validateContextClosureReceipt H x = Inr closure) \<and>
     (\<exists>x. ae_productDodReceipt (coalesce evidence no_evidence) = Some x \<and> validateProductDoDReceipt H x = Inr dod) \<and>
     (\<exists>x. ae_designDecisionReceipt (coalesce evidence no_evidence) = Some x \<and>
        validateDesignDecisionContractReceipt H x = Inr design) \<and>
     (\<exists>x. ae_independentCritiqueReceipt (coalesce evidence no_evidence) = Some x \<and>
        validateIndependentCritiqueReceipt H x = Inr critique)) \<and>
     (risk = Risk_destructive \<longrightarrow> ce_semanticToolReceiptIds (ec_evidence receipt) \<noteq> [])"
proof -
  let ?profile = "engineeringWorkProfileForRisk risk"
  obtain v where v: "validated_evidence H (coalesce evidence no_evidence) = Inr v"
      "evidence_binding identity (coalesce evidence no_evidence) v = Inr ()"
    and r: "ec_sourceIdentity receipt = identity" "ec_projectContractReceipt receipt = vd_contract v"
      "ce_contextClosureReceipt (ec_evidence receipt) = vd_closure v" "ce_productDodReceipt (ec_evidence receipt) = vd_dod v"
      "ce_designDecisionReceipt (ec_evidence receipt) = vd_design v" "ce_independentCritiqueReceipt (ec_evidence receipt) = vd_critique v"
    and m: "ec_missingAdmissionEvidence receipt
       = filter (\<lambda>kind. \<not> provided kind receipt) (requiredKinds ?profile At_admission (ec_conditions receipt))"
    by (rule context_receiptE [OF assms(1)]) blast
  have profile: "ep_admissionEnforcement ?profile = Enforce_enforce"
    "{EKind_project_contract, EKind_context_closure, EKind_product_dod, EKind_design_decision, EKind_independent_critique}
       \<subseteq> set (requiredKinds ?profile At_admission (ec_conditions receipt))"
    "risk = Risk_destructive \<Longrightarrow> EKind_semantic_tools \<in> set (requiredKinds ?profile At_admission (ec_conditions receipt))"
    using assms(2) by (auto simp: engineeringWorkProfileForRisk_def requiredKinds_def)
  have known: "identity \<noteq> Source_unknown" and none: "ec_missingAdmissionEvidence receipt = []"
    using assms(3) profile(1) r(1) by (auto simp: evaluateEngineeringAdmission_def split: if_splits)
  have p: "provided kind receipt" if "kind \<in> set (requiredKinds ?profile At_admission (ec_conditions receipt))" for kind
    using none that unfolding m by (simp add: filter_empty_conv)
  obtain contract where contract: "vd_contract v = Some contract"
    using p [of EKind_project_contract] profile(2) r by auto
  obtain closure where closure: "vd_closure v = Some closure" "cc_readiness closure = Closure_ready"
    using p [of EKind_context_closure] profile(2) r by auto
  obtain dod where dod: "vd_dod v = Some dod" using p [of EKind_product_dod] profile(2) r by auto
  obtain design where design: "vd_design v = Some design" using p [of EKind_design_decision] profile(2) r by auto
  obtain critique where critique: "vd_critique v = Some critique" "cr_decision critique = Critique_approved"
    using p [of EKind_independent_critique] profile(2) r by auto
  have revisions: "pr_sourceRevision contract \<noteq> []" "truthy (cc_sourceRevision closure)" "cc_receiptId closure \<noteq> []"
    "pd_sourceRevision dod \<noteq> []" "dd_sourceRevision design \<noteq> []" "cr_sourceRevision critique \<noteq> []"
    using validated_evidenceD [OF v(1)] contract closure dod design critique by blast+
  note bound = evidence_bindingD [OF v(2)]
  have "cr_contextClosureReceiptId critique = cc_receiptId closure"
    by (rule bound(10) [OF critique(1) closure(1) revisions(3)])
  moreover have "pr_sourceRevision contract = base \<and> cc_sourceRevision closure = Some base \<and> pd_sourceRevision dod = base \<and>
      dd_sourceRevision design = base \<and> cr_sourceRevision critique = base"
    if "identity = Source_revision base" "base \<noteq> []" for base
    using bound(1-5) [OF that] contract closure dod design critique revisions by blast
  moreover have "risk = Risk_destructive \<longrightarrow> ce_semanticToolReceiptIds (ec_evidence receipt) \<noteq> []"
    using p [of EKind_semantic_tools] profile(3) by simp
  ultimately show ?thesis
    using known contract closure dod design critique r bound(6) [OF design dod] bound(7) [OF design closure(1)]
      bound(8) [OF critique(1) dod] bound(9) [OF critique(1) design] bound(11) [OF critique(1) contract]
      validated_from_presented(1) [OF v(1) contract] validated_from_presented(2) [OF v(1) closure(1)]
      validated_from_presented(3) [OF v(1) dod] validated_from_presented(4) [OF v(1) design]
      validated_from_presented(5) [OF v(1) critique(1)]
    by simp
qed

theorem admitted_change_is_evidenced_witness:
  "\<exists>contract closure dod design critique.
     ec_projectContractReceipt example_context = Some contract \<and>
     ce_contextClosureReceipt (ec_evidence example_context) = Some closure \<and> cc_readiness closure = Closure_ready \<and>
     ce_productDodReceipt (ec_evidence example_context) = Some dod \<and>
     ce_designDecisionReceipt (ec_evidence example_context) = Some design \<and>
     ce_independentCritiqueReceipt (ec_evidence example_context) = Some critique \<and> cr_decision critique = Critique_approved \<and>
     cr_designDecisionReceiptId critique = dd_receiptId design \<and>
     (\<exists>x. ae_independentCritiqueReceipt (coalesce (Some example_evidence) no_evidence) = Some x \<and>
        validateIndependentCritiqueReceipt example_host x = Inr critique)"
proof -
  have d: "Risk_destructive \<in> {Risk_high, Risk_destructive}" by simp
  from admitted_change_is_evidenced [OF example_context_built d example_admitted] show ?thesis
    by (elim conjE exE, intro exI conjI) assumption+
qed

text \<open>
  C24.  A blocker with the same root cause sends the design back for good: once a disposition not
  recorded before is applied to a context, no enforced admission of a mutation succeeds on
  that context, whatever dispositions follow, and the record stays bounded and duplicate free.
\<close>

theorem design_blocker_bars_admission:
  assumes "buildEngineeringContextReceipt H risk identity evidence stamp = Inr r0" and "(blocker_step H)\<^sup>*\<^sup>* r0 r"
    and "applyEngineeringBlockerDisposition H r blocker = Inr s"
    and "bd_classification blocker = Blocker_same_root_cause"
    and "bd_receiptId blocker \<notin> bd_receiptId ` set (dispositions r)"
    and "(blocker_step H)\<^sup>*\<^sup>* s t" and "ep_admissionEnforcement profile = Enforce_enforce"
  shows "evaluateEngineeringAdmission profile t True \<noteq> Admission_allowed \<and> length (dispositions t) \<le> 64 \<and>
     distinct (map bd_receiptId (dispositions t))"
proof -
  have "ec_designState t = Some Design_revisit_required"
    by (rule revisit_steps.inv_reachable [OF assms(6) applied_return_revisits [OF assms(3-5)]])
  moreover have "(blocker_step H)\<^sup>*\<^sup>* r0 t"
    using assms(2,3,6) by (meson blocker_step_def converse_rtranclp_into_rtranclp rtranclp_trans)
  then have "blocker_inv t" by (rule blocker_steps.inv_reachable) (rule built_blocker_inv [OF assms(1)])
  ultimately show ?thesis using assms(7) by (simp add: evaluateEngineeringAdmission_def blocker_inv_def)
qed

definition example_revisited :: engineering_context where
  "example_revisited = projr (applyEngineeringBlockerDisposition example_host example_context example_blocker)"

lemma example_revisited: "applyEngineeringBlockerDisposition example_host example_context example_blocker = Inr example_revisited"
proof -
  have "validateEngineeringBlockerDispositionReceipt example_host example_blocker = Inr example_blocker"
    by (rule blocker_receipt.built_validates [OF example_blocker_built])
  moreover have "ec_sourceIdentity example_context = Source_revision ''rev1''" "ec_blockerDispositions example_context = Some []"
    by (rule context_receiptE [OF example_context_built], simp)+
  moreover have "bd_sourceRevision example_blocker = ''rev1''" by (simp add: example_blocker_def)
  ultimately show ?thesis
    by (simp add: example_revisited_def applyEngineeringBlockerDisposition_def Let_def)
qed

theorem design_blocker_bars_admission_witness:
  "evaluateEngineeringAdmission (engineeringWorkProfileForRisk Risk_destructive) example_revisited True \<noteq> Admission_allowed \<and>
     length (dispositions example_revisited) \<le> 64 \<and> distinct (map bd_receiptId (dispositions example_revisited))"
proof (rule design_blocker_bars_admission [OF example_context_built _ example_revisited])
  show "bd_classification example_blocker = Blocker_same_root_cause" by (simp add: example_blocker_def)
  have "dispositions example_context = []"
    by (rule context_receiptE [OF example_context_built]) (simp add: dispositions_def)
  then show "bd_receiptId example_blocker \<notin> bd_receiptId ` set (dispositions example_context)" by simp
  show "ep_admissionEnforcement (engineeringWorkProfileForRisk Risk_destructive) = Enforce_enforce"
    by (simp add: engineeringWorkProfileForRisk_def)
qed simp_all

text \<open>
  C25.  A project contract round trips: a validated contract, written as JSON and read again,
  validates to itself.
\<close>

theorem project_contract_round_trips:
  assumes "validateProjectEngineeringContract v0 = Inr c"
  shows "validateProjectEngineeringContract (Some (contract_json c)) = Inr c"
  using assms by (rule contract_again)

definition example_contract_json :: json where
  "example_contract_json = JObj [(''schemaVersion'', JNum 1), (''projectId'', JStr '' p ''), (''contractId'', JStr ''c''),
     (''contractVersion'', JStr ''1''),
     (''checks'', JArr [JObj [(''id'', JStr ''unit '')], JObj [(''purpose'', JStr ''types''), (''id'', JStr ''tsc'')]]),
     (''journeys'', JArr [JObj [(''id'', JStr ''j''), (''purpose'', JStr ''x''), (''requiredFor'', JArr [JStr ''high''])]])]"

definition example_project_contract :: project_contract where
  "example_project_contract = \<lparr>pc_contractId = ''c'', pc_contractVersion = ''1'', pc_projectId = ''p'',
     pc_authority = \<lparr>pca_product = [], pca_architecture = [], pca_source = []\<rparr>,
     pc_quality = \<lparr>pcq_ux = [], pcq_performance = [], pcq_nonRegression = []\<rparr>,
     pc_checks = [\<lparr>pcc_id = ''unit'', pcc_purpose = None\<rparr>, \<lparr>pcc_id = ''tsc'', pcc_purpose = Some ''types''\<rparr>],
     pc_journeys = [\<lparr>pcj_id = ''j'', pcj_purpose = ''x'', pcj_requiredFor = Some [ERisk_high]\<rparr>],
     pc_platforms = [], pc_tooling = [], pc_skillRefs = [], pc_exceptions = []\<rparr>"

lemma example_contract_validates: "validateProjectEngineeringContract (Some example_contract_json) = Inr example_project_contract"
  by code_simp

theorem project_contract_round_trips_witness:
  "validateProjectEngineeringContract (Some (contract_json example_project_contract)) = Inr example_project_contract"
  by (rule project_contract_round_trips [OF example_contract_validates])

text \<open>
  A validated project contract is bounded and unambiguous in its checks, journeys, tools,
  exceptions, platforms and skills: each section has at most 128 entries and its identifiers are
  distinct; the three identifiers of the contract are trimmed, non-empty and at most 2000 units
  long.
\<close>

theorem project_contract_is_bounded:
  assumes "validateProjectEngineeringContract v0 = Inr c"
  shows "length (pc_checks c) \<le> 128 \<and> length (pc_journeys c) \<le> 128 \<and> length (pc_tooling c) \<le> 128 \<and>
     length (pc_exceptions c) \<le> 128 \<and> length (pc_platforms c) \<le> 128 \<and> length (pc_skillRefs c) \<le> 128 \<and>
     distinct (map pcc_id (pc_checks c)) \<and> distinct (map pcj_id (pc_journeys c)) \<and> distinct (map pct_id (pc_tooling c)) \<and>
     distinct (map pce_id (pc_exceptions c)) \<and> distinct (pc_platforms c) \<and> distinct (pc_skillRefs c) \<and>
     (\<forall>i\<in>{pc_contractId c, pc_contractVersion c, pc_projectId c}. js_trim i = i \<and> i \<noteq> [] \<and> length i \<le> 2000)"
  using contract_bounds [OF assms] by (simp add: MAX_CONTRACT_ITEMS_def MAX_TEXT_def)

theorem project_contract_is_bounded_witness:
  "length (pc_checks example_project_contract) \<le> 128 \<and> distinct (map pcc_id (pc_checks example_project_contract)) \<and>
     distinct (map pcj_id (pc_journeys example_project_contract))"
  using project_contract_is_bounded [OF example_contract_validates] by blast

section \<open>The readiness of a context closure is not identified\<close>

text \<open>
  The identifier of a closure receipt digests its paths, tools and reason codes but not its
  readiness: a receipt whose status is edited from insufficient to ready still validates, and
  admission reads exactly that status.
\<close>

lemma closure_readiness_not_identified:
  assumes "validateContextClosureReceipt H c = Inr c"
  shows "validateContextClosureReceipt H (c\<lparr>cc_readiness := Closure_ready\<rparr>) = Inr (c\<lparr>cc_readiness := Closure_ready\<rparr>)"
proof -
  have "contextClosureReceiptIdentity H (c\<lparr>cc_readiness := Closure_ready\<rparr>) = contextClosureReceiptIdentity H c"
    by (simp add: contextClosureReceiptIdentity_def split: option.split)
  with assms show ?thesis by (auto simp: validateContextClosureReceipt_def bindE_eq_Inr)
qed

end
