(* ===== verification/WorkConcurrency.thy ===== *)
theory WorkConcurrency
  imports WorkContract
begin

text \<open>
  When two Works may execute at the same time,
  \<open>packages/kernel/work/domain/execution-concurrency.ts\<close>, and the admission policy of the
  runtime, \<open>packages/kernel/work/domain/admission-policy.ts\<close>.  A Work is projected to a
  concurrency contract (scope, lane, resources, isolation, role); the compatibility of a
  candidate with the active contracts is a list of blockers, one at most per active contract.
\<close>

section \<open>Concurrency contracts\<close>

datatype execution_lane = Lane_read | Lane_review | Lane_isolated_write | Lane_integration_write | Lane_external_effect

datatype execution_isolation = Iso_shared | Iso_isolated

datatype controller_role = Ctl_mutable_owner | Ctl_reviewer

datatype blocker_code =
    Code_reviewer_mutation_forbidden | Code_same_semantic_scope_mutation | Code_shared_mutation_lane_conflict
  | Code_integration_target_conflict | Code_external_effect_target_conflict | Code_external_effect_target_unknown

datatype blocker_disposition = Disp_wait | Disp_invalid

record concurrency_blocker =
  cbl_code :: blocker_code
  cbl_disposition :: blocker_disposition
  cbl_blockingWorkId :: "string option"
  cbl_semanticScopeKeys :: "string list"
  cbl_resourceKeys :: "string list"
  cbl_wakeTrigger :: wake_trigger

record concurrency_contract =
  cn_workId :: string
  cn_sourceRevision :: "string option"
  cn_observedWorkUpdatedAt :: string
  cn_semanticScopeKeys :: "string list"
  cn_mutationClass :: mutation_class
  cn_lane :: execution_lane
  cn_resourceIntents :: "resource_intent list"
  cn_blockers :: "concurrency_blocker list"
  cn_isolation :: execution_isolation
  cn_controllerRole :: controller_role

record concurrency_input =
  cni_lane :: "execution_lane option"
  cni_resourceIntents :: "resource_intent list option"
  cni_blockers :: "concurrency_blocker list option"

text \<open>The default order of \<open>Array.prototype.sort\<close> is by code units.\<close>

definition unitSortedStrings :: "string list \<Rightarrow> string list" where
  "unitSortedStrings vs = sort_by unit_cmp (js_uniq (trim_all vs))"

fun resource_mode_str :: "resource_mode \<Rightarrow> string" where
  "resource_mode_str Res_read = ''read''"
| "resource_mode_str Res_write = ''write''"
| "resource_mode_str Res_exclusive = ''exclusive''"

definition intent_cmp :: "js_host \<Rightarrow> resource_intent \<Rightarrow> resource_intent \<Rightarrow> int" where
  "intent_cmp H l r = cmp_then (locale_compare H (ri_resourceKey l) (ri_resourceKey r))
     (locale_compare H (resource_mode_str (ri_mode l)) (resource_mode_str (ri_mode r)))"

text \<open>
  The map is keyed by the trimmed key and the mode, its value is that pair, and setting a key
  again keeps its place: the values are the distinct pairs in order of first occurrence.
\<close>

definition normalizedResourceIntents :: "js_host \<Rightarrow> resource_intent list \<Rightarrow> resource_intent list" where
  "normalizedResourceIntents H vs =
     sort_by (intent_cmp H) (js_uniq (filter (\<lambda>v. ri_resourceKey v \<noteq> [])
       (map (\<lambda>v. \<lparr>ri_resourceKey = js_trim (ri_resourceKey v), ri_mode = ri_mode v\<rparr>) vs)))"

definition requires_isolation :: "work_contract \<Rightarrow> bool" where
  "requires_isolation work \<longleftrightarrow> wp_required (wc_worktreePolicy work)
     \<or> wx_workspaceMode (wc_constraints work) = Some Workspace_isolated
     \<or> wx_requireWorktree (wc_constraints work) = Some True"

definition fallbackMutationClass :: "work_contract \<Rightarrow> mutation_class" where
  "fallbackMutationClass work =
     (if wc_workKind work \<in> {Kind_read_only_review, Kind_investigation, Kind_completed_no_change,
           Kind_reconciliation, Kind_superseded} then Mut_readonly
      else if wc_workKind work \<in> {Kind_local_effect, Kind_remote_effect} then Mut_external_effect
      else if requires_isolation work then Mut_isolated_write
      else Mut_integration_write)"

definition work_semantic_scope :: "work_contract \<Rightarrow> semantic_scope option" where
  "work_semantic_scope work = Option.bind (wc_engineeringContext work) ec_semanticScope"

definition semanticScopeKeys :: "work_contract \<Rightarrow> string list" where
  "semanticScopeKeys work =
     (let declared = unitSortedStrings (coalesce (map_option ss_keys (work_semantic_scope work)) []) in
      if declared \<noteq> [] then declared
      else if truthy (opt_trim (wc_planId work)) \<and> truthy (opt_trim (wc_planStepId work))
        then [''plan-step:'' @ js_trim (the (wc_planId work)) @ '':'' @ js_trim (the (wc_planStepId work))]
      else [''work:'' @ wc_workId work])"

fun lane_of_mutation :: "mutation_class \<Rightarrow> execution_lane" where
  "lane_of_mutation Mut_readonly = Lane_read"
| "lane_of_mutation Mut_isolated_write = Lane_isolated_write"
| "lane_of_mutation Mut_integration_write = Lane_integration_write"
| "lane_of_mutation Mut_external_effect = Lane_external_effect"

definition defaultLane :: "work_contract \<Rightarrow> mutation_class \<Rightarrow> execution_lane" where
  "defaultLane work mutationClass =
     (if wc_workKind work = Kind_read_only_review then Lane_review else lane_of_mutation mutationClass)"

definition buildWorkExecutionConcurrencyContract ::
    "js_host \<Rightarrow> work_contract \<Rightarrow> concurrency_input \<Rightarrow> concurrency_contract" where
  "buildWorkExecutionConcurrencyContract H work input =
     (let mutationClass = coalesce (map_option ss_mutationClass (work_semantic_scope work)) (fallbackMutationClass work) in
      \<lparr>cn_workId = wc_workId work,
       cn_sourceRevision = (case wc_baseRevision work of Some r \<Rightarrow> Some r | None \<Rightarrow> wc_planSourceRevision work),
       cn_observedWorkUpdatedAt = wc_updatedAt work,
       cn_semanticScopeKeys = semanticScopeKeys work,
       cn_mutationClass = mutationClass,
       cn_lane = coalesce (cni_lane input) (defaultLane work mutationClass),
       cn_resourceIntents = normalizedResourceIntents H (coalesce (cni_resourceIntents input) []),
       cn_blockers = coalesce (cni_blockers input) [],
       cn_isolation = (if requires_isolation work then Iso_isolated else Iso_shared),
       cn_controllerRole = (if wc_workKind work = Kind_read_only_review then Ctl_reviewer else Ctl_mutable_owner)\<rparr>)"

section \<open>Compatibility\<close>

definition workExecutionLaneMutates :: "execution_lane \<Rightarrow> bool" where
  "workExecutionLaneMutates lane \<longleftrightarrow> lane = Lane_isolated_write \<or> lane = Lane_integration_write \<or> lane = Lane_external_effect"

definition scopesOverlap :: "concurrency_contract \<Rightarrow> concurrency_contract \<Rightarrow> string list" where
  "scopesOverlap l r = filter (\<lambda>k. k \<in> set (cn_semanticScopeKeys r)) (cn_semanticScopeKeys l)"

definition mutableResourceKeys :: "concurrency_contract \<Rightarrow> string list" where
  "mutableResourceKeys c =
     unitSortedStrings (map ri_resourceKey (filter (\<lambda>i. ri_mode i \<noteq> Res_read) (cn_resourceIntents c)))"

definition sharedMutableResourceKeys :: "concurrency_contract \<Rightarrow> concurrency_contract \<Rightarrow> string list" where
  "sharedMutableResourceKeys l r = filter (\<lambda>k. k \<in> set (mutableResourceKeys r)) (mutableResourceKeys l)"

definition invalidReviewerBlocker :: "concurrency_contract \<Rightarrow> concurrency_blocker option" where
  "invalidReviewerBlocker c =
     (if cn_controllerRole c \<noteq> Ctl_reviewer \<or> \<not> workExecutionLaneMutates (cn_lane c) \<and> mutableResourceKeys c = [] then None
      else Some \<lparr>cbl_code = Code_reviewer_mutation_forbidden, cbl_disposition = Disp_invalid, cbl_blockingWorkId = None,
        cbl_semanticScopeKeys = cn_semanticScopeKeys c, cbl_resourceKeys = mutableResourceKeys c,
        cbl_wakeTrigger = Wake_work_contract_change (cn_workId c)\<rparr>)"

definition unknown_target_blocker :: "concurrency_contract \<Rightarrow> concurrency_blocker list" where
  "unknown_target_blocker candidate =
     (if cn_lane candidate = Lane_external_effect \<and> mutableResourceKeys candidate = []
      then [\<lparr>cbl_code = Code_external_effect_target_unknown, cbl_disposition = Disp_invalid, cbl_blockingWorkId = None,
        cbl_semanticScopeKeys = cn_semanticScopeKeys candidate, cbl_resourceKeys = [],
        cbl_wakeTrigger = Wake_work_contract_change (cn_workId candidate)\<rparr>]
      else [])"

definition wait_blocker ::
    "blocker_code \<Rightarrow> concurrency_contract \<Rightarrow> string list \<Rightarrow> string list \<Rightarrow> wake_trigger \<Rightarrow> concurrency_blocker list" where
  "wait_blocker code current scopes resources wake =
     [\<lparr>cbl_code = code, cbl_disposition = Disp_wait, cbl_blockingWorkId = Some (cn_workId current),
       cbl_semanticScopeKeys = scopes, cbl_resourceKeys = resources, cbl_wakeTrigger = wake\<rparr>]"

text \<open>One turn of the loop over the active contracts: the blockers it pushes.\<close>

definition current_blockers :: "concurrency_contract \<Rightarrow> concurrency_contract \<Rightarrow> concurrency_blocker list" where
  "current_blockers candidate current =
     (if cn_workId current = cn_workId candidate then []
      else if invalidReviewerBlocker current \<noteq> None then []
      else if \<not> workExecutionLaneMutates (cn_lane current) then []
      else
        let overlap = scopesOverlap candidate current in
        if overlap \<noteq> [] then
          wait_blocker Code_same_semantic_scope_mutation current overlap [] (Wake_work_terminal (cn_workId current))
        else if cn_lane candidate = Lane_isolated_write \<and> cn_lane current = Lane_isolated_write
          \<and> cn_isolation candidate = Iso_isolated \<and> cn_isolation current = Iso_isolated then []
        else if cn_lane candidate = Lane_external_effect \<or> cn_lane current = Lane_external_effect then
          if cn_lane current = Lane_external_effect \<and> mutableResourceKeys current = [] then []
          else
            let sharedTargets = sharedMutableResourceKeys candidate current in
            if sharedTargets \<noteq> [] then
              wait_blocker Code_external_effect_target_conflict current [] sharedTargets (Wake_resource_release sharedTargets)
            else []
        else if cn_lane candidate = Lane_integration_write \<or> cn_lane current = Lane_integration_write then
          let sharedTargets = sharedMutableResourceKeys candidate current in
          if sharedTargets \<noteq> [] then
            wait_blocker Code_integration_target_conflict current [] sharedTargets (Wake_resource_release sharedTargets)
          else if cn_isolation candidate = Iso_shared \<and> cn_isolation current = Iso_shared then
            wait_blocker Code_shared_mutation_lane_conflict current [] [] (Wake_work_terminal (cn_workId current))
          else []
        else [])"

definition own_blockers :: "concurrency_contract \<Rightarrow> concurrency_blocker list" where
  "own_blockers candidate =
     (case invalidReviewerBlocker candidate of None \<Rightarrow> [] | Some b \<Rightarrow> [b]) @ unknown_target_blocker candidate"

definition evaluateWorkExecutionCompatibility ::
    "concurrency_contract \<Rightarrow> concurrency_contract list \<Rightarrow> bool \<times> concurrency_blocker list" where
  "evaluateWorkExecutionCompatibility candidate active =
     (let blockers = own_blockers candidate in
      if blockers \<noteq> [] then (False, blockers)
      else if \<not> workExecutionLaneMutates (cn_lane candidate) then (True, [])
      else
        let blockers = concat (map (current_blockers candidate) active) in
        (blockers = [], blockers))"

section \<open>The admission policy\<close>

datatype admission_mode = Adm_normal | Adm_exclusive_work | Adm_convergence

record admission_policy =
  ap_mode :: admission_mode
  ap_allowedWorkId :: "string option"
  ap_reason :: "string option"
  ap_activatedAt :: "string option"
  ap_updatedAt :: string

datatype admission_operation = Op_create | Op_continue | Op_maintenance

fun operation_str :: "admission_operation \<Rightarrow> string" where
  "operation_str Op_create = ''create''"
| "operation_str Op_continue = ''continue''"
| "operation_str Op_maintenance = ''maintenance''"

definition normalWorkAdmissionPolicy :: "string \<Rightarrow> admission_policy" where
  "normalWorkAdmissionPolicy now = \<lparr>ap_mode = Adm_normal, ap_allowedWorkId = None, ap_reason = None,
     ap_activatedAt = None, ap_updatedAt = now\<rparr>"

definition assertWorkAdmissionPolicyAllows ::
    "admission_policy \<Rightarrow> admission_operation \<Rightarrow> string option \<Rightarrow> admission_policy res" where
  "assertWorkAdmissionPolicyAllows policy operation workId =
     (if ap_mode policy = Adm_normal \<or> operation = Op_maintenance then Inr policy
      else if ap_mode policy = Adm_convergence then
        if operation \<noteq> Op_create then Inr policy else throw ''WORK_ADMISSION_BLOCKED:CONVERGENCE:operation=create''
      else if opt_trim workId = ap_allowedWorkId policy then Inr policy
      else throw (''WORK_ADMISSION_BLOCKED:P0_EXCLUSIVE_WORK:operation='' @ operation_str operation
                  @ '':allowed='' @ coalesce (ap_allowedWorkId policy) ''none''))"

definition schedulerDispatchPolicyAllowed :: "admission_policy \<Rightarrow> bool" where
  "schedulerDispatchPolicyAllowed policy \<longleftrightarrow> ap_mode policy \<noteq> Adm_exclusive_work"

end
