(* ===== verification/ConcurrencyProperties.thy ===== *)
theory ConcurrencyProperties
  imports WorkConcurrency WorkProperties
begin

text \<open>
  The compatibility of Works: when the loop pushes no blocker, its symmetry, and what holds of
  every set of Works started one after the other.
\<close>

section \<open>Blockers\<close>

lemma set_unitSortedStrings [simp]: "set (unitSortedStrings vs) = js_trim ` set vs - {[]}"
  by (simp add: unitSortedStrings_def set_trim_all)

lemma scopesOverlap_Nil: "scopesOverlap a b = [] \<longleftrightarrow> set (cn_semanticScopeKeys a) \<inter> set (cn_semanticScopeKeys b) = {}"
  by (auto simp: scopesOverlap_def filter_empty_conv)

lemma sharedKeys_Nil: "sharedMutableResourceKeys a b = [] \<longleftrightarrow> set (mutableResourceKeys a) \<inter> set (mutableResourceKeys b) = {}"
  by (auto simp: sharedMutableResourceKeys_def filter_empty_conv)

lemma own_blockers_Nil:
  "own_blockers c = [] \<longleftrightarrow> invalidReviewerBlocker c = None \<and> \<not> (cn_lane c = Lane_external_effect \<and> mutableResourceKeys c = [])"
  by (auto simp: own_blockers_def unknown_target_blocker_def split: option.splits)

text \<open>When two valid mutating contracts of different Works do not block each other.\<close>

definition lanes_apart :: "concurrency_contract \<Rightarrow> concurrency_contract \<Rightarrow> bool" where
  "lanes_apart a b \<longleftrightarrow> set (cn_semanticScopeKeys a) \<inter> set (cn_semanticScopeKeys b) = {} \<and>
     (cn_lane a = Lane_isolated_write \<and> cn_lane b = Lane_isolated_write \<or>
      set (mutableResourceKeys a) \<inter> set (mutableResourceKeys b) = {}) \<and>
     (Lane_external_effect \<notin> {cn_lane a, cn_lane b} \<and> Lane_integration_write \<in> {cn_lane a, cn_lane b} \<longrightarrow>
      Iso_isolated \<in> {cn_isolation a, cn_isolation b})"

lemma lanes_apart_sym: "lanes_apart a b \<longleftrightarrow> lanes_apart b a"
  by (auto simp: lanes_apart_def)

lemma current_blockers_Nil:
  assumes "own_blockers a = []" "own_blockers b = []"
    and "workExecutionLaneMutates (cn_lane a)" "workExecutionLaneMutates (cn_lane b)" and "cn_workId a \<noteq> cn_workId b"
  shows "current_blockers a b = [] \<longleftrightarrow> lanes_apart a b"
proof -
  have i: "cn_isolation c = Iso_shared \<longleftrightarrow> cn_isolation c \<noteq> Iso_isolated" for c by (cases "cn_isolation c") auto
  show ?thesis
    using assms
    by (cases "cn_lane a"; cases "cn_lane b")
      (auto simp: current_blockers_def own_blockers_Nil Let_def scopesOverlap_Nil sharedKeys_Nil lanes_apart_def wait_blocker_def
        workExecutionLaneMutates_def i)
qed

definition work_conflict :: "concurrency_contract \<Rightarrow> concurrency_contract \<Rightarrow> bool" where
  "work_conflict a b \<longleftrightarrow> workExecutionLaneMutates (cn_lane a) \<and> workExecutionLaneMutates (cn_lane b) \<and> \<not> lanes_apart a b"

interpretation work_ownership: ownership work_conflict cn_workId
  by unfold_locales (auto simp: work_conflict_def lanes_apart_sym)

lemma evaluate_True:
  "fst (evaluateWorkExecutionCompatibility c active) \<longleftrightarrow> own_blockers c = [] \<and>
     (workExecutionLaneMutates (cn_lane c) \<longrightarrow> (\<forall>b\<in>set active. current_blockers c b = []))"
  by (auto simp: evaluateWorkExecutionCompatibility_def Let_def)

section \<open>Starting and ending Works\<close>

text \<open>
  The active contracts change when a compatible candidate starts and when a Work ends or its
  contract is withdrawn.
\<close>

inductive activation_step :: "concurrency_contract list \<Rightarrow> concurrency_contract list \<Rightarrow> bool" where
  start_work: "fst (evaluateWorkExecutionCompatibility c active) \<Longrightarrow> activation_step active (c # active)"
| end_work: "activation_step active (filter P active)"

inductive_cases activation_stepE: "activation_step active active'"

definition active_inv :: "concurrency_contract list \<Rightarrow> bool" where
  "active_inv active \<longleftrightarrow> (\<forall>c\<in>set active. own_blockers c = []) \<and> exclusive work_conflict cn_workId (set active)"

lemma activation_inv: "active_inv active \<Longrightarrow> activation_step active active' \<Longrightarrow> active_inv active'"
proof (erule activation_stepE)
  fix c
  assume i: "active_inv active" and a: "active' = c # active" and c: "fst (evaluateWorkExecutionCompatibility c active)"
  have "\<not> work_conflict c b" if "b \<in> set active" "cn_workId b \<noteq> cn_workId c" for b
  proof (cases "workExecutionLaneMutates (cn_lane c) \<and> workExecutionLaneMutates (cn_lane b)")
    case True
    then have "lanes_apart c b"
      using c i that current_blockers_Nil [of c b] by (auto simp: evaluate_True active_inv_def)
    then show ?thesis by (simp add: work_conflict_def)
  qed (auto simp: work_conflict_def)
  then have "exclusive work_conflict cn_workId (set active \<union> {c})"
    using i by (intro work_ownership.exclusive_union [where o' = "cn_workId c"]) (auto simp: active_inv_def)
  then show "active_inv active'" using i c by (simp add: a active_inv_def evaluate_True insert_commute)
next
  fix P assume "active_inv active" "active' = filter P active"
  then show "active_inv active'"
    by (auto simp: active_inv_def intro: work_ownership.exclusive_subset)
qed

interpretation activations: invariant_steps activation_step active_inv
  by unfold_locales (rule activation_inv)

lemma active_inv_Nil: "active_inv []"
  by (simp add: active_inv_def work_ownership.exclusive_empty)

section \<open>Example contracts\<close>

definition example_contract_of :: "string \<Rightarrow> string \<Rightarrow> execution_lane \<Rightarrow> execution_isolation \<Rightarrow> string list \<Rightarrow> concurrency_contract" where
  "example_contract_of work scope lane isolation keys = \<lparr>cn_workId = work, cn_sourceRevision = None, cn_observedWorkUpdatedAt = ''1'',
     cn_semanticScopeKeys = [scope], cn_mutationClass = Mut_integration_write, cn_lane = lane,
     cn_resourceIntents = map (\<lambda>k. \<lparr>ri_resourceKey = k, ri_mode = Res_write\<rparr>) keys, cn_blockers = [],
     cn_isolation = isolation, cn_controllerRole = Ctl_mutable_owner\<rparr>"

definition example_integration :: concurrency_contract where
  "example_integration = example_contract_of ''w1'' ''scope-1'' Lane_integration_write Iso_shared [''path:a'']"

definition example_isolated :: concurrency_contract where
  "example_isolated = example_contract_of ''w2'' ''scope-2'' Lane_isolated_write Iso_isolated [''path:b'']"

lemma example_fields [simp]:
  "cn_workId (example_contract_of w s l i ks) = w" "cn_semanticScopeKeys (example_contract_of w s l i ks) = [s]"
  "cn_lane (example_contract_of w s l i ks) = l" "cn_isolation (example_contract_of w s l i ks) = i"
  "set (mutableResourceKeys (example_contract_of w s l i ks)) = js_trim ` set ks - {[]}"
  "l \<noteq> Lane_external_effect \<Longrightarrow> own_blockers (example_contract_of w s l i ks) = []"
  by (auto simp: example_contract_of_def mutableResourceKeys_def own_blockers_Nil invalidReviewerBlocker_def)

lemma example_keys [simp]: "js_trim ''path:a'' = ''path:a''" "js_trim ''path:b'' = ''path:b''"
  by (simp_all add: js_trim_id js_trimmed_def js_space_def)

lemma example_apart: "lanes_apart example_isolated example_integration"
proof -
  have "set (mutableResourceKeys example_isolated) = {''path:b''}" "set (mutableResourceKeys example_integration) = {''path:a''}"
    unfolding example_isolated_def example_integration_def by simp_all
  moreover have "''scope-2'' \<noteq> ''scope-1''" "''path:b'' \<noteq> ''path:a''" by simp_all
  ultimately show ?thesis
    unfolding lanes_apart_def by (auto simp: example_isolated_def example_integration_def)
qed

lemma example_valid [simp]:
  "own_blockers example_isolated = []" "own_blockers example_integration = []"
  "cn_workId example_isolated = ''w2''" "cn_workId example_integration = ''w1''"
  "cn_lane example_isolated = Lane_isolated_write" "cn_lane example_integration = Lane_integration_write"
  by (simp_all add: example_isolated_def example_integration_def)

lemma example_activation: "activation_step\<^sup>*\<^sup>* [] [example_isolated, example_integration]"
proof -
  have "current_blockers example_isolated example_integration = []"
    using current_blockers_Nil [of example_isolated example_integration] example_apart by (simp add: workExecutionLaneMutates_def)
  then have "fst (evaluateWorkExecutionCompatibility example_integration [])"
    "fst (evaluateWorkExecutionCompatibility example_isolated [example_integration])" by (simp_all add: evaluate_True)
  then have "activation_step [] [example_integration]" "activation_step [example_integration] [example_isolated, example_integration]"
    by (auto intro: start_work)
  then show ?thesis by (rule rtranclp.rtrancl_into_rtrancl [OF r_into_rtranclp])
qed

section \<open>Properties\<close>

text \<open>
  C27.  Works started one after the other, each only when it is compatible with those active, stay
  apart as far as both mutate: two of them never share a semantic scope; unless both are isolated
  writes they never write a common resource; and when one of them integrates (and neither is an
  external effect) at least one of the two has a checkout of its own. Two isolated writes may
  share a checkout, and a Work that does not mutate is not restricted.
\<close>

theorem active_works_are_apart:
  assumes "activation_step\<^sup>*\<^sup>* [] active" and "a \<in> set active" "b \<in> set active" and "cn_workId a \<noteq> cn_workId b"
    and "workExecutionLaneMutates (cn_lane a)" "workExecutionLaneMutates (cn_lane b)"
  shows "set (cn_semanticScopeKeys a) \<inter> set (cn_semanticScopeKeys b) = {} \<and>
     (cn_lane a = Lane_isolated_write \<and> cn_lane b = Lane_isolated_write \<or>
      set (mutableResourceKeys a) \<inter> set (mutableResourceKeys b) = {}) \<and>
     (Lane_external_effect \<notin> {cn_lane a, cn_lane b} \<and> Lane_integration_write \<in> {cn_lane a, cn_lane b} \<longrightarrow>
      Iso_isolated \<in> {cn_isolation a, cn_isolation b})"
proof -
  have "active_inv active" by (rule activations.inv_reachable [OF assms(1) active_inv_Nil])
  with assms(2-6) have "lanes_apart a b" by (auto simp: active_inv_def exclusive_def work_conflict_def)
  then show ?thesis unfolding lanes_apart_def .
qed

theorem active_works_are_apart_witness:
  "set (cn_semanticScopeKeys example_isolated) \<inter> set (cn_semanticScopeKeys example_integration) = {} \<and>
     set (mutableResourceKeys example_isolated) \<inter> set (mutableResourceKeys example_integration) = {}"
proof -
  have d: "cn_workId example_isolated \<noteq> cn_workId example_integration"
    "workExecutionLaneMutates (cn_lane example_isolated)" "workExecutionLaneMutates (cn_lane example_integration)"
    "cn_lane example_integration \<noteq> Lane_isolated_write" by (simp_all add: workExecutionLaneMutates_def)
  have m: "example_isolated \<in> set [example_isolated, example_integration]" "example_integration \<in> set [example_isolated, example_integration]"
    by simp_all
  from active_works_are_apart [OF example_activation m d(1-3)] d(4) show ?thesis by blast
qed

text \<open>
  Between contracts without a blocker of their own, compatibility does not depend on which of two
  Works came first: of two such contracts of different Works, one may start beside the other
  exactly when the other may start beside it. (A contract with a blocker of its own breaks the
  symmetry: an external effect without targets is refused as a candidate and ignored as an active
  Work.)
\<close>

theorem compatibility_is_symmetric:
  assumes "own_blockers a = []" "own_blockers b = []" and "cn_workId a \<noteq> cn_workId b"
  shows "fst (evaluateWorkExecutionCompatibility a [b]) \<longleftrightarrow> fst (evaluateWorkExecutionCompatibility b [a])"
proof (cases "workExecutionLaneMutates (cn_lane a) \<and> workExecutionLaneMutates (cn_lane b)")
  case True
  then show ?thesis
    using assms current_blockers_Nil [of a b] current_blockers_Nil [of b a] lanes_apart_sym by (auto simp: evaluate_True)
next
  case False
  have skip: "current_blockers c d = []" if "\<not> workExecutionLaneMutates (cn_lane d)" for c d
    using that by (simp add: current_blockers_def)
  show ?thesis using False assms skip by (auto simp: evaluate_True)
qed

theorem compatibility_is_symmetric_witness:
  "fst (evaluateWorkExecutionCompatibility example_isolated [example_integration])
     \<longleftrightarrow> fst (evaluateWorkExecutionCompatibility example_integration [example_isolated])"
  by (rule compatibility_is_symmetric) simp_all

text \<open>
  A reviewer never mutates: the contract of a read-only review Work, whatever lane and
  resources a caller asks for, is compatible only on a lane that does not mutate and with no
  resource it would write.
\<close>

theorem reviewers_never_mutate:
  assumes "wc_workKind work = Kind_read_only_review"
    and "c = buildWorkExecutionConcurrencyContract H work input"
    and "fst (evaluateWorkExecutionCompatibility c active)"
  shows "\<not> workExecutionLaneMutates (cn_lane c) \<and> mutableResourceKeys c = []"
proof -
  have "cn_controllerRole c = Ctl_reviewer"
    using assms(1,2) by (simp add: buildWorkExecutionConcurrencyContract_def Let_def)
  then show ?thesis using assms(3) by (auto simp: evaluate_True own_blockers_Nil invalidReviewerBlocker_def split: if_splits)
qed

definition review_work :: work_contract where
  "review_work = example_work\<lparr>wc_workKind := Kind_read_only_review\<rparr>"

theorem reviewers_never_mutate_witness:
  "\<not> workExecutionLaneMutates (cn_lane (buildWorkExecutionConcurrencyContract example_host review_work
       \<lparr>cni_lane = None, cni_resourceIntents = None, cni_blockers = None\<rparr>))"
proof -
  let ?c = "buildWorkExecutionConcurrencyContract example_host review_work \<lparr>cni_lane = None, cni_resourceIntents = None, cni_blockers = None\<rparr>"
  have k: "wc_workKind review_work = Kind_read_only_review" by (simp add: review_work_def)
  have "mutableResourceKeys ?c = []" "cn_lane ?c = Lane_review"
    by (simp_all add: buildWorkExecutionConcurrencyContract_def Let_def normalizedResourceIntents_def mutableResourceKeys_def
        unitSortedStrings_def trim_all_def defaultLane_def k)
  then have "fst (evaluateWorkExecutionCompatibility ?c [])"
    by (simp add: evaluate_True own_blockers_Nil invalidReviewerBlocker_def workExecutionLaneMutates_def)
  from reviewers_never_mutate [OF k refl this] show ?thesis by blast
qed

section \<open>Two gaps\<close>

text \<open>
  The lane of a Work comes from its declared mutation class, its isolation from its worktree
  policy.  Two Works declared as isolated writes that both run in the shared checkout fall
  through every branch: they are compatible even on the same resource.
\<close>

lemma shared_isolated_writes_never_conflict:
  "fst (evaluateWorkExecutionCompatibility
     (example_contract_of ''w1'' ''scope-1'' Lane_isolated_write Iso_shared [''path:a''])
     [example_contract_of ''w2'' ''scope-2'' Lane_isolated_write Iso_shared [''path:a'']])"
  using current_blockers_Nil [of "example_contract_of ''w1'' ''scope-1'' Lane_isolated_write Iso_shared [''path:a'']"
      "example_contract_of ''w2'' ''scope-2'' Lane_isolated_write Iso_shared [''path:a'']"]
  by (simp add: evaluate_True workExecutionLaneMutates_def lanes_apart_def)

text \<open>
  An exclusive admission policy that names no Work compares \<open>undefined\<close> with \<open>undefined\<close> and
  lets every operation through that names no Work either.
\<close>

lemma exclusive_policy_admits_anonymous:
  assumes "ap_mode policy = Adm_exclusive_work" and "ap_allowedWorkId policy = None"
  shows "assertWorkAdmissionPolicyAllows policy Op_create None = Inr policy"
  using assms by (simp add: assertWorkAdmissionPolicyAllows_def)

end
