(* ===== verification/GoalProgression.thy ===== *)
theory GoalProgression
  imports JsJson WorkTypes
begin

text \<open>
  The progress of a goal, from \<open>packages/kernel/goal/domain/types.ts\<close>,
  \<open>packages/kernel/progression/domain/types.ts\<close> and
  \<open>packages/kernel/progression/application/projector.ts\<close>: the states of requirements, plans and
  plan steps, the snapshot of lifecycle facts the projector reads, and the projection of a
  snapshot to the one decision that moves the goal on.  A snapshot property that is
  \<open>undefined\<close> is \<open>None\<close>; the properties of a snapshot object are rendered in the order of its
  interface, which is the order its one caller writes them in.
\<close>

section \<open>Requirements and plans\<close>

datatype requirement_state = RS_planned | RS_active | RS_waiting_for_user | RS_done | RS_cancelled

definition REQUIREMENT_STATES :: "requirement_state list" where
  "REQUIREMENT_STATES = [RS_planned, RS_active, RS_waiting_for_user, RS_done, RS_cancelled]"

fun requirement_state_str :: "requirement_state \<Rightarrow> string" where
  "requirement_state_str RS_planned = ''planned''"
| "requirement_state_str RS_active = ''active''"
| "requirement_state_str RS_waiting_for_user = ''waiting_for_user''"
| "requirement_state_str RS_done = ''done''"
| "requirement_state_str RS_cancelled = ''cancelled''"

fun REQUIREMENT_STATE_TRANSITIONS :: "requirement_state \<Rightarrow> requirement_state list" where
  "REQUIREMENT_STATE_TRANSITIONS RS_planned = [RS_planned, RS_active, RS_waiting_for_user, RS_cancelled]"
| "REQUIREMENT_STATE_TRANSITIONS RS_active = [RS_active, RS_waiting_for_user, RS_done, RS_cancelled]"
| "REQUIREMENT_STATE_TRANSITIONS RS_waiting_for_user =
     [RS_waiting_for_user, RS_planned, RS_active, RS_done, RS_cancelled]"
| "REQUIREMENT_STATE_TRANSITIONS RS_done = [RS_done, RS_cancelled]"
| "REQUIREMENT_STATE_TRANSITIONS RS_cancelled = [RS_cancelled]"

datatype plan_status =
    PS_draft | PS_inspecting | PS_reviewing | PS_approved | PS_executing | PS_replanning | PS_verifying
  | PS_ready_to_finalize | PS_finalized | PS_superseded | PS_cancelled | PS_invalidated_by_drift

definition PLAN_CONTRACT_STATUSES :: "plan_status list" where
  "PLAN_CONTRACT_STATUSES =
     [PS_draft, PS_inspecting, PS_reviewing, PS_approved, PS_executing, PS_replanning, PS_verifying,
      PS_ready_to_finalize, PS_finalized, PS_superseded, PS_cancelled, PS_invalidated_by_drift]"

fun plan_status_str :: "plan_status \<Rightarrow> string" where
  "plan_status_str PS_draft = ''draft''"
| "plan_status_str PS_inspecting = ''inspecting''"
| "plan_status_str PS_reviewing = ''reviewing''"
| "plan_status_str PS_approved = ''approved''"
| "plan_status_str PS_executing = ''executing''"
| "plan_status_str PS_replanning = ''replanning''"
| "plan_status_str PS_verifying = ''verifying''"
| "plan_status_str PS_ready_to_finalize = ''ready_to_finalize''"
| "plan_status_str PS_finalized = ''finalized''"
| "plan_status_str PS_superseded = ''superseded''"
| "plan_status_str PS_cancelled = ''cancelled''"
| "plan_status_str PS_invalidated_by_drift = ''invalidated_by_drift''"

definition TERMINAL_PLAN_CONTRACT_STATUSES :: "plan_status list" where
  "TERMINAL_PLAN_CONTRACT_STATUSES = [PS_finalized, PS_superseded, PS_cancelled, PS_invalidated_by_drift]"

definition isTerminalPlanContractStatus :: "plan_status \<Rightarrow> bool" where
  "isTerminalPlanContractStatus status \<longleftrightarrow> status \<in> set TERMINAL_PLAN_CONTRACT_STATUSES"

datatype step_status = SS_pending | SS_ready | SS_executing | SS_validating | SS_completed

definition PLAN_STEP_STATUSES :: "step_status list" where
  "PLAN_STEP_STATUSES = [SS_pending, SS_ready, SS_executing, SS_validating, SS_completed]"

fun step_status_str :: "step_status \<Rightarrow> string" where
  "step_status_str SS_pending = ''pending''"
| "step_status_str SS_ready = ''ready''"
| "step_status_str SS_executing = ''executing''"
| "step_status_str SS_validating = ''validating''"
| "step_status_str SS_completed = ''completed''"

section \<open>The snapshot\<close>

record requirement_snapshot =
  rq_requirementId :: string
  rq_state :: requirement_state
  rq_revision :: int

record step_snapshot =
  sp_id :: string
  sp_dependencies :: "string list"
  sp_status :: step_status
  sp_workId :: "string option"

record plan_snapshot =
  pl_planId :: string
  pl_requirementId :: "string option"
  pl_sourceRevision :: string
  pl_status :: plan_status
  pl_steps :: "step_snapshot list"

record work_snapshot =
  ws_workId :: string
  ws_requirementId :: "string option"
  ws_planId :: "string option"
  ws_planStepId :: "string option"
  ws_status :: work_contract_status
  ws_baseRevision :: "string option"
  ws_completionTargetRevision :: "string option"

record schedule_snapshot =
  sn_scheduleId :: string
  sn_revision :: int
  sn_enabled :: bool
  sn_nextEligibleAt :: "string option"
  sn_pausedReason :: "string option"

datatype round_status =
    Round_pending_release | Round_dispatching | Round_dispatched | Round_claimed | Round_waiting
  | Round_waiting_for_user | Round_goal_complete | Round_handed_off | Round_blocked | Round_failed

fun round_status_str :: "round_status \<Rightarrow> string" where
  "round_status_str Round_pending_release = ''pending_release''"
| "round_status_str Round_dispatching = ''dispatching''"
| "round_status_str Round_dispatched = ''dispatched''"
| "round_status_str Round_claimed = ''claimed''"
| "round_status_str Round_waiting = ''waiting''"
| "round_status_str Round_waiting_for_user = ''waiting_for_user''"
| "round_status_str Round_goal_complete = ''goal_complete''"
| "round_status_str Round_handed_off = ''handed_off''"
| "round_status_str Round_blocked = ''blocked''"
| "round_status_str Round_failed = ''failed''"

record round_snapshot =
  rd_originWorkId :: string
  rd_status :: round_status
  rd_roundCount :: int

record progression_snapshot =
  sh_requirement :: requirement_snapshot
  sh_plan :: plan_snapshot
  sh_currentSourceRevision :: string
  sh_works :: "work_snapshot list"
  sh_controllerRounds :: "round_snapshot list option"
  sh_schedules :: "schedule_snapshot list option"

section \<open>The decision\<close>

datatype progression_action =
    Act_continue_current_work | Act_wait_current_work | Act_request_controller_acceptance
  | Act_request_requirement_acceptance | Act_start_next_plan_step | Act_wait_dependency
  | Act_request_replan | Act_wait_for_user | Act_goal_complete | Act_blocked_invalid_state

fun progression_action_str :: "progression_action \<Rightarrow> string" where
  "progression_action_str Act_continue_current_work = ''continue_current_work''"
| "progression_action_str Act_wait_current_work = ''wait_current_work''"
| "progression_action_str Act_request_controller_acceptance = ''request_controller_acceptance''"
| "progression_action_str Act_request_requirement_acceptance = ''request_requirement_acceptance''"
| "progression_action_str Act_start_next_plan_step = ''start_next_plan_step''"
| "progression_action_str Act_wait_dependency = ''wait_dependency''"
| "progression_action_str Act_request_replan = ''request_replan''"
| "progression_action_str Act_wait_for_user = ''wait_for_user''"
| "progression_action_str Act_goal_complete = ''goal_complete''"
| "progression_action_str Act_blocked_invalid_state = ''blocked_invalid_state''"

datatype progression_reason =
    Why_requirement_already_done | Why_requirement_waiting_for_user | Why_requirement_cancelled
  | Why_plan_requirement_mismatch | Why_plan_source_drift | Why_plan_replan_required
  | Why_plan_terminal_invalid | Why_plan_not_executable | Why_plan_empty | Why_plan_step_id_duplicate
  | Why_plan_dependency_invalid | Why_plan_step_work_missing | Why_work_identity_mismatch
  | Why_terminal_work_reconciliation_required | Why_work_failed_replan | Why_work_blocked
  | Why_round_in_flight | Why_round_waiting_for_user | Why_round_terminal_contradiction
  | Why_work_ready_to_continue | Why_machine_complete | Why_plan_finalized
  | Why_plan_completion_contradiction | Why_next_plan_step_ready | Why_plan_dependency_wait
  | Why_multiple_ready_plan_steps | Why_readiness_not_projected

fun progression_reason_str :: "progression_reason \<Rightarrow> string" where
  "progression_reason_str Why_requirement_already_done = ''REQUIREMENT_ALREADY_DONE''"
| "progression_reason_str Why_requirement_waiting_for_user = ''REQUIREMENT_WAITING_FOR_USER''"
| "progression_reason_str Why_requirement_cancelled = ''REQUIREMENT_CANCELLED''"
| "progression_reason_str Why_plan_requirement_mismatch = ''PLAN_REQUIREMENT_MISMATCH''"
| "progression_reason_str Why_plan_source_drift = ''PLAN_SOURCE_DRIFT''"
| "progression_reason_str Why_plan_replan_required = ''PLAN_REPLAN_REQUIRED''"
| "progression_reason_str Why_plan_terminal_invalid = ''PLAN_TERMINAL_INVALID''"
| "progression_reason_str Why_plan_not_executable = ''PLAN_NOT_EXECUTABLE''"
| "progression_reason_str Why_plan_empty = ''PLAN_EMPTY''"
| "progression_reason_str Why_plan_step_id_duplicate = ''PLAN_STEP_ID_DUPLICATE''"
| "progression_reason_str Why_plan_dependency_invalid = ''PLAN_DEPENDENCY_INVALID''"
| "progression_reason_str Why_plan_step_work_missing = ''PLAN_STEP_WORK_MISSING''"
| "progression_reason_str Why_work_identity_mismatch = ''WORK_IDENTITY_MISMATCH''"
| "progression_reason_str Why_terminal_work_reconciliation_required = ''PLAN_STEP_TERMINAL_WORK_RECONCILIATION_REQUIRED''"
| "progression_reason_str Why_work_failed_replan = ''WORK_FAILED_REPLAN''"
| "progression_reason_str Why_work_blocked = ''WORK_BLOCKED''"
| "progression_reason_str Why_round_in_flight = ''CONTROLLER_ROUND_IN_FLIGHT''"
| "progression_reason_str Why_round_waiting_for_user = ''CONTROLLER_ROUND_WAITING_FOR_USER''"
| "progression_reason_str Why_round_terminal_contradiction = ''CONTROLLER_ROUND_TERMINAL_CONTRADICTION''"
| "progression_reason_str Why_work_ready_to_continue = ''WORK_READY_TO_CONTINUE''"
| "progression_reason_str Why_machine_complete = ''MACHINE_COMPLETE_REQUIRES_CONTROLLER_ACCEPTANCE''"
| "progression_reason_str Why_plan_finalized = ''PLAN_FINALIZED_REQUIRES_REQUIREMENT_ACCEPTANCE''"
| "progression_reason_str Why_plan_completion_contradiction = ''PLAN_COMPLETION_STATE_CONTRADICTION''"
| "progression_reason_str Why_next_plan_step_ready = ''NEXT_PLAN_STEP_READY''"
| "progression_reason_str Why_plan_dependency_wait = ''PLAN_DEPENDENCY_WAIT''"
| "progression_reason_str Why_multiple_ready_plan_steps = ''MULTIPLE_READY_PLAN_STEPS''"
| "progression_reason_str Why_readiness_not_projected = ''PLAN_STEP_READINESS_NOT_PROJECTED''"

record decision_detail =
  dt_planStepId :: "string option"
  dt_workId :: "string option"
  dt_dependencyStepIds :: "string list option"

record progression_decision =
  gd_kind :: progression_action
  gd_reasonCode :: progression_reason
  gd_requirementId :: string
  gd_planId :: string
  gd_detail :: decision_detail
  gd_idempotencyKey :: string

section \<open>The stable rendering of a snapshot\<close>

definition requirement_json :: "requirement_snapshot \<Rightarrow> json" where
  "requirement_json r = JObj [(''requirementId'', JStr (rq_requirementId r)),
     (''state'', JStr (requirement_state_str (rq_state r))), (''revision'', JNum (rq_revision r))]"

definition step_json :: "step_snapshot \<Rightarrow> json" where
  "step_json s = JObj ([(''id'', JStr (sp_id s)), (''dependencies'', json_strings (sp_dependencies s)),
     (''status'', JStr (step_status_str (sp_status s)))] @ json_opt ''workId'' JStr (sp_workId s))"

definition plan_json :: "plan_snapshot \<Rightarrow> json" where
  "plan_json p = JObj ((''planId'', JStr (pl_planId p)) # json_opt ''requirementId'' JStr (pl_requirementId p) @
     [(''sourceRevision'', JStr (pl_sourceRevision p)), (''status'', JStr (plan_status_str (pl_status p))),
      (''steps'', JArr (map step_json (pl_steps p)))])"

definition work_snapshot_json :: "work_snapshot \<Rightarrow> json" where
  "work_snapshot_json w = JObj ((''workId'', JStr (ws_workId w)) # json_opt ''requirementId'' JStr (ws_requirementId w) @
     json_opt ''planId'' JStr (ws_planId w) @ json_opt ''planStepId'' JStr (ws_planStepId w) @
     (''status'', JStr (status_str (ws_status w))) # json_opt ''baseRevision'' JStr (ws_baseRevision w) @
     json_opt ''completionTargetRevision'' JStr (ws_completionTargetRevision w))"

definition round_json :: "round_snapshot \<Rightarrow> json" where
  "round_json r = JObj [(''originWorkId'', JStr (rd_originWorkId r)),
     (''status'', JStr (round_status_str (rd_status r))), (''roundCount'', JNum (rd_roundCount r))]"

definition schedule_snapshot_json :: "schedule_snapshot \<Rightarrow> json" where
  "schedule_snapshot_json s = JObj ([(''scheduleId'', JStr (sn_scheduleId s)), (''revision'', JNum (sn_revision s)),
     (''enabled'', JBool (sn_enabled s))] @ json_opt ''nextEligibleAt'' JStr (sn_nextEligibleAt s) @
     json_opt ''pausedReason'' JStr (sn_pausedReason s))"

definition work_order :: "js_host \<Rightarrow> work_snapshot \<Rightarrow> work_snapshot \<Rightarrow> int" where
  "work_order H l r = locale_compare H (ws_workId l) (ws_workId r)"

definition round_order :: "js_host \<Rightarrow> round_snapshot \<Rightarrow> round_snapshot \<Rightarrow> int" where
  "round_order H l r =
     cmp_then (locale_compare H (rd_originWorkId l) (rd_originWorkId r)) (rd_roundCount l - rd_roundCount r)"

definition schedule_order :: "js_host \<Rightarrow> schedule_snapshot \<Rightarrow> schedule_snapshot \<Rightarrow> int" where
  "schedule_order H l r = locale_compare H (sn_scheduleId l) (sn_scheduleId r)"

definition stableSnapshot :: "js_host \<Rightarrow> progression_snapshot \<Rightarrow> json" where
  "stableSnapshot H s = JObj [
     (''requirement'', requirement_json (sh_requirement s)),
     (''plan'', plan_json (sh_plan s)),
     (''currentSourceRevision'', JStr (sh_currentSourceRevision s)),
     (''works'', JArr (map work_snapshot_json (sort_by (work_order H) (sh_works s)))),
     (''controllerRounds'', JArr (map round_json (sort_by (round_order H) (coalesce (sh_controllerRounds s) [])))),
     (''schedules'', JArr (map schedule_snapshot_json (sort_by (schedule_order H) (coalesce (sh_schedules s) []))))]"

definition detail_json :: "progression_action \<Rightarrow> progression_reason \<Rightarrow> decision_detail \<Rightarrow> json" where
  "detail_json kind reason d = JObj ([(''kind'', JStr (progression_action_str kind)),
     (''reasonCode'', JStr (progression_reason_str reason))] @ json_opt ''planStepId'' JStr (dt_planStepId d) @
     json_opt ''workId'' JStr (dt_workId d) @ json_opt ''dependencyStepIds'' json_strings (dt_dependencyStepIds d))"

definition identityInput :: "js_host \<Rightarrow> progression_snapshot \<Rightarrow> progression_action \<Rightarrow> progression_reason \<Rightarrow>
    decision_detail \<Rightarrow> json" where
  "identityInput H s kind reason d =
     JObj [(''snapshot'', stableSnapshot H s), (''decision'', detail_json kind reason d)]"

text \<open>The detail of a decision: the plan step, the Work and the dependencies it names.\<close>

definition detail :: "string option \<Rightarrow> string option \<Rightarrow> string list option \<Rightarrow> decision_detail" where
  "detail step work deps = \<lparr>dt_planStepId = step, dt_workId = work, dt_dependencyStepIds = deps\<rparr>"

definition no_detail :: decision_detail where
  "no_detail = detail None None None"

definition decision :: "js_host \<Rightarrow> progression_snapshot \<Rightarrow> progression_action \<Rightarrow> progression_reason \<Rightarrow>
    decision_detail \<Rightarrow> progression_decision" where
  "decision H s kind reason d =
     \<lparr>gd_kind = kind, gd_reasonCode = reason, gd_requirementId = rq_requirementId (sh_requirement s),
      gd_planId = pl_planId (sh_plan s), gd_detail = d,
      gd_idempotencyKey = ''goal-progression:v1:'' @
        take 32 (sha256_hex H (json_stringify (identityInput H s kind reason d)))\<rparr>"

section \<open>The projection\<close>

definition EXECUTABLE_PLAN_STATUSES :: "plan_status set" where
  "EXECUTABLE_PLAN_STATUSES = {PS_approved, PS_executing, PS_verifying, PS_ready_to_finalize}"

definition ACTIVE_WORK_STATUSES :: "work_contract_status set" where
  "ACTIVE_WORK_STATUSES = {Status_open, Status_running, Status_ready}"

definition IN_FLIGHT_ROUND_STATUSES :: "round_status set" where
  "IN_FLIGHT_ROUND_STATUSES =
     {Round_pending_release, Round_dispatching, Round_dispatched, Round_claimed, Round_waiting}"

definition latestRoundForWork :: "round_snapshot list option \<Rightarrow> string \<Rightarrow> round_snapshot option" where
  "latestRoundForWork rounds workId =
     foldl (\<lambda>latest round. case latest of None \<Rightarrow> Some round
         | Some l \<Rightarrow> if rd_roundCount round > rd_roundCount l then Some round else latest)
       None (filter (\<lambda>round. rd_originWorkId round = workId) (coalesce rounds []))"

definition boundWork :: "progression_snapshot \<Rightarrow> step_snapshot \<Rightarrow> work_snapshot option" where
  "boundWork s step =
     (if \<not> truthy (sp_workId step) then None
      else find (\<lambda>work. Some (ws_workId work) = sp_workId step) (sh_works s))"

fun invalid_from :: "string set \<Rightarrow> step_snapshot list \<Rightarrow> (string \<times> string list) option" where
  "invalid_from ids [] = None"
| "invalid_from ids (step # steps) =
     (let missing = filter (\<lambda>d. d = sp_id step \<or> d \<notin> ids) (sp_dependencies step) in
      if missing \<noteq> [] then Some (sp_id step, missing) else invalid_from ids steps)"

definition invalidDependency :: "step_snapshot list \<Rightarrow> (string \<times> string list) option" where
  "invalidDependency steps = invalid_from (set (map sp_id steps)) steps"

definition in_progress :: "step_snapshot \<Rightarrow> bool" where
  "in_progress step \<longleftrightarrow> sp_status step = SS_executing \<or> sp_status step = SS_validating"

text \<open>\<open>validatingDelivery\<close>: a step in progress whose completed Work took the source from the
  revision of the plan to the current one.\<close>

definition delivers :: "progression_snapshot \<Rightarrow> step_snapshot \<Rightarrow> bool" where
  "delivers s step =
     (case boundWork s step of None \<Rightarrow> False
      | Some work \<Rightarrow> ws_status work = Status_completed
          \<and> ws_baseRevision work = Some (pl_sourceRevision (sh_plan s))
          \<and> ws_completionTargetRevision work = Some (sh_currentSourceRevision s))"

definition expectedDeliveryAdvance :: "progression_snapshot \<Rightarrow> bool" where
  "expectedDeliveryAdvance s \<longleftrightarrow>
     find (delivers s) (filter in_progress (pl_steps (sh_plan s))) \<noteq> None
     \<and> pl_sourceRevision (sh_plan s) \<noteq> sh_currentSourceRevision s"

text \<open>What a step in progress calls for, one turn of the loop over the steps.\<close>

definition step_decision :: "js_host \<Rightarrow> progression_snapshot \<Rightarrow> step_snapshot \<Rightarrow> progression_decision option" where
  "step_decision H s step =
     (case boundWork s step of
        None \<Rightarrow> Some (decision H s Act_blocked_invalid_state Why_plan_step_work_missing
                   (detail (Some (sp_id step)) (sp_workId step) None))
      | Some work \<Rightarrow>
          let d = detail (Some (sp_id step)) (Some (ws_workId work)) None in
          if ws_planId work \<noteq> Some (pl_planId (sh_plan s)) \<or> ws_planStepId work \<noteq> Some (sp_id step)
             \<or> truthy (ws_requirementId work) \<and> ws_requirementId work \<noteq> Some (rq_requirementId (sh_requirement s))
          then Some (decision H s Act_blocked_invalid_state Why_work_identity_mismatch d)
          else if ws_status work \<in> {Status_completed, Status_failed, Status_cancelled} \<and> sp_status step = SS_executing
          then Some (decision H s Act_blocked_invalid_state Why_terminal_work_reconciliation_required d)
          else if ws_status work \<in> {Status_failed, Status_cancelled}
          then Some (decision H s Act_request_replan Why_work_failed_replan d)
          else if ws_status work = Status_blocked
          then Some (decision H s Act_wait_current_work Why_work_blocked d)
          else if ws_status work = Status_completed
          then Some (decision H s Act_request_controller_acceptance Why_machine_complete d)
          else if ws_status work \<in> ACTIVE_WORK_STATUSES
          then (let round = map_option rd_status (latestRoundForWork (sh_controllerRounds s) (ws_workId work)) in
                if round = Some Round_waiting_for_user
                then Some (decision H s Act_wait_for_user Why_round_waiting_for_user d)
                else if round = Some Round_goal_complete
                then Some (decision H s Act_blocked_invalid_state Why_round_terminal_contradiction d)
                else if (\<exists>st\<in>IN_FLIGHT_ROUND_STATUSES \<union> {Round_blocked, Round_failed}. round = Some st)
                then Some (decision H s Act_wait_current_work Why_round_in_flight d)
                else Some (decision H s Act_continue_current_work Why_work_ready_to_continue d))
          else None)"

fun steps_decision :: "js_host \<Rightarrow> progression_snapshot \<Rightarrow> step_snapshot list \<Rightarrow> progression_decision option" where
  "steps_decision H s [] = None"
| "steps_decision H s (step # steps) =
     (if \<not> in_progress step then steps_decision H s steps
      else case step_decision H s step of Some d \<Rightarrow> Some d | None \<Rightarrow> steps_decision H s steps)"

text \<open>What remains when no step is in progress.\<close>

definition next_step_decision :: "js_host \<Rightarrow> progression_snapshot \<Rightarrow> progression_decision" where
  "next_step_decision H s =
     (let steps = pl_steps (sh_plan s);
          completedIds = set (map sp_id (filter (\<lambda>st. sp_status st = SS_completed) steps));
          dependencyReady = filter (\<lambda>st. sp_status st \<noteq> SS_completed \<and> (\<forall>d\<in>set (sp_dependencies st). d \<in> completedIds)) steps;
          explicitReady = filter (\<lambda>st. sp_status st = SS_ready) dependencyReady in
      if length explicitReady = 1
      then decision H s Act_start_next_plan_step Why_next_plan_step_ready (detail (Some (sp_id (hd explicitReady))) None None)
      else if length explicitReady > 1
      then decision H s Act_blocked_invalid_state Why_multiple_ready_plan_steps
             (detail None None (Some (map sp_id explicitReady)))
      else case find (\<lambda>st. sp_status st = SS_pending) dependencyReady of
        Some st \<Rightarrow> decision H s Act_blocked_invalid_state Why_readiness_not_projected (detail (Some (sp_id st)) None None)
      | None \<Rightarrow>
          let blocked = find (\<lambda>st. sp_status st \<noteq> SS_completed) steps in
          decision H s Act_wait_dependency Why_plan_dependency_wait
            (detail (map_option sp_id blocked) None
               (Some (case blocked of None \<Rightarrow> []
                  | Some st \<Rightarrow> filter (\<lambda>d. d \<notin> completedIds) (sp_dependencies st)))))"

definition projectAutonomousGoalProgression :: "js_host \<Rightarrow> progression_snapshot \<Rightarrow> progression_decision" where
  "projectAutonomousGoalProgression H s =
     (let requirement = sh_requirement s; plan = sh_plan s; steps = pl_steps plan in
      if rq_state requirement = RS_done then decision H s Act_goal_complete Why_requirement_already_done no_detail
      else if rq_state requirement = RS_waiting_for_user then
        decision H s Act_wait_for_user Why_requirement_waiting_for_user no_detail
      else if rq_state requirement = RS_cancelled then
        decision H s Act_blocked_invalid_state Why_requirement_cancelled no_detail
      else if truthy (pl_requirementId plan) \<and> pl_requirementId plan \<noteq> Some (rq_requirementId requirement) then
        decision H s Act_blocked_invalid_state Why_plan_requirement_mismatch no_detail
      else if pl_sourceRevision plan \<noteq> sh_currentSourceRevision s \<and> \<not> expectedDeliveryAdvance s then
        decision H s Act_request_replan Why_plan_source_drift no_detail
      else if pl_status plan = PS_replanning \<or> pl_status plan = PS_invalidated_by_drift then
        decision H s Act_request_replan Why_plan_replan_required no_detail
      else if pl_status plan = PS_finalized then
        (if \<not> (\<forall>step\<in>set steps. sp_status step = SS_completed)
         then decision H s Act_blocked_invalid_state Why_plan_completion_contradiction no_detail
         else decision H s Act_request_requirement_acceptance Why_plan_finalized no_detail)
      else if pl_status plan = PS_superseded \<or> pl_status plan = PS_cancelled then
        decision H s Act_blocked_invalid_state Why_plan_terminal_invalid no_detail
      else if pl_status plan \<notin> EXECUTABLE_PLAN_STATUSES then
        decision H s Act_blocked_invalid_state Why_plan_not_executable no_detail
      else if steps = [] then decision H s Act_blocked_invalid_state Why_plan_empty no_detail
      else if length (js_uniq (map sp_id steps)) \<noteq> length steps then
        decision H s Act_blocked_invalid_state Why_plan_step_id_duplicate no_detail
      else case invalidDependency steps of
        Some (stepId, dependencyIds) \<Rightarrow>
          decision H s Act_blocked_invalid_state Why_plan_dependency_invalid
            (detail (Some stepId) None (Some dependencyIds))
      | None \<Rightarrow>
        case steps_decision H s steps of Some d \<Rightarrow> d
        | None \<Rightarrow>
          if \<forall>step\<in>set steps. sp_status step = SS_completed
          then decision H s Act_blocked_invalid_state Why_plan_completion_contradiction no_detail
          else next_step_decision H s)"

end
