(* ===== verification/GoalFacts.thy ===== *)
theory GoalFacts
  imports GoalProgression Contracts "HOL-Library.Multiset"
begin

text \<open>
  Facts about the projection of goal progress: what each decision presupposes, and the laws of
  sorting that make a rendering independent of the order its entries are listed in.
\<close>

named_theorems progression_simps \<open>evaluation of decisions\<close>

lemma decision_fields [simp, progression_simps]:
  "gd_kind (decision H s k r d) = k" "gd_reasonCode (decision H s k r d) = r" "gd_detail (decision H s k r d) = d"
  "gd_requirementId (decision H s k r d) = rq_requirementId (sh_requirement s)"
  "gd_planId (decision H s k r d) = pl_planId (sh_plan s)"
  by (simp_all add: decision_def)

lemma detail_fields [simp, progression_simps]:
  "dt_planStepId (detail a b c) = a" "dt_workId (detail a b c) = b" "dt_dependencyStepIds (detail a b c) = c"
  by (simp_all add: detail_def)

section \<open>Steps in progress\<close>

text \<open>A step in progress always calls for something, whatever its Work is doing.\<close>

lemma step_decision_total: "step_decision H s step \<noteq> None"
proof (cases "boundWork s step")
  case (Some work)
  then show ?thesis
    by (cases "ws_status work") (simp_all add: step_decision_def Let_def ACTIVE_WORK_STATUSES_def)
qed (simp add: step_decision_def)

lemma step_decision_kind:
  "step_decision H s step = Some d \<Longrightarrow>
     gd_kind d \<in> {Act_blocked_invalid_state, Act_request_replan, Act_wait_current_work,
       Act_request_controller_acceptance, Act_wait_for_user, Act_continue_current_work}"
  unfolding step_decision_def Let_def by (auto split: option.splits if_splits)

lemma steps_decision_None: "steps_decision H s steps = None \<longleftrightarrow> (\<forall>st\<in>set steps. \<not> in_progress st)"
  by (induction steps) (auto simp: step_decision_total split: option.splits)

lemma steps_decision_Some:
  "steps_decision H s steps = Some d \<Longrightarrow> \<exists>step\<in>set steps. in_progress step \<and> step_decision H s step = Some d"
  by (induction steps) (auto split: if_splits option.splits)

lemma steps_decision_kind:
  "steps_decision H s steps = Some d \<Longrightarrow>
     gd_kind d \<in> {Act_blocked_invalid_state, Act_request_replan, Act_wait_current_work,
       Act_request_controller_acceptance, Act_wait_for_user, Act_continue_current_work}"
  using steps_decision_Some step_decision_kind by blast

lemma expected_advance_in_progress:
  assumes "expectedDeliveryAdvance s"
  shows "\<exists>step\<in>set (pl_steps (sh_plan s)). in_progress step \<and> delivers s step"
proof -
  obtain step where "find (delivers s) (filter in_progress (pl_steps (sh_plan s))) = Some step"
    using assms by (auto simp: expectedDeliveryAdvance_def)
  then have "step \<in> set (filter in_progress (pl_steps (sh_plan s))) \<and> delivers s step"
    by (metis find_Some_iff nth_mem)
  then show ?thesis by auto
qed

lemma invalid_from_None:
  "invalid_from ids steps = None \<longleftrightarrow> (\<forall>st\<in>set steps. \<forall>d\<in>set (sp_dependencies st). d \<noteq> sp_id st \<and> d \<in> ids)"
  by (induction steps) (auto simp: Let_def filter_empty_conv)

lemma js_uniq_length: "length (js_uniq xs) = length xs \<longleftrightarrow> distinct xs"
  by (simp add: js_uniq_def) (metis distinct_rev length_rev length_remdups_eq remdups_id_iff_distinct)

section \<open>What a plan that moves on looks like\<close>

text \<open>The checks an executable plan has passed when its next step is considered.\<close>

definition progressing :: "progression_snapshot \<Rightarrow> bool" where
  "progressing s \<longleftrightarrow>
     rq_state (sh_requirement s) \<in> {RS_planned, RS_active} \<and>
     (truthy (pl_requirementId (sh_plan s)) \<longrightarrow> pl_requirementId (sh_plan s) = Some (rq_requirementId (sh_requirement s))) \<and>
     pl_sourceRevision (sh_plan s) = sh_currentSourceRevision s \<and>
     pl_status (sh_plan s) \<in> EXECUTABLE_PLAN_STATUSES \<and>
     distinct (map sp_id (pl_steps (sh_plan s))) \<and>
     (\<forall>st\<in>set (pl_steps (sh_plan s)). \<forall>d\<in>set (sp_dependencies st). d \<noteq> sp_id st \<and> d \<in> sp_id ` set (pl_steps (sh_plan s))) \<and>
     (\<forall>st\<in>set (pl_steps (sh_plan s)). \<not> in_progress st) \<and>
     (\<exists>st\<in>set (pl_steps (sh_plan s)). sp_status st \<noteq> SS_completed)"

lemma next_step_kind:
  "gd_kind (next_step_decision H s) \<in> {Act_start_next_plan_step, Act_blocked_invalid_state, Act_wait_dependency}"
  unfolding next_step_decision_def Let_def by (auto split: option.splits)

text \<open>A decision of another kind than a guard's has passed the guard.\<close>

lemma guarded:
  "(if b then decision H s k r d else x) = y \<Longrightarrow> gd_kind y \<noteq> k \<Longrightarrow> \<not> b \<and> x = y"
  by (auto split: if_splits)

lemma guarded_twice:
  "(if b then (if c then decision H s k r d else decision H s k' r' d') else x) = y \<Longrightarrow> gd_kind y \<noteq> k \<Longrightarrow> gd_kind y \<noteq> k'
     \<Longrightarrow> \<not> b \<and> x = y"
  by (auto split: if_splits)

lemma project_progressing:
  assumes K: "gd_kind (projectAutonomousGoalProgression H s) \<in> {Act_start_next_plan_step, Act_wait_dependency}"
  shows "progressing s \<and> projectAutonomousGoalProgression H s = next_step_decision H s"
proof -
  let ?y = "projectAutonomousGoalProgression H s" and ?steps = "pl_steps (sh_plan s)"
  have k: "gd_kind ?y \<noteq> Act_goal_complete" "gd_kind ?y \<noteq> Act_wait_for_user" "gd_kind ?y \<noteq> Act_blocked_invalid_state"
    "gd_kind ?y \<noteq> Act_request_replan" "gd_kind ?y \<noteq> Act_request_requirement_acceptance"
    using K by auto
  note c1 = guarded [OF projectAutonomousGoalProgression_def [of H s, unfolded Let_def, symmetric] k(1)]
  note c2 = guarded [OF conjunct2 [OF c1] k(2)]
  note c3 = guarded [OF conjunct2 [OF c2] k(3)]
  note c4 = guarded [OF conjunct2 [OF c3] k(3)]
  note c5 = guarded [OF conjunct2 [OF c4] k(4)]
  note c6 = guarded [OF conjunct2 [OF c5] k(4)]
  note c7 = guarded_twice [OF conjunct2 [OF c6] k(3,5)]
  note c8 = guarded [OF conjunct2 [OF c7] k(3)]
  note c9 = guarded [OF conjunct2 [OF c8] k(3)]
  note c10 = guarded [OF conjunct2 [OF c9] k(3)]
  note c11 = guarded [OF conjunct2 [OF c10] k(3)]
  have dep: "invalidDependency ?steps = None"
    using conjunct2 [OF c11, symmetric] k(3) by (auto split: option.splits prod.splits)
  note d1 = conjunct2 [OF c11, unfolded dep option.case]
  have steps: "steps_decision H s ?steps = None"
  proof (cases "steps_decision H s ?steps")
    case (Some d)
    with d1 have "?y = d" by simp
    with steps_decision_kind [OF Some] K show ?thesis by auto
  qed simp
  note d2 = guarded [OF d1 [unfolded steps option.case] k(3)]
  have idle: "\<forall>st\<in>set ?steps. \<not> in_progress st" using steps by (simp add: steps_decision_None)
  then have "\<not> expectedDeliveryAdvance s" using expected_advance_in_progress by blast
  with c5 have "pl_sourceRevision (sh_plan s) = sh_currentSourceRevision s" by blast
  moreover have "rq_state (sh_requirement s) \<in> {RS_planned, RS_active}"
    using conjunct1 [OF c1] conjunct1 [OF c2] conjunct1 [OF c3] by (cases "rq_state (sh_requirement s)") auto
  moreover have "distinct (map sp_id ?steps)" using conjunct1 [OF c11] js_uniq_length [of "map sp_id ?steps"] by simp
  ultimately have "progressing s" using conjunct1 [OF c4] conjunct1 [OF c9] conjunct1 [OF d2] dep idle
    by (simp add: progressing_def invalidDependency_def invalid_from_None)
  with conjunct2 [OF d2] show ?thesis by simp
qed

section \<open>The next step\<close>

abbreviation completed_ids :: "step_snapshot list \<Rightarrow> string set" where
  "completed_ids steps \<equiv> set (map sp_id (filter (\<lambda>st. sp_status st = SS_completed) steps))"

definition startable :: "step_snapshot list \<Rightarrow> step_snapshot list" where
  "startable steps = filter (\<lambda>st. sp_status st = SS_ready)
     (filter (\<lambda>st. sp_status st \<noteq> SS_completed \<and> (\<forall>d\<in>set (sp_dependencies st). d \<in> completed_ids steps)) steps)"

lemma set_startable:
  "st \<in> set (startable steps) \<longleftrightarrow>
     st \<in> set steps \<and> sp_status st = SS_ready \<and> set (sp_dependencies st) \<subseteq> completed_ids steps"
  by (auto simp: startable_def)

lemma next_step_start:
  assumes "gd_kind (next_step_decision H s) = Act_start_next_plan_step"
  shows "\<exists>st. startable (pl_steps (sh_plan s)) = [st] \<and> gd_detail (next_step_decision H s) = detail (Some (sp_id st)) None None"
proof -
  let ?r = "startable (pl_steps (sh_plan s))"
  have "length ?r = 1"
  proof (rule ccontr)
    assume n: "length ?r \<noteq> 1"
    have "gd_kind (next_step_decision H s) \<noteq> Act_start_next_plan_step"
      unfolding next_step_decision_def Let_def startable_def [symmetric]
      by (simp only: n if_False) (simp split: option.splits)
    with assms show False by simp
  qed
  then obtain st where "?r = [st]" by (auto simp: length_Suc_conv)
  moreover have "next_step_decision H s =
      decision H s Act_start_next_plan_step Why_next_plan_step_ready (detail (Some (sp_id (hd ?r))) None None)"
    using \<open>length ?r = 1\<close> unfolding next_step_decision_def Let_def startable_def [symmetric] by (simp only: refl if_True)
  ultimately show ?thesis by simp
qed

lemma next_step_wait:
  assumes "gd_kind (next_step_decision H s) = Act_wait_dependency" and "st \<in> set (pl_steps (sh_plan s))"
    and "sp_status st = SS_ready \<or> sp_status st = SS_pending"
  shows "\<exists>d\<in>set (sp_dependencies st). d \<notin> completed_ids (pl_steps (sh_plan s))"
proof (rule ccontr)
  let ?steps = "pl_steps (sh_plan s)"
  let ?open = "filter (\<lambda>st. sp_status st \<noteq> SS_completed \<and> (\<forall>d\<in>set (sp_dependencies st). d \<in> completed_ids ?steps)) ?steps"
  assume "\<not> ?thesis"
  then have st: "st \<in> set ?open" using assms(2,3) by auto
  show False
  proof (cases "startable ?steps = []")
    case True
    with st assms(3) have "sp_status st = SS_pending" unfolding startable_def by (auto simp: filter_empty_conv)
    with st have "find (\<lambda>st. sp_status st = SS_pending) ?open \<noteq> None" by (auto simp: find_None_iff)
    then obtain p where p: "find (\<lambda>st. sp_status st = SS_pending) ?open = Some p" by blast
    have "gd_kind (next_step_decision H s) = Act_blocked_invalid_state"
      unfolding next_step_decision_def Let_def startable_def [symmetric] True p by simp
    with assms(1) show False by simp
  next
    case False
    then have "length (startable ?steps) = 1 \<or> length (startable ?steps) > 1"
      by (cases "startable ?steps") (auto simp: Suc_le_eq)
    then have "gd_kind (next_step_decision H s) \<in> {Act_start_next_plan_step, Act_blocked_invalid_state}"
      unfolding next_step_decision_def Let_def startable_def [symmetric] by auto
    with assms(1) show False by auto
  qed
qed

text \<open>The dependencies of a plan: from the step depended upon to the step that waits.\<close>

definition dependency_relation :: "step_snapshot list \<Rightarrow> (string \<times> string) set" where
  "dependency_relation steps = {(d, sp_id st) | d st. st \<in> set steps \<and> d \<in> set (sp_dependencies st)}"

lemma finite_dependency_relation: "finite (dependency_relation steps)"
proof -
  have "dependency_relation steps \<subseteq> (\<Union>st\<in>set steps. set (sp_dependencies st) \<times> {sp_id st})"
    by (auto simp: dependency_relation_def)
  then show ?thesis by (rule finite_subset) auto
qed

text \<open>In an acyclic plan some unfinished step has only finished dependencies.\<close>

lemma acyclic_step:
  assumes "acyclic (dependency_relation steps)" and "st \<in> set steps" and "sp_id st \<in> X"
  shows "\<exists>u\<in>set steps. sp_id u \<in> X \<and> (\<forall>d\<in>set (sp_dependencies u). d \<notin> X \<inter> sp_id ` set steps)"
proof -
  have wf: "wf (dependency_relation steps)"
    by (rule finite_acyclic_wf [OF finite_dependency_relation assms(1)])
  have "sp_id st \<in> X \<inter> sp_id ` set steps" using assms(2,3) by auto
  from wfE_min [OF wf this] obtain z where z: "z \<in> X \<inter> sp_id ` set steps"
    and min: "\<And>y. (y, z) \<in> dependency_relation steps \<Longrightarrow> y \<notin> X \<inter> sp_id ` set steps" by blast
  from z obtain u where u: "u \<in> set steps" "sp_id u = z" by auto
  have "(d, z) \<in> dependency_relation steps" if "d \<in> set (sp_dependencies u)" for d
    using that u by (auto simp: dependency_relation_def)
  with u z min show ?thesis by blast
qed

lemma acyclic_never_waits:
  assumes "progressing s" and "acyclic (dependency_relation (pl_steps (sh_plan s)))"
  shows "gd_kind (next_step_decision H s) \<noteq> Act_wait_dependency"
proof
  let ?steps = "pl_steps (sh_plan s)" and ?X = "- completed_ids (pl_steps (sh_plan s))"
  assume wait: "gd_kind (next_step_decision H s) = Act_wait_dependency"
  from assms(1) obtain st where st: "st \<in> set ?steps" "sp_status st \<noteq> SS_completed" and d: "distinct (map sp_id ?steps)"
    and closed: "\<forall>st\<in>set ?steps. set (sp_dependencies st) \<subseteq> sp_id ` set ?steps"
    and idle: "\<forall>st\<in>set ?steps. \<not> in_progress st"
    unfolding progressing_def by (elim conjE bexE) blast
  have open_id: "sp_id u \<in> ?X \<longleftrightarrow> sp_status u \<noteq> SS_completed" if "u \<in> set ?steps" for u
    using that d by (auto simp: distinct_map dest: inj_onD)
  obtain u where u: "u \<in> set ?steps" "sp_id u \<in> ?X" "\<forall>d\<in>set (sp_dependencies u). d \<notin> ?X \<inter> sp_id ` set ?steps"
    using acyclic_step [OF assms(2) st(1), of ?X] open_id [OF st(1)] st(2) by blast
  then have "sp_status u = SS_ready \<or> sp_status u = SS_pending"
    using open_id idle by (cases "sp_status u") (auto simp: in_progress_def)
  from next_step_wait [OF wait u(1) this] u closed show False by blast
qed

section \<open>Requirement level decisions\<close>

lemma kind_neI:
  "kd \<noteq> k \<Longrightarrow> gd_kind (decision H s kd r d) \<noteq> k"
  "gd_kind x \<noteq> k \<Longrightarrow> gd_kind y \<noteq> k \<Longrightarrow> gd_kind (if b then x else y) \<noteq> k"
  "gd_kind x \<noteq> k \<Longrightarrow> (\<And>a. v = Some a \<Longrightarrow> gd_kind (f a) \<noteq> k) \<Longrightarrow> gd_kind (case v of None \<Rightarrow> x | Some a \<Rightarrow> f a) \<noteq> k"
  by (auto split: option.splits)

lemma project_goal_complete:
  "gd_kind (projectAutonomousGoalProgression H s) = Act_goal_complete \<longleftrightarrow> rq_state (sh_requirement s) = RS_done"
proof
  assume K: "gd_kind (projectAutonomousGoalProgression H s) = Act_goal_complete"
  show "rq_state (sh_requirement s) = RS_done"
  proof (rule ccontr)
    assume n: "rq_state (sh_requirement s) \<noteq> RS_done"
    have m: "gd_kind d \<noteq> Act_goal_complete" if "steps_decision H s (pl_steps (sh_plan s)) = Some d" for d
      using steps_decision_kind [OF that] by auto
    have l: "gd_kind (next_step_decision H s) \<noteq> Act_goal_complete" using next_step_kind [of H s] by auto
    have "gd_kind (projectAutonomousGoalProgression H s) \<noteq> Act_goal_complete"
      unfolding projectAutonomousGoalProgression_def Let_def if_not_P [OF n]
      by (intro kind_neI) (simp_all add: m l split: prod.split)
    with K show False by simp
  qed
qed (simp add: projectAutonomousGoalProgression_def Let_def)

lemma project_requirement_acceptance:
  "gd_kind (projectAutonomousGoalProgression H s) = Act_request_requirement_acceptance \<longleftrightarrow>
     rq_state (sh_requirement s) \<in> {RS_planned, RS_active} \<and>
     (pl_requirementId (sh_plan s) \<in> {None, Some [], Some (rq_requirementId (sh_requirement s))}) \<and>
     pl_sourceRevision (sh_plan s) = sh_currentSourceRevision s \<and> pl_status (sh_plan s) = PS_finalized \<and>
     (\<forall>step\<in>set (pl_steps (sh_plan s)). sp_status step = SS_completed)" (is "?k \<longleftrightarrow> ?c")
proof
  assume ?c
  then show ?k by (auto simp: projectAutonomousGoalProgression_def Let_def)
next
  assume K: ?k
  let ?y = "projectAutonomousGoalProgression H s"
  have k: "gd_kind ?y \<noteq> Act_goal_complete" "gd_kind ?y \<noteq> Act_wait_for_user" "gd_kind ?y \<noteq> Act_blocked_invalid_state"
    "gd_kind ?y \<noteq> Act_request_replan"
    using K by auto
  note c1 = guarded [OF projectAutonomousGoalProgression_def [of H s, unfolded Let_def, symmetric] k(1)]
  note c2 = guarded [OF conjunct2 [OF c1] k(2)]
  note c3 = guarded [OF conjunct2 [OF c2] k(3)]
  note c4 = guarded [OF conjunct2 [OF c3] k(3)]
  note c5 = guarded [OF conjunct2 [OF c4] k(4)]
  note c6 = guarded [OF conjunct2 [OF c5] k(4)]
  have s: "gd_kind d \<noteq> Act_request_requirement_acceptance" if "steps_decision H s (pl_steps (sh_plan s)) = Some d" for d
    using steps_decision_kind [OF that] by auto
  have n: "gd_kind (next_step_decision H s) \<noteq> Act_request_requirement_acceptance" using next_step_kind [of H s] by auto
  have f: "pl_status (sh_plan s) = PS_finalized"
  proof (rule ccontr)
    assume "pl_status (sh_plan s) \<noteq> PS_finalized"
    with conjunct2 [OF c6, symmetric] K s n show False
      by (simp split: option.splits prod.splits if_splits)
  qed
  have done': "\<forall>step\<in>set (pl_steps (sh_plan s)). sp_status step = SS_completed"
    using conjunct2 [OF c6, symmetric] K f by (simp split: if_splits)
  then have "\<not> expectedDeliveryAdvance s" using expected_advance_in_progress by (fastforce simp: in_progress_def)
  with conjunct1 [OF c1] conjunct1 [OF c2] conjunct1 [OF c3] conjunct1 [OF c4] conjunct1 [OF c5] f done' show ?c
    by (cases "rq_state (sh_requirement s)"; cases "pl_requirementId (sh_plan s)") auto
qed

section \<open>Independence of the listing order\<close>

lemma mset_insert_by [simp]: "mset (insert_by cmp x ys) = add_mset x (mset ys)"
  by (induction ys) auto

lemma mset_sort_by [simp]: "mset (sort_by cmp xs) = mset xs"
  by (induction xs) auto

lemma sorted_by_unique:
  assumes "consistent_cmp cmp" and "\<forall>x\<in>set xs. \<forall>y\<in>set xs. cmp x y = 0 \<longrightarrow> x = y"
    and "sorted_by cmp xs" and "sorted_by cmp ys" and "mset xs = mset ys"
  shows "xs = ys"
  using assms(2-)
proof (induction xs arbitrary: ys)
  case (Cons x xs)
  then obtain y zs where ys: "ys = y # zs" by (cases ys) auto
  have set: "set (x # xs) = set ys" using Cons.prems(4) by (rule mset_eq_setD)
  have "x = y"
  proof (rule ccontr)
    assume "x \<noteq> y"
    then have "x \<in> set zs" "y \<in> set xs" using set ys by auto
    then have le: "cmp x y \<le> 0" "cmp y x \<le> 0" using Cons.prems(2,3) ys by auto
    then have "cmp x y = 0" using consistent_cmp_flip [OF assms(1), of x y] by linarith
    with Cons.prems(1) \<open>y \<in> set xs\<close> \<open>x \<noteq> y\<close> show False by auto
  qed
  then show ?case using Cons ys by auto
qed simp

lemma sort_by_cong:
  assumes "consistent_cmp cmp" and "\<forall>x\<in>set xs. \<forall>y\<in>set xs. cmp x y = 0 \<longrightarrow> x = y" and "mset xs = mset ys"
  shows "sort_by cmp xs = sort_by cmp ys"
  by (rule sorted_by_unique [OF assms(1)]) (use assms in \<open>simp_all add: sorted_sort_by\<close>)

lemma find_cong_mset:
  assumes "mset xs = mset ys" and "\<And>x y. x \<in> set xs \<Longrightarrow> y \<in> set xs \<Longrightarrow> P x \<Longrightarrow> P y \<Longrightarrow> x = y"
  shows "find P xs = find P ys"
proof -
  have s: "set xs = set ys" using assms(1) by (rule mset_eq_setD)
  have f: "\<exists>x\<in>set zs. P x \<and> find P zs = Some x" if "\<exists>x\<in>set zs. P x" for zs
    using that by (induction zs) auto
  show ?thesis
  proof (cases "\<exists>x\<in>set xs. P x")
    case True
    with f [of xs] f [of ys] s assms(2) show ?thesis by metis
  next
    case False
    then have "find P xs = None" "find P ys = None" using s by (auto simp: find_None_iff)
    then show ?thesis by simp
  qed
qed

text \<open>The newest round of a Work has the greatest count, whatever the order.\<close>

definition newer_round :: "round_snapshot option \<Rightarrow> round_snapshot \<Rightarrow> round_snapshot option" where
  "newer_round latest r = (case latest of None \<Rightarrow> Some r
     | Some l \<Rightarrow> if rd_roundCount r > rd_roundCount l then Some r else latest)"

lemma latest_fold: "latestRoundForWork rounds w = foldl newer_round None (filter (\<lambda>r. rd_originWorkId r = w) (coalesce rounds []))"
  unfolding latestRoundForWork_def newer_round_def ..

lemma foldl_newer_None: "foldl newer_round o0 xs = None \<longleftrightarrow> o0 = None \<and> xs = []"
  by (induction xs arbitrary: o0) (auto simp: newer_round_def split: option.splits)

lemma foldl_newer_Some:
  "foldl newer_round o0 xs = Some r \<Longrightarrow>
     (r \<in> set xs \<or> o0 = Some r) \<and> (\<forall>x\<in>set xs \<union> set_option o0. rd_roundCount x \<le> rd_roundCount r)"
proof (induction xs arbitrary: o0)
  case (Cons x xs)
  from Cons.IH [of "newer_round o0 x"] Cons.prems show ?case
    by (cases o0) (auto simp: newer_round_def split: if_splits)
qed simp

lemma latest_round_cong:
  assumes m: "mset (coalesce rs []) = mset (coalesce rs' [])"
    and u: "\<forall>x\<in>set (coalesce rs []). \<forall>y\<in>set (coalesce rs []).
       rd_originWorkId x = rd_originWorkId y \<and> rd_roundCount x = rd_roundCount y \<longrightarrow> x = y"
  shows "latestRoundForWork rs w = latestRoundForWork rs' w"
proof -
  let ?f = "filter (\<lambda>r. rd_originWorkId r = w)" and ?g = "foldl newer_round None"
  have s: "set (?f (coalesce rs [])) = set (?f (coalesce rs' []))"
    using mset_eq_setD [OF m] by auto
  have "?g (?f (coalesce rs [])) = ?g (?f (coalesce rs' []))"
  proof (cases "?g (?f (coalesce rs []))")
    case None
    then have "?f (coalesce rs []) = []" by (simp only: foldl_newer_None)
    then have "?f (coalesce rs' []) = []" using s by (metis empty_set set_empty)
    with None show ?thesis by simp
  next
    case (Some a)
    have "a \<in> set (?f (coalesce rs []))" using foldl_newer_Some [OF Some] by simp
    then have "?f (coalesce rs' []) \<noteq> []" unfolding s by (metis empty_iff empty_set)
    then obtain b where b: "?g (?f (coalesce rs' [])) = Some b" by (meson foldl_newer_None not_None_eq)
    note A = foldl_newer_Some [OF Some] and B = foldl_newer_Some [OF b]
    have ab: "a \<in> set (?f (coalesce rs []))" "b \<in> set (?f (coalesce rs []))" using A B s by auto
    then have "rd_roundCount a = rd_roundCount b" using A B s by (metis Un_iff antisym)
    moreover have "a \<in> set (coalesce rs [])" "b \<in> set (coalesce rs [])" "rd_originWorkId a = rd_originWorkId b"
      using ab by auto
    ultimately have "a = b" using u by blast
    with Some b show ?thesis by simp
  qed
  then show ?thesis by (simp only: latest_fold)
qed

section \<open>Decisions are their identity\<close>

definition decides :: "js_host \<Rightarrow> progression_snapshot \<Rightarrow> progression_decision \<Rightarrow> bool" where
  "decides H s x \<longleftrightarrow> (\<exists>k r d. x = decision H s k r d)"

lemma decidesI: "decides H s (decision H s k r d)"
  "decides H s x \<Longrightarrow> decides H s y \<Longrightarrow> decides H s (if b then x else y)"
  "decides H s x \<Longrightarrow> (\<And>a. decides H s (f a)) \<Longrightarrow> decides H s (case v of None \<Rightarrow> x | Some a \<Rightarrow> f a)"
  by (auto simp: decides_def split: option.splits)

lemma next_step_decides: "decides H s (next_step_decision H s)"
  unfolding next_step_decision_def Let_def by (intro decidesI)

lemma step_decision_decides: "step_decision H s step = Some x \<Longrightarrow> decides H s x"
  unfolding step_decision_def Let_def by (auto simp: decides_def split: option.splits if_splits)

lemma project_decides: "decides H s (projectAutonomousGoalProgression H s)"
proof -
  have steps: "decides H s x" if "steps_decision H s (pl_steps (sh_plan s)) = Some x" for x
    using that steps_decision_Some step_decision_decides by blast
  have "decides H s (case steps_decision H s (pl_steps (sh_plan s)) of Some d \<Rightarrow> d
      | None \<Rightarrow> if \<forall>step\<in>set (pl_steps (sh_plan s)). sp_status step = SS_completed
          then decision H s Act_blocked_invalid_state Why_plan_completion_contradiction no_detail
          else next_step_decision H s)"
    using steps by (auto split: option.splits intro: decidesI next_step_decides)
  then show ?thesis
    unfolding projectAutonomousGoalProgression_def Let_def
    by (cases "invalidDependency (pl_steps (sh_plan s))") (simp_all add: decidesI split: prod.splits)
qed

lemma project_as_decision:
  "projectAutonomousGoalProgression H s =
     (let y = projectAutonomousGoalProgression H s in decision H s (gd_kind y) (gd_reasonCode y) (gd_detail y))"
  using project_decides [of H s] by (auto simp: decides_def Let_def)

text \<open>The renderings of the enumerations and records are injective.\<close>

lemma enum_str_inj:
  "requirement_state_str a = requirement_state_str b \<longleftrightarrow> a = b"
  "step_status_str c = step_status_str d \<longleftrightarrow> c = d"
  "plan_status_str e = plan_status_str f \<longleftrightarrow> e = f"
  "progression_action_str g = progression_action_str h \<longleftrightarrow> g = h"
proof -
  show "requirement_state_str a = requirement_state_str b \<longleftrightarrow> a = b" by (cases a; cases b; simp)
  show "step_status_str c = step_status_str d \<longleftrightarrow> c = d" by (cases c; cases d; simp)
  show "plan_status_str e = plan_status_str f \<longleftrightarrow> e = f" by (cases e; cases f; simp)
  show "progression_action_str g = progression_action_str h \<longleftrightarrow> g = h" by (cases g; cases h; simp)
qed

lemma reason_str_inj: "progression_reason_str a = progression_reason_str b \<longleftrightarrow> a = b"
  by (cases a; cases b; simp)

lemma requirement_json_inj: "requirement_json a = requirement_json b \<Longrightarrow> a = b"
  by (cases a; cases b) (simp add: requirement_json_def enum_str_inj)

lemma json_strings_eq: "json_strings xs = json_strings ys \<longleftrightarrow> xs = ys"
  by (metis json_strings_inj)

lemma inj_json_con [simp]: "inj JStr" "inj json_strings"
  by (simp_all add: inj_def json_strings_eq del: json.inject(4)) 

lemma step_json_inj: "step_json a = step_json b \<Longrightarrow> a = b"
  by (cases a; cases b) (simp add: step_json_def enum_str_inj json_opt_eq inj_map_eq_map)

lemma plan_json_inj:
  assumes "plan_json a = plan_json b"
  shows "a = b"
proof -
  have "inj step_json" by (rule injI) (rule step_json_inj)
  then show ?thesis using assms
    by (cases a; cases b) (simp add: plan_json_def json_opt_app json_opt_eq enum_str_inj inj_map_eq_map)
qed

lemma detail_json_inj: "detail_json k r d = detail_json k' r' d' \<Longrightarrow> k = k' \<and> r = r' \<and> d = d'"
  by (cases d; cases d') (simp add: detail_json_def json_opt_app json_opt_eq enum_str_inj reason_str_inj)

lemma identity_input_inj:
  assumes "identityInput H s k r d = identityInput H s' k' r' d'"
  shows "k = k' \<and> r = r' \<and> d = d' \<and> sh_requirement s = sh_requirement s' \<and> sh_plan s = sh_plan s'
     \<and> sh_currentSourceRevision s = sh_currentSourceRevision s'"
  using assms detail_json_inj requirement_json_inj plan_json_inj
  by (simp add: identityInput_def stableSnapshot_def) blast

section \<open>Reordered snapshots\<close>

lemma consistent_cmp_vimage: "consistent_cmp c \<Longrightarrow> consistent_cmp (\<lambda>x y. c (f x) (f y))"
  unfolding consistent_cmp_def by blast

lemma consistent_orders:
  assumes "host_collates H"
  shows "consistent_cmp (work_order H)" "consistent_cmp (round_order H)" "consistent_cmp (schedule_order H)"
proof -
  have c: "consistent_cmp (locale_compare H)" using assms by (simp add: host_collates_def)
  have d: "consistent_cmp (\<lambda>a b. a - b :: int)" by (rule consistent_cmpI) auto
  show "consistent_cmp (work_order H)" "consistent_cmp (schedule_order H)"
    unfolding work_order_def schedule_order_def by (rule consistent_cmp_vimage [OF c])+
  show "consistent_cmp (round_order H)"
    unfolding round_order_def by (rule consistent_cmp_then [OF c d])
qed

text \<open>Two snapshots that list the same facts, each fact once, in different orders.\<close>

definition same_facts :: "progression_snapshot \<Rightarrow> progression_snapshot \<Rightarrow> bool" where
  "same_facts s s' \<longleftrightarrow>
     sh_requirement s = sh_requirement s' \<and> sh_plan s = sh_plan s' \<and>
     sh_currentSourceRevision s = sh_currentSourceRevision s' \<and>
     mset (sh_works s) = mset (sh_works s') \<and>
     mset (coalesce (sh_controllerRounds s) []) = mset (coalesce (sh_controllerRounds s') []) \<and>
     mset (coalesce (sh_schedules s) []) = mset (coalesce (sh_schedules s') [])"

definition keyed_facts :: "progression_snapshot \<Rightarrow> bool" where
  "keyed_facts s \<longleftrightarrow>
     distinct (map ws_workId (sh_works s)) \<and>
     distinct (map (\<lambda>r. (rd_originWorkId r, rd_roundCount r)) (coalesce (sh_controllerRounds s) [])) \<and>
     distinct (map sn_scheduleId (coalesce (sh_schedules s) []))"

text \<open>The host orders identifiers consistently and tells different ones apart.\<close>

definition reordered :: "js_host \<Rightarrow> progression_snapshot \<Rightarrow> progression_snapshot \<Rightarrow> bool" where
  "reordered H s s' \<longleftrightarrow> host_collates H \<and> (\<forall>a b. locale_compare H a b = 0 \<longrightarrow> a = b) \<and> same_facts s s' \<and> keyed_facts s"

lemma keyed_eq: "distinct (map f xs) \<Longrightarrow> x \<in> set xs \<Longrightarrow> y \<in> set xs \<Longrightarrow> f x = f y \<Longrightarrow> x = y"
  by (auto simp: distinct_map dest: inj_onD)

lemma reorderedD:
  assumes "reordered H s s'"
  shows "host_collates H" "locale_compare H a b = 0 \<Longrightarrow> a = b"
    "sh_requirement s' = sh_requirement s" "sh_plan s' = sh_plan s" "sh_currentSourceRevision s' = sh_currentSourceRevision s"
    "mset (sh_works s) = mset (sh_works s')"
    "mset (coalesce (sh_controllerRounds s) []) = mset (coalesce (sh_controllerRounds s') [])"
    "mset (coalesce (sh_schedules s) []) = mset (coalesce (sh_schedules s') [])"
    "distinct (map ws_workId (sh_works s))" "distinct (map sn_scheduleId (coalesce (sh_schedules s) []))"
    "distinct (map (\<lambda>r. (rd_originWorkId r, rd_roundCount r)) (coalesce (sh_controllerRounds s) []))"
  using assms by (simp_all add: reordered_def same_facts_def keyed_facts_def)

lemma stable_same:
  assumes r: "reordered H s s'"
  shows "stableSnapshot H s = stableSnapshot H s'"
proof -
  have "sort_by (work_order H) (sh_works s) = sort_by (work_order H) (sh_works s')"
    by (intro sort_by_cong consistent_orders reorderedD [OF r] ballI impI)
      (rule keyed_eq [OF reorderedD(9) [OF r]], assumption+, simp add: work_order_def reorderedD(2) [OF r])
  moreover have "sort_by (schedule_order H) (coalesce (sh_schedules s) []) = sort_by (schedule_order H) (coalesce (sh_schedules s') [])"
    by (intro sort_by_cong consistent_orders reorderedD [OF r] ballI impI)
      (rule keyed_eq [OF reorderedD(10) [OF r]], assumption+, simp add: schedule_order_def reorderedD(2) [OF r])
  moreover have "sort_by (round_order H) (coalesce (sh_controllerRounds s) []) = sort_by (round_order H) (coalesce (sh_controllerRounds s') [])"
    by (intro sort_by_cong consistent_orders reorderedD [OF r] ballI impI)
      (rule keyed_eq [OF reorderedD(11) [OF r]], assumption+,
       auto simp: round_order_def cmp_then_def reorderedD(2) [OF r] split: if_splits)
  ultimately show ?thesis by (simp add: stableSnapshot_def reorderedD [OF r])
qed

lemma decision_same: "reordered H s s' \<Longrightarrow> decision H s = decision H s'"
  by (simp add: fun_eq_iff decision_def identityInput_def stable_same reorderedD)

lemma bound_work_same:
  assumes r: "reordered H s s'"
  shows "boundWork s = boundWork s'"
proof
  fix step :: step_snapshot
  have "find (\<lambda>work. Some (ws_workId work) = sp_workId step) (sh_works s)
      = find (\<lambda>work. Some (ws_workId work) = sp_workId step) (sh_works s')"
    by (rule find_cong_mset [OF reorderedD(6) [OF r]]) (erule (1) keyed_eq [OF reorderedD(9) [OF r]], metis option.inject)
  then show "boundWork s step = boundWork s' step" by (simp add: boundWork_def)
qed

lemma latest_round_same:
  assumes r: "reordered H s s'"
  shows "latestRoundForWork (sh_controllerRounds s) = latestRoundForWork (sh_controllerRounds s')"
  by (rule ext, rule latest_round_cong [OF reorderedD(7) [OF r]])
    (intro ballI impI, erule (1) keyed_eq [OF reorderedD(11) [OF r]], simp)

lemma steps_decision_same:
  assumes r: "reordered H s s'"
  shows "steps_decision H s steps = steps_decision H s' steps"
proof -
  have "step_decision H s step = step_decision H s' step" for step
    unfolding step_decision_def Let_def decision_same [OF r] bound_work_same [OF r] latest_round_same [OF r] reorderedD [OF r] ..
  then show ?thesis by (induction steps) (simp_all split: option.splits)
qed

lemma next_step_same: "reordered H s s' \<Longrightarrow> next_step_decision H s = next_step_decision H s'"
  unfolding next_step_decision_def Let_def by (simp only: decision_same reorderedD)

lemma expected_advance_same:
  assumes r: "reordered H s s'"
  shows "expectedDeliveryAdvance s = expectedDeliveryAdvance s'"
proof -
  have "delivers s = delivers s'"
    unfolding fun_eq_iff delivers_def bound_work_same [OF r] reorderedD(3-5) [OF r] by simp
  then show ?thesis by (simp add: expectedDeliveryAdvance_def reorderedD [OF r])
qed

lemma project_same:
  assumes r: "reordered H s s'"
  shows "projectAutonomousGoalProgression H s = projectAutonomousGoalProgression H s'"
  unfolding projectAutonomousGoalProgression_def Let_def reorderedD(3-5) [OF r] decision_same [OF r]
    steps_decision_same [OF r] next_step_same [OF r] expected_advance_same [OF r] ..

end
