(* ===== verification/GoalProperties.thy ===== *)
theory GoalProperties
  imports GoalFacts ExampleHost
begin

text \<open>
  What the projection of goal progress guarantees: a step is started only when it is the one
  that may start, a goal is complete only when its requirement is, an acyclic plan never waits
  for itself, and the decision with its replay identity is a function of the facts alone.
\<close>

interpretation requirement_states: transition_table REQUIREMENT_STATE_TRANSITIONS
proof
  fix s show "s \<in> set (REQUIREMENT_STATE_TRANSITIONS s)" by (cases s) simp_all
qed

section \<open>A concrete goal\<close>

definition example_step :: "string \<Rightarrow> string list \<Rightarrow> step_status \<Rightarrow> string option \<Rightarrow> step_snapshot" where
  "example_step i deps status work = \<lparr>sp_id = i, sp_dependencies = deps, sp_status = status, sp_workId = work\<rparr>"

definition example_work :: "string \<Rightarrow> string \<Rightarrow> work_contract_status \<Rightarrow> work_snapshot" where
  "example_work w step status = \<lparr>ws_workId = w, ws_requirementId = None, ws_planId = Some ''p'', ws_planStepId = Some step,
     ws_status = status, ws_baseRevision = Some ''r1'', ws_completionTargetRevision = None\<rparr>"

definition example_goal :: "requirement_state \<Rightarrow> plan_status \<Rightarrow> step_snapshot list \<Rightarrow> work_snapshot list \<Rightarrow> progression_snapshot" where
  "example_goal state status steps works =
     \<lparr>sh_requirement = \<lparr>rq_requirementId = ''q'', rq_state = state, rq_revision = 1\<rparr>,
      sh_plan = \<lparr>pl_planId = ''p'', pl_requirementId = Some ''q'', pl_sourceRevision = ''r1'', pl_status = status, pl_steps = steps\<rparr>,
      sh_currentSourceRevision = ''r1'', sh_works = works, sh_controllerRounds = None, sh_schedules = None\<rparr>"

definition example_chain :: "step_snapshot list" where
  "example_chain = [example_step ''a'' [] SS_completed (Some ''w1''), example_step ''b'' [''a''] SS_ready None,
     example_step ''c'' [''b''] SS_pending None]"

definition example_cycle :: "step_snapshot list" where
  "example_cycle = [example_step ''a'' [''b''] SS_pending None, example_step ''b'' [''a''] SS_pending None]"

lemmas example_defs = example_goal_def example_step_def example_chain_def example_cycle_def

lemma example_chain_next:
  "next_step_decision H (example_goal st ps example_chain works) =
     decision H (example_goal st ps example_chain works) Act_start_next_plan_step Why_next_plan_step_ready
       (detail (Some ''b'') None None)"
proof -
  have c: "completed_ids example_chain = {''a''}" by (auto simp: example_defs)
  have "startable example_chain = [example_step ''b'' [''a''] SS_ready None]"
    unfolding startable_def c by (simp add: example_defs)
  moreover have "pl_steps (sh_plan (example_goal st ps example_chain works)) = example_chain" by (simp add: example_goal_def)
  ultimately show ?thesis
    unfolding next_step_decision_def Let_def startable_def [symmetric] by (simp add: example_step_def)
qed

lemma example_reordered:
  "reordered example_host
     (example_goal st ps steps [example_work ''w1'' ''a'' Status_completed, example_work ''w0'' ''z'' Status_open])
     (example_goal st ps steps [example_work ''w0'' ''z'' Status_open, example_work ''w1'' ''a'' Status_completed])"
  by (simp add: reordered_def example_host_collates, simp add: example_host_def unit_cmp_def same_facts_def keyed_facts_def
      example_goal_def example_work_def)

lemma example_chain_starts:
  "projectAutonomousGoalProgression H (example_goal RS_active PS_executing example_chain works) =
     decision H (example_goal RS_active PS_executing example_chain works) Act_start_next_plan_step Why_next_plan_step_ready
       (detail (Some ''b'') None None)"
  using example_chain_next [of H RS_active PS_executing works]
  by (simp add: projectAutonomousGoalProgression_def example_defs EXECUTABLE_PLAN_STATUSES_def js_uniq_def
      invalidDependency_def in_progress_def)

section \<open>Properties\<close>

text \<open>
  C30.  A plan step is started only when it may run: the requirement is open, the plan is
  executable and stands on the current source, no step is in progress, the step is marked
  ready with every dependency completed, and no other step is in that position.
\<close>

theorem step_started_only_when_ready:
  assumes "gd_kind (projectAutonomousGoalProgression H s) = Act_start_next_plan_step"
  shows "rq_state (sh_requirement s) \<in> {RS_planned, RS_active} \<and>
     pl_status (sh_plan s) \<in> {PS_approved, PS_executing, PS_verifying, PS_ready_to_finalize} \<and>
     pl_sourceRevision (sh_plan s) = sh_currentSourceRevision s \<and>
     {st \<in> set (pl_steps (sh_plan s)). sp_status st \<in> {SS_executing, SS_validating}} = {} \<and>
     (\<exists>step\<in>set (pl_steps (sh_plan s)).
        dt_planStepId (gd_detail (projectAutonomousGoalProgression H s)) = Some (sp_id step) \<and>
        {st \<in> set (pl_steps (sh_plan s)). sp_status st = SS_ready \<and>
           set (sp_dependencies st) \<subseteq> sp_id ` {c \<in> set (pl_steps (sh_plan s)). sp_status c = SS_completed}} = {step})"
proof -
  let ?steps = "pl_steps (sh_plan s)"
  have p: "progressing s" "projectAutonomousGoalProgression H s = next_step_decision H s"
    using project_progressing [of H s] assms by auto
  obtain st where st: "startable ?steps = [st]"
    "gd_detail (next_step_decision H s) = detail (Some (sp_id st)) None None"
    using next_step_start [of H s] assms p(2) by auto
  have c: "completed_ids ?steps = sp_id ` {c \<in> set ?steps. sp_status c = SS_completed}" by auto
  have "{u \<in> set ?steps. sp_status u = SS_ready \<and> set (sp_dependencies u) \<subseteq> completed_ids ?steps} = set (startable ?steps)"
    using set_startable [of _ ?steps] by blast
  with st have "{u \<in> set ?steps. sp_status u = SS_ready \<and> set (sp_dependencies u) \<subseteq> completed_ids ?steps} = {st}" by simp
  moreover from this have "st \<in> set ?steps" by blast
  ultimately show ?thesis using p st(2) unfolding progressing_def EXECUTABLE_PLAN_STATUSES_def in_progress_def c by auto
qed

theorem step_started_only_when_ready_witness:
  "\<exists>step\<in>set example_chain. Some ''b'' = Some (sp_id step) \<and>
     {st \<in> set example_chain. sp_status st = SS_ready \<and>
        set (sp_dependencies st) \<subseteq> sp_id ` {c \<in> set example_chain. sp_status c = SS_completed}} = {step}"
proof -
  let ?s = "example_goal RS_active PS_executing example_chain []"
  have "gd_kind (projectAutonomousGoalProgression example_host ?s) = Act_start_next_plan_step"
    by (simp add: example_chain_starts)
  from step_started_only_when_ready [OF this] show ?thesis
    unfolding example_chain_starts by (simp add: example_goal_def)
qed

text \<open>
  C31.  A goal is reported complete exactly when its requirement is done, and acceptance of the
  requirement is requested exactly for a finalized plan of it that stands on the current source
  with every step completed.
\<close>

theorem goal_completion_needs_acceptance:
  "(gd_kind (projectAutonomousGoalProgression H s) = Act_goal_complete \<longleftrightarrow> rq_state (sh_requirement s) = RS_done) \<and>
   (gd_kind (projectAutonomousGoalProgression H s) = Act_request_requirement_acceptance \<longleftrightarrow>
     rq_state (sh_requirement s) \<in> {RS_planned, RS_active} \<and>
     pl_requirementId (sh_plan s) \<in> {None, Some [], Some (rq_requirementId (sh_requirement s))} \<and>
     pl_sourceRevision (sh_plan s) = sh_currentSourceRevision s \<and> pl_status (sh_plan s) = PS_finalized \<and>
     sp_status ` set (pl_steps (sh_plan s)) \<subseteq> {SS_completed})"
  using project_goal_complete [of H s] project_requirement_acceptance [of H s] by auto

text \<open>
  C32.  An acyclic plan never waits for its own dependencies: whatever the state of the steps and
  of the Works, the projection does not answer that it waits for a dependency, so it always names
  something to do or to repair.
\<close>

theorem acyclic_plan_never_waits:
  assumes "acyclic {(d, sp_id st) | d st. st \<in> set (pl_steps (sh_plan s)) \<and> d \<in> set (sp_dependencies st)}"
  shows "gd_kind (projectAutonomousGoalProgression H s) \<noteq> Act_wait_dependency"
  using assms acyclic_never_waits [of s H] project_progressing [of H s]
  unfolding dependency_relation_def by auto

theorem acyclic_plan_never_waits_witness:
  "gd_kind (projectAutonomousGoalProgression example_host (example_goal RS_active PS_executing example_chain [])) \<noteq> Act_wait_dependency"
proof (rule acyclic_plan_never_waits)
  let ?r = "{(d, sp_id st) | d st. st \<in> set example_chain \<and> d \<in> set (sp_dependencies st)}"
  have "?r \<subseteq> {(''a'', ''b''), (''b'', ''c'')}" by (auto simp: example_defs)
  moreover have "acyclic {(''a'', ''b''), (''b'', ''c'')}"
  proof (rule wf_acyclic [OF wf_subset [OF wf_measure [of "\<lambda>x. if x = ''a'' then 0 else if x = ''b'' then 1 else 2"]]])
    show "{(''a'', ''b''), (''b'', ''c'')} \<subseteq> measure (\<lambda>x. if x = ''a'' then 0 else if x = ''b'' then 1 else 2)" by auto
  qed
  ultimately have "acyclic ?r" using acyclic_subset by blast
  then show "acyclic {(d, sp_id st) | d st.
      st \<in> set (pl_steps (sh_plan (example_goal RS_active PS_executing example_chain []))) \<and> d \<in> set (sp_dependencies st)}"
    by (simp add: example_goal_def)
qed

text \<open>
  On a host whose collation tells every two strings apart, the decision and its replay identity do
  not depend on the order in which Works, rounds and schedules are listed, provided each fact is
  listed once.  (\<open>localeCompare\<close> may return 0 for canonically equivalent strings; the property is
  about identifiers it distinguishes.)
\<close>

theorem decision_independent_of_order:
  assumes "host_collates H" and "\<And>a b. locale_compare H a b = 0 \<Longrightarrow> a = b"
    and "same_facts s s'" and "keyed_facts s"
  shows "projectAutonomousGoalProgression H s = projectAutonomousGoalProgression H s'"
  using assms by (intro project_same) (auto simp: reordered_def)

theorem decision_independent_of_order_witness:
  "projectAutonomousGoalProgression example_host
     (example_goal RS_active PS_executing example_chain [example_work ''w1'' ''a'' Status_completed, example_work ''w0'' ''z'' Status_open]) =
   projectAutonomousGoalProgression example_host
     (example_goal RS_active PS_executing example_chain [example_work ''w0'' ''z'' Status_open, example_work ''w1'' ''a'' Status_completed])"
  using example_reordered [of RS_active PS_executing example_chain]
  by (intro decision_independent_of_order) (simp_all add: reordered_def)

text \<open>
  C34.  The replay identity identifies the decision: two projections with one idempotency key are
  the same decision about the same requirement, plan and source, unless the digests of their
  two renderings collide on the units the key keeps.
\<close>

theorem idempotency_key_identifies_decision:
  assumes "d = projectAutonomousGoalProgression H s" and "d' = projectAutonomousGoalProgression H s'"
    and "gd_idempotencyKey d = gd_idempotencyKey d'"
    and no_collision: "\<And>v v'. v = json_stringify (identityInput H s (gd_kind d) (gd_reasonCode d) (gd_detail d)) \<Longrightarrow>
       v' = json_stringify (identityInput H s' (gd_kind d') (gd_reasonCode d') (gd_detail d')) \<Longrightarrow>
       take 32 (sha256_hex H v) = take 32 (sha256_hex H v') \<Longrightarrow> v = v'"
  shows "d = d' \<and> sh_requirement s = sh_requirement s' \<and> sh_plan s = sh_plan s' \<and>
     sh_currentSourceRevision s = sh_currentSourceRevision s'"
proof -
  obtain k r e where d: "d = decision H s k r e" using project_decides [of H s] assms(1) by (auto simp: decides_def)
  obtain k' r' e' where d': "d' = decision H s' k' r' e'" using project_decides [of H s'] assms(2) by (auto simp: decides_def)
  have "take 32 (sha256_hex H (json_stringify (identityInput H s k r e)))
      = take 32 (sha256_hex H (json_stringify (identityInput H s' k' r' e')))"
    using assms(3) unfolding d d' by (simp add: decision_def)
  then have "json_stringify (identityInput H s k r e) = json_stringify (identityInput H s' k' r' e')"
    by (rule no_collision [rotated 2]) (simp_all add: d d')
  then have "identityInput H s k r e = identityInput H s' k' r' e'" by (simp only: json_stringify_inj)
  note i = identity_input_inj [OF this]
  with assms(3) show ?thesis unfolding d d' by (simp add: decision_def)
qed

theorem idempotency_key_identifies_decision_witness:
  "projectAutonomousGoalProgression example_host
     (example_goal RS_active PS_executing example_chain [example_work ''w1'' ''a'' Status_completed, example_work ''w0'' ''z'' Status_open]) =
   projectAutonomousGoalProgression example_host
     (example_goal RS_active PS_executing example_chain [example_work ''w0'' ''z'' Status_open, example_work ''w1'' ''a'' Status_completed])"
  (is "projectAutonomousGoalProgression _ ?s = projectAutonomousGoalProgression _ ?s'")
proof -
  have r: "reordered example_host ?s ?s'" by (rule example_reordered)
  note e = project_same [OF r]
  show ?thesis
  proof (rule conjunct1 [OF idempotency_key_identifies_decision [OF refl refl]])
    show "gd_idempotencyKey (projectAutonomousGoalProgression example_host ?s) =
        gd_idempotencyKey (projectAutonomousGoalProgression example_host ?s')" by (simp only: e)
  qed (simp add: e identityInput_def stable_same [OF r])
qed

section \<open>A cycle waits forever\<close>

text \<open>
  Neither the approval of a plan nor the projection looks for cycles: two pending steps that
  depend on each other wait for each other at every projection, and nothing reports it.
\<close>

lemma cyclic_plan_waits_forever:
  "gd_kind (projectAutonomousGoalProgression H (example_goal RS_active PS_executing example_cycle [])) = Act_wait_dependency"
proof -
  let ?s = "example_goal RS_active PS_executing example_cycle []"
  have c: "completed_ids example_cycle = {}" by (auto simp: example_defs)
  have o: "filter (\<lambda>st. sp_status st \<noteq> SS_completed \<and> (\<forall>d\<in>set (sp_dependencies st). d \<in> completed_ids example_cycle)) example_cycle = []"
    unfolding c by (simp add: example_defs)
  have "gd_kind (next_step_decision H ?s) = Act_wait_dependency"
    unfolding next_step_decision_def Let_def example_goal_def progression_snapshot.select_convs plan_snapshot.select_convs o
    by simp
  then show ?thesis
    by (simp add: projectAutonomousGoalProgression_def example_defs EXECUTABLE_PLAN_STATUSES_def js_uniq_def
        invalidDependency_def in_progress_def)
qed

text \<open>A cancelled requirement stays cancelled, and a done one is only ever cancelled.\<close>

lemma requirement_cancelled_final:
  "(\<lambda>a b. b \<in> set (REQUIREMENT_STATE_TRANSITIONS a))\<^sup>*\<^sup>* RS_cancelled t \<Longrightarrow> t = RS_cancelled"
  by (erule requirement_states.absorbing) simp

end
