(* ===== verification/JsonFiles.thy ===== *)
theory JsonFiles
  imports Prelude
begin

text \<open>
  What the stores share: the names under which records are kept, sanitised as in
  \<open>src/runtime/shared/json-files.ts\<close>, and the search of a list of records by a test.
\<close>

section \<open>File components\<close>

definition file_char :: "char \<Rightarrow> bool" where
  "file_char c \<longleftrightarrow> (CHR ''a'' \<le> c \<and> c \<le> CHR ''z'') \<or> (CHR ''A'' \<le> c \<and> c \<le> CHR ''Z'')
     \<or> (CHR ''0'' \<le> c \<and> c \<le> CHR ''9'') \<or> c = CHR ''.'' \<or> c = CHR ''_'' \<or> c = CHR ''-''"

text \<open>\<open>s.replace(/[^a-zA-Z0-9._-]+/g, '-')\<close>: a run of other units becomes one dash; the flag
  tells whether the run has already been written.\<close>

fun dash_runs :: "bool \<Rightarrow> string \<Rightarrow> string" where
  "dash_runs inside [] = []"
| "dash_runs inside (c # s) =
     (if file_char c then c # dash_runs False s
      else if inside then dash_runs True s else CHR ''-'' # dash_runs True s)"

definition strip_dashes :: "string \<Rightarrow> string" where
  "strip_dashes s = rev (dropWhile (\<lambda>c. c = CHR ''-'') (rev (dropWhile (\<lambda>c. c = CHR ''-'') s)))"

definition sanitizeFileComponent :: "string \<Rightarrow> string" where
  "sanitizeFileComponent s = (let t = strip_dashes (dash_runs False s) in if t = [] then ''unknown'' else t)"

section \<open>Lists searched by index\<close>

text \<open>\<open>xs.findIndex(P)\<close>, \<open>None\<close> for \<open>-1\<close>.\<close>

fun find_index :: "('a \<Rightarrow> bool) \<Rightarrow> 'a list \<Rightarrow> nat option" where
  "find_index P [] = None"
| "find_index P (x # xs) = (if P x then Some 0 else map_option Suc (find_index P xs))"

lemma find_index_Some:
  "find_index P xs = Some i \<longleftrightarrow> i < length xs \<and> P (xs ! i) \<and> (\<forall>j<i. \<not> P (xs ! j))"
proof (induction xs arbitrary: i)
  case (Cons x xs)
  then show ?case by (cases i) (auto simp: less_Suc_eq_0_disj)
qed simp

lemma find_index_None: "find_index P xs = None \<longleftrightarrow> (\<forall>x\<in>set xs. \<not> P x)"
  by (induction xs) auto

lemma find_index_unique:
  assumes "distinct (map f xs)" and "i < length xs"
  shows "find_index (\<lambda>x. f x = f (xs ! i)) xs = Some i"
proof -
  have "f (xs ! j) \<noteq> f (xs ! i)" if "j < i" for j
  proof -
    have "map f xs ! j \<noteq> map f xs ! i" using assms that by (simp add: nth_eq_iff_index_eq del: nth_map)
    then show ?thesis using assms(2) that by simp
  qed
  then show ?thesis using assms(2) by (simp add: find_index_Some)
qed

end
