(* ===== verification/JsText.thy ===== *)
theory JsText
  imports JsJson
begin

text \<open>
  Text operations of the language that several parts use: splitting at white space, numbers in
  decimal and hexadecimal notation, and padding.  A number is read exactly, where the language
  rounds it to a double first; the two differ only for literals of more than fifteen significant
  digits.
\<close>

text \<open>\<open>s.toLowerCase()\<close> on ASCII letters.\<close>

definition js_lower :: "string \<Rightarrow> string" where
  "js_lower s = map (\<lambda>c. if CHR ''A'' \<le> c \<and> c \<le> CHR ''Z'' then char_of ((of_char c :: nat) + 32) else c) s"

text \<open>\<open>s.split(/\s+/)\<close> of a trimmed string.\<close>

fun space_words :: "bool \<Rightarrow> string \<Rightarrow> string \<Rightarrow> string list" where
  "space_words gap word [] = [rev word]"
| "space_words gap word (c # s) =
     (if js_space c then (if gap then space_words True word s else rev word # space_words True [] s)
      else space_words False (c # word) s)"

definition split_spaces :: "string \<Rightarrow> string list" where
  "split_spaces s = space_words False [] s"

text \<open>\<open>/^\d+$/\<close>.\<close>

definition all_digits :: "string \<Rightarrow> bool" where
  "all_digits s \<longleftrightarrow> s \<noteq> [] \<and> list_all is_digit s"

text \<open>\<open>String(n).padStart(2, '0')\<close>.\<close>

definition pad2 :: "int \<Rightarrow> string" where
  "pad2 n = (let s = int_str n in replicate (2 - length s) CHR ''0'' @ s)"

text \<open>Digits of a base up to 16.\<close>

definition hex_nibble :: "char \<Rightarrow> nat option" where
  "hex_nibble c =
     (let n = of_char c in
      if 48 \<le> n \<and> n \<le> 57 then Some (n - 48)
      else if 97 \<le> n \<and> n \<le> 102 then Some (n - 87)
      else if 65 \<le> n \<and> n \<le> 70 then Some (n - 55) else None)"

fun based_value :: "nat \<Rightarrow> nat \<Rightarrow> string \<Rightarrow> nat option" where
  "based_value base n [] = Some n"
| "based_value base n (c # s) =
     (case hex_nibble c of None \<Rightarrow> None | Some d \<Rightarrow> if d < base then based_value base (n * base + d) s else None)"

definition based_integer :: "nat \<Rightarrow> string \<Rightarrow> int option" where
  "based_integer base s = (if s = [] then None else map_option int (based_value base 0 s))"

text \<open>A decimal literal: an optional sign, digits with an optional point, an optional exponent.\<close>

definition signed_text :: "string \<Rightarrow> int \<times> string" where
  "signed_text s = (case s of c # t \<Rightarrow> if c = CHR ''-'' then (-1, t) else if c = CHR ''+'' then (1, t) else (1, s) | [] \<Rightarrow> (1, s))"

definition exponent_part :: "string \<Rightarrow> int option" where
  "exponent_part s =
     (case s of
        [] \<Rightarrow> Some 0
      | c # t \<Rightarrow> if c \<noteq> CHR ''e'' \<and> c \<noteq> CHR ''E'' then None
          else let (sign, digits) = signed_text t in
            if all_digits digits then Some (sign * int (digits_value digits)) else None)"

definition decimal_integer :: "string \<Rightarrow> int option" where
  "decimal_integer s =
     (let (sign, t) = signed_text s;
          whole = takeWhile is_digit t; rest = dropWhile is_digit t;
          pointed = (rest \<noteq> [] \<and> hd rest = CHR ''.'');
          fraction = (if pointed then takeWhile is_digit (tl rest) else []);
          tail_text = (if pointed then dropWhile is_digit (tl rest) else rest)
      in if whole = [] \<and> fraction = [] then None
         else case exponent_part tail_text of
           None \<Rightarrow> None
         | Some e \<Rightarrow>
             let m = int (digits_value (whole @ fraction)); k = e - int (length fraction) in
             if k \<ge> 0 then Some (sign * m * 10 ^ nat k)
             else if 10 ^ nat (- k) dvd m then Some (sign * (m div 10 ^ nat (- k))) else None)"

text \<open>\<open>Number(s)\<close> of a trimmed string, where it is an integer.\<close>

definition js_integer :: "string \<Rightarrow> int option" where
  "js_integer s =
     (if s = [] then Some 0
      else case s of
        a # b # t \<Rightarrow>
          if a = CHR ''0'' \<and> (b = CHR ''x'' \<or> b = CHR ''X'') then based_integer 16 t
          else if a = CHR ''0'' \<and> (b = CHR ''o'' \<or> b = CHR ''O'') then based_integer 8 t
          else if a = CHR ''0'' \<and> (b = CHR ''b'' \<or> b = CHR ''B'') then based_integer 2 t
          else decimal_integer s
      | _ \<Rightarrow> decimal_integer s)"

end
