(* ===== verification/PlanContracts.thy ===== *)
theory PlanContracts
  imports GoalProgression WorkContract JsonFiles JsText
begin

text \<open>
  Plan contracts, from \<open>src/runtime/control-plane/facade/types.ts\<close>, the admission of plans in
  \<open>src/runtime/control-plane/facade/semantic-admission.ts\<close>, and the parts of
  \<open>src/runtime/control-plane/facade/plan-contract-store.ts\<close> that build, read and judge a plan:
  normalisation of its steps, the obligations it leaves to a successor, and the errors that
  keep it from approval.
\<close>

section \<open>The data of a plan\<close>

record plan_step =
  pst_id :: string
  pst_objective :: string
  pst_dependencies :: "string list"
  pst_authoritativeFiles :: "string list"
  pst_allowedPaths :: "string list"
  pst_forbiddenPaths :: "string list"
  pst_checks :: "string list"
  pst_acceptanceCriteria :: "string list"
  pst_status :: step_status
  pst_workId :: "string option"
  pst_evidenceRefs :: "evidence_ref list"

datatype obligation_disposition_kind = Disposition_keep | Disposition_change | Disposition_defer | Disposition_drop

record obligation_disposition =
  od_predecessorPlanId :: string
  od_obligationId :: string
  od_disposition :: obligation_disposition_kind
  od_successorRefs :: "string list"
  od_rationale :: "string option"

record delivery_carry =
  dc_predecessorPlanId :: string
  dc_predecessorStepId :: string
  dc_successorStepId :: string
  dc_workId :: string
  dc_completionReceiptId :: string
  dc_deliveredSourceRevision :: string
  dc_recordedAt :: string

record plan_contract =
  pn_planId :: string
  pn_repoId :: string
  pn_requirementId :: "string option"
  pn_scopeKey :: string
  pn_sourceRevision :: string
  pn_goal :: string
  pn_nonGoals :: "string list"
  pn_assumptions :: "string list"
  pn_resolvedDecisions :: "string list"
  pn_stopConditions :: "string list"
  pn_replanConditions :: "string list"
  pn_integrationStrategy :: "string option"
  pn_status :: plan_status
  pn_steps :: "plan_step list"
  pn_evidenceRefs :: "evidence_ref list"
  pn_supersedes :: "string list option"
  pn_supersededBy :: "string option"
  pn_supersessionReason :: "string option"
  pn_obligationDispositions :: "obligation_disposition list option"
  pn_deliveryCarries :: "delivery_carry list option"
  pn_createdAt :: string
  pn_updatedAt :: string

text \<open>\<open>PlanContractStore\<close>, without its fixed schema version.\<close>

record plan_store =
  pz_updatedAt :: string
  pz_contracts :: "plan_contract list"

section \<open>Admission of a plan\<close>

datatype plan_relation = Relation_extend | Relation_parallel

definition PLAN_ADMISSION_RELATIONS :: "plan_relation list" where
  "PLAN_ADMISSION_RELATIONS = [Relation_extend, Relation_parallel]"

datatype plan_admission_reason =
    Admit_exact_scope_authority | Admit_requirement_relation_required | Admit_extension_target_required
  | Admit_extend_existing | Admit_create_new

datatype plan_admission_decision =
    Decide_reuse_existing | Decide_resolution_required | Decide_extend_existing | Decide_create_new

record plan_admission_input =
  pai_requirementId :: "string option"
  pai_scopeKey :: string
  pai_planRelation :: "plan_relation option"
  pai_relatedPlanId :: "string option"

record plan_admission_resolution =
  par_admissionDecision :: plan_admission_decision
  par_resolutionRequired :: bool
  par_reason :: plan_admission_reason
  par_normalizedScopeKey :: string
  par_plan :: "plan_contract option"
  par_candidates :: "plan_contract list"
  par_allowedPlanRelations :: "plan_relation list option"

definition isPlanExtensionPredecessor :: "plan_contract \<Rightarrow> bool" where
  "isPlanExtensionPredecessor plan \<longleftrightarrow>
     \<not> isTerminalPlanContractStatus (pn_status plan) \<or> pn_status plan = PS_invalidated_by_drift"

definition normalizePlanScopeKey :: "string \<Rightarrow> string" where
  "normalizePlanScopeKey s =
     (let raw = js_trim s in
      if raw = [] then []
      else let normalized = take 160 (js_lower (sanitizeFileComponent raw)) in
           if normalized = ''unknown'' then [] else normalized)"

definition active_plans :: "plan_contract list \<Rightarrow> plan_contract list" where
  "active_plans plans = filter (\<lambda>p. \<not> isTerminalPlanContractStatus (pn_status p)) plans"

definition requirement_plans :: "plan_contract list \<Rightarrow> plan_admission_input \<Rightarrow> plan_contract list" where
  "requirement_plans plans inp =
     (case trim_or_none (pai_requirementId inp) of None \<Rightarrow> []
      | Some r \<Rightarrow> filter (\<lambda>p. pn_requirementId p = Some r) (active_plans plans))"

definition related_plan :: "plan_contract list \<Rightarrow> plan_admission_input \<Rightarrow> plan_contract option" where
  "related_plan plans inp =
     (let requirementId = trim_or_none (pai_requirementId inp);
          requirementPlans = requirement_plans plans inp;
          relatedPlanId = trim_or_none (pai_relatedPlanId inp);
          explicit = (case relatedPlanId of None \<Rightarrow> None
            | Some r \<Rightarrow> find (\<lambda>p. pn_planId p = r \<and> isPlanExtensionPredecessor p) plans);
          implicit = (if relatedPlanId = None \<and> length requirementPlans = 1 then Some (hd requirementPlans) else None) in
      case explicit of None \<Rightarrow> implicit
      | Some p \<Rightarrow> if requirementId = None \<or> pn_requirementId p = requirementId then Some p else implicit)"

definition exact_scope_authority :: "plan_contract list \<Rightarrow> string \<Rightarrow> plan_contract option" where
  "exact_scope_authority plans key =
     (if key = [] then None else find (\<lambda>p. pn_scopeKey p = key) (active_plans plans))"

definition resolution :: "plan_admission_decision \<Rightarrow> plan_admission_reason \<Rightarrow> string \<Rightarrow> plan_contract option \<Rightarrow>
    plan_contract list \<Rightarrow> plan_admission_resolution" where
  "resolution d why key plan candidates =
     \<lparr>par_admissionDecision = d, par_resolutionRequired = (d = Decide_resolution_required), par_reason = why,
      par_normalizedScopeKey = key, par_plan = plan, par_candidates = candidates,
      par_allowedPlanRelations = (if d = Decide_resolution_required then Some PLAN_ADMISSION_RELATIONS else None)\<rparr>"

definition resolvePlanAdmission :: "plan_contract list \<Rightarrow> plan_admission_input \<Rightarrow> plan_admission_resolution" where
  "resolvePlanAdmission plans inp =
     (let key = normalizePlanScopeKey (pai_scopeKey inp);
          requirementPlans = requirement_plans plans inp;
          exact = exact_scope_authority plans key in
      if pai_planRelation inp = Some Relation_extend then
        (case related_plan plans inp of
           None \<Rightarrow> resolution Decide_resolution_required Admit_extension_target_required key None
             (take 8 (if requirementPlans \<noteq> [] then requirementPlans else active_plans plans))
         | Some related \<Rightarrow>
             (case exact of
                Some authority \<Rightarrow>
                  if pn_planId authority \<noteq> pn_planId related
                  then resolution Decide_reuse_existing Admit_exact_scope_authority key (Some authority) [authority]
                  else resolution Decide_extend_existing Admit_extend_existing key (Some related)
                    (if requirementPlans \<noteq> [] then take 8 requirementPlans else [related])
              | None \<Rightarrow> resolution Decide_extend_existing Admit_extend_existing key (Some related)
                  (if requirementPlans \<noteq> [] then take 8 requirementPlans else [related])))
      else
        (case exact of
           Some authority \<Rightarrow> resolution Decide_reuse_existing Admit_exact_scope_authority key (Some authority) [authority]
         | None \<Rightarrow>
             if requirementPlans \<noteq> [] \<and> pai_planRelation inp = None
             then resolution Decide_resolution_required Admit_requirement_relation_required key None (take 8 requirementPlans)
             else resolution Decide_create_new Admit_create_new key None (take 8 requirementPlans)))"

section \<open>Building a plan\<close>

text \<open>\<open>bounded(values, limit, maxLength)\<close>.\<close>

definition bounded :: "string list option \<Rightarrow> nat \<Rightarrow> nat \<Rightarrow> string list" where
  "bounded values' limit maxLength = map (take maxLength) (take limit (trim_all (coalesce values' [])))"

definition normalizeScopeKey :: "string \<Rightarrow> string" where
  "normalizeScopeKey s = (let k = normalizePlanScopeKey s in if k = [] then ''unknown'' else k)"

record plan_step_input =
  psi_id :: string
  psi_objective :: string
  psi_dependencies :: "string list"
  psi_authoritativeFiles :: "string list"
  psi_allowedPaths :: "string list"
  psi_forbiddenPaths :: "string list"
  psi_checks :: "string list"
  psi_acceptanceCriteria :: "string list"
  psi_status :: "step_status option"
  psi_workId :: "string option"
  psi_evidenceRefs :: "evidence_ref list option"

record plan_input =
  pin_planId :: string
  pin_repoId :: string
  pin_requirementId :: "string option"
  pin_scopeKey :: string
  pin_sourceRevision :: string
  pin_goal :: string
  pin_nonGoals :: "string list option"
  pin_assumptions :: "string list option"
  pin_resolvedDecisions :: "string list option"
  pin_stopConditions :: "string list option"
  pin_replanConditions :: "string list option"
  pin_integrationStrategy :: "string option"
  pin_steps :: "plan_step_input list"
  pin_evidenceRefs :: "evidence_ref list option"
  pin_obligationDispositions :: "obligation_disposition list option"

definition normalizeStep :: "plan_step_input \<Rightarrow> plan_step" where
  "normalizeStep step =
     \<lparr>pst_id = take 120 (sanitizeFileComponent (psi_id step)),
      pst_objective = take 1000 (js_trim (psi_objective step)),
      pst_dependencies = map sanitizeFileComponent (bounded (Some (psi_dependencies step)) 30 120),
      pst_authoritativeFiles = bounded (Some (psi_authoritativeFiles step)) 50 500,
      pst_allowedPaths = bounded (Some (psi_allowedPaths step)) 50 500,
      pst_forbiddenPaths = bounded (Some (psi_forbiddenPaths step)) 50 500,
      pst_checks = bounded (Some (psi_checks step)) 30 200,
      pst_acceptanceCriteria = bounded (Some (psi_acceptanceCriteria step)) 20 500,
      pst_status = coalesce (psi_status step) SS_pending,
      pst_workId = trim_or_none (psi_workId step),
      pst_evidenceRefs = take 20 (coalesce (psi_evidenceRefs step) [])\<rparr>"

text \<open>The datatype of kinds leaves no invalid disposition to throw on.\<close>

definition normalizeObligationDisposition :: "obligation_disposition \<Rightarrow> obligation_disposition" where
  "normalizeObligationDisposition d =
     \<lparr>od_predecessorPlanId = take 160 (sanitizeFileComponent (od_predecessorPlanId d)),
      od_obligationId = take 160 (js_trim (od_obligationId d)),
      od_disposition = od_disposition d,
      od_successorRefs = bounded (Some (od_successorRefs d)) 20 240,
      od_rationale = map_option (take 1000) (trim_or_none (od_rationale d))\<rparr>"

definition buildPlanContract :: "plan_input \<Rightarrow> string \<Rightarrow> plan_contract res" where
  "buildPlanContract inp stamp =
     (let planId = sanitizeFileComponent (pin_planId inp) in
      bindE (throw_if (js_trim (pin_planId inp) = [] \<or> planId = ''unknown'') ''plan_id is required'') (\<lambda>_.
      Inr \<lparr>pn_planId = planId, pn_repoId = pin_repoId inp,
        pn_requirementId = Option.bind (opt_trim (pin_requirementId inp)) (\<lambda>r. some_str (take 160 r)),
        pn_scopeKey = normalizeScopeKey (pin_scopeKey inp),
        pn_sourceRevision = take 200 (js_trim (pin_sourceRevision inp)),
        pn_goal = take 2000 (js_trim (pin_goal inp)),
        pn_nonGoals = bounded (pin_nonGoals inp) 20 500,
        pn_assumptions = bounded (pin_assumptions inp) 30 500,
        pn_resolvedDecisions = bounded (pin_resolvedDecisions inp) 30 500,
        pn_stopConditions = bounded (pin_stopConditions inp) 20 500,
        pn_replanConditions = bounded (pin_replanConditions inp) 20 500,
        pn_integrationStrategy = map_option (take 1000) (opt_trim (pin_integrationStrategy inp)),
        pn_status = PS_draft,
        pn_steps = map normalizeStep (take 30 (pin_steps inp)),
        pn_evidenceRefs = take 20 (coalesce (pin_evidenceRefs inp) []),
        pn_supersedes = None, pn_supersededBy = None, pn_supersessionReason = None,
        pn_obligationDispositions =
          Some (map normalizeObligationDisposition (take 512 (coalesce (pin_obligationDispositions inp) []))),
        pn_deliveryCarries = None, pn_createdAt = stamp, pn_updatedAt = stamp\<rparr>))"

section \<open>Obligations\<close>

datatype obligation_kind =
    Ob_step_objective | Ob_step_acceptance | Ob_non_goal | Ob_resolved_decision | Ob_stop_condition | Ob_replan_condition

fun obligation_kind_str :: "obligation_kind \<Rightarrow> string" where
  "obligation_kind_str Ob_step_objective = ''step_objective''"
| "obligation_kind_str Ob_step_acceptance = ''step_acceptance''"
| "obligation_kind_str Ob_non_goal = ''non_goal''"
| "obligation_kind_str Ob_resolved_decision = ''resolved_decision''"
| "obligation_kind_str Ob_stop_condition = ''stop_condition''"
| "obligation_kind_str Ob_replan_condition = ''replan_condition''"

record plan_obligation =
  ob_obligationId :: string
  ob_predecessorPlanId :: string
  ob_kind :: obligation_kind
  ob_sourceRef :: string
  ob_summary :: string

definition planObligationId :: "js_host \<Rightarrow> string \<Rightarrow> obligation_kind \<Rightarrow> string \<Rightarrow> string \<Rightarrow> string" where
  "planObligationId H planId kind sourceRef summary =
     ''obl_'' @ take 24 (sha256_hex H (json_stringify (JObj [(''planId'', JStr planId),
       (''kind'', JStr (obligation_kind_str kind)), (''sourceRef'', JStr sourceRef), (''summary'', JStr summary)])))"

datatype obligation_mode = Unresolved | Completed_steps

definition add_obligation :: "js_host \<Rightarrow> plan_contract \<Rightarrow> obligation_kind \<Rightarrow> string \<Rightarrow> string \<Rightarrow> plan_obligation list" where
  "add_obligation H plan kind sourceRef summary =
     (let normalized = js_trim summary in
      if normalized = [] then []
      else [\<lparr>ob_obligationId = planObligationId H (pn_planId plan) kind sourceRef normalized,
             ob_predecessorPlanId = pn_planId plan, ob_kind = kind, ob_sourceRef = sourceRef, ob_summary = normalized\<rparr>])"

text \<open>\<open>values.forEach((value, index) => add(kind, `prefix:${index}`, value))\<close>.\<close>

definition add_indexed :: "js_host \<Rightarrow> plan_contract \<Rightarrow> obligation_kind \<Rightarrow> string \<Rightarrow> string list \<Rightarrow> plan_obligation list" where
  "add_indexed H plan kind pre xs =
     concat (map (\<lambda>(i, x). add_obligation H plan kind (pre @ '':'' @ int_str (int i)) x) (enumerate 0 xs))"

definition step_obligations :: "js_host \<Rightarrow> plan_contract \<Rightarrow> plan_step \<Rightarrow> plan_obligation list" where
  "step_obligations H plan step =
     add_obligation H plan Ob_step_objective (''step:'' @ pst_id step) (pst_objective step) @
     add_indexed H plan Ob_step_acceptance (''step:'' @ pst_id step @ '':acceptance'') (pst_acceptanceCriteria step)"

definition listPlanObligations :: "js_host \<Rightarrow> plan_contract \<Rightarrow> obligation_mode \<Rightarrow> plan_obligation list" where
  "listPlanObligations H plan mode =
     concat (map (step_obligations H plan)
       (filter (\<lambda>step. if mode = Unresolved then pst_status step \<noteq> SS_completed else pst_status step = SS_completed)
          (pn_steps plan))) @
     (if mode = Unresolved
      then add_indexed H plan Ob_non_goal ''non_goal'' (pn_nonGoals plan) @
           add_indexed H plan Ob_resolved_decision ''resolved_decision'' (pn_resolvedDecisions plan) @
           add_indexed H plan Ob_stop_condition ''stop_condition'' (pn_stopConditions plan) @
           add_indexed H plan Ob_replan_condition ''replan_condition'' (pn_replanConditions plan)
      else [])"

definition listUnresolvedPlanObligations :: "js_host \<Rightarrow> plan_contract \<Rightarrow> plan_obligation list" where
  "listUnresolvedPlanObligations H plan = listPlanObligations H plan Unresolved"

definition find_plan :: "plan_contract list \<Rightarrow> string \<Rightarrow> plan_contract option" where
  "find_plan plans i = find (\<lambda>p. pn_planId p = i) plans"

definition retireResolvedPredecessorObligationDispositions ::
    "js_host \<Rightarrow> plan_contract \<Rightarrow> plan_contract list \<Rightarrow> plan_contract" where
  "retireResolvedPredecessorObligationDispositions H plan allPlans =
     (let dispositions = coalesce (pn_obligationDispositions plan) []; supersedes = coalesce (pn_supersedes plan) [];
          resolved = (\<lambda>pred. if pred \<notin> set supersedes then {}
            else case find_plan allPlans pred of None \<Rightarrow> {}
              | Some p \<Rightarrow> set (map ob_obligationId (listPlanObligations H p Completed_steps)));
          retained = filter (\<lambda>d. od_obligationId d \<notin> resolved (od_predecessorPlanId d)) dispositions in
      if dispositions = [] \<or> supersedes = [] then plan
      else if length retained = length dispositions then plan
      else plan\<lparr>pn_obligationDispositions := Some retained\<rparr>)"

definition index_refs :: "string \<Rightarrow> 'a list \<Rightarrow> string list" where
  "index_refs pre xs = map (\<lambda>i. pre @ '':'' @ int_str (int i)) [0..<length xs]"

definition successorObligationRefs :: "plan_contract \<Rightarrow> string list" where
  "successorObligationRefs plan =
     ''goal'' # concat (map (\<lambda>step. (''step:'' @ pst_id step) #
       index_refs (''step:'' @ pst_id step @ '':acceptance'') (pst_acceptanceCriteria step)) (pn_steps plan)) @
     index_refs ''non_goal'' (pn_nonGoals plan) @ index_refs ''resolved_decision'' (pn_resolvedDecisions plan) @
     index_refs ''stop_condition'' (pn_stopConditions plan) @ index_refs ''replan_condition'' (pn_replanConditions plan) @
     (if truthy (opt_trim (pn_integrationStrategy plan)) then [''integration_strategy''] else [])"

fun disposition_str :: "obligation_disposition_kind \<Rightarrow> string" where
  "disposition_str Disposition_keep = ''keep''"
| "disposition_str Disposition_change = ''change''"
| "disposition_str Disposition_defer = ''defer''"
| "disposition_str Disposition_drop = ''drop''"

text \<open>\<open>predecessorObligations\<close>: the superseded plans that exist, in order, with the identifiers
  of what they leave unresolved.  A plan named twice keeps its first place.\<close>

definition predecessor_obligations :: "js_host \<Rightarrow> plan_contract \<Rightarrow> plan_contract list \<Rightarrow> (string \<times> string list) list" where
  "predecessor_obligations H plan allPlans =
     concat (map (\<lambda>i. case find_plan allPlans i of None \<Rightarrow> []
         | Some p \<Rightarrow> [(i, js_uniq (map ob_obligationId (listUnresolvedPlanObligations H p)))])
       (js_uniq (coalesce (pn_supersedes plan) [])))"

definition disposition_key :: "obligation_disposition \<Rightarrow> string" where
  "disposition_key d = od_predecessorPlanId d @ '':'' @ od_obligationId d"

definition disposition_errors :: "plan_contract \<Rightarrow> (string \<times> string list) list \<Rightarrow> string list \<Rightarrow> obligation_disposition \<Rightarrow> string list" where
  "disposition_errors plan known seen d =
     (let key = disposition_key d in
      (if key \<in> set seen then [''duplicate obligation disposition '' @ key] else []) @
      (if od_predecessorPlanId d \<in> set (coalesce (pn_supersedes plan) [])
          \<and> \<not> (case map_of known (od_predecessorPlanId d) of None \<Rightarrow> False | Some ids \<Rightarrow> od_obligationId d \<in> set ids)
       then [''unknown predecessor obligation '' @ key] else []) @
      (if od_disposition d \<in> {Disposition_keep, Disposition_change} \<and> od_successorRefs d = []
       then [''obligation '' @ key @ '' '' @ disposition_str (od_disposition d) @ '' requires successor_refs''] else []) @
      map (\<lambda>r. ''obligation '' @ key @ '' references unknown successor_ref '' @ r)
        (filter (\<lambda>r. r \<notin> set (successorObligationRefs plan)) (od_successorRefs d)) @
      (if od_disposition d \<noteq> Disposition_keep \<and> \<not> truthy (opt_trim (od_rationale d))
       then [''obligation '' @ key @ '' '' @ disposition_str (od_disposition d) @ '' requires rationale''] else []))"

fun dispositions_errors :: "plan_contract \<Rightarrow> (string \<times> string list) list \<Rightarrow> string list \<Rightarrow> obligation_disposition list \<Rightarrow> string list" where
  "dispositions_errors plan known seen [] = []"
| "dispositions_errors plan known seen (d # ds) =
     disposition_errors plan known seen d @ dispositions_errors plan known (disposition_key d # seen) ds"

definition uncovered_errors :: "(string \<times> string list) list \<Rightarrow> obligation_disposition list \<Rightarrow> string list" where
  "uncovered_errors known dispositions =
     concat (map (\<lambda>(pred, ids).
       map (\<lambda>i. ''uncovered predecessor obligation '' @ pred @ '':'' @ i)
         (filter (\<lambda>i. i \<notin> set (map od_obligationId (filter (\<lambda>d. od_predecessorPlanId d = pred) dispositions))) ids)) known)"

definition obligationContinuityErrors :: "js_host \<Rightarrow> plan_contract \<Rightarrow> plan_contract list \<Rightarrow> string list" where
  "obligationContinuityErrors H plan allPlans =
     (let dispositions = coalesce (pn_obligationDispositions plan) [];
          known = predecessor_obligations H plan allPlans in
      js_uniq (map (\<lambda>i. ''superseded predecessor not found: '' @ i)
                 (filter (\<lambda>i. find_plan allPlans i = None) (coalesce (pn_supersedes plan) [])) @
               dispositions_errors plan known [] dispositions @
               uncovered_errors known dispositions))"

section \<open>What keeps a plan from approval\<close>

definition projectDependencyReadySteps :: "plan_step list \<Rightarrow> plan_step list" where
  "projectDependencyReadySteps steps =
     (let completed = set (map pst_id (filter (\<lambda>s. pst_status s = SS_completed) steps)) in
      map (\<lambda>s. if pst_status s = SS_pending \<and> (\<forall>d\<in>set (pst_dependencies s). d \<in> completed)
               then s\<lparr>pst_status := SS_ready\<rparr> else s) steps)"

definition or_unknown :: "string \<Rightarrow> string" where
  "or_unknown s = (if s = [] then ''unknown'' else s)"

definition step_content_errors :: "string set \<Rightarrow> plan_step \<Rightarrow> string list" where
  "step_content_errors ids s =
     (if pst_id s = [] \<or> pst_id s = ''unknown'' then [''every plan step needs an id'']
      else if pst_id s \<in> ids then [''duplicate plan step id: '' @ pst_id s] else []) @
     (if pst_objective s = [] then [''step '' @ or_unknown (pst_id s) @ '' needs an objective''] else []) @
     (if pst_checks s = [] then [''step '' @ or_unknown (pst_id s) @ '' needs at least one machine-checkable check''] else []) @
     (if pst_acceptanceCriteria s = [] then [''step '' @ or_unknown (pst_id s) @ '' needs acceptance criteria''] else []) @
     (if pst_status s \<noteq> SS_pending then [''step '' @ or_unknown (pst_id s) @ '' must be pending before approval''] else [])"

fun steps_content_errors :: "string set \<Rightarrow> plan_step list \<Rightarrow> string list" where
  "steps_content_errors ids [] = []"
| "steps_content_errors ids (s # steps) =
     step_content_errors ids s @
     steps_content_errors (if pst_id s = [] \<or> pst_id s = ''unknown'' then ids else insert (pst_id s) ids) steps"

definition find_step :: "plan_step list \<Rightarrow> string \<Rightarrow> plan_step option" where
  "find_step steps i = find (\<lambda>s. pst_id s = i) steps"

definition dependency_errors :: "plan_step list \<Rightarrow> plan_step \<Rightarrow> string list" where
  "dependency_errors steps s =
     concat (map (\<lambda>d. case find_step steps d of
         None \<Rightarrow> [''step '' @ pst_id s @ '' references unknown dependency '' @ d]
       | Some c \<Rightarrow> if pst_status c \<noteq> SS_pending
           then [''step '' @ pst_id s @ '' dependency '' @ d @ '' must be pending before approval''] else [])
       (pst_dependencies s))"

definition draftContentErrors :: "plan_contract \<Rightarrow> string list" where
  "draftContentErrors plan = js_uniq (
     (if pn_sourceRevision plan = [] then [''source_revision is required''] else []) @
     (if pn_scopeKey plan = [] \<or> pn_scopeKey plan = ''unknown'' then [''scope_key is required''] else []) @
     (if pn_goal plan = [] then [''goal is required''] else []) @
     (if pn_steps plan = [] then [''at least one plan step is required''] else []) @
     steps_content_errors {} (pn_steps plan) @
     concat (map (dependency_errors (pn_steps plan)) (pn_steps plan)))"

definition scopeIsCommitted :: "plan_status \<Rightarrow> bool" where
  "scopeIsCommitted status \<longleftrightarrow>
     status \<in> {PS_approved, PS_executing, PS_replanning, PS_verifying, PS_ready_to_finalize}"

text \<open>\<open>plan.supersedes?.length === 1 ? plan.supersedes[0] : undefined\<close>.\<close>

definition single_predecessor :: "plan_contract \<Rightarrow> string option" where
  "single_predecessor plan = (case pn_supersedes plan of Some [p] \<Rightarrow> Some p | _ \<Rightarrow> None)"

definition approvalErrors :: "js_host \<Rightarrow> plan_contract \<Rightarrow> plan_contract list \<Rightarrow> string list" where
  "approvalErrors H plan allPlans = js_uniq (
     map (\<lambda>e. e @ '' before approval'') (draftContentErrors plan) @
     (if \<exists>existing\<in>set allPlans. pn_planId existing \<noteq> pn_planId plan \<and> pn_scopeKey existing = pn_scopeKey plan
         \<and> scopeIsCommitted (pn_status existing)
         \<and> \<not> (Some (pn_planId existing) = single_predecessor plan \<and> pn_status existing = PS_replanning)
      then [''active plan already owns scope_key '' @ pn_scopeKey plan] else []) @
     obligationContinuityErrors H plan allPlans)"

definition isCurrentPlanContract :: "plan_contract \<Rightarrow> bool" where
  "isCurrentPlanContract plan \<longleftrightarrow>
     \<not> isTerminalPlanContractStatus (pn_status plan) \<and> \<not> truthy (opt_trim (pn_supersededBy plan))"

record plan_summary =
  psm_planId :: string
  psm_repoId :: string
  psm_requirementId :: "string option"
  psm_scopeKey :: string
  psm_sourceRevision :: string
  psm_goal :: string
  psm_status :: plan_status
  psm_stepCount :: nat
  psm_completedSteps :: nat
  psm_updatedAt :: string

definition summarizePlanContract :: "plan_contract \<Rightarrow> plan_summary" where
  "summarizePlanContract plan =
     \<lparr>psm_planId = pn_planId plan, psm_repoId = pn_repoId plan, psm_requirementId = pn_requirementId plan,
      psm_scopeKey = pn_scopeKey plan, psm_sourceRevision = pn_sourceRevision plan, psm_goal = take 240 (pn_goal plan),
      psm_status = pn_status plan, psm_stepCount = length (pn_steps plan),
      psm_completedSteps = length (filter (\<lambda>s. pst_status s = SS_completed) (pn_steps plan)),
      psm_updatedAt = pn_updatedAt plan\<rparr>"

end
