(* ===== verification/PlanSteps.thy ===== *)
theory PlanSteps
  imports PlanContracts
begin

text \<open>
  The operations of \<open>src/runtime/control-plane/facade/plan-contract-store.ts\<close> on one stored plan:
  claiming a step for a Work, completing it when the Work ends, semantic acceptance, and the
  two repairs.  \<open>updatePlanContract\<close> reads the store, replaces the one plan and writes the store
  back under the plan's lock, so each operation is one step from a store to a store; an
  operation that throws leaves the store as it is.  What an operation reads outside the store
  is an argument: the state of a requirement (\<open>None\<close> for a store without a controller home,
  which is not checked) and the time stamp of \<open>nowIso\<close>.
\<close>

record plan_env =
  pe_requirements :: "(string \<Rightarrow> requirement_state option) option"
  pe_now :: string

definition assertRequirementReference :: "plan_env \<Rightarrow> string option \<Rightarrow> unit res" where
  "assertRequirementReference env requirementId =
     (case (trim_or_none requirementId, pe_requirements env) of
        (Some normalized, Some read) \<Rightarrow>
          (case read normalized of
             None \<Rightarrow> throw (''PLAN_REQUIREMENT_NOT_FOUND: '' @ normalized)
           | Some state \<Rightarrow> throw_if (state = RS_done \<or> state = RS_cancelled)
               (''PLAN_REQUIREMENT_TERMINAL: '' @ normalized @ '':'' @ requirement_state_str state))
      | _ \<Rightarrow> Inr ())"

text \<open>\<open>updatePlanContract(options, planId, mutate)\<close>.\<close>

definition updatePlanContract ::
    "plan_store \<Rightarrow> string \<Rightarrow> (plan_contract \<Rightarrow> plan_contract res) \<Rightarrow> (plan_contract \<times> plan_store) res" where
  "updatePlanContract store planId mutate =
     (case find_index (\<lambda>c. pn_planId c = sanitizeFileComponent planId) (pz_contracts store) of
        None \<Rightarrow> throw (''plan contract not found: '' @ sanitizeFileComponent planId)
      | Some i \<Rightarrow>
          bindE (mutate (pz_contracts store ! i)) (\<lambda>next.
          Inr (next, \<lparr>pz_updatedAt = pn_updatedAt next, pz_contracts = (pz_contracts store)[i := next]\<rparr>)))"

definition summary_evidence :: "string \<Rightarrow> string \<Rightarrow> evidence_ref" where
  "summary_evidence title summary =
     \<lparr>er_evidenceId = None, er_artifactId = None, er_title = title, er_summary = Some summary,
      er_detailLevel = Some Detail_summary\<rparr>"

definition step_at :: "plan_contract \<Rightarrow> string \<Rightarrow> nat option" where
  "step_at plan i = find_index (\<lambda>s. pst_id s = i) (pn_steps plan)"

definition set_step :: "plan_contract \<Rightarrow> nat \<Rightarrow> plan_step \<Rightarrow> plan_step list" where
  "set_step plan i step = (pn_steps plan)[i := step]"

section \<open>Claiming a step\<close>

definition unresolved_dependencies :: "plan_contract \<Rightarrow> plan_step \<Rightarrow> string list" where
  "unresolved_dependencies plan step =
     filter (\<lambda>d. map_option pst_status (find_step (pn_steps plan) d) \<noteq> Some SS_completed) (pst_dependencies step)"

definition claim_step :: "plan_env \<Rightarrow> string \<Rightarrow> string \<Rightarrow> string \<Rightarrow> plan_contract \<Rightarrow> plan_contract res" where
  "claim_step env stepId workId sourceRevision current =
     bindE (assertRequirementReference env (pn_requirementId current)) (\<lambda>_.
     bindE (throw_if (pn_status current \<noteq> PS_approved \<and> pn_status current \<noteq> PS_executing)
              (''PLAN_NOT_EXECUTABLE: '' @ pn_planId current @ '' is '' @ plan_status_str (pn_status current))) (\<lambda>_.
     if pn_sourceRevision current \<noteq> sourceRevision
     then Inr (current\<lparr>pn_status := PS_invalidated_by_drift, pn_updatedAt := pe_now env\<rparr>)
     else case step_at current (sanitizeFileComponent stepId) of
       None \<Rightarrow> throw (''PLAN_STEP_NOT_FOUND: '' @ stepId)
     | Some i \<Rightarrow>
         let step = pn_steps current ! i; unresolved = unresolved_dependencies current step in
         bindE (throw_if (pst_status step = SS_executing \<or> truthy (pst_workId step))
                  (''PLAN_STEP_ALREADY_ACTIVE: '' @ pst_id step)) (\<lambda>_.
         bindE (throw_if (pst_status step = SS_completed) (''PLAN_STEP_ALREADY_COMPLETED: '' @ pst_id step)) (\<lambda>_.
         bindE (throw_if (unresolved \<noteq> []) (''PLAN_STEP_DEPENDENCIES_PENDING: '' @ js_join '', '' unresolved)) (\<lambda>_.
         Inr (current\<lparr>pn_status := PS_executing,
           pn_steps := set_step current i (step\<lparr>pst_status := SS_executing, pst_workId := Some workId\<rparr>),
           pn_updatedAt := pe_now env\<rparr>))))))"

definition claimPlanStepForWork ::
    "plan_env \<Rightarrow> plan_store \<Rightarrow> string \<Rightarrow> string \<Rightarrow> string \<Rightarrow> string \<Rightarrow> (plan_contract \<times> plan_store) res" where
  "claimPlanStepForWork env store planId stepId workId sourceRevision =
     updatePlanContract store planId (claim_step env stepId workId sourceRevision)"

section \<open>The end of the Work of a step\<close>

record step_work =
  sw_workId :: string
  sw_status :: work_contract_status
  sw_phase :: work_phase
  sw_evidenceState :: evidence_state
  sw_completionOutcome :: "completion_outcome option"
  sw_completionReceipt :: "completion_receipt option"
  sw_evidenceRefs :: "evidence_ref list"

definition delivered_work :: "step_work \<Rightarrow> bool" where
  "delivered_work work \<longleftrightarrow>
     sw_status work = Status_completed \<and> sw_phase work = Phase_cleanup \<and> sw_evidenceState work = EvState_valid
     \<and> sw_completionOutcome work \<noteq> None \<and> sw_completionOutcome work \<noteq> Some Outcome_superseded
     \<and> sw_completionReceipt work \<noteq> None"

definition complete_step :: "plan_env \<Rightarrow> string \<Rightarrow> step_work \<Rightarrow> plan_contract \<Rightarrow> plan_contract res" where
  "complete_step env stepId work current =
     (case step_at current (sanitizeFileComponent stepId) of
        None \<Rightarrow> throw (''PLAN_STEP_NOT_FOUND: '' @ stepId)
      | Some i \<Rightarrow>
          let step = pn_steps current ! i; delivered = delivered_work work;
              failed = (sw_status work = Status_failed \<or> sw_status work = Status_cancelled) in
          bindE (throw_if (pst_workId step \<noteq> Some (sw_workId work)) (''PLAN_STEP_WORK_MISMATCH: '' @ stepId)) (\<lambda>_.
          if pst_status step = SS_completed then Inr current
          else
            bindE (throw_if (\<not> delivered \<and> \<not> failed) (''PLAN_STEP_WORK_NOT_TERMINAL: '' @ sw_workId work)) (\<lambda>_.
            Inr (current\<lparr>pn_status := if delivered then PS_verifying else PS_replanning,
              pn_steps := set_step current i (step\<lparr>
                pst_status := if delivered then SS_validating else SS_ready,
                pst_workId := if delivered then pst_workId step else None,
                pst_evidenceRefs := if sw_evidenceRefs work \<noteq> [] then take 20 (sw_evidenceRefs work)
                                    else pst_evidenceRefs step\<rparr>),
              pn_updatedAt := pe_now env\<rparr>))))"

definition completePlanStepForWork ::
    "plan_env \<Rightarrow> plan_store \<Rightarrow> string \<Rightarrow> string \<Rightarrow> step_work \<Rightarrow> (plan_contract \<times> plan_store) res" where
  "completePlanStepForWork env store planId stepId work =
     updatePlanContract store planId (complete_step env stepId work)"

section \<open>Semantic acceptance\<close>

definition accept_step ::
    "plan_env \<Rightarrow> string \<Rightarrow> string \<Rightarrow> string \<Rightarrow> string option \<Rightarrow> plan_contract \<Rightarrow> plan_contract res" where
  "accept_step env stepId reviewer rationale acceptedSourceRevision current =
     (case step_at current (sanitizeFileComponent stepId) of
        None \<Rightarrow> throw (''PLAN_STEP_NOT_FOUND: '' @ stepId)
      | Some i \<Rightarrow>
          let step = pn_steps current ! i in
          if pst_status step = SS_completed then Inr current
          else
            bindE (throw_if (pst_status step \<noteq> SS_validating)
                     (''PLAN_STEP_NOT_READY_FOR_SEMANTIC_ACCEPTANCE: '' @ pst_id step @ '' is ''
                      @ step_status_str (pst_status step))) (\<lambda>_.
            let steps = set_step current i (step\<lparr>pst_status := SS_completed,
                  pst_evidenceRefs := take 20 (summary_evidence ''semantic acceptance'' (reviewer @ '': '' @ rationale)
                    # pst_evidenceRefs step)\<rparr>);
                allCompleted = (\<forall>s\<in>set steps. pst_status s = SS_completed) in
            Inr (current\<lparr>
              pn_sourceRevision := or_str (opt_trim acceptedSourceRevision) (pn_sourceRevision current),
              pn_status := if allCompleted then PS_finalized else PS_executing,
              pn_steps := if allCompleted then steps else projectDependencyReadySteps steps,
              pn_updatedAt := pe_now env\<rparr>)))"

definition acceptPlanStepEvidence ::
    "plan_env \<Rightarrow> plan_store \<Rightarrow> string \<Rightarrow> string \<Rightarrow> string \<Rightarrow> string \<Rightarrow> string option \<Rightarrow> (plan_contract \<times> plan_store) res" where
  "acceptPlanStepEvidence env store planId stepId reviewer rationale acceptedSourceRevision =
     (let who = js_trim reviewer; why = js_trim rationale in
      bindE (throw_if (who = [] \<or> why = []) ''PLAN_STEP_SEMANTIC_ACCEPTANCE_METADATA_REQUIRED'') (\<lambda>_.
      updatePlanContract store planId (accept_step env stepId who why acceptedSourceRevision)))"

section \<open>Repairs\<close>

definition no_work :: "string option \<Rightarrow> string" where
  "no_work w = coalesce w ''no Work''"

definition repair_dangling :: "plan_env \<Rightarrow> string \<Rightarrow> string \<Rightarrow> string \<Rightarrow> plan_contract \<Rightarrow> plan_contract res" where
  "repair_dangling env stepId expectedWorkId reason current =
     bindE (throw_if (isTerminalPlanContractStatus (pn_status current))
              (''PLAN_STEP_REPAIR_PLAN_TERMINAL: '' @ pn_planId current @ '' is '' @ plan_status_str (pn_status current))) (\<lambda>_.
     case step_at current (sanitizeFileComponent stepId) of
       None \<Rightarrow> throw (''PLAN_STEP_NOT_FOUND: '' @ stepId)
     | Some i \<Rightarrow>
         let step = pn_steps current ! i in
         bindE (throw_if (pst_workId step \<noteq> Some expectedWorkId)
                  (''PLAN_STEP_REPAIR_BINDING_CHANGED: '' @ pst_id step @ '' is bound to '' @ no_work (pst_workId step)
                   @ '', expected '' @ expectedWorkId)) (\<lambda>_.
         bindE (throw_if (pst_status step \<noteq> SS_executing)
                  (''PLAN_STEP_REPAIR_STATUS_INVALID: '' @ pst_id step @ '' is '' @ step_status_str (pst_status step))) (\<lambda>_.
         Inr (current\<lparr>pn_status := PS_executing,
           pn_steps := set_step current i (step\<lparr>pst_status := SS_ready, pst_workId := None,
             pst_evidenceRefs := take 20 (summary_evidence ''dangling Work binding repaired''
               (take 2000 (expectedWorkId @ '': '' @ reason)) # pst_evidenceRefs step)\<rparr>),
           pn_updatedAt := pe_now env\<rparr>))))"

definition repairDanglingPlanStepWorkBinding ::
    "plan_env \<Rightarrow> plan_store \<Rightarrow> string \<Rightarrow> string \<Rightarrow> string \<Rightarrow> string \<Rightarrow> (plan_contract \<times> plan_store) res" where
  "repairDanglingPlanStepWorkBinding env store planId stepId expectedWork reason =
     (let expectedWorkId = js_trim expectedWork; why = js_trim reason in
      bindE (throw_if (expectedWorkId = []) ''PLAN_STEP_REPAIR_EXPECTED_WORK_REQUIRED'') (\<lambda>_.
      bindE (throw_if (why = []) ''PLAN_STEP_REPAIR_REASON_REQUIRED'') (\<lambda>_.
      updatePlanContract store planId (repair_dangling env stepId expectedWorkId why))))"

text \<open>The Work and its check records as the technical retry reads them.\<close>

definition retry_work_check :: "work_contract \<Rightarrow> bool \<Rightarrow> string \<Rightarrow> unit res" where
  "retry_work_check work cleanupComplete reason =
     bindE (throw_if (reason = []) ''PLAN_STEP_TECHNICAL_RETRY_REASON_REQUIRED'') (\<lambda>_.
     bindE (throw_if (wc_status work \<noteq> Status_cancelled \<and> wc_status work \<noteq> Status_failed)
              (''PLAN_STEP_TECHNICAL_RETRY_WORK_STATUS_INVALID: '' @ wc_workId work @ '':'' @ status_str (wc_status work))) (\<lambda>_.
     bindE (throw_if (wc_phase work \<noteq> Phase_cleanup)
              (''PLAN_STEP_TECHNICAL_RETRY_WORK_PHASE_INVALID: '' @ wc_workId work @ '':'' @ phase_str (wc_phase work))) (\<lambda>_.
     bindE (throw_if (wc_completionReceipt work \<noteq> None \<or> wc_completionOutcome work \<noteq> None)
              (''PLAN_STEP_TECHNICAL_RETRY_DELIVERY_PRESENT: '' @ wc_workId work)) (\<lambda>_.
     bindE (throw_if (map_option se_actualChangedPaths (wc_scopeEvidence work) \<noteq> Some [])
              (''PLAN_STEP_TECHNICAL_RETRY_SOURCE_DELTA_PRESENT: '' @ wc_workId work)) (\<lambda>_.
     bindE (throw_if (\<not> cleanupComplete) (''PLAN_STEP_TECHNICAL_RETRY_CLEANUP_INCOMPLETE: '' @ wc_workId work)) (\<lambda>_.
     bindE (throw_if (\<not> truthy (opt_trim (wc_planId work)) \<or> \<not> truthy (opt_trim (wc_planStepId work))
                \<or> \<not> truthy (opt_trim (wc_planSourceRevision work)))
              (''PLAN_STEP_TECHNICAL_RETRY_LINEAGE_REQUIRED: '' @ wc_workId work)) (\<lambda>_.
     throw_if (wc_status work = Status_failed \<and> (wc_checkRefs work = []
                \<or> (\<exists>k\<in>set (wc_checkRefs work). ver_outcome k \<noteq> Verif_infrastructure_failure)))
       (''PLAN_STEP_TECHNICAL_RETRY_FAILED_WORK_NOT_INFRASTRUCTURE_ONLY: '' @ wc_workId work))))))))"

definition retry_contract_matches :: "work_contract \<Rightarrow> plan_step \<Rightarrow> bool" where
  "retry_contract_matches work step \<longleftrightarrow>
     wc_objective work = pst_objective step \<and> wc_acceptanceCriteria work = pst_acceptanceCriteria step
     \<and> wc_allowedPaths work = pst_allowedPaths step \<and> wc_forbiddenPaths work = pst_forbiddenPaths step
     \<and> wc_checks work = pst_checks step"

definition retry_step :: "plan_env \<Rightarrow> work_contract \<Rightarrow> string \<Rightarrow> plan_contract \<Rightarrow> plan_contract res" where
  "retry_step env work reason current =
     bindE (throw_if (pn_status current \<noteq> PS_replanning)
              (''PLAN_STEP_TECHNICAL_RETRY_PLAN_STATUS_INVALID: '' @ pn_planId current @ '':'' @ plan_status_str (pn_status current))) (\<lambda>_.
     bindE (throw_if (Some (pn_sourceRevision current) \<noteq> wc_planSourceRevision work)
              (''PLAN_STEP_TECHNICAL_RETRY_SOURCE_MISMATCH: '' @ pn_planId current @ '':plan='' @ pn_sourceRevision current
               @ '':work='' @ coalesce (wc_planSourceRevision work) [])) (\<lambda>_.
     bindE (throw_if (wc_requirementId work \<noteq> pn_requirementId current)
              (''PLAN_STEP_TECHNICAL_RETRY_REQUIREMENT_MISMATCH: '' @ wc_workId work)) (\<lambda>_.
     case find_index (\<lambda>s. Some (pst_id s) = wc_planStepId work) (pn_steps current) of
       None \<Rightarrow> throw (''PLAN_STEP_NOT_FOUND: '' @ coalesce (wc_planStepId work) [])
     | Some i \<Rightarrow>
         let step = pn_steps current ! i in
         bindE (throw_if (pst_status step \<noteq> SS_ready \<or> truthy (pst_workId step))
                  (''PLAN_STEP_TECHNICAL_RETRY_STEP_STATE_INVALID: '' @ pst_id step @ '':'' @ step_status_str (pst_status step)
                   @ '':'' @ coalesce (pst_workId step) ''unbound'')) (\<lambda>_.
         bindE (throw_if (unresolved_dependencies current step \<noteq> [])
                  (''PLAN_STEP_TECHNICAL_RETRY_DEPENDENCY_INVALID: '' @ pst_id step)) (\<lambda>_.
         bindE (throw_if (\<not> retry_contract_matches work step)
                  (''PLAN_STEP_TECHNICAL_RETRY_CONTRACT_MISMATCH: '' @ wc_workId work)) (\<lambda>_.
         Inr (current\<lparr>pn_status := PS_executing,
           pn_steps := set_step current i (step\<lparr>pst_evidenceRefs :=
             take 20 (summary_evidence ''technical Work retry authorized'' (take 2000 (wc_workId work @ '': '' @ reason))
               # pst_evidenceRefs step)\<rparr>),
           pn_updatedAt := pe_now env\<rparr>)))))))"

definition repairPlanStepForTechnicalRetry ::
    "plan_env \<Rightarrow> plan_store \<Rightarrow> work_contract \<Rightarrow> bool \<Rightarrow> string \<Rightarrow> (plan_contract \<times> plan_store) res" where
  "repairPlanStepForTechnicalRetry env store work cleanupComplete reason =
     (let why = js_trim reason in
      bindE (retry_work_check work cleanupComplete why) (\<lambda>_.
      updatePlanContract store (coalesce (wc_planId work) []) (retry_step env work why)))"

end
