(* ===== verification/WorkPatch.thy ===== *)
theory WorkPatch
  imports WorkContract
begin

text \<open>
  Partial updates of a Work contract, the type \<open>Partial<Omit<WorkContract, ...>>\<close> that the store of
  \<open>packages/kernel/work/infrastructure/work-contract-store.ts\<close> accepts.  A property the patch does not
  have is \<open>None\<close>; one it has carries its value, which for an optional property of the contract may
  be \<open>undefined\<close>.  The first four records hold the properties that the spread \<open>...patch\<close> writes as
  they are, the last one those that the update computes with; for \<open>completionOutcome\<close> and
  \<open>continuationPrompt\<close> the code does not tell an undefined value from an absent one.
\<close>

record patch_identity_part =
  pp_scopeRef :: "scope_ref option option"
  pp_executionPlacement :: "execution_placement option option"
  pp_checkoutId :: "string option option"
  pp_principalId :: "string option option"
  pp_controllerInstanceId :: "string option option"
  pp_baseRevision :: "string option option"
  pp_repositoryBaseState :: "repository_base_state option option"
  pp_workspaceFingerprint :: "string option option"
  pp_routeDecisionFingerprint :: "string option option"
  pp_routeDecision :: "route_decision option option"
  pp_mode :: "execution_mode option"
  pp_acceptanceCriteria :: "string list option"

record patch_semantics_part = patch_identity_part +
  pp_constraints :: "work_constraints option"
  pp_engineeringContext :: "engineering_context option option"
  pp_executionConcurrency :: "concurrency_projection option option"
  pp_lifecycleRole :: "lifecycle_role option option"
  pp_parentWorkId :: "string option option"
  pp_predecessorWorkId :: "string option option"
  pp_supersedes :: "string list option option"
  pp_supersededBy :: "string option option"
  pp_supersessionReason :: "string option option"

record patch_links_part = patch_semantics_part +
  pp_issueId :: "string option option"
  pp_taskId :: "string option option"
  pp_requirementId :: "string option option"
  pp_planId :: "string option option"
  pp_planStepId :: "string option option"
  pp_planSourceRevision :: "string option option"
  pp_scopeSummary :: "string option option"
  pp_scopeEvidence :: "scope_evidence option option"
  pp_readOnlyReviewEvidence :: "read_only_review_evidence option option"
  pp_semanticAcceptanceEvidence :: "semantic_acceptance_evidence list option option"
  pp_allowedPaths :: "string list option"
  pp_forbiddenPaths :: "string list option"
  pp_checks :: "string list option"

record plain_patch = patch_links_part +
  pp_driver :: "driver_policy option"
  pp_worktreePolicy :: "worktree_policy option"
  pp_evidencePolicy :: "evidence_policy option"
  pp_approvalPolicy :: "approval_policy option"
  pp_recoveryPolicy :: "recovery_policy option"
  pp_requestedBy :: "work_requester option"
  pp_worktreeRef :: "string option option"
  pp_workerRef :: "string option option"
  pp_requestId :: "string option option"
  pp_submittedOperation :: "submitted_operation option option"

record work_patch = plain_patch +
  wu_status :: "work_contract_status option"
  wu_phase :: "work_phase option"
  wu_phaseEvidence :: "phase_evidence_map option"
  wu_completionReceipt :: "completion_receipt option option"
  wu_completionOutcome :: "completion_outcome option"
  wu_risk :: "work_risk option"
  wu_workKind :: "work_kind option"
  wu_dispatchState :: "dispatch_state option"
  wu_evidenceState :: "evidence_state option"
  wu_evidenceRefs :: "evidence_ref list option"
  wu_handoffRefs :: "string list option"
  wu_suggestedNextActions :: "suggested_action list option"
  wu_policyDecisions :: "policy_decision list option"
  wu_checkRefs :: "verification_record list option"
  wu_implementationReviews :: "review_record list option"
  wu_reconciliations :: "work_reconciliation list option"
  wu_objective :: "string option"
  wu_continuationPrompt :: "string option"

definition no_patch :: work_patch where
  "no_patch = \<lparr>pp_scopeRef = None, pp_executionPlacement = None, pp_checkoutId = None, pp_principalId = None,
     pp_controllerInstanceId = None, pp_baseRevision = None, pp_repositoryBaseState = None,
     pp_workspaceFingerprint = None, pp_routeDecisionFingerprint = None, pp_routeDecision = None, pp_mode = None,
     pp_acceptanceCriteria = None, pp_constraints = None, pp_engineeringContext = None,
     pp_executionConcurrency = None, pp_lifecycleRole = None, pp_parentWorkId = None, pp_predecessorWorkId = None,
     pp_supersedes = None, pp_supersededBy = None, pp_supersessionReason = None, pp_issueId = None,
     pp_taskId = None, pp_requirementId = None, pp_planId = None, pp_planStepId = None,
     pp_planSourceRevision = None, pp_scopeSummary = None, pp_scopeEvidence = None,
     pp_readOnlyReviewEvidence = None, pp_semanticAcceptanceEvidence = None, pp_allowedPaths = None,
     pp_forbiddenPaths = None, pp_checks = None, pp_driver = None, pp_worktreePolicy = None,
     pp_evidencePolicy = None, pp_approvalPolicy = None, pp_recoveryPolicy = None, pp_requestedBy = None,
     pp_worktreeRef = None, pp_workerRef = None, pp_requestId = None, pp_submittedOperation = None,
     wu_status = None, wu_phase = None, wu_phaseEvidence = None, wu_completionReceipt = None,
     wu_completionOutcome = None, wu_risk = None, wu_workKind = None, wu_dispatchState = None,
     wu_evidenceState = None, wu_evidenceRefs = None, wu_handoffRefs = None, wu_suggestedNextActions = None,
     wu_policyDecisions = None, wu_checkRefs = None, wu_implementationReviews = None, wu_reconciliations = None,
     wu_objective = None, wu_continuationPrompt = None\<rparr>"

text \<open>\<open>{ ...current, ...patch }\<close> on the properties that are written as they are.\<close>

definition patch_identity :: "work_patch \<Rightarrow> work_contract \<Rightarrow> work_contract" where
  "patch_identity p c = c\<lparr>wc_scopeRef := coalesce (pp_scopeRef p) (wc_scopeRef c),
     wc_executionPlacement := coalesce (pp_executionPlacement p) (wc_executionPlacement c),
     wc_checkoutId := coalesce (pp_checkoutId p) (wc_checkoutId c),
     wc_principalId := coalesce (pp_principalId p) (wc_principalId c),
     wc_controllerInstanceId := coalesce (pp_controllerInstanceId p) (wc_controllerInstanceId c),
     wc_baseRevision := coalesce (pp_baseRevision p) (wc_baseRevision c),
     wc_repositoryBaseState := coalesce (pp_repositoryBaseState p) (wc_repositoryBaseState c),
     wc_workspaceFingerprint := coalesce (pp_workspaceFingerprint p) (wc_workspaceFingerprint c),
     wc_routeDecisionFingerprint := coalesce (pp_routeDecisionFingerprint p) (wc_routeDecisionFingerprint c),
     wc_routeDecision := coalesce (pp_routeDecision p) (wc_routeDecision c),
     wc_mode := coalesce (pp_mode p) (wc_mode c),
     wc_acceptanceCriteria := coalesce (pp_acceptanceCriteria p) (wc_acceptanceCriteria c)\<rparr>"

definition patch_semantics :: "work_patch \<Rightarrow> work_contract \<Rightarrow> work_contract" where
  "patch_semantics p c = c\<lparr>wc_constraints := coalesce (pp_constraints p) (wc_constraints c),
     wc_engineeringContext := coalesce (pp_engineeringContext p) (wc_engineeringContext c),
     wc_executionConcurrency := coalesce (pp_executionConcurrency p) (wc_executionConcurrency c),
     wc_lifecycleRole := coalesce (pp_lifecycleRole p) (wc_lifecycleRole c),
     wc_parentWorkId := coalesce (pp_parentWorkId p) (wc_parentWorkId c),
     wc_predecessorWorkId := coalesce (pp_predecessorWorkId p) (wc_predecessorWorkId c),
     wc_supersedes := coalesce (pp_supersedes p) (wc_supersedes c),
     wc_supersededBy := coalesce (pp_supersededBy p) (wc_supersededBy c),
     wc_supersessionReason := coalesce (pp_supersessionReason p) (wc_supersessionReason c)\<rparr>"

definition patch_links :: "work_patch \<Rightarrow> work_contract \<Rightarrow> work_contract" where
  "patch_links p c = c\<lparr>wc_issueId := coalesce (pp_issueId p) (wc_issueId c),
     wc_taskId := coalesce (pp_taskId p) (wc_taskId c),
     wc_requirementId := coalesce (pp_requirementId p) (wc_requirementId c),
     wc_planId := coalesce (pp_planId p) (wc_planId c),
     wc_planStepId := coalesce (pp_planStepId p) (wc_planStepId c),
     wc_planSourceRevision := coalesce (pp_planSourceRevision p) (wc_planSourceRevision c),
     wc_scopeSummary := coalesce (pp_scopeSummary p) (wc_scopeSummary c),
     wc_scopeEvidence := coalesce (pp_scopeEvidence p) (wc_scopeEvidence c),
     wc_readOnlyReviewEvidence := coalesce (pp_readOnlyReviewEvidence p) (wc_readOnlyReviewEvidence c),
     wc_semanticAcceptanceEvidence := coalesce (pp_semanticAcceptanceEvidence p) (wc_semanticAcceptanceEvidence c),
     wc_allowedPaths := coalesce (pp_allowedPaths p) (wc_allowedPaths c),
     wc_forbiddenPaths := coalesce (pp_forbiddenPaths p) (wc_forbiddenPaths c),
     wc_checks := coalesce (pp_checks p) (wc_checks c)\<rparr>"

definition patch_rest :: "work_patch \<Rightarrow> work_contract \<Rightarrow> work_contract" where
  "patch_rest p c = c\<lparr>wc_driver := coalesce (pp_driver p) (wc_driver c),
     wc_worktreePolicy := coalesce (pp_worktreePolicy p) (wc_worktreePolicy c),
     wc_evidencePolicy := coalesce (pp_evidencePolicy p) (wc_evidencePolicy c),
     wc_approvalPolicy := coalesce (pp_approvalPolicy p) (wc_approvalPolicy c),
     wc_recoveryPolicy := coalesce (pp_recoveryPolicy p) (wc_recoveryPolicy c),
     wc_requestedBy := coalesce (pp_requestedBy p) (wc_requestedBy c),
     wc_worktreeRef := coalesce (pp_worktreeRef p) (wc_worktreeRef c),
     wc_workerRef := coalesce (pp_workerRef p) (wc_workerRef c),
     wc_requestId := coalesce (pp_requestId p) (wc_requestId c),
     wc_submittedOperation := coalesce (pp_submittedOperation p) (wc_submittedOperation c)\<rparr>"

definition spread_patch :: "work_patch \<Rightarrow> work_contract \<Rightarrow> work_contract" where
  "spread_patch p c = patch_rest p (patch_links p (patch_semantics p (patch_identity p c)))"

end
