(* ===== verification/WorkContractStore.thy ===== *)
theory WorkContractStore
  imports WorkPatch WorkStateMachine WorkConcurrency JsonFiles
begin

text \<open>
  The Work contract store, \<open>packages/kernel/work/infrastructure/work-contract-store.ts\<close>: reading a
  stored contract, which normalises what older versions wrote, creating one, and the lists and
  projections that read the store.  A stored row is a contract whose later properties may be
  missing; the state of the store is the list of its rows.  The two kinds of store the code
  has, a SQLite table with a row per Work and a JSON file read and written as a whole, differ in
  which rows an operation normalises and writes back.  The one-time import of the JSON index
  into an empty table and the limit of 5,000 rows of a read are left out: the store is a table
  that has rows, and no more than that.
\<close>

section \<open>States inferred from a status\<close>

definition inferredDispatchState :: "work_contract_status \<Rightarrow> dispatch_state" where
  "inferredDispatchState status =
     (if status = Status_open \<or> status = Status_ready then Dispatch_not_dispatched
      else if status = Status_running then Dispatch_running
      else if status = Status_blocked then Dispatch_blocked
      else Dispatch_terminal)"

definition inferredPhase :: "work_contract_status \<Rightarrow> work_phase" where
  "inferredPhase status =
     (if status = Status_ready then Phase_verification
      else if status = Status_completed \<or> status = Status_failed \<or> status = Status_cancelled then Phase_cleanup
      else Phase_implementation)"

definition phaseForStatusUpdate :: "work_phase \<Rightarrow> work_contract_status option \<Rightarrow> work_phase" where
  "phaseForStatusUpdate current status =
     (case status of None \<Rightarrow> current
      | Some s \<Rightarrow>
          if s = Status_ready then Phase_verification
          else if s = Status_completed \<or> s = Status_failed \<or> s = Status_cancelled then Phase_cleanup
          else current)"

definition dispatchStateForStatusUpdate :: "dispatch_state \<Rightarrow> work_contract_status option \<Rightarrow> dispatch_state" where
  "dispatchStateForStatusUpdate current status =
     (case status of None \<Rightarrow> current
      | Some s \<Rightarrow> if s = Status_ready then current else inferredDispatchState s)"

definition inferredEvidenceState :: "work_contract_status \<Rightarrow> evidence_state" where
  "inferredEvidenceState status =
     (if status = Status_failed then EvState_failed
      else if status = Status_completed then EvState_partial else EvState_none)"

section \<open>Phase evidence of a record without one\<close>

fun phase_state_str :: "phase_evidence_state \<Rightarrow> string" where
  "phase_state_str PState_pending = ''pending''"
| "phase_state_str PState_active = ''active''"
| "phase_state_str PState_satisfied = ''satisfied''"
| "phase_state_str PState_blocked = ''blocked''"
| "phase_state_str PState_failed = ''failed''"
| "phase_state_str PState_skipped = ''skipped''"

definition legacy_checkpoint ::
    "work_phase \<Rightarrow> work_contract_status \<Rightarrow> evidence_ref list \<Rightarrow> completion_receipt option \<Rightarrow> string \<Rightarrow>
     phase_evidence_source \<Rightarrow> work_phase \<Rightarrow> phase_evidence" where
  "legacy_checkpoint current status refs receipt updatedAt source phase =
     (let index = phaseIndex phase; currentIndex = phaseIndex current;
          state = (if receipt \<noteq> None then (if phase = Phase_review then PState_skipped else PState_satisfied)
                   else if status = Status_failed \<and> phase = current then PState_failed
                   else if status = Status_cancelled \<and> phase = current then PState_skipped
                   else if index < currentIndex then PState_satisfied
                   else if index = currentIndex then PState_active else PState_pending) in
      \<lparr>pe_state = state,
       pe_source = Some (if receipt \<noteq> None then Source_recorded else source),
       pe_summary = (case receipt of
          Some r \<Rightarrow> if phase = Phase_review
            then ''Legacy completed Work predates first-class implementation review; review phase is compatibility-skipped without synthesizing approval.''
            else ''Phase '' @ phase_str phase @ '' satisfied by Work completion receipt '' @ receipt_id r @ ''.''
        | None \<Rightarrow> if index < currentIndex then ''Legacy Work advanced beyond '' @ phase_str phase @ ''.''
            else ''Legacy Work phase '' @ phase_str phase @ '' is '' @ phase_state_str state @ ''.''),
       pe_evidenceRefs = take 20 refs, pe_recordedAt = updatedAt,
       pe_receiptId = (if phase = Phase_delivery \<or> phase = Phase_cleanup then map_option receipt_id receipt else None)\<rparr>)"

definition legacyPhaseEvidence ::
    "work_phase \<Rightarrow> work_contract_status \<Rightarrow> evidence_ref list \<Rightarrow> completion_receipt option \<Rightarrow> string \<Rightarrow>
     phase_evidence_source \<Rightarrow> phase_evidence_map" where
  "legacyPhaseEvidence current status refs receipt updatedAt source =
     (\<lambda>phase. Some (legacy_checkpoint current status refs receipt updatedAt source phase))"

section \<open>Stored rows\<close>

datatype stored_status = Current_status work_contract_status | Legacy_pending | Legacy_waiting_for_review | Legacy_succeeded

text \<open>
  A stored row: the contract, with the properties that a row of an older version may lack.  The
  same properties of \<open>rw_contract\<close> are not read.  \<open>rw_codexWorker\<close> tells that the driver is the
  retired \<open>codex_worker\<close>.
\<close>

record work_row =
  rw_contract :: work_contract
  rw_status :: stored_status
  rw_schemaVersion :: "nat option"
  rw_phase :: "work_phase option"
  rw_phaseEvidence :: "phase_evidence_map option"
  rw_risk :: "work_risk option"
  rw_workKind :: "work_kind option"
  rw_dispatchState :: "dispatch_state option"
  rw_evidenceState :: "evidence_state option"
  rw_suggestedNextActions :: "suggested_action list option"
  rw_implementationReviews :: "review_record list option"
  rw_reconciliations :: "work_reconciliation list option"
  rw_codexWorker :: bool

text \<open>The row that a write of this version leaves.\<close>

definition row_of :: "work_contract \<Rightarrow> work_row" where
  "row_of c = \<lparr>rw_contract = c, rw_status = Current_status (wc_status c), rw_schemaVersion = Some (wc_schemaVersion c),
     rw_phase = Some (wc_phase c), rw_phaseEvidence = Some (wc_phaseEvidence c), rw_risk = Some (wc_risk c),
     rw_workKind = Some (wc_workKind c), rw_dispatchState = Some (wc_dispatchState c),
     rw_evidenceState = Some (wc_evidenceState c), rw_suggestedNextActions = Some (wc_suggestedNextActions c),
     rw_implementationReviews = Some (wc_implementationReviews c), rw_reconciliations = Some (wc_reconciliations c),
     rw_codexWorker = False\<rparr>"

fun mapped_status :: "stored_status \<Rightarrow> work_contract_status" where
  "mapped_status (Current_status s) = s"
| "mapped_status Legacy_pending = Status_open"
| "mapped_status Legacy_waiting_for_review = Status_ready"
| "mapped_status Legacy_succeeded = Status_completed"

text \<open>The review checkpoint of a row that has a phase-evidence map.\<close>

definition normalized_review :: "work_phase \<Rightarrow> phase_evidence option \<Rightarrow> phase_evidence \<Rightarrow> phase_evidence" where
  "normalized_review phase existing fallback =
     (case existing of
        Some e \<Rightarrow>
          if pe_source e = Some Source_legacy_inferred \<and> pe_state e = PState_pending
             \<and> phaseIndex phase > phaseIndex Phase_review
          then e\<lparr>pe_state := PState_skipped,
            pe_summary := ''Legacy Work advanced beyond first-class implementation review before that checkpoint existed; compatibility-skipped without synthesizing Controller approval.''\<rparr>
          else e
      | None \<Rightarrow>
          if phaseIndex phase > phaseIndex Phase_review
          then fallback\<lparr>pe_state := PState_skipped,
            pe_summary := ''Legacy Work advanced beyond first-class implementation review; compatibility-skipped without synthesizing Controller approval.''\<rparr>
          else fallback)"

definition normalized_phase_evidence :: "work_phase \<Rightarrow> phase_evidence_map option \<Rightarrow> (work_phase \<Rightarrow> phase_evidence) \<Rightarrow> phase_evidence_map" where
  "normalized_phase_evidence phase existing defaults =
     (case existing of
        None \<Rightarrow> (\<lambda>p. Some (defaults p))
      | Some m \<Rightarrow> ((\<lambda>p. Some (defaults p)) ++ m)
          (Phase_review \<mapsto> normalized_review phase (m Phase_review) (defaults Phase_review)))"

definition row_status :: "work_row \<Rightarrow> work_contract_status" where
  "row_status row =
     (let mapped = mapped_status (rw_status row) in
      if mapped = Status_completed \<and> wc_completionReceipt (rw_contract row) = None then Status_ready else mapped)"

definition row_phase :: "work_row \<Rightarrow> work_phase" where
  "row_phase row =
     (if wc_completionReceipt (rw_contract row) \<noteq> None then Phase_cleanup
      else if mapped_status (rw_status row) = Status_completed then Phase_delivery
      else coalesce (rw_phase row) (inferredPhase (row_status row)))"

definition external_driver :: "driver_policy \<Rightarrow> driver_policy" where
  "external_driver d = d\<lparr>dp_preferred := Driver_external_controller, dp_allowWorker := False\<rparr>"

definition normalizeWorkContract :: "js_host \<Rightarrow> work_row \<Rightarrow> work_contract res" where
  "normalizeWorkContract H row =
     (let legacy = rw_contract row; status = row_status row; phase = row_phase row;
          defaults = legacy_checkpoint phase status (wc_evidenceRefs legacy) (wc_completionReceipt legacy)
            (wc_updatedAt legacy) Source_legacy_inferred in
      validateWorkSemantics H (legacy\<lparr>
        wc_schemaVersion := coalesce (rw_schemaVersion row) 1,
        wc_scopeRef := Some (semanticScopeRefForWork legacy),
        wc_executionPlacement := Some (executionPlacementForWork legacy),
        wc_status := status, wc_phase := phase,
        wc_phaseEvidence := normalized_phase_evidence phase (rw_phaseEvidence row) defaults,
        wc_risk := coalesce (rw_risk row) Risk_medium,
        wc_workKind := coalesce (rw_workKind row) Kind_repository_change,
        wc_dispatchState := coalesce (rw_dispatchState row) (inferredDispatchState status),
        wc_evidenceState := coalesce (rw_evidenceState row) (inferredEvidenceState status),
        wc_suggestedNextActions := suggestedActionsForStatus status (coalesce (rw_suggestedNextActions row) []),
        wc_implementationReviews := coalesce (rw_implementationReviews row) [],
        wc_reconciliations := coalesce (rw_reconciliations row) [],
        wc_driver := (if rw_codexWorker row then external_driver (wc_driver legacy) else wc_driver legacy)\<rparr>))"

section \<open>The store\<close>

record work_store =
  wks_updatedAt :: string
  wks_rows :: "work_row list"

text \<open>
  What an operation reads outside the store: whether it is the SQLite table, the stored
  admission policy (\<open>None\<close> for a store without a controller home, else the record that may be
  missing), the time stamp of the operation and the one of the update within it.
\<close>

record work_env =
  we_sqlite :: bool
  we_policy :: "admission_policy option option"
  we_now :: string
  we_updateNow :: string

definition readWorkContractStore :: "js_host \<Rightarrow> work_store \<Rightarrow> work_contract list res" where
  "readWorkContractStore H store = map_res (normalizeWorkContract H) (wks_rows store)"

definition writeWorkContractStore :: "string \<Rightarrow> work_contract list \<Rightarrow> work_store" where
  "writeWorkContractStore updatedAt contracts = \<lparr>wks_updatedAt = updatedAt, wks_rows = map row_of contracts\<rparr>"

definition row_id :: "work_row \<Rightarrow> string" where
  "row_id row = wc_workId (rw_contract row)"

definition getWorkContract :: "js_host \<Rightarrow> work_env \<Rightarrow> work_store \<Rightarrow> string \<Rightarrow> work_contract option res" where
  "getWorkContract H env store workId =
     (let sanitizedId = sanitizeFileComponent workId in
      if \<not> we_sqlite env
      then bindE (readWorkContractStore H store) (\<lambda>contracts. Inr (find (\<lambda>c. wc_workId c = sanitizedId) contracts))
      else case find (\<lambda>row. row_id row = sanitizedId) (wks_rows store) of
        Some row \<Rightarrow> bindE (normalizeWorkContract H row) (\<lambda>c. Inr (Some c))
      | None \<Rightarrow> Inr None)"

definition assertCanonicalWorkAdmissionAllowed ::
    "work_env \<Rightarrow> string \<Rightarrow> admission_operation \<Rightarrow> string option \<Rightarrow> admission_policy res" where
  "assertCanonicalWorkAdmissionAllowed env now operation workId =
     (case we_policy env of
        None \<Rightarrow> Inr (normalWorkAdmissionPolicy now)
      | Some policy \<Rightarrow> assertWorkAdmissionPolicyAllows (coalesce policy (normalWorkAdmissionPolicy now)) operation workId)"

section \<open>Creating a contract\<close>

definition defaultDriver :: "execution_mode \<Rightarrow> driver_policy" where
  "defaultDriver mode =
     (if mode = Mode_direct_control then \<lparr>dp_preferred = Driver_direct_edit, dp_allowWorker = False, dp_allowDirectEdit = True\<rparr>
      else if mode = Mode_handoff_only then \<lparr>dp_preferred = Driver_handoff_only, dp_allowWorker = False, dp_allowDirectEdit = False\<rparr>
      else \<lparr>dp_preferred = Driver_direct_edit, dp_allowWorker = False, dp_allowDirectEdit = True\<rparr>)"

definition default_worktree_policy :: "execution_mode \<Rightarrow> worktree_policy" where
  "default_worktree_policy mode =
     \<lparr>wp_required = (mode = Mode_goal_workloop),
      wp_reason = (if mode = Mode_goal_workloop then Some ''Goal workloop defaults to isolated worktree execution.'' else None),
      wp_ref = None\<rparr>"

definition bounded_scope_evidence :: "scope_evidence \<Rightarrow> scope_evidence" where
  "bounded_scope_evidence e =
     \<lparr>se_initialLikelyPaths = take 100 (js_uniq (se_initialLikelyPaths e)),
      se_inspectedPaths = take 500 (js_uniq (se_inspectedPaths e)),
      se_actualChangedPaths = take 500 (js_uniq (se_actualChangedPaths e)),
      se_recordedAt = se_recordedAt e\<rparr>"

text \<open>\<open>semanticScopeRefForWork\<close> on the identities a new or rebound contract has.\<close>

definition work_scope_ref ::
    "string \<Rightarrow> scope_ref option \<Rightarrow> string option \<Rightarrow> string option \<Rightarrow> string option \<Rightarrow> scope_ref" where
  "work_scope_ref workId scope requirementId planId planStepId =
     (case scope of
        Some s \<Rightarrow> s
      | None \<Rightarrow>
          if truthy (opt_trim requirementId) then \<lparr>sr_kind = Scope_requirement, sr_id = js_trim (the requirementId)\<rparr>
          else if truthy (opt_trim planId) \<and> truthy (opt_trim planStepId)
            then \<lparr>sr_kind = Scope_plan_step, sr_id = js_trim (the planId) @ '':'' @ js_trim (the planStepId)\<rparr>
          else if truthy (opt_trim planId) then \<lparr>sr_kind = Scope_plan, sr_id = js_trim (the planId)\<rparr>
          else \<lparr>sr_kind = Scope_work, sr_id = js_trim workId\<rparr>)"

record work_input_identity =
  wi_workId :: string
  wi_scopeRef :: "scope_ref option"
  wi_executionPlacement :: "execution_placement option"
  wi_repoId :: string
  wi_checkoutId :: "string option"
  wi_principalId :: "string option"
  wi_controllerInstanceId :: "string option"
  wi_baseRevision :: "string option"
  wi_repositoryBaseState :: "repository_base_state option"
  wi_workspaceFingerprint :: "string option"
  wi_routeDecisionFingerprint :: "string option"
  wi_routeDecision :: "route_decision option"
  wi_mode :: execution_mode
  wi_objective :: string

record work_input_semantics = work_input_identity +
  wi_acceptanceCriteria :: "string list"
  wi_constraints :: work_constraints
  wi_risk :: "work_risk option"
  wi_engineeringContext :: "engineering_context option"
  wi_phase :: "work_phase option"
  wi_workKind :: "work_kind option"
  wi_lifecycleRole :: "lifecycle_role option"
  wi_parentWorkId :: "string option"
  wi_predecessorWorkId :: "string option"
  wi_supersedes :: "string list option"
  wi_supersededBy :: "string option"
  wi_supersessionReason :: "string option"
  wi_dispatchState :: "dispatch_state option"
  wi_evidenceState :: "evidence_state option"
  wi_completionOutcome :: "completion_outcome option"
  wi_status :: "work_contract_status option"

record work_input_links = work_input_semantics +
  wi_createdAt :: "string option"
  wi_updatedAt :: "string option"
  wi_issueId :: "string option"
  wi_taskId :: "string option"
  wi_requirementId :: "string option"
  wi_completionReceipt :: "completion_receipt option"
  wi_planId :: "string option"
  wi_planStepId :: "string option"
  wi_planSourceRevision :: "string option"
  wi_scopeSummary :: "string option"
  wi_scopeEvidence :: "scope_evidence option"
  wi_allowedPaths :: "string list"
  wi_forbiddenPaths :: "string list"
  wi_checks :: "string list"

record work_input = work_input_links +
  wi_driver :: "driver_policy option"
  wi_worktreePolicy :: "worktree_policy option"
  wi_evidencePolicy :: "evidence_policy option"
  wi_approvalPolicy :: "approval_policy option"
  wi_recoveryPolicy :: "recovery_policy option"
  wi_requestedBy :: work_requester
  wi_evidenceRefs :: "evidence_ref list option"
  wi_handoffRefs :: "string list option"
  wi_suggestedNextActions :: "suggested_action list option"
  wi_policyDecisions :: "policy_decision list option"
  wi_checkRefs :: "verification_record list option"
  wi_reconciliations :: "work_reconciliation list option"
  wi_continuationPrompt :: "string option"
  wi_worktreeRef :: "string option"
  wi_workerRef :: "string option"
  wi_requestId :: "string option"
  wi_submittedOperation :: "submitted_operation option"

text \<open>The contract a request describes, before it is validated.\<close>

definition new_contract :: "work_input \<Rightarrow> string \<Rightarrow> string \<Rightarrow> string option \<Rightarrow> work_contract" where
  "new_contract inp workId stamp predecessorWorkId =
     (let status = coalesce (wi_status inp) Status_open; phase = coalesce (wi_phase inp) (inferredPhase status) in
      \<lparr>wc_schemaVersion = 2,
       wc_workId = workId,
       wc_scopeRef = Some (work_scope_ref workId (wi_scopeRef inp) (wi_requirementId inp) (wi_planId inp) (wi_planStepId inp)),
       wc_executionPlacement = Some (coalesce (wi_executionPlacement inp) \<lparr>ep_forgeInstanceId = None, ep_repositoryId = Some (wi_repoId inp), ep_checkoutId = trim_or_none (wi_checkoutId inp)\<rparr>),
       wc_repoId = wi_repoId inp,
       wc_checkoutId = wi_checkoutId inp,
       wc_principalId = wi_principalId inp,
       wc_controllerInstanceId = wi_controllerInstanceId inp,
       wc_baseRevision = wi_baseRevision inp,
       wc_repositoryBaseState = wi_repositoryBaseState inp,
       wc_workspaceFingerprint = wi_workspaceFingerprint inp,
       wc_routeDecisionFingerprint = wi_routeDecisionFingerprint inp,
       wc_routeDecision = wi_routeDecision inp,
       wc_mode = wi_mode inp,
       wc_objective = take 2000 (wi_objective inp),
       wc_acceptanceCriteria = map (take 500) (take 20 (wi_acceptanceCriteria inp)),
       wc_constraints = wi_constraints inp,
       wc_risk = coalesce (wi_risk inp) Risk_medium,
       wc_engineeringContext = wi_engineeringContext inp,
       wc_executionConcurrency = None,
       wc_phase = phase,
       wc_phaseEvidence = legacyPhaseEvidence phase status (coalesce (wi_evidenceRefs inp) []) (wi_completionReceipt inp) (coalesce (wi_updatedAt inp) stamp) Source_recorded,
       wc_workKind = coalesce (wi_workKind inp) Kind_repository_change,
       wc_lifecycleRole = Some (coalesce (wi_lifecycleRole inp) Role_primary),
       wc_parentWorkId = trim_or_none (wi_parentWorkId inp),
       wc_predecessorWorkId = (if truthy predecessorWorkId \<and> predecessorWorkId \<noteq> Some ''unknown'' then predecessorWorkId else None),
       wc_supersedes = map_option (\<lambda>ids. take 50 (filter (\<lambda>i. i \<noteq> ''unknown'') (map sanitizeFileComponent ids))) (wi_supersedes inp),
       wc_supersededBy = (if truthy (wi_supersededBy inp) then map_option sanitizeFileComponent (wi_supersededBy inp) else None),
       wc_supersessionReason = map_option (take 500) (opt_trim (wi_supersessionReason inp)),
       wc_dispatchState = coalesce (wi_dispatchState inp) (inferredDispatchState status),
       wc_evidenceState = coalesce (wi_evidenceState inp) (inferredEvidenceState status),
       wc_completionOutcome = wi_completionOutcome inp,
       wc_status = status,
       wc_createdAt = stamp,
       wc_updatedAt = coalesce (wi_updatedAt inp) stamp,
       wc_issueId = wi_issueId inp,
       wc_taskId = wi_taskId inp,
       wc_requirementId = wi_requirementId inp,
       wc_completionReceipt = wi_completionReceipt inp,
       wc_planId = wi_planId inp,
       wc_planStepId = wi_planStepId inp,
       wc_planSourceRevision = wi_planSourceRevision inp,
       wc_scopeSummary = map_option (take 1000) (wi_scopeSummary inp),
       wc_scopeEvidence = map_option bounded_scope_evidence (wi_scopeEvidence inp),
       wc_readOnlyReviewEvidence = None,
       wc_semanticAcceptanceEvidence = None,
       wc_allowedPaths = take 50 (wi_allowedPaths inp),
       wc_forbiddenPaths = take 50 (wi_forbiddenPaths inp),
       wc_checks = take 30 (wi_checks inp),
       wc_driver = coalesce (wi_driver inp) (defaultDriver (wi_mode inp)),
       wc_worktreePolicy = coalesce (wi_worktreePolicy inp) (default_worktree_policy (wi_mode inp)),
       wc_evidencePolicy = coalesce (wi_evidencePolicy inp) \<lparr>vp_defaultDetailLevel = Detail_summary, vp_allowRawOptIn = True, vp_maxEvidenceRefs = 20\<rparr>,
       wc_approvalPolicy = coalesce (wi_approvalPolicy inp) \<lparr>approval_policy.ap_required = False, ap_reasons = [], ap_confirmed = False\<rparr>,
       wc_recoveryPolicy = coalesce (wi_recoveryPolicy inp) \<lparr>rp_allowSelfHealing = False, rp_maxInfrastructureRetries = 0, rp_handoffOnAmbiguity = True\<rparr>,
       wc_requestedBy = wi_requestedBy inp,
       wc_evidenceRefs = take 20 (coalesce (wi_evidenceRefs inp) []),
       wc_handoffRefs = take 20 (coalesce (wi_handoffRefs inp) []),
       wc_suggestedNextActions = take 8 (coalesce (wi_suggestedNextActions inp) []),
       wc_policyDecisions = take 20 (coalesce (wi_policyDecisions inp) []),
       wc_checkRefs = take 50 (coalesce (wi_checkRefs inp) []),
       wc_implementationReviews = [],
       wc_reconciliations = take 20 (coalesce (wi_reconciliations inp) []),
       wc_continuationPrompt = map_option (take 2000) (wi_continuationPrompt inp),
       wc_worktreeRef = wi_worktreeRef inp,
       wc_workerRef = wi_workerRef inp,
       wc_requestId = trim_or_none (wi_requestId inp),
       wc_submittedOperation = wi_submittedOperation inp\<rparr>)"

definition createWorkContract ::
    "js_host \<Rightarrow> work_env \<Rightarrow> work_store \<Rightarrow> work_input \<Rightarrow> (work_contract \<times> work_store) res" where
  "createWorkContract H env store inp =
     bindE (assertCanonicalWorkAdmissionAllowed env (we_now env) Op_create (Some (wi_workId inp))) (\<lambda>_.
     bindE (throw_if (wi_status inp = Some Status_completed \<or> wi_completionReceipt inp \<noteq> None \<or> wi_completionOutcome inp \<noteq> None)
              ''WORK_COMPLETION_REQUIRES_RECORD_API'') (\<lambda>_.
     let stamp = coalesce (wi_createdAt inp) (coalesce (wi_updatedAt inp) (we_now env));
         workId = sanitizeFileComponent (wi_workId inp);
         predecessorWorkId = (if truthy (wi_predecessorWorkId inp) then map_option sanitizeFileComponent (wi_predecessorWorkId inp) else None) in
     bindE (throw_if (predecessorWorkId = Some workId) ''WORK_PREDECESSOR_SELF_REFERENCE'') (\<lambda>_.
     bindE (validateWorkSemantics H (new_contract inp workId stamp predecessorWorkId)) (\<lambda>contract.
     if we_sqlite env
     then bindE (throw_if (\<exists>row\<in>set (wks_rows store). row_id row = wc_workId contract)
                   (''work contract already exists: '' @ wc_workId contract)) (\<lambda>_.
          Inr (contract, store\<lparr>wks_updatedAt := wc_updatedAt contract, wks_rows := row_of contract # wks_rows store\<rparr>))
     else bindE (readWorkContractStore H store) (\<lambda>contracts.
          bindE (throw_if (\<exists>c\<in>set contracts. wc_workId c = wc_workId contract)
                   (''work contract already exists: '' @ wc_workId contract)) (\<lambda>_.
          Inr (contract, writeWorkContractStore (wc_updatedAt contract) (contract # contracts))))))))"

section \<open>Reading the store\<close>

definition isCurrentWorkContract :: "work_contract \<Rightarrow> bool" where
  "isCurrentWorkContract c \<longleftrightarrow>
     \<not> isTerminalWorkContractStatus (wc_status c) \<and> \<not> truthy (opt_trim (wc_supersededBy c)) \<and>
     wc_workKind c \<noteq> Kind_superseded \<and> wc_completionOutcome c \<noteq> Some Outcome_superseded"

datatype status_filter = Filter_active | Filter_all | Filter_status work_contract_status

definition newest_first :: "js_host \<Rightarrow> work_contract \<Rightarrow> work_contract \<Rightarrow> int" where
  "newest_first H l r = locale_compare H (wc_updatedAt r) (wc_updatedAt l)"

text \<open>\<open>Math.max(1, Math.min(Math.trunc(limit ?? d), most))\<close>.\<close>

definition clamp_limit :: "int option \<Rightarrow> int \<Rightarrow> int \<Rightarrow> nat" where
  "clamp_limit limit d most = nat (max 1 (min (coalesce limit d) most))"

definition listWorkContracts ::
    "js_host \<Rightarrow> work_store \<Rightarrow> status_filter option \<Rightarrow> int option \<Rightarrow> work_contract list res" where
  "listWorkContracts H store status limit =
     bindE (readWorkContractStore H store) (\<lambda>contracts.
     Inr (take (clamp_limit limit 50 100) (sort_by (newest_first H)
       (filter (\<lambda>c. case coalesce status Filter_active of
            Filter_all \<Rightarrow> True
          | Filter_active \<Rightarrow> isCurrentWorkContract c
          | Filter_status s \<Rightarrow> wc_status c = s) contracts))))"

definition workExecutionSemanticScopeKeys :: "work_contract \<Rightarrow> string list" where
  "workExecutionSemanticScopeKeys c =
     (let declared = trim_all (case Option.bind (wc_engineeringContext c) ec_semanticScope of None \<Rightarrow> [] | Some scope \<Rightarrow> ss_keys scope) in
      if declared \<noteq> [] then sort_by unit_cmp (js_uniq declared)
      else if truthy (opt_trim (wc_planId c)) \<and> truthy (opt_trim (wc_planStepId c))
        then [''plan-step:'' @ js_trim (the (wc_planId c)) @ '':'' @ js_trim (the (wc_planStepId c))]
      else [''work:'' @ wc_workId c])"

datatype work_isolation = Isolation_shared | Isolation_isolated

definition workExecutionIsolation :: "work_contract \<Rightarrow> work_isolation" where
  "workExecutionIsolation c =
     (if wp_required (wc_worktreePolicy c) \<or> wx_workspaceMode (wc_constraints c) = Some Workspace_isolated
         \<or> wx_requireWorktree (wc_constraints c) = Some True
      then Isolation_isolated else Isolation_shared)"

record invalid_candidate =
  iv_workId :: string
  iv_updatedAt :: string
  iv_checkoutId :: "string option"
  iv_requirementId :: "string option"
  iv_planId :: "string option"
  iv_planStepId :: "string option"
  iv_semanticScopeKeys :: "string list"
  iv_isolation :: work_isolation
  iv_error :: string

record candidate_snapshot =
  cs_contracts :: "work_contract list"
  cs_invalid :: "invalid_candidate list"

text \<open>The three legacy labels are not terminal.\<close>

definition rawWorkMayBeCurrent :: "work_row \<Rightarrow> bool" where
  "rawWorkMayBeCurrent row \<longleftrightarrow>
     (\<forall>s. rw_status row = Current_status s \<longrightarrow> \<not> isTerminalWorkContractStatus s) \<and>
     \<not> truthy (opt_trim (wc_supersededBy (rw_contract row))) \<and> rw_workKind row \<noteq> Some Kind_superseded \<and>
     wc_completionOutcome (rw_contract row) \<noteq> Some Outcome_superseded"

definition invalid_of :: "work_row \<Rightarrow> error \<Rightarrow> invalid_candidate" where
  "invalid_of row e =
     (let raw = rw_contract row in
      \<lparr>iv_workId = wc_workId raw, iv_updatedAt = wc_updatedAt raw, iv_checkoutId = trim_or_none (wc_checkoutId raw),
       iv_requirementId = trim_or_none (wc_requirementId raw), iv_planId = trim_or_none (wc_planId raw),
       iv_planStepId = trim_or_none (wc_planStepId raw), iv_semanticScopeKeys = workExecutionSemanticScopeKeys raw,
       iv_isolation = workExecutionIsolation raw, iv_error = message e\<rparr>)"

definition invalid_newest_first :: "js_host \<Rightarrow> invalid_candidate \<Rightarrow> invalid_candidate \<Rightarrow> int" where
  "invalid_newest_first H l r = locale_compare H (iv_updatedAt r) (iv_updatedAt l)"

definition valid_candidates :: "js_host \<Rightarrow> work_row list \<Rightarrow> work_contract list" where
  "valid_candidates H rows = List.map_filter (\<lambda>row. case normalizeWorkContract H row of
       Inl e \<Rightarrow> None | Inr c \<Rightarrow> if isCurrentWorkContract c then Some c else None) (filter rawWorkMayBeCurrent rows)"

definition invalid_candidates :: "js_host \<Rightarrow> work_row list \<Rightarrow> invalid_candidate list" where
  "invalid_candidates H rows = List.map_filter (\<lambda>row. case normalizeWorkContract H row of
       Inl e \<Rightarrow> Some (invalid_of row e) | Inr c \<Rightarrow> None) (filter rawWorkMayBeCurrent rows)"

definition readActiveWorkCandidates :: "js_host \<Rightarrow> work_env \<Rightarrow> work_store \<Rightarrow> int option \<Rightarrow> candidate_snapshot res" where
  "readActiveWorkCandidates H env store limit =
     (if \<not> we_sqlite env
      then bindE (listWorkContracts H store (Some Filter_active) (Some (int (clamp_limit limit 1000 1000)))) (\<lambda>contracts.
           Inr \<lparr>cs_contracts = contracts, cs_invalid = []\<rparr>)
      else Inr \<lparr>
        cs_contracts = take (clamp_limit limit 1000 1000) (sort_by (newest_first H) (valid_candidates H (wks_rows store))),
        cs_invalid = sort_by (invalid_newest_first H) (invalid_candidates H (wks_rows store))\<rparr>)"

text \<open>The summary of the engineering context leaves out its profile version, a constant.\<close>

record work_engineering_summary =
  wes_riskClass :: engineering_risk
  wes_missingAdmissionEvidence :: "engineering_evidence_kind list"
  wes_missingCompletionEvidence :: "engineering_evidence_kind list"

record work_summary =
  wsm_workId :: string
  wsm_repoId :: string
  wsm_mode :: execution_mode
  wsm_phase :: work_phase
  wsm_status :: work_contract_status
  wsm_objective :: string
  wsm_updatedAt :: string
  wsm_handoffCount :: nat
  wsm_evidenceCount :: nat
  wsm_checkCount :: nat
  wsm_engineering :: "work_engineering_summary option"

definition summarizeWorkContract :: "work_contract \<Rightarrow> work_summary" where
  "summarizeWorkContract c =
     \<lparr>wsm_workId = wc_workId c, wsm_repoId = wc_repoId c, wsm_mode = wc_mode c, wsm_phase = wc_phase c,
      wsm_status = wc_status c, wsm_objective = take 240 (wc_objective c), wsm_updatedAt = wc_updatedAt c,
      wsm_handoffCount = length (wc_handoffRefs c), wsm_evidenceCount = length (wc_evidenceRefs c),
      wsm_checkCount = length (wc_checkRefs c),
      wsm_engineering = map_option (\<lambda>e. \<lparr>wes_riskClass = ec_riskClass e,
        wes_missingAdmissionEvidence = ec_missingAdmissionEvidence e,
        wes_missingCompletionEvidence = ec_missingCompletionEvidence e\<rparr>) (wc_engineeringContext c)\<rparr>"

end
