(* ===== verification/WorkContractUpdates.thy ===== *)
theory WorkContractUpdates
  imports WorkContractStore
begin

text \<open>
  The operations of the Work contract store that change a stored contract,
  \<open>packages/kernel/work/infrastructure/work-contract-store.ts\<close>: the update they all go through,
  with its permissions, and phase transitions, implementation reviews, evidence, completion,
  supersession, and the rebinding and retirement of a Work whose plan is replaced.  Every update
  reads the whole store, replaces one contract and writes the whole store back under the lock of
  the repository; one that throws leaves the store as it is.

  An operation is one step from a store to a store.  The code is synchronous, so this is what one
  process does; between processes it is an assumption, because most operations read the contract
  before they take the lock, and a Plan operation writes Works without it
  (\<open>PlanLineage\<close>).  For the completion the two reads are kept apart (\<open>record_completion_seen\<close>),
  and a stale first read does overwrite a receipt (\<open>stale_completion_overwrites\<close> in
  \<open>WorkStoreProperties\<close>).
\<close>

section \<open>Slices\<close>

text \<open>\<open>xs.slice(0, n)\<close> and \<open>xs.slice(-n)\<close> for any number \<open>n\<close>.\<close>

definition slice_to :: "int \<Rightarrow> 'a list \<Rightarrow> 'a list" where
  "slice_to n xs = (if n \<ge> 0 then take (nat n) xs else take (length xs - nat (- n)) xs)"

definition slice_from_end :: "int \<Rightarrow> 'a list \<Rightarrow> 'a list" where
  "slice_from_end n xs = (if n > 0 then drop (length xs - nat n) xs else drop (nat (- n)) xs)"

section \<open>The update\<close>

record update_permission =
  up_completion :: bool
  up_phase :: bool
  up_resume :: bool
  up_review :: bool

definition no_permission :: update_permission where
  "no_permission = \<lparr>up_completion = False, up_phase = False, up_resume = False, up_review = False\<rparr>"

definition updated_phase_evidence :: "work_contract \<Rightarrow> work_patch \<Rightarrow> work_phase \<Rightarrow> string \<Rightarrow> phase_evidence_map res" where
  "updated_phase_evidence current patch phase stamp =
     (case wu_phaseEvidence patch of
        Some m \<Rightarrow> Inr m
      | None \<Rightarrow>
          (case wu_status patch of
             Some status \<Rightarrow>
               if phase \<noteq> wc_phase current
               then transitionPhaseEvidence (wc_phaseEvidence current) (wc_evidenceRefs current) phase
                 \<lparr>ti_status = status,
                  ti_summary = ''Compatibility status transition '' @ status_str (wc_status current) @ '' -> '' @ status_str status @ ''.'',
                  ti_evidenceRefs = Some (coalesce (wu_evidenceRefs patch) (wc_evidenceRefs current)),
                  ti_recordedAt = stamp, ti_source = None\<rparr>
               else Inr (wc_phaseEvidence current)
           | None \<Rightarrow> Inr (wc_phaseEvidence current)))"

text \<open>The contract an update writes, before it is validated.\<close>

definition patched_contract :: "work_contract \<Rightarrow> work_patch \<Rightarrow> work_phase \<Rightarrow> phase_evidence_map \<Rightarrow> string \<Rightarrow> work_contract" where
  "patched_contract current patch phase evidence stamp =
     (let status = coalesce (wu_status patch) (wc_status current) in
      (spread_patch patch current)\<lparr>
        wc_status := status,
        wc_completionReceipt := coalesce (wu_completionReceipt patch) (wc_completionReceipt current),
        wc_schemaVersion := 2, wc_workId := wc_workId current, wc_repoId := wc_repoId current,
        wc_createdAt := wc_createdAt current, wc_updatedAt := stamp,
        wc_risk := coalesce (wu_risk patch) (wc_risk current),
        wc_workKind := coalesce (wu_workKind patch) (wc_workKind current),
        wc_phase := phase, wc_phaseEvidence := evidence,
        wc_dispatchState := coalesce (wu_dispatchState patch) (dispatchStateForStatusUpdate (wc_dispatchState current) (wu_status patch)),
        wc_evidenceState := coalesce (wu_evidenceState patch) (wc_evidenceState current),
        wc_completionOutcome := (case wu_completionOutcome patch of None \<Rightarrow> wc_completionOutcome current | Some out \<Rightarrow> Some out),
        wc_evidenceRefs := slice_to (vp_maxEvidenceRefs (wc_evidencePolicy current)) (coalesce (wu_evidenceRefs patch) (wc_evidenceRefs current)),
        wc_handoffRefs := take 20 (coalesce (wu_handoffRefs patch) (wc_handoffRefs current)),
        wc_suggestedNextActions := suggestedActionsForStatus status (coalesce (wu_suggestedNextActions patch) (wc_suggestedNextActions current)),
        wc_policyDecisions := take 20 (coalesce (wu_policyDecisions patch) (wc_policyDecisions current)),
        wc_checkRefs := take 50 (coalesce (wu_checkRefs patch) (wc_checkRefs current)),
        wc_implementationReviews := slice_from_end (int MAX_IMPLEMENTATION_REVIEW_HISTORY)
          (coalesce (wu_implementationReviews patch) (wc_implementationReviews current)),
        wc_reconciliations := take 20 (coalesce (wu_reconciliations patch) (wc_reconciliations current)),
        wc_objective := take 2000 (coalesce (wu_objective patch) (wc_objective current)),
        wc_continuationPrompt := map_option (take 2000)
          (case wu_continuationPrompt patch of None \<Rightarrow> wc_continuationPrompt current | Some s \<Rightarrow> Some s)\<rparr>)"

text \<open>A field a patch leaves out is \<open>None\<close>; a patch that sets \<open>status: undefined\<close> explicitly is not modelled.\<close>

definition apply_patch :: "js_host \<Rightarrow> work_contract \<Rightarrow> work_patch \<Rightarrow> update_permission \<Rightarrow> string \<Rightarrow> work_contract res" where
  "apply_patch H current patch allow stamp =
     (let writesCompletionReceipt = wu_completionReceipt patch \<noteq> None;
          changesCompletionOutcome = (wu_completionOutcome patch \<noteq> None \<and> wu_completionOutcome patch \<noteq> wc_completionOutcome current);
          writesPhase = (wu_phase patch \<noteq> None \<or> wu_phaseEvidence patch \<noteq> None);
          phase = coalesce (wu_phase patch) (phaseForStatusUpdate (wc_phase current) (wu_status patch)) in
      bindE (throw_if (\<not> up_phase allow \<and> writesPhase) ''WORK_PHASE_REQUIRES_TRANSITION_API'') (\<lambda>_.
      bindE (throw_if (\<not> up_review allow \<and> wu_implementationReviews patch \<noteq> None)
               ''WORK_IMPLEMENTATION_REVIEW_REQUIRES_RECORD_API'') (\<lambda>_.
      bindE (updated_phase_evidence current patch phase stamp) (\<lambda>evidence.
      bindE (throw_if (\<not> up_completion allow \<and> (writesCompletionReceipt \<or> changesCompletionOutcome
                 \<or> wu_status patch = Some Status_completed \<and> wc_status current \<noteq> Status_completed))
               ''WORK_COMPLETION_REQUIRES_RECORD_API'') (\<lambda>_.
      bindE (throw_if (wu_status patch = Some Status_completed \<and> wc_completionReceipt current = None
                 \<and> coalesce (wu_completionReceipt patch) None = None) ''WORK_COMPLETION_RECEIPT_REQUIRED'') (\<lambda>_.
      bindE (throw_if (wu_completionReceipt patch = Some None \<and> wc_completionReceipt current \<noteq> None)
               ''WORK_COMPLETION_RECEIPT_IMMUTABLE'') (\<lambda>_.
      bindE (validateWorkSemantics H (patched_contract current patch phase evidence stamp)) (\<lambda>next.
      validateWorkSemanticTransition H current next (up_resume allow)))))))))"

definition updateWorkContractInternal ::
    "js_host \<Rightarrow> work_env \<Rightarrow> work_store \<Rightarrow> string \<Rightarrow> work_patch \<Rightarrow> update_permission \<Rightarrow> (work_contract \<times> work_store) res" where
  "updateWorkContractInternal H env store workId patch allow =
     (let sanitizedId = sanitizeFileComponent workId in
      bindE (readWorkContractStore H store) (\<lambda>contracts.
      case find_index (\<lambda>c. wc_workId c = sanitizedId) contracts of
        None \<Rightarrow> throw (''work contract not found: '' @ sanitizedId)
      | Some i \<Rightarrow>
          bindE (assertCanonicalWorkAdmissionAllowed env (we_updateNow env)
                   (case wu_status patch of None \<Rightarrow> Op_continue
                    | Some s \<Rightarrow> if isTerminalWorkContractStatus s then Op_maintenance else Op_continue)
                   (Some sanitizedId)) (\<lambda>_.
          bindE (apply_patch H (contracts ! i) patch allow (we_updateNow env)) (\<lambda>next.
          Inr (next, writeWorkContractStore (we_updateNow env) (contracts[i := next]))))))"

definition updateWorkContract ::
    "js_host \<Rightarrow> work_env \<Rightarrow> work_store \<Rightarrow> string \<Rightarrow> work_patch \<Rightarrow> (work_contract \<times> work_store) res" where
  "updateWorkContract H env store workId patch = updateWorkContractInternal H env store workId patch no_permission"

text \<open>The operations below read the contract first; a missing one is an error.\<close>

definition with_contract ::
    "js_host \<Rightarrow> work_env \<Rightarrow> work_store \<Rightarrow> string \<Rightarrow> (work_contract \<Rightarrow> (work_contract \<times> work_store) res) \<Rightarrow>
     (work_contract \<times> work_store) res" where
  "with_contract H env store workId f =
     bindE (getWorkContract H env store workId) (\<lambda>found.
     case found of None \<Rightarrow> throw (''work contract not found: '' @ workId) | Some current \<Rightarrow> f current)"

text \<open>\<open>{ ...evidence, [phase]: { ...evidence[phase], state } }\<close>; the contracts read from the store have every checkpoint.\<close>

definition mark_state :: "phase_evidence_state \<Rightarrow> work_phase \<Rightarrow> phase_evidence_map \<Rightarrow> phase_evidence_map" where
  "mark_state state phase m = m(phase := map_option (\<lambda>e. e\<lparr>pe_state := state\<rparr>) (m phase))"

definition checkpoint_state :: "work_contract \<Rightarrow> work_phase \<Rightarrow> phase_evidence_state res" where
  "checkpoint_state c phase =
     (case wc_phaseEvidence c phase of None \<Rightarrow> throw ''TypeError'' | Some e \<Rightarrow> Inr (pe_state e))"

definition transition_of ::
    "work_contract \<Rightarrow> work_phase \<Rightarrow> work_contract_status \<Rightarrow> string \<Rightarrow> evidence_ref list option \<Rightarrow> string \<Rightarrow> phase_evidence_map res" where
  "transition_of current phase status summary refs stamp =
     transitionPhaseEvidence (wc_phaseEvidence current) (wc_evidenceRefs current) phase
       \<lparr>ti_status = status, ti_summary = summary, ti_evidenceRefs = refs, ti_recordedAt = stamp, ti_source = None\<rparr>"

section \<open>Resuming a retained cancelled Work\<close>

definition summary_ref :: "string \<Rightarrow> string \<Rightarrow> evidence_ref" where
  "summary_ref title summary =
     \<lparr>er_evidenceId = None, er_artifactId = None, er_title = title, er_summary = Some summary,
      er_detailLevel = Some Detail_summary\<rparr>"

record resume_input =
  rs_principalId :: string
  rs_controllerInstanceId :: string
  rs_summary :: string
  rs_checkoutId :: "string option"
  rs_worktreeRef :: "string option"

definition or_else :: "'a option \<Rightarrow> 'a option \<Rightarrow> 'a option" where
  "or_else a b = (case a of None \<Rightarrow> b | Some x \<Rightarrow> Some x)"

definition resumeRetainedCancelledWorkContract ::
    "js_host \<Rightarrow> work_env \<Rightarrow> work_store \<Rightarrow> string \<Rightarrow> resume_input \<Rightarrow> (work_contract \<times> work_store) res" where
  "resumeRetainedCancelledWorkContract H env store workId inp =
     with_contract H env store workId (\<lambda>current.
     bindE (throw_if (wc_status current \<noteq> Status_cancelled \<or> wc_dispatchState current \<noteq> Dispatch_terminal
                \<or> wc_phase current \<noteq> Phase_cleanup) (''WORK_CANCELLED_RESUME_STATUS_INVALID: '' @ workId)) (\<lambda>_.
     bindE (throw_if (wc_workKind current \<noteq> Kind_repository_change) (''WORK_CANCELLED_RESUME_KIND_INVALID: '' @ workId)) (\<lambda>_.
     bindE (throw_if (wc_completionReceipt current \<noteq> None \<or> wc_completionOutcome current \<noteq> None)
              (''WORK_CANCELLED_RESUME_COMPLETION_CONFLICT: '' @ workId)) (\<lambda>_.
     case wc_phaseEvidence current Phase_cleanup of
       None \<Rightarrow> throw ''TypeError''
     | Some cleanup \<Rightarrow>
     bindE (throw_if (pe_state cleanup \<noteq> PState_skipped \<or> pe_source cleanup \<noteq> Some Source_recorded)
              (''WORK_CANCELLED_RESUME_HISTORY_AMBIGUOUS: '' @ workId)) (\<lambda>_.
     bindE (throw_if (\<not> truthy (opt_trim (wc_principalId current))
                \<or> opt_trim (wc_principalId current) \<noteq> Some (js_trim (rs_principalId inp)))
              (''WORK_CANCELLED_RESUME_PRINCIPAL_MISMATCH: '' @ workId)) (\<lambda>_.
     let evidenceRefs = slice_from_end (vp_maxEvidenceRefs (wc_evidencePolicy current))
           (wc_evidenceRefs current @ [summary_ref ''explicit current-user Work reauthorization'' (take 1000 (js_trim (rs_summary inp)))]) in
     bindE (transitionPhaseEvidence (wc_phaseEvidence current) evidenceRefs Phase_implementation
              \<lparr>ti_status = Status_running, ti_summary = rs_summary inp, ti_evidenceRefs = Some evidenceRefs,
               ti_recordedAt = we_now env, ti_source = Some Source_recorded\<rparr>) (\<lambda>phaseEvidence.
     updateWorkContractInternal H env store workId
       (no_patch\<lparr>wu_status := Some Status_running, wu_phase := Some Phase_implementation, wu_phaseEvidence := Some phaseEvidence,
         wu_dispatchState := Some Dispatch_running, wu_evidenceRefs := Some evidenceRefs,
         pp_checkoutId := Some (or_else (rs_checkoutId inp) (wc_checkoutId current)),
         pp_worktreeRef := Some (or_else (rs_worktreeRef inp) (wc_worktreeRef current)),
         pp_controllerInstanceId := Some (Some (rs_controllerInstanceId inp)),
         wu_continuationPrompt := Some (rs_summary inp)\<rparr>)
       (no_permission\<lparr>up_phase := True, up_resume := True\<rparr>))))))))"

section \<open>Evidence\<close>

definition recordWorkScopeEvidence ::
    "js_host \<Rightarrow> work_env \<Rightarrow> work_store \<Rightarrow> string \<Rightarrow> string list option \<Rightarrow> string list option \<Rightarrow> string list option \<Rightarrow>
     (work_contract \<times> work_store) res" where
  "recordWorkScopeEvidence H env store workId likely inspected changed =
     with_contract H env store workId (\<lambda>current.
     let previous = coalesce (wc_scopeEvidence current)
           \<lparr>se_initialLikelyPaths = [], se_inspectedPaths = [], se_actualChangedPaths = [], se_recordedAt = wc_createdAt current\<rparr> in
     updateWorkContract H env store workId (no_patch\<lparr>pp_scopeEvidence := Some (Some (bounded_scope_evidence
       \<lparr>se_initialLikelyPaths = se_initialLikelyPaths previous @ coalesce likely [],
        se_inspectedPaths = se_inspectedPaths previous @ coalesce inspected [],
        se_actualChangedPaths = se_actualChangedPaths previous @ coalesce changed [],
        se_recordedAt = we_now env\<rparr>))\<rparr>))"

definition appendWorkEvidence ::
    "js_host \<Rightarrow> work_env \<Rightarrow> work_store \<Rightarrow> string \<Rightarrow> evidence_ref \<Rightarrow> (work_contract \<times> work_store) res" where
  "appendWorkEvidence H env store workId evidence =
     with_contract H env store workId (\<lambda>current.
     updateWorkContract H env store workId (no_patch\<lparr>wu_evidenceRefs :=
       Some (slice_to (vp_maxEvidenceRefs (wc_evidencePolicy current)) (evidence # wc_evidenceRefs current))\<rparr>))"

definition appendWorkHandoffRef ::
    "js_host \<Rightarrow> work_env \<Rightarrow> work_store \<Rightarrow> string \<Rightarrow> string \<Rightarrow> (work_contract \<times> work_store) res" where
  "appendWorkHandoffRef H env store workId handoffId =
     with_contract H env store workId (\<lambda>current.
     let i = sanitizeFileComponent handoffId in
     updateWorkContract H env store workId (no_patch\<lparr>wu_handoffRefs :=
       Some (take 20 (i # filter (\<lambda>j. j \<noteq> i) (wc_handoffRefs current)))\<rparr>))"

definition identified_execution :: "process_check_receipt \<Rightarrow> bool" where
  "identified_execution r \<longleftrightarrow>
     truthy (kr_checkCacheKey r) \<and> truthy (kr_checkRevision r) \<and> truthy (kr_checkDefinitionDigest r)
     \<and> truthy (kr_checkEnvironmentFingerprint r)"

definition sameSuccessfulVerificationExecutionFact :: "verification_record \<Rightarrow> verification_record \<Rightarrow> bool" where
  "sameSuccessfulVerificationExecutionFact left right =
     (case (ver_receipt left, ver_receipt right) of
        (Some a, Some b) \<Rightarrow>
          ver_outcome left = Verif_valid_pass \<and> ver_outcome right = Verif_valid_pass
          \<and> truthy (ver_sourceRevision left) \<and> ver_sourceRevision left = ver_sourceRevision right
          \<and> truthy (ver_workspaceFingerprint left) \<and> ver_workspaceFingerprint left = ver_workspaceFingerprint right
          \<and> ver_checkId left = ver_checkId right \<and> kr_processId a = kr_processId b
          \<and> identified_execution a \<and> identified_execution b
          \<and> kr_checkCacheKey a = kr_checkCacheKey b \<and> kr_checkRevision a = kr_checkRevision b
          \<and> kr_checkDefinitionDigest a = kr_checkDefinitionDigest b
          \<and> kr_checkEnvironmentFingerprint a = kr_checkEnvironmentFingerprint b
      | _ \<Rightarrow> False)"

definition appendVerificationRecord ::
    "js_host \<Rightarrow> work_env \<Rightarrow> work_store \<Rightarrow> string \<Rightarrow> verification_record \<Rightarrow> (work_contract \<times> work_store) res" where
  "appendVerificationRecord H env store workId verification =
     with_contract H env store workId (\<lambda>current.
     if \<exists>existing\<in>set (wc_checkRefs current). sameSuccessfulVerificationExecutionFact existing verification
     then Inr (current, store)
     else updateWorkContract H env store workId
       (no_patch\<lparr>wu_checkRefs := Some (take 50 (verification # wc_checkRefs current))\<rparr>))"

section \<open>Phases and reviews\<close>

definition changed_paths_of :: "work_contract \<Rightarrow> string list" where
  "changed_paths_of c = (case wc_scopeEvidence c of None \<Rightarrow> [] | Some e \<Rightarrow> se_actualChangedPaths e)"

record phase_input =
  ph_phase :: work_phase
  ph_status :: work_contract_status
  ph_state :: "phase_evidence_state option"
  ph_summary :: string
  ph_evidenceRefs :: "evidence_ref list option"

definition phase_patch :: "work_phase \<Rightarrow> phase_evidence_map \<Rightarrow> work_contract_status \<Rightarrow> work_patch" where
  "phase_patch phase evidence status =
     no_patch\<lparr>wu_phase := Some phase, wu_phaseEvidence := Some evidence, wu_status := Some status\<rparr>"

definition transitionWorkContractPhase ::
    "js_host \<Rightarrow> work_env \<Rightarrow> work_store \<Rightarrow> string \<Rightarrow> phase_input \<Rightarrow> (work_contract \<times> work_store) res" where
  "transitionWorkContractPhase H env store workId inp =
     with_contract H env store workId (\<lambda>current.
     bindE (throw_if (ph_phase inp = Phase_review) ''WORK_IMPLEMENTATION_REVIEW_REQUIRES_REQUEST_API'') (\<lambda>_.
     bindE (if ph_phase inp = Phase_delivery \<and> wc_phase current \<noteq> Phase_delivery
            then workRequiresImplementationReview H (kind_str (wc_workKind current)) (changed_paths_of current)
            else Inr False) (\<lambda>reviewRequired.
     bindE (throw_if reviewRequired ''WORK_IMPLEMENTATION_REVIEW_REQUIRES_RECORD_API'') (\<lambda>_.
     bindE (transition_of current (ph_phase inp) (ph_status inp) (ph_summary inp) (ph_evidenceRefs inp) (we_now env)) (\<lambda>evidence.
     let phaseEvidence = (case ph_state inp of None \<Rightarrow> evidence | Some s \<Rightarrow> mark_state s (ph_phase inp) evidence) in
     updateWorkContractInternal H env store workId (phase_patch (ph_phase inp) phaseEvidence (ph_status inp))
       (no_permission\<lparr>up_phase := True\<rparr>))))))"

definition requestWorkImplementationReview ::
    "js_host \<Rightarrow> work_env \<Rightarrow> work_store \<Rightarrow> string \<Rightarrow> string \<Rightarrow> (work_contract \<times> work_store) res" where
  "requestWorkImplementationReview H env store workId summary =
     with_contract H env store workId (\<lambda>current.
     bindE (throw_if (isTerminalWorkContractStatus (wc_status current)) (''WORK_IMPLEMENTATION_REVIEW_TERMINAL: '' @ workId)) (\<lambda>_.
     bindE (if wc_phase current \<noteq> Phase_verification then Inr True
            else bindE (checkpoint_state current Phase_verification) (\<lambda>s. Inr (s \<noteq> PState_satisfied))) (\<lambda>unverified.
     bindE (throw_if unverified ''WORK_IMPLEMENTATION_REVIEW_VERIFIED_CANDIDATE_REQUIRED'') (\<lambda>_.
     bindE (transition_of current Phase_review Status_running summary None (we_now env)) (\<lambda>phaseEvidence.
     updateWorkContractInternal H env store workId (phase_patch Phase_review phaseEvidence Status_running)
       (no_permission\<lparr>up_phase := True\<rparr>))))))"

text \<open>The checkpoint an approval writes.\<close>

definition approved_checkpoint :: "work_contract \<Rightarrow> review_record \<Rightarrow> phase_evidence" where
  "approved_checkpoint current review =
     \<lparr>pe_state = PState_satisfied, pe_source = Some Source_recorded,
      pe_summary = ''Controller approved exact implementation candidate in '' @ rv_reviewId review @ ''.'',
      pe_evidenceRefs = take 20 (wc_evidenceRefs current), pe_recordedAt = rv_recordedAt review, pe_receiptId = None\<rparr>"

definition reviewed_evidence :: "work_contract \<Rightarrow> review_record \<Rightarrow> phase_evidence_map \<Rightarrow> phase_evidence_map" where
  "reviewed_evidence current review m =
     (if rv_decision review = Decision_approved then m(Phase_review \<mapsto> approved_checkpoint current review)
      else if rv_decision review = Decision_blocked
      then m(Phase_review := map_option (\<lambda>e. e\<lparr>pe_state := PState_blocked, pe_recordedAt := rv_recordedAt review\<rparr>) (m Phase_review))
      else m)"

definition recordWorkImplementationReview ::
    "js_host \<Rightarrow> work_env \<Rightarrow> work_store \<Rightarrow> string \<Rightarrow> review_record \<Rightarrow> (work_contract \<times> work_store) res" where
  "recordWorkImplementationReview H env store workId review =
     with_contract H env store workId (\<lambda>current.
     bindE (throw_if (isTerminalWorkContractStatus (wc_status current)) (''WORK_IMPLEMENTATION_REVIEW_TERMINAL: '' @ workId)) (\<lambda>_.
     bindE (throw_if (rv_workId review \<noteq> wc_workId current) ''WORK_IMPLEMENTATION_REVIEW_WORK_ID_MISMATCH'') (\<lambda>_.
     bindE (validateImplementationReviewRecord H review) (\<lambda>_.
     bindE (if rv_derivation review = Some Derivation_content_equivalent_commit
            then throw_if (wc_phase current \<noteq> Phase_delivery \<or> \<not> truthy (rv_derivedFromReviewId review)
                \<or> \<not> (case latestImplementationReview (Some (wc_implementationReviews current)) of None \<Rightarrow> False
                      | Some parent \<Rightarrow> Some (rv_reviewId parent) = rv_derivedFromReviewId review
                          \<and> rv_decision parent = Decision_approved))
              ''WORK_IMPLEMENTATION_REVIEW_DERIVATION_PHASE_REQUIRED''
            else throw_if (wc_phase current \<noteq> Phase_review) ''WORK_IMPLEMENTATION_REVIEW_PHASE_REQUIRED'') (\<lambda>_.
     let target = implementationReviewDecisionTarget (rv_decision review);
         history = wc_implementationReviews current @ [review] in
     bindE (throw_if (length history > MAX_IMPLEMENTATION_REVIEW_HISTORY) ''WORK_IMPLEMENTATION_REVIEW_HISTORY_LIMIT'') (\<lambda>_.
     bindE (transition_of current (fst target) (snd target)
              (''Implementation review '' @ rv_reviewId review @ '': '' @ decision_str (rv_decision review) @ ''. '' @ rv_rationale review)
              None (we_now env)) (\<lambda>evidence.
     updateWorkContractInternal H env store workId
       ((phase_patch (fst target) (reviewed_evidence current review evidence) (snd target))\<lparr>wu_implementationReviews := Some history\<rparr>)
       (no_permission\<lparr>up_phase := True, up_review := True\<rparr>))))))))"

definition reconcileApprovedWorkImplementationReviewProjection ::
    "js_host \<Rightarrow> work_env \<Rightarrow> work_store \<Rightarrow> string \<Rightarrow> string \<Rightarrow> string \<Rightarrow> string \<Rightarrow> (work_contract \<times> work_store) res" where
  "reconcileApprovedWorkImplementationReviewProjection H env store workId reviewId sourceRevision changedPathDigest =
     with_contract H env store workId (\<lambda>current.
     if wc_completionReceipt current \<noteq> None then Inr (current, store)
     else
     bindE (throw_if (isTerminalWorkContractStatus (wc_status current))
              (''WORK_IMPLEMENTATION_REVIEW_PROJECTION_TERMINAL: '' @ workId)) (\<lambda>_.
     case latestImplementationReview (Some (wc_implementationReviews current)) of
       None \<Rightarrow> throw ''WORK_IMPLEMENTATION_REVIEW_REQUIRED''
     | Some review \<Rightarrow>
     bindE (throw_if (rv_decision review \<noteq> Decision_approved) ''WORK_IMPLEMENTATION_REVIEW_REQUIRED'') (\<lambda>_.
     bindE (throw_if (rv_reviewId review \<noteq> reviewId \<or> rv_sourceRevision review \<noteq> sourceRevision
                \<or> rv_changedPathDigest review \<noteq> changedPathDigest)
              ''WORK_IMPLEMENTATION_REVIEW_PROJECTION_IDENTITY_MISMATCH'') (\<lambda>_.
     bindE (if wc_phase current = Phase_delivery
            then bindE (checkpoint_state current Phase_review) (\<lambda>s. Inr (s = PState_satisfied)) else Inr False) (\<lambda>projected.
     if projected then Inr (current, store)
     else
     bindE (throw_if (wc_phase current \<notin> {Phase_verification, Phase_review, Phase_delivery})
              (''WORK_IMPLEMENTATION_REVIEW_PROJECTION_PHASE_INVALID: '' @ phase_str (wc_phase current))) (\<lambda>_.
     bindE (transition_of current Phase_delivery Status_running
              (''Recovered lifecycle projection from durable approved implementation review '' @ rv_reviewId review
               @ ''; review authority was not rewritten.'') (Some (wc_evidenceRefs current)) (we_now env)) (\<lambda>evidence.
     updateWorkContractInternal H env store workId
       (phase_patch Phase_delivery (evidence(Phase_review \<mapsto> approved_checkpoint current review)) Status_running)
       (no_permission\<lparr>up_phase := True\<rparr>))))))))"

section \<open>Completion\<close>

fun receipt_changed_paths :: "completion_receipt \<Rightarrow> string list" where
  "receipt_changed_paths (Repository_receipt r) = rc_changedPaths r"
| "receipt_changed_paths (Direct_edit_receipt r) = de_changedPaths r"
| "receipt_changed_paths _ = []"

fun reconciliation_exception :: "work_contract \<Rightarrow> completion_receipt \<Rightarrow> bool" where
  "reconciliation_exception current (Direct_edit_receipt r) \<longleftrightarrow>
     truthy (opt_trim (de_reconciliationId r)) \<and>
     (\<exists>entry\<in>set (wc_reconciliations current).
        Some (wr_reconciliationId entry) = de_reconciliationId r \<and> wr_outcome entry = Recon_accepted_equivalence)"
| "reconciliation_exception current _ \<longleftrightarrow> False"

definition recorded_checkpoint :: "phase_evidence_state \<Rightarrow> string \<Rightarrow> evidence_ref list \<Rightarrow> string \<Rightarrow> string option \<Rightarrow> phase_evidence" where
  "recorded_checkpoint state summary refs recordedAt receipt =
     \<lparr>pe_state = state, pe_source = Some Source_recorded, pe_summary = summary, pe_evidenceRefs = refs,
      pe_recordedAt = recordedAt, pe_receiptId = receipt\<rparr>"

fun reconciliation_name :: "completion_receipt \<Rightarrow> string" where
  "reconciliation_name (Direct_edit_receipt r) = coalesce (de_reconciliationId r) ''undefined''"
| "reconciliation_name _ = ''undefined''"

definition completion_evidence :: "work_contract \<Rightarrow> completion_receipt \<Rightarrow> bool \<Rightarrow> phase_evidence_map" where
  "completion_evidence current receipt reviewRequired =
     (let stamp = receipt_recorded_at receipt; refs = take 20 (wc_evidenceRefs current);
          base = mark_state PState_satisfied Phase_verification (mark_state PState_satisfied Phase_implementation (wc_phaseEvidence current));
          reviewed = (if reviewRequired then
              if reconciliation_exception current receipt
              then base(Phase_review \<mapsto> recorded_checkpoint PState_skipped
                (''Historical reviewed reconciliation '' @ reconciliation_name receipt
                 @ '' is the narrow compatibility authority for this already-delivered Direct Edit Work.'') refs stamp None)
              else mark_state PState_satisfied Phase_review base
            else base(Phase_review \<mapsto> recorded_checkpoint PState_skipped
              ''Implementation review is not required for this source-free Work completion.'' [] stamp None)) in
      reviewed(Phase_delivery \<mapsto> recorded_checkpoint PState_satisfied
          (''Phase delivery accepted by Work completion receipt '' @ receipt_id receipt @ ''.'') refs stamp (Some (receipt_id receipt)),
        Phase_cleanup \<mapsto> recorded_checkpoint PState_satisfied
          (''Phase cleanup accepted by Work completion receipt '' @ receipt_id receipt @ ''.'') refs stamp (Some (receipt_id receipt))))"

definition completion_patch ::
    "work_contract \<Rightarrow> completion_receipt \<Rightarrow> completion_outcome \<Rightarrow> work_kind option \<Rightarrow> bool \<Rightarrow> work_patch" where
  "completion_patch current receipt out kind reviewRequired =
     no_patch\<lparr>wu_phase := Some Phase_cleanup, wu_phaseEvidence := Some (completion_evidence current receipt reviewRequired),
       wu_status := Some Status_completed, wu_dispatchState := Some Dispatch_terminal, wu_evidenceState := Some EvState_valid,
       wu_completionOutcome := Some out, wu_workKind := kind, wu_completionReceipt := Some (Some receipt),
       pp_scopeEvidence := Some (Some
         \<lparr>se_initialLikelyPaths = (case wc_scopeEvidence current of None \<Rightarrow> wc_allowedPaths current | Some e \<Rightarrow> se_initialLikelyPaths e),
          se_inspectedPaths = (case wc_scopeEvidence current of None \<Rightarrow> [] | Some e \<Rightarrow> se_inspectedPaths e),
          se_actualChangedPaths = take 500 (js_uniq (receipt_changed_paths receipt)),
          se_recordedAt = receipt_recorded_at receipt\<rparr>)\<rparr>"

text \<open>
  The completion reads the contract from the store it sees first and updates the store it finds
  later, under the lock; called alone it sees one store.
\<close>

definition record_completion_seen ::
    "js_host \<Rightarrow> work_env \<Rightarrow> work_store \<Rightarrow> work_store \<Rightarrow> string \<Rightarrow> completion_receipt \<Rightarrow> completion_outcome \<Rightarrow> work_kind option \<Rightarrow>
     (work_contract \<times> work_store) res" where
  "record_completion_seen H env seen store workId receipt out kind =
     with_contract H env seen workId (\<lambda>current.
     bindE (throw_if (receipt_work_id receipt \<noteq> Some (wc_workId current)) ''WORK_COMPLETION_RECEIPT_IDENTITY_MISMATCH'') (\<lambda>_.
     case wc_completionReceipt current of
       Some existing \<Rightarrow>
         bindE (throw_if (receipt_id existing \<noteq> receipt_id receipt) ''WORK_COMPLETION_RECEIPT_ALREADY_RECORDED'') (\<lambda>_.
         Inr (current, store))
     | None \<Rightarrow>
         bindE (workRequiresImplementationReview H (kind_str (coalesce kind (wc_workKind current))) (receipt_changed_paths receipt)) (\<lambda>reviewRequired.
         bindE (if reviewRequired \<and> \<not> reconciliation_exception current receipt
                then bindE (checkpoint_state current Phase_review) (\<lambda>s. Inr (s \<notin> {PState_satisfied, PState_skipped}))
                else Inr False) (\<lambda>unreviewed.
         bindE (throw_if unreviewed ''WORK_IMPLEMENTATION_REVIEW_REQUIRED'') (\<lambda>_.
         updateWorkContractInternal H env store (wc_workId current) (completion_patch current receipt out kind reviewRequired)
           (no_permission\<lparr>up_completion := True, up_phase := True\<rparr>))))))"

definition recordWorkCompletionReceipt ::
    "js_host \<Rightarrow> work_env \<Rightarrow> work_store \<Rightarrow> string \<Rightarrow> completion_receipt \<Rightarrow> completion_outcome \<Rightarrow> work_kind option \<Rightarrow>
     (work_contract \<times> work_store) res" where
  "recordWorkCompletionReceipt H env store = record_completion_seen H env store store"

section \<open>Completion by a remote effect\<close>

text \<open>
  The command of \<open>packages/kernel/work/application/work-service.ts\<close> that ends a Work with the receipt of a
  trusted process.  It runs two operations of the store, so the store is a result also where the
  second one throws.
\<close>

record remote_completion =
  rx_processId :: string
  rx_actionId :: string
  rx_requestId :: string
  rx_semanticKey :: string
  rx_resultDigest :: string
  rx_recordedAt :: string

definition process_evidence :: "string \<Rightarrow> evidence_ref" where
  "process_evidence processId =
     (summary_ref ''trusted repository remote effect completed''
        (''Trusted Work-attributed git push completed with durable Process '' @ processId @ ''.''))\<lparr>er_evidenceId := Some processId\<rparr>"

definition process_receipt :: "string \<Rightarrow> remote_completion \<Rightarrow> completion_receipt" where
  "process_receipt workId inp = Remote_effect_receipt
     \<lparr>re_receiptId = rx_processId inp, re_workId = workId, re_authority = Some Auth_repository_process, re_pluginId = None,
      re_actionId = rx_actionId inp, re_requestId = rx_requestId inp, re_semanticKey = rx_semanticKey inp,
      re_resultDigest = rx_resultDigest inp, re_processId = Some (rx_processId inp), re_recordedAt = rx_recordedAt inp\<rparr>"

definition completeRemoteEffectWorkFromProcessReceipt ::
    "js_host \<Rightarrow> work_env \<Rightarrow> work_store \<Rightarrow> string \<Rightarrow> remote_completion \<Rightarrow> work_contract res \<times> work_store" where
  "completeRemoteEffectWorkFromProcessReceipt H env store workId inp =
     (case getWorkContract H env store workId of
        Inl e \<Rightarrow> (Inl e, store)
      | Inr None \<Rightarrow> (throw (''WORK_REMOTE_EFFECT_PROCESS_BINDING_NOT_FOUND: '' @ workId), store)
      | Inr (Some work) \<Rightarrow>
          if wc_workKind work \<noteq> Kind_remote_effect
          then (throw (''WORK_REMOTE_EFFECT_PROCESS_KIND_MISMATCH: '' @ workId @ '' is '' @ kind_str (wc_workKind work)
                  @ '', expected remote_effect''), store)
          else if wc_status work = Status_completed \<and> receipt_is isRemoteEffectCompletionReceipt work then (Inr work, store)
          else
            let noted = (if Some (rx_processId inp) \<in> set (map er_evidenceId (wc_evidenceRefs work)) then Inr (work, store)
                         else appendWorkEvidence H env store workId (process_evidence (rx_processId inp))) in
            case noted of
              Inl e \<Rightarrow> (Inl e, store)
            | Inr (_, store') \<Rightarrow>
                (case recordWorkCompletionReceipt H env store' workId (process_receipt workId inp) Outcome_completed_remote
                        (Some Kind_remote_effect) of
                   Inl e \<Rightarrow> (Inl e, store')
                 | Inr (d, store'') \<Rightarrow> (Inr d, store'')))"

end
