(* ===== verification/WorkContractLineage.thy ===== *)
theory WorkContractLineage
  imports WorkContractUpdates
begin

text \<open>
  How Works replace and own one another in
  \<open>packages/kernel/work/infrastructure/work-contract-store.ts\<close>: the supersession edge between two
  Works, the rebinding and the retirement of a Work whose plan has a successor, and the Work
  that a typed request is accepted as, at most one for each request.
\<close>

section \<open>Supersession\<close>

text \<open>\<open>byId.get(id)\<close> for the map of all contracts by identifier, where a later one wins.\<close>

definition by_id :: "work_contract list \<Rightarrow> string \<Rightarrow> work_contract option" where
  "by_id contracts i = map_of (rev (map (\<lambda>c. (wc_workId c, c)) contracts)) i"

lemma by_id_Some: "by_id contracts i = Some c \<Longrightarrow> c \<in> set contracts \<and> wc_workId c = i"
  unfolding by_id_def by (auto dest!: map_of_SomeD)

text \<open>The walk along the successors; it ends because every identifier it passes is a new one of the store.\<close>

function supersession_walk :: "work_contract list \<Rightarrow> string \<Rightarrow> string list \<Rightarrow> string \<Rightarrow> bool" where
  "supersession_walk contracts predecessorId visited cursor =
     (if cursor = predecessorId then True
      else if cursor \<in> set visited then True
      else case by_id contracts cursor of
        None \<Rightarrow> False
      | Some c \<Rightarrow>
          (case trim_or_none (wc_supersededBy c) of
             None \<Rightarrow> False
           | Some next \<Rightarrow> supersession_walk contracts predecessorId (cursor # visited) next))"
  by pat_completeness auto

termination
proof (relation "measure (\<lambda>(contracts, _, visited, _). card (wc_workId ` set contracts - set visited))")
  fix contracts :: "work_contract list" and predecessorId cursor succ_id :: string and visited c
  assume "cursor \<notin> set visited" and c: "by_id contracts cursor = Some c"
  have "cursor \<in> wc_workId ` set contracts" using by_id_Some [OF c] by auto
  with \<open>cursor \<notin> set visited\<close> have "wc_workId ` set contracts - set (cursor # visited) \<subset> wc_workId ` set contracts - set visited"
    by auto
  then show "((contracts, predecessorId, cursor # visited, succ_id), (contracts, predecessorId, visited, cursor))
      \<in> measure (\<lambda>(contracts, _, visited, _). card (wc_workId ` set contracts - set visited))"
    by (simp add: psubset_card_mono)
qed simp

declare supersession_walk.simps [simp del]

definition workSupersessionWouldCycle :: "work_contract list \<Rightarrow> string \<Rightarrow> string \<Rightarrow> bool" where
  "workSupersessionWouldCycle contracts predecessorId successorId =
     (successorId \<noteq> [] \<and> supersession_walk contracts predecessorId [] successorId)"

definition superseded_contract :: "work_contract \<Rightarrow> string \<Rightarrow> string \<Rightarrow> string \<Rightarrow> work_contract" where
  "superseded_contract c successorId reason stamp =
     c\<lparr>wc_supersededBy := Some successorId, wc_supersessionReason := Some reason, wc_updatedAt := stamp\<rparr>"

definition superseding_contract :: "work_contract \<Rightarrow> string \<Rightarrow> string \<Rightarrow> work_contract" where
  "superseding_contract c predecessorId stamp =
     c\<lparr>wc_supersedes := Some (js_uniq (coalesce (wc_supersedes c) [] @ [predecessorId])), wc_updatedAt := stamp\<rparr>"

text \<open>The table receives the two contracts, the file all of them.\<close>

definition write_pair :: "work_env \<Rightarrow> work_store \<Rightarrow> work_contract list \<Rightarrow> nat \<Rightarrow> work_contract \<Rightarrow> nat \<Rightarrow> work_contract \<Rightarrow> work_store" where
  "write_pair env store contracts i c j d =
     (if we_sqlite env
      then \<lparr>wks_updatedAt = we_now env, wks_rows = (wks_rows store)[i := row_of c, j := row_of d]\<rparr>
      else writeWorkContractStore (we_now env) (contracts[i := c, j := d]))"

definition supersedeWorkContract ::
    "js_host \<Rightarrow> work_env \<Rightarrow> work_store \<Rightarrow> string \<Rightarrow> string \<Rightarrow> string \<Rightarrow> ((work_contract \<times> work_contract) \<times> work_store) res" where
  "supersedeWorkContract H env store workId supersededBy supersessionReason =
     (let predecessorId = sanitizeFileComponent workId; successorId = sanitizeFileComponent supersededBy in
      bindE (throw_if (predecessorId = [] \<or> predecessorId = ''unknown'' \<or> successorId = [] \<or> successorId = ''unknown'')
               ''WORK_SUPERSESSION_IDS_REQUIRED'') (\<lambda>_.
      bindE (throw_if (predecessorId = successorId) ''WORK_SUCCESSOR_ID_MUST_CHANGE'') (\<lambda>_.
      bindE (readWorkContractStore H store) (\<lambda>contracts.
      case (find_index (\<lambda>c. wc_workId c = predecessorId) contracts, find_index (\<lambda>c. wc_workId c = successorId) contracts) of
        (None, _) \<Rightarrow> throw (''WORK_PREDECESSOR_NOT_FOUND: '' @ predecessorId)
      | (Some _, None) \<Rightarrow> throw (''WORK_SUCCESSOR_NOT_FOUND: '' @ successorId)
      | (Some i, Some j) \<Rightarrow>
          let predecessor = contracts ! i; successor = contracts ! j in
          bindE (throw_if (truthy (wc_supersededBy predecessor) \<and> wc_supersededBy predecessor \<noteq> Some successorId)
                   (''WORK_SUPERSESSION_CONFLICT: '' @ predecessorId @ '':existing='' @ coalesce (wc_supersededBy predecessor) []
                    @ '':requested='' @ successorId)) (\<lambda>_.
          bindE (throw_if (successorId \<in> set (coalesce (wc_supersedes predecessor) [])
                     \<or> workSupersessionWouldCycle contracts predecessorId successorId)
                   (''WORK_SUPERSESSION_CYCLE: '' @ predecessorId @ '':'' @ successorId)) (\<lambda>_.
          let reason = take 500 (js_trim supersessionReason) in
          bindE (throw_if (reason = []) ''WORK_SUPERSESSION_REASON_REQUIRED'') (\<lambda>_.
          bindE (validateWorkSemantics H (superseded_contract predecessor successorId reason (we_now env))) (\<lambda>predecessorNext.
          bindE (validateWorkSemantics H (superseding_contract successor predecessorId (we_now env))) (\<lambda>successorNext.
          Inr ((predecessorNext, successorNext), write_pair env store contracts i predecessorNext j successorNext))))))))))"

section \<open>Works of a plan that is replaced\<close>

record rebind_input =
  rb_predecessorPlanId :: string
  rb_successorPlanId :: string
  rb_planStepId :: string
  rb_planSourceRevision :: string
  rb_allowedPaths :: "string list"
  rb_forbiddenPaths :: "string list"
  rb_checks :: "string list"
  rb_recordedAt :: string
  rb_reason :: string

definition normal_paths :: "nat \<Rightarrow> string list \<Rightarrow> string list" where
  "normal_paths limit values' = take limit (js_uniq (trim_all values'))"

definition rebound_contract :: "work_contract \<Rightarrow> rebind_input \<Rightarrow> work_contract" where
  "rebound_contract current inp =
     (let successorPlanId = sanitizeFileComponent (rb_successorPlanId inp); planStepId = sanitizeFileComponent (rb_planStepId inp) in
      current\<lparr>
        wc_scopeRef := Some (work_scope_ref (wc_workId current) None (wc_requirementId current) (Some successorPlanId) (Some planStepId)),
        wc_planId := Some successorPlanId, wc_planStepId := Some planStepId,
        wc_planSourceRevision := Some (js_trim (rb_planSourceRevision inp)),
        wc_allowedPaths := normal_paths 50 (rb_allowedPaths inp),
        wc_forbiddenPaths := normal_paths 50 (rb_forbiddenPaths inp),
        wc_checks := normal_paths 30 (rb_checks inp),
        wc_evidenceRefs := slice_to (vp_maxEvidenceRefs (wc_evidencePolicy current))
          (summary_ref ''Plan-bound Work scope replanned''
             (coalesce (wc_planId current) ''undefined'' @ '' -> '' @ successorPlanId @ '': '' @ take 1000 (js_trim (rb_reason inp)))
           # wc_evidenceRefs current),
        wc_updatedAt := rb_recordedAt inp\<rparr>)"

definition rebindPlanBoundWorkContract :: "js_host \<Rightarrow> work_row \<Rightarrow> rebind_input \<Rightarrow> work_contract res" where
  "rebindPlanBoundWorkContract H row inp =
     bindE (normalizeWorkContract H row) (\<lambda>current.
     bindE (throw_if (isTerminalWorkContractStatus (wc_status current) \<or> wc_completionReceipt current \<noteq> None
                \<or> wc_completionOutcome current \<noteq> None) (''WORK_PLAN_REBIND_TERMINAL: '' @ wc_workId current)) (\<lambda>_.
     bindE (throw_if (wc_planId current \<noteq> Some (rb_predecessorPlanId inp) \<or> wc_planStepId current \<noteq> Some (rb_planStepId inp))
              (''WORK_PLAN_REBIND_SOURCE_MISMATCH: '' @ wc_workId current)) (\<lambda>_.
     let successorPlanId = sanitizeFileComponent (rb_successorPlanId inp);
         allowedPaths = normal_paths 50 (rb_allowedPaths inp) in
     bindE (throw_if (successorPlanId = [] \<or> successorPlanId = ''unknown'' \<or> Some successorPlanId = wc_planId current)
              ''WORK_PLAN_REBIND_SUCCESSOR_INVALID'') (\<lambda>_.
     bindE (throw_if (js_trim (rb_planSourceRevision inp) = []) ''WORK_PLAN_REBIND_SOURCE_REVISION_REQUIRED'') (\<lambda>_.
     bindE (for_each (\<lambda>path. throw_if (path \<notin> set allowedPaths) (''WORK_PLAN_REBIND_SCOPE_NARROWING_FORBIDDEN: '' @ path))
              (wc_allowedPaths current)) (\<lambda>_.
     bindE (throw_if (normal_paths 50 (rb_forbiddenPaths inp) \<noteq> wc_forbiddenPaths current)
              ''WORK_PLAN_REBIND_FORBIDDEN_SCOPE_CHANGE'') (\<lambda>_.
     bindE (throw_if (normal_paths 30 (rb_checks inp) \<noteq> wc_checks current) ''WORK_PLAN_REBIND_CHECK_CHANGE'') (\<lambda>_.
     bindE (validateWorkSemantics H (rebound_contract current inp)) (\<lambda>next.
     validateWorkSemanticTransition H current next False)))))))))"

record retire_input =
  rt_predecessorPlanId :: string
  rt_successorPlanId :: "string option"
  rt_recordedAt :: string
  rt_reason :: string

definition retirement_summary :: "work_contract \<Rightarrow> retire_input \<Rightarrow> string" where
  "retirement_summary current inp =
     (let plan = coalesce (wc_planId current) ''undefined''; reason = take 1000 (js_trim (rt_reason inp)) in
      case trim_or_none (rt_successorPlanId inp) of
        Some successor \<Rightarrow> ''Plan authority retired '' @ plan @ '' -> '' @ successor @ '': '' @ reason
      | None \<Rightarrow> ''Plan authority retired '' @ plan @ '': '' @ reason)"

definition retired_contract :: "work_contract \<Rightarrow> retire_input \<Rightarrow> evidence_ref list \<Rightarrow> phase_evidence_map \<Rightarrow> work_contract" where
  "retired_contract current inp refs evidence =
     current\<lparr>wc_status := Status_cancelled, wc_phase := Phase_cleanup, wc_phaseEvidence := evidence,
       wc_dispatchState := Dispatch_terminal, wc_evidenceRefs := refs, wc_suggestedNextActions := [],
       wc_updatedAt := rt_recordedAt inp\<rparr>"

definition retirePlanBoundWorkContract :: "js_host \<Rightarrow> work_row \<Rightarrow> retire_input \<Rightarrow> work_contract res" where
  "retirePlanBoundWorkContract H row inp =
     bindE (normalizeWorkContract H row) (\<lambda>current.
     if isTerminalWorkContractStatus (wc_status current) then Inr current
     else
     bindE (throw_if (wc_planId current \<noteq> Some (rt_predecessorPlanId inp))
              (''WORK_PLAN_RETIRE_SOURCE_MISMATCH: '' @ wc_workId current @ '':expected='' @ rt_predecessorPlanId inp
               @ '':actual='' @ coalesce (wc_planId current) ''none'')) (\<lambda>_.
     bindE (throw_if (wc_completionReceipt current \<noteq> None \<or> wc_completionOutcome current \<noteq> None)
              (''WORK_PLAN_RETIRE_COMPLETION_CONFLICT: '' @ wc_workId current)) (\<lambda>_.
     bindE (throw_if (js_trim (rt_reason inp) = []) ''WORK_PLAN_RETIRE_REASON_REQUIRED'') (\<lambda>_.
     let refs = slice_to (vp_maxEvidenceRefs (wc_evidencePolicy current))
           (summary_ref ''Plan-bound Work authority retired'' (retirement_summary current inp) # wc_evidenceRefs current) in
     bindE (transition_of current Phase_cleanup Status_cancelled (retirement_summary current inp) (Some refs) (rt_recordedAt inp)) (\<lambda>evidence.
     bindE (validateWorkSemantics H (retired_contract current inp refs evidence)) (\<lambda>next.
     validateWorkSemanticTransition H current next False))))))"

section \<open>Typed requests\<close>

record request_index_record =
  qi_requestId :: string
  qi_repoId :: string
  qi_workId :: string
  qi_semanticKey :: string
  qi_createdAt :: string

text \<open>
  The index has one file for each digest of a request; the stores of the repositories are read by
  repository.  \<open>fresh\<close> is the identifier that the clock and the random generator give.
\<close>

record request_world =
  qw_index :: "string \<Rightarrow> request_index_record option"
  qw_stores :: "string \<Rightarrow> work_store"

record submit_input =
  sb_requestId :: string
  sb_repoId :: string
  sb_parentWorkId :: "string option"
  sb_semanticKey :: string
  sb_operation :: submitted_operation
  sb_objective :: "string option"
  sb_mode :: "execution_mode option"
  sb_requestedBy :: "work_requester option"
  sb_principalId :: "string option"
  sb_controllerInstanceId :: "string option"
  sb_workKind :: "work_kind option"
  sb_risk :: "work_risk option"
  sb_allowedPaths :: "string list option"
  sb_forbiddenPaths :: "string list option"
  sb_checks :: "string list option"
  sb_acceptanceCriteria :: "string list option"
  sb_constraints :: "work_constraints option"

definition no_constraints :: work_constraints where
  "no_constraints =
     \<lparr>wx_maxChangedFiles = None, wx_maxChangedLines = None, wx_allowCommit = None, wx_allowMerge = None,
      wx_allowCleanup = None, wx_allowDestructive = None, wx_requireHandoffOnAmbiguity = None, wx_accessMode = None,
      wx_workspaceMode = None, wx_requireWorktree = None, wx_directMainProhibited = None,
      wx_architectureStrategyChange = None, wx_conflictsWithThinHarnessPolicy = None,
      wx_changesDefaultExecutionStrategy = None, wx_remoteDeliveryRequired = None\<rparr>"

definition claim_action :: suggested_action where
  "claim_action =
     \<lparr>sa_label = ''Claim controller ownership'', sa_tool = Tool_rh_work, sa_operation = ''controller_claim'', sa_payload = None,
      sa_risk = ARisk_readonly, sa_confidence = Some Confidence_high,
      sa_reason = Some ''Claim this Work before launching an external SuperController or Process Runtime command.'',
      sa_fallback = None\<rparr>"

definition submitted_input :: "submit_input \<Rightarrow> string \<Rightarrow> string option \<Rightarrow> string \<Rightarrow> work_input" where
  "submitted_input inp requestId parentWorkId fresh =
     \<lparr>wi_workId = fresh, wi_scopeRef = None, wi_executionPlacement = None, wi_repoId = sb_repoId inp,
      wi_checkoutId = None, wi_principalId = sb_principalId inp, wi_controllerInstanceId = sb_controllerInstanceId inp,
      wi_baseRevision = None, wi_repositoryBaseState = None, wi_workspaceFingerprint = None,
      wi_routeDecisionFingerprint = None, wi_routeDecision = None, wi_mode = coalesce (sb_mode inp) Mode_direct_control,
      wi_objective = take 2000 (coalesce (sb_objective inp) (''Typed operation '' @ so_name (sb_operation inp))),
      wi_acceptanceCriteria = coalesce (sb_acceptanceCriteria inp) [],
      wi_constraints = coalesce (sb_constraints inp) (no_constraints\<lparr>wx_requireHandoffOnAmbiguity := Some True\<rparr>),
      wi_risk = sb_risk inp, wi_engineeringContext = None, wi_phase = None, wi_workKind = sb_workKind inp,
      wi_lifecycleRole = Some Role_execution_child, wi_parentWorkId = parentWorkId, wi_predecessorWorkId = None,
      wi_supersedes = None, wi_supersededBy = None, wi_supersessionReason = None, wi_dispatchState = None,
      wi_evidenceState = None, wi_completionOutcome = None, wi_status = Some Status_open, wi_createdAt = None,
      wi_updatedAt = None, wi_issueId = None, wi_taskId = None, wi_requirementId = None, wi_completionReceipt = None,
      wi_planId = None, wi_planStepId = None, wi_planSourceRevision = None, wi_scopeSummary = None,
      wi_scopeEvidence = None, wi_allowedPaths = coalesce (sb_allowedPaths inp) [],
      wi_forbiddenPaths = coalesce (sb_forbiddenPaths inp) [], wi_checks = coalesce (sb_checks inp) [],
      wi_driver = Some \<lparr>dp_preferred = Driver_external_controller, dp_allowWorker = False, dp_allowDirectEdit = (so_mode (sb_operation inp) \<in> {Submitted_readonly, Submitted_mutating})\<rparr>,
      wi_worktreePolicy = None, wi_evidencePolicy = None, wi_approvalPolicy = None, wi_recoveryPolicy = None,
      wi_requestedBy = coalesce (sb_requestedBy inp) By_chatgpt, wi_evidenceRefs = None, wi_handoffRefs = None,
      wi_suggestedNextActions = Some [claim_action], wi_policyDecisions = None, wi_checkRefs = None,
      wi_reconciliations = None, wi_continuationPrompt = None, wi_worktreeRef = None, wi_workerRef = None,
      wi_requestId = Some requestId, wi_submittedOperation = Some (sb_operation inp)\<rparr>"

definition parent_check :: "js_host \<Rightarrow> work_env \<Rightarrow> work_store \<Rightarrow> string option \<Rightarrow> unit res" where
  "parent_check H env store parentWorkId =
     (case parentWorkId of
        None \<Rightarrow> Inr ()
      | Some parent \<Rightarrow>
          bindE (getWorkContract H env store parent) (\<lambda>found.
          case found of
            None \<Rightarrow> throw (''PARENT_WORK_NOT_FOUND: '' @ parent)
          | Some p \<Rightarrow>
              bindE (throw_if (isTerminalWorkContractStatus (wc_status p))
                       (''PARENT_WORK_TERMINAL: '' @ parent @ '':'' @ status_str (wc_status p))) (\<lambda>_.
              throw_if (coalesce (wc_lifecycleRole p) Role_primary \<noteq> Role_primary) (''PARENT_WORK_NOT_PRIMARY: '' @ parent))))"

definition acceptSubmittedWorkContract ::
    "js_host \<Rightarrow> work_env \<Rightarrow> request_world \<Rightarrow> string \<Rightarrow> submit_input \<Rightarrow> ((work_contract \<times> bool) \<times> request_world) res" where
  "acceptSubmittedWorkContract H env world fresh inp =
     (let requestId = js_trim (sb_requestId inp); semanticKey = js_trim (sb_semanticKey inp);
          repoId = sb_repoId inp; key = sha256_hex H requestId; store = qw_stores world repoId;
          parentWorkId = trim_or_none (sb_parentWorkId inp) in
      bindE (throw_if (requestId = []) ''INVALID_ARGUMENT: typed execution is missing request_id'') (\<lambda>_.
      bindE (throw_if (semanticKey = []) ''INVALID_ARGUMENT: typed execution requires a semantic operation key'') (\<lambda>_.
      bindE (throw_if (js_trim repoId = []) ''INVALID_ARGUMENT: typed execution is missing repo_id'') (\<lambda>_.
      bindE (throw_if (js_trim (so_name (sb_operation inp)) = []) ''INVALID_ARGUMENT: typed execution is missing operation'') (\<lambda>_.
      bindE (parent_check H env store parentWorkId) (\<lambda>_.
      case qw_index world key of
        Some entry \<Rightarrow>
          bindE (throw_if (qi_repoId entry \<noteq> repoId)
                   (''REQUEST_ID_REPO_CONFLICT: '' @ requestId @ '' already belongs to repository '' @ qi_repoId entry)) (\<lambda>_.
          bindE (throw_if (qi_semanticKey entry \<noteq> semanticKey)
                   (''REQUEST_ID_CONFLICT: '' @ requestId @ '' already belongs to '' @ qi_semanticKey entry)) (\<lambda>_.
          bindE (getWorkContract H env (qw_stores world (qi_repoId entry)) (qi_workId entry)) (\<lambda>existing.
          case existing of
            None \<Rightarrow> throw (''WORK_ACCEPTANCE_LOST: request '' @ requestId @ '' is indexed without a readable WorkContract'')
          | Some c \<Rightarrow> Inr ((c, True), world))))
      | None \<Rightarrow>
          bindE (createWorkContract H env store (submitted_input inp requestId parentWorkId fresh)) (\<lambda>(contract, store').
          Inr ((contract, False),
            \<lparr>qw_index = (qw_index world)(key \<mapsto> \<lparr>qi_requestId = requestId, qi_repoId = repoId, qi_workId = wc_workId contract,
               qi_semanticKey = semanticKey, qi_createdAt = wc_createdAt contract\<rparr>),
             qw_stores = (qw_stores world)(repoId := store')\<rparr>))))))))"

text \<open>Errors of the reads are caught and count as no Work.\<close>

definition getWorkContractByRequestId ::
    "js_host \<Rightarrow> work_env \<Rightarrow> request_world \<Rightarrow> string \<Rightarrow> string option \<Rightarrow> work_contract option" where
  "getWorkContractByRequestId H env world requestId expectedRepoId =
     (let i = js_trim requestId in
      if i = [] then None
      else case qw_index world (sha256_hex H i) of
        None \<Rightarrow> None
      | Some entry \<Rightarrow>
          if qi_requestId entry \<noteq> i then None
          else if truthy expectedRepoId \<and> Some (qi_repoId entry) \<noteq> expectedRepoId then None
          else (case getWorkContract H env (qw_stores world (qi_repoId entry)) (qi_workId entry) of
                  Inl e \<Rightarrow> None | Inr found \<Rightarrow> found))"

end
