(* ===== verification/PlanCarries.thy ===== *)
theory PlanCarries
  imports PlanSteps WorkContractLineage
begin

text \<open>
  What a plan hands to the plan that replaces it, from
  \<open>src/runtime/control-plane/facade/plan-contract-store.ts\<close>: when a step of the successor asks for
  the same as one of the predecessor, which stored Work is the one of a step, and when the
  delivery of a step may be carried over instead of being done again.
\<close>

section \<open>The stores a plan operation reads and writes\<close>

text \<open>
  \<open>revisionContains\<close> is a parameter; a missing function, one that throws and one that does not
  answer \<open>true\<close> all count as \<open>False\<close>.
\<close>

record lineage_env =
  ln_plan :: plan_env
  ln_work :: work_env
  ln_contains :: "string \<Rightarrow> string \<Rightarrow> bool"

record plan_world =
  pw_plans :: plan_store
  pw_works :: work_store

section \<open>Steps and Works that correspond\<close>

definition samePlanStepExecutionContract :: "plan_step \<Rightarrow> plan_step \<Rightarrow> bool" where
  "samePlanStepExecutionContract predecessor successor \<longleftrightarrow>
     pst_id predecessor = pst_id successor \<and> pst_objective predecessor = pst_objective successor
     \<and> pst_dependencies predecessor = pst_dependencies successor
     \<and> pst_authoritativeFiles predecessor = pst_authoritativeFiles successor
     \<and> pst_allowedPaths predecessor = pst_allowedPaths successor
     \<and> pst_forbiddenPaths predecessor = pst_forbiddenPaths successor
     \<and> pst_checks predecessor = pst_checks successor"

text \<open>Whether the stored, not yet normalised, status of a row is a terminal one.\<close>

definition raw_terminal :: "work_row \<Rightarrow> bool" where
  "raw_terminal row \<longleftrightarrow> (case rw_status row of Current_status s \<Rightarrow> isTerminalWorkContractStatus s | _ \<Rightarrow> False)"

definition workMatchesPlanStep :: "work_row \<Rightarrow> plan_contract \<Rightarrow> plan_step \<Rightarrow> bool" where
  "workMatchesPlanStep row plan step \<longleftrightarrow>
     (let work = rw_contract row in
      pst_status step = SS_executing \<and> wc_planId work = Some (pn_planId plan) \<and> wc_planStepId work = Some (pst_id step)
      \<and> pst_workId step = Some (wc_workId work) \<and> wc_requirementId work = pn_requirementId plan
      \<and> wc_planSourceRevision work = Some (pn_sourceRevision plan) \<and> wc_objective work = pst_objective step
      \<and> wc_acceptanceCriteria work = pst_acceptanceCriteria step \<and> wc_allowedPaths work = pst_allowedPaths step
      \<and> wc_forbiddenPaths work = pst_forbiddenPaths step \<and> wc_checks work = pst_checks step)"

definition hasCoherentActivePlanBoundWork :: "lineage_env \<Rightarrow> plan_world \<Rightarrow> plan_contract \<Rightarrow> bool" where
  "hasCoherentActivePlanBoundWork env world plan \<longleftrightarrow>
     we_sqlite (ln_work env) \<and>
     (\<exists>row\<in>set (wks_rows (pw_works world)). \<not> raw_terminal row \<and> (\<exists>step\<in>set (pn_steps plan). workMatchesPlanStep row plan step))"

section \<open>Changed acceptance criteria\<close>

definition acceptance_obligations :: "js_host \<Rightarrow> plan_contract \<Rightarrow> plan_step \<Rightarrow> plan_obligation list" where
  "acceptance_obligations H predecessorPlan predecessorStep =
     filter (\<lambda>ob. ob_kind ob = Ob_step_acceptance
         \<and> starts_with (''step:'' @ pst_id predecessorStep @ '':acceptance:'') (ob_sourceRef ob))
       (listUnresolvedPlanObligations H predecessorPlan)"

definition disposition_for :: "plan_contract \<Rightarrow> plan_contract \<Rightarrow> string \<Rightarrow> obligation_disposition option" where
  "disposition_for predecessorPlan successorPlan obligationId =
     find (\<lambda>d. od_predecessorPlanId d = pn_planId predecessorPlan \<and> od_obligationId d = obligationId)
       (coalesce (pn_obligationDispositions successorPlan) [])"

definition has_rationale :: "obligation_disposition \<Rightarrow> bool" where
  "has_rationale d \<longleftrightarrow> truthy (opt_trim (od_rationale d))"

definition criteria_left_answered :: "js_host \<Rightarrow> plan_contract \<Rightarrow> plan_step \<Rightarrow> plan_contract \<Rightarrow> plan_step \<Rightarrow> bool" where
  "criteria_left_answered H predecessorPlan predecessorStep successorPlan successorStep \<longleftrightarrow>
     (\<forall>ob\<in>set (acceptance_obligations H predecessorPlan predecessorStep).
        ob_summary ob \<in> set (pst_acceptanceCriteria successorStep) \<or>
        (case disposition_for predecessorPlan successorPlan (ob_obligationId ob) of
           None \<Rightarrow> False
         | Some d \<Rightarrow> od_disposition d \<noteq> Disposition_keep \<and> has_rationale d))"

definition criteria_new_announced :: "js_host \<Rightarrow> plan_contract \<Rightarrow> plan_step \<Rightarrow> plan_contract \<Rightarrow> plan_step \<Rightarrow> bool" where
  "criteria_new_announced H predecessorPlan predecessorStep successorPlan successorStep \<longleftrightarrow>
     (\<forall>(i, criterion)\<in>set (enumerate 0 (pst_acceptanceCriteria successorStep)).
        criterion \<in> set (pst_acceptanceCriteria predecessorStep) \<or>
        (\<exists>ob\<in>set (acceptance_obligations H predecessorPlan predecessorStep).
           case disposition_for predecessorPlan successorPlan (ob_obligationId ob) of
             None \<Rightarrow> False
           | Some d \<Rightarrow> od_disposition d = Disposition_change \<and> has_rationale d
               \<and> ''step:'' @ pst_id successorStep @ '':acceptance:'' @ int_str (int i) \<in> set (od_successorRefs d)))"

definition acceptanceChangesExplicitlyReconciled ::
    "js_host \<Rightarrow> plan_contract \<Rightarrow> plan_step \<Rightarrow> plan_contract \<Rightarrow> plan_step \<Rightarrow> bool" where
  "acceptanceChangesExplicitlyReconciled H predecessorPlan predecessorStep successorPlan successorStep \<longleftrightarrow>
     pst_acceptanceCriteria predecessorStep = pst_acceptanceCriteria successorStep \<or>
     criteria_left_answered H predecessorPlan predecessorStep successorPlan successorStep \<and>
     criteria_new_announced H predecessorPlan predecessorStep successorPlan successorStep"

section \<open>Carrying a delivery\<close>

definition carried_work_ok :: "plan_contract \<Rightarrow> plan_step \<Rightarrow> work_contract \<Rightarrow> bool" where
  "carried_work_ok predecessorPlan predecessorStep work \<longleftrightarrow>
     wc_status work = Status_completed \<and> wc_phase work = Phase_cleanup \<and> wc_evidenceState work = EvState_valid
     \<and> wc_completionOutcome work \<noteq> None \<and> wc_completionOutcome work \<noteq> Some Outcome_superseded
     \<and> wc_requirementId work = pn_requirementId predecessorPlan \<and> wc_planId work = Some (pn_planId predecessorPlan)
     \<and> wc_planStepId work = Some (pst_id predecessorStep)
     \<and> wc_planSourceRevision work = Some (pn_sourceRevision predecessorPlan)"

text \<open>The delivery, the cleanup and the target revision of the two receipts of the repository.\<close>

fun repository_delivery :: "completion_receipt \<Rightarrow> (receipt_delivery \<times> receipt_cleanup \<times> string) option" where
  "repository_delivery (Repository_receipt r) = Some (rc_delivery r, rc_cleanup r, rc_targetRevision r)"
| "repository_delivery (Direct_edit_receipt r) = Some (de_delivery r, de_cleanup r, de_targetRevision r)"
| "repository_delivery _ = None"

text \<open>The revision a receipt proves to be delivered.\<close>

definition delivered_target :: "work_contract \<Rightarrow> completion_receipt \<Rightarrow> string option" where
  "delivered_target work receipt =
     (case repository_delivery receipt of
        None \<Rightarrow> None
      | Some (delivery, cleanup, targetRevision) \<Rightarrow>
          if receipt_work_id receipt \<noteq> Some (wc_workId work) \<or> dl_status delivery \<noteq> Delivery_integrated
             \<or> \<not> dl_reachable delivery \<or> cl_status cleanup = Cleanup_blocked
          then None
          else some_str (js_trim targetRevision))"

definition carry_of :: "lineage_env \<Rightarrow> plan_contract \<Rightarrow> plan_step \<Rightarrow> plan_contract \<Rightarrow> plan_step \<Rightarrow> string \<Rightarrow> work_contract \<Rightarrow> delivery_carry option" where
  "carry_of env predecessorPlan predecessorStep successorPlan successorStep recordedAt work =
     (case wc_completionReceipt work of
        None \<Rightarrow> None
      | Some receipt \<Rightarrow>
          if \<not> carried_work_ok predecessorPlan predecessorStep work then None
          else case delivered_target work receipt of
            None \<Rightarrow> None
          | Some targetRevision \<Rightarrow>
              let source = js_trim (pn_sourceRevision successorPlan) in
              if source = [] then None
              else if targetRevision \<noteq> source \<and> \<not> ln_contains env targetRevision source then None
              else Some \<lparr>dc_predecessorPlanId = pn_planId predecessorPlan, dc_predecessorStepId = pst_id predecessorStep,
                dc_successorStepId = pst_id successorStep, dc_workId = wc_workId work,
                dc_completionReceiptId = receipt_id receipt, dc_deliveredSourceRevision = targetRevision,
                dc_recordedAt = recordedAt\<rparr>)"

definition deliveryCarryForStep ::
    "js_host \<Rightarrow> lineage_env \<Rightarrow> plan_world \<Rightarrow> plan_contract \<Rightarrow> plan_step \<Rightarrow> plan_contract \<Rightarrow> plan_step \<Rightarrow> string \<Rightarrow>
     delivery_carry option res" where
  "deliveryCarryForStep H env world predecessorPlan predecessorStep successorPlan successorStep recordedAt =
     (if pst_status predecessorStep \<noteq> SS_validating \<or> \<not> truthy (pst_workId predecessorStep) then Inr None
      else if \<not> samePlanStepExecutionContract predecessorStep successorStep then Inr None
      else if \<not> acceptanceChangesExplicitlyReconciled H predecessorPlan predecessorStep successorPlan successorStep then Inr None
      else if \<not> truthy (pn_requirementId predecessorPlan) \<or> pn_requirementId successorPlan \<noteq> pn_requirementId predecessorPlan
        then Inr None
      else
        bindE (getWorkContract H (ln_work env) (pw_works world) (coalesce (pst_workId predecessorStep) [])) (\<lambda>found.
        Inr (Option.bind found (carry_of env predecessorPlan predecessorStep successorPlan successorStep recordedAt))))"

definition derivePlanStepDeliveryCarries ::
    "js_host \<Rightarrow> lineage_env \<Rightarrow> plan_world \<Rightarrow> plan_contract \<Rightarrow> plan_contract \<Rightarrow> string \<Rightarrow> delivery_carry list res" where
  "derivePlanStepDeliveryCarries H env world predecessorPlan successorPlan recordedAt =
     bindE (map_res (\<lambda>successorStep. case find_step (pn_steps predecessorPlan) (pst_id successorStep) of
         None \<Rightarrow> Inr None
       | Some predecessorStep \<Rightarrow>
           deliveryCarryForStep H env world predecessorPlan predecessorStep successorPlan successorStep recordedAt)
       (pn_steps successorPlan)) (\<lambda>carries.
     Inr (List.map_filter (\<lambda>c. c) carries))"

definition carried_step :: "delivery_carry \<Rightarrow> plan_step \<Rightarrow> plan_step \<Rightarrow> plan_step" where
  "carried_step carry predecessorStep successorStep =
     successorStep\<lparr>pst_status := SS_validating, pst_workId := Some (dc_workId carry),
       pst_evidenceRefs := take 20 (\<lparr>er_evidenceId = Some (dc_completionReceiptId carry), er_artifactId = None,
         er_title = ''successor delivery carried'',
         er_summary = Some (''Reused immutable delivery from '' @ dc_predecessorPlanId carry @ ''/'' @ dc_predecessorStepId carry
           @ ''; semantic acceptance remains explicit.''),
         er_detailLevel = Some Detail_summary\<rparr> # pst_evidenceRefs predecessorStep)\<rparr>"

text \<open>The carry that is expected now agrees with the stored one.\<close>

definition same_carry :: "delivery_carry option \<Rightarrow> delivery_carry \<Rightarrow> bool" where
  "same_carry expected carry \<longleftrightarrow> (case expected of
     None \<Rightarrow> False
   | Some e \<Rightarrow> dc_workId e = dc_workId carry \<and> dc_completionReceiptId e = dc_completionReceiptId carry
       \<and> dc_deliveredSourceRevision e = dc_deliveredSourceRevision carry)"

fun materialize_carries ::
    "js_host \<Rightarrow> lineage_env \<Rightarrow> plan_world \<Rightarrow> plan_contract \<Rightarrow> plan_contract list \<Rightarrow> string list \<Rightarrow> delivery_carry list \<Rightarrow>
     plan_step list \<Rightarrow> plan_step list res" where
  "materialize_carries H env world plan allPlans carried [] steps = Inr steps"
| "materialize_carries H env world plan allPlans carried (carry # carries) steps =
     (let stepId = dc_successorStepId carry; invalid = ''PLAN_DELIVERY_CARRY_INVALID: '' @ stepId;
          predecessorStep = Option.bind (find_plan allPlans (dc_predecessorPlanId carry)) (\<lambda>p.
            map_option (\<lambda>s. (p, s)) (find_step (pn_steps p) (dc_predecessorStepId carry))) in
      bindE (throw_if (stepId \<in> set carried) (''PLAN_DELIVERY_CARRY_DUPLICATE_STEP: '' @ stepId)) (\<lambda>_.
      case (predecessorStep, find_index (\<lambda>s. pst_id s = stepId) steps) of
        (Some (predPlan, predStep), Some i) \<Rightarrow>
          bindE (deliveryCarryForStep H env world predPlan predStep plan (steps ! i) (dc_recordedAt carry)) (\<lambda>expected.
          bindE (throw_if (\<not> same_carry expected carry) invalid) (\<lambda>_.
          materialize_carries H env world plan allPlans (stepId # carried) carries (steps[i := carried_step carry predStep (steps ! i)])))
      | _ \<Rightarrow> throw invalid))"

definition materializePlanStepDeliveryCarries ::
    "js_host \<Rightarrow> lineage_env \<Rightarrow> plan_world \<Rightarrow> plan_contract \<Rightarrow> plan_contract list \<Rightarrow> (plan_step list \<times> nat) res" where
  "materializePlanStepDeliveryCarries H env world plan allPlans =
     (let carries = coalesce (pn_deliveryCarries plan) [] in
      bindE (materialize_carries H env world plan allPlans [] carries (pn_steps plan)) (\<lambda>steps.
      Inr (steps, length carries)))"

end
