(* ===== verification/PlanLineage.thy ===== *)
theory PlanLineage
  imports PlanCarries
begin

text \<open>
  The operations of \<open>src/runtime/control-plane/facade/plan-contract-store.ts\<close> on several plans and the Works
  bound to them: creating and admitting a plan, repairing a draft, replacing and superseding a
  plan, approving one, retiring the Works of ended plans, and widening the scope of an active
  Work.  Each runs under the admission lock in one transaction, so it is one step from a world to
  a world; one that throws leaves the world as it is.  A plan that an operation adds comes first
  in the list, and one it writes keeps its place.

  The step is an assumption where Works are concerned: the transaction writes them without the lock
  of the Work store, whose operations read all the Works first and write them all back later, so
  between processes one of the two writes can be lost.  In the model neither can.
\<close>

section \<open>Reading and writing plans\<close>

definition write_plans :: "string \<Rightarrow> plan_contract list \<Rightarrow> plan_world \<Rightarrow> plan_world" where
  "write_plans stamp contracts world = world\<lparr>pw_plans := \<lparr>pz_updatedAt = stamp, pz_contracts = contracts\<rparr>\<rparr>"

definition plans_of :: "plan_world \<Rightarrow> plan_contract list" where
  "plans_of world = pz_contracts (pw_plans world)"

definition getPlanContract :: "plan_world \<Rightarrow> string \<Rightarrow> plan_contract option" where
  "getPlanContract world planId = find_plan (plans_of world) (sanitizeFileComponent planId)"

datatype plan_filter = Plans_active | Plans_all | Plans_status plan_status

definition plan_newest_first :: "js_host \<Rightarrow> plan_contract \<Rightarrow> plan_contract \<Rightarrow> int" where
  "plan_newest_first H left right = locale_compare H (pn_updatedAt right) (pn_updatedAt left)"

definition listPlanContracts :: "js_host \<Rightarrow> plan_world \<Rightarrow> plan_filter option \<Rightarrow> int option \<Rightarrow> plan_contract list" where
  "listPlanContracts H world status limit =
     take (clamp_limit limit 50 100) (sort_by (plan_newest_first H)
       (filter (\<lambda>c. case coalesce status Plans_active of
            Plans_all \<Rightarrow> True
          | Plans_active \<Rightarrow> isCurrentPlanContract c
          | Plans_status s \<Rightarrow> pn_status c = s) (plans_of world)))"

section \<open>Plans that are replaced, and their Works\<close>

definition carried_evidence :: "plan_contract \<Rightarrow> string \<Rightarrow> plan_step \<Rightarrow> evidence_ref list" where
  "carried_evidence predecessor workId predecessorStep =
     take 20 (summary_evidence ''active Work carried to successor''
       (''Rebound exact Work '' @ workId @ '' from '' @ pn_planId predecessor
        @ ''; successor approval changed no Work contract semantics.'') # pst_evidenceRefs predecessorStep)"

text \<open>The step a Work moves to: the predecessor's step it is the Work of, and the successor's same step.\<close>

definition rebind_target :: "work_row \<Rightarrow> plan_contract \<Rightarrow> plan_contract \<Rightarrow> (plan_step \<times> nat) option" where
  "rebind_target row predecessor successor =
     (case find (workMatchesPlanStep row predecessor) (pn_steps predecessor) of
        None \<Rightarrow> None
      | Some predecessorStep \<Rightarrow>
          (case find_index (\<lambda>s. pst_id s = pst_id predecessorStep) (pn_steps successor) of
             None \<Rightarrow> None
           | Some i \<Rightarrow>
               if samePlanStepExecutionContract predecessorStep (pn_steps successor ! i)
                  \<and> pst_acceptanceCriteria predecessorStep = pst_acceptanceCriteria (pn_steps successor ! i)
               then Some (predecessorStep, i) else None))"

text \<open>One Work of the predecessor: rebound to the successor, or retired.\<close>

definition move_work :: "js_host \<Rightarrow> plan_contract \<Rightarrow> string \<Rightarrow> work_row \<Rightarrow> plan_contract \<Rightarrow> (work_contract \<times> plan_contract) res" where
  "move_work H predecessor stamp row successor =
     (case rebind_target row predecessor successor of
        Some (predecessorStep, i) \<Rightarrow>
          let successorStep = pn_steps successor ! i in
          bindE (rebindPlanBoundWorkContract H row
            \<lparr>rb_predecessorPlanId = pn_planId predecessor, rb_successorPlanId = pn_planId successor,
             rb_planStepId = pst_id successorStep, rb_planSourceRevision = pn_sourceRevision successor,
             rb_allowedPaths = pst_allowedPaths successorStep, rb_forbiddenPaths = pst_forbiddenPaths successorStep,
             rb_checks = pst_checks successorStep, rb_recordedAt = stamp,
             rb_reason = ''Plan successor preserved this exact active Work contract.''\<rparr>) (\<lambda>rebound.
          Inr (rebound, successor\<lparr>pn_status := PS_executing,
            pn_steps := (pn_steps successor)[i := successorStep\<lparr>pst_status := SS_executing, pst_workId := Some (wc_workId rebound),
              pst_evidenceRefs := carried_evidence predecessor (wc_workId rebound) predecessorStep\<rparr>],
            pn_updatedAt := stamp\<rparr>))
      | None \<Rightarrow>
          bindE (retirePlanBoundWorkContract H row
            \<lparr>rt_predecessorPlanId = pn_planId predecessor, rt_successorPlanId = Some (pn_planId successor), rt_recordedAt = stamp,
             rt_reason = coalesce (pn_supersessionReason predecessor) ''owning Plan was superseded''\<rparr>) (\<lambda>retired.
          Inr (retired, successor)))"

fun move_works :: "js_host \<Rightarrow> plan_contract \<Rightarrow> string \<Rightarrow> work_row list \<Rightarrow> plan_contract \<Rightarrow> (work_row list \<times> plan_contract) res" where
  "move_works H predecessor stamp [] successor = Inr ([], successor)"
| "move_works H predecessor stamp (row # rows) successor =
     (if wc_planId (rw_contract row) = Some (pn_planId predecessor) \<and> \<not> raw_terminal row
      then bindE (move_work H predecessor stamp row successor) (\<lambda>(work, successor').
           bindE (move_works H predecessor stamp rows successor') (\<lambda>(rows', successor'').
           Inr (row_of work # rows', successor'')))
      else bindE (move_works H predecessor stamp rows successor) (\<lambda>(rows', successor').
           Inr (row # rows', successor')))"

definition writePlanSupersessionWithWorkRetirement ::
    "js_host \<Rightarrow> lineage_env \<Rightarrow> plan_world \<Rightarrow> plan_contract list \<Rightarrow> plan_contract \<Rightarrow> plan_contract \<Rightarrow> string \<Rightarrow>
     (plan_contract \<times> plan_world) res" where
  "writePlanSupersessionWithWorkRetirement H env world contracts predecessor successor stamp =
     (if \<not> we_sqlite (ln_work env) then Inr (successor, write_plans stamp contracts world)
      else
        bindE (move_works H predecessor stamp (wks_rows (pw_works world)) successor) (\<lambda>(rows, written).
        Inr (written, \<lparr>
          pw_plans = \<lparr>pz_updatedAt = stamp, pz_contracts = map (\<lambda>c. if pn_planId c = pn_planId successor then written else c) contracts\<rparr>,
          pw_works = (pw_works world)\<lparr>wks_rows := rows\<rparr>\<rparr>)))"

definition superseded_plan :: "plan_contract \<Rightarrow> string \<Rightarrow> string \<Rightarrow> string \<Rightarrow> plan_contract" where
  "superseded_plan plan successorId reason stamp =
     plan\<lparr>pn_status := PS_superseded, pn_supersededBy := Some successorId, pn_supersessionReason := Some reason, pn_updatedAt := stamp\<rparr>"

section \<open>Creating and replacing\<close>

definition createPlanContractUnlocked :: "lineage_env \<Rightarrow> plan_world \<Rightarrow> plan_input \<Rightarrow> (plan_contract \<times> plan_world) res" where
  "createPlanContractUnlocked env world inp =
     bindE (assertRequirementReference (ln_plan env) (pin_requirementId inp)) (\<lambda>_.
     let stamp = pe_now (ln_plan env) in
     bindE (buildPlanContract inp stamp) (\<lambda>plan.
     bindE (throw_if (\<exists>existing\<in>set (plans_of world). pn_planId existing = pn_planId plan)
              (''plan contract already exists: '' @ pn_planId plan)) (\<lambda>_.
     Inr (plan, write_plans stamp (plan # plans_of world) world))))"

definition createPlanContract :: "lineage_env \<Rightarrow> plan_world \<Rightarrow> plan_input \<Rightarrow> (plan_contract \<times> plan_world) res" where
  "createPlanContract env world inp =
     (let planId = sanitizeFileComponent (pin_planId inp); scopeKey = normalizeScopeKey (pin_scopeKey inp) in
      bindE (throw_if (\<exists>existing\<in>set (plans_of world). pn_planId existing = planId) (''plan contract already exists: '' @ planId)) (\<lambda>_.
      case (if scopeKey = ''unknown'' then None
            else find (\<lambda>p. \<not> isTerminalPlanContractStatus (pn_status p) \<and> pn_scopeKey p = scopeKey) (plans_of world)) of
        Some authority \<Rightarrow> throw (''PLAN_SCOPE_ALREADY_OWNED: '' @ scopeKey @ '':'' @ pn_planId authority)
      | None \<Rightarrow> createPlanContractUnlocked env world inp))"

definition with_carries :: "delivery_carry list \<Rightarrow> plan_contract \<Rightarrow> plan_contract" where
  "with_carries carries plan = (if carries = [] then plan else plan\<lparr>pn_deliveryCarries := Some carries\<rparr>)"

definition scope_owner :: "plan_contract list \<Rightarrow> nat \<Rightarrow> string list \<Rightarrow> string \<Rightarrow> plan_contract option" where
  "scope_owner plans index allowed scopeKey =
     map_option snd (find (\<lambda>(i, p). i \<noteq> index \<and> \<not> isTerminalPlanContractStatus (pn_status p) \<and> pn_scopeKey p = scopeKey
       \<and> pn_planId p \<notin> set allowed) (enumerate 0 plans))"

definition replacePlanContractUnlocked ::
    "js_host \<Rightarrow> lineage_env \<Rightarrow> plan_world \<Rightarrow> string \<Rightarrow> plan_input \<Rightarrow> (plan_contract \<times> plan_world) res" where
  "replacePlanContractUnlocked H env world predecessorId inp =
     bindE (assertRequirementReference (ln_plan env) (pin_requirementId inp)) (\<lambda>_.
     let stamp = pe_now (ln_plan env); plans = plans_of world; key = sanitizeFileComponent predecessorId in
     case find_index (\<lambda>c. pn_planId c = key) plans of
       None \<Rightarrow> throw (''plan contract not found: '' @ key)
     | Some i \<Rightarrow>
         let predecessor = plans ! i in
         bindE (throw_if (\<not> isPlanExtensionPredecessor predecessor)
                  (''plan contract '' @ pn_planId predecessor @ '' is terminal ('' @ plan_status_str (pn_status predecessor) @ '')'')) (\<lambda>_.
         bindE (buildPlanContract inp stamp) (\<lambda>built.
         let draft = built\<lparr>pn_supersedes := Some [pn_planId predecessor]\<rparr> in
         bindE (throw_if (pn_planId draft = pn_planId predecessor) ''PLAN_SUCCESSOR_ID_MUST_CHANGE'') (\<lambda>_.
         bindE (throw_if (pn_repoId draft \<noteq> pn_repoId predecessor) ''PLAN_SUCCESSOR_REPOSITORY_MISMATCH'') (\<lambda>_.
         bindE (throw_if (obligationContinuityErrors H draft plans \<noteq> [])
                  (''PLAN_OBLIGATION_CONTINUITY_REQUIRED: '' @ js_join ''; '' (obligationContinuityErrors H draft plans))) (\<lambda>_.
         bindE (throw_if (\<exists>existing\<in>set plans. pn_planId existing = pn_planId draft)
                  (''plan contract already exists: '' @ pn_planId draft)) (\<lambda>_.
         case scope_owner plans i [] (pn_scopeKey draft) of
           Some owner \<Rightarrow> throw (''PLAN_SCOPE_ALREADY_OWNED: '' @ pn_scopeKey draft @ '':'' @ pn_planId owner)
         | None \<Rightarrow>
             bindE (derivePlanStepDeliveryCarries H env world predecessor draft stamp) (\<lambda>carries.
             let successor = with_carries carries draft in
             if hasCoherentActivePlanBoundWork env world predecessor
             then Inr (successor, write_plans stamp
                    (successor # plans[i := predecessor\<lparr>pn_status := PS_replanning, pn_updatedAt := stamp\<rparr>]) world)
             else
               let predecessorNext = superseded_plan predecessor (pn_planId successor) ''extend_existing'' stamp in
               bindE (writePlanSupersessionWithWorkRetirement H env world (successor # plans[i := predecessorNext])
                        predecessorNext successor stamp) (\<lambda>(_, world').
               Inr (successor, world'))))))))))"

section \<open>Admission\<close>

record admit_input =
  ai_plan :: plan_input
  ai_planRelation :: "plan_relation option"
  ai_relatedPlanId :: "string option"

definition admitPlanContract ::
    "js_host \<Rightarrow> lineage_env \<Rightarrow> plan_world \<Rightarrow> admit_input \<Rightarrow> (plan_admission_resolution \<times> plan_world) res" where
  "admitPlanContract H env world inp =
     bindE (assertRequirementReference (ln_plan env) (pin_requirementId (ai_plan inp))) (\<lambda>_.
     let admission = resolvePlanAdmission (listPlanContracts H world (Some Plans_all) (Some 100))
           \<lparr>pai_requirementId = pin_requirementId (ai_plan inp), pai_scopeKey = pin_scopeKey (ai_plan inp),
            pai_planRelation = ai_planRelation inp, pai_relatedPlanId = ai_relatedPlanId inp\<rparr> in
     case (par_admissionDecision admission, par_plan admission) of
       (Decide_extend_existing, Some predecessor) \<Rightarrow>
         bindE (replacePlanContractUnlocked H env world (pn_planId predecessor) (ai_plan inp)) (\<lambda>(successor, world').
         Inr (admission\<lparr>par_admissionDecision := Decide_create_new, par_plan := Some successor\<rparr>, world'))
     | (Decide_create_new, _) \<Rightarrow>
         bindE (createPlanContractUnlocked env world (ai_plan inp)) (\<lambda>(plan, world').
         Inr (admission\<lparr>par_plan := Some plan\<rparr>, world'))
     | _ \<Rightarrow> Inr (admission, world))"

section \<open>Repairing a draft\<close>

text \<open>The fields of the input that a repair gives; the identity and evidence are those of the draft.\<close>

definition repair_candidate :: "plan_contract \<Rightarrow> plan_input \<Rightarrow> plan_input" where
  "repair_candidate current inp =
     inp\<lparr>pin_planId := pn_planId current, pin_repoId := pn_repoId current, pin_requirementId := pn_requirementId current,
       pin_evidenceRefs := Some (pn_evidenceRefs current)\<rparr>"

definition repairDraftPlanContract ::
    "js_host \<Rightarrow> lineage_env \<Rightarrow> plan_world \<Rightarrow> string \<Rightarrow> plan_input \<Rightarrow> string option \<Rightarrow> (plan_contract \<times> plan_world) res" where
  "repairDraftPlanContract H env world planId inp expectedSourceRevision =
     (let plans = plans_of world; key = sanitizeFileComponent planId in
      case find_index (\<lambda>c. pn_planId c = key) plans of
        None \<Rightarrow> throw (''plan contract not found: '' @ key)
      | Some i \<Rightarrow>
          let current = plans ! i in
          bindE (throw_if (pn_status current \<noteq> PS_draft)
                   (''PLAN_DRAFT_REPAIR_STATUS_INVALID: '' @ pn_planId current @ '':'' @ plan_status_str (pn_status current))) (\<lambda>_.
          bindE (throw_if (expectedSourceRevision \<noteq> None \<and> Some (pn_sourceRevision current) \<noteq> expectedSourceRevision)
                   (''PLAN_DRAFT_REPAIR_STALE_SOURCE: '' @ pn_planId current @ '':expected='' @ coalesce expectedSourceRevision []
                    @ '':actual='' @ pn_sourceRevision current)) (\<lambda>_.
          bindE (assertRequirementReference (ln_plan env) (pn_requirementId current)) (\<lambda>_.
          let stamp = pe_now (ln_plan env) in
          bindE (buildPlanContract (repair_candidate current inp) stamp) (\<lambda>built.
          let candidate = retireResolvedPredecessorObligationDispositions H
                (if coalesce (pn_supersedes current) [] \<noteq> [] then built\<lparr>pn_supersedes := pn_supersedes current\<rparr> else built) plans in
          bindE (throw_if (draftContentErrors candidate \<noteq> [])
                   (''PLAN_DRAFT_REPAIR_INVALID: '' @ js_join ''; '' (draftContentErrors candidate))) (\<lambda>_.
          bindE (throw_if (obligationContinuityErrors H candidate plans \<noteq> [])
                   (''PLAN_DRAFT_REPAIR_INVALID: '' @ js_join ''; '' (obligationContinuityErrors H candidate plans))) (\<lambda>_.
          case scope_owner plans i (coalesce (pn_supersedes candidate) []) (pn_scopeKey candidate) of
            Some owner \<Rightarrow> throw (''PLAN_SCOPE_ALREADY_OWNED: '' @ pn_scopeKey candidate @ '':'' @ pn_planId owner)
          | None \<Rightarrow>
              bindE (case Option.bind (single_predecessor current) (find_plan plans) of
                       None \<Rightarrow> Inr []
                     | Some predecessor \<Rightarrow> derivePlanStepDeliveryCarries H env world predecessor candidate stamp) (\<lambda>carries.
              let repaired = (with_carries carries candidate)\<lparr>pn_createdAt := pn_createdAt current, pn_updatedAt := stamp\<rparr> in
              Inr (repaired, write_plans stamp (plans[i := repaired]) world)))))))))"

section \<open>Approval\<close>

definition staged_predecessor :: "plan_contract \<Rightarrow> plan_contract list \<Rightarrow> plan_contract option" where
  "staged_predecessor plan plans =
     Option.bind (single_predecessor plan) (\<lambda>i. find (\<lambda>c. pn_planId c = i \<and> pn_status c = PS_replanning) plans)"

definition approved_plan :: "plan_contract \<Rightarrow> plan_step list \<Rightarrow> nat \<Rightarrow> string \<Rightarrow> plan_contract" where
  "approved_plan current steps carriedCount stamp =
     current\<lparr>pn_status := if carriedCount > 0 then PS_verifying else PS_approved,
       pn_steps := projectDependencyReadySteps steps, pn_updatedAt := stamp\<rparr>"

definition approvePlanContract ::
    "js_host \<Rightarrow> lineage_env \<Rightarrow> plan_world \<Rightarrow> string \<Rightarrow> (plan_contract \<times> plan_world) res" where
  "approvePlanContract H env world planId =
     (let plans = plans_of world; key = sanitizeFileComponent planId in
      case find_index (\<lambda>c. pn_planId c = key) plans of
        None \<Rightarrow> throw (''plan contract not found: '' @ key)
      | Some i \<Rightarrow>
          let current = plans ! i in
          bindE (assertRequirementReference (ln_plan env) (pn_requirementId current)) (\<lambda>_.
          bindE (throw_if (pn_status current \<noteq> PS_draft \<and> pn_status current \<noteq> PS_reviewing)
                   (''plan contract '' @ pn_planId current @ '' cannot be approved from '' @ plan_status_str (pn_status current))) (\<lambda>_.
          bindE (throw_if (approvalErrors H current plans \<noteq> [])
                   (''plan contract '' @ pn_planId current @ '' cannot be approved: '' @ js_join ''; '' (approvalErrors H current plans))) (\<lambda>_.
          let stamp = pe_now (ln_plan env) in
          bindE (materializePlanStepDeliveryCarries H env world current plans) (\<lambda>(steps, carriedCount).
          let approved = approved_plan current steps carriedCount stamp in
          case staged_predecessor current plans of
            Some staged \<Rightarrow>
              let predecessorNext = superseded_plan staged (pn_planId current) ''extend_existing'' stamp in
              writePlanSupersessionWithWorkRetirement H env world
                (map (\<lambda>c. if pn_planId c = pn_planId predecessorNext then predecessorNext
                          else if pn_planId c = pn_planId approved then approved else c) plans)
                predecessorNext approved stamp
          | None \<Rightarrow> Inr (approved, write_plans stamp (plans[i := approved]) world))))))"

section \<open>Explicit supersession\<close>

definition supersedePlanContract ::
    "js_host \<Rightarrow> lineage_env \<Rightarrow> plan_world \<Rightarrow> string \<Rightarrow> string \<Rightarrow> string \<Rightarrow> (plan_contract \<times> plan_world) res" where
  "supersedePlanContract H env world planId supersededBy why =
     (let plans = plans_of world; key = sanitizeFileComponent planId in
      case find_index (\<lambda>c. pn_planId c = key) plans of
        None \<Rightarrow> throw (''plan contract not found: '' @ key)
      | Some i \<Rightarrow>
          let current = plans ! i; replacement = sanitizeFileComponent supersededBy in
          bindE (throw_if (isTerminalPlanContractStatus (pn_status current))
                   (''plan contract '' @ pn_planId current @ '' is terminal ('' @ plan_status_str (pn_status current) @ '')'')) (\<lambda>_.
          bindE (throw_if (replacement = [] \<or> replacement = ''unknown'') ''superseded_by is required'') (\<lambda>_.
          bindE (throw_if (replacement = pn_planId current) ''PLAN_SUCCESSOR_ID_MUST_CHANGE'') (\<lambda>_.
          case find_index (\<lambda>c. pn_planId c = replacement) plans of
            None \<Rightarrow> throw (''PLAN_SUCCESSOR_NOT_FOUND: '' @ replacement)
          | Some j \<Rightarrow>
              let successor = plans ! j;
                  candidate = successor\<lparr>pn_supersedes := Some (js_uniq (coalesce (pn_supersedes successor) [] @ [pn_planId current]))\<rparr> in
              bindE (throw_if (obligationContinuityErrors H candidate plans \<noteq> [])
                       (''PLAN_OBLIGATION_CONTINUITY_REQUIRED: '' @ js_join ''; '' (obligationContinuityErrors H candidate plans))) (\<lambda>_.
              let stamp = pe_now (ln_plan env);
                  supersededPlan = superseded_plan current (pn_planId successor)
                    (or_str (some_str (take 500 (js_trim why))) ''explicit_supersession'') stamp;
                  successorNext = candidate\<lparr>pn_updatedAt := stamp\<rparr> in
              bindE (writePlanSupersessionWithWorkRetirement H env world (plans[i := supersededPlan, j := successorNext])
                       supersededPlan successorNext stamp) (\<lambda>(_, world').
              Inr (supersededPlan, world')))))))"

section \<open>Works of ended plans\<close>

definition ended_plan :: "plan_contract list \<Rightarrow> work_row \<Rightarrow> plan_contract option" where
  "ended_plan plans row =
     (case wc_planId (rw_contract row) of
        None \<Rightarrow> None
      | Some planId \<Rightarrow>
          if planId = [] \<or> raw_terminal row then None
          else find_plan (rev (filter (\<lambda>p. isTerminalPlanContractStatus (pn_status p)) plans)) planId)"

definition reconciled_row :: "js_host \<Rightarrow> plan_contract list \<Rightarrow> string \<Rightarrow> work_row \<Rightarrow> (work_row \<times> string list) res" where
  "reconciled_row H plans stamp row =
     (case ended_plan plans row of
        None \<Rightarrow> Inr (row, [])
      | Some plan \<Rightarrow>
          bindE (retirePlanBoundWorkContract H row
            \<lparr>rt_predecessorPlanId = pn_planId plan, rt_successorPlanId = pn_supersededBy plan, rt_recordedAt = stamp,
             rt_reason = ''maintenance reconciliation: owning Plan is '' @ plan_status_str (pn_status plan)\<rparr>) (\<lambda>retired.
          Inr (row_of retired, [wc_workId retired])))"

definition retireTerminalPlanBoundWorkAuthorities ::
    "js_host \<Rightarrow> lineage_env \<Rightarrow> plan_world \<Rightarrow> (string list \<times> plan_world) res" where
  "retireTerminalPlanBoundWorkAuthorities H env world =
     (if \<not> we_sqlite (ln_work env) then Inr ([], world)
      else
        bindE (map_res (reconciled_row H (plans_of world) (pe_now (ln_plan env))) (wks_rows (pw_works world))) (\<lambda>rows.
        Inr (sort_by unit_cmp (concat (map snd rows)),
             world\<lparr>pw_works := (pw_works world)\<lparr>wks_rows := map fst rows\<rparr>\<rparr>)))"

section \<open>Widening the scope of an active Work\<close>

record scope_replan =
  sr_planId :: string
  sr_stepId :: string
  sr_workId :: string
  sr_successorPlanId :: string
  sr_sourceRevision :: string
  sr_allowedPaths :: "string list"
  sr_reason :: string

definition replanned_step :: "plan_contract \<Rightarrow> plan_step \<Rightarrow> string \<Rightarrow> string list \<Rightarrow> string \<Rightarrow> plan_step" where
  "replanned_step predecessor step successorId paths why =
     step\<lparr>pst_allowedPaths := paths,
       pst_evidenceRefs := take 20 (summary_evidence ''scope-only Plan replan''
         (take 2000 (pn_planId predecessor @ '' -> '' @ successorId @ '': '' @ why)) # pst_evidenceRefs step)\<rparr>"

definition replanned_plan :: "plan_contract \<Rightarrow> nat \<Rightarrow> plan_step \<Rightarrow> string \<Rightarrow> string \<Rightarrow> string \<Rightarrow> string \<Rightarrow> plan_contract" where
  "replanned_plan predecessor i step workId successorId sourceRevision stamp =
     predecessor\<lparr>pn_planId := successorId, pn_sourceRevision := sourceRevision, pn_status := PS_executing,
       pn_steps := (pn_steps predecessor)[i := step],
       pn_evidenceRefs := take 20 (summary_evidence ''active Work scope replanned''
         (take 2000 (pn_planId predecessor @ ''/'' @ pst_id step @ '' retained exact Work '' @ workId
           @ ''; allowed-path authority widened without changing semantic acceptance or machine checks.'')) # pn_evidenceRefs predecessor),
       pn_supersedes := Some [pn_planId predecessor], pn_supersededBy := None, pn_supersessionReason := None,
       pn_createdAt := stamp, pn_updatedAt := stamp\<rparr>"

definition scope_widened :: "string list \<Rightarrow> string list \<Rightarrow> unit res" where
  "scope_widened current requested =
     bindE (for_each (\<lambda>path. throw_if (path \<notin> set requested) (''PLAN_WORK_REPLAN_SCOPE_NARROWING_FORBIDDEN: '' @ path)) current) (\<lambda>_.
     throw_if (set requested \<subseteq> set current) ''PLAN_WORK_REPLAN_SCOPE_NOT_WIDENED'')"

definition replan_admitted :: "plan_world \<Rightarrow> plan_contract \<Rightarrow> string \<Rightarrow> unit res" where
  "replan_admitted world predecessor successorId =
     bindE (throw_if (truthy (pn_supersededBy predecessor) \<or> isTerminalPlanContractStatus (pn_status predecessor))
              (''PLAN_WORK_REPLAN_PREDECESSOR_TERMINAL: '' @ pn_planId predecessor @ '':'' @ plan_status_str (pn_status predecessor))) (\<lambda>_.
     bindE (throw_if (pn_status predecessor \<noteq> PS_executing \<and> pn_status predecessor \<noteq> PS_replanning)
              (''PLAN_WORK_REPLAN_STATUS_INVALID: '' @ pn_planId predecessor @ '':'' @ plan_status_str (pn_status predecessor))) (\<lambda>_.
     throw_if (find_plan (plans_of world) successorId \<noteq> None) (''plan contract already exists: '' @ successorId)))"

definition replan_binding :: "plan_contract \<Rightarrow> plan_step \<Rightarrow> string \<Rightarrow> string \<Rightarrow> unit res" where
  "replan_binding predecessor step stepId workId =
     throw_if (pst_status step \<noteq> SS_executing \<or> pst_workId step \<noteq> Some workId)
       (''PLAN_WORK_REPLAN_STEP_BINDING_MISMATCH: '' @ pn_planId predecessor @ ''/'' @ stepId @ '':''
        @ step_status_str (pst_status step) @ '':'' @ coalesce (pst_workId step) ''none'')"

definition replanActivePlanBoundWorkScope ::
    "js_host \<Rightarrow> lineage_env \<Rightarrow> plan_world \<Rightarrow> scope_replan \<Rightarrow> ((plan_contract \<times> plan_contract \<times> work_contract) \<times> plan_world) res" where
  "replanActivePlanBoundWorkScope H env world inp =
     (let predecessorId = sanitizeFileComponent (sr_planId inp); successorId = sanitizeFileComponent (sr_successorPlanId inp);
          stepId = sanitizeFileComponent (sr_stepId inp); workId = sanitizeFileComponent (sr_workId inp);
          sourceRevision = js_trim (sr_sourceRevision inp); why = js_trim (sr_reason inp);
          requested = normal_paths 50 (sr_allowedPaths inp); plans = plans_of world; rows = wks_rows (pw_works world);
          stamp = pe_now (ln_plan env) in
      bindE (throw_if (\<not> we_sqlite (ln_work env)) ''PLAN_WORK_REPLAN_REQUIRES_CONTROLLER_STORE'') (\<lambda>_.
      bindE (throw_if (successorId = [] \<or> successorId = ''unknown'' \<or> successorId = predecessorId) ''PLAN_SUCCESSOR_ID_MUST_CHANGE'') (\<lambda>_.
      bindE (throw_if (sourceRevision = []) ''PLAN_WORK_REPLAN_SOURCE_REVISION_REQUIRED'') (\<lambda>_.
      bindE (throw_if (why = []) ''PLAN_WORK_REPLAN_REASON_REQUIRED'') (\<lambda>_.
      case find_index (\<lambda>c. pn_planId c = predecessorId) plans of
        None \<Rightarrow> throw (''plan contract not found: '' @ predecessorId)
      | Some k \<Rightarrow>
          let predecessor = plans ! k in
          bindE (assertRequirementReference (ln_plan env) (pn_requirementId predecessor)) (\<lambda>_.
          bindE (replan_admitted world predecessor successorId) (\<lambda>_.
          case find_index (\<lambda>s. pst_id s = stepId) (pn_steps predecessor) of
            None \<Rightarrow> throw (''PLAN_STEP_NOT_FOUND: '' @ stepId)
          | Some i \<Rightarrow>
              let step = pn_steps predecessor ! i in
              bindE (replan_binding predecessor step stepId workId) (\<lambda>_.
              bindE (scope_widened (pst_allowedPaths step) requested) (\<lambda>_.
              case find_index (\<lambda>row. row_id row = workId) rows of
                None \<Rightarrow> throw (''work contract not found: '' @ workId)
              | Some j \<Rightarrow>
                  bindE (throw_if (wc_requirementId (rw_contract (rows ! j)) \<noteq> pn_requirementId predecessor)
                           ''PLAN_WORK_REPLAN_REQUIREMENT_MISMATCH'') (\<lambda>_.
                  let successor = replanned_plan predecessor i (replanned_step predecessor step successorId requested why)
                        workId successorId sourceRevision stamp;
                      predecessorNext = superseded_plan predecessor successorId (take 500 why) stamp in
                  bindE (rebindPlanBoundWorkContract H (rows ! j)
                    \<lparr>rb_predecessorPlanId = pn_planId predecessor, rb_successorPlanId = successorId, rb_planStepId = stepId,
                     rb_planSourceRevision = sourceRevision, rb_allowedPaths = requested,
                     rb_forbiddenPaths = pst_forbiddenPaths step, rb_checks = pst_checks step, rb_recordedAt = stamp,
                     rb_reason = why\<rparr>) (\<lambda>work.
                  Inr ((predecessorNext, successor, work),
                    \<lparr>pw_plans = \<lparr>pz_updatedAt = stamp, pz_contracts = successor # plans[k := predecessorNext]\<rparr>,
                     pw_works = (pw_works world)\<lparr>wks_rows := rows[j := row_of work]\<rparr>\<rparr>))))))))))))"

end
