(* ===== verification/PlanFacts.thy ===== *)
theory PlanFacts
  imports PlanSteps Contracts GoalFacts
begin

text \<open>
  The life of a plan under the operations on its steps: the invariant they keep, and the facts
  from which its properties follow.
\<close>

section \<open>Completed steps and dependencies\<close>

definition completed_of :: "plan_step list \<Rightarrow> string set" where
  "completed_of steps = {pst_id s | s. s \<in> set steps \<and> pst_status s = SS_completed}"

definition satisfied :: "plan_step list \<Rightarrow> plan_step \<Rightarrow> bool" where
  "satisfied steps s \<longleftrightarrow> set (pst_dependencies s) \<subseteq> completed_of steps"

lemma find_step_Some: "find_step steps i = Some s \<Longrightarrow> s \<in> set steps \<and> pst_id s = i"
  by (auto simp: find_step_def find_Some_iff)

lemma find_step_unique:
  assumes "distinct (map pst_id steps)" and "s \<in> set steps"
  shows "find_step steps (pst_id s) = Some s"
proof (cases "find_step steps (pst_id s)")
  case None
  with assms(2) show ?thesis by (auto simp: find_step_def find_None_iff)
next
  case t: (Some t)
  from find_step_Some [OF t] have "t = s" by (intro keyed_eq [OF assms(1) _ assms(2)]) simp_all
  with t show ?thesis by simp
qed

lemma unresolved_Nil:
  assumes "distinct (map pst_id (pn_steps p))"
  shows "unresolved_dependencies p s = [] \<longleftrightarrow> satisfied (pn_steps p) s"
proof -
  have "map_option pst_status (find_step (pn_steps p) d) = Some SS_completed \<longleftrightarrow> d \<in> completed_of (pn_steps p)" for d
  proof
    assume "map_option pst_status (find_step (pn_steps p) d) = Some SS_completed"
    then show "d \<in> completed_of (pn_steps p)" by (auto simp: completed_of_def dest: find_step_Some)
  next
    assume "d \<in> completed_of (pn_steps p)"
    then obtain c where "c \<in> set (pn_steps p)" "pst_id c = d" "pst_status c = SS_completed"
      by (auto simp: completed_of_def)
    with find_step_unique [OF assms, of c] show "map_option pst_status (find_step (pn_steps p) d) = Some SS_completed" by simp
  qed
  then show ?thesis by (auto simp: unresolved_dependencies_def satisfied_def filter_empty_conv)
qed

lemma projected_completed: "completed_of (projectDependencyReadySteps steps) = completed_of steps"
  by (auto simp: completed_of_def projectDependencyReadySteps_def Let_def image_iff split: if_splits)

lemma in_projected:
  "s \<in> set (projectDependencyReadySteps steps) \<longleftrightarrow>
     (\<exists>t\<in>set steps. s = (if pst_status t = SS_pending \<and> satisfied steps t then t\<lparr>pst_status := SS_ready\<rparr> else t))"
proof -
  have "set (map pst_id (filter (\<lambda>s. pst_status s = SS_completed) steps)) = completed_of steps"
    by (auto simp: completed_of_def)
  then show ?thesis
    unfolding projectDependencyReadySteps_def Let_def satisfied_def subset_iff by (auto simp: image_iff Ball_def)
qed

lemma projected_ids [simp]: "map pst_id (projectDependencyReadySteps steps) = map pst_id steps"
  by (simp add: projectDependencyReadySteps_def Let_def o_def)

section \<open>The invariant of a plan under way\<close>

text \<open>
  A step that is not pending has its dependencies completed, a pending one lacks a dependency;
  a step waiting to run is bound to no Work, one in progress is bound to one.
\<close>

definition step_ok :: "plan_step list \<Rightarrow> plan_step \<Rightarrow> bool" where
  "step_ok steps s \<longleftrightarrow>
     (satisfied steps s \<longleftrightarrow> pst_status s \<noteq> SS_pending) \<and>
     (truthy (pst_workId s) \<longleftrightarrow> pst_status s \<in> {SS_executing, SS_validating, SS_completed})"

definition plan_inv :: "plan_contract \<Rightarrow> bool" where
  "plan_inv p \<longleftrightarrow>
     distinct (map pst_id (pn_steps p)) \<and> (\<forall>s\<in>set (pn_steps p). step_ok (pn_steps p) s) \<and>
     pn_status p \<noteq> PS_ready_to_finalize \<and>
     (pn_status p = PS_verifying \<longrightarrow> (\<exists>s\<in>set (pn_steps p). pst_status s = SS_validating)) \<and>
     (pn_status p = PS_finalized \<longleftrightarrow> (\<forall>s\<in>set (pn_steps p). pst_status s = SS_completed))"

text \<open>The operations of the controller on one plan, in any order.\<close>

inductive plan_step_op :: "plan_contract \<Rightarrow> plan_contract \<Rightarrow> bool" where
  claim: "claim_step env i w revision p = Inr q \<Longrightarrow> w \<noteq> [] \<Longrightarrow> plan_step_op p q"
| complete: "complete_step env i work p = Inr q \<Longrightarrow> sw_workId work \<noteq> [] \<Longrightarrow> plan_step_op p q"
| accept: "accept_step env i reviewer rationale revision p = Inr q \<Longrightarrow> plan_step_op p q"
| repair: "repair_dangling env i w reason p = Inr q \<Longrightarrow> plan_step_op p q"
| retry: "retry_step env wc reason p = Inr q \<Longrightarrow> plan_step_op p q"

text \<open>What an operation does to the steps.\<close>

lemma claim_stepE:
  assumes "claim_step env i w revision p = Inr q"
  obtains (drift) "q = p\<lparr>pn_status := PS_invalidated_by_drift, pn_updatedAt := pe_now env\<rparr>"
      "pn_status p \<in> {PS_approved, PS_executing}"
  | (claimed) n where "step_at p (sanitizeFileComponent i) = Some n" "pn_status p \<in> {PS_approved, PS_executing}"
      "\<not> truthy (pst_workId (pn_steps p ! n))" "pst_status (pn_steps p ! n) \<notin> {SS_executing, SS_completed}"
      "unresolved_dependencies p (pn_steps p ! n) = []"
      "q = p\<lparr>pn_status := PS_executing,
         pn_steps := (pn_steps p)[n := (pn_steps p ! n)\<lparr>pst_status := SS_executing, pst_workId := Some w\<rparr>],
         pn_updatedAt := pe_now env\<rparr>"
proof (cases "pn_sourceRevision p = revision")
  case False
  with assms have "q = p\<lparr>pn_status := PS_invalidated_by_drift, pn_updatedAt := pe_now env\<rparr>" "pn_status p \<in> {PS_approved, PS_executing}"
    unfolding claim_step_def by (simp_all add: bindE_eq_Inr)
  then show thesis by (rule drift)
next
  case True
  show thesis
  proof (cases "step_at p (sanitizeFileComponent i)")
    case None
    with assms True show thesis unfolding claim_step_def by (simp add: bindE_eq_Inr)
  next
    case (Some n)
    from assms True Some have "pn_status p \<in> {PS_approved, PS_executing}"
        "\<not> truthy (pst_workId (pn_steps p ! n))" "pst_status (pn_steps p ! n) \<notin> {SS_executing, SS_completed}"
        "unresolved_dependencies p (pn_steps p ! n) = []"
        "q = p\<lparr>pn_status := PS_executing,
           pn_steps := (pn_steps p)[n := (pn_steps p ! n)\<lparr>pst_status := SS_executing, pst_workId := Some w\<rparr>],
           pn_updatedAt := pe_now env\<rparr>"
      unfolding claim_step_def Let_def set_step_def by (simp_all add: bindE_eq_Inr)
    then show thesis by (rule claimed [OF Some])
  qed
qed

lemma complete_stepE:
  assumes "complete_step env i work p = Inr q"
  obtains (same) "q = p"
  | (ended) n where "step_at p (sanitizeFileComponent i) = Some n" "pst_workId (pn_steps p ! n) = Some (sw_workId work)"
      "pst_status (pn_steps p ! n) \<noteq> SS_completed"
      "q = p\<lparr>pn_status := if delivered_work work then PS_verifying else PS_replanning,
         pn_steps := (pn_steps p)[n := (pn_steps p ! n)\<lparr>
           pst_status := if delivered_work work then SS_validating else SS_ready,
           pst_workId := if delivered_work work then pst_workId (pn_steps p ! n) else None,
           pst_evidenceRefs := if sw_evidenceRefs work \<noteq> [] then take 20 (sw_evidenceRefs work)
             else pst_evidenceRefs (pn_steps p ! n)\<rparr>],
         pn_updatedAt := pe_now env\<rparr>"
proof (cases "step_at p (sanitizeFileComponent i)")
  case (Some n)
  show thesis
  proof (cases "pst_status (pn_steps p ! n) = SS_completed")
    case True
    with assms Some have "q = p" by (simp add: complete_step_def Let_def bindE_eq_Inr)
    then show thesis by (rule same)
  next
    case False
    with assms Some show thesis
      by (intro ended [OF Some]) (auto simp: complete_step_def Let_def bindE_eq_Inr set_step_def)
  qed
qed (use assms in \<open>simp add: complete_step_def\<close>)

lemma accept_stepE:
  assumes "accept_step env i reviewer rationale revision p = Inr q"
  obtains (same) "q = p"
  | (accepted) n steps where "step_at p (sanitizeFileComponent i) = Some n" "pst_status (pn_steps p ! n) = SS_validating"
      "steps = (pn_steps p)[n := (pn_steps p ! n)\<lparr>pst_status := SS_completed,
         pst_evidenceRefs := take 20 (summary_evidence ''semantic acceptance'' (reviewer @ '': '' @ rationale)
           # pst_evidenceRefs (pn_steps p ! n))\<rparr>]"
      "q = p\<lparr>pn_sourceRevision := or_str (opt_trim revision) (pn_sourceRevision p),
         pn_status := if \<forall>s\<in>set steps. pst_status s = SS_completed then PS_finalized else PS_executing,
         pn_steps := if \<forall>s\<in>set steps. pst_status s = SS_completed then steps else projectDependencyReadySteps steps,
         pn_updatedAt := pe_now env\<rparr>"
proof (cases "step_at p (sanitizeFileComponent i)")
  case (Some n)
  show thesis
  proof (cases "pst_status (pn_steps p ! n) = SS_completed")
    case True
    with assms Some have "q = p" by (simp add: accept_step_def Let_def)
    then show thesis by (rule same)
  next
    case False
    with assms Some have v: "pst_status (pn_steps p ! n) = SS_validating"
      by (simp add: accept_step_def Let_def bindE_eq_Inr)
    show thesis
      by (rule accepted [OF Some v refl]) (use assms [symmetric] Some v in \<open>simp add: accept_step_def Let_def set_step_def del: take_Cons_numeral\<close>)
  qed
qed (use assms in \<open>simp add: accept_step_def\<close>)

lemma repair_danglingE:
  assumes "repair_dangling env i w reason p = Inr q"
  obtains n e where "step_at p (sanitizeFileComponent i) = Some n" "pst_status (pn_steps p ! n) = SS_executing"
    "\<not> isTerminalPlanContractStatus (pn_status p)"
    "q = p\<lparr>pn_status := PS_executing,
       pn_steps := (pn_steps p)[n := (pn_steps p ! n)\<lparr>pst_status := SS_ready, pst_workId := None, pst_evidenceRefs := e\<rparr>],
       pn_updatedAt := pe_now env\<rparr>"
  using assms unfolding repair_dangling_def set_step_def Let_def
  by (auto simp: bindE_eq_Inr split: option.splits)

lemma retry_stepE:
  assumes "retry_step env wc reason p = Inr q"
  obtains n e where "n < length (pn_steps p)" "pst_status (pn_steps p ! n) = SS_ready" "pn_status p = PS_replanning"
    "q = p\<lparr>pn_status := PS_executing, pn_steps := (pn_steps p)[n := (pn_steps p ! n)\<lparr>pst_evidenceRefs := e\<rparr>],
       pn_updatedAt := pe_now env\<rparr>"
  using assms unfolding retry_step_def set_step_def Let_def
  by (auto simp: bindE_eq_Inr find_index_Some split: option.splits)

section \<open>The invariant is kept\<close>

lemma step_at_facts:
  "step_at p i = Some n \<Longrightarrow> n < length (pn_steps p) \<and> pst_id (pn_steps p ! n) = i"
  by (simp add: step_at_def find_index_Some)

text \<open>Replacing a step by one of its identifier and dependencies.\<close>

lemma replace_distinct:
  "distinct (map pst_id steps) \<Longrightarrow> n < length steps \<Longrightarrow> pst_id s = pst_id (steps ! n) \<Longrightarrow>
     distinct (map pst_id (steps[n := s]))"
  by (metis list_update_id map_update)

lemma in_replaced:
  assumes "distinct (map pst_id steps)" and "n < length steps"
  shows "t \<in> set (steps[n := s]) \<longleftrightarrow> t = s \<or> t \<in> set steps \<and> pst_id t \<noteq> pst_id (steps ! n)"
proof -
  have d: "distinct steps" using assms(1) by (simp add: distinct_map)
  have "t \<in> set steps \<Longrightarrow> pst_id t = pst_id (steps ! n) \<Longrightarrow> t = steps ! n"
    using assms by (blast intro: keyed_eq nth_mem)
  then show ?thesis using d assms(2) by (auto simp: set_update_distinct)
qed

lemma completed_replaced:
  assumes "distinct (map pst_id steps)" and "n < length steps" and "pst_id s = pst_id (steps ! n)"
  shows "completed_of (steps[n := s]) =
    (if pst_status s = SS_completed then insert (pst_id s) (completed_of steps) else completed_of steps - {pst_id s})"
proof (rule set_eqI)
  fix x
  have "x \<in> completed_of (steps[n := s]) \<longleftrightarrow>
      pst_status s = SS_completed \<and> x = pst_id s \<or> x \<in> completed_of steps \<and> x \<noteq> pst_id s"
    unfolding completed_of_def mem_Collect_eq in_replaced [OF assms(1,2)] assms(3) [symmetric] by metis
  then show "x \<in> completed_of (steps[n := s]) \<longleftrightarrow> x \<in> (if pst_status s = SS_completed
      then insert (pst_id s) (completed_of steps) else completed_of steps - {pst_id s})" by auto
qed

lemma not_completed:
  assumes "distinct (map pst_id steps)" and "n < length steps" and "pst_status (steps ! n) \<noteq> SS_completed"
  shows "pst_id (steps ! n) \<notin> completed_of steps"
proof
  assume "pst_id (steps ! n) \<in> completed_of steps"
  then obtain t where "t \<in> set steps" "pst_id t = pst_id (steps ! n)" "pst_status t = SS_completed"
    by (auto simp: completed_of_def)
  with assms keyed_eq [OF assms(1), of t "steps ! n"] show False by simp
qed

text \<open>A replacement that completes nothing and undoes no completion leaves the other steps as they were.\<close>

lemma step_ok_replaced:
  assumes "distinct (map pst_id steps)" and "n < length steps" and "pst_id s = pst_id (steps ! n)"
    and "pst_status s \<noteq> SS_completed" and "pst_status (steps ! n) \<noteq> SS_completed"
    and "\<forall>t\<in>set steps. step_ok steps t" and "step_ok steps s"
  shows "\<forall>t\<in>set (steps[n := s]). step_ok (steps[n := s]) t"
proof -
  have "pst_id s \<notin> completed_of steps" using not_completed [OF assms(1,2,5)] assms(3) by simp
  then have "completed_of (steps[n := s]) = completed_of steps"
    using completed_replaced [OF assms(1-3)] assms(4) by simp
  then have "step_ok (steps[n := s]) t = step_ok steps t" for t
    unfolding step_ok_def satisfied_def by (simp only:)
  with assms(6,7) show ?thesis by (auto simp: in_replaced [OF assms(1,2)])
qed

lemma plan_inv_update:
  assumes "plan_inv p" and "n < length (pn_steps p)" and "pst_id s = pst_id (pn_steps p ! n)"
    and "pst_status s \<noteq> SS_completed" and "pst_status (pn_steps p ! n) \<noteq> SS_completed"
    and "step_ok (pn_steps p) s" and "pn_steps q = (pn_steps p)[n := s]"
    and "pn_status q \<noteq> PS_finalized" and "pn_status q \<noteq> PS_ready_to_finalize" and "pn_status q = PS_verifying \<Longrightarrow> pst_status s = SS_validating"
  shows "plan_inv q"
proof -
  have d: "distinct (map pst_id (pn_steps p))" and ok: "\<forall>t\<in>set (pn_steps p). step_ok (pn_steps p) t"
    using assms(1) by (simp_all add: plan_inv_def)
  have "s \<in> set (pn_steps q)" using assms(2,7) by (simp add: set_update_memI)
  with assms(4,8,9,10) show ?thesis
    using step_ok_replaced [OF d assms(2-5) ok assms(6)] replace_distinct [OF d assms(2,3)]
    unfolding plan_inv_def assms(7) [symmetric] by auto
qed

lemma claim_inv:
  assumes "plan_inv p" and "claim_step env i w revision p = Inr q" and "w \<noteq> []"
  shows "plan_inv q"
  using assms(2)
proof (cases rule: claim_stepE)
  case drift
  then have "pn_status p \<noteq> PS_finalized" by auto
  with drift assms(1) show ?thesis by (auto simp: plan_inv_def)
next
  case (claimed n)
  have d: "distinct (map pst_id (pn_steps p))" using assms(1) by (simp add: plan_inv_def)
  show ?thesis
    by (rule plan_inv_update [OF assms(1), of n "(pn_steps p ! n)\<lparr>pst_status := SS_executing, pst_workId := Some w\<rparr>"])
      (use claimed assms(3) step_at_facts [OF claimed(1)] in
        \<open>simp_all add: step_ok_def unresolved_Nil [OF d] satisfied_def\<close>)
qed

lemma complete_inv:
  assumes "plan_inv p" and "complete_step env i work p = Inr q" and "sw_workId work \<noteq> []"
  shows "plan_inv q"
  using assms(2)
proof (cases rule: complete_stepE)
  case same
  with assms(1) show ?thesis by simp
next
  case (ended n)
  note n = step_at_facts [OF ended(1)]
  have ok: "step_ok (pn_steps p) (pn_steps p ! n)" using assms(1) n by (simp add: plan_inv_def)
  have st: "pst_status (pn_steps p ! n) \<in> {SS_executing, SS_validating}" and sat: "satisfied (pn_steps p) (pn_steps p ! n)"
    using ok ended(2,3) assms(3) by (auto simp: step_ok_def)
  show ?thesis
  proof (cases "delivered_work work")
    case True
    show ?thesis
      by (rule plan_inv_update [OF assms(1) conjunct1 [OF n], where q = q])
        (use True ended st sat assms(3) in \<open>auto simp: step_ok_def satisfied_def\<close>)
  next
    case False
    show ?thesis
      by (rule plan_inv_update [OF assms(1) conjunct1 [OF n], where q = q])
        (use False ended st sat in \<open>auto simp: step_ok_def satisfied_def\<close>)
  qed
qed

lemma satisfied_mono: "satisfied steps s \<Longrightarrow> completed_of steps \<subseteq> completed_of steps' \<Longrightarrow> satisfied steps' s"
  by (auto simp: satisfied_def)

text \<open>Projecting readiness makes every pending step with completed dependencies ready.\<close>

lemma projected_ok:
  assumes "\<forall>t\<in>set steps. (satisfied steps t \<or> pst_status t = SS_pending) \<and>
     (truthy (pst_workId t) \<longleftrightarrow> pst_status t \<in> {SS_executing, SS_validating, SS_completed})"
  shows "\<forall>t\<in>set (projectDependencyReadySteps steps). step_ok (projectDependencyReadySteps steps) t"
proof
  fix t assume "t \<in> set (projectDependencyReadySteps steps)"
  then obtain u where u: "u \<in> set steps"
    "t = (if pst_status u = SS_pending \<and> satisfied steps u then u\<lparr>pst_status := SS_ready\<rparr> else u)"
    unfolding in_projected by blast
  have sat: "satisfied (projectDependencyReadySteps steps) t \<longleftrightarrow> satisfied steps u"
    using u(2) by (simp add: satisfied_def projected_completed)
  from assms u(1) have "(satisfied steps u \<or> pst_status u = SS_pending) \<and>
     (truthy (pst_workId u) \<longleftrightarrow> pst_status u \<in> {SS_executing, SS_validating, SS_completed})" by blast
  with sat u(2) show "step_ok (projectDependencyReadySteps steps) t" by (auto simp: step_ok_def)
qed

lemma accept_inv:
  assumes "plan_inv p" and "accept_step env i reviewer rationale revision p = Inr q"
  shows "plan_inv q"
  using assms(2)
proof (cases rule: accept_stepE)
  case same
  with assms(1) show ?thesis by simp
next
  case (accepted n steps)
  note n = step_at_facts [OF accepted(1)]
  let ?s = "steps ! n"
  have d: "distinct (map pst_id (pn_steps p))" and ok: "\<forall>t\<in>set (pn_steps p). step_ok (pn_steps p) t"
    using assms(1) by (simp_all add: plan_inv_def)
  have s: "?s = (pn_steps p ! n)\<lparr>pst_status := SS_completed, pst_evidenceRefs := pst_evidenceRefs ?s\<rparr>"
    "steps = (pn_steps p)[n := ?s]"
    using accepted(3) n by simp_all
  have c: "completed_of steps = insert (pst_id ?s) (completed_of (pn_steps p))"
    using completed_replaced [OF d conjunct1 [OF n], of ?s] s by (metis plan_step.select_convs(1) plan_step.select_convs(9) plan_step.surjective plan_step.update_convs(9) plan_step.update_convs(11))
  have t: "(satisfied steps t \<or> pst_status t = SS_pending) \<and>
     (truthy (pst_workId t) \<longleftrightarrow> pst_status t \<in> {SS_executing, SS_validating, SS_completed})" if "t \<in> set steps" for t
  proof -
    have m: "satisfied (pn_steps p) u \<Longrightarrow> satisfied steps u" for u
      using c by (auto simp: satisfied_def)
    have "step_ok (pn_steps p) (pn_steps p ! n)" using ok n by simp
    then have "satisfied (pn_steps p) ?s" and "truthy (pst_workId ?s)" and "pst_status ?s = SS_completed"
      using accepted(2,3) n by (simp_all add: step_ok_def satisfied_def)
    with m [of ?s] have "?thesis" if "t = ?s" using that by simp
    moreover have "?thesis" if "t \<in> set (pn_steps p)"
      using ok that m [of t] by (auto simp: step_ok_def)
    moreover have "t = ?s \<or> t \<in> set (pn_steps p)"
      using that in_replaced [OF d conjunct1 [OF n], of t ?s] s(2) by metis
    ultimately show ?thesis by blast
  qed
  have ds: "distinct (map pst_id steps)"
    using replace_distinct [OF d conjunct1 [OF n], of ?s] s by (metis plan_step.select_convs(1) plan_step.surjective plan_step.update_convs(9) plan_step.update_convs(11))
  show ?thesis
  proof (cases "\<forall>s\<in>set steps. pst_status s = SS_completed")
    case True
    have st: "pn_steps q = steps" "pn_status q = PS_finalized" unfolding accepted(4) using True by simp_all
    have "step_ok steps t" if "t \<in> set steps" for t
      using t [OF that] True that by (simp add: step_ok_def)
    with st ds True show ?thesis by (simp add: plan_inv_def)
  next
    case False
    have st: "pn_steps q = projectDependencyReadySteps steps" "pn_status q = PS_executing"
      unfolding accepted(4) by (simp_all add: if_not_P [OF False])
    from False obtain u where u: "u \<in> set steps" "pst_status u \<noteq> SS_completed" by blast
    have "\<exists>v\<in>set (projectDependencyReadySteps steps). pst_status v \<noteq> SS_completed"
      by (rule bexI [of _ "if pst_status u = SS_pending \<and> satisfied steps u then u\<lparr>pst_status := SS_ready\<rparr> else u"])
        (use u in \<open>auto simp: in_projected\<close>)
    with st ds projected_ok [of steps] t show ?thesis by (auto simp: plan_inv_def)
  qed
qed

lemma repair_inv:
  assumes "plan_inv p" and "repair_dangling env i w reason p = Inr q"
  shows "plan_inv q"
  using assms(2)
proof (cases rule: repair_danglingE)
  case (1 n e)
  have "step_ok (pn_steps p) (pn_steps p ! n)" using assms(1) step_at_facts [OF 1(1)] by (simp add: plan_inv_def)
  then show ?thesis
    by (intro plan_inv_update [OF assms(1), of n "(pn_steps p ! n)\<lparr>pst_status := SS_ready, pst_workId := None, pst_evidenceRefs := e\<rparr>"])
      (use 1 step_at_facts [OF 1(1)] in \<open>simp_all add: step_ok_def satisfied_def\<close>)
qed

lemma retry_inv:
  assumes "plan_inv p" and "retry_step env wc reason p = Inr q"
  shows "plan_inv q"
  using assms(2)
proof (cases rule: retry_stepE)
  case (1 n e)
  have "step_ok (pn_steps p) (pn_steps p ! n)" using assms(1) 1(1) by (simp add: plan_inv_def)
  then show ?thesis
    by (intro plan_inv_update [OF assms(1), of n "(pn_steps p ! n)\<lparr>pst_evidenceRefs := e\<rparr>"])
      (use 1 in \<open>simp_all add: step_ok_def satisfied_def\<close>)
qed

interpretation plans: invariant_steps plan_step_op plan_inv
proof unfold_locales
  fix p q assume "plan_inv p" and "plan_step_op p q"
  from this(2,1) show "plan_inv q"
    by cases (blast intro: claim_inv complete_inv accept_inv repair_inv retry_inv)+
qed

section \<open>Completed steps and the shape of the plan stay\<close>

text \<open>The identifiers and dependencies of the steps, in order.\<close>

definition plan_shape :: "plan_contract \<Rightarrow> (string \<times> string list) list" where
  "plan_shape p = map (\<lambda>s. (pst_id s, pst_dependencies s)) (pn_steps p)"

definition completed_steps :: "plan_contract \<Rightarrow> plan_step set" where
  "completed_steps p = {s \<in> set (pn_steps p). pst_status s = SS_completed}"

lemma projected_shape:
  "map (\<lambda>s. (pst_id s, pst_dependencies s)) (projectDependencyReadySteps steps) = map (\<lambda>s. (pst_id s, pst_dependencies s)) steps"
  by (simp add: projectDependencyReadySteps_def Let_def o_def)

lemma replaced_shape:
  assumes "n < length steps" and "pst_id s = pst_id (steps ! n)" and "pst_dependencies s = pst_dependencies (steps ! n)"
  shows "map (\<lambda>s. (pst_id s, pst_dependencies s)) (steps[n := s]) = map (\<lambda>s. (pst_id s, pst_dependencies s)) steps"
proof (rule nth_equalityI)
  fix i assume "i < length (map (\<lambda>s. (pst_id s, pst_dependencies s)) (steps[n := s]))"
  with assms show "map (\<lambda>s. (pst_id s, pst_dependencies s)) (steps[n := s]) ! i = map (\<lambda>s. (pst_id s, pst_dependencies s)) steps ! i"
    by (cases "i = n") simp_all
qed simp

lemma plan_op_shape:
  assumes "plan_step_op p q"
  shows "plan_shape q = plan_shape p"
  using assms
proof cases
  case (claim env i w revision)
  from claim(1) show ?thesis
    by (cases rule: claim_stepE) (auto simp: plan_shape_def replaced_shape dest!: step_at_facts)
next
  case (complete env i work)
  from complete(1) show ?thesis
    by (cases rule: complete_stepE) (auto simp: plan_shape_def replaced_shape dest!: step_at_facts)
next
  case (accept env i reviewer rationale revision)
  from accept show ?thesis
    by (cases rule: accept_stepE) (auto simp: plan_shape_def replaced_shape projected_shape dest!: step_at_facts)
next
  case (repair env i w reason)
  then show ?thesis
    by (elim repair_danglingE) (auto simp: plan_shape_def replaced_shape dest!: step_at_facts)
next
  case (retry env wc reason)
  then show ?thesis by (elim retry_stepE) (auto simp: plan_shape_def replaced_shape)
qed

lemma completed_kept:
  assumes "pst_status (pn_steps p ! n) \<noteq> SS_completed" and "pn_steps q = (pn_steps p)[n := s]" and "n < length (pn_steps p)"
  shows "completed_steps p \<subseteq> completed_steps q"
proof
  fix t assume "t \<in> completed_steps p"
  then obtain i where i: "i < length (pn_steps p)" "t = pn_steps p ! i" "pst_status t = SS_completed"
    by (auto simp: completed_steps_def in_set_conv_nth)
  then have "i \<noteq> n" using assms(1) by blast
  with i assms(2,3) have "pn_steps q ! i = t" "i < length (pn_steps q)" by simp_all
  with i(3) show "t \<in> completed_steps q" by (auto simp: completed_steps_def)
qed

lemma projected_completed_steps:
  "s \<in> set (projectDependencyReadySteps steps) \<and> pst_status s = SS_completed \<longleftrightarrow> s \<in> set steps \<and> pst_status s = SS_completed"
proof
  assume "s \<in> set steps \<and> pst_status s = SS_completed"
  then show "s \<in> set (projectDependencyReadySteps steps) \<and> pst_status s = SS_completed"
    unfolding in_projected by (intro conjI bexI [of _ s]) simp_all
qed (auto simp: in_projected split: if_splits)

lemma plan_op_completed:
  assumes "plan_step_op p q"
  shows "completed_steps p \<subseteq> completed_steps q"
  using assms
proof cases
  case (claim env i w revision)
  from claim(1) show ?thesis
  proof (cases rule: claim_stepE)
    case drift
    then show ?thesis by (simp add: completed_steps_def)
  next
    case (claimed n)
    show ?thesis by (rule completed_kept [of p n]) (use claimed step_at_facts [OF claimed(1)] in auto)
  qed
next
  case (complete env i work)
  from complete(1) show ?thesis
  proof (cases rule: complete_stepE)
    case (ended n)
    show ?thesis by (rule completed_kept [of p n]) (use ended step_at_facts [OF ended(1)] in auto)
  qed simp
next
  case (accept env i reviewer rationale revision)
  from accept show ?thesis
  proof (cases rule: accept_stepE)
    case (accepted n steps)
    have "completed_steps p \<subseteq> completed_steps (p\<lparr>pn_steps := steps\<rparr>)"
      by (rule completed_kept [of p n]) (use accepted step_at_facts [OF accepted(1)] in auto)
    then show ?thesis by (simp add: accepted(4) completed_steps_def projected_completed_steps)
  qed simp
next
  case (repair env i w reason)
  from repair show ?thesis
  proof (cases rule: repair_danglingE)
    case (1 n e)
    show ?thesis by (rule completed_kept [of p n]) (use 1 step_at_facts [OF 1(1)] in auto)
  qed
next
  case (retry env wc reason)
  from retry show ?thesis
  proof (cases rule: retry_stepE)
    case (1 n e)
    show ?thesis by (rule completed_kept [of p n]) (use 1 in auto)
  qed
qed

end
