(* ===== verification/WorkStoreFacts.thy ===== *)
theory WorkStoreFacts
  imports WorkContractLineage WorkStateFacts
begin

text \<open>
  The Work store over time: a contract that is written is read back as it is, up to the form
  reading gives it, and every operation either leaves the store or takes one Work a valid step
  on, adds a valid Work, or links two.
\<close>

section \<open>Names\<close>

lemma dash_runs_chars: "set (dash_runs b s) \<subseteq> Collect file_char"
  by (induction b s rule: dash_runs.induct) (auto simp: file_char_def)

lemma dash_runs_id: "set s \<subseteq> Collect file_char \<Longrightarrow> dash_runs b s = s"
  by (induction s arbitrary: b) auto

lemma strip_dashes_set: "set (strip_dashes s) \<subseteq> set s"
  unfolding strip_dashes_def by (auto dest!: set_dropWhileD)

lemma strip_dashes_idem: "strip_dashes (strip_dashes s) = strip_dashes s"
proof -
  let ?P = "\<lambda>c. c = CHR ''-''"
  define t where "t = dropWhile ?P s"
  define u where "u = dropWhile ?P (rev t)"
  have s: "strip_dashes s = rev u" by (simp add: strip_dashes_def t_def u_def)
  show ?thesis
  proof (cases "u = []")
    case True
    then show ?thesis unfolding s by (simp add: strip_dashes_def)
  next
    case False
    then have tn: "t \<noteq> []" by (auto simp: u_def)
    have h: "\<not> ?P (hd t)" using tn hd_dropWhile [of ?P s] unfolding t_def by blast
    have l: "last u = hd t" using hd_rev_dropWhile_rev [where P = ?P, OF tn h] by (simp add: u_def)
    have "\<not> ?P (hd u)" using False hd_dropWhile [of ?P "rev t"] unfolding u_def by blast
    then have "dropWhile ?P u = u" by (intro dropWhile_hd_id) simp
    moreover have "dropWhile ?P (rev u) = rev u"
      by (intro dropWhile_hd_id) (use False h l in \<open>simp add: hd_rev\<close>)
    ultimately show ?thesis unfolding s by (simp add: strip_dashes_def)
  qed
qed

lemma sanitize_idem [simp]: "sanitizeFileComponent (sanitizeFileComponent s) = sanitizeFileComponent s"
proof (cases "strip_dashes (dash_runs False s) = []")
  case True
  moreover have "sanitizeFileComponent ''unknown'' = ''unknown''" by code_simp
  ultimately show ?thesis by (simp add: sanitizeFileComponent_def)
next
  case False
  let ?t = "strip_dashes (dash_runs False s)"
  have "set ?t \<subseteq> Collect file_char" using strip_dashes_set dash_runs_chars by blast
  then have "dash_runs False ?t = ?t" by (rule dash_runs_id)
  then show ?thesis using False by (simp add: sanitizeFileComponent_def strip_dashes_idem)
qed

section \<open>What is written is read\<close>

text \<open>The form reading gives a contract.\<close>

definition canonical :: "work_contract \<Rightarrow> work_contract" where
  "canonical c = c\<lparr>wc_scopeRef := Some (semanticScopeRefForWork c), wc_executionPlacement := Some (executionPlacementForWork c),
     wc_suggestedNextActions := suggestedActionsForStatus (wc_status c) (wc_suggestedNextActions c)\<rparr>"

lemma canonical_idem [simp]: "canonical (canonical c) = canonical c"
  by (simp add: canonical_def semanticScopeRefForWork_def executionPlacementForWork_def suggestedActionsForStatus_def)

lemma canonical_fields [simp]:
  "wc_workId (canonical c) = wc_workId c" "wc_status (canonical c) = wc_status c" "wc_phase (canonical c) = wc_phase c"
  "wc_phaseEvidence (canonical c) = wc_phaseEvidence c" "wc_dispatchState (canonical c) = wc_dispatchState c"
  "wc_evidenceState (canonical c) = wc_evidenceState c" "wc_completionOutcome (canonical c) = wc_completionOutcome c"
  "wc_completionReceipt (canonical c) = wc_completionReceipt c" "wc_lifecycleRole (canonical c) = wc_lifecycleRole c"
  "wc_parentWorkId (canonical c) = wc_parentWorkId c" "wc_predecessorWorkId (canonical c) = wc_predecessorWorkId c"
  "wc_implementationReviews (canonical c) = wc_implementationReviews c" "wc_objective (canonical c) = wc_objective c"
  "wc_workKind (canonical c) = wc_workKind c" "wc_baseRevision (canonical c) = wc_baseRevision c"
  "wc_readOnlyReviewEvidence (canonical c) = wc_readOnlyReviewEvidence c"
  by (simp_all add: canonical_def)

lemma validate_canonical:
  "validateWorkSemantics H c = Inr c \<Longrightarrow> validateWorkSemantics H (canonical c) = Inr (canonical c)"
proof -
  have "validate_phase (canonical c) = validate_phase c"
    by (simp add: validate_phase_def fun_eq_iff)
  moreover have "validate_completion_receipt (canonical c) r = validate_completion_receipt c r" for r
    by (cases r) (simp_all add: validate_completion_receipt_def validate_direct_edit_receipt_def validate_read_only_receipt_def
      validate_remote_receipt_def validate_local_receipt_def with_checkpoint_def)
  moreover have "validate_outcome (canonical c) out = validate_outcome c out" for out
    by (simp add: validate_outcome_def receipt_is_def)
  moreover assume "validateWorkSemantics H c = Inr c"
  ultimately show ?thesis unfolding validate_work_iff by (auto split: option.splits)
qed

lemma transition_canonical:
  "validateWorkSemanticTransition H c d allow = Inr d \<Longrightarrow> validateWorkSemanticTransition H c (canonical d) allow = Inr (canonical d)"
proof -
  have "resuming_retained_cancelled_work allow c (canonical d) = resuming_retained_cancelled_work allow c d"
    by (auto simp: resuming_retained_cancelled_work_def split: option.split)
  then show "validateWorkSemanticTransition H c d allow = Inr d \<Longrightarrow> validateWorkSemanticTransition H c (canonical d) allow = Inr (canonical d)"
    unfolding semantic_transition_Inr retrying_failed_work_def by (simp only: canonical_fields) simp
qed

lemma work_step_canonical: "work_step H c d \<Longrightarrow> work_step H c (canonical d)"
  unfolding work_step_def using validate_canonical transition_canonical by blast

lemma normalize_row_of:
  assumes v: "validateWorkSemantics H c = Inr c"
  shows "normalizeWorkContract H (row_of c) = Inr (canonical c)"
proof -
  have st: "row_status (row_of c) = wc_status c"
    using validate_work_Inr(3) [OF v] by (auto simp: row_status_def row_of_def Let_def)
  have ph: "row_phase (row_of c) = wc_phase c"
    using validate_work_Inr(3) [OF v] receipt_phase [OF v] by (auto simp: row_phase_def row_of_def)
  have profile: "phase_profile (wc_phase c) (wc_phaseEvidence c)" by (rule validate_work_Inr(4) [OF v])
  obtain e where e: "wc_phaseEvidence c Phase_review = Some e" "Phase_review < wc_phase c \<Longrightarrow> phase_done (pe_state e)"
    using phase_profile_read [OF profile] by metis
  have pe: "normalized_phase_evidence (wc_phase c) (Some (wc_phaseEvidence c)) d = wc_phaseEvidence c" for d
  proof
    fix p
    obtain k where k: "wc_phaseEvidence c p = Some k" using phase_profile_read [OF profile] by metis
    have "normalized_review (wc_phase c) (Some e) (d Phase_review) = e"
      using e(2) by (auto simp: normalized_review_def phase_done_def less_work_phase_def)
    with e(1) k show "normalized_phase_evidence (wc_phase c) (Some (wc_phaseEvidence c)) d p = wc_phaseEvidence c p"
      by (cases "p = Phase_review") (simp_all add: normalized_phase_evidence_def map_add_def)
  qed
  have "normalizeWorkContract H (row_of c) = validateWorkSemantics H (canonical c)"
    unfolding normalizeWorkContract_def Let_def st ph
    by (rule arg_cong [where f = "validateWorkSemantics H"])
      (rule work_contract.equality; simp add: row_of_def canonical_def pe)
  then show ?thesis using validate_canonical [OF v] by simp
qed

lemma normalize_facts:
  assumes "normalizeWorkContract H row = Inr c"
  shows "validateWorkSemantics H c = Inr c" and "canonical c = c" and "wc_workId c = row_id row"
proof -
  obtain d where d: "validateWorkSemantics H d = Inr c" "wc_workId d = row_id row" "canonical d = d"
    using assms unfolding normalizeWorkContract_def Let_def
    by (rule that) (simp_all add: row_id_def canonical_def semanticScopeRefForWork_def executionPlacementForWork_def suggestedActionsForStatus_def)
  then have "c = d" using validate_work_Inr(1) by blast
  with d show "validateWorkSemantics H c = Inr c" "canonical c = c" "wc_workId c = row_id row" by simp_all
qed

section \<open>The contracts of a store\<close>

text \<open>
  \<open>works H S cs\<close>: reading \<open>S\<close> gives the contracts \<open>cs\<close>, which have distinct identifiers and review
  histories that could have been recorded.
\<close>

definition works :: "js_host \<Rightarrow> work_store \<Rightarrow> work_contract list \<Rightarrow> bool" where
  "works H S cs \<longleftrightarrow> readWorkContractStore H S = Inr cs \<and> distinct (map wc_workId cs) \<and>
     (\<forall>c\<in>set cs. assertImplementationReviewHistoryAppendOnly H (Some (wc_implementationReviews c))
        (Some (wc_implementationReviews c)) = Inr ())"

lemma read_list_all2: "readWorkContractStore H S = Inr cs \<longleftrightarrow> list_all2 (\<lambda>row c. normalizeWorkContract H row = Inr c) (wks_rows S) cs"
  by (simp add: readWorkContractStore_def map_res_eq_Inr)

lemma read_valid:
  assumes "readWorkContractStore H S = Inr cs" and "c \<in> set cs"
  shows "validateWorkSemantics H c = Inr c" and "canonical c = c"
proof -
  from assms(2) obtain i where i: "i < length cs" "c = cs ! i" by (auto simp: in_set_conv_nth)
  have "normalizeWorkContract H (wks_rows S ! i) = Inr (cs ! i)"
    using list_all2_nthD2 [OF assms(1) [unfolded read_list_all2] i(1)] .
  from normalize_facts [OF this] i(2) show "validateWorkSemantics H c = Inr c" "canonical c = c" by blast+
qed

lemma read_ids: "readWorkContractStore H S = Inr cs \<Longrightarrow> map row_id (wks_rows S) = map wc_workId cs"
  unfolding read_list_all2 by (induction rule: list_all2_induct) (auto dest: normalize_facts(3))

lemma read_written:
  assumes "\<And>c. c \<in> set cs \<Longrightarrow> validateWorkSemantics H c = Inr c"
  shows "readWorkContractStore H (writeWorkContractStore t cs) = Inr (map canonical cs)"
proof -
  have "list_all2 (\<lambda>row c. normalizeWorkContract H row = Inr c) (map row_of cs) (map canonical cs)"
    unfolding list.rel_map by (rule list.rel_refl_strong) (rule normalize_row_of [OF assms])
  then show ?thesis by (simp add: read_list_all2 writeWorkContractStore_def)
qed

lemma map_canonical_update:
  assumes "readWorkContractStore H S = Inr cs"
  shows "map canonical (cs[i := d]) = cs[i := canonical d]"
proof -
  have "map canonical cs = cs" using read_valid(2) [OF assms] by (simp add: map_idI)
  then show ?thesis by (simp add: map_update)
qed

lemma distinct_ids_update:
  "distinct (map wc_workId cs) \<Longrightarrow> i < length cs \<Longrightarrow> wc_workId d = wc_workId (cs ! i) \<Longrightarrow> distinct (map wc_workId (cs[i := d]))"
  by (metis list_update_id map_update)

lemma history_self:
  assumes "assertImplementationReviewHistoryAppendOnly H (Some rs) (Some rs') = Inr ()"
  shows "assertImplementationReviewHistoryAppendOnly H (Some rs') (Some rs') = Inr ()"
  using assms unfolding history_accepted_iff by auto

text \<open>One contract is replaced by the next one of a valid step.\<close>

lemma works_update:
  assumes "works H S cs" and "i < length cs" and "work_step H (cs ! i) d" and "wc_workId d = wc_workId (cs ! i)"
    and "readWorkContractStore H S' = Inr (cs[i := canonical d])"
  shows "works H S' (cs[i := canonical d])"
proof -
  have "assertImplementationReviewHistoryAppendOnly H (Some (wc_implementationReviews d)) (Some (wc_implementationReviews d)) = Inr ()"
    using work_step_facts(7) [OF assms(3)] by (rule history_self)
  then show ?thesis
    using assms distinct_ids_update [of cs i "canonical d"] unfolding works_def
    by (auto dest!: set_update_subset_insert [THEN subsetD])
qed

section \<open>The update\<close>

lemma apply_patch_facts:
  assumes "apply_patch H c patch allow t = Inr d"
  shows "work_step H c d" and "wc_workId d = wc_workId c"
    and "wc_completionReceipt d = coalesce (wu_completionReceipt patch) (wc_completionReceipt c)"
proof -
  obtain phase evidence e where d': "validateWorkSemantics H (patched_contract c patch phase evidence t) = Inr e"
    "validateWorkSemanticTransition H c e (up_resume allow) = Inr d"
    using assms unfolding apply_patch_def Let_def bindE_eq_Inr by (elim exE conjE)
  have "d = e" using d'(2) unfolding semantic_transition_Inr by (elim conjE)
  note d = d' [folded \<open>d = e\<close>]
  then have eq: "d = patched_contract c patch phase evidence t" using validate_work_Inr(1) by blast
  with d show "work_step H c d" unfolding work_step_def by (cases "up_resume allow") auto
  show "wc_workId d = wc_workId c" "wc_completionReceipt d = coalesce (wu_completionReceipt patch) (wc_completionReceipt c)"
    unfolding eq patched_contract_def Let_def by simp_all
qed

lemma update_facts:
  assumes "works H S cs" and "updateWorkContractInternal H env S w patch allow = Inr (d, S')"
  obtains i where "i < length cs" "wc_workId (cs ! i) = sanitizeFileComponent w"
    "apply_patch H (cs ! i) patch allow (we_updateNow env) = Inr d" "works H S' (cs[i := canonical d])"
proof -
  have read: "readWorkContractStore H S = Inr cs" using assms(1) by (simp add: works_def)
  from assms(2) obtain i where i: "find_index (\<lambda>c. wc_workId c = sanitizeFileComponent w) cs = Some i"
    "apply_patch H (cs ! i) patch allow (we_updateNow env) = Inr d"
    "S' = writeWorkContractStore (we_updateNow env) (cs[i := d])"
    unfolding updateWorkContractInternal_def Let_def read by (auto simp: bindE_eq_Inr split: option.splits)
  from i(1) have n: "i < length cs" "wc_workId (cs ! i) = sanitizeFileComponent w" by (simp_all add: find_index_Some)
  note d = apply_patch_facts [OF i(2)]
  have v: "validateWorkSemantics H c = Inr c" if "c \<in> set (cs[i := d])" for c
    using that set_update_subset_insert [of cs i d] read_valid(1) [OF read] work_step_facts(1) [OF d(1)] by blast
  have "readWorkContractStore H S' = Inr (cs[i := canonical d])"
    unfolding i(3) using read_written [OF v] map_canonical_update [OF read] by simp
  from works_update [OF assms(1) n(1) d(1,2) this] n i(2) show thesis by (intro that)
qed

text \<open>The operations on one Work either change nothing or are an update that does not touch a receipt.\<close>

definition updates :: "js_host \<Rightarrow> work_env \<Rightarrow> work_store \<Rightarrow> string \<Rightarrow> (work_contract \<times> work_store) res \<Rightarrow> bool" where
  "updates H env S w r \<longleftrightarrow>
     (\<forall>d S'. r = Inr (d, S') \<longrightarrow> S' = S \<or>
        (\<exists>patch allow. updateWorkContractInternal H env S w patch allow = Inr (d, S') \<and> wu_completionReceipt patch = None))"

lemma updates_intros:
  "updates H env S w (throw e)"
  "updates H env S w (Inr (c, S))"
  "wu_completionReceipt patch = None \<Longrightarrow> updates H env S w (updateWorkContractInternal H env S w patch allow)"
  "(\<And>x. m = Inr x \<Longrightarrow> updates H env S w (f x)) \<Longrightarrow> updates H env S w (bindE m f)"
  "updates H env S w x \<Longrightarrow> updates H env S w y \<Longrightarrow> updates H env S w (if b then x else y)"
  "updates H env S w x \<Longrightarrow> (\<And>a. v = Some a \<Longrightarrow> updates H env S w (g a)) \<Longrightarrow> updates H env S w (case v of None \<Rightarrow> x | Some a \<Rightarrow> g a)"
  "(\<And>c. updates H env S w (h c)) \<Longrightarrow> updates H env S w (with_contract H env S w h)"
  by (auto simp: updates_def bindE_eq_Inr with_contract_def split: option.splits)

lemma no_patch_receipt [simp]: "wu_completionReceipt no_patch = None"
  by (simp add: no_patch_def)

lemma operations_update:
  "updates H env S w (resumeRetainedCancelledWorkContract H env S w resume)"
  "updates H env S w (recordWorkScopeEvidence H env S w likely inspected changed)"
  "updates H env S w (appendWorkEvidence H env S w evidence)"
  "updates H env S w (appendWorkHandoffRef H env S w handoff)"
  "updates H env S w (appendVerificationRecord H env S w verification)"
  "updates H env S w (transitionWorkContractPhase H env S w phase)"
  "updates H env S w (requestWorkImplementationReview H env S w summary)"
  "updates H env S w (recordWorkImplementationReview H env S w review)"
  "updates H env S w (reconcileApprovedWorkImplementationReviewProjection H env S w reviewId source digest)"
  unfolding resumeRetainedCancelledWorkContract_def recordWorkScopeEvidence_def appendWorkEvidence_def appendWorkHandoffRef_def
    appendVerificationRecord_def transitionWorkContractPhase_def requestWorkImplementationReview_def
    recordWorkImplementationReview_def reconcileApprovedWorkImplementationReviewProjection_def
    updateWorkContract_def Let_def phase_patch_def
  by (intro updates_intros; simp)+

lemma getWork_facts:
  assumes "works H S cs" and "getWorkContract H env S w = Inr (Some c)"
  shows "c \<in> set cs" and "wc_workId c = sanitizeFileComponent w"
proof -
  have read: "readWorkContractStore H S = Inr cs" using assms(1) by (simp add: works_def)
  have "c \<in> set cs \<and> wc_workId c = sanitizeFileComponent w"
  proof (cases "we_sqlite env")
    case True
    with assms(2) obtain row where row: "find (\<lambda>row. row_id row = sanitizeFileComponent w) (wks_rows S) = Some row"
      "normalizeWorkContract H row = Inr c"
      unfolding getWorkContract_def Let_def by (auto simp: bindE_eq_Inr split: option.splits)
    then obtain i where i: "i < length (wks_rows S)" "row = wks_rows S ! i" "row_id row = sanitizeFileComponent w"
      by (auto simp: find_Some_iff)
    from list_all2_nthD [OF read [unfolded read_list_all2] i(1)] row(2) i(2)
    have "cs ! i = c" by simp
    moreover have "i < length cs" using i(1) list_all2_lengthD [OF read [unfolded read_list_all2]] by simp
    ultimately have "c \<in> set cs" by auto
    with normalize_facts(3) [OF row(2)] i(3) show ?thesis by simp
  next
    case False
    with assms(2) read show ?thesis
      unfolding getWorkContract_def Let_def by (auto simp: find_Some_iff)
  qed
  then show "c \<in> set cs" and "wc_workId c = sanitizeFileComponent w" by blast+
qed

text \<open>The receipt operation writes a receipt only where there is none.\<close>

lemma completion_facts:
  assumes "works H S cs" and "recordWorkCompletionReceipt H env S w receipt out kind = Inr (d, S')"
  obtains (same) "S' = S"
  | (recorded) i patch allow where "i < length cs" "apply_patch H (cs ! i) patch allow (we_updateNow env) = Inr d"
      "wc_completionReceipt (cs ! i) = None" "works H S' (cs[i := canonical d])"
proof -
  from assms(2) obtain c where c: "getWorkContract H env S w = Inr (Some c)"
    unfolding recordWorkCompletionReceipt_def record_completion_seen_def with_contract_def by (auto simp: bindE_eq_Inr split: option.splits)
  note w = getWork_facts [OF assms(1) c]
  show thesis
  proof (cases "wc_completionReceipt c")
    case None
    with assms(2) c obtain patch allow where u: "updateWorkContractInternal H env S (wc_workId c) patch allow = Inr (d, S')"
      unfolding recordWorkCompletionReceipt_def record_completion_seen_def with_contract_def by (auto simp: bindE_eq_Inr)
    from update_facts [OF assms(1) u] obtain i where i: "i < length cs" "wc_workId (cs ! i) = sanitizeFileComponent (wc_workId c)"
      "apply_patch H (cs ! i) patch allow (we_updateNow env) = Inr d" "works H S' (cs[i := canonical d])" by blast
    have "inj_on wc_workId (set cs)" using assms(1) by (simp add: works_def distinct_map)
    then have "cs ! i = c" by (rule inj_onD) (use i(1,2) w in simp_all)
    with None i show thesis by (intro recorded) auto
  next
    case (Some r)
    with assms(2) c have "S' = S"
      unfolding recordWorkCompletionReceipt_def record_completion_seen_def with_contract_def by (auto simp: bindE_eq_Inr)
    then show thesis by (rule same)
  qed
qed

lemma create_facts:
  assumes "works H S cs" and "createWorkContract H env S inp = Inr (d, S')"
  shows "works H S' (canonical d # cs)"
proof -
  have read: "readWorkContractStore H S = Inr cs" using assms(1) by (simp add: works_def)
  obtain i t p where d: "validateWorkSemantics H (new_contract inp i t p) = Inr d"
    using assms(2) unfolding createWorkContract_def Let_def by (auto simp: bindE_eq_Inr split: if_splits)
  then have v: "validateWorkSemantics H d = Inr d" and eq: "d = new_contract inp i t p" using validate_work_Inr(1) by blast+
  have r: "readWorkContractStore H S' = Inr (canonical d # cs) \<and> wc_workId d \<notin> set (map wc_workId cs)"
  proof (cases "we_sqlite env")
    case True
    with assms(2) have "S' = S\<lparr>wks_updatedAt := wc_updatedAt d, wks_rows := row_of d # wks_rows S\<rparr>"
      and "wc_workId d \<notin> set (map row_id (wks_rows S))"
      unfolding createWorkContract_def Let_def by (auto simp: bindE_eq_Inr)
    with read_ids [OF read] read normalize_row_of [OF v] show ?thesis unfolding read_list_all2 by simp
  next
    case False
    with assms(2) read have S': "S' = writeWorkContractStore (wc_updatedAt d) (d # cs)" and n: "wc_workId d \<notin> set (map wc_workId cs)"
      unfolding createWorkContract_def Let_def by (auto simp: bindE_eq_Inr)
    have "map canonical cs = cs" using read_valid(2) [OF read] by (simp add: map_idI)
    with read_written [of "d # cs" H "wc_updatedAt d"] v read_valid(1) [OF read] n show ?thesis unfolding S' by auto
  qed
  have "wc_implementationReviews d = []" unfolding eq new_contract_def Let_def by simp
  then have "assertImplementationReviewHistoryAppendOnly H (Some (wc_implementationReviews d)) (Some (wc_implementationReviews d)) = Inr ()"
    by (simp add: history_accepted_iff)
  with r assms(1) show ?thesis by (simp add: works_def)
qed

text \<open>The two ends of a supersession edge.\<close>

lemma stays_valid:
  assumes "validateWorkSemantics H c = Inr c" and "validateWorkSemantics H d = Inr d"
    and "assertImplementationReviewHistoryAppendOnly H (Some (wc_implementationReviews c)) (Some (wc_implementationReviews c)) = Inr ()"
    and "wc_dispatchState d = wc_dispatchState c" "wc_evidenceState d = wc_evidenceState c"
      "wc_completionOutcome d = wc_completionOutcome c" "wc_lifecycleRole d = wc_lifecycleRole c"
      "wc_parentWorkId d = wc_parentWorkId c" "wc_predecessorWorkId d = wc_predecessorWorkId c"
      "wc_implementationReviews d = wc_implementationReviews c"
  shows "work_step H c d"
proof -
  have "wc_dispatchState d \<in> set (DISPATCH_TRANSITIONS (wc_dispatchState c))" "wc_evidenceState d \<in> set (EVIDENCE_TRANSITIONS (wc_evidenceState c))"
    by (cases "wc_dispatchState c"; simp add: assms(4)) (cases "wc_evidenceState c"; simp add: assms(5))
  with assms have "validateWorkSemanticTransition H c d False = Inr d" by (intro semantic_transitionI) simp_all
  with assms(2) show ?thesis by (simp add: work_step_def)
qed

lemma supersede_facts:
  assumes "works H S cs" and "supersedeWorkContract H env S w x reason = Inr ((p, q), S')"
  obtains i j where "i < length cs" "j < length cs" "i \<noteq> j" "work_step H (cs ! i) p" "work_step H (cs ! j) q"
    "wc_workId p = wc_workId (cs ! i)" "wc_workId q = wc_workId (cs ! j)"
    "wc_completionReceipt p = wc_completionReceipt (cs ! i)" "wc_completionReceipt q = wc_completionReceipt (cs ! j)"
    "works H S' (cs[i := canonical p, j := canonical q])"
proof -
  have read: "readWorkContractStore H S = Inr cs" using assms(1) by (simp add: works_def)
  let ?x = "sanitizeFileComponent w" and ?y = "sanitizeFileComponent x" and ?r = "take 500 (js_trim reason)"
  from assms(2) obtain i j where ij: "?x \<noteq> ?y" "find_index (\<lambda>c. wc_workId c = ?x) cs = Some i" "find_index (\<lambda>c. wc_workId c = ?y) cs = Some j"
    and pv: "validateWorkSemantics H (superseded_contract (cs ! i) ?y ?r (we_now env)) = Inr p"
    and qv: "validateWorkSemantics H (superseding_contract (cs ! j) ?x (we_now env)) = Inr q"
    and S': "S' = write_pair env S cs i p j q"
    unfolding supersedeWorkContract_def Let_def read by (auto simp: bindE_eq_Inr split: option.splits)
  have i: "i < length cs" "wc_workId (cs ! i) = ?x" and j: "j < length cs" "wc_workId (cs ! j) = ?y"
    using ij(2,3) by (simp_all add: find_index_Some)
  then have ne: "i \<noteq> j" using ij(1) by auto
  have p: "p = superseded_contract (cs ! i) ?y ?r (we_now env)" and q: "q = superseding_contract (cs ! j) ?x (we_now env)"
    using pv qv validate_work_Inr(1) by blast+
  have vp: "validateWorkSemantics H p = Inr p" and vq: "validateWorkSemantics H q = Inr q" using pv qv p q by simp_all
  have hist: "assertImplementationReviewHistoryAppendOnly H (Some (wc_implementationReviews c)) (Some (wc_implementationReviews c)) = Inr ()"
    if "c \<in> set cs" for c using assms(1) that by (simp add: works_def)
  have steps: "work_step H (cs ! i) p" "work_step H (cs ! j) q"
    by (rule stays_valid [OF read_valid(1) [OF read] vp hist]; simp add: i p superseded_contract_def)
      (rule stays_valid [OF read_valid(1) [OF read] vq hist]; simp add: j q superseding_contract_def)
  have keep: "wc_workId p = wc_workId (cs ! i)" "wc_workId q = wc_workId (cs ! j)"
    "wc_completionReceipt p = wc_completionReceipt (cs ! i)" "wc_completionReceipt q = wc_completionReceipt (cs ! j)"
    by (simp_all add: p q superseded_contract_def superseding_contract_def)
  have r: "readWorkContractStore H S' = Inr (cs[i := canonical p, j := canonical q])"
  proof (cases "we_sqlite env")
    case True
    then show ?thesis
      using read normalize_row_of [OF vp] normalize_row_of [OF vq] unfolding S' write_pair_def read_list_all2
      by (simp add: list_all2_update_cong)
  next
    case False
    have "validateWorkSemantics H c = Inr c" if "c \<in> set (cs[i := p, j := q])" for c
    proof -
      have "c = q \<or> c = p \<or> c \<in> set cs"
        using that set_update_subset_insert [of "cs[i := p]" j q] set_update_subset_insert [of cs i p] by blast
      then show ?thesis using vp vq read_valid(1) [OF read] by blast
    qed
    moreover have "map canonical cs = cs" using read_valid(2) [OF read] by (simp add: map_idI)
    ultimately show ?thesis
      unfolding S' write_pair_def using False read_written [of "cs[i := p, j := q]" H "we_now env"] by (simp add: map_update)
  qed
  have step_i: "wc_implementationReviews p = wc_implementationReviews (cs ! i)" "wc_implementationReviews q = wc_implementationReviews (cs ! j)"
    by (simp_all add: p q superseded_contract_def superseding_contract_def)
  have "works H S' (cs[i := canonical p, j := canonical q])"
    unfolding works_def
  proof (intro conjI ballI r)
    show "distinct (map wc_workId (cs[i := canonical p, j := canonical q]))"
      using assms(1) i j ne keep by (intro distinct_ids_update) (simp_all add: works_def)
    fix c assume "c \<in> set (cs[i := canonical p, j := canonical q])"
    then have "c = canonical q \<or> c = canonical p \<or> c \<in> set cs"
      using set_update_subset_insert [of "cs[i := canonical p]" j "canonical q"] set_update_subset_insert [of cs i "canonical p"] by blast
    then show "assertImplementationReviewHistoryAppendOnly H (Some (wc_implementationReviews c)) (Some (wc_implementationReviews c)) = Inr ()"
      using hist step_i i(1) j(1) by auto
  qed
  with i j ne steps keep show thesis by (intro that)
qed

text \<open>The two operations that the plan store runs on the row of one Work.\<close>

lemma works_row_update:
  assumes "works H S cs" and "i < length cs" and "work_step H (cs ! i) d" and "wc_workId d = wc_workId (cs ! i)"
  shows "works H (S\<lparr>wks_rows := (wks_rows S)[i := row_of d]\<rparr>) (cs[i := canonical d])"
proof (rule works_update [OF assms])
  have read: "readWorkContractStore H S = Inr cs" using assms(1) by (simp add: works_def)
  from normalize_row_of [OF work_step_facts(1) [OF assms(3)]] read
  show "readWorkContractStore H (S\<lparr>wks_rows := (wks_rows S)[i := row_of d]\<rparr>) = Inr (cs[i := canonical d])"
    unfolding read_list_all2 by (simp add: list_all2_update_cong)
qed

lemma works_row:
  assumes "works H S cs" and "i < length (wks_rows S)"
  shows "i < length cs" and "normalizeWorkContract H (wks_rows S ! i) = Inr (cs ! i)"
  using assms list_all2_nthD list_all2_lengthD unfolding works_def read_list_all2 by (metis, blast)

lemma works_same_row:
  assumes "works H S cs" and "i < length cs"
  shows "works H (S\<lparr>wks_rows := (wks_rows S)[i := row_of (cs ! i)]\<rparr>) cs"
proof -
  have read: "readWorkContractStore H S = Inr cs" using assms(1) by (simp add: works_def)
  note v = read_valid [OF read nth_mem [OF assms(2)]]
  have "list_all2 (\<lambda>row c. normalizeWorkContract H row = Inr c) ((wks_rows S)[i := row_of (cs ! i)]) (cs[i := cs ! i])"
    by (rule list_all2_update_cong [OF read [unfolded read_list_all2]]) (use normalize_row_of [OF v(1)] v(2) in simp)
  with assms show ?thesis by (simp add: works_def read_list_all2)
qed

lemma rebind_facts:
  assumes "normalizeWorkContract H row = Inr c" and "rebindPlanBoundWorkContract H row inp = Inr d"
  shows "work_step H c d" and "wc_workId d = wc_workId c" and "wc_completionReceipt d = wc_completionReceipt c"
proof -
  obtain e where e: "validateWorkSemantics H (rebound_contract c inp) = Inr e" "validateWorkSemanticTransition H c e False = Inr d"
    using assms unfolding rebindPlanBoundWorkContract_def Let_def by (auto simp: bindE_eq_Inr)
  have "d = e" using e(2) unfolding semantic_transition_Inr by (elim conjE)
  moreover have "e = rebound_contract c inp" using e(1) by (rule validate_work_Inr(1))
  ultimately show "work_step H c d" "wc_workId d = wc_workId c" "wc_completionReceipt d = wc_completionReceipt c"
    using e by (simp_all add: work_step_def rebound_contract_def Let_def)
qed

lemma retire_facts:
  assumes "normalizeWorkContract H row = Inr c" and "retirePlanBoundWorkContract H row inp = Inr d"
  obtains "d = c" | "work_step H c d" "wc_workId d = wc_workId c" "wc_completionReceipt d = wc_completionReceipt c"
proof (cases "isTerminalWorkContractStatus (wc_status c)")
  case True
  with assms show thesis by (intro that(1)) (simp add: retirePlanBoundWorkContract_def)
next
  case False
  with assms obtain e refs ev where e: "validateWorkSemantics H (retired_contract c inp refs ev) = Inr e"
    "validateWorkSemanticTransition H c e False = Inr d"
    unfolding retirePlanBoundWorkContract_def Let_def by (auto simp: bindE_eq_Inr)
  have "d = e" using e(2) unfolding semantic_transition_Inr by (elim conjE)
  moreover have "e = retired_contract c inp refs ev" using e(1) by (rule validate_work_Inr(1))
  ultimately show thesis using e by (intro that(2)) (simp_all add: work_step_def retired_contract_def)
qed

section \<open>The operations of the store\<close>

inductive store_op :: "js_host \<Rightarrow> work_store \<Rightarrow> work_store \<Rightarrow> bool" for H where
  create: "createWorkContract H env S inp = Inr (d, S') \<Longrightarrow> store_op H S S'"
| patch: "updateWorkContract H env S w patch = Inr (d, S') \<Longrightarrow> store_op H S S'"
| resume: "resumeRetainedCancelledWorkContract H env S w resume = Inr (d, S') \<Longrightarrow> store_op H S S'"
| scope: "recordWorkScopeEvidence H env S w likely inspected changed = Inr (d, S') \<Longrightarrow> store_op H S S'"
| evidence: "appendWorkEvidence H env S w ref = Inr (d, S') \<Longrightarrow> store_op H S S'"
| handoff: "appendWorkHandoffRef H env S w i = Inr (d, S') \<Longrightarrow> store_op H S S'"
| verification: "appendVerificationRecord H env S w v = Inr (d, S') \<Longrightarrow> store_op H S S'"
| transition: "transitionWorkContractPhase H env S w phase = Inr (d, S') \<Longrightarrow> store_op H S S'"
| request: "requestWorkImplementationReview H env S w summary = Inr (d, S') \<Longrightarrow> store_op H S S'"
| review: "recordWorkImplementationReview H env S w r = Inr (d, S') \<Longrightarrow> store_op H S S'"
| reconcile: "reconcileApprovedWorkImplementationReviewProjection H env S w i source digest = Inr (d, S') \<Longrightarrow> store_op H S S'"
| complete: "recordWorkCompletionReceipt H env S w receipt out kind = Inr (d, S') \<Longrightarrow> store_op H S S'"
| supersede: "supersedeWorkContract H env S w x reason = Inr (pq, S') \<Longrightarrow> store_op H S S'"
| rebind: "i < length (wks_rows S) \<Longrightarrow> rebindPlanBoundWorkContract H (wks_rows S ! i) rb = Inr d \<Longrightarrow>
    S' = S\<lparr>wks_rows := (wks_rows S)[i := row_of d]\<rparr> \<Longrightarrow> store_op H S S'"
| retire: "i < length (wks_rows S) \<Longrightarrow> retirePlanBoundWorkContract H (wks_rows S ! i) rt = Inr d \<Longrightarrow>
    S' = S\<lparr>wks_rows := (wks_rows S)[i := row_of d]\<rparr> \<Longrightarrow> store_op H S S'"

text \<open>The command that completes a Work by a remote effect runs at most two of them, whatever it returns.\<close>

lemma remote_completion_ops: "(store_op H)\<^sup>*\<^sup>* S (snd (completeRemoteEffectWorkFromProcessReceipt H env S w inp))"
  unfolding completeRemoteEffectWorkFromProcessReceipt_def Let_def
  by (auto split: sum.splits option.splits if_splits
    intro: store_op.evidence store_op.complete r_into_rtranclp rtranclp.rtrancl_into_rtrancl [OF r_into_rtranclp])

text \<open>Every Work stays, taken on by valid steps, and keeps a receipt it has.\<close>

definition evolved :: "js_host \<Rightarrow> work_contract \<Rightarrow> work_contract \<Rightarrow> bool" where
  "evolved H c d \<longleftrightarrow> wc_workId d = wc_workId c \<and> (work_step H)\<^sup>*\<^sup>* c d \<and>
     (wc_completionReceipt c \<noteq> None \<longrightarrow> wc_completionReceipt d = wc_completionReceipt c)"

definition evolves :: "js_host \<Rightarrow> work_contract list \<Rightarrow> work_contract list \<Rightarrow> bool" where
  "evolves H cs ds \<longleftrightarrow> (\<forall>c\<in>set cs. \<exists>d\<in>set ds. evolved H c d)"

lemma evolved_refl: "evolved H c c"
  by (simp add: evolved_def)

lemma evolves_self: "evolves H cs cs"
  unfolding evolves_def using evolved_refl by blast

lemma evolves_chain: "evolves H cs ds \<Longrightarrow> evolves H ds es \<Longrightarrow> evolves H cs es"
  unfolding evolves_def evolved_def by (metis (no_types, lifting) rtranclp_trans)

lemma evolves_update:
  assumes "i < length cs" and "work_step H (cs ! i) d" and "wc_workId d = wc_workId (cs ! i)"
    and "wc_completionReceipt (cs ! i) \<noteq> None \<Longrightarrow> wc_completionReceipt d = wc_completionReceipt (cs ! i)"
  shows "evolves H cs (cs[i := canonical d])"
  unfolding evolves_def
proof
  fix c assume "c \<in> set cs"
  then obtain k where k: "k < length cs" "c = cs ! k" by (auto simp: in_set_conv_nth)
  show "\<exists>e\<in>set (cs[i := canonical d]). evolved H c e"
  proof (cases "k = i")
    case True
    then have "evolved H c (canonical d)"
      using work_step_canonical [OF assms(2)] assms(3,4) k by (auto simp: evolved_def)
    with assms(1) show ?thesis by (meson set_update_memI)
  next
    case False
    then have "c \<in> set (cs[i := canonical d])" using k by (metis length_list_update nth_list_update_neq nth_mem)
    with evolved_refl show ?thesis by blast
  qed
qed

lemma updates_evolve:
  assumes "works H S cs" and "updates H env S w r" and "r = Inr (d, S')"
  shows "\<exists>ds. works H S' ds \<and> evolves H cs ds"
proof -
  consider "S' = S" | patch allow where "updateWorkContractInternal H env S w patch allow = Inr (d, S')" "wu_completionReceipt patch = None"
    using assms(2,3) by (auto simp: updates_def)
  then show ?thesis
  proof cases
    case 1
    with assms(1) evolves_self show ?thesis by blast
  next
    case 2
    from update_facts [OF assms(1) 2(1)] obtain i where i: "i < length cs"
      "apply_patch H (cs ! i) patch allow (we_updateNow env) = Inr d" "works H S' (cs[i := canonical d])" by blast
    note d = apply_patch_facts [OF i(2)]
    have "evolves H cs (cs[i := canonical d])"
      by (rule evolves_update [OF i(1) d(1,2)]) (simp add: d(3) 2(2))
    with i(3) show ?thesis by blast
  qed
qed

lemma patch_updates: "updateWorkContract H env S w patch = Inr (d, S') \<Longrightarrow> updates H env S w (updateWorkContract H env S w patch)"
proof -
  assume u: "updateWorkContract H env S w patch = Inr (d, S')"
  then have "\<exists>c. apply_patch H c patch no_permission (we_updateNow env) = Inr d"
    unfolding updateWorkContract_def updateWorkContractInternal_def Let_def by (auto simp: bindE_eq_Inr split: option.splits)
  then have "wu_completionReceipt patch = None"
    unfolding apply_patch_def Let_def bindE_eq_Inr by (auto simp: no_permission_def)
  then show ?thesis unfolding updateWorkContract_def by (rule updates_intros)
qed

lemma store_op_view:
  assumes "works H S cs" and "store_op H S S'"
  shows "\<exists>ds. works H S' ds \<and> evolves H cs ds"
  using assms(2)
proof cases
  case (create env inp d)
  from create_facts [OF assms(1) create] have "works H S' (canonical d # cs)" .
  moreover have "evolves H cs (canonical d # cs)" using evolved_refl by (fastforce simp: evolves_def)
  ultimately show ?thesis by blast
next
  case (complete env w receipt out kind d)
  from assms(1) complete show ?thesis
  proof (cases rule: completion_facts)
    case same
    with assms(1) evolves_self show ?thesis by blast
  next
    case (recorded i patch allow)
    note d = apply_patch_facts [OF recorded(2)]
    have "evolves H cs (cs[i := canonical d])"
      by (rule evolves_update [OF recorded(1) d(1,2)]) (simp add: recorded(3))
    with recorded(4) show ?thesis by blast
  qed
next
  case (supersede env w x reason pq)
  obtain p q where pq: "pq = (p, q)" by (cases pq)
  from supersede_facts [OF assms(1) supersede [unfolded pq]] obtain i j where ij: "i < length cs" "j < length cs" "i \<noteq> j"
    "work_step H (cs ! i) p" "work_step H (cs ! j) q" "wc_workId p = wc_workId (cs ! i)" "wc_workId q = wc_workId (cs ! j)"
    "wc_completionReceipt p = wc_completionReceipt (cs ! i)" "wc_completionReceipt q = wc_completionReceipt (cs ! j)"
    "works H S' (cs[i := canonical p, j := canonical q])" by blast
  have "evolves H cs (cs[i := canonical p])" by (rule evolves_update) (use ij in simp_all)
  moreover have "evolves H (cs[i := canonical p]) (cs[i := canonical p, j := canonical q])"
    by (rule evolves_update) (use ij in simp_all)
  ultimately show ?thesis using ij(10) evolves_chain by blast
next
  case (patch env w patch d)
  show ?thesis by (rule updates_evolve [OF assms(1) patch_updates [OF patch] patch])
next
  case resume
  then show ?thesis by (rule updates_evolve [OF assms(1) operations_update(1)])
next
  case scope
  then show ?thesis by (rule updates_evolve [OF assms(1) operations_update(2)])
next
  case evidence
  then show ?thesis by (rule updates_evolve [OF assms(1) operations_update(3)])
next
  case handoff
  then show ?thesis by (rule updates_evolve [OF assms(1) operations_update(4)])
next
  case verification
  then show ?thesis by (rule updates_evolve [OF assms(1) operations_update(5)])
next
  case transition
  then show ?thesis by (rule updates_evolve [OF assms(1) operations_update(6)])
next
  case request
  then show ?thesis by (rule updates_evolve [OF assms(1) operations_update(7)])
next
  case review
  then show ?thesis by (rule updates_evolve [OF assms(1) operations_update(8)])
next
  case reconcile
  then show ?thesis by (rule updates_evolve [OF assms(1) operations_update(9)])
next
  case (rebind i rb d)
  have i: "i < length cs" "normalizeWorkContract H (wks_rows S ! i) = Inr (cs ! i)"
    using works_row [OF assms(1) rebind(1)] by blast+
  note d = rebind_facts [OF i(2) rebind(2)]
  have "evolves H cs (cs[i := canonical d])" by (rule evolves_update [OF i(1) d(1,2)]) (rule d(3))
  with works_row_update [OF assms(1) i(1) d(1,2)] show ?thesis unfolding rebind(3) by blast
next
  case (retire i rt d)
  have i: "i < length cs" "normalizeWorkContract H (wks_rows S ! i) = Inr (cs ! i)"
    using works_row [OF assms(1) retire(1)] by blast+
  from i(2) retire(2) show ?thesis
  proof (cases rule: retire_facts)
    case 1
    have "works H S' cs" unfolding retire(3) 1 by (rule works_same_row [OF assms(1) i(1)])
    with evolves_self show ?thesis by blast
  next
    case 2
    have "evolves H cs (cs[i := canonical d])" by (rule evolves_update [OF i(1) 2(1,2)]) (rule 2(3))
    with works_row_update [OF assms(1) i(1) 2(1,2)] show ?thesis unfolding retire(3) by blast
  qed
qed

interpretation work_stores: viewed_steps "store_op H" "works H" "evolves H" for H
  by unfold_locales (blast intro: store_op_view evolves_self evolves_chain)+

end
