(* ===== verification/PlanLineageFacts.thy ===== *)
theory PlanLineageFacts
  imports PlanLineage PlanFacts WorkStoreFacts
begin

text \<open>
  What the operations on several plans do to the Works: each moves Works only by operations of
  the Work store; a supersession in the controller store leaves no active Work with the plan it
  replaces; and what a step holds that an approval carries over.
\<close>

section \<open>Works that are moved\<close>

lemma rebind_leaves_plan:
  assumes "rebindPlanBoundWorkContract H row inp = Inr d"
  shows "wc_planId d \<noteq> Some (rb_predecessorPlanId inp)"
proof -
  obtain c e where c: "wc_planId c = Some (rb_predecessorPlanId inp)" "Some (sanitizeFileComponent (rb_successorPlanId inp)) \<noteq> wc_planId c"
    and e: "validateWorkSemantics H (rebound_contract c inp) = Inr e" "validateWorkSemanticTransition H c e False = Inr d"
    using assms unfolding rebindPlanBoundWorkContract_def Let_def by (auto simp: bindE_eq_Inr)
  have "d = rebound_contract c inp"
    using e(2) validate_work_Inr(1) [OF e(1)] unfolding semantic_transition_Inr by simp
  with c show ?thesis by (simp add: rebound_contract_def Let_def)
qed

lemma retire_ends:
  assumes "retirePlanBoundWorkContract H row inp = Inr d"
  shows "isTerminalWorkContractStatus (wc_status d)"
proof -
  obtain c where c: "normalizeWorkContract H row = Inr c" using assms by (auto simp: retirePlanBoundWorkContract_def bindE_eq_Inr)
  show ?thesis
  proof (cases "isTerminalWorkContractStatus (wc_status c)")
    case True
    with assms c show ?thesis by (simp add: retirePlanBoundWorkContract_def)
  next
    case False
    with assms c obtain e refs ev where e: "validateWorkSemantics H (retired_contract c inp refs ev) = Inr e"
      "validateWorkSemanticTransition H c e False = Inr d"
      unfolding retirePlanBoundWorkContract_def Let_def by (auto simp: bindE_eq_Inr)
    have "d = retired_contract c inp refs ev"
      using e(2) validate_work_Inr(1) [OF e(1)] unfolding semantic_transition_Inr by simp
    then show ?thesis by (simp add: retired_contract_def isTerminalWorkContractStatus_def TERMINAL_WORK_CONTRACT_STATUSES_def)
  qed
qed

text \<open>What moving Works may do to the plan they move to.\<close>

definition takes_over :: "plan_contract \<Rightarrow> plan_contract \<Rightarrow> bool" where
  "takes_over p q \<longleftrightarrow>
     pn_planId q = pn_planId p \<and> pn_scopeKey q = pn_scopeKey p \<and> pn_sourceRevision q = pn_sourceRevision p \<and>
     pn_requirementId q = pn_requirementId p \<and> pn_status q \<in> {pn_status p, PS_executing} \<and>
     (\<forall>s\<in>set (pn_steps q). s \<in> set (pn_steps p) \<or> pst_status s = SS_executing)"

lemma takes_over_refl [simp]: "takes_over p p"
  by (simp add: takes_over_def)

lemma takes_over_trans: "takes_over p q \<Longrightarrow> takes_over q r \<Longrightarrow> takes_over p r"
  by (auto simp: takes_over_def)

lemma move_work_facts:
  assumes "move_work H predecessor stamp row successor = Inr (w, q)"
  shows "(\<exists>rb. rebindPlanBoundWorkContract H row rb = Inr w) \<or> (\<exists>rt. retirePlanBoundWorkContract H row rt = Inr w)"
    and "wc_planId w = Some (pn_planId predecessor) \<Longrightarrow> isTerminalWorkContractStatus (wc_status w)"
    and "takes_over successor q"
proof -
  have "((\<exists>rb. rebindPlanBoundWorkContract H row rb = Inr w \<and> rb_predecessorPlanId rb = pn_planId predecessor)
      \<or> (\<exists>rt. retirePlanBoundWorkContract H row rt = Inr w)) \<and> takes_over successor q"
  proof (cases "rebind_target row predecessor successor")
    case None
    with assms show ?thesis by (auto simp: move_work_def bindE_eq_Inr)
  next
    case (Some target)
    obtain s i where t: "target = (s, i)" by (cases target)
    from assms Some t show ?thesis
      unfolding move_work_def Let_def
      by (auto simp: bindE_eq_Inr takes_over_def dest!: set_update_subset_insert [THEN subsetD])
  qed
  then show "(\<exists>rb. rebindPlanBoundWorkContract H row rb = Inr w) \<or> (\<exists>rt. retirePlanBoundWorkContract H row rt = Inr w)"
    and "wc_planId w = Some (pn_planId predecessor) \<Longrightarrow> isTerminalWorkContractStatus (wc_status w)"
    and "takes_over successor q"
    using rebind_leaves_plan retire_ends by (blast, metis, blast)
qed

definition holds_no_work :: "string \<Rightarrow> work_row list \<Rightarrow> bool" where
  "holds_no_work planId rows \<longleftrightarrow> (\<forall>row\<in>set rows. wc_planId (rw_contract row) = Some planId \<longrightarrow> raw_terminal row)"

lemma raw_terminal_row_of [simp]: "raw_terminal (row_of c) = isTerminalWorkContractStatus (wc_status c)"
  by (simp add: raw_terminal_def row_of_def)

lemma rw_contract_row_of [simp]: "rw_contract (row_of c) = c"
  by (simp add: row_of_def)

lemma move_works_facts:
  "move_works H predecessor stamp rows successor = Inr (rows', q) \<Longrightarrow>
     holds_no_work (pn_planId predecessor) rows' \<and> takes_over successor q"
proof (induction rows arbitrary: successor rows')
  case Nil
  then show ?case by (simp add: holds_no_work_def)
next
  case (Cons row rows)
  show ?case
  proof (cases "wc_planId (rw_contract row) = Some (pn_planId predecessor) \<and> \<not> raw_terminal row")
    case True
    with Cons.prems obtain w p rest where m: "move_work H predecessor stamp row successor = Inr (w, p)"
      "move_works H predecessor stamp rows p = Inr (rest, q)" "rows' = row_of w # rest"
      by (auto simp: bindE_eq_Inr)
    from Cons.IH [OF m(2)] move_work_facts [OF m(1)] takes_over_trans show ?thesis
      unfolding m(3) by (auto simp: holds_no_work_def)
  next
    case False
    with Cons.prems obtain rest where m: "move_works H predecessor stamp rows successor = Inr (rest, q)" "rows' = row # rest"
      by (auto simp: bindE_eq_Inr)
    from Cons.IH [OF m(1)] False show ?thesis unfolding m(2) by (auto simp: holds_no_work_def)
  qed
qed

section \<open>Plan operations as operations of the Work store\<close>

lemma row_op:
  assumes "(\<exists>rb. rebindPlanBoundWorkContract H row rb = Inr w) \<or> (\<exists>rt. retirePlanBoundWorkContract H row rt = Inr w)"
  shows "store_op H (S\<lparr>wks_rows := pre @ row # rows\<rparr>) (S\<lparr>wks_rows := pre @ row_of w # rows\<rparr>)"
proof -
  let ?S = "S\<lparr>wks_rows := pre @ row # rows\<rparr>"
  have i: "length pre < length (wks_rows ?S)" "wks_rows ?S ! length pre = row"
    "S\<lparr>wks_rows := pre @ row_of w # rows\<rparr> = ?S\<lparr>wks_rows := (wks_rows ?S)[length pre := row_of w]\<rparr>"
    by simp_all
  from assms show ?thesis
  proof
    assume "\<exists>rb. rebindPlanBoundWorkContract H row rb = Inr w"
    then obtain rb where "rebindPlanBoundWorkContract H (wks_rows ?S ! length pre) rb = Inr w" unfolding i(2) by blast
    then show ?thesis by (rule store_op.rebind [OF i(1) _ i(3)])
  next
    assume "\<exists>rt. retirePlanBoundWorkContract H row rt = Inr w"
    then obtain rt where "retirePlanBoundWorkContract H (wks_rows ?S ! length pre) rt = Inr w" unfolding i(2) by blast
    then show ?thesis by (rule store_op.retire [OF i(1) _ i(3)])
  qed
qed

lemma move_works_ops:
  "move_works H predecessor stamp rows successor = Inr (rows', q) \<Longrightarrow>
     (store_op H)\<^sup>*\<^sup>* (S\<lparr>wks_rows := pre @ rows\<rparr>) (S\<lparr>wks_rows := pre @ rows'\<rparr>)"
proof (induction rows arbitrary: successor rows' pre)
  case (Cons row rows)
  show ?case
  proof (cases "wc_planId (rw_contract row) = Some (pn_planId predecessor) \<and> \<not> raw_terminal row")
    case True
    with Cons.prems obtain w p rest where m: "move_work H predecessor stamp row successor = Inr (w, p)"
      "move_works H predecessor stamp rows p = Inr (rest, q)" "rows' = row_of w # rest"
      by (auto simp: bindE_eq_Inr)
    from row_op [OF move_work_facts(1) [OF m(1)], where S = S and pre = pre and rows = rows]
    have "store_op H (S\<lparr>wks_rows := pre @ row # rows\<rparr>) (S\<lparr>wks_rows := pre @ row_of w # rows\<rparr>)" .
    moreover from Cons.IH [OF m(2), where pre = "pre @ [row_of w]"]
    have "(store_op H)\<^sup>*\<^sup>* (S\<lparr>wks_rows := pre @ row_of w # rows\<rparr>) (S\<lparr>wks_rows := pre @ rows'\<rparr>)" unfolding m(3) by simp
    ultimately show ?thesis by (rule converse_rtranclp_into_rtranclp)
  next
    case False
    with Cons.prems obtain rest where m: "move_works H predecessor stamp rows successor = Inr (rest, q)" "rows' = row # rest"
      by (auto simp: bindE_eq_Inr)
    from Cons.IH [OF m(1), where pre = "pre @ [row]"] show ?thesis unfolding m(2) by simp
  qed
qed simp

lemma supersession_facts:
  assumes "writePlanSupersessionWithWorkRetirement H env world contracts predecessor successor stamp = Inr (p, world')"
  shows "(store_op H)\<^sup>*\<^sup>* (pw_works world) (pw_works world')" and "takes_over successor p"
    and "we_sqlite (ln_work env) \<Longrightarrow> holds_no_work (pn_planId predecessor) (wks_rows (pw_works world'))"
    and "plans_of world' = map (\<lambda>c. if pn_planId c = pn_planId successor \<and> we_sqlite (ln_work env) then p else c) contracts"
proof -
  have "(store_op H)\<^sup>*\<^sup>* (pw_works world) (pw_works world') \<and> takes_over successor p \<and>
      (we_sqlite (ln_work env) \<longrightarrow> holds_no_work (pn_planId predecessor) (wks_rows (pw_works world'))) \<and>
      plans_of world' = map (\<lambda>c. if pn_planId c = pn_planId successor \<and> we_sqlite (ln_work env) then p else c) contracts"
  proof (cases "we_sqlite (ln_work env)")
    case True
    with assms obtain rows where m: "move_works H predecessor stamp (wks_rows (pw_works world)) successor = Inr (rows, p)"
      and w: "world' = \<lparr>pw_plans = \<lparr>pz_updatedAt = stamp, pz_contracts = map (\<lambda>c. if pn_planId c = pn_planId successor then p else c) contracts\<rparr>,
        pw_works = (pw_works world)\<lparr>wks_rows := rows\<rparr>\<rparr>"
      unfolding writePlanSupersessionWithWorkRetirement_def by (auto simp: bindE_eq_Inr)
    have "(pw_works world)\<lparr>wks_rows := [] @ wks_rows (pw_works world)\<rparr> = pw_works world" by simp
    with move_works_ops [OF m, where S = "pw_works world" and pre = "[]"] move_works_facts [OF m] True show ?thesis
      by (simp add: w plans_of_def)
  next
    case False
    with assms have "p = successor" "world' = write_plans stamp contracts world"
      by (simp_all add: writePlanSupersessionWithWorkRetirement_def)
    with False show ?thesis by (simp add: write_plans_def plans_of_def)
  qed
  then show "(store_op H)\<^sup>*\<^sup>* (pw_works world) (pw_works world')" and "takes_over successor p"
    and "we_sqlite (ln_work env) \<Longrightarrow> holds_no_work (pn_planId predecessor) (wks_rows (pw_works world'))"
    and "plans_of world' = map (\<lambda>c. if pn_planId c = pn_planId successor \<and> we_sqlite (ln_work env) then p else c) contracts"
    by blast+
qed

lemma write_plans_works [simp]: "pw_works (write_plans stamp contracts world) = pw_works world"
  by (simp add: write_plans_def)

lemma plans_of_write_plans [simp]: "plans_of (write_plans stamp contracts world) = contracts"
  by (simp add: write_plans_def plans_of_def)

text \<open>The operations of plans and of Works, in any order.\<close>

inductive control_op :: "js_host \<Rightarrow> plan_world \<Rightarrow> plan_world \<Rightarrow> bool" for H where
  create: "createPlanContract env x inp = Inr (p, y) \<Longrightarrow> control_op H x y"
| admit: "admitPlanContract H env x ai = Inr (r, y) \<Longrightarrow> control_op H x y"
| repair_draft: "repairDraftPlanContract H env x i inp expected = Inr (p, y) \<Longrightarrow> control_op H x y"
| approve: "approvePlanContract H env x i = Inr (p, y) \<Longrightarrow> control_op H x y"
| supersede: "supersedePlanContract H env x i j why = Inr (p, y) \<Longrightarrow> control_op H x y"
| retire_ended: "retireTerminalPlanBoundWorkAuthorities H env x = Inr (ids, y) \<Longrightarrow> control_op H x y"
| replan: "replanActivePlanBoundWorkScope H env x sr = Inr (r, y) \<Longrightarrow> control_op H x y"
| claim: "claimPlanStepForWork pe (pw_plans x) i j w revision = Inr (p, plans) \<Longrightarrow> control_op H x (x\<lparr>pw_plans := plans\<rparr>)"
| complete: "completePlanStepForWork pe (pw_plans x) i j sw = Inr (p, plans) \<Longrightarrow> control_op H x (x\<lparr>pw_plans := plans\<rparr>)"
| accept: "acceptPlanStepEvidence pe (pw_plans x) i j who why revision = Inr (p, plans) \<Longrightarrow> control_op H x (x\<lparr>pw_plans := plans\<rparr>)"
| repair: "repairDanglingPlanStepWorkBinding pe (pw_plans x) i j w why = Inr (p, plans) \<Longrightarrow> control_op H x (x\<lparr>pw_plans := plans\<rparr>)"
| retry: "repairPlanStepForTechnicalRetry pe (pw_plans x) wc clean why = Inr (p, plans) \<Longrightarrow> control_op H x (x\<lparr>pw_plans := plans\<rparr>)"
| work: "store_op H (pw_works x) S \<Longrightarrow> control_op H x (x\<lparr>pw_works := S\<rparr>)"

definition moves_works :: "js_host \<Rightarrow> plan_world \<Rightarrow> ('a \<times> plan_world) res \<Rightarrow> bool" where
  "moves_works H x r \<longleftrightarrow> (\<forall>p y. r = Inr (p, y) \<longrightarrow> (store_op H)\<^sup>*\<^sup>* (pw_works x) (pw_works y))"

lemma moves_works_intros:
  "moves_works H x (throw e)"
  "pw_works y = pw_works x \<Longrightarrow> moves_works H x (Inr (p, y))"
  "moves_works H x r \<Longrightarrow> moves_works H x (bindE r (\<lambda>(q, y). Inr (g q, y)))"
  "moves_works H x r \<Longrightarrow> moves_works H x s \<Longrightarrow> moves_works H x (if b then r else s)"
  "(\<And>a. v = Some a \<Longrightarrow> moves_works H x (f a)) \<Longrightarrow> moves_works H x r \<Longrightarrow> moves_works H x (case v of None \<Rightarrow> r | Some a \<Rightarrow> f a)"
  by (auto simp: moves_works_def bindE_eq_Inr split: option.splits)

lemma moves_works_bind: "(\<And>a. m = Inr a \<Longrightarrow> moves_works H x (f a)) \<Longrightarrow> moves_works H x (bindE m f)"
  by (auto simp: moves_works_def bindE_eq_Inr)

lemma moves_works_pair: "(\<And>a b. moves_works H x (f a b)) \<Longrightarrow> moves_works H x (case ab of (a, b) \<Rightarrow> f a b)"
  by (cases ab) simp

lemma supersession_moves: "moves_works H x (writePlanSupersessionWithWorkRetirement H env x contracts predecessor successor stamp)"
  unfolding moves_works_def using supersession_facts(1) by blast

lemmas moves_works_rules = supersession_moves moves_works_intros moves_works_bind moves_works_pair

lemma create_moves: "moves_works H x (createPlanContractUnlocked env x inp)"
  unfolding createPlanContractUnlocked_def Let_def by (rule moves_works_rules write_plans_works)+

lemma replace_moves: "moves_works H x (replacePlanContractUnlocked H env x i inp)"
  unfolding replacePlanContractUnlocked_def Let_def by (rule moves_works_rules write_plans_works)+

lemma plan_operations_move:
  "moves_works H x (createPlanContract env x inp)"
  "moves_works H x (repairDraftPlanContract H env x i inp expected)"
  "moves_works H x (approvePlanContract H env x i)"
  "moves_works H x (supersedePlanContract H env x i j why)"
  unfolding createPlanContract_def repairDraftPlanContract_def approvePlanContract_def supersedePlanContract_def Let_def
  by (rule create_moves moves_works_rules write_plans_works)+

lemma admit_moves: "moves_works H x (admitPlanContract H env x ai)"
  unfolding admitPlanContract_def Let_def
  by (rule create_moves replace_moves moves_works_rules refl
    | split plan_admission_decision.split prod.split option.split, (intro conjI impI allI)?)+

lemma reconciled_rows_ops:
  "map_res (reconciled_row H plans stamp) rows = Inr pairs \<Longrightarrow>
     (store_op H)\<^sup>*\<^sup>* (S\<lparr>wks_rows := pre @ rows\<rparr>) (S\<lparr>wks_rows := pre @ map fst pairs\<rparr>)"
proof (induction rows arbitrary: pairs pre)
  case (Cons row rows)
  then obtain q rest where m: "reconciled_row H plans stamp row = Inr q" "map_res (reconciled_row H plans stamp) rows = Inr rest"
    "pairs = q # rest"
    by (auto simp: bindE_eq_Inr)
  have "(store_op H)\<^sup>*\<^sup>* (S\<lparr>wks_rows := pre @ row # rows\<rparr>) (S\<lparr>wks_rows := pre @ fst q # rows\<rparr>)"
  proof (cases "ended_plan plans row")
    case None
    with m(1) show ?thesis by (auto simp: reconciled_row_def)
  next
    case (Some plan)
    with m(1) obtain w rt where w: "retirePlanBoundWorkContract H row rt = Inr w" "fst q = row_of w"
      by (auto simp: reconciled_row_def bindE_eq_Inr)
    have "store_op H (S\<lparr>wks_rows := pre @ row # rows\<rparr>) (S\<lparr>wks_rows := pre @ row_of w # rows\<rparr>)"
      by (rule row_op) (use w(1) in blast)
    with w(2) show ?thesis by (simp add: r_into_rtranclp)
  qed
  moreover from Cons.IH [OF m(2), where pre = "pre @ [fst q]"]
  have "(store_op H)\<^sup>*\<^sup>* (S\<lparr>wks_rows := pre @ fst q # rows\<rparr>) (S\<lparr>wks_rows := pre @ map fst pairs\<rparr>)" unfolding m(3) by simp
  ultimately show ?case by (rule rtranclp_trans)
qed simp

lemma retire_ended_moves: "moves_works H x (retireTerminalPlanBoundWorkAuthorities H env x)"
  unfolding moves_works_def
proof (intro allI impI)
  fix ids y assume r: "retireTerminalPlanBoundWorkAuthorities H env x = Inr (ids, y)"
  show "(store_op H)\<^sup>*\<^sup>* (pw_works x) (pw_works y)"
  proof (cases "we_sqlite (ln_work env)")
    case True
    with r obtain pairs where m: "map_res (reconciled_row H (plans_of x) (pe_now (ln_plan env))) (wks_rows (pw_works x)) = Inr pairs"
      "y = x\<lparr>pw_works := (pw_works x)\<lparr>wks_rows := map fst pairs\<rparr>\<rparr>"
      by (auto simp: retireTerminalPlanBoundWorkAuthorities_def bindE_eq_Inr)
    from reconciled_rows_ops [OF m(1), where S = "pw_works x" and pre = "[]"] show ?thesis by (simp add: m(2))
  next
    case False
    with r show ?thesis by (simp add: retireTerminalPlanBoundWorkAuthorities_def)
  qed
qed

lemma replan_moves: "moves_works H x (replanActivePlanBoundWorkScope H env x sr)"
  unfolding moves_works_def
proof (intro allI impI)
  fix r y assume ok: "replanActivePlanBoundWorkScope H env x sr = Inr (r, y)"
  obtain j w rb where j: "j < length (wks_rows (pw_works x))" and w: "rebindPlanBoundWorkContract H (wks_rows (pw_works x) ! j) rb = Inr w"
    and y: "pw_works y = (pw_works x)\<lparr>wks_rows := (wks_rows (pw_works x))[j := row_of w]\<rparr>"
    using ok unfolding replanActivePlanBoundWorkScope_def Let_def
    by (auto simp: bindE_eq_Inr find_index_Some split: option.splits)
  show "(store_op H)\<^sup>*\<^sup>* (pw_works x) (pw_works y)" using store_op.rebind [OF j w y] by (rule r_into_rtranclp)
qed

lemma moves_worksD: "moves_works H x r \<Longrightarrow> r = Inr (p, y) \<Longrightarrow> (store_op H)\<^sup>*\<^sup>* (pw_works x) (pw_works y)"
  by (simp add: moves_works_def)

lemma control_op_moves:
  assumes "control_op H x y"
  shows "(store_op H)\<^sup>*\<^sup>* (pw_works x) (pw_works y)"
  using assms
proof cases
  case create
  then show ?thesis by (rule moves_worksD [OF plan_operations_move(1)])
next
  case admit
  then show ?thesis by (rule moves_worksD [OF admit_moves])
next
  case repair_draft
  then show ?thesis by (rule moves_worksD [OF plan_operations_move(2)])
next
  case approve
  then show ?thesis by (rule moves_worksD [OF plan_operations_move(3)])
next
  case supersede
  then show ?thesis by (rule moves_worksD [OF plan_operations_move(4)])
next
  case retire_ended
  then show ?thesis by (rule moves_worksD [OF retire_ended_moves])
next
  case replan
  then show ?thesis by (rule moves_worksD [OF replan_moves])
qed (simp_all add: r_into_rtranclp)

interpretation controlled: viewed_steps "control_op H" "\<lambda>x. works H (pw_works x)" "evolves H" for H
proof unfold_locales
  fix x y cs assume "works H (pw_works x) cs" and "control_op H x y"
  from work_stores.reachable_view [OF control_op_moves [OF this(2)] this(1)]
  show "\<exists>ds. works H (pw_works y) ds \<and> evolves H cs ds" .
qed (rule evolves_self, rule evolves_chain)

section \<open>Approval\<close>

text \<open>What a successful approval has found and done.\<close>

lemma approve_cases:
  assumes "approvePlanContract H env x i = Inr (p, y)"
  obtains k steps n where "k < length (plans_of x)" "approvalErrors H (plans_of x ! k) (plans_of x) = []"
    "materializePlanStepDeliveryCarries H env x (plans_of x ! k) (plans_of x) = Inr (steps, n)"
    "takes_over (approved_plan (plans_of x ! k) steps n (pe_now (ln_plan env))) p"
    "staged_predecessor (plans_of x ! k) (plans_of x) = None \<Longrightarrow> plans_of y = (plans_of x)[k := p] \<and> pw_works y = pw_works x"
    "\<And>q. staged_predecessor (plans_of x ! k) (plans_of x) = Some q \<Longrightarrow>
       set (plans_of y) \<subseteq> insert p (insert (superseded_plan q (pn_planId p) ''extend_existing'' (pe_now (ln_plan env)))
         {c \<in> set (plans_of x). pn_planId c \<noteq> pn_planId q \<and> pn_planId c \<noteq> pn_planId p}) \<and>
       (pn_planId q \<noteq> pn_planId p \<longrightarrow> p \<in> set (plans_of y)) \<and>
       (we_sqlite (ln_work env) \<longrightarrow> holds_no_work (pn_planId q) (wks_rows (pw_works y)))"
proof -
  let ?at = "pe_now (ln_plan env)"
  from assms obtain k steps n where k: "k < length (plans_of x)" and e: "approvalErrors H (plans_of x ! k) (plans_of x) = []"
    and m: "materializePlanStepDeliveryCarries H env x (plans_of x ! k) (plans_of x) = Inr (steps, n)"
    and r: "(case staged_predecessor (plans_of x ! k) (plans_of x) of
        Some staged \<Rightarrow> writePlanSupersessionWithWorkRetirement H env x
          (map (\<lambda>c. if pn_planId c = pn_planId (superseded_plan staged (pn_planId (plans_of x ! k)) ''extend_existing'' ?at)
                then superseded_plan staged (pn_planId (plans_of x ! k)) ''extend_existing'' ?at
                else if pn_planId c = pn_planId (approved_plan (plans_of x ! k) steps n ?at)
                then approved_plan (plans_of x ! k) steps n ?at else c) (plans_of x))
          (superseded_plan staged (pn_planId (plans_of x ! k)) ''extend_existing'' ?at)
          (approved_plan (plans_of x ! k) steps n ?at) ?at
      | None \<Rightarrow> Inr (approved_plan (plans_of x ! k) steps n ?at,
          write_plans ?at ((plans_of x)[k := approved_plan (plans_of x ! k) steps n ?at]) x)) = Inr (p, y)"
    unfolding approvePlanContract_def Let_def
    by (auto simp: bindE_eq_Inr find_index_Some simp del: not_None_eq split: option.splits if_splits)
  show thesis
  proof (cases "staged_predecessor (plans_of x ! k) (plans_of x)")
    case None
    with r have "p = approved_plan (plans_of x ! k) steps n ?at" "y = write_plans ?at ((plans_of x)[k := p]) x" by auto
    then show thesis by (intro that [OF k e m]) (simp_all add: None)
  next
    case (Some q)
    let ?a = "approved_plan (plans_of x ! k) steps n ?at" and ?q = "superseded_plan q (pn_planId (plans_of x ! k)) ''extend_existing'' ?at"
    from r Some have w: "writePlanSupersessionWithWorkRetirement H env x
        (map (\<lambda>c. if pn_planId c = pn_planId ?q then ?q else if pn_planId c = pn_planId ?a then ?a else c) (plans_of x)) ?q ?a ?at = Inr (p, y)"
      by simp
    note f = supersession_facts [OF w]
    have id: "pn_planId p = pn_planId (plans_of x ! k)" "pn_planId ?q = pn_planId q"
      using f(2) by (simp_all add: takes_over_def approved_plan_def superseded_plan_def)
    have a: "p = ?a" if "\<not> we_sqlite (ln_work env)" using w that by (simp add: writePlanSupersessionWithWorkRetirement_def)
    have "p \<in> set (plans_of y)" if ne: "pn_planId q \<noteq> pn_planId p"
    proof -
      have "?a \<in> set (map (\<lambda>c. if pn_planId c = pn_planId ?q then ?q else if pn_planId c = pn_planId ?a then ?a else c) (plans_of x))"
        unfolding set_map
      proof (rule image_eqI)
        show "plans_of x ! k \<in> set (plans_of x)" using k by simp
        show "?a = (if pn_planId (plans_of x ! k) = pn_planId ?q then ?q
            else if pn_planId (plans_of x ! k) = pn_planId ?a then ?a else plans_of x ! k)"
          using id ne by (simp add: approved_plan_def)
      qed
      moreover have "p = (if pn_planId ?a = pn_planId ?a \<and> we_sqlite (ln_work env) then p else ?a)" using a by simp
      ultimately show ?thesis unfolding f(4) list.set_map(1) by (rule rev_image_eqI)
    qed
    moreover from a have "set (plans_of y) \<subseteq> insert p (insert ?q {c \<in> set (plans_of x). pn_planId c \<noteq> pn_planId q \<and> pn_planId c \<noteq> pn_planId p})"
      using id unfolding f(4) by (auto simp: approved_plan_def split: if_splits)
    ultimately show thesis using f(2,3) id
      by (intro that [OF k e m]) (simp_all add: Some superseded_plan_def)
  qed
qed

lemma approval_no_owner:
  assumes "approvalErrors H p plans = []" and "q \<in> set plans" and "pn_planId q \<noteq> pn_planId p"
    and "pn_scopeKey q = pn_scopeKey p" and "scopeIsCommitted (pn_status q)"
  shows "Some (pn_planId q) = single_predecessor p \<and> pn_status q = PS_replanning"
  using assms unfolding approvalErrors_def js_uniq_eq_Nil by (auto split: if_splits)

lemma approval_pending:
  assumes "approvalErrors H p plans = []" and "s \<in> set (pn_steps p)"
  shows "pst_status s = SS_pending"
proof -
  have d: "draftContentErrors p = []" using assms(1) unfolding approvalErrors_def js_uniq_eq_Nil by simp
  have "steps_content_errors ids steps = [] \<Longrightarrow> s \<in> set steps \<Longrightarrow> pst_status s = SS_pending" for ids steps
    by (induction ids steps rule: steps_content_errors.induct) (auto simp: step_content_errors_def split: if_splits)
  with d assms(2) show ?thesis unfolding draftContentErrors_def js_uniq_eq_Nil by (auto split: if_splits)
qed

section \<open>What is carried over\<close>

text \<open>A step that holds the delivery of a predecessor's step.\<close>

definition proven_carry :: "js_host \<Rightarrow> lineage_env \<Rightarrow> plan_world \<Rightarrow> plan_contract \<Rightarrow> plan_step \<Rightarrow> bool" where
  "proven_carry H env world plan s \<longleftrightarrow>
     (\<exists>work receipt delivery cleanup target w. pst_workId s = Some (wc_workId work) \<and>
        getWorkContract H (ln_work env) (pw_works world) w = Inr (Some work) \<and>
        wc_status work = Status_completed \<and> wc_planStepId work = Some (pst_id s) \<and> wc_requirementId work = pn_requirementId plan \<and>
        wc_completionReceipt work = Some receipt \<and> receipt_work_id receipt = Some (wc_workId work) \<and>
        repository_delivery receipt = Some (delivery, cleanup, target) \<and>
        dl_status delivery = Delivery_integrated \<and> dl_reachable delivery \<and> cl_status cleanup \<noteq> Cleanup_blocked \<and>
        (js_trim target = js_trim (pn_sourceRevision plan) \<or> ln_contains env (js_trim target) (js_trim (pn_sourceRevision plan))))"

lemma carry_of_Some:
  assumes "carry_of env pred ps plan s stamp work = Some c"
  obtains receipt delivery cleanup target where "wc_completionReceipt work = Some receipt" "carried_work_ok pred ps work"
    "receipt_work_id receipt = Some (wc_workId work)" "repository_delivery receipt = Some (delivery, cleanup, target)"
    "dl_status delivery = Delivery_integrated" "dl_reachable delivery" "cl_status cleanup \<noteq> Cleanup_blocked"
    "js_trim target = js_trim (pn_sourceRevision plan) \<or> ln_contains env (js_trim target) (js_trim (pn_sourceRevision plan))"
    "dc_workId c = wc_workId work"
  using assms unfolding carry_of_def delivered_target_def some_str_def Let_def
  by (auto split: option.splits if_splits prod.splits)

lemma expected_carry_proven:
  assumes "deliveryCarryForStep H env world pred ps plan s stamp = Inr expected" and "same_carry expected carry"
  shows "proven_carry H env world plan (carried_step carry ps s)"
proof -
  from assms(2) obtain c where c: "expected = Some c" "dc_workId c = dc_workId carry"
    by (auto simp: same_carry_def split: option.splits)
  with assms(1) obtain work where w: "getWorkContract H (ln_work env) (pw_works world) (coalesce (pst_workId ps) []) = Inr (Some work)"
    "carry_of env pred ps plan s stamp work = Some c" "pst_id ps = pst_id s" "pn_requirementId plan = pn_requirementId pred"
    unfolding deliveryCarryForStep_def samePlanStepExecutionContract_def
    by (auto simp: bindE_eq_Inr Option.bind_eq_Some_conv split: if_splits)
  from w(2) show ?thesis
  proof (rule carry_of_Some)
    fix receipt delivery cleanup target
    assume r: "wc_completionReceipt work = Some receipt" "carried_work_ok pred ps work"
      "receipt_work_id receipt = Some (wc_workId work)" "repository_delivery receipt = Some (delivery, cleanup, target)"
      "dl_status delivery = Delivery_integrated" "dl_reachable delivery" "cl_status cleanup \<noteq> Cleanup_blocked"
      "js_trim target = js_trim (pn_sourceRevision plan) \<or> ln_contains env (js_trim target) (js_trim (pn_sourceRevision plan))"
      "dc_workId c = wc_workId work"
    show ?thesis
      unfolding proven_carry_def
      by (intro exI conjI) (use r w c in \<open>simp_all add: carried_step_def carried_work_ok_def\<close>)
  qed
qed

lemma materialized_steps:
  assumes "materialize_carries H env world plan allPlans carried carries steps = Inr steps'" and "s \<in> set steps'"
  shows "s \<in> set steps \<or> proven_carry H env world plan s"
  using assms
proof (induction carries arbitrary: carried steps)
  case (Cons carry carries)
  from Cons.prems(1) obtain pp ps i expected where
      i: "find_index (\<lambda>s. pst_id s = dc_successorStepId carry) steps = Some i"
    and x: "deliveryCarryForStep H env world pp ps plan (steps ! i) (dc_recordedAt carry) = Inr expected" "same_carry expected carry"
    and r: "materialize_carries H env world plan allPlans (dc_successorStepId carry # carried) carries
      (steps[i := carried_step carry ps (steps ! i)]) = Inr steps'"
    by (auto simp: bindE_eq_Inr Let_def split: option.splits)
  have "s \<in> set (steps[i := carried_step carry ps (steps ! i)]) \<or> proven_carry H env world plan s"
    using Cons.IH [OF r Cons.prems(2)] .
  then show ?case
    using expected_carry_proven [OF x] set_update_subset_insert [of steps i "carried_step carry ps (steps ! i)"] by blast
qed simp

end
