(* ===== verification/PlanProgression.thy ===== *)
theory PlanProgression
  imports PlanFacts
begin

text \<open>
  A plan as the projector of goal progression sees it: the snapshot that
  \<open>src/runtime/control-plane/facade/goal-workloop.ts\<close> builds from the stored plan, its
  requirement and the Works bound to its steps, and the operations that carry an acyclic plan
  to its end.
\<close>

section \<open>The snapshot of a plan\<close>

definition step_snapshot_of :: "plan_step \<Rightarrow> step_snapshot" where
  "step_snapshot_of s =
     \<lparr>sp_id = pst_id s, sp_dependencies = pst_dependencies s, sp_status = pst_status s, sp_workId = pst_workId s\<rparr>"

definition plan_snapshot_of :: "plan_contract \<Rightarrow> plan_snapshot" where
  "plan_snapshot_of plan =
     \<lparr>pl_planId = pn_planId plan, pl_requirementId = pn_requirementId plan, pl_sourceRevision = pn_sourceRevision plan,
      pl_status = pn_status plan, pl_steps = map step_snapshot_of (pn_steps plan)\<rparr>"

text \<open>\<open>receipt && 'targetRevision' in receipt ? receipt.targetRevision : undefined\<close>.\<close>

fun receipt_target_revision :: "completion_receipt \<Rightarrow> string option" where
  "receipt_target_revision (Repository_receipt r) = Some (rc_targetRevision r)"
| "receipt_target_revision (Direct_edit_receipt r) = Some (de_targetRevision r)"
| "receipt_target_revision _ = None"

definition work_snapshot_of :: "work_contract \<Rightarrow> work_snapshot" where
  "work_snapshot_of w =
     \<lparr>ws_workId = wc_workId w, ws_requirementId = wc_requirementId w, ws_planId = wc_planId w,
      ws_planStepId = wc_planStepId w, ws_status = wc_status w, ws_baseRevision = wc_baseRevision w,
      ws_completionTargetRevision = Option.bind (wc_completionReceipt w) receipt_target_revision\<rparr>"

definition progression_works :: "(string \<Rightarrow> work_contract option) \<Rightarrow> plan_contract \<Rightarrow> work_snapshot list" where
  "progression_works getWork plan =
     map work_snapshot_of (List.map_filter (\<lambda>s. if truthy (pst_workId s) then getWork (the (pst_workId s)) else None)
       (pn_steps plan))"

text \<open>
  The requirement is read with its revision; \<open>predecessor\<close> is the requirement of the Work that is
  continued and \<open>source\<close> the source revision of the request, both optional.
\<close>

definition continuation_snapshot ::
    "(string \<Rightarrow> work_contract option) \<Rightarrow> (requirement_state \<times> int) option \<Rightarrow> string option \<Rightarrow> string option \<Rightarrow>
     plan_contract \<Rightarrow> progression_snapshot" where
  "continuation_snapshot getWork requirement predecessor source plan =
     \<lparr>sh_requirement = \<lparr>
        rq_requirementId = (case pn_requirementId plan of Some r \<Rightarrow> r
          | None \<Rightarrow> coalesce predecessor (''plan:'' @ pn_planId plan)),
        rq_state = coalesce (map_option fst requirement) RS_active,
        rq_revision = coalesce (map_option snd requirement) 0\<rparr>,
      sh_plan = plan_snapshot_of plan,
      sh_currentSourceRevision = coalesce source (pn_sourceRevision plan),
      sh_works = progression_works getWork plan,
      sh_controllerRounds = Some [], sh_schedules = None\<rparr>"

lemma step_snapshot_fields [simp]:
  "sp_id (step_snapshot_of s) = pst_id s" "sp_dependencies (step_snapshot_of s) = pst_dependencies s"
  "step_snapshot.sp_status (step_snapshot_of s) = pst_status s" "sp_workId (step_snapshot_of s) = pst_workId s"
  by (simp_all add: step_snapshot_of_def)

lemma plan_snapshot_fields [simp]:
  "pl_planId (plan_snapshot_of p) = pn_planId p" "pl_requirementId (plan_snapshot_of p) = pn_requirementId p"
  "pl_sourceRevision (plan_snapshot_of p) = pn_sourceRevision p" "pl_status (plan_snapshot_of p) = pn_status p"
  "pl_steps (plan_snapshot_of p) = map step_snapshot_of (pn_steps p)"
  by (simp_all add: plan_snapshot_of_def)

lemma continuation_fields [simp]:
  "sh_plan (continuation_snapshot g r w src p) = plan_snapshot_of p"
  "sh_currentSourceRevision (continuation_snapshot g r w src p) = coalesce src (pn_sourceRevision p)"
  "rq_state (sh_requirement (continuation_snapshot g r w src p)) = coalesce (map_option fst r) RS_active"
  by (simp_all add: continuation_snapshot_def)

section \<open>What the projector starts can be claimed\<close>

text \<open>The identifiers of a plan that has been normalised name their own steps.\<close>

definition named_steps :: "plan_contract \<Rightarrow> bool" where
  "named_steps p \<longleftrightarrow> (\<forall>s\<in>set (pn_steps p). sanitizeFileComponent (pst_id s) = pst_id s)"

lemma step_at_index:
  assumes "distinct (map pst_id (pn_steps p))" and "n < length (pn_steps p)"
  shows "step_at p (pst_id (pn_steps p ! n)) = Some n"
  unfolding step_at_def by (rule find_index_unique [where f = pst_id, OF assms])

lemma claim_ready:
  assumes "plan_inv p" and "named_steps p" and "n < length (pn_steps p)" and "pst_status (pn_steps p ! n) = SS_ready"
    and "pn_status p \<in> {PS_approved, PS_executing}" and "assertRequirementReference env (pn_requirementId p) = Inr ()"
  shows "claim_step env (pst_id (pn_steps p ! n)) w (pn_sourceRevision p) p =
    Inr (p\<lparr>pn_status := PS_executing,
      pn_steps := (pn_steps p)[n := (pn_steps p ! n)\<lparr>pst_status := SS_executing, pst_workId := Some w\<rparr>],
      pn_updatedAt := pe_now env\<rparr>)"
proof -
  let ?s = "pn_steps p ! n"
  have d: "distinct (map pst_id (pn_steps p))" and ok: "step_ok (pn_steps p) ?s"
    using assms(1,3) by (simp_all add: plan_inv_def)
  have "sanitizeFileComponent (pst_id ?s) = pst_id ?s" using assms(2,3) by (simp add: named_steps_def)
  moreover have "unresolved_dependencies p ?s = []" and "\<not> truthy (pst_workId ?s)"
    using ok assms(4) unresolved_Nil [OF d] by (auto simp: step_ok_def)
  ultimately show ?thesis
    using assms(4-6) step_at_index [OF d assms(3)] by (auto simp: claim_step_def Let_def set_step_def)
qed

lemma completed_ids_of: "completed_ids (map step_snapshot_of steps) = completed_of steps"
  by (force simp: completed_of_def)

lemma in_progress_of [simp]: "in_progress (step_snapshot_of s) \<longleftrightarrow> pst_status s = SS_executing \<or> pst_status s = SS_validating"
  by (simp add: in_progress_def)

lemma start_claimable:
  assumes "plan_inv p" and "progressing (continuation_snapshot g r w src p)"
    and "st \<in> set (startable (pl_steps (plan_snapshot_of p)))"
  obtains n where "n < length (pn_steps p)" "st = step_snapshot_of (pn_steps p ! n)" "pst_status (pn_steps p ! n) = SS_ready"
    "pn_status p \<in> {PS_approved, PS_executing}" "coalesce src (pn_sourceRevision p) = pn_sourceRevision p"
proof -
  from assms(3) obtain n where n: "n < length (pn_steps p)" "st = step_snapshot_of (pn_steps p ! n)"
    "pst_status (pn_steps p ! n) = SS_ready"
    unfolding set_startable by (auto simp: in_set_conv_nth)
  have idle: "\<forall>s\<in>set (pn_steps p). pst_status s \<noteq> SS_executing \<and> pst_status s \<noteq> SS_validating"
    and st: "pn_status p \<in> EXECUTABLE_PLAN_STATUSES" and src: "coalesce src (pn_sourceRevision p) = pn_sourceRevision p"
    using assms(2) by (auto simp: progressing_def)
  have "pn_status p \<in> {PS_approved, PS_executing}"
    using idle st assms(1) by (auto simp: EXECUTABLE_PLAN_STATUSES_def plan_inv_def)
  with n src show thesis by (intro that)
qed

section \<open>Carrying a plan to its end\<close>

text \<open>The operations of an orderly delivery: claim, delivery of the Work, semantic acceptance.\<close>

inductive delivery_op :: "plan_env \<Rightarrow> plan_contract \<Rightarrow> plan_contract \<Rightarrow> bool" for env where
  claim: "claim_step env i w (pn_sourceRevision p) p = Inr q \<Longrightarrow> w \<noteq> [] \<Longrightarrow> delivery_op env p q"
| deliver: "complete_step env i work p = Inr q \<Longrightarrow> delivered_work work \<Longrightarrow> sw_workId work \<noteq> [] \<Longrightarrow> delivery_op env p q"
| accept: "accept_step env i reviewer rationale None p = Inr q \<Longrightarrow> reviewer \<noteq> [] \<Longrightarrow> rationale \<noteq> [] \<Longrightarrow>
     delivery_op env p q"

lemma delivery_op_step: "delivery_op env p q \<Longrightarrow> plan_step_op p q"
  by (cases rule: delivery_op.cases) (auto intro: plan_step_op.intros)

text \<open>The operations a step still needs.\<close>

fun step_effort :: "step_status \<Rightarrow> nat" where
  "step_effort SS_pending = 3"
| "step_effort SS_ready = 3"
| "step_effort SS_executing = 2"
| "step_effort SS_validating = 1"
| "step_effort SS_completed = 0"

definition plan_effort :: "plan_contract \<Rightarrow> nat" where
  "plan_effort p = (\<Sum>s\<leftarrow>pn_steps p. step_effort (pst_status s))"

definition deliverable :: "plan_env \<Rightarrow> plan_contract \<Rightarrow> bool" where
  "deliverable env p \<longleftrightarrow>
     plan_inv p \<and> named_steps p \<and> pn_status p \<in> {PS_approved, PS_executing, PS_verifying, PS_finalized} \<and>
     acyclic (dependency_relation (map step_snapshot_of (pn_steps p))) \<and>
     (\<forall>s\<in>set (pn_steps p). set (pst_dependencies s) \<subseteq> pst_id ` set (pn_steps p)) \<and>
     assertRequirementReference env (pn_requirementId p) = Inr ()"

lemma step_effort_0 [simp]: "step_effort st = 0 \<longleftrightarrow> st = SS_completed"
  by (cases st) auto

lemma plan_effort_0: "plan_effort p = 0 \<longleftrightarrow> (\<forall>s\<in>set (pn_steps p). pst_status s = SS_completed)"
  by (auto simp: plan_effort_def)

lemma projected_effort: "(\<Sum>s\<leftarrow>projectDependencyReadySteps steps. step_effort (pst_status s)) = (\<Sum>s\<leftarrow>steps. step_effort (pst_status s))"
proof -
  have "map (\<lambda>s. step_effort (pst_status s)) (projectDependencyReadySteps steps) = map (\<lambda>s. step_effort (pst_status s)) steps"
    by (simp add: projectDependencyReadySteps_def Let_def o_def)
  then show ?thesis by (simp only:)
qed

lemma replaced_effort:
  assumes "n < length steps" and "Suc (step_effort (pst_status s)) = step_effort (pst_status (steps ! n))"
  shows "Suc (\<Sum>t\<leftarrow>steps[n := s]. step_effort (pst_status t)) = (\<Sum>t\<leftarrow>steps. step_effort (pst_status t))"
proof -
  let ?ns = "map (\<lambda>t. step_effort (pst_status t)) steps"
  have "?ns ! n \<le> sum_list ?ns" using assms(1) by (metis elem_le_sum_list length_map)
  with assms show ?thesis by (simp add: map_update sum_list_update)
qed

text \<open>What depends on the shape of the plan only.\<close>

lemma dependency_relation_shape:
  "dependency_relation (map step_snapshot_of (pn_steps p)) = {(d, i). \<exists>ds. (i, ds) \<in> set (plan_shape p) \<and> d \<in> set ds}"
    (is "?l = ?r")
proof
  show "?l \<subseteq> ?r"
  proof clarify
    fix d i assume "(d, i) \<in> ?l"
    then obtain s where "s \<in> set (pn_steps p)" "i = pst_id s" "d \<in> set (pst_dependencies s)"
      by (auto simp: dependency_relation_def)
    then show "\<exists>ds. (i, ds) \<in> set (plan_shape p) \<and> d \<in> set ds"
      by (intro exI [of _ "pst_dependencies s"]) (auto simp: plan_shape_def)
  qed
  show "?r \<subseteq> ?l"
  proof clarify
    fix d i ds assume "(i, ds) \<in> set (plan_shape p)" "d \<in> set ds"
    then obtain s where "s \<in> set (pn_steps p)" "i = pst_id s" "d \<in> set (pst_dependencies s)" by (auto simp: plan_shape_def)
    then show "(d, i) \<in> ?l"
      unfolding dependency_relation_def by (intro CollectI exI [of _ d] exI [of _ "step_snapshot_of s"]) simp
  qed
qed

lemma deliverable_shape:
  "deliverable env p \<longleftrightarrow> plan_inv p \<and> pn_status p \<in> {PS_approved, PS_executing, PS_verifying, PS_finalized} \<and>
     (\<forall>(i, ds)\<in>set (plan_shape p). sanitizeFileComponent i = i \<and> set ds \<subseteq> fst ` set (plan_shape p)) \<and>
     acyclic {(d, i). \<exists>ds. (i, ds) \<in> set (plan_shape p) \<and> d \<in> set ds} \<and>
     assertRequirementReference env (pn_requirementId p) = Inr ()"
proof -
  have "fst ` set (plan_shape p) = pst_id ` set (pn_steps p)" by (force simp: plan_shape_def)
  then show ?thesis unfolding deliverable_def dependency_relation_shape named_steps_def by (auto simp: plan_shape_def)
qed

lemma deliverable_op:
  assumes "deliverable env p" and "delivery_op env p q" and "pn_requirementId q = pn_requirementId p"
    and "pn_status q \<in> {PS_executing, PS_verifying, PS_finalized}"
  shows "deliverable env q"
  using assms plan_op_shape [OF delivery_op_step [OF assms(2)]] plans.inv_step [OF _ delivery_op_step [OF assms(2)]]
  unfolding deliverable_shape by auto

lemma advance_claim:
  assumes "deliverable env p" and "n < length (pn_steps p)" and "pst_status (pn_steps p ! n) = SS_ready"
    and "pn_status p \<in> {PS_approved, PS_executing}"
  shows "\<exists>q. delivery_op env p q \<and> deliverable env q \<and> Suc (plan_effort q) = plan_effort p"
proof -
  let ?s = "(pn_steps p ! n)\<lparr>pst_status := SS_executing, pst_workId := Some ''w''\<rparr>"
  let ?q = "p\<lparr>pn_status := PS_executing, pn_steps := (pn_steps p)[n := ?s], pn_updatedAt := pe_now env\<rparr>"
  have op: "delivery_op env p ?q"
    by (rule delivery_op.claim [OF claim_ready]) (use assms in \<open>auto simp: deliverable_def\<close>)
  then have "delivery_op env p ?q \<and> deliverable env ?q"
    using deliverable_op [OF assms(1) op] by simp
  moreover have "Suc (plan_effort ?q) = plan_effort p"
    using replaced_effort [of n "pn_steps p" ?s] assms(2,3) by (simp add: plan_effort_def)
  ultimately show ?thesis by blast
qed

definition delivered :: "string \<Rightarrow> step_work" where
  "delivered w = \<lparr>sw_workId = w, sw_status = Status_completed, sw_phase = Phase_cleanup, sw_evidenceState = EvState_valid,
     sw_completionOutcome = Some Outcome_completed_local,
     sw_completionReceipt = Some (Local_effect_receipt \<lparr>le_receiptId = ''r'', le_workId = w, le_operation = ''op'',
       le_target = \<lparr>lt_kind = Target_controller_local, lt_id = ''t'', lt_identityFingerprint = None\<rparr>, le_changed = True,
       le_recordedAt = ''now''\<rparr>), sw_evidenceRefs = []\<rparr>"

lemma advance_deliver:
  assumes "deliverable env p" and "n < length (pn_steps p)" and "pst_status (pn_steps p ! n) = SS_executing"
  shows "\<exists>q. delivery_op env p q \<and> deliverable env q \<and> Suc (plan_effort q) = plan_effort p"
proof -
  let ?i = "pst_id (pn_steps p ! n)"
  have d: "distinct (map pst_id (pn_steps p))" and ok: "step_ok (pn_steps p) (pn_steps p ! n)"
    and i: "sanitizeFileComponent ?i = ?i"
    using assms(1,2) by (simp_all add: deliverable_def plan_inv_def named_steps_def)
  from ok assms(3) obtain w where w: "pst_workId (pn_steps p ! n) = Some w" "w \<noteq> []"
    by (auto simp: step_ok_def truthy_iff)
  let ?s = "(pn_steps p ! n)\<lparr>pst_status := SS_validating, pst_workId := Some w\<rparr>"
  let ?q = "p\<lparr>pn_status := PS_verifying, pn_steps := (pn_steps p)[n := ?s], pn_updatedAt := pe_now env\<rparr>"
  have "complete_step env ?i (delivered w) p = Inr ?q"
    using step_at_index [OF d assms(2)] i w assms(3)
    by (simp add: complete_step_def Let_def set_step_def delivered_def delivered_work_def)
  then have op: "delivery_op env p ?q"
    by (rule delivery_op.deliver) (use w in \<open>simp_all add: delivered_def delivered_work_def\<close>)
  then have "delivery_op env p ?q \<and> deliverable env ?q"
    using deliverable_op [OF assms(1) op] by simp
  moreover have "Suc (plan_effort ?q) = plan_effort p"
    using replaced_effort [of n "pn_steps p" ?s] assms(2,3) by (simp add: plan_effort_def)
  ultimately show ?thesis by blast
qed

lemma advance_accept:
  assumes "deliverable env p" and "n < length (pn_steps p)" and "pst_status (pn_steps p ! n) = SS_validating"
  shows "\<exists>q. delivery_op env p q \<and> deliverable env q \<and> Suc (plan_effort q) = plan_effort p"
proof -
  let ?i = "pst_id (pn_steps p ! n)"
  have d: "distinct (map pst_id (pn_steps p))" and i: "sanitizeFileComponent ?i = ?i"
    using assms(1,2) by (simp_all add: deliverable_def plan_inv_def named_steps_def)
  define steps where "steps = (pn_steps p)[n := (pn_steps p ! n)\<lparr>pst_status := SS_completed,
    pst_evidenceRefs := take 20 (summary_evidence ''semantic acceptance'' (''r'' @ '': '' @ ''w'') # pst_evidenceRefs (pn_steps p ! n))\<rparr>]"
  define all_done where "all_done \<longleftrightarrow> (\<forall>s\<in>set steps. pst_status s = SS_completed)"
  define q where "q = p\<lparr>pn_sourceRevision := or_str (opt_trim None) (pn_sourceRevision p),
    pn_status := if all_done then PS_finalized else PS_executing,
    pn_steps := if all_done then steps else projectDependencyReadySteps steps, pn_updatedAt := pe_now env\<rparr>"
  have "accept_step env ?i ''r'' ''w'' None p = Inr q"
    unfolding accept_step_def i step_at_index [OF d assms(2)] option.case Let_def set_step_def assms(3)
    unfolding steps_def [symmetric] all_done_def [symmetric] q_def by simp
  then have op: "delivery_op env p q" by (rule delivery_op.accept) simp_all
  have "Suc (\<Sum>s\<leftarrow>steps. step_effort (pst_status s)) = (\<Sum>s\<leftarrow>pn_steps p. step_effort (pst_status s))"
    unfolding steps_def by (rule replaced_effort [OF assms(2)]) (simp add: assms(3))
  then have "Suc (plan_effort q) = plan_effort p"
    by (simp add: plan_effort_def q_def projected_effort)
  moreover have "deliverable env q" by (rule deliverable_op [OF assms(1) op]) (simp_all add: q_def)
  ultimately show ?thesis using op by blast
qed

lemma ready_step:
  assumes "deliverable env p" and "0 < plan_effort p"
    and "\<forall>s\<in>set (pn_steps p). pst_status s \<noteq> SS_executing \<and> pst_status s \<noteq> SS_validating"
  shows "\<exists>n<length (pn_steps p). pst_status (pn_steps p ! n) = SS_ready"
proof -
  let ?steps = "map step_snapshot_of (pn_steps p)" and ?X = "- completed_of (pn_steps p)"
  have d: "distinct (map pst_id (pn_steps p))" and ok: "\<forall>s\<in>set (pn_steps p). step_ok (pn_steps p) s"
    and ac: "acyclic (dependency_relation ?steps)"
    and closed: "\<forall>s\<in>set (pn_steps p). set (pst_dependencies s) \<subseteq> pst_id ` set (pn_steps p)"
    using assms(1) by (simp_all add: deliverable_def plan_inv_def)
  have open_id: "pst_id s \<in> ?X \<longleftrightarrow> pst_status s \<noteq> SS_completed" if "s \<in> set (pn_steps p)" for s
    using that not_completed [OF d] by (auto simp: completed_of_def in_set_conv_nth)
  from assms(2) obtain s where s: "s \<in> set (pn_steps p)" "pst_status s \<noteq> SS_completed"
    using plan_effort_0 [of p] by auto
  have "step_snapshot_of s \<in> set ?steps" "sp_id (step_snapshot_of s) \<in> ?X"
    using s open_id [OF s(1)] by simp_all
  from acyclic_step [OF ac this] obtain u
    where u: "u \<in> set ?steps" "sp_id u \<in> ?X" "\<forall>d\<in>set (sp_dependencies u). d \<notin> ?X \<inter> sp_id ` set ?steps" by blast
  then obtain t where t: "t \<in> set (pn_steps p)" "u = step_snapshot_of t" by auto
  have "pst_status t \<noteq> SS_completed" using u(2) t open_id by simp
  moreover have "satisfied (pn_steps p) t"
    using u(3) t closed by (force simp: satisfied_def)
  ultimately have "pst_status t = SS_ready"
    using ok t(1) assms(3) by (cases "pst_status t") (auto simp: step_ok_def)
  with t(1) show ?thesis by (auto simp: in_set_conv_nth)
qed

interpretation deliveries: progress_steps "delivery_op env" "deliverable env" plan_effort for env
proof
  fix p assume p: "deliverable env p" "0 < plan_effort p"
  consider n where "n < length (pn_steps p)" "pst_status (pn_steps p ! n) = SS_validating"
    | n where "n < length (pn_steps p)" "pst_status (pn_steps p ! n) = SS_executing"
    | "\<forall>s\<in>set (pn_steps p). pst_status s \<noteq> SS_executing \<and> pst_status s \<noteq> SS_validating"
    by (metis in_set_conv_nth)
  then show "\<exists>q. delivery_op env p q \<and> deliverable env q \<and> Suc (plan_effort q) = plan_effort p"
  proof cases
    case 3
    from ready_step [OF p this] obtain n where n: "n < length (pn_steps p)" "pst_status (pn_steps p ! n) = SS_ready" by blast
    have "pn_status p \<in> {PS_approved, PS_executing}"
      using p 3 plan_effort_0 [of p] by (auto simp: deliverable_def plan_inv_def)
    with p(1) n show ?thesis by (intro advance_claim)
  qed (use p advance_accept advance_deliver in blast)+
qed

end
