(* ===== verification/PlanProperties.thy ===== *)
theory PlanProperties
  imports PlanProgression ExampleHost
begin

text \<open>
  What the life of a plan guarantees: it can always be carried to its end, what the projector
  starts can be claimed, and a successor that is approved answers for everything its
  predecessors left open.
\<close>

section \<open>A concrete plan\<close>

definition example_plan_step :: "string \<Rightarrow> string list \<Rightarrow> step_status \<Rightarrow> plan_step" where
  "example_plan_step i deps status =
     \<lparr>pst_id = i, pst_objective = ''do'', pst_dependencies = deps, pst_authoritativeFiles = [], pst_allowedPaths = [''src''],
      pst_forbiddenPaths = [], pst_checks = [''test''], pst_acceptanceCriteria = [''works''], pst_status = status,
      pst_workId = None, pst_evidenceRefs = []\<rparr>"

definition example_plan :: "string \<Rightarrow> plan_status \<Rightarrow> plan_step list \<Rightarrow> plan_contract" where
  "example_plan i status steps =
     \<lparr>pn_planId = i, pn_repoId = ''repo'', pn_requirementId = Some ''q'', pn_scopeKey = ''scope'', pn_sourceRevision = ''r1'',
      pn_goal = ''goal'', pn_nonGoals = [], pn_assumptions = [], pn_resolvedDecisions = [], pn_stopConditions = [],
      pn_replanConditions = [], pn_integrationStrategy = None, pn_status = status, pn_steps = steps, pn_evidenceRefs = [],
      pn_supersedes = None, pn_supersededBy = None, pn_supersessionReason = None, pn_obligationDispositions = None,
      pn_deliveryCarries = None, pn_createdAt = ''t0'', pn_updatedAt = ''t0''\<rparr>"

definition example_pair :: plan_contract where
  "example_pair = example_plan ''p'' PS_approved
     [example_plan_step ''a'' [] SS_ready, example_plan_step ''b'' [''a''] SS_pending]"

definition example_env :: plan_env where
  "example_env = \<lparr>pe_requirements = Some (\<lambda>r. if r = ''q'' then Some RS_active else None), pe_now = ''t1''\<rparr>"

lemmas example_plan_defs = example_pair_def example_plan_def example_plan_step_def example_env_def

lemma example_sanitized: "sanitizeFileComponent ''a'' = ''a''" "sanitizeFileComponent ''b'' = ''b''"
  by (simp_all add: sanitizeFileComponent_def strip_dashes_def file_char_def less_eq_char_def)

lemma example_trim: "js_trim ''q'' = ''q''"
  by (rule js_trim_id) (simp add: js_trimmed_def js_space_def)

lemma example_reference: "assertRequirementReference example_env (pn_requirementId example_pair) = Inr ()"
  by (simp add: assertRequirementReference_def example_plan_defs trim_or_none_def example_trim)

lemma completed_of_filter: "completed_of steps = set (map pst_id (filter (\<lambda>s. pst_status s = SS_completed) steps))"
  by (auto simp: completed_of_def)

lemma example_pair_inv: "plan_inv example_pair"
  by (auto simp: plan_inv_def step_ok_def satisfied_def completed_of_filter example_plan_defs)

lemma dependencies_union:
  "{(d, pst_id s) | d s. s \<in> set steps \<and> d \<in> set (pst_dependencies s)} =
     (\<Union>s\<in>set steps. (\<lambda>d. (d, pst_id s)) ` set (pst_dependencies s))" by auto

section \<open>Properties\<close>

text \<open>
  C35.  A plan under way can be brought to its end when nothing outside it stands in the way: let its
  status be approved, executing or verifying (not replanning), its steps in a state the operations
  keep (\<open>plan_inv\<close>: distinct identifiers, a step ready exactly when its dependencies are
  completed, a Work bound exactly to the steps that were started), its dependencies acyclic and among
  its own steps, every step identifier unchanged by file-name sanitising, and its requirement an
  existing one that is still open (or none). Then the claim of a step, the delivery of its Work
  and its acceptance, three operations for a step that waits, carry it to \<open>finalized\<close> with every
  step completed, in exactly as many operations as its steps still need.
\<close>

theorem plan_can_be_finished:
  assumes "plan_inv p" and "pn_status p \<in> {PS_approved, PS_executing, PS_verifying}"
    and "acyclic {(d, pst_id s) | d s. s \<in> set (pn_steps p) \<and> d \<in> set (pst_dependencies s)}"
    and "\<forall>s\<in>set (pn_steps p). set (pst_dependencies s) \<subseteq> pst_id ` set (pn_steps p)"
    and "\<forall>s\<in>set (pn_steps p). sanitizeFileComponent (pst_id s) = pst_id s"
    and "assertRequirementReference env (pn_requirementId p) = Inr ()"
  shows "\<exists>q. (delivery_op env ^^ (\<Sum>s\<leftarrow>pn_steps p. step_effort (pst_status s))) p q \<and>
    pn_status q = PS_finalized \<and> (\<forall>s\<in>set (pn_steps q). pst_status s = SS_completed)"
proof -
  have "dependency_relation (map step_snapshot_of (pn_steps p)) =
      {(d, pst_id s) | d s. s \<in> set (pn_steps p) \<and> d \<in> set (pst_dependencies s)}"
    unfolding dependency_relation_shape by (force simp: plan_shape_def)
  with assms have "deliverable env p" by (auto simp: deliverable_def named_steps_def)
  from deliveries.completes [OF this] obtain q
    where q: "(delivery_op env ^^ plan_effort p) p q" "deliverable env q" "plan_effort q = 0" by blast
  then have "\<forall>s\<in>set (pn_steps q). pst_status s = SS_completed" by (simp add: plan_effort_0)
  with q show ?thesis by (auto simp: deliverable_def plan_inv_def plan_effort_def)
qed

theorem plan_can_be_finished_witness:
  "\<exists>q. (delivery_op example_env ^^ 6) example_pair q \<and> pn_status q = PS_finalized \<and>
     {s \<in> set (pn_steps q). pst_status s \<noteq> SS_completed} = {}"
proof -
  have "acyclic {(''a'', ''b'')}"
    by (rule wf_acyclic [OF wf_subset [OF wf_measure [of "\<lambda>x. if x = ''a'' then 0 else 1"]]]) auto
  moreover have "{(d, pst_id s) | d s. s \<in> set (pn_steps example_pair) \<and> d \<in> set (pst_dependencies s)} = {(''a'', ''b'')}"
    unfolding dependencies_union by (simp add: example_plan_defs)
  ultimately have "acyclic {(d, pst_id s) | d s. s \<in> set (pn_steps example_pair) \<and> d \<in> set (pst_dependencies s)}" by simp
  from plan_can_be_finished [OF example_pair_inv _ this _ _ example_reference]
  have "\<exists>q. (delivery_op example_env ^^ (\<Sum>s\<leftarrow>pn_steps example_pair. step_effort (pst_status s))) example_pair q \<and>
      pn_status q = PS_finalized \<and> (\<forall>s\<in>set (pn_steps q). pst_status s = SS_completed)"
    by (simp add: example_plan_defs example_sanitized)
  moreover have "(\<Sum>s\<leftarrow>pn_steps example_pair. step_effort (pst_status s)) = 6" by (simp add: example_plan_defs)
  ultimately show ?thesis by auto
qed

text \<open>
  The projector and the store agree on what may start, for a plan whose step identifiers survive
  sanitising and whose requirement can be referenced: when the projection of its snapshot says
  that a step is to be started, claiming that step at the current source succeeds and leaves
  exactly that step changed, executing and bound to the Work. Without the two conditions the
  claim may be refused (\<open>cut_identifier_lost\<close>; a requirement that no longer exists counts as
  active in the snapshot).
\<close>

theorem started_step_is_claimable:
  assumes "plan_inv p" and "\<forall>s\<in>set (pn_steps p). sanitizeFileComponent (pst_id s) = pst_id s"
    and "assertRequirementReference env (pn_requirementId p) = Inr ()"
    and "gd_kind (projectAutonomousGoalProgression H (continuation_snapshot g requirement predecessor source p)) = Act_start_next_plan_step"
  shows "\<exists>n i. n < length (pn_steps p) \<and> i = pst_id (pn_steps p ! n) \<and>
    dt_planStepId (gd_detail (projectAutonomousGoalProgression H (continuation_snapshot g requirement predecessor source p))) = Some i \<and>
    claim_step env i w (coalesce source (pn_sourceRevision p)) p =
      Inr (p\<lparr>pn_status := PS_executing,
        pn_steps := (pn_steps p)[n := (pn_steps p ! n)\<lparr>pst_status := SS_executing, pst_workId := Some w\<rparr>],
        pn_updatedAt := pe_now env\<rparr>)"
proof -
  let ?s = "continuation_snapshot g requirement predecessor source p"
  have p: "progressing ?s" "projectAutonomousGoalProgression H ?s = next_step_decision H ?s"
    using project_progressing [of H ?s] assms(4) by auto
  obtain st where st: "startable (pl_steps (plan_snapshot_of p)) = [st]"
    "gd_detail (next_step_decision H ?s) = detail (Some (sp_id st)) None None"
    using next_step_start [of H ?s] assms(4) p(2) by auto
  then have "st \<in> set (startable (pl_steps (plan_snapshot_of p)))" by simp
  from start_claimable [OF assms(1) p(1) this] obtain n where n: "n < length (pn_steps p)"
    "st = step_snapshot_of (pn_steps p ! n)" "pst_status (pn_steps p ! n) = SS_ready"
    "pn_status p \<in> {PS_approved, PS_executing}" "coalesce source (pn_sourceRevision p) = pn_sourceRevision p" .
  have "named_steps p" using assms(2) by (simp add: named_steps_def)
  with claim_ready [OF assms(1) _ n(1,3,4) assms(3)] n st p(2) show ?thesis by auto
qed

theorem started_step_is_claimable_witness:
  "\<exists>n i. n < 2 \<and> i = pst_id (pn_steps example_pair ! n) \<and> Some ''a'' = Some i \<and>
     claim_step example_env i ''w'' ''r1'' example_pair =
      Inr (example_pair\<lparr>pn_status := PS_executing,
        pn_steps := (pn_steps example_pair)[n := (pn_steps example_pair ! n)\<lparr>pst_status := SS_executing, pst_workId := Some ''w''\<rparr>],
        pn_updatedAt := ''t1''\<rparr>)"
proof -
  let ?s = "continuation_snapshot (\<lambda>_. None) (Some (RS_active, 1)) None None example_pair"
  have s: "projectAutonomousGoalProgression H ?s =
      decision H ?s Act_start_next_plan_step Why_next_plan_step_ready (detail (Some ''a'') None None)" for H
    by (simp add: projectAutonomousGoalProgression_def Let_def example_plan_defs continuation_snapshot_def plan_snapshot_of_def
      step_snapshot_of_def EXECUTABLE_PLAN_STATUSES_def invalidDependency_def in_progress_def next_step_decision_def js_uniq_def)
  have k: "gd_kind (projectAutonomousGoalProgression example_host ?s) = Act_start_next_plan_step" by (simp add: s)
  have "\<forall>s\<in>set (pn_steps example_pair). sanitizeFileComponent (pst_id s) = pst_id s"
    by (simp add: example_plan_defs example_sanitized)
  moreover have "length (pn_steps example_pair) = 2" "coalesce None (pn_sourceRevision example_pair) = ''r1''" "pe_now example_env = ''t1''"
    by (simp_all add: example_plan_defs)
  ultimately show ?thesis
    using started_step_is_claimable [OF example_pair_inv _ example_reference k, of "''w''"]
    unfolding s by (simp only: decision_fields detail_fields)
qed

section \<open>Continuity of obligations\<close>

lemma set_concat_map_Nil: "concat (map f xs) = [] \<longleftrightarrow> (\<forall>x\<in>set xs. f x = [])"
  by auto

lemma dispositions_errors_Nil:
  "dispositions_errors plan known seen ds = [] \<Longrightarrow> d \<in> set ds \<Longrightarrow> \<exists>seen'. disposition_errors plan known seen' d = []"
  by (induction ds arbitrary: seen) auto

lemma disposition_errors_Nil:
  assumes "disposition_errors plan known seen d = []"
  shows "set (od_successorRefs d) \<subseteq> set (successorObligationRefs plan)"
    and "od_disposition d \<in> {Disposition_keep, Disposition_change} \<Longrightarrow> od_successorRefs d \<noteq> []"
    and "od_disposition d \<noteq> Disposition_keep \<Longrightarrow> truthy (opt_trim (od_rationale d))"
  using assms unfolding disposition_errors_def Let_def append_is_Nil_conv
  by (auto simp: filter_empty_conv split: if_splits)

lemma uncovered_errors_Nil:
  assumes "uncovered_errors known ds = []" and "(pred, ids) \<in> set known" and "i \<in> set ids"
  shows "\<exists>d\<in>set ds. od_predecessorPlanId d = pred \<and> od_obligationId d = i"
  using assms unfolding uncovered_errors_def set_concat_map_Nil
  by (force simp: filter_empty_conv)

lemma predecessor_in_obligations:
  assumes "i \<in> set (coalesce (pn_supersedes plan) [])" and "find_plan plans i = Some pred"
  shows "(i, js_uniq (map ob_obligationId (listUnresolvedPlanObligations H pred))) \<in> set (predecessor_obligations H plan plans)"
  unfolding predecessor_obligations_def using assms by (force simp: js_simps)

text \<open>
  C37.  A successor that may be approved answers for its predecessors: every plan it supersedes
  exists, and every obligation that plan leaves open, the objectives and acceptance criteria of
  its unfinished steps, its non-goals, decisions and conditions, has a disposition in the
  successor; a disposition that keeps or changes the obligation points into the successor, and
  one that changes, defers or drops it gives its reason.
\<close>

theorem approval_answers_every_obligation:
  assumes "approvalErrors H plan plans = []" and "i \<in> set (coalesce (pn_supersedes plan) [])"
  shows "\<exists>predecessor. find_plan plans i = Some predecessor \<and>
    (\<forall>ob\<in>set (listUnresolvedPlanObligations H predecessor).
       \<exists>d\<in>set (coalesce (pn_obligationDispositions plan) []).
         od_predecessorPlanId d = i \<and> od_obligationId d = ob_obligationId ob \<and>
         set (od_successorRefs d) \<subseteq> set (successorObligationRefs plan) \<and>
         (od_disposition d \<in> {Disposition_keep, Disposition_change} \<longrightarrow> od_successorRefs d \<noteq> []) \<and>
         (od_disposition d \<noteq> Disposition_keep \<longrightarrow> truthy (opt_trim (od_rationale d))))"
proof -
  let ?known = "predecessor_obligations H plan plans" and ?ds = "coalesce (pn_obligationDispositions plan) []"
  from assms(1) have "obligationContinuityErrors H plan plans = []"
    unfolding approvalErrors_def js_uniq_eq_Nil by simp
  then have m: "filter (\<lambda>i. find_plan plans i = None) (coalesce (pn_supersedes plan) []) = []"
    and ds: "dispositions_errors plan ?known [] ?ds = []" and un: "uncovered_errors ?known ?ds = []"
    unfolding obligationContinuityErrors_def Let_def js_uniq_eq_Nil by simp_all
  from m assms(2) obtain pred where pred: "find_plan plans i = Some pred" by (auto simp: filter_empty_conv)
  have "\<exists>d\<in>set ?ds. od_predecessorPlanId d = i \<and> od_obligationId d = ob_obligationId ob"
    if "ob \<in> set (listUnresolvedPlanObligations H pred)" for ob
    by (rule uncovered_errors_Nil [OF un predecessor_in_obligations [OF assms(2) pred]]) (use that in \<open>simp add: js_simps\<close>)
  then show ?thesis
    using pred dispositions_errors_Nil [OF ds] disposition_errors_Nil by meson
qed

text \<open>A finished plan with a non-goal, and its successor, which drops it with a reason.\<close>

definition example_predecessor :: plan_contract where
  "example_predecessor = (example_plan ''p'' PS_replanning [])\<lparr>pn_nonGoals := [''n'']\<rparr>"

definition example_drop :: obligation_disposition where
  "example_drop = \<lparr>od_predecessorPlanId = ''p'', od_obligationId = planObligationId example_host ''p'' Ob_non_goal ''non_goal:0'' ''n'',
     od_disposition = Disposition_drop, od_successorRefs = [], od_rationale = Some ''w''\<rparr>"

definition example_successor :: plan_contract where
  "example_successor = (example_plan ''s'' PS_draft [example_plan_step ''a'' [] SS_pending])\<lparr>pn_supersedes := Some [''p''],
     pn_obligationDispositions := Some [example_drop]\<rparr>"

lemma example_trims: "js_trim ''n'' = ''n''" "js_trim ''w'' = ''w''"
  by (rule js_trim_id, simp add: js_trimmed_def js_space_def)+

lemma int_str_0: "int_str 0 = ''0''"
  by code_simp

lemma example_obligations:
  "listUnresolvedPlanObligations example_host example_predecessor = [\<lparr>
     ob_obligationId = planObligationId example_host ''p'' Ob_non_goal ''non_goal:0'' ''n'', ob_predecessorPlanId = ''p'',
     ob_kind = Ob_non_goal, ob_sourceRef = ''non_goal:0'', ob_summary = ''n''\<rparr>]"
  by (simp add: listUnresolvedPlanObligations_def listPlanObligations_def example_predecessor_def example_plan_def add_indexed_def
    add_obligation_def example_trims int_str_0 Let_def)

lemma example_find: "find_plan [example_predecessor, example_successor] ''p'' = Some example_predecessor"
  by (simp add: find_plan_def example_predecessor_def example_plan_def)

lemma example_approved: "approvalErrors example_host example_successor [example_predecessor, example_successor] = []"
proof -
  have "predecessor_obligations example_host example_successor [example_predecessor, example_successor] =
      [(''p'', [planObligationId example_host ''p'' Ob_non_goal ''non_goal:0'' ''n''])]"
    unfolding predecessor_obligations_def
    by (simp add: example_successor_def js_uniq_def example_find [unfolded example_successor_def] example_obligations)
  then have "obligationContinuityErrors example_host example_successor [example_predecessor, example_successor] = []"
    unfolding obligationContinuityErrors_def Let_def
    by (simp add: example_successor_def example_drop_def example_find [unfolded example_successor_def example_drop_def]
      disposition_errors_def disposition_key_def uncovered_errors_def js_uniq_def example_trims)
  moreover have "draftContentErrors example_successor = []"
    by (simp add: draftContentErrors_def example_successor_def example_plan_def example_plan_step_def step_content_errors_def
      dependency_errors_def js_uniq_def)
  ultimately show ?thesis
    by (simp add: approvalErrors_def js_uniq_def example_successor_def example_predecessor_def example_plan_def single_predecessor_def)
qed

theorem approval_answers_every_obligation_witness:
  "\<exists>d\<in>set (coalesce (pn_obligationDispositions example_successor) []).
     od_obligationId d = planObligationId example_host ''p'' Ob_non_goal ''non_goal:0'' ''n'' \<and> od_predecessorPlanId d = ''p'' \<and>
     truthy (opt_trim (od_rationale d))"
proof -
  have "''p'' \<in> set (coalesce (pn_supersedes example_successor) [])" by (simp add: example_successor_def)
  from approval_answers_every_obligation [OF example_approved this] obtain d
    where d: "d \<in> set (coalesce (pn_obligationDispositions example_successor) [])"
      "od_predecessorPlanId d = ''p''" "od_obligationId d = planObligationId example_host ''p'' Ob_non_goal ''non_goal:0'' ''n''"
      "od_disposition d \<noteq> Disposition_keep \<longrightarrow> truthy (opt_trim (od_rationale d))"
    unfolding example_find by (auto simp: example_obligations)
  moreover have "od_disposition d = Disposition_drop" using d(1) by (simp add: example_successor_def example_drop_def)
  ultimately show ?thesis by auto
qed

section \<open>Three corners of the store\<close>

text \<open>A plan invalidated by drift is brought back by the delivery of a step that was still executing.\<close>

lemma invalidated_plan_revived:
  "\<exists>p q. pn_status p = PS_invalidated_by_drift \<and> complete_step env ''a'' (delivered ''w'') p = Inr q \<and>
     pn_status q = PS_verifying"
proof (intro exI conjI)
  let ?s = "(example_plan_step ''a'' [] SS_executing)\<lparr>pst_workId := Some ''w''\<rparr>"
  let ?p = "example_plan ''p'' PS_invalidated_by_drift [?s]"
  show "pn_status ?p = PS_invalidated_by_drift" by (simp add: example_plan_def)
  show "complete_step env ''a'' (delivered ''w'') ?p = Inr (?p\<lparr>pn_status := PS_verifying,
      pn_steps := [?s\<lparr>pst_status := SS_validating\<rparr>], pn_updatedAt := pe_now env\<rparr>)"
    by (simp add: complete_step_def Let_def example_sanitized step_at_def set_step_def example_plan_defs delivered_def delivered_work_def)
qed simp

text \<open>A draft step that carries a Work passes the checks of approval and can never be claimed.\<close>

lemma bound_draft_step_blocked:
  "\<exists>p. draftContentErrors p = [] \<and> pn_status p = PS_approved \<and> pn_requirementId p = None \<and>
     claim_step env ''a'' w (pn_sourceRevision p) p = throw ''PLAN_STEP_ALREADY_ACTIVE: a''"
proof (intro exI conjI)
  let ?s = "(example_plan_step ''a'' [] SS_pending)\<lparr>pst_workId := Some ''w''\<rparr>"
  let ?p = "(example_plan ''p'' PS_approved [?s])\<lparr>pn_requirementId := None\<rparr>"
  show "draftContentErrors ?p = []"
    by (simp add: draftContentErrors_def example_plan_def example_plan_step_def step_content_errors_def dependency_errors_def js_uniq_def)
  show "claim_step env ''a'' w (pn_sourceRevision ?p) ?p = throw ''PLAN_STEP_ALREADY_ACTIVE: a''"
    by (simp add: claim_step_def assertRequirementReference_def trim_or_none_def example_sanitized step_at_def Let_def example_plan_defs)
qed (simp_all add: example_plan_def)

text \<open>
  The identifier of a step is cut to 120 units after its dashes are stripped; one that ends in a
  dash there is not found again under its own name.
\<close>

definition long_id :: string where
  "long_id = replicate 119 CHR ''a'' @ ''-b''"

lemma cut_identifier_lost:
  "sanitizeFileComponent (take 120 (sanitizeFileComponent long_id)) \<noteq> take 120 (sanitizeFileComponent long_id)"
  by code_simp

end
