(* ===== verification/WorkStoreProperties.thy ===== *)
theory WorkStoreProperties
  imports WorkStoreFacts WorkProperties
begin

text \<open>
  The properties of the Work store, over every sequence of its operations, with a store of one
  Work that is completed on which they are evaluated.
\<close>

section \<open>An example store\<close>

definition example_store :: work_store where
  "example_store = writeWorkContractStore ''1'' [example_completed]"

definition example_env :: work_env where
  "example_env = \<lparr>we_sqlite = False, we_policy = None, we_now = ''5'', we_updateNow = ''5''\<rparr>"

definition example_ref :: evidence_ref where
  "example_ref = \<lparr>er_evidenceId = Some ''ev-1'', er_artifactId = None, er_title = ''follow-up'', er_summary = Some ''note'',
     er_detailLevel = Some Detail_summary\<rparr>"

definition example_noted :: "(work_contract \<times> work_store) res" where
  "example_noted = appendWorkEvidence example_host example_env example_store ''work-1'' example_ref"

lemma example_read: "readWorkContractStore example_host example_store = Inr [canonical example_completed]"
  unfolding example_store_def using read_written [of "[example_completed]"] example_completed_valid by simp

lemma example_history:
  "\<forall>c\<in>set [canonical example_completed]. assertImplementationReviewHistoryAppendOnly example_host
     (Some (wc_implementationReviews c)) (Some (wc_implementationReviews c)) = Inr ()"
  by (simp add: example_completed_def example_work_def history_accepted_iff)

lemma example_noted_Inr: "example_noted = Inr (projr example_noted)"
proof -
  have "isl example_noted = False" by code_simp
  then show ?thesis by simp
qed

lemma example_op: "store_op example_host example_store (snd (projr example_noted))"
  by (rule store_op.evidence [of _ example_env _ "''work-1''" example_ref "fst (projr example_noted)"])
    (use example_noted_Inr in \<open>simp add: example_noted_def\<close>)

lemma example_run: "(store_op example_host)\<^sup>*\<^sup>* example_store (snd (projr example_noted))"
  using example_op by (rule r_into_rtranclp)

text \<open>A cancelled Work that a generic update takes back to work.\<close>

definition example_cancelled :: work_contract where
  "example_cancelled = example_work\<lparr>
     wc_phase := Phase_cleanup, wc_phaseEvidence := (\<lambda>p. Some (example_checkpoint PState_skipped None)),
     wc_dispatchState := Dispatch_terminal, wc_status := Status_cancelled\<rparr>"

definition example_back_to_work :: work_patch where
  "example_back_to_work = no_patch\<lparr>wu_status := Some Status_running, wu_dispatchState := Some Dispatch_terminal\<rparr>"

lemma cancelled_work_revived:
  "map_option (\<lambda>d. (wc_status d, wc_phase d, wc_dispatchState d))
     (case apply_patch example_host (canonical example_cancelled) example_back_to_work no_permission ''5'' of Inl e \<Rightarrow> None | Inr d \<Rightarrow> Some d)
   = Some (Status_running, Phase_cleanup, Dispatch_terminal)"
  by code_simp

text \<open>
  Two completions of one Work that race: both read the Work before either has written, the first
  writes its receipt, and the second, which still sees the Work without a receipt, writes its own
  over it.  One after the other, the second is refused.
\<close>

definition example_unfinished_store :: work_store where
  "example_unfinished_store = writeWorkContractStore ''1''
     [example_completed\<lparr>wc_completionReceipt := None, wc_completionOutcome := None, wc_status := Status_running,
        wc_dispatchState := Dispatch_running, wc_evidenceState := EvState_none\<rparr>]"

definition example_completion :: "work_store \<Rightarrow> work_store \<Rightarrow> string \<Rightarrow> (work_contract \<times> work_store) res" where
  "example_completion seen store receipt = record_completion_seen example_host example_env seen store ''work-1''
     (Read_only_review_receipt (example_ro_receipt\<lparr>ro_receiptId := receipt\<rparr>)) Outcome_completed_no_change None"

lemma stale_completion_overwrites:
  "map_option receipt_id (wc_completionReceipt (fst (projr (example_completion example_unfinished_store example_unfinished_store ''receipt-9''))))
     = Some ''receipt-9''"
  "map_option receipt_id (wc_completionReceipt (fst (projr (example_completion example_unfinished_store
     (snd (projr (example_completion example_unfinished_store example_unfinished_store ''receipt-9''))) ''other'')))) = Some ''other''"
  "isl (bindE (example_completion example_unfinished_store example_unfinished_store ''receipt-9'')
     (\<lambda>(_, store). example_completion store store ''other''))"
  by code_simp+

section \<open>Properties\<close>

text \<open>
  C38.  The store stays readable: from a store whose contracts read as valid, have distinct
  identifiers and recordable review histories, every sequence of the operations (create, patch,
  resume, evidence, verification, phase transition, review, completion, supersession, rebinding,
  retirement) leads to a store that reads again, with distinct identifiers, and in which every
  contract passes the validation and is in the form reading gives.
\<close>

theorem stored_works_stay_valid:
  assumes "readWorkContractStore H S = Inr cs" and "distinct (map wc_workId cs)"
    and "\<forall>c\<in>set cs. assertImplementationReviewHistoryAppendOnly H (Some (wc_implementationReviews c))
           (Some (wc_implementationReviews c)) = Inr ()"
    and "(store_op H)\<^sup>*\<^sup>* S S'"
  shows "\<exists>ds. readWorkContractStore H S' = Inr ds \<and> distinct (map wc_workId ds) \<and>
     (\<forall>d\<in>set ds. validateWorkSemantics H d = Inr d \<and> normalizeWorkContract H (row_of d) = Inr d)"
proof -
  have "works H S cs" using assms(1-3) by (simp add: works_def)
  then obtain ds where ds: "works H S' ds" using work_stores.reachable_view [OF assms(4)] by blast
  have read: "readWorkContractStore H S' = Inr ds" and "distinct (map wc_workId ds)" using ds by (simp_all add: works_def)
  moreover have "validateWorkSemantics H d = Inr d \<and> normalizeWorkContract H (row_of d) = Inr d" if "d \<in> set ds" for d
    using read_valid [OF read that] normalize_row_of by metis
  ultimately show ?thesis by blast
qed

theorem stored_works_stay_valid_witness:
  "\<exists>ds. readWorkContractStore example_host (snd (projr example_noted)) = Inr ds \<and> distinct (map wc_workId ds) \<and>
     list_all (\<lambda>d. validateWorkSemantics example_host d = Inr d \<and> normalizeWorkContract example_host (row_of d) = Inr d) ds"
  unfolding list_all_iff
  by (rule stored_works_stay_valid [OF example_read _ example_history example_run]) simp

text \<open>
  The store refines the Work state machine: whatever operations run, every Work of the
  store is still there under its identifier, and the contract it has now is reached from the one
  it had by steps the validation of transitions accepts.
\<close>

theorem store_refines_work_steps:
  assumes "readWorkContractStore H S = Inr cs" and "distinct (map wc_workId cs)"
    and "\<forall>c\<in>set cs. assertImplementationReviewHistoryAppendOnly H (Some (wc_implementationReviews c))
           (Some (wc_implementationReviews c)) = Inr ()"
    and "(store_op H)\<^sup>*\<^sup>* S S'" and "c \<in> set cs"
  shows "\<exists>ds d. readWorkContractStore H S' = Inr ds \<and> d \<in> set ds \<and> wc_workId d = wc_workId c \<and> (work_step H)\<^sup>*\<^sup>* c d"
proof -
  have "works H S cs" using assms(1-3) by (simp add: works_def)
  then obtain ds where "works H S' ds" "evolves H cs ds" using work_stores.reachable_view [OF assms(4)] by blast
  with assms(5) show ?thesis unfolding works_def evolves_def evolved_def by blast
qed

theorem store_refines_work_steps_witness:
  "\<exists>ds d. readWorkContractStore example_host (snd (projr example_noted)) = Inr ds \<and> d \<in> set ds \<and>
     wc_workId d = ''work-1'' \<and> (work_step example_host)\<^sup>*\<^sup>* (canonical example_completed) d"
proof -
  have "wc_workId (canonical example_completed) = ''work-1''" by (simp add: example_completed_def example_work_def)
  with store_refines_work_steps [OF example_read _ example_history example_run, of "canonical example_completed"]
  show ?thesis by simp
qed

text \<open>
  C40.  Completion in the store is final: a Work stored with a completion outcome stays completed,
  with the same outcome and the same completion receipt, whatever operations run on the store.
\<close>

theorem stored_completion_is_final:
  assumes "readWorkContractStore H S = Inr cs" and "distinct (map wc_workId cs)"
    and "\<forall>c\<in>set cs. assertImplementationReviewHistoryAppendOnly H (Some (wc_implementationReviews c))
           (Some (wc_implementationReviews c)) = Inr ()"
    and "(store_op H)\<^sup>*\<^sup>* S S'" and "c \<in> set cs" and "wc_completionOutcome c = Some out"
  shows "\<exists>ds d r. readWorkContractStore H S' = Inr ds \<and> d \<in> set ds \<and> wc_workId d = wc_workId c \<and> wc_status d = Status_completed \<and>
     wc_completionReceipt c = Some r \<and> wc_completionReceipt d = Some r \<and> wc_completionOutcome d = Some out"
proof -
  have "works H S cs" using assms(1-3) by (simp add: works_def)
  then obtain ds where "works H S' ds" "evolves H cs ds" using work_stores.reachable_view [OF assms(4)] by blast
  then obtain d where d: "readWorkContractStore H S' = Inr ds" "d \<in> set ds" "evolved H c d"
    using assms(5) unfolding works_def evolves_def by blast
  have v: "validateWorkSemantics H c = Inr c" by (rule read_valid(1) [OF assms(1,5)])
  have c: "concluded out c" by (rule concludedI [OF v assms(6)])
  have "concluded out d" using d(3) concluded_steps.inv_reachable [OF _ c] unfolding evolved_def by blast
  with c d show ?thesis by (auto simp: evolved_def concluded_def)
qed

theorem stored_completion_is_final_witness:
  "\<exists>ds d r. readWorkContractStore example_host (snd (projr example_noted)) = Inr ds \<and> d \<in> set ds \<and> wc_workId d = ''work-1'' \<and>
     wc_status d = Status_completed \<and> wc_completionReceipt (canonical example_completed) = Some r \<and> wc_completionReceipt d = Some r \<and>
     wc_completionOutcome d = Some Outcome_completed_no_change"
proof -
  have "wc_workId (canonical example_completed) = ''work-1''"
    "wc_completionOutcome (canonical example_completed) = Some Outcome_completed_no_change"
    by (simp_all add: example_completed_def example_work_def)
  with stored_completion_is_final [OF example_read _ example_history example_run, of "canonical example_completed"]
  show ?thesis by simp
qed

end
