(* ===== verification/PlanLineageProperties.thy ===== *)
theory PlanLineageProperties
  imports PlanLineageFacts PlanProperties WorkStoreProperties
begin

text \<open>
  What replacing plans guarantees: one approved plan for a scope, no active Work with a plan that
  \<open>supersedePlanContract\<close> replaced in the controller store, deliveries that are carried over only
  with their proof, and Works that move only by steps of the Work state machine whatever operations
  of plans and Works interleave.
\<close>

section \<open>Example worlds\<close>

definition example_lineage_env :: "bool \<Rightarrow> lineage_env" where
  "example_lineage_env sqlite = \<lparr>ln_plan = PlanProperties.example_env,
     ln_work = WorkStoreProperties.example_env\<lparr>we_sqlite := sqlite\<rparr>, ln_contains = (\<lambda>_ _. False)\<rparr>"

definition example_repository_receipt :: repository_receipt where
  "example_repository_receipt = \<lparr>rc_receiptId = ''receipt-9'', rc_source = Rsrc_controller_work, rc_issueId = ''i'', rc_taskId = ''t'',
     rc_runId = None, rc_workId = Some ''work-1'', rc_editSessionId = None, rc_targetBranch = ''main'', rc_targetRevision = ''r1'',
     rc_sourceRevision = None, rc_baseRevision = None, rc_changedPaths = [''src/a.ts''],
     rc_delivery = \<lparr>dl_kind = Delivery_commit, dl_status = Delivery_integrated, dl_strategy = Strategy_edit_session_commit,
       dl_reachable = True, dl_recordedAt = ''2''\<rparr>,
     rc_cleanup = \<lparr>cl_status = Cleanup_complete, cl_warnings = [], cl_blockers = [], cl_recordedAt = ''2''\<rparr>,
     rc_verifiedAt = ''2'', rc_recordedAt = ''2''\<rparr>"

text \<open>A step whose Work is delivered, in a plan that drifted, and the draft that takes its delivery over.\<close>

definition example_delivered :: work_contract where
  "example_delivered = example_completed\<lparr>wc_workKind := Kind_repository_change, wc_completionOutcome := Some Outcome_completed_changed,
     wc_completionReceipt := Some (Repository_receipt example_repository_receipt), wc_readOnlyReviewEvidence := None,
     wc_requirementId := Some ''q'', wc_planId := Some ''p'', wc_planStepId := Some ''a'', wc_planSourceRevision := Some ''r1''\<rparr>"

definition example_drifted :: plan_contract where
  "example_drifted = example_plan ''p'' PS_invalidated_by_drift
     [(example_plan_step ''a'' [] SS_validating)\<lparr>pst_workId := Some ''work-1''\<rparr>]"

definition example_carrying :: plan_contract where
  "example_carrying = (example_plan ''s'' PS_draft [example_plan_step ''a'' [] SS_pending])\<lparr>pn_deliveryCarries :=
     Some [\<lparr>dc_predecessorPlanId = ''p'', dc_predecessorStepId = ''a'', dc_successorStepId = ''a'', dc_workId = ''work-1'',
       dc_completionReceiptId = ''receipt-9'', dc_deliveredSourceRevision = ''r1'', dc_recordedAt = ''t0''\<rparr>]\<rparr>"

definition example_carry_world :: plan_world where
  "example_carry_world = \<lparr>pw_plans = \<lparr>pz_updatedAt = ''t0'', pz_contracts = [example_drifted, example_carrying]\<rparr>,
     pw_works = writeWorkContractStore ''1'' [example_delivered]\<rparr>"

definition example_approval :: "(plan_contract \<times> plan_world) res" where
  "example_approval = approvePlanContract example_host (example_lineage_env False) example_carry_world ''s''"

lemma example_approval_Inr: "example_approval = Inr (fst (projr example_approval), snd (projr example_approval))"
proof -
  have "isl example_approval = False" by code_simp
  then show ?thesis by simp
qed

text \<open>A plan with an active Work, superseded by a plan that does not repeat its step.\<close>

definition example_bound :: work_contract where
  "example_bound = example_work\<lparr>wc_planId := Some ''p''\<rparr>"

definition example_bound_world :: plan_world where
  "example_bound_world = \<lparr>pw_plans = \<lparr>pz_updatedAt = ''t0'', pz_contracts = [example_predecessor, example_successor]\<rparr>,
     pw_works = writeWorkContractStore ''1'' [example_bound]\<rparr>"

definition example_supersession :: "(plan_contract \<times> plan_world) res" where
  "example_supersession =
     supersedePlanContract example_host (example_lineage_env True) example_bound_world ''p'' ''s'' ''replaced''"

lemma example_supersession_Inr: "example_supersession = Inr (fst (projr example_supersession), snd (projr example_supersession))"
proof -
  have "isl example_supersession = False" by code_simp
  then show ?thesis by simp
qed

text \<open>An active Work whose step an unapproved draft repeats: superseding the plan by the draft starts the draft.\<close>

definition example_step_work :: work_contract where
  "example_step_work = example_bound\<lparr>wc_requirementId := Some ''q'', wc_planStepId := Some ''a'', wc_planSourceRevision := Some ''r1'',
     wc_objective := ''do'', wc_acceptanceCriteria := [''works''], wc_allowedPaths := [''src''], wc_checks := [''test'']\<rparr>"

definition example_keep :: obligation_disposition where
  "example_keep = \<lparr>od_predecessorPlanId = ''p'', od_obligationId = planObligationId example_host ''p'' Ob_step_objective ''step:a'' ''do'',
     od_disposition = Disposition_keep, od_successorRefs = [''goal''], od_rationale = None\<rparr>"

definition example_draft_world :: plan_world where
  "example_draft_world = \<lparr>pw_plans = \<lparr>pz_updatedAt = ''t0'', pz_contracts =
       [example_plan ''p'' PS_executing [(example_plan_step ''a'' [] SS_executing)\<lparr>pst_workId := Some ''work-1''\<rparr>],
        (example_plan ''s'' PS_draft [example_plan_step ''a'' [] SS_pending])\<lparr>pn_obligationDispositions := Some [example_keep]\<rparr>]\<rparr>,
     pw_works = writeWorkContractStore ''1'' [example_step_work]\<rparr>"

lemma unapproved_successor_executes:
  "(case supersedePlanContract example_host (example_lineage_env True) example_draft_world ''p'' ''s'' ''replaced'' of
      Inl e \<Rightarrow> [] | Inr (p, y) \<Rightarrow> map (\<lambda>q. (pn_planId q, pn_status q)) (plans_of y)) =
   [(''p'', PS_superseded), (''s'', PS_executing)]"
  by code_simp

section \<open>Properties\<close>

text \<open>
  C3.  One approved plan for a scope: a plan that is approved becomes approved, verifying (when
  deliveries are carried over) or executing (when active Works are), and no other plan is then
  approved or under way for the same scope key.
\<close>

theorem approval_owns_scope:
  assumes "approvePlanContract H env x i = Inr (p, y)"
  shows "pn_status p \<in> {PS_approved, PS_verifying, PS_executing} \<and>
     (\<forall>q\<in>set (plans_of y). pn_planId q \<noteq> pn_planId p \<longrightarrow> pn_scopeKey q = pn_scopeKey p \<longrightarrow> \<not> scopeIsCommitted (pn_status q))"
  using assms
proof (rule approve_cases)
  fix k steps n
  let ?c = "plans_of x ! k" and ?at = "pe_now (ln_plan env)"
  assume k: "k < length (plans_of x)" "approvalErrors H ?c (plans_of x) = []" and t: "takes_over (approved_plan ?c steps n ?at) p"
    and none: "staged_predecessor ?c (plans_of x) = None \<Longrightarrow> plans_of y = (plans_of x)[k := p] \<and> pw_works y = pw_works x"
    and some: "\<And>q. staged_predecessor ?c (plans_of x) = Some q \<Longrightarrow>
       set (plans_of y) \<subseteq> insert p (insert (superseded_plan q (pn_planId p) ''extend_existing'' ?at)
         {c \<in> set (plans_of x). pn_planId c \<noteq> pn_planId q \<and> pn_planId c \<noteq> pn_planId p}) \<and>
       (pn_planId q \<noteq> pn_planId p \<longrightarrow> p \<in> set (plans_of y)) \<and>
       (we_sqlite (ln_work env) \<longrightarrow> holds_no_work (pn_planId q) (wks_rows (pw_works y)))"
  have p: "pn_planId p = pn_planId ?c" "pn_scopeKey p = pn_scopeKey ?c" "pn_status p \<in> {PS_approved, PS_verifying, PS_executing}"
    using t by (auto simp: takes_over_def approved_plan_def split: if_splits)
  have "\<not> scopeIsCommitted (pn_status q)"
    if q: "q \<in> set (plans_of y)" "pn_planId q \<noteq> pn_planId p" "pn_scopeKey q = pn_scopeKey p" for q
  proof
    assume committed: "scopeIsCommitted (pn_status q)"
    show False
    proof (cases "staged_predecessor ?c (plans_of x)")
      case None
      with none q have "q \<in> set (plans_of x)" using set_update_subset_insert [of "plans_of x" k p] by auto
      from approval_no_owner [OF k(2) this] q p committed
      have "single_predecessor ?c = Some (pn_planId q)" "pn_status q = PS_replanning" by simp_all
      with None \<open>q \<in> set (plans_of x)\<close> show False by (simp add: staged_predecessor_def find_None_iff)
    next
      case (Some r)
      then have r: "single_predecessor ?c = Some (pn_planId r)"
        by (auto simp: staged_predecessor_def Option.bind_eq_Some_conv find_Some_iff)
      consider "q = superseded_plan r (pn_planId p) ''extend_existing'' ?at" | "q \<in> set (plans_of x)" "pn_planId q \<noteq> pn_planId r"
        using some [OF Some] q by auto
      then show False
      proof cases
        case 1
        with committed show False by (simp add: superseded_plan_def scopeIsCommitted_def)
      next
        case 2
        with approval_no_owner [OF k(2) 2(1)] q p committed r show False by auto
      qed
    qed
  qed
  with p show ?thesis by blast
qed

theorem approval_owns_scope_witness:
  "pn_status (fst (projr example_approval)) \<in> {PS_approved, PS_verifying, PS_executing} \<and>
     list_all (\<lambda>q. scopeIsCommitted (pn_status q) = False)
       (filter (\<lambda>q. pn_planId q \<noteq> pn_planId (fst (projr example_approval)) \<and> pn_scopeKey q = pn_scopeKey (fst (projr example_approval)))
         (plans_of (snd (projr example_approval))))"
  using approval_owns_scope [OF example_approval_Inr [unfolded example_approval_def]]
  unfolding example_approval_def [symmetric] list_all_iff by simp

text \<open>
  In the SQLite store, a plan that \<open>supersedePlanContract\<close> replaces by another holds no active Work:
  every Work still bound to the replaced plan is ended; the others were moved to the successor.
  (The JSON store moves no Work, and \<open>replanActivePlanBoundWorkScope\<close> rebinds one Work only.)
\<close>

theorem superseded_plan_holds_no_work:
  assumes "supersedePlanContract H env x i j why = Inr (p, y)" and "we_sqlite (ln_work env)"
  shows "pn_status p = PS_superseded \<and>
     (\<forall>row\<in>set (wks_rows (pw_works y)). wc_planId (rw_contract row) = Some (pn_planId p) \<longrightarrow> raw_terminal row)"
proof -
  let ?at = "pe_now (ln_plan env)"
  from assms(1) obtain contracts successor q current t r where
      w: "writePlanSupersessionWithWorkRetirement H env x contracts (superseded_plan current t r ?at) successor ?at = Inr (q, y)"
    and p: "p = superseded_plan current t r ?at"
    unfolding supersedePlanContract_def Let_def by (auto simp: bindE_eq_Inr split: option.splits)
  from supersession_facts(3) [OF w assms(2)] show ?thesis
    unfolding p holds_no_work_def by (simp add: superseded_plan_def)
qed

theorem superseded_plan_holds_no_work_witness:
  "pn_status (fst (projr example_supersession)) = PS_superseded \<and>
     list_all raw_terminal (filter (\<lambda>row. wc_planId (rw_contract row) = Some (pn_planId (fst (projr example_supersession))))
       (wks_rows (pw_works (snd (projr example_supersession)))))"
  using superseded_plan_holds_no_work [OF example_supersession_Inr [unfolded example_supersession_def]]
  unfolding example_supersession_def [symmetric] list_all_iff
  by (auto simp: example_lineage_env_def)

text \<open>
  A step is left validating only with a delivery: a step that an approval leaves validating is bound
  to a stored Work that is completed for this step and this requirement, with a receipt of its own
  whose delivery is integrated and reachable, whose cleanup is not blocked, and whose revision is
  the source of the plan or contained in it.
\<close>

theorem carried_step_is_delivered:
  assumes "approvePlanContract H env x i = Inr (p, y)" and "s \<in> set (pn_steps p)" and "pst_status s = SS_validating"
  shows "\<exists>work receipt delivery cleanup target w. pst_workId s = Some (wc_workId work) \<and>
     getWorkContract H (ln_work env) (pw_works x) w = Inr (Some work) \<and>
     wc_status work = Status_completed \<and> wc_planStepId work = Some (pst_id s) \<and> wc_requirementId work = pn_requirementId p \<and>
     wc_completionReceipt work = Some receipt \<and> receipt_work_id receipt = Some (wc_workId work) \<and>
     repository_delivery receipt = Some (delivery, cleanup, target) \<and>
     dl_status delivery = Delivery_integrated \<and> dl_reachable delivery \<and> cl_status cleanup \<noteq> Cleanup_blocked \<and>
     (js_trim target = js_trim (pn_sourceRevision p) \<or> ln_contains env (js_trim target) (js_trim (pn_sourceRevision p)))"
  using assms(1)
proof (rule approve_cases)
  fix k steps n
  let ?c = "plans_of x ! k" and ?at = "pe_now (ln_plan env)"
  assume e: "approvalErrors H ?c (plans_of x) = []" and t: "takes_over (approved_plan ?c steps n ?at) p"
    and m: "materializePlanStepDeliveryCarries H env x ?c (plans_of x) = Inr (steps, n)"
  have same: "pn_requirementId ?c = pn_requirementId p" "pn_sourceRevision ?c = pn_sourceRevision p"
    using t by (simp_all add: takes_over_def approved_plan_def)
  have "s \<in> set (projectDependencyReadySteps steps)" using t assms(2,3) by (auto simp: takes_over_def approved_plan_def)
  then have s: "s \<in> set steps" using assms(3) by (auto simp: in_projected split: if_splits)
  from m have "materialize_carries H env x ?c (plans_of x) [] (coalesce (pn_deliveryCarries ?c) []) (pn_steps ?c) = Inr steps"
    by (simp add: materializePlanStepDeliveryCarries_def Let_def bindE_eq_Inr)
  from materialized_steps [OF this s] approval_pending [OF e] assms(3) have "proven_carry H env x ?c s" by auto
  then show ?thesis unfolding proven_carry_def same .
qed

theorem carried_step_is_delivered_witness:
  "\<exists>s (work :: work_contract) receipt. s \<in> set (pn_steps (fst (projr example_approval))) \<and> pst_status s = SS_validating \<and>
     pst_workId s = Some (wc_workId work) \<and> wc_status work = Status_completed \<and>
     wc_completionReceipt work = Some receipt \<and> receipt_work_id receipt = Some (wc_workId work)"
proof -
  have "map pst_status (pn_steps (fst (projr example_approval))) = [SS_validating]" by code_simp
  then obtain s where "s \<in> set (pn_steps (fst (projr example_approval)))" "pst_status s = SS_validating" by force
  note s = this
  from carried_step_is_delivered [OF example_approval_Inr [unfolded example_approval_def], folded example_approval_def, OF s]
  obtain work :: work_contract and receipt where "pst_workId s = Some (wc_workId work)" "wc_status work = Status_completed"
    "wc_completionReceipt work = Some receipt" "receipt_work_id receipt = Some (wc_workId work)" by blast
  with s show ?thesis by blast
qed

text \<open>
  C39.  Plans and Works together refine the Work state machine: whatever operations of plans and
  Works interleave (creating, admitting, repairing, approving and superseding plans, claiming,
  delivering, accepting and repairing steps, widening a scope, retiring the Works of ended
  plans, and every operation of the Work store), every Work stays under its identifier, reaches
  its contract by steps the validation accepts, and keeps a receipt it has.
\<close>

theorem control_operations_refine_work_steps:
  assumes "readWorkContractStore H (pw_works x) = Inr cs" and "distinct (map wc_workId cs)"
    and "\<forall>c\<in>set cs. assertImplementationReviewHistoryAppendOnly H (Some (wc_implementationReviews c))
           (Some (wc_implementationReviews c)) = Inr ()"
    and "(control_op H)\<^sup>*\<^sup>* x y" and "c \<in> set cs"
  shows "\<exists>ds d. readWorkContractStore H (pw_works y) = Inr ds \<and> d \<in> set ds \<and> wc_workId d = wc_workId c \<and>
     (work_step H)\<^sup>*\<^sup>* c d \<and> (wc_completionReceipt c = None \<or> wc_completionReceipt d = wc_completionReceipt c)"
proof -
  have "works H (pw_works x) cs" using assms(1-3) by (simp add: works_def)
  then obtain ds where "works H (pw_works y) ds" "evolves H cs ds" using controlled.reachable_view [OF assms(4)] by blast
  with assms(5) show ?thesis unfolding works_def evolves_def evolved_def by blast
qed

lemma example_bound_valid: "validateWorkSemantics example_host example_bound = Inr example_bound"
  unfolding validate_work_iff by (intro conjI refl) code_simp+

theorem control_operations_refine_work_steps_witness:
  "\<exists>ds d. readWorkContractStore example_host (pw_works (snd (projr example_supersession))) = Inr ds \<and> d \<in> set ds \<and>
     wc_workId d = ''work-1'' \<and> (work_step example_host)\<^sup>*\<^sup>* (canonical example_bound) d"
proof -
  have read: "readWorkContractStore example_host (pw_works example_bound_world) = Inr [canonical example_bound]"
    unfolding example_bound_world_def using read_written [of "[example_bound]"] example_bound_valid by simp
  have op: "(control_op example_host)\<^sup>*\<^sup>* example_bound_world (snd (projr example_supersession))"
    using control_op.supersede [OF example_supersession_Inr [unfolded example_supersession_def]]
    unfolding example_supersession_def by (rule r_into_rtranclp)
  have h: "\<forall>c\<in>set [canonical example_bound]. assertImplementationReviewHistoryAppendOnly example_host
     (Some (wc_implementationReviews c)) (Some (wc_implementationReviews c)) = Inr ()"
    by (simp add: example_bound_def example_work_def history_accepted_iff)
  have "wc_workId (canonical example_bound) = ''work-1''" by (simp add: example_bound_def example_work_def)
  with control_operations_refine_work_steps [OF read _ h op, of "canonical example_bound"] show ?thesis by auto
qed

end
