(* ===== verification/ControlRecords.thy ===== *)
theory ControlRecords
  imports Prelude
begin

text \<open>
  The control plane's record store (\<open>src/runtime/control-plane/persistence/sqlite-store.ts\<close>):
  records under a namespace, a scope and a key, each with a revision, and an audit of every
  revision ever given out.  A transaction is one step of the model: the code runs it under the
  write lock of SQLite and rolls it back when it throws, which a result of \<open>Inl\<close> with the state
  left as it was stands for.  A payload is a value, or \<open>None\<close> where \<open>JSON.parse\<close> does not read it.
  Opening, checking, compacting and copying the database file are not modelled.
\<close>

section \<open>Records and the audit\<close>

type_synonym record_id = "string \<times> string \<times> string"

record 'v stored_row =
  sr_namespace :: string
  sr_scope :: string
  sr_key :: string
  sr_schemaVersion :: int
  sr_revision :: int
  sr_payload :: "'v option"
  sr_createdAt :: string
  sr_updatedAt :: string

record 'v control_record =
  cpr_namespace :: string
  cpr_scope :: string
  cpr_key :: string
  cpr_schemaVersion :: int
  cpr_revision :: int
  cpr_value :: 'v
  cpr_createdAt :: string
  cpr_updatedAt :: string

record audit_event =
  av_id :: record_id
  av_action :: string
  av_revision :: int
  av_occurredAt :: string

record 'v database =
  db_records :: "'v stored_row list"
  db_audit :: "audit_event list"

definition record_id_of :: "'v stored_row \<Rightarrow> record_id" where
  "record_id_of row = (sr_namespace row, sr_scope row, sr_key row)"

fun id_text :: "record_id \<Rightarrow> string" where
  "id_text (namespace, scope, key) = namespace @ ''/'' @ scope @ ''/'' @ key"

text \<open>\<open>JSON.parse\<close> of the payload of a row.\<close>

definition rowToRecord :: "'v stored_row \<Rightarrow> 'v control_record res" where
  "rowToRecord row =
     (case sr_payload row of
        None \<Rightarrow> throw (''CONTROL_PLANE_RECORD_CORRUPT: '' @ id_text (record_id_of row))
      | Some v \<Rightarrow> Inr \<lparr>cpr_namespace = sr_namespace row, cpr_scope = sr_scope row, cpr_key = sr_key row,
          cpr_schemaVersion = sr_schemaVersion row, cpr_revision = sr_revision row, cpr_value = v,
          cpr_createdAt = sr_createdAt row, cpr_updatedAt = sr_updatedAt row\<rparr>)"

definition selectRecord :: "'v database \<Rightarrow> record_id \<Rightarrow> 'v control_record option res" where
  "selectRecord db i =
     (case find (\<lambda>row. record_id_of row = i) (db_records db) of
        None \<Rightarrow> Inr None
      | Some row \<Rightarrow> bindE (rowToRecord row) (\<lambda>r. Inr (Some r)))"

section \<open>Writing\<close>

text \<open>\<open>SELECT MAX(revision)\<close> over the audit of a record, 0 where it has none.\<close>

definition audited_revisions :: "'v database \<Rightarrow> record_id \<Rightarrow> int list" where
  "audited_revisions db i = map av_revision (filter (\<lambda>a. av_id a = i) (db_audit db))"

definition safe_integer :: "int \<Rightarrow> bool" where
  "safe_integer n \<longleftrightarrow> \<bar>n\<bar> \<le> 9007199254740991"

definition last_audited :: "'v database \<Rightarrow> record_id \<Rightarrow> int" where
  "last_audited db i = (let rs = audited_revisions db i in if rs = [] then 0 else Max (set rs))"

record 'v record_write =
  cpw_id :: record_id
  cpw_schemaVersion :: int
  cpw_value :: 'v
  cpw_action :: string

definition next_revision :: "'v database \<Rightarrow> record_id \<Rightarrow> 'v control_record option \<Rightarrow> int" where
  "next_revision db i existing =
     (case existing of Some r \<Rightarrow> cpr_revision r + 1 | None \<Rightarrow> max 0 (if safe_integer (last_audited db i) then last_audited db i else 0) + 1)"

text \<open>\<open>INSERT \<dots> ON CONFLICT DO UPDATE\<close>: the row keeps its place and its creation time.\<close>

fun upsert_row :: "'v stored_row \<Rightarrow> 'v stored_row list \<Rightarrow> 'v stored_row list" where
  "upsert_row new [] = [new]"
| "upsert_row new (row # rows) =
     (if record_id_of row = record_id_of new then new\<lparr>sr_createdAt := sr_createdAt row\<rparr> # rows
      else row # upsert_row new rows)"

definition writeRecord :: "string \<Rightarrow> 'v database \<Rightarrow> 'v record_write \<Rightarrow> 'v control_record option \<Rightarrow> 'v control_record \<times> 'v database" where
  "writeRecord stamp db w existing =
     (let (namespace, scope, key) = cpw_id w;
          revision = next_revision db (cpw_id w) existing;
          createdAt = (case existing of Some r \<Rightarrow> cpr_createdAt r | None \<Rightarrow> stamp)
      in (\<lparr>cpr_namespace = namespace, cpr_scope = scope, cpr_key = key, cpr_schemaVersion = cpw_schemaVersion w,
            cpr_revision = revision, cpr_value = cpw_value w, cpr_createdAt = createdAt, cpr_updatedAt = stamp\<rparr>,
          \<lparr>db_records = upsert_row \<lparr>sr_namespace = namespace, sr_scope = scope, sr_key = key,
              sr_schemaVersion = cpw_schemaVersion w, sr_revision = revision, sr_payload = Some (cpw_value w),
              sr_createdAt = createdAt, sr_updatedAt = stamp\<rparr> (db_records db),
            db_audit = db_audit db @ [\<lparr>av_id = cpw_id w, av_action = cpw_action w, av_revision = revision,
              av_occurredAt = stamp\<rparr>]\<rparr>))"

text \<open>
  The precondition of a write: \<open>undefined\<close> (here \<open>None\<close>) asks nothing, \<open>null\<close> (\<open>Some None\<close>) asks
  for no record, a number for exactly that revision.
\<close>

definition revision_text :: "int option \<Rightarrow> string" where
  "revision_text r = (case r of None \<Rightarrow> ''absent'' | Some n \<Rightarrow> int_str n)"

definition conflict_error :: "record_id \<Rightarrow> int option \<Rightarrow> int option \<Rightarrow> string" where
  "conflict_error i expected actual =
     ''CONTROL_PLANE_REVISION_CONFLICT: '' @ id_text i @ '' expected='' @ revision_text expected @ '' actual='' @ revision_text actual"

definition expected_revision_holds :: "int option option \<Rightarrow> 'v control_record option \<Rightarrow> bool" where
  "expected_revision_holds expected existing =
     (case expected of
        None \<Rightarrow> True
      | Some e \<Rightarrow> e = map_option cpr_revision existing)"

definition writeControlPlaneRecordWithinTransaction ::
    "string \<Rightarrow> 'v database \<Rightarrow> 'v record_write \<Rightarrow> int option option \<Rightarrow> ('v control_record \<times> 'v database) res" where
  "writeControlPlaneRecordWithinTransaction stamp db w expected =
     bindE (selectRecord db (cpw_id w)) (\<lambda>existing.
     bindE (throw_if (\<not> expected_revision_holds expected existing)
              (conflict_error (cpw_id w) (coalesce expected None) (map_option cpr_revision existing))) (\<lambda>_.
     Inr (writeRecord stamp db w existing)))"

text \<open>Deleting one record, and every record of a scope.\<close>

definition audit_deletion :: "string \<Rightarrow> string \<Rightarrow> 'v stored_row \<Rightarrow> audit_event" where
  "audit_deletion action stamp row =
     \<lparr>av_id = record_id_of row, av_action = action, av_revision = sr_revision row + 1, av_occurredAt = stamp\<rparr>"

definition deleteControlPlaneRecordWithinTransaction ::
    "string \<Rightarrow> 'v database \<Rightarrow> record_id \<Rightarrow> string option \<Rightarrow> int option \<Rightarrow> (bool \<times> 'v database) res" where
  "deleteControlPlaneRecordWithinTransaction stamp db i action expected =
     bindE (selectRecord db i) (\<lambda>existing.
     bindE (throw_if (expected \<noteq> None \<and> map_option cpr_revision existing \<noteq> expected)
              (conflict_error i expected (map_option cpr_revision existing))) (\<lambda>_.
     case existing of
       None \<Rightarrow> Inr (False, db)
     | Some r \<Rightarrow> Inr (True, \<lparr>db_records = filter (\<lambda>row. record_id_of row \<noteq> i) (db_records db),
         db_audit = db_audit db @ [\<lparr>av_id = i, av_action = coalesce action ''delete'', av_revision = cpr_revision r + 1,
           av_occurredAt = stamp\<rparr>]\<rparr>)))"

definition in_scope :: "string \<Rightarrow> string \<Rightarrow> 'v stored_row \<Rightarrow> bool" where
  "in_scope namespace scope row \<longleftrightarrow> sr_namespace row = namespace \<and> sr_scope row = scope"

definition deleteControlPlaneRecordsWithinTransaction ::
    "string \<Rightarrow> 'v database \<Rightarrow> string \<Rightarrow> string \<Rightarrow> string option \<Rightarrow> nat \<times> 'v database" where
  "deleteControlPlaneRecordsWithinTransaction stamp db namespace scope action =
     (let rows = sort_by (\<lambda>a b. unit_cmp (sr_key a) (sr_key b)) (filter (in_scope namespace scope) (db_records db)) in
      (length rows,
       \<lparr>db_records = filter (\<lambda>row. \<not> in_scope namespace scope row) (db_records db),
        db_audit = db_audit db @ map (audit_deletion (coalesce action ''delete_scope'') stamp) rows\<rparr>))"

section \<open>Listing\<close>

definition record_order :: "'v stored_row \<Rightarrow> 'v stored_row \<Rightarrow> int" where
  "record_order a b = cmp_then (unit_cmp (sr_updatedAt a) (sr_updatedAt b)) (unit_cmp (sr_key a) (sr_key b))"

definition in_listing :: "string \<Rightarrow> string option \<Rightarrow> 'v stored_row \<Rightarrow> bool" where
  "in_listing namespace scope row \<longleftrightarrow> sr_namespace row = namespace \<and> (scope = None \<or> scope = Some (sr_scope row))"

definition listAllControlPlaneRecordsWithinTransaction ::
    "'v database \<Rightarrow> string \<Rightarrow> string option \<Rightarrow> 'v control_record list res" where
  "listAllControlPlaneRecordsWithinTransaction db namespace scope =
     map_res rowToRecord (sort_by record_order (filter (in_listing namespace scope) (db_records db)))"

definition list_limit :: "int option \<Rightarrow> nat" where
  "list_limit limit = nat (max 1 (min (coalesce limit 1000) 5000))"

definition listControlPlaneRecordsWithinTransaction ::
    "'v database \<Rightarrow> string \<Rightarrow> string option \<Rightarrow> int option \<Rightarrow> 'v control_record list res" where
  "listControlPlaneRecordsWithinTransaction db namespace scope limit =
     map_res rowToRecord (take (list_limit limit) (sort_by record_order (filter (in_listing namespace scope) (db_records db))))"

section \<open>Read, import and mutate\<close>

definition readOrImportControlPlaneRecord ::
    "string \<Rightarrow> 'v database \<Rightarrow> record_id \<Rightarrow> int \<Rightarrow> 'v option \<Rightarrow> ('v control_record option \<times> 'v database) res" where
  "readOrImportControlPlaneRecord stamp db i schemaVersion legacy =
     bindE (selectRecord db i) (\<lambda>existing.
     case existing of
       Some r \<Rightarrow> Inr (Some r, db)
     | None \<Rightarrow>
         (case legacy of
            None \<Rightarrow> Inr (None, db)
          | Some v \<Rightarrow>
              let (r, db') = writeRecord stamp db \<lparr>cpw_id = i, cpw_schemaVersion = schemaVersion, cpw_value = v,
                 cpw_action = ''legacy_import''\<rparr> None
              in Inr (Some r, db')))"

text \<open>The legacy value of a missing record is written first, and the mutation as the revision after it.\<close>

definition mutateControlPlaneRecord ::
    "string \<Rightarrow> 'v database \<Rightarrow> record_id \<Rightarrow> int \<Rightarrow> 'v option \<Rightarrow> string \<Rightarrow> ('v control_record option \<Rightarrow> 'v res) \<Rightarrow>
     ('v control_record \<times> 'v database) res" where
  "mutateControlPlaneRecord stamp db i schemaVersion legacy action mutate =
     bindE (readOrImportControlPlaneRecord stamp db i schemaVersion legacy) (\<lambda>(current, db').
     bindE (mutate current) (\<lambda>v.
     Inr (writeRecord stamp db' \<lparr>cpw_id = i, cpw_schemaVersion = schemaVersion, cpw_value = v, cpw_action = action\<rparr> current)))"

section \<open>Inspection\<close>

text \<open>
  A record whose audit is not continuous: the distinct audited revisions between 1 and its own are
  not as many as its revision, or the audit does not start at 1, or does not end at its revision.
\<close>

definition first_audited :: "'v database \<Rightarrow> record_id \<Rightarrow> int" where
  "first_audited db i = (let rs = audited_revisions db i in if rs = [] then 0 else Min (set rs))"

definition orphaned :: "'v database \<Rightarrow> 'v stored_row \<Rightarrow> bool" where
  "orphaned db row \<longleftrightarrow>
     int (card (set (filter (\<lambda>r. 1 \<le> r \<and> r \<le> sr_revision row) (audited_revisions db (record_id_of row))))) \<noteq> sr_revision row
     \<or> first_audited db (record_id_of row) \<noteq> 1
     \<or> last_audited db (record_id_of row) \<noteq> sr_revision row"

definition orphanRecordCount :: "'v database \<Rightarrow> nat" where
  "orphanRecordCount db = length (filter (orphaned db) (db_records db))"

definition inspectOpenDatabase :: "string \<Rightarrow> 'v database \<Rightarrow> (nat \<times> nat) res" where
  "inspectOpenDatabase path db =
     bindE (throw_if (orphanRecordCount db > 0)
       (''CONTROL_PLANE_AUDIT_CONTINUITY_INVALID: '' @ path @ '': discontinuous_records='' @ int_str (int (orphanRecordCount db)))) (\<lambda>_.
     Inr (length (db_records db), length (db_audit db)))"

end
