(* ===== verification/ControlRecordFacts.thy ===== *)
theory ControlRecordFacts
  imports ControlRecords Contracts
begin

text \<open>
  Facts on the record store: every operation is a sequence of commits that each give one record
  its next revision; along commits the audit of a record is the list of its revisions from 1 on,
  and a record that has the revision it had is the record it was.
\<close>

section \<open>Rows\<close>

definition row_of_id :: "'v database \<Rightarrow> record_id \<Rightarrow> 'v stored_row option" where
  "row_of_id db i = find (\<lambda>row. record_id_of row = i) (db_records db)"

lemma find_upsert:
  "find (\<lambda>row. record_id_of row = i) (upsert_row new rows) =
     (if record_id_of new = i
      then Some (new\<lparr>sr_createdAt := (case find (\<lambda>row. record_id_of row = i) rows of None \<Rightarrow> sr_createdAt new | Some row \<Rightarrow> sr_createdAt row)\<rparr>)
      else find (\<lambda>row. record_id_of row = i) rows)"
  by (induction rows) (auto simp: record_id_of_def)

lemma ids_upsert:
  "map record_id_of (upsert_row new rows) =
     (if record_id_of new \<in> set (map record_id_of rows) then map record_id_of rows else map record_id_of rows @ [record_id_of new])"
  by (induction rows) (auto simp: record_id_of_def)

lemma in_upsert: "row \<in> set (upsert_row new rows) \<Longrightarrow> row \<in> set rows \<or> (\<exists>t. row = new\<lparr>sr_createdAt := t\<rparr>)"
  by (induction rows) (auto split: if_splits intro: exI [of _ "sr_createdAt new"])

lemma find_filter_other:
  "i \<noteq> j \<Longrightarrow> find (\<lambda>row. record_id_of row = i) (filter (\<lambda>row. record_id_of row \<noteq> j) rows) = find (\<lambda>row. record_id_of row = i) rows"
  by (induction rows) auto

lemma find_row_SomeD: "find (\<lambda>row. record_id_of row = i) rows = Some row \<Longrightarrow> row \<in> set rows \<and> record_id_of row = i"
  by (auto simp: find_Some_iff)

lemma row_of_distinct:
  assumes "distinct (map record_id_of rows)" and "row \<in> set rows"
  shows "find (\<lambda>r. record_id_of r = record_id_of row) rows = Some row"
  using assms by (induction rows) force+

lemma record_id_of_make [simp]:
  "record_id_of \<lparr>sr_namespace = ns, sr_scope = sc, sr_key = k, sr_schemaVersion = v, sr_revision = n,
     sr_payload = p, sr_createdAt = c, sr_updatedAt = u\<rparr> = (ns, sc, k)"
  by (simp add: record_id_of_def)

section \<open>Commits\<close>

definition given_revisions :: "'v database \<Rightarrow> record_id \<Rightarrow> int" where
  "given_revisions db i = int (length (audited_revisions db i))"

text \<open>What every operation keeps of the database.\<close>

definition audit_ok :: "'v database \<Rightarrow> bool" where
  "audit_ok db \<longleftrightarrow> distinct (map record_id_of (db_records db)) \<and>
     (\<forall>i. audited_revisions db i = [1..given_revisions db i]) \<and>
     (\<forall>row\<in>set (db_records db). sr_revision row = given_revisions db (record_id_of row) \<and> sr_revision row > 0)"

lemma audit_okD:
  assumes "audit_ok db"
  shows "audited_revisions db i = [1..given_revisions db i]"
  using assms unfolding audit_ok_def by blast

text \<open>One record gets its next revision: a row of that revision, or none.\<close>

inductive commit :: "'v database \<Rightarrow> 'v database \<Rightarrow> bool" where
  put: "sr_revision row = given_revisions db (record_id_of row) + 1 \<Longrightarrow> av_id e = record_id_of row \<Longrightarrow>
     av_revision e = sr_revision row \<Longrightarrow>
     commit db \<lparr>db_records = upsert_row row (db_records db), db_audit = db_audit db @ [e]\<rparr>"
| remove: "av_revision e = given_revisions db (av_id e) + 1 \<Longrightarrow>
     commit db \<lparr>db_records = filter (\<lambda>row. record_id_of row \<noteq> av_id e) (db_records db), db_audit = db_audit db @ [e]\<rparr>"

lemma audited_snoc:
  "audited_revisions \<lparr>db_records = rows, db_audit = db_audit db @ [e]\<rparr> i =
     audited_revisions db i @ (if av_id e = i then [av_revision e] else [])"
  by (simp add: audited_revisions_def)

lemma given_snoc:
  "given_revisions \<lparr>db_records = rows, db_audit = db_audit db @ [e]\<rparr> i = given_revisions db i + (if av_id e = i then 1 else 0)"
  by (simp add: given_revisions_def audited_snoc)

lemma commit_given: "commit db db' \<Longrightarrow> given_revisions db i \<le> given_revisions db' i"
  by (cases rule: commit.cases) (auto simp: given_snoc)

lemma commit_row:
  assumes "commit db db'" and "given_revisions db' i = given_revisions db i"
  shows "row_of_id db' i = row_of_id db i"
  using assms by (cases rule: commit.cases)
    (auto simp: given_snoc row_of_id_def find_upsert find_filter_other split: if_splits)

lemma revisions_snoc: "0 \<le> n \<Longrightarrow> [1..n] @ [n + 1] = [1..n + (1 :: int)]"
  by (simp add: upto_rec2)

lemma given_nonneg [simp]: "0 \<le> given_revisions db i"
  by (simp add: given_revisions_def)

lemma commit_ok:
  assumes "audit_ok db" and "commit db db'"
  shows "audit_ok db'"
  using assms(2)
proof cases
  case (put row e)
  have ids: "distinct (map record_id_of (db_records db'))"
    using assms(1) by (auto simp: put(1) ids_upsert audit_ok_def)
  have revs: "audited_revisions db' i = [1..given_revisions db' i]" for i
    using audit_okD [OF assms(1), of i] put(2-4) by (simp add: put(1) audited_snoc given_snoc revisions_snoc)
  have "sr_revision r = given_revisions db' (record_id_of r) \<and> sr_revision r > 0" if r: "r \<in> set (db_records db')" for r
  proof (cases "record_id_of r = record_id_of row")
    case True
    have "row_of_id db' (record_id_of row) = Some r"
      using row_of_distinct [OF ids r] True by (simp add: row_of_id_def)
    then have "sr_revision r = sr_revision row" by (auto simp: row_of_id_def put(1) find_upsert)
    then show ?thesis using True put(2,3) by (simp add: put(1) given_snoc)
  next
    case False
    then have "r \<in> set (db_records db)" using in_upsert [of r row "db_records db"] r put(1) by (auto simp: record_id_of_def)
    then show ?thesis using assms(1) False put(3) by (auto simp: put(1) given_snoc audit_ok_def)
  qed
  with ids revs show ?thesis unfolding audit_ok_def by blast
next
  case (remove e)
  have "distinct (map record_id_of (db_records db'))"
    using assms(1) by (auto simp: remove(1) audit_ok_def distinct_map_filter)
  moreover have "audited_revisions db' i = [1..given_revisions db' i]" for i
    using audit_okD [OF assms(1), of i] remove(2) by (simp add: remove(1) audited_snoc given_snoc revisions_snoc)
  moreover have "sr_revision r = given_revisions db' (record_id_of r) \<and> sr_revision r > 0" if "r \<in> set (db_records db')" for r
    using assms(1) that by (auto simp: remove(1) given_snoc audit_ok_def)
  ultimately show ?thesis unfolding audit_ok_def by blast
qed

section \<open>Every operation is a sequence of commits\<close>

lemma max_audited:
  assumes "audit_ok db"
  shows "last_audited db i = given_revisions db i"
proof -
  note r = audit_okD [OF assms, of i]
  show ?thesis
  proof (cases "given_revisions db i = 0")
    case True
    then show ?thesis by (simp add: last_audited_def r)
  next
    case False
    then have "1 \<le> given_revisions db i" using given_nonneg [of db i] by linarith
    then have "Max {1..given_revisions db i} = given_revisions db i" by (intro Max_eqI) auto
    with False show ?thesis using \<open>1 \<le> given_revisions db i\<close> by (simp add: last_audited_def r Let_def)
  qed
qed

lemma given_bounded: "given_revisions db i \<le> int (length (db_audit db))"
  by (simp add: given_revisions_def audited_revisions_def)

text \<open>A record that is read is the row under its identifier, and has the newest revision.\<close>

lemma select_Some:
  assumes "selectRecord db i = Inr (Some r)"
  shows "\<exists>row. row_of_id db i = Some row \<and> rowToRecord row = Inr r \<and> cpr_revision r = sr_revision row"
proof -
  from assms obtain row where "row_of_id db i = Some row" "rowToRecord row = Inr r"
    by (auto simp: selectRecord_def row_of_id_def bindE_eq_Inr split: option.splits)
  then show ?thesis by (auto simp: rowToRecord_def split: option.splits)
qed

lemma select_None: "selectRecord db i = Inr None \<longleftrightarrow> row_of_id db i = None"
  by (auto simp: selectRecord_def row_of_id_def bindE_eq_Inr split: option.splits)

lemma selected_revision:
  assumes "audit_ok db" and "selectRecord db i = Inr (Some r)"
  shows "cpr_revision r = given_revisions db i"
proof -
  obtain row where row: "row_of_id db i = Some row" "cpr_revision r = sr_revision row" using select_Some [OF assms(2)] by blast
  then have "row \<in> set (db_records db)" "record_id_of row = i" using find_row_SomeD [of i "db_records db" row] by (simp_all add: row_of_id_def)
  with assms(1) row(2) show ?thesis by (auto simp: audit_ok_def)
qed

lemma next_revision_given:
  assumes "audit_ok db" and "selectRecord db i = Inr existing" and "length (db_audit db) < 2 ^ 53"
  shows "next_revision db i existing = given_revisions db i + 1"
proof (cases existing)
  case None
  have "given_revisions db i \<le> 9007199254740991" using given_bounded [of db i] assms(3) by simp
  then show ?thesis using None given_nonneg [of db i]
    by (simp add: next_revision_def max_audited [OF assms(1)] safe_integer_def)
next
  case (Some r)
  then show ?thesis using selected_revision [OF assms(1)] assms(2) by (simp add: next_revision_def)
qed

lemma write_commits:
  assumes "audit_ok db" and "selectRecord db (cpw_id w) = Inr existing" and "length (db_audit db) < 2 ^ 53"
    and "writeRecord stamp db w existing = (r, db')"
  shows "commit db db'"
proof -
  obtain ns sc k where i: "cpw_id w = (ns, sc, k)" by (cases "cpw_id w") auto
  let ?row = "\<lparr>sr_namespace = ns, sr_scope = sc, sr_key = k, sr_schemaVersion = cpw_schemaVersion w,
     sr_revision = next_revision db (cpw_id w) existing, sr_payload = Some (cpw_value w),
     sr_createdAt = (case existing of Some r \<Rightarrow> cpr_createdAt r | None \<Rightarrow> stamp), sr_updatedAt = stamp\<rparr>"
  let ?e = "\<lparr>av_id = cpw_id w, av_action = cpw_action w, av_revision = next_revision db (cpw_id w) existing, av_occurredAt = stamp\<rparr>"
  have "db' = \<lparr>db_records = upsert_row ?row (db_records db), db_audit = db_audit db @ [?e]\<rparr>"
    using assms(4) by (auto simp: writeRecord_def Let_def i)
  moreover have "commit db \<lparr>db_records = upsert_row ?row (db_records db), db_audit = db_audit db @ [?e]\<rparr>"
    using next_revision_given [OF assms(1-3)] by (intro commit.put) (simp_all add: i record_id_of_def)
  ultimately show ?thesis by simp
qed

lemma write_length: "writeRecord stamp db w existing = (r, db') \<Longrightarrow> length (db_audit db') = length (db_audit db) + 1"
  by (cases "cpw_id w") (auto simp: writeRecord_def Let_def)

lemma written_reads:
  assumes "writeRecord stamp db w existing = (r, db')"
    and "selectRecord db (cpw_id w) = Inr existing"
  shows "selectRecord db' (cpw_id w) = Inr (Some r)"
proof -
  obtain ns sc k where i: "cpw_id w = (ns, sc, k)" by (cases "cpw_id w") auto
  have "existing = None \<Longrightarrow> find (\<lambda>row. record_id_of row = (ns, sc, k)) (db_records db) = None"
    using assms(2) select_None [of db "(ns, sc, k)"] by (simp add: i row_of_id_def)
  moreover have "existing = Some q \<Longrightarrow>
     \<exists>row. find (\<lambda>row. record_id_of row = (ns, sc, k)) (db_records db) = Some row \<and> sr_createdAt row = cpr_createdAt q" for q
    using assms(2) select_Some [of db "(ns, sc, k)" q] by (auto simp: i row_of_id_def rowToRecord_def split: option.splits)
  ultimately show ?thesis using assms(1)
    by (cases existing) (auto simp: writeRecord_def Let_def i selectRecord_def find_upsert rowToRecord_def)
qed

text \<open>Deleting the rows of a scope one after the other.\<close>

lemma removals_commit:
  assumes "audit_ok db" and "distinct (map record_id_of rs)" and "set rs \<subseteq> set (db_records db)"
  shows "commit\<^sup>*\<^sup>* db \<lparr>db_records = filter (\<lambda>row. record_id_of row \<notin> record_id_of ` set rs) (db_records db),
    db_audit = db_audit db @ map (audit_deletion action stamp) rs\<rparr>"
  using assms
proof (induction rs arbitrary: db)
  case Nil
  then show ?case by (cases db) simp
next
  case (Cons r rs)
  let ?e = "audit_deletion action stamp r"
  let ?db = "\<lparr>db_records = filter (\<lambda>row. record_id_of row \<noteq> av_id ?e) (db_records db), db_audit = db_audit db @ [?e]\<rparr>"
  have "sr_revision r = given_revisions db (record_id_of r)" using Cons.prems(1,3) by (auto simp: audit_ok_def)
  then have c: "commit db ?db" by (intro commit.remove) (simp add: audit_deletion_def)
  have "set rs \<subseteq> set (db_records ?db)"
  proof
    fix x assume x: "x \<in> set rs"
    then have "record_id_of x \<noteq> record_id_of r" using Cons.prems(2) by (metis distinct.simps(2) imageI list.set_map list.simps(9))
    with x Cons.prems(3) show "x \<in> set (db_records ?db)" by (auto simp: audit_deletion_def)
  qed
  from Cons.IH [OF commit_ok [OF Cons.prems(1) c] _ this] Cons.prems(2)
  have "commit\<^sup>*\<^sup>* ?db \<lparr>db_records = filter (\<lambda>row. record_id_of row \<notin> record_id_of ` set rs) (db_records ?db),
    db_audit = db_audit ?db @ map (audit_deletion action stamp) rs\<rparr>" by simp
  moreover have "filter (\<lambda>row. record_id_of row \<notin> record_id_of ` set rs) (db_records ?db)
      = filter (\<lambda>row. record_id_of row \<notin> record_id_of ` set (r # rs)) (db_records db)"
    by (simp add: audit_deletion_def filter_filter conj_commute cong: filter_cong)
  ultimately show ?case using c by (simp add: converse_rtranclp_into_rtranclp)
qed

lemma scope_commits:
  assumes "audit_ok db" and "deleteControlPlaneRecordsWithinTransaction stamp db ns sc a = (n, db')"
  shows "commit\<^sup>*\<^sup>* db db'"
proof -
  let ?rs = "sort_by (\<lambda>a b. unit_cmp (sr_key a) (sr_key b)) (filter (in_scope ns sc) (db_records db))"
  have s: "set ?rs = {row \<in> set (db_records db). in_scope ns sc row}" by auto
  have "distinct (map record_id_of (filter (in_scope ns sc) (db_records db)))"
    using assms(1) by (simp add: audit_ok_def distinct_map_filter)
  then have "distinct (map record_id_of ?rs)" by (simp add: distinct_map)
  from removals_commit [OF assms(1) this] s
  have "commit\<^sup>*\<^sup>* db \<lparr>db_records = filter (\<lambda>row. record_id_of row \<notin> record_id_of ` set ?rs) (db_records db),
    db_audit = db_audit db @ map (audit_deletion (coalesce a ''delete_scope'') stamp) ?rs\<rparr>" by auto
  moreover have "filter (\<lambda>row. record_id_of row \<notin> record_id_of ` set ?rs) (db_records db) = filter (\<lambda>row. \<not> in_scope ns sc row) (db_records db)"
    by (rule filter_cong) (auto simp: s in_scope_def record_id_of_def)
  ultimately show ?thesis using assms(2) by (simp add: deleteControlPlaneRecordsWithinTransaction_def Let_def)
qed

section \<open>Operations and their runs\<close>

inductive record_op :: "'v database \<Rightarrow> 'v database \<Rightarrow> bool" where
  writes: "writeControlPlaneRecordWithinTransaction stamp db w expected = Inr (r, db') \<Longrightarrow> record_op db db'"
| deletes: "deleteControlPlaneRecordWithinTransaction stamp db i action expected' = Inr (b, db') \<Longrightarrow> record_op db db'"
| clears: "deleteControlPlaneRecordsWithinTransaction stamp db ns sc action = (n, db') \<Longrightarrow> record_op db db'"
| takes_legacy: "readOrImportControlPlaneRecord stamp db i version legacy = Inr (found, db') \<Longrightarrow> record_op db db'"
| mutates: "mutateControlPlaneRecord stamp db i version legacy act mutate = Inr (r, db') \<Longrightarrow> record_op db db'"

text \<open>An import writes the legacy value or changes nothing.\<close>

lemma import_cases:
  assumes "readOrImportControlPlaneRecord stamp db i version legacy = Inr (found, db')"
  shows "db' = db \<and> selectRecord db i = Inr found \<or>
     (\<exists>v r. selectRecord db i = Inr None \<and> found = Some r \<and>
        writeRecord stamp db \<lparr>cpw_id = i, cpw_schemaVersion = version, cpw_value = v, cpw_action = ''legacy_import''\<rparr> None = (r, db'))"
  using assms by (auto simp: readOrImportControlPlaneRecord_def bindE_eq_Inr Let_def split: option.splits prod.splits)

lemma delete_cases:
  assumes "deleteControlPlaneRecordWithinTransaction stamp db i action expected = Inr (b, db')"
  shows "db' = db \<or> (\<exists>r e. selectRecord db i = Inr (Some r) \<and> av_id e = i \<and> av_revision e = cpr_revision r + 1 \<and>
     db' = \<lparr>db_records = filter (\<lambda>row. record_id_of row \<noteq> i) (db_records db), db_audit = db_audit db @ [e]\<rparr>)"
  using assms by (auto simp: deleteControlPlaneRecordWithinTransaction_def bindE_eq_Inr split: option.splits)

lemma import_length:
  assumes "readOrImportControlPlaneRecord stamp db i version legacy = Inr (found, db')"
  shows "length (db_audit db) \<le> length (db_audit db')"
  using import_cases [OF assms] write_length [of stamp db _ None _ db'] by auto

lemma mutate_cases:
  assumes "mutateControlPlaneRecord stamp db i version legacy act f = Inr (r, db')"
  obtains c d v where "readOrImportControlPlaneRecord stamp db i version legacy = Inr (c, d)" "f c = Inr v"
    "writeRecord stamp d \<lparr>cpw_id = i, cpw_schemaVersion = version, cpw_value = v, cpw_action = act\<rparr> c = (r, db')"
  using assms by (auto simp: mutateControlPlaneRecord_def bindE_eq_Inr)

lemma conditional_write_cases:
  assumes "writeControlPlaneRecordWithinTransaction stamp db w expected = Inr (r, db')"
  obtains existing where "selectRecord db (cpw_id w) = Inr existing" "expected_revision_holds expected existing"
    "writeRecord stamp db w existing = (r, db')"
  using assms by (auto simp: writeControlPlaneRecordWithinTransaction_def bindE_eq_Inr)

lemma op_length:
  assumes "record_op db db'"
  shows "length (db_audit db) \<le> length (db_audit db')"
  using assms
proof cases
  case (writes stamp w expected r)
  then obtain existing where "writeRecord stamp db w existing = (r, db')" by (rule conditional_write_cases)
  from write_length [OF this] show ?thesis by simp
next
  case (deletes stamp i action e b)
  from delete_cases [OF this] show ?thesis by auto
next
  case (clears stamp ns sc action n)
  then show ?thesis by (auto simp: deleteControlPlaneRecordsWithinTransaction_def Let_def)
next
  case (takes_legacy stamp i version legacy found)
  then show ?thesis by (rule import_length)
next
  case (mutates stamp i version legacy act f r)
  then obtain c d v where i: "readOrImportControlPlaneRecord stamp db i version legacy = Inr (c, d)"
    and w: "writeRecord stamp d \<lparr>cpw_id = i, cpw_schemaVersion = version, cpw_value = v, cpw_action = act\<rparr> c = (r, db')"
    by (rule mutate_cases)
  from import_length [OF i] write_length [OF w] show ?thesis by simp
qed

lemma import_commits:
  assumes "readOrImportControlPlaneRecord stamp db i version legacy = Inr (found, db')"
    and "audit_ok db" and "length (db_audit db') \<le> 2 ^ 53"
  shows "commit\<^sup>*\<^sup>* db db' \<and> selectRecord db' i = Inr found"
  using import_cases [OF assms(1)]
proof (elim disjE exE conjE)
  fix v r assume s: "selectRecord db i = Inr None" "found = Some r"
    and w: "writeRecord stamp db \<lparr>cpw_id = i, cpw_schemaVersion = version, cpw_value = v, cpw_action = ''legacy_import''\<rparr> None = (r, db')"
  have "length (db_audit db) < 2 ^ 53" using write_length [OF w] assms(3) by simp
  then have "commit db db'" using write_commits [OF assms(2) _ _ w] s(1) by simp
  then show ?thesis using written_reads [OF w] s by auto
qed auto

lemma op_commits:
  assumes "record_op db db'" and "audit_ok db" and "length (db_audit db') \<le> 2 ^ 53"
  shows "commit\<^sup>*\<^sup>* db db'"
  using assms(1)
proof cases
  case (writes stamp w expected r)
  then obtain existing where e: "selectRecord db (cpw_id w) = Inr existing" "writeRecord stamp db w existing = (r, db')"
    by (rule conditional_write_cases)
  have "length (db_audit db) < 2 ^ 53" using write_length [OF e(2)] assms(3) by simp
  then show ?thesis using write_commits [OF assms(2) e(1) _ e(2)] by blast
next
  case (deletes stamp i action e b)
  from delete_cases [OF this] show ?thesis
  proof (elim disjE exE conjE)
    fix r e assume r: "selectRecord db i = Inr (Some r)" and e: "av_id e = i" "av_revision e = cpr_revision r + 1"
      and db': "db' = \<lparr>db_records = filter (\<lambda>row. record_id_of row \<noteq> i) (db_records db), db_audit = db_audit db @ [e]\<rparr>"
    have "commit db db'" unfolding db' using commit.remove [of e db] e selected_revision [OF assms(2) r] by simp
    then show ?thesis by blast
  qed simp
next
  case (clears stamp ns sc action n)
  then show ?thesis using scope_commits [OF assms(2)] by blast
next
  case (takes_legacy stamp i version legacy found)
  then show ?thesis using import_commits assms(2,3) by blast
next
  case (mutates stamp i version legacy act f r)
  then obtain c d v where i: "readOrImportControlPlaneRecord stamp db i version legacy = Inr (c, d)"
    and w: "writeRecord stamp d \<lparr>cpw_id = i, cpw_schemaVersion = version, cpw_value = v, cpw_action = act\<rparr> c = (r, db')"
    by (rule mutate_cases)
  have l: "length (db_audit d) < 2 ^ 53" using write_length [OF w] assms(3) by simp
  then have d: "commit\<^sup>*\<^sup>* db d" "selectRecord d i = Inr c" using import_commits [OF i assms(2)] by auto
  have "audit_ok d" using d(1) assms(2) by (induction rule: rtranclp_induct) (auto intro: commit_ok)
  then have "commit d db'" using write_commits [OF _ _ l w] d(2) by simp
  with d(1) show ?thesis by (rule rtranclp.rtrancl_into_rtrancl)
qed

section \<open>Runs\<close>

text \<open>A record only gets newer revisions, and while it has the one it had it is the row it was.\<close>

definition record_evolved :: "'v database \<Rightarrow> 'v database \<Rightarrow> bool" where
  "record_evolved x y \<longleftrightarrow> (\<forall>i. given_revisions x i \<le> given_revisions y i \<and>
     (given_revisions y i = given_revisions x i \<longrightarrow> row_of_id y i = row_of_id x i))"

interpretation audited: invariant_steps commit audit_ok
  by unfold_locales (rule commit_ok)

interpretation commits: viewed_steps commit "(=)" record_evolved
proof unfold_locales
  fix s v t :: "'v database" assume "s = v" "commit s t"
  then show "\<exists>w. t = w \<and> record_evolved v w" using commit_given commit_row unfolding record_evolved_def by blast
next
  fix u v w :: "'v database" assume uv: "record_evolved u v" and vw: "record_evolved v w"
  show "record_evolved u w" unfolding record_evolved_def
  proof (intro allI conjI impI)
    fix i
    have u: "given_revisions u i \<le> given_revisions v i" "given_revisions v i = given_revisions u i \<Longrightarrow> row_of_id v i = row_of_id u i"
      using uv unfolding record_evolved_def by blast+
    have v: "given_revisions v i \<le> given_revisions w i" "given_revisions w i = given_revisions v i \<Longrightarrow> row_of_id w i = row_of_id v i"
      using vw unfolding record_evolved_def by blast+
    from u(1) v(1) show "given_revisions u i \<le> given_revisions w i" by simp
    assume "given_revisions w i = given_revisions u i"
    with u v have "given_revisions v i = given_revisions u i" "given_revisions w i = given_revisions v i" by auto
    with u(2) v(2) show "row_of_id w i = row_of_id u i" by simp
  qed
qed (simp add: record_evolved_def)

definition empty_database :: "'v database" where
  "empty_database = \<lparr>db_records = [], db_audit = []\<rparr>"

lemma empty_ok: "audit_ok empty_database"
  by (simp add: audit_ok_def empty_database_def given_revisions_def audited_revisions_def)

lemma ops_commit:
  assumes "record_op\<^sup>*\<^sup>* x y" and "audit_ok x" and "length (db_audit y) \<le> 2 ^ 53"
  shows "commit\<^sup>*\<^sup>* x y"
  using assms
proof (induction rule: rtranclp_induct)
  case base
  then show ?case by blast
next
  case (step y z)
  have "length (db_audit y) \<le> 2 ^ 53" using op_length [OF step.hyps(2)] step.prems(2) by simp
  then have y: "commit\<^sup>*\<^sup>* x y" using step.IH step.prems(1) by blast
  with op_commits [OF step.hyps(2) _ step.prems(2)] audited.inv_reachable [OF y step.prems(1)]
  show ?case by (meson rtranclp_trans)
qed

lemma runs_ok:
  assumes "record_op\<^sup>*\<^sup>* empty_database y" and "length (db_audit y) \<le> 2 ^ 53"
  shows "audit_ok y"
  using audited.inv_reachable [OF ops_commit [OF assms(1) empty_ok assms(2)] empty_ok] .

lemma ops_length: "record_op\<^sup>*\<^sup>* x y \<Longrightarrow> length (db_audit x) \<le> length (db_audit y)"
  by (induction rule: rtranclp_induct) (use op_length order_trans in blast)+

lemma ok_not_orphaned:
  assumes "audit_ok db" and "row \<in> set (db_records db)"
  shows "\<not> orphaned db row"
proof -
  let ?i = "record_id_of row"
  have r: "sr_revision row = given_revisions db ?i" "0 < given_revisions db ?i" using assms by (auto simp: audit_ok_def)
  note a = audit_okD [OF assms(1), of ?i]
  have "set (filter (\<lambda>n. 1 \<le> n \<and> n \<le> sr_revision row) (audited_revisions db ?i)) = {1..given_revisions db ?i}"
    using r by (auto simp: a)
  then have c: "int (card (set (filter (\<lambda>n. 1 \<le> n \<and> n \<le> sr_revision row) (audited_revisions db ?i)))) = sr_revision row"
    using r by simp
  have "Min {1..given_revisions db ?i} = 1" using r(2) by (intro Min_eqI) auto
  then have "first_audited db ?i = 1" using r(2) by (simp add: first_audited_def a Let_def)
  with c max_audited [OF assms(1), of ?i] r(1) show ?thesis by (simp add: orphaned_def)
qed

end
