(* ===== verification/ControlRecordProperties.thy ===== *)
theory ControlRecordProperties
  imports ControlRecordFacts
begin

text \<open>
  What the record store guarantees its clients: an audit without gaps, and revisions that make a
  conditional write safe.
\<close>

section \<open>An example database\<close>

definition example_write :: "string \<Rightarrow> int record_write" where
  "example_write key = \<lparr>cpw_id = (''ns'', ''repo'', key), cpw_schemaVersion = 1, cpw_value = 7, cpw_action = ''write''\<rparr>"

definition example_database :: "int database" where
  "example_database = snd (projr (writeControlPlaneRecordWithinTransaction ''1'' empty_database (example_write ''a'') (Some None)))"

definition example_record :: "int control_record" where
  "example_record = fst (projr (writeControlPlaneRecordWithinTransaction ''1'' empty_database (example_write ''a'') (Some None)))"

definition example_rewritten :: "int control_record \<times> int database" where
  "example_rewritten = projr (writeControlPlaneRecordWithinTransaction ''2'' example_database (example_write ''a'') (Some (Some 1)))"

lemma example_database_op: "record_op empty_database example_database"
proof (rule record_op.writes)
  show "writeControlPlaneRecordWithinTransaction ''1'' empty_database (example_write ''a'') (Some None) = Inr (example_record, example_database)"
    by code_simp
qed

lemma example_rewrite: "writeControlPlaneRecordWithinTransaction ''2'' example_database (example_write ''a'') (Some (Some 1)) = Inr example_rewritten"
  by code_simp

section \<open>Properties\<close>

text \<open>
  C8.  The audit has no gaps: whatever writes, deletions, imports and mutations run on a new database,
  the inspection finds no record whose audit is not exactly its revisions from 1 on, as long as
  the audit stays within the safe integers.
\<close>

theorem audit_stays_continuous:
  assumes "record_op\<^sup>*\<^sup>* empty_database db" and "length (db_audit db) \<le> 2 ^ 53"
  shows "inspectOpenDatabase path db = Inr (length (db_records db), length (db_audit db))"
proof -
  have "filter (orphaned db) (db_records db) = []"
    using ok_not_orphaned [OF runs_ok [OF assms]] by (simp add: filter_empty_conv)
  then show ?thesis by (simp add: inspectOpenDatabase_def orphanRecordCount_def)
qed

theorem audit_stays_continuous_witness:
  "inspectOpenDatabase ''p'' (snd example_rewritten) = Inr (1, 2)"
proof -
  have op: "record_op\<^sup>*\<^sup>* empty_database (snd example_rewritten)"
    using example_database_op record_op.writes [of "''2''" example_database "example_write ''a''" "Some (Some 1)" "fst example_rewritten"]
      example_rewrite by (auto intro: rtranclp.rtrancl_into_rtrancl)
  have n: "length (db_records (snd example_rewritten)) = 1" "length (db_audit (snd example_rewritten)) = 2" by code_simp+
  show ?thesis using audit_stays_continuous [OF op, of "''p''"] by (simp add: n)
qed

text \<open>
  C26.  A conditional write loses no update: when a write that expects the revision of a record read
  before succeeds, the record is still the one that was read, whatever ran in between (also when
  it was deleted and written again), and it is now the written value with the next revision.
\<close>

theorem conditional_write_loses_nothing:
  assumes "record_op\<^sup>*\<^sup>* empty_database x" and "selectRecord x (cpw_id w) = Inr (Some r)" and "record_op\<^sup>*\<^sup>* x y"
    and "writeControlPlaneRecordWithinTransaction stamp y w (Some (Some (cpr_revision r))) = Inr (n, z)"
    and "length (db_audit z) \<le> 2 ^ 53"
  shows "selectRecord y (cpw_id w) = Inr (Some r) \<and> selectRecord z (cpw_id w) = Inr (Some n) \<and>
     cpr_revision n = cpr_revision r + 1 \<and> cpr_value n = cpw_value w"
proof -
  obtain s where s: "selectRecord y (cpw_id w) = Inr (Some s)" "cpr_revision s = cpr_revision r"
    and w: "writeRecord stamp y w (Some s) = (n, z)"
  proof (rule conditional_write_cases [OF assms(4)])
    fix e assume "selectRecord y (cpw_id w) = Inr e" "writeRecord stamp y w e = (n, z)"
      "expected_revision_holds (Some (Some (cpr_revision r))) e"
    then show thesis using that by (cases e) (auto simp: expected_revision_holds_def)
  qed
  have len: "length (db_audit y) \<le> 2 ^ 53" "length (db_audit x) \<le> 2 ^ 53"
    using write_length [OF w] assms(5) ops_length [OF assms(3)] by simp_all
  have ok: "audit_ok x" "audit_ok y"
    using runs_ok [OF assms(1) len(2)] runs_ok [OF rtranclp_trans [OF assms(1,3)] len(1)] by blast+
  have "record_evolved x y" using commits.reachable_view [OF ops_commit [OF assms(3) ok(1) len(1)]] by blast
  moreover have "given_revisions y (cpw_id w) = given_revisions x (cpw_id w)"
    using selected_revision [OF ok(1) assms(2)] selected_revision [OF ok(2) s(1)] s(2) by simp
  ultimately have "row_of_id y (cpw_id w) = row_of_id x (cpw_id w)" unfolding record_evolved_def by blast
  then have "s = r" using select_Some [OF assms(2)] select_Some [OF s(1)] by auto
  then show ?thesis using s(1) w written_reads [OF w] by (cases "cpw_id w") (auto simp: writeRecord_def Let_def next_revision_def)
qed

theorem conditional_write_loses_nothing_witness:
  "selectRecord example_database (''ns'', ''repo'', ''a'') = Inr (Some example_record) \<and>
   selectRecord (snd example_rewritten) (''ns'', ''repo'', ''a'') = Inr (Some (fst example_rewritten)) \<and>
   cpr_revision (fst example_rewritten) = cpr_revision example_record + 1"
proof -
  have r: "selectRecord example_database (cpw_id (example_write ''a'')) = Inr (Some example_record)" by code_simp
  have w: "writeControlPlaneRecordWithinTransaction ''2'' example_database (example_write ''a'') (Some (Some (cpr_revision example_record)))
      = Inr (fst example_rewritten, snd example_rewritten)" by code_simp
  have "length (db_audit (snd example_rewritten)) = 2" by code_simp
  then have l: "length (db_audit (snd example_rewritten)) \<le> 2 ^ 53" by simp
  from conditional_write_loses_nothing [OF r_into_rtranclp [of record_op, OF example_database_op] r rtranclp.rtrancl_refl w l]
  show ?thesis by (simp add: example_write_def)
qed

end
