(* ===== verification/ControllerSessions.thy ===== *)
theory ControllerSessions
  imports WorkContractStore JsText
begin

text \<open>
  Who controls a Work (\<open>packages/kernel/controller/domain/types.ts\<close> and
  \<open>infrastructure/controller-session-store.ts\<close>): a claim of a Work by a controller, held for the
  time of a lease and fenced by a generation, its resumption after the transport was replaced, its
  recovery from an owner that went silent, and the fence that terminal operations pass.  An
  operation runs under the lock of its Work, as one step; the clock readings of an operation are
  fields of its environment, in the order the code takes them.

  The claims of all Works of a repository are one record, which an operation reads and then writes
  as a whole; since the lock is of one Work, the step is an assumption for operations on different
  Works that run at the same time.
\<close>

section \<open>Data\<close>

datatype controller_type = Ctl_chatgpt | Ctl_codex | Ctl_grok | Ctl_claude | Ctl_human

fun controller_type_str :: "controller_type \<Rightarrow> string" where
  "controller_type_str Ctl_chatgpt = ''chatgpt''"
| "controller_type_str Ctl_codex = ''codex''"
| "controller_type_str Ctl_grok = ''grok''"
| "controller_type_str Ctl_claude = ''claude''"
| "controller_type_str Ctl_human = ''human''"

record controller_session =
  ctl_workId :: string
  ctl_controllerId :: string
  ctl_controllerType :: controller_type
  ctl_sessionId :: string
  ctl_authorityDigest :: "string option"
  ctl_principalId :: "string option"
  ctl_controllerInstanceId :: "string option"
  ctl_claimGeneration :: "int option"
  ctl_claimedAt :: string
  ctl_leaseExpiresAt :: string

record controller_session_store =
  css_updatedAt :: string
  css_sessions :: "controller_session list"

record controller_binding =
  ctb_bindingId :: string
  ctb_hostKind :: controller_type
  ctb_adapterRef :: string

record session_claim =
  clm_workId :: string
  clm_controllerId :: string
  clm_controllerType :: controller_type
  clm_sessionId :: string
  clm_authorityDigest :: "string option"
  clm_principalId :: "string option"
  clm_controllerInstanceId :: "string option"
  clm_expectedClaimGeneration :: "int option"
  clm_allowStaleRecovery :: "bool option"
  clm_leaseMs :: "int option"

record retained_session =
  rts_session :: controller_session
  rts_retainedAt :: string
  rts_releasedAt :: "string option"

text \<open>What \<open>peekExecutionSession\<close> reads of the execution sessions, stored by their sanitised identifier.\<close>

record execution_session =
  xse_sessionId :: string
  xse_principalId :: string
  xse_activeWorkId :: "string option"
  xse_updatedAt :: string
  xse_lastValidatedAt :: "string option"
  xse_invalidatedAt :: "string option"

record session_world =
  sew_store :: controller_session_store
  sew_retained :: "string \<rightharpoonup> retained_session"

text \<open>
  \<open>sev_now\<close> is what \<open>now()\<close> reads when the operation looks at the leases, \<open>sev_writeNow\<close> when it
  writes the claims and \<open>sev_retainNow\<close> when it writes the retained identity; \<open>sev_clock\<close> is
  \<open>Date.now()\<close>.
\<close>

record session_env =
  sev_now :: string
  sev_writeNow :: string
  sev_retainNow :: string
  sev_clock :: int
  sev_executions :: "string \<rightharpoonup> execution_session"
  sev_work :: work_env
  sev_works :: work_store

section \<open>Leases\<close>

definition DEFAULT_CONTROLLER_RECOVERY_GRACE_MS :: int where "DEFAULT_CONTROLLER_RECOVERY_GRACE_MS = 300000"
definition MAX_CONTROLLER_RECOVERY_GRACE_MS :: int where "MAX_CONTROLLER_RECOVERY_GRACE_MS = 3600000"
definition DEFAULT_CONTROLLER_LEASE_MS :: int where "DEFAULT_CONTROLLER_LEASE_MS = 3600000"
definition MAX_CONTROLLER_LEASE_MS :: int where "MAX_CONTROLLER_LEASE_MS = 3600000"

definition optionsNowMs :: "js_host \<Rightarrow> session_env \<Rightarrow> int" where
  "optionsNowMs H env = coalesce (date_parse H (sev_now env)) (sev_clock env)"

text \<open>\<open>Date.parse(session.leaseExpiresAt) > atMs\<close>, false where the date does not parse.\<close>

definition lease_live :: "js_host \<Rightarrow> controller_session \<Rightarrow> int \<Rightarrow> bool" where
  "lease_live H session atMs = (case date_parse H (ctl_leaseExpiresAt session) of None \<Rightarrow> False | Some e \<Rightarrow> e > atMs)"

definition activeSession :: "js_host \<Rightarrow> controller_session_store \<Rightarrow> string \<Rightarrow> int \<Rightarrow> controller_session option" where
  "activeSession H store workId atMs =
     find (\<lambda>session. ctl_workId session = workId \<and> lease_live H session atMs) (css_sessions store)"

definition peekExecutionSession :: "session_env \<Rightarrow> string \<Rightarrow> execution_session option" where
  "peekExecutionSession env sessionId =
     (let normalized = js_trim sessionId in
      if normalized = [] then None
      else case sev_executions env (sanitizeFileComponent normalized) of
        None \<Rightarrow> None
      | Some session \<Rightarrow> if xse_sessionId session = normalized then Some session else None)"

definition recovery_grace :: "int option \<Rightarrow> int" where
  "recovery_grace graceMs =
     max 60000 (min (coalesce graceMs DEFAULT_CONTROLLER_RECOVERY_GRACE_MS) MAX_CONTROLLER_RECOVERY_GRACE_MS)"

text \<open>The times at which the owner was last seen; an absent or unreadable one is left out.\<close>

definition seen_times :: "js_host \<Rightarrow> execution_session option \<Rightarrow> controller_session \<Rightarrow> int list" where
  "seen_times H execution owner =
     List.map_filter (\<lambda>v. if truthy v then date_parse H (the v) else None)
       [Option.bind execution xse_lastValidatedAt, map_option xse_updatedAt execution, Some (ctl_claimedAt owner)]"

definition sessionBlocksRecovery :: "js_host \<Rightarrow> session_env \<Rightarrow> controller_session \<Rightarrow> int \<Rightarrow> int option \<Rightarrow> bool" where
  "sessionBlocksRecovery H env owner nowMs graceMs =
     (let execution = peekExecutionSession env (ctl_sessionId owner);
          invalidatedAt = Option.bind execution xse_invalidatedAt;
          activeWorkId = Option.bind execution xse_activeWorkId
      in if truthy invalidatedAt
         then (case date_parse H (the invalidatedAt) of None \<Rightarrow> True | Some t \<Rightarrow> nowMs - t < recovery_grace graceMs)
         else if truthy activeWorkId \<and> activeWorkId \<noteq> Some (ctl_workId owner) then False
         else case seen_times H execution owner of
           [] \<Rightarrow> False
         | t # ts \<Rightarrow> nowMs - foldl max t ts < recovery_grace graceMs)"

definition controllerSessionBlocksRecovery ::
    "js_host \<Rightarrow> session_env \<Rightarrow> session_world \<Rightarrow> string \<Rightarrow> int option \<Rightarrow> int option \<Rightarrow> bool" where
  "controllerSessionBlocksRecovery H env world workId nowMs graceMs =
     (let at_ms = coalesce nowMs (sev_clock env) in
      case activeSession H (sew_store world) workId at_ms of
        None \<Rightarrow> False
      | Some owner \<Rightarrow> sessionBlocksRecovery H env owner at_ms graceMs)"

definition getControllerSession :: "js_host \<Rightarrow> session_env \<Rightarrow> session_world \<Rightarrow> string \<Rightarrow> controller_session option" where
  "getControllerSession H env world workId = activeSession H (sew_store world) workId (optionsNowMs H env)"

definition listControllerSessions :: "js_host \<Rightarrow> session_env \<Rightarrow> session_world \<Rightarrow> controller_session list" where
  "listControllerSessions H env world =
     filter (\<lambda>s. lease_live H s (optionsNowMs H env)) (css_sessions (sew_store world))"

definition getRetainedControllerSession :: "session_world \<Rightarrow> string \<Rightarrow> controller_session option" where
  "getRetainedControllerSession world workId =
     (case sew_retained world workId of
        Some r \<Rightarrow> Some (rts_session r)
      | None \<Rightarrow> find (\<lambda>s. ctl_workId s = workId) (css_sessions (sew_store world)))"

section \<open>Authority\<close>

text \<open>\<open>owner.principalId?.trim() || owner.controllerId\<close>.\<close>

definition principal_or :: "string option \<Rightarrow> string \<Rightarrow> string" where
  "principal_or principalId controllerId = or_str (opt_trim principalId) controllerId"

definition controllerSessionPrincipalId :: "controller_session \<Rightarrow> string" where
  "controllerSessionPrincipalId owner = principal_or (ctl_principalId owner) (ctl_controllerId owner)"

definition owner_instance :: "controller_session \<Rightarrow> string" where
  "owner_instance owner = or_str (opt_trim (ctl_controllerInstanceId owner)) []"

record ownership_authority =
  oa_controllerId :: string
  oa_controllerType :: controller_type
  oa_principalId :: string
  oa_controllerInstanceId :: string
  oa_claimGeneration :: int

definition requireControllerOwnershipAuthority :: "controller_session \<Rightarrow> string \<Rightarrow> ownership_authority res" where
  "requireControllerOwnershipAuthority owner workId =
     bindE (throw_if (owner_instance owner = []) (''WORK_CONTROLLER_INSTANCE_MISMATCH: '' @ workId)) (\<lambda>_.
     case ctl_claimGeneration owner of
       None \<Rightarrow> throw (''WORK_CONTROLLER_CLAIM_GENERATION_REQUIRED: '' @ workId)
     | Some generation \<Rightarrow>
         if generation < 1 then throw (''WORK_CONTROLLER_CLAIM_GENERATION_REQUIRED: '' @ workId)
         else Inr \<lparr>oa_controllerId = ctl_controllerId owner, oa_controllerType = ctl_controllerType owner,
           oa_principalId = controllerSessionPrincipalId owner, oa_controllerInstanceId = owner_instance owner,
           oa_claimGeneration = generation\<rparr>)"

record expected_owner =
  xo_workId :: "string option"
  xo_controllerId :: string
  xo_principalId :: string
  xo_controllerInstanceId :: "string option"
  xo_controllerType :: "controller_type option"

definition assertControllerOwnershipAuthority :: "controller_session \<Rightarrow> expected_owner \<Rightarrow> ownership_authority res" where
  "assertControllerOwnershipAuthority owner expected =
     (let workId = coalesce (xo_workId expected) (ctl_workId owner) in
      bindE (requireControllerOwnershipAuthority owner workId) (\<lambda>authority.
      bindE (throw_if (oa_controllerId authority \<noteq> js_trim (xo_controllerId expected))
               (''WORK_CONTROLLER_OWNER_MISMATCH: '' @ workId @ '' is owned by '' @ ctl_controllerId owner)) (\<lambda>_.
      bindE (throw_if (xo_controllerType expected \<noteq> None \<and> xo_controllerType expected \<noteq> Some (oa_controllerType authority))
               (''WORK_CONTROLLER_TYPE_MISMATCH: '' @ workId @ '' is owned by '' @ controller_type_str (ctl_controllerType owner))) (\<lambda>_.
      bindE (throw_if (oa_principalId authority \<noteq> js_trim (xo_principalId expected))
               (''WORK_CONTROLLER_PRINCIPAL_MISMATCH: '' @ workId)) (\<lambda>_.
      bindE (throw_if (xo_controllerInstanceId expected \<noteq> None
                 \<and> opt_trim (xo_controllerInstanceId expected) \<noteq> Some (oa_controllerInstanceId authority))
               (''WORK_CONTROLLER_INSTANCE_MISMATCH: '' @ workId)) (\<lambda>_.
      Inr authority))))))"

definition controllerTerminalizationAuthorityFromSession :: "controller_session \<Rightarrow> ownership_authority option" where
  "controllerTerminalizationAuthorityFromSession owner =
     (case requireControllerOwnershipAuthority owner (ctl_workId owner) of Inl _ \<Rightarrow> None | Inr a \<Rightarrow> Some a)"

definition controllerTerminalizationAuthorityMatches :: "controller_session \<Rightarrow> ownership_authority \<Rightarrow> bool" where
  "controllerTerminalizationAuthorityMatches owner authority \<longleftrightarrow>
     ctl_controllerId owner = oa_controllerId authority
     \<and> ctl_controllerType owner = oa_controllerType authority
     \<and> controllerSessionPrincipalId owner = js_trim (oa_principalId authority)
     \<and> owner_instance owner = js_trim (oa_controllerInstanceId authority)
     \<and> ctl_claimGeneration owner = Some (oa_claimGeneration authority)"

text \<open>
  A capability is stored as its digest.  \<open>Buffer.from(s, 'hex')\<close> reads pairs of digits and stops at
  the first pair that is none; \<open>timingSafeEqual\<close> throws on buffers of different length.
\<close>

fun hex_bytes :: "string \<Rightarrow> nat list" where
  "hex_bytes (a # b # s) =
     (case (hex_nibble a, hex_nibble b) of (Some x, Some y) \<Rightarrow> (16 * x + y) # hex_bytes s | _ \<Rightarrow> [])"
| "hex_bytes _ = []"

definition controllerSessionAuthorityMatches :: "js_host \<Rightarrow> controller_session \<Rightarrow> string option \<Rightarrow> bool res" where
  "controllerSessionAuthorityMatches H owner authorityId =
     (let expected = or_str (opt_trim (ctl_authorityDigest owner)) [];
          candidate = or_str (opt_trim authorityId) [];
          actual = sha256_hex H candidate
      in if expected = [] \<or> candidate = [] \<or> length expected \<noteq> length actual then Inr False
         else if length (hex_bytes expected) \<noteq> length (hex_bytes actual)
           then throw ''Input buffers must have the same byte length''
         else Inr (hex_bytes expected = hex_bytes actual))"

definition mintControllerSessionAuthority :: "js_host \<Rightarrow> string \<Rightarrow> string \<times> string" where
  "mintControllerSessionAuthority H uuid =
     (let authorityId = ''ctrl_'' @ filter (\<lambda>c. c \<noteq> CHR ''-'') uuid in (authorityId, sha256_hex H authorityId))"

section \<open>Claiming\<close>

definition assertIdentity :: "session_claim \<Rightarrow> unit res" where
  "assertIdentity inp =
     throw_if (js_trim (clm_workId inp) = [] \<or> js_trim (clm_controllerId inp) = [] \<or> js_trim (clm_sessionId inp) = [])
       ''CONTROLLER_SESSION_IDENTITY_REQUIRED''"

definition assertWorkClaimable :: "js_host \<Rightarrow> session_env \<Rightarrow> string \<Rightarrow> unit res" where
  "assertWorkClaimable H env workId =
     bindE (getWorkContract H (sev_work env) (sev_works env) workId) (\<lambda>found.
     case found of
       None \<Rightarrow> Inr ()
     | Some work \<Rightarrow> throw_if (isTerminalWorkContractStatus (wc_status work))
         (''WORK_CONTROLLER_CLAIM_TERMINAL: '' @ wc_workId work @ '':'' @ status_str (wc_status work)))"

definition same_owner :: "session_claim \<Rightarrow> controller_session \<Rightarrow> bool" where
  "same_owner inp previous \<longleftrightarrow>
     ctl_controllerId previous = clm_controllerId inp
     \<and> ctl_controllerType previous = clm_controllerType inp
     \<and> controllerSessionPrincipalId previous = principal_or (clm_principalId inp) (clm_controllerId inp)
     \<and> coalesce (ctl_controllerInstanceId previous) [] = coalesce (opt_trim (clm_controllerInstanceId inp)) []"

definition lease_ms :: "int option \<Rightarrow> int" where
  "lease_ms leaseMs = max 1000 (min (coalesce leaseMs DEFAULT_CONTROLLER_LEASE_MS) MAX_CONTROLLER_LEASE_MS)"

definition claim_generation :: "session_claim \<Rightarrow> controller_session option \<Rightarrow> int" where
  "claim_generation inp previous =
     (case previous of
        None \<Rightarrow> 1
      | Some p \<Rightarrow> if same_owner inp p then max 1 (coalesce (ctl_claimGeneration p) 1)
          else max 0 (coalesce (ctl_claimGeneration p) 0) + 1)"

definition claim_digest :: "session_claim \<Rightarrow> controller_session option \<Rightarrow> string option" where
  "claim_digest inp previous =
     some_str (or_str (opt_trim (clm_authorityDigest inp))
       (case previous of None \<Rightarrow> [] | Some p \<Rightarrow> if same_owner inp p then or_str (opt_trim (ctl_authorityDigest p)) [] else []))"

definition claimedSession :: "js_host \<Rightarrow> session_claim \<Rightarrow> string \<Rightarrow> controller_session option \<Rightarrow> controller_session res" where
  "claimedSession H inp claimedAt previous =
     (case date_parse H claimedAt of
        None \<Rightarrow> throw ''Invalid time value''
      | Some t \<Rightarrow> Inr \<lparr>ctl_workId = clm_workId inp, ctl_controllerId = clm_controllerId inp,
          ctl_controllerType = clm_controllerType inp, ctl_sessionId = clm_sessionId inp,
          ctl_authorityDigest = claim_digest inp previous,
          ctl_principalId = Option.bind (opt_trim (clm_principalId inp)) some_str,
          ctl_controllerInstanceId = Option.bind (opt_trim (clm_controllerInstanceId inp)) some_str,
          ctl_claimGeneration = Some (claim_generation inp previous),
          ctl_claimedAt = claimedAt, ctl_leaseExpiresAt = iso_of_ms H (t + lease_ms (clm_leaseMs inp))\<rparr>)"

definition assertExpectedGeneration :: "session_claim \<Rightarrow> controller_session option \<Rightarrow> unit res" where
  "assertExpectedGeneration inp current =
     (case clm_expectedClaimGeneration inp of
        None \<Rightarrow> Inr ()
      | Some expected \<Rightarrow>
          let actual = coalesce (Option.bind current ctl_claimGeneration) 0 in
          throw_if (actual \<noteq> expected)
            (''WORK_CLAIM_GENERATION_MISMATCH: '' @ clm_workId inp @ '' expected='' @ int_str expected @ '' actual='' @ int_str actual))"

definition retain_session :: "string \<Rightarrow> string option \<Rightarrow> controller_session \<Rightarrow> session_world \<Rightarrow> session_world" where
  "retain_session retainedAt releasedAt session world =
     world\<lparr>sew_retained := (sew_retained world)(ctl_workId session \<mapsto>
       \<lparr>rts_session = session, rts_retainedAt = retainedAt, rts_releasedAt = Option.bind releasedAt some_str\<rparr>)\<rparr>"

text \<open>A claim replaces the claims of its Work, and drops the expired claims of every other Work.\<close>

definition persistClaim ::
    "js_host \<Rightarrow> session_env \<Rightarrow> session_world \<Rightarrow> session_claim \<Rightarrow> controller_session option \<Rightarrow> (controller_session \<times> session_world) res" where
  "persistClaim H env world inp previous =
     (let claimedAt = sev_writeNow env in
      bindE (claimedSession H inp claimedAt previous) (\<lambda>session.
      let kept = filter (\<lambda>entry. ctl_workId entry \<noteq> clm_workId inp
            \<and> (case date_parse H claimedAt of None \<Rightarrow> False | Some t \<Rightarrow> lease_live H entry t)) (css_sessions (sew_store world))
      in Inr (session, retain_session (sev_retainNow env) None session
           (world\<lparr>sew_store := \<lparr>css_updatedAt = claimedAt, css_sessions = kept @ [session]\<rparr>\<rparr>))))"

text \<open>The stored claim of a Work with the greatest generation, also when its lease is over.\<close>

definition newest_claim :: "controller_session_store \<Rightarrow> string \<Rightarrow> controller_session option" where
  "newest_claim store workId =
     (case sort_by (\<lambda>l r. coalesce (ctl_claimGeneration r) 0 - coalesce (ctl_claimGeneration l) 0)
        (filter (\<lambda>s. ctl_workId s = workId) (css_sessions store)) of
        [] \<Rightarrow> None
      | s # _ \<Rightarrow> Some s)"

definition claimControllerSession ::
    "js_host \<Rightarrow> session_env \<Rightarrow> session_world \<Rightarrow> session_claim \<Rightarrow> (controller_session \<times> session_world) res" where
  "claimControllerSession H env world inp =
     bindE (assertIdentity inp) (\<lambda>_.
     bindE (assertWorkClaimable H env (clm_workId inp)) (\<lambda>_.
     let current = activeSession H (sew_store world) (clm_workId inp) (optionsNowMs H env);
         previous = (case current of Some c \<Rightarrow> Some c | None \<Rightarrow> newest_claim (sew_store world) (clm_workId inp))
     in
     bindE (assertExpectedGeneration inp current) (\<lambda>_.
     bindE (case current of
         None \<Rightarrow> Inr ()
       | Some c \<Rightarrow> throw_if (ctl_controllerId c \<noteq> clm_controllerId inp \<or> ctl_sessionId c \<noteq> clm_sessionId inp)
           (''WORK_ALREADY_CLAIMED: '' @ clm_workId inp @ '' is owned by '' @ ctl_controllerId c)) (\<lambda>_.
     persistClaim H env world inp previous))))"

text \<open>Whether a live owner has gone silent long enough for another controller that observed its generation.\<close>

definition stale_recovery_allowed :: "js_host \<Rightarrow> session_env \<Rightarrow> session_claim \<Rightarrow> controller_session \<Rightarrow> bool" where
  "stale_recovery_allowed H env inp current \<longleftrightarrow>
     clm_allowStaleRecovery inp = Some True \<and> clm_expectedClaimGeneration inp \<noteq> None
     \<and> \<not> sessionBlocksRecovery H env current (optionsNowMs H env) None"

definition current_principal :: "session_env \<Rightarrow> controller_session \<Rightarrow> string" where
  "current_principal env current =
     or_str (opt_trim (ctl_principalId current))
       (or_str (opt_trim (map_option xse_principalId (peekExecutionSession env (ctl_sessionId current)))) (ctl_controllerId current))"

definition resumeControllerSession ::
    "js_host \<Rightarrow> session_env \<Rightarrow> session_world \<Rightarrow> session_claim \<Rightarrow> (controller_session \<times> session_world) res" where
  "resumeControllerSession H env world inp =
     bindE (assertIdentity inp) (\<lambda>_.
     bindE (throw_if (coalesce (opt_trim (clm_principalId inp)) [] = [] \<or> coalesce (opt_trim (clm_controllerInstanceId inp)) [] = [])
              ''CONTROLLER_RESUME_AUTHORITY_REQUIRED'') (\<lambda>_.
     bindE (assertWorkClaimable H env (clm_workId inp)) (\<lambda>_.
     let current = activeSession H (sew_store world) (clm_workId inp) (optionsNowMs H env) in
     bindE (assertExpectedGeneration inp current) (\<lambda>_.
     case current of
       None \<Rightarrow> persistClaim H env world inp (newest_claim (sew_store world) (clm_workId inp))
     | Some c \<Rightarrow>
         let stale = stale_recovery_allowed H env inp c in
         bindE (throw_if (current_principal env c \<noteq> coalesce (opt_trim (clm_principalId inp)) [] \<and> \<not> stale)
           (''WORK_CONTROLLER_PRINCIPAL_MISMATCH: '' @ clm_workId inp @ '' is owned by another authenticated principal'')) (\<lambda>_.
         bindE (throw_if (ctl_controllerId c \<noteq> clm_controllerId inp \<and> \<not> stale)
           (''WORK_ALREADY_CLAIMED: '' @ clm_workId inp @ '' is owned by '' @ ctl_controllerId c)) (\<lambda>_.
         bindE (throw_if (ctl_controllerType c \<noteq> clm_controllerType inp \<and> \<not> stale)
           (''WORK_CONTROLLER_TYPE_MISMATCH: '' @ clm_workId inp @ '' is owned by '' @ controller_type_str (ctl_controllerType c))) (\<lambda>_.
         persistClaim H env world inp (Some c))))))))"

text \<open>
  Binding reads the owner first, outside the lock (\<open>observed\<close> is the store as it then was), and then
  claims or resumes with the generation it saw.
\<close>

definition bindControllerSessionToCurrentRuntime ::
    "js_host \<Rightarrow> session_env \<Rightarrow> session_world \<Rightarrow> session_env \<Rightarrow> session_world \<Rightarrow> session_claim \<Rightarrow> string option \<Rightarrow> bool option \<Rightarrow>
     (controller_session \<times> session_world) res" where
  "bindControllerSessionToCurrentRuntime H env0 observed env world inp currentRuntimeInstanceId allowClaimIfMissing =
     bindE (assertIdentity inp) (\<lambda>_.
     case getControllerSession H env0 observed (clm_workId inp) of
       None \<Rightarrow>
         bindE (throw_if (allowClaimIfMissing \<noteq> Some True) (''WORK_CONTROLLER_OWNER_REQUIRED: '' @ clm_workId inp)) (\<lambda>_.
         claimControllerSession H env world (inp\<lparr>clm_expectedClaimGeneration := Some 0\<rparr>))
     | Some c \<Rightarrow>
         let requested = coalesce (opt_trim (clm_controllerInstanceId inp)) [];
             runtime = or_str (opt_trim currentRuntimeInstanceId) []
         in
         bindE (throw_if (ctl_controllerId c \<noteq> clm_controllerId inp)
           (''WORK_CONTROLLER_OWNER_MISMATCH: '' @ clm_workId inp @ '' is owned by '' @ ctl_controllerId c)) (\<lambda>_.
         bindE (throw_if (ctl_controllerType c \<noteq> clm_controllerType inp)
           (''WORK_CONTROLLER_TYPE_MISMATCH: '' @ clm_workId inp @ '' is owned by '' @ controller_type_str (ctl_controllerType c))) (\<lambda>_.
         bindE (throw_if (controllerSessionPrincipalId c \<noteq> coalesce (opt_trim (clm_principalId inp)) [])
           (''WORK_CONTROLLER_PRINCIPAL_MISMATCH: '' @ clm_workId inp)) (\<lambda>_.
         bindE (throw_if (owner_instance c \<noteq> requested \<and> (runtime = [] \<or> runtime \<noteq> requested))
           (''WORK_CONTROLLER_INSTANCE_MISMATCH: '' @ clm_workId inp)) (\<lambda>_.
         if owner_instance c = requested \<and> ctl_sessionId c = clm_sessionId inp then Inr (c, world)
         else resumeControllerSession H env world (inp\<lparr>clm_expectedClaimGeneration := ctl_claimGeneration c\<rparr>))))))"

section \<open>The terminalization fence and release\<close>

datatype fence_reason = Fence_active_claim | Fence_stale_authority | Fence_claim_missing

datatype 'a fence_result =
    Fence_allowed (fence_value: 'a) (fence_owner: "controller_session option")
  | Fence_denied (fence_reason: fence_reason) (fence_owner: "controller_session option")

text \<open>The operation runs inside the fence, and may throw.\<close>

definition withControllerSessionTerminalizationFence ::
    "js_host \<Rightarrow> session_env \<Rightarrow> session_world \<Rightarrow> string \<Rightarrow> ownership_authority option \<Rightarrow> 'a res \<Rightarrow> 'a fence_result res" where
  "withControllerSessionTerminalizationFence H env world workId authority operation =
     (case activeSession H (sew_store world) workId (optionsNowMs H env) of
        None \<Rightarrow>
          (case authority of
             Some _ \<Rightarrow> Inr (Fence_denied Fence_claim_missing None)
           | None \<Rightarrow> bindE operation (\<lambda>v. Inr (Fence_allowed v None)))
      | Some owner \<Rightarrow>
          (case authority of
             None \<Rightarrow> Inr (Fence_denied Fence_active_claim (Some owner))
           | Some a \<Rightarrow>
               if \<not> controllerTerminalizationAuthorityMatches owner a
               then Inr (Fence_denied Fence_stale_authority (Some owner))
               else bindE operation (\<lambda>v. Inr (Fence_allowed v (Some owner)))))"

definition drop_claims :: "string \<Rightarrow> (controller_session \<Rightarrow> bool) \<Rightarrow> session_world \<Rightarrow> session_world" where
  "drop_claims releasedAt released world =
     world\<lparr>sew_store := \<lparr>css_updatedAt = releasedAt, css_sessions = filter (\<lambda>s. \<not> released s) (css_sessions (sew_store world))\<rparr>\<rparr>"

definition releaseControllerSessionWithAuthority ::
    "js_host \<Rightarrow> session_env \<Rightarrow> session_world \<Rightarrow> string \<Rightarrow> ownership_authority \<Rightarrow> unit fence_result \<times> session_world" where
  "releaseControllerSessionWithAuthority H env world workId authority =
     (case activeSession H (sew_store world) workId (optionsNowMs H env) of
        None \<Rightarrow> (Fence_denied Fence_claim_missing None, world)
      | Some owner \<Rightarrow>
          if \<not> controllerTerminalizationAuthorityMatches owner authority
          then (Fence_denied Fence_stale_authority (Some owner), world)
          else (Fence_allowed () (Some owner),
            drop_claims (sev_writeNow env) (\<lambda>s. ctl_workId s = workId)
              (retain_session (sev_retainNow env) (Some (sev_writeNow env)) owner world)))"

definition releaseObservedControllerSession ::
    "js_host \<Rightarrow> session_env \<Rightarrow> session_world \<Rightarrow> string \<Rightarrow> controller_session \<Rightarrow> unit fence_result \<times> session_world" where
  "releaseObservedControllerSession H env world workId owner =
     (case controllerTerminalizationAuthorityFromSession owner of
        None \<Rightarrow> (Fence_denied Fence_stale_authority (Some owner), world)
      | Some authority \<Rightarrow> releaseControllerSessionWithAuthority H env world workId authority)"

definition releaseControllerSession :: "session_env \<Rightarrow> session_world \<Rightarrow> string \<Rightarrow> string \<Rightarrow> session_world" where
  "releaseControllerSession env world workId controllerId =
     (let released = (\<lambda>s. ctl_workId s = workId \<and> ctl_controllerId s = controllerId);
          retained = (case find released (css_sessions (sew_store world)) of
            None \<Rightarrow> world
          | Some owner \<Rightarrow> retain_session (sev_retainNow env) (Some (sev_writeNow env)) owner world)
      in drop_claims (sev_writeNow env) released retained)"

end
