(* ===== verification/ControllerSessionFacts.thy ===== *)
theory ControllerSessionFacts
  imports ControllerSessions Contracts
begin

text \<open>
  Facts on the claims of Works: a Work has one stored claim, every claim of a Work takes its
  generation from the one before it, and the identity of the owner changes only with the generation.
\<close>

definition claim_of :: "session_world \<Rightarrow> string \<Rightarrow> controller_session option" where
  "claim_of world workId = find (\<lambda>s. ctl_workId s = workId) (css_sessions (sew_store world))"

definition one_claim :: "session_world \<Rightarrow> bool" where
  "one_claim world \<longleftrightarrow> distinct (map ctl_workId (css_sessions (sew_store world)))"

section \<open>Reading\<close>

lemma find_claimD: "find (\<lambda>s. ctl_workId s = w) ss = Some c \<Longrightarrow> c \<in> set ss \<and> ctl_workId c = w"
  by (auto simp: find_Some_iff)

lemma find_claim_unique:
  assumes "distinct (map ctl_workId ss)" and "s \<in> set ss"
  shows "find (\<lambda>c. ctl_workId c = ctl_workId s) ss = Some s"
  using assms by (induction ss) force+

lemma claim_of_eq: "one_claim x \<Longrightarrow> claim_of x w = Some s \<longleftrightarrow> s \<in> set (css_sessions (sew_store x)) \<and> ctl_workId s = w"
  unfolding claim_of_def one_claim_def using find_claimD find_claim_unique by blast

lemma active_is_claim:
  assumes "one_claim x" and "activeSession H (sew_store x) w t = Some s"
  shows "claim_of x w = Some s \<and> lease_live H s t"
proof -
  from assms(2) have "s \<in> set (css_sessions (sew_store x))" "ctl_workId s = w" "lease_live H s t"
    by (auto simp: activeSession_def find_Some_iff)
  with assms(1) show ?thesis by (simp add: claim_of_eq)
qed

lemma active_of_claim:
  assumes "one_claim x" and "claim_of x w = Some s"
  shows "activeSession H (sew_store x) w t = (if lease_live H s t then Some s else None)"
proof -
  have s: "s \<in> set (css_sessions (sew_store x))" "ctl_workId s = w" using assms by (simp_all add: claim_of_eq)
  have "s' = s" if "s' \<in> set (css_sessions (sew_store x))" "ctl_workId s' = w" for s'
    using assms that claim_of_eq [OF assms(1), of w s'] by simp
  then have "find (\<lambda>c. ctl_workId c = w \<and> lease_live H c t) (css_sessions (sew_store x)) = Some d \<Longrightarrow> d = s" for d
    by (auto simp: find_Some_iff)
  then show ?thesis using s unfolding activeSession_def
    by (cases "find (\<lambda>c. ctl_workId c = w \<and> lease_live H c t) (css_sessions (sew_store x))")
      (auto simp: find_None_iff find_Some_iff)
qed

lemma filter_own_claim:
  assumes "distinct (map ctl_workId ss)"
  shows "filter (\<lambda>s. ctl_workId s = w) ss = (case find (\<lambda>s. ctl_workId s = w) ss of None \<Rightarrow> [] | Some s \<Rightarrow> [s])"
  using assms by (induction ss) (auto simp: filter_empty_conv find_None_iff dest!: find_claimD split: option.splits)

lemma newest_is_claim: "one_claim x \<Longrightarrow> newest_claim (sew_store x) w = claim_of x w"
  by (simp add: newest_claim_def filter_own_claim one_claim_def claim_of_def split: option.split)

section \<open>Writing a claim\<close>

lemma persist_cases:
  assumes "persistClaim H env x inp previous = Inr (s, y)"
  obtains kept where "claimedSession H inp (sev_writeNow env) previous = Inr s"
    "css_sessions (sew_store y) = kept @ [s]"
    "kept = filter (\<lambda>e. ctl_workId e \<noteq> clm_workId inp
       \<and> (case date_parse H (sev_writeNow env) of None \<Rightarrow> False | Some t \<Rightarrow> lease_live H e t)) (css_sessions (sew_store x))"
    "sew_retained y (clm_workId inp) = Some \<lparr>rts_session = s, rts_retainedAt = sev_retainNow env, rts_releasedAt = None\<rparr>"
  using assms by (auto simp: persistClaim_def Let_def bindE_eq_Inr retain_session_def claimedSession_def split: option.splits)

lemma claimed_fields:
  assumes "claimedSession H inp t previous = Inr s"
  shows "ctl_workId s = clm_workId inp" "ctl_controllerId s = clm_controllerId inp" "ctl_controllerType s = clm_controllerType inp"
    "ctl_sessionId s = clm_sessionId inp" "ctl_claimGeneration s = Some (claim_generation inp previous)"
    "ctl_claimedAt s = t" "\<exists>n. date_parse H t = Some n \<and> ctl_leaseExpiresAt s = iso_of_ms H (n + lease_ms (clm_leaseMs inp))"
  using assms by (auto simp: claimedSession_def split: option.splits)

lemma or_str_trim [simp]: "or_str (opt_trim (Option.bind (opt_trim v) some_str)) d = or_str (opt_trim v) d"
  by (cases v) (auto simp: or_str_def some_str_def)

lemma claimed_principal:
  assumes "claimedSession H inp t previous = Inr s"
  shows "controllerSessionPrincipalId s = principal_or (clm_principalId inp) (clm_controllerId inp)"
    and "owner_instance s = or_str (opt_trim (clm_controllerInstanceId inp)) []"
  using assms by (auto simp: claimedSession_def controllerSessionPrincipalId_def principal_or_def owner_instance_def split: option.splits)

text \<open>Who owns a claim, and how far its generation is.\<close>

definition claim_identity :: "controller_session \<Rightarrow> string \<times> controller_type \<times> string \<times> string \<times> int option" where
  "claim_identity s = (ctl_controllerId s, ctl_controllerType s, controllerSessionPrincipalId s, owner_instance s, ctl_claimGeneration s)"

definition generation_of :: "controller_session \<Rightarrow> int" where
  "generation_of s = coalesce (ctl_claimGeneration s) 0"

definition claim_follows :: "controller_session \<Rightarrow> controller_session \<Rightarrow> bool" where
  "claim_follows c d \<longleftrightarrow> generation_of c \<le> generation_of d \<and> (generation_of d = generation_of c \<longrightarrow> claim_identity d = claim_identity c)"

lemma claim_follows_refl [simp]: "claim_follows c c"
  by (simp add: claim_follows_def)

lemma claim_follows_trans: "claim_follows c d \<Longrightarrow> claim_follows d e \<Longrightarrow> claim_follows c e"
  unfolding claim_follows_def by fastforce

lemma or_str_Nil: "or_str v [] = coalesce v []"
  by (cases v) (auto simp: or_str_def)

lemma same_owner_instance: "same_owner inp p \<Longrightarrow> owner_instance p = or_str (opt_trim (clm_controllerInstanceId inp)) []"
  by (cases "ctl_controllerInstanceId p"; cases "clm_controllerInstanceId inp")
    (auto simp: same_owner_def owner_instance_def or_str_Nil)

lemma claimed_follows:
  assumes "claimedSession H inp t (Some p) = Inr s"
  shows "claim_follows p s"
proof (cases "same_owner inp p")
  case True
  have g: "ctl_claimGeneration s = Some (max 1 (coalesce (ctl_claimGeneration p) 1))"
    using claimed_fields(5) [OF assms] True by (simp add: claim_generation_def)
  show ?thesis
  proof (cases "ctl_claimGeneration p")
    case None
    then show ?thesis by (simp add: claim_follows_def generation_of_def g)
  next
    case (Some n)
    have "claim_identity s = claim_identity p" if "max 1 n = n"
      using that claimed_fields(2,3) [OF assms] claimed_principal [OF assms] True same_owner_instance [OF True] g Some
      by (simp add: claim_identity_def same_owner_def)
    then show ?thesis using Some by (simp add: claim_follows_def generation_of_def g)
  qed
next
  case False
  then show ?thesis using claimed_fields(5) [OF assms]
    by (auto simp: claim_follows_def generation_of_def claim_generation_def max_def)
qed

text \<open>What writing a claim does to the claim of every Work.\<close>

lemma find_append: "find P (xs @ ys) = (case find P xs of None \<Rightarrow> find P ys | Some x \<Rightarrow> Some x)"
  by (induction xs) auto

lemma find_filtered:
  assumes "find (\<lambda>s. ctl_workId s = w) (filter P ss) = Some c" and "distinct (map ctl_workId ss)"
  shows "find (\<lambda>s. ctl_workId s = w) ss = Some c"
proof -
  have "c \<in> set ss" "ctl_workId c = w" using find_claimD [OF assms(1)] by auto
  with find_claim_unique [OF assms(2)] show ?thesis by auto
qed

lemma persist_claims:
  assumes "persistClaim H env x inp previous = Inr (s, y)" and "one_claim x"
  shows "one_claim y" and "claim_of y (clm_workId inp) = Some s"
    and "\<And>w c. w \<noteq> clm_workId inp \<Longrightarrow> claim_of y w = Some c \<Longrightarrow> claim_of x w = Some c"
proof -
  from persist_cases [OF assms(1)] obtain kept where s: "claimedSession H inp (sev_writeNow env) previous = Inr s"
    and y: "css_sessions (sew_store y) = kept @ [s]"
    and k: "kept = filter (\<lambda>e. ctl_workId e \<noteq> clm_workId inp
       \<and> (case date_parse H (sev_writeNow env) of None \<Rightarrow> False | Some t \<Rightarrow> lease_live H e t)) (css_sessions (sew_store x))" .
  note w = claimed_fields(1) [OF s]
  show "one_claim y" using assms(2) by (auto simp: one_claim_def y k w distinct_map_filter)
  show "claim_of y (clm_workId inp) = Some s"
  proof -
    have "find (\<lambda>s. ctl_workId s = clm_workId inp) kept = None" by (auto simp: find_None_iff k)
    then show ?thesis by (simp add: claim_of_def y find_append w)
  qed
  fix v c assume v: "v \<noteq> clm_workId inp" "claim_of y v = Some c"
  then have "find (\<lambda>s. ctl_workId s = v) kept = Some c" by (simp add: claim_of_def y find_append w split: option.splits)
  from find_filtered [OF this [unfolded k]] assms(2) show "claim_of x v = Some c" by (simp add: one_claim_def claim_of_def)
qed

section \<open>The operations\<close>

text \<open>A claim and a resumption write over the stored claim of the Work, live or not.\<close>

lemma claim_cases:
  assumes "claimControllerSession H env x inp = Inr (s, y)" and "one_claim x"
  shows "persistClaim H env x inp (claim_of x (clm_workId inp)) = Inr (s, y)"
proof -
  let ?c = "activeSession H (sew_store x) (clm_workId inp) (optionsNowMs H env)"
  have "persistClaim H env x inp (case ?c of Some c \<Rightarrow> Some c | None \<Rightarrow> newest_claim (sew_store x) (clm_workId inp)) = Inr (s, y)"
    using assms(1) unfolding claimControllerSession_def Let_def by (auto simp: bindE_eq_Inr)
  then show ?thesis using active_is_claim [OF assms(2)] newest_is_claim [OF assms(2)] by (simp split: option.splits)
qed

lemma resume_cases:
  assumes "resumeControllerSession H env x inp = Inr (s, y)" and "one_claim x"
  shows "persistClaim H env x inp (claim_of x (clm_workId inp)) = Inr (s, y)"
    and "\<And>c. getControllerSession H env x (clm_workId inp) = Some c \<Longrightarrow>
       claim_of x (clm_workId inp) = Some c \<and> assertExpectedGeneration inp (Some c) = Inr () \<and>
       (stale_recovery_allowed H env inp c \<or>
        current_principal env c = coalesce (opt_trim (clm_principalId inp)) [] \<and> ctl_controllerId c = clm_controllerId inp
        \<and> ctl_controllerType c = clm_controllerType inp)"
  using assms(1) active_is_claim [OF assms(2)] newest_is_claim [OF assms(2)]
  unfolding resumeControllerSession_def Let_def getControllerSession_def by (auto simp: bindE_eq_Inr split: option.splits)

lemma bind_cases:
  assumes "bindControllerSessionToCurrentRuntime H env0 observed env x inp runtime missing = Inr (s, y)"
  shows "y = x \<or> (\<exists>g. claimControllerSession H env x (inp\<lparr>clm_expectedClaimGeneration := g\<rparr>) = Inr (s, y))
     \<or> (\<exists>g. resumeControllerSession H env x (inp\<lparr>clm_expectedClaimGeneration := g\<rparr>) = Inr (s, y))"
  using assms unfolding bindControllerSessionToCurrentRuntime_def Let_def
  by (auto simp: bindE_eq_Inr split: option.splits if_splits)

text \<open>The steps of the store: every operation that changes it.\<close>

inductive session_op :: "js_host \<Rightarrow> session_world \<Rightarrow> session_world \<Rightarrow> bool" for H where
  claims: "claimControllerSession H env x inp = Inr (s, y) \<Longrightarrow> session_op H x y"
| resumes: "resumeControllerSession H env x inp = Inr (s, y) \<Longrightarrow> session_op H x y"
| rebinds: "bindControllerSessionToCurrentRuntime H env0 observed env x inp runtime missing = Inr (s, y) \<Longrightarrow> session_op H x y"
| releases: "releaseControllerSessionWithAuthority H env x w authority = (r, y) \<Longrightarrow> session_op H x y"
| releases_observed: "releaseObservedControllerSession H env x w owner = (r, y) \<Longrightarrow> session_op H x y"
| releases_own: "releaseControllerSession env x w controllerId = y \<Longrightarrow> session_op H x y"

text \<open>Every step writes one claim over the stored one, or only drops claims.\<close>

definition drops_claims :: "session_world \<Rightarrow> session_world \<Rightarrow> bool" where
  "drops_claims x y \<longleftrightarrow> (\<exists>P. css_sessions (sew_store y) = filter P (css_sessions (sew_store x)))"

lemma drops_claims_refl: "drops_claims x x"
  unfolding drops_claims_def by (rule exI [of _ "\<lambda>_. True"]) simp

lemma drop_drops: "css_sessions (sew_store z) = css_sessions (sew_store x) \<Longrightarrow> drops_claims x (drop_claims t P z)"
  by (auto simp: drop_claims_def drops_claims_def)

lemma retain_keeps [simp]: "css_sessions (sew_store (retain_session t r s x)) = css_sessions (sew_store x)"
  by (simp add: retain_session_def)

lemma release_drops: "releaseControllerSessionWithAuthority H env x w a = (r, y) \<Longrightarrow> drops_claims x y"
  by (auto simp: releaseControllerSessionWithAuthority_def drops_claims_refl drop_drops split: option.splits if_splits)

lemma step_cases:
  assumes "session_op H x y" and "one_claim x"
  shows "drops_claims x y \<or> (\<exists>env inp s. persistClaim H env x inp (claim_of x (clm_workId inp)) = Inr (s, y))"
  using assms(1)
proof cases
  case (claims env inp s)
  then show ?thesis using claim_cases assms(2) by blast
next
  case (resumes env inp s)
  then show ?thesis using resume_cases(1) assms(2) by blast
next
  case (rebinds env0 observed env inp runtime missing s)
  from bind_cases [OF this] show ?thesis using claim_cases resume_cases(1) assms(2) drops_claims_refl by blast
next
  case (releases env w authority r)
  then show ?thesis using release_drops by blast
next
  case (releases_observed env w owner r)
  then show ?thesis using release_drops drops_claims_refl
    by (auto simp: releaseObservedControllerSession_def split: option.splits)
next
  case (releases_own env w controllerId)
  then show ?thesis by (auto simp: releaseControllerSession_def Let_def intro!: drop_drops split: option.splits)
qed

lemma dropped_claims:
  assumes "drops_claims x y" and "one_claim x"
  shows "one_claim y" and "claim_of y w = Some c \<Longrightarrow> claim_of x w = Some c"
proof -
  obtain P where y: "css_sessions (sew_store y) = filter P (css_sessions (sew_store x))"
    using assms(1) by (auto simp: drops_claims_def)
  show o: "one_claim y" using assms(2) by (simp add: one_claim_def y distinct_map_filter)
  assume "claim_of y w = Some c"
  then show "claim_of x w = Some c" using claim_of_eq [OF o] claim_of_eq [OF assms(2)] y by auto
qed

lemma step_claims:
  assumes "session_op H x y" and "one_claim x"
  shows "one_claim y"
    and "claim_of x w = Some c \<Longrightarrow> claim_of y w = Some d \<Longrightarrow> claim_follows c d"
proof -
  show "one_claim y" using step_cases [OF assms] dropped_claims(1) persist_claims(1) assms(2) by blast
  assume c: "claim_of x w = Some c" and d: "claim_of y w = Some d"
  from step_cases [OF assms] show "claim_follows c d"
  proof (elim disjE exE)
    assume "drops_claims x y"
    with dropped_claims(2) [OF this assms(2) d] c show ?thesis by simp
  next
    fix env inp s assume p: "persistClaim H env x inp (claim_of x (clm_workId inp)) = Inr (s, y)"
    show ?thesis
    proof (cases "w = clm_workId inp")
      case True
      with persist_claims(2) [OF p assms(2)] d have "d = s" by simp
      moreover have "claimedSession H inp (sev_writeNow env) (Some c) = Inr s" using persist_cases [OF p] c True by metis
      ultimately show ?thesis using claimed_follows by blast
    next
      case False
      with persist_claims(3) [OF p assms(2) False d] c show ?thesis by simp
    qed
  qed
qed

interpretation claims: invariant_steps "session_op H" one_claim for H
  by unfold_locales (rule step_claims(1))

text \<open>Steps that leave a Work claimed.\<close>

definition claimed_op :: "js_host \<Rightarrow> string \<Rightarrow> session_world \<Rightarrow> session_world \<Rightarrow> bool" where
  "claimed_op H w x y \<longleftrightarrow> session_op H x y \<and> claim_of y w \<noteq> None"

definition owned_by :: "string \<Rightarrow> session_world \<Rightarrow> controller_session \<Rightarrow> bool" where
  "owned_by w x c \<longleftrightarrow> one_claim x \<and> claim_of x w = Some c"

interpretation ownerships: viewed_steps "claimed_op H w" "owned_by w" claim_follows for H w
proof unfold_locales
  fix x c y assume "owned_by w x c" "claimed_op H w x y"
  then show "\<exists>d. owned_by w y d \<and> claim_follows c d"
    using step_claims unfolding owned_by_def claimed_op_def by blast
qed (simp, rule claim_follows_trans)

lemma matches_identity:
  "claim_identity c = claim_identity d \<Longrightarrow> controllerTerminalizationAuthorityMatches c a = controllerTerminalizationAuthorityMatches d a"
  by (simp add: claim_identity_def controllerTerminalizationAuthorityMatches_def)

lemma fence_denies:
  assumes "one_claim x" and "\<And>c. claim_of x w = Some c \<Longrightarrow> \<not> controllerTerminalizationAuthorityMatches c a"
  shows "\<exists>why who. withControllerSessionTerminalizationFence H env x w (Some a) operation = Inr (Fence_denied why who)"
  using assms active_is_claim [OF assms(1)]
  by (auto simp: withControllerSessionTerminalizationFence_def split: option.splits)

lemma foldl_max_start: "u \<le> foldl max u (us :: int list)"
  by (induction us arbitrary: u) (auto intro: order_trans [OF max.cobounded1])

lemma foldl_max_ge: "t \<in> set (u # us) \<Longrightarrow> t \<le> foldl max u (us :: int list)"
proof (induction us arbitrary: u)
  case (Cons v us)
  show ?case
  proof (cases "t \<in> set us")
    case True
    then show ?thesis using Cons.IH [of "max u v"] by simp
  next
    case False
    then have "t \<le> max u v" using Cons.prems by auto
    then show ?thesis using foldl_max_start [of "max u v" us] order_trans by auto
  qed
qed simp

lemma silent_times:
  assumes "\<not> (case ts of [] \<Rightarrow> False | t # us \<Rightarrow> now - foldl max t us < (g :: int))" and "t \<in> set ts"
  shows "g \<le> now - t"
proof (cases ts)
  case (Cons u us)
  then have "t \<le> foldl max u us" using assms(2) foldl_max_ge by blast
  then show ?thesis using assms(1) Cons by simp
qed (use assms(2) in simp)

lemma not_isl_Inr: "\<not> isl r \<Longrightarrow> r = Inr (fst (projr r), snd (projr r))"
  by (cases r) auto

end
