(* ===== verification/ControllerSessionProperties.thy ===== *)
theory ControllerSessionProperties
  imports ControllerSessionFacts ExampleHost
begin

text \<open>
  What the claims guarantee: an authority that went stale never passes the fence again, a live
  owner loses its Work only after it went silent, and a claim holds exactly for its lease.
\<close>

section \<open>Examples\<close>

text \<open>A host whose clock reads in ticks of 400 seconds, written as that many letters.\<close>

definition tick_host :: js_host where
  "tick_host = \<lparr>locale_compare = unit_cmp, sha256_hex = (\<lambda>s. s),
     date_parse = (\<lambda>s. Some (400000 * int (length s))), iso_of_ms = (\<lambda>n. replicate (nat (n div 400000)) CHR ''x'')\<rparr>"

definition example_session_env :: "string \<Rightarrow> session_env" where
  "example_session_env t = \<lparr>sev_now = t, sev_writeNow = t, sev_retainNow = t, sev_clock = 0, sev_executions = (\<lambda>_. None),
     sev_work = \<lparr>we_sqlite = True, we_policy = None, we_now = t, we_updateNow = t\<rparr>, sev_works = \<lparr>wks_updatedAt = ''0'', wks_rows = []\<rparr>\<rparr>"

definition example_claim :: "string \<Rightarrow> int option \<Rightarrow> session_claim" where
  "example_claim who expected = \<lparr>clm_workId = ''w'', clm_controllerId = who, clm_controllerType = Ctl_codex, clm_sessionId = who,
     clm_authorityDigest = None, clm_principalId = Some who, clm_controllerInstanceId = Some ''i'',
     clm_expectedClaimGeneration = expected, clm_allowStaleRecovery = Some True, clm_leaseMs = None\<rparr>"

definition example_unclaimed :: session_world where
  "example_unclaimed = \<lparr>sew_store = \<lparr>css_updatedAt = [], css_sessions = []\<rparr>, sew_retained = (\<lambda>_. None)\<rparr>"

text \<open>Controller a claims the Work, b takes it over, a takes it back.\<close>

definition example_first :: "(controller_session \<times> session_world) res" where
  "example_first = claimControllerSession tick_host (example_session_env ''x'') example_unclaimed (example_claim ''a'' (Some 0))"

definition example_second :: "(controller_session \<times> session_world) res" where
  "example_second = bindE example_first (\<lambda>(_, world).
     resumeControllerSession tick_host (example_session_env ''xx'') world (example_claim ''b'' (Some 1)))"

definition example_third :: "(controller_session \<times> session_world) res" where
  "example_third = bindE example_second (\<lambda>(_, world).
     resumeControllerSession tick_host (example_session_env ''xxx'') world (example_claim ''a'' (Some 2)))"

definition example_session :: "string \<Rightarrow> int \<Rightarrow> string \<Rightarrow> controller_session" where
  "example_session who g t = \<lparr>ctl_workId = ''w'', ctl_controllerId = who, ctl_controllerType = Ctl_codex, ctl_sessionId = who,
     ctl_authorityDigest = None, ctl_principalId = Some who, ctl_controllerInstanceId = Some ''i'', ctl_claimGeneration = Some g,
     ctl_claimedAt = t, ctl_leaseExpiresAt = t @ replicate 9 CHR ''x''\<rparr>"

definition holds_only :: "controller_session \<Rightarrow> (controller_session \<times> session_world) res \<Rightarrow> bool" where
  "holds_only s r = (case r of Inl _ \<Rightarrow> False | Inr (t, world) \<Rightarrow> t = s \<and> css_sessions (sew_store world) = [s])"

lemma example_runs:
  "holds_only (example_session ''a'' 1 ''x'') example_first \<and> holds_only (example_session ''b'' 2 ''xx'') example_second \<and>
   holds_only (example_session ''a'' 3 ''xxx'') example_third"
  by code_simp

lemma holds_only_Inr:
  assumes "holds_only s r"
  shows "r = Inr (s, snd (projr r))" and "css_sessions (sew_store (snd (projr r))) = [s]"
  using assms by (auto simp: holds_only_def split: sum.splits)

lemma holds_only_claim:
  assumes "holds_only s r" and "ctl_workId s = ''w''"
  shows "one_claim (snd (projr r))" and "claim_of (snd (projr r)) ''w'' = Some s"
  using assms holds_only_Inr(2) [OF assms(1)] by (simp_all add: one_claim_def claim_of_def)

lemma example_takeovers:
  "(claimed_op tick_host ''w'')\<^sup>*\<^sup>* (snd (projr example_first)) (snd (projr example_second))"
  "(claimed_op tick_host ''w'')\<^sup>*\<^sup>* (snd (projr example_second)) (snd (projr example_third))"
proof -
  note r = example_runs [THEN conjunct1] example_runs [THEN conjunct2, THEN conjunct1] example_runs [THEN conjunct2, THEN conjunct2]
  have w: "ctl_workId (example_session who g t) = ''w''" for who g t by (simp add: example_session_def)
  have "resumeControllerSession tick_host (example_session_env ''xx'') (snd (projr example_first)) (example_claim ''b'' (Some 1)) = example_second"
    unfolding example_second_def using holds_only_Inr(1) [OF r(1)] by (metis bindE_Inr case_prod_conv)
  then have "session_op tick_host (snd (projr example_first)) (snd (projr example_second))"
    using holds_only_Inr(1) [OF r(2)] session_op.resumes by metis
  then show "(claimed_op tick_host ''w'')\<^sup>*\<^sup>* (snd (projr example_first)) (snd (projr example_second))"
    using holds_only_claim(2) [OF r(2) w] by (intro r_into_rtranclp) (simp add: claimed_op_def)
  have "resumeControllerSession tick_host (example_session_env ''xxx'') (snd (projr example_second)) (example_claim ''a'' (Some 2)) = example_third"
    unfolding example_third_def using holds_only_Inr(1) [OF r(2)] by (metis bindE_Inr case_prod_conv)
  then have "session_op tick_host (snd (projr example_second)) (snd (projr example_third))"
    using holds_only_Inr(1) [OF r(3)] session_op.resumes by metis
  then show "(claimed_op tick_host ''w'')\<^sup>*\<^sup>* (snd (projr example_second)) (snd (projr example_third))"
    using holds_only_claim(2) [OF r(3) w] by (intro r_into_rtranclp) (simp add: claimed_op_def)
qed

text \<open>
  The generation is no fence across a release: the released claim is deleted with its generation,
  and the next one starts at 1 again, whoever takes it.
\<close>

lemma generation_restarts_after_release:
  "claim_of x ''w'' = Some (example_session ''a'' 3 t) \<Longrightarrow> one_claim x \<Longrightarrow>
   claim_generation inp (claim_of (releaseControllerSession env x ''w'' ''a'') ''w'') = 1"
proof -
  assume c: "claim_of x ''w'' = Some (example_session ''a'' 3 t)" and o: "one_claim x"
  have "\<not> (ctl_workId s = ''w'' \<and> \<not> (ctl_workId s = ''w'' \<and> ctl_controllerId s = ''a''))" if "s \<in> set (css_sessions (sew_store x))" for s
  proof -
    have "s = example_session ''a'' 3 t" if "ctl_workId s = ''w''"
      using c claim_of_eq [OF o, of "''w''" s] that \<open>s \<in> set (css_sessions (sew_store x))\<close> by simp
    then show ?thesis by (auto simp: example_session_def)
  qed
  then have "claim_of (releaseControllerSession env x ''w'' ''a'') ''w'' = None"
    by (auto simp: claim_of_def releaseControllerSession_def Let_def drop_claims_def find_None_iff split: option.split)
  then show ?thesis by (simp add: claim_generation_def)
qed

section \<open>Properties\<close>

text \<open>
  C6.  An authority that went stale never passes the fence again: when the owner of a Work changed
  since a controller read its authority, then for as long as the Work stays claimed no operation
  gives that authority its force back, even when the same controller claims the Work anew, and
  every terminal operation under it is denied.
\<close>

theorem stale_authority_never_passes:
  assumes "one_claim x" and "claim_of x w = Some c" and "requireControllerOwnershipAuthority c v = Inr a"
    and "(claimed_op H w)\<^sup>*\<^sup>* x y" and "claim_of y w = Some d" and "\<not> controllerTerminalizationAuthorityMatches d a"
    and "(claimed_op H w)\<^sup>*\<^sup>* y z"
  shows "\<exists>why who. withControllerSessionTerminalizationFence H env z w (Some a) operation = Inr (Fence_denied why who)"
proof -
  have x: "owned_by w x c" using assms(1,2) by (simp add: owned_by_def)
  obtain d' where y: "owned_by w y d'" "claim_follows c d'" using ownerships.reachable_view [OF assms(4) x] by blast
  obtain e where z: "owned_by w z e" "claim_follows d' e" using ownerships.reachable_view [OF assms(7) y(1)] by blast
  have d: "d' = d" using y(1) assms(5) by (simp add: owned_by_def)
  have g: "ctl_claimGeneration c = Some (oa_claimGeneration a)"
    using assms(3) by (auto simp: requireControllerOwnershipAuthority_def bindE_eq_Inr split: option.splits if_splits)
  have "\<not> controllerTerminalizationAuthorityMatches e a"
  proof
    assume m: "controllerTerminalizationAuthorityMatches e a"
    then have "generation_of e = generation_of c" by (simp add: controllerTerminalizationAuthorityMatches_def generation_of_def g)
    with y(2) z(2) d have "claim_identity e = claim_identity d" by (simp add: claim_follows_def)
    with m matches_identity assms(6) show False by blast
  qed
  with z(1) fence_denies [of z w a H env operation] show ?thesis by (simp add: owned_by_def)
qed

theorem stale_authority_never_passes_witness:
  "\<exists>why who. withControllerSessionTerminalizationFence tick_host (example_session_env ''xxx'') (snd (projr example_third)) ''w''
     (Some \<lparr>oa_controllerId = ''a'', oa_controllerType = Ctl_codex, oa_principalId = ''a'', oa_controllerInstanceId = ''i'', oa_claimGeneration = 1\<rparr>)
     (Inr ()) = Inr (Fence_denied why who)"
proof (rule stale_authority_never_passes [OF _ _ _ example_takeovers(1) _ _ example_takeovers(2)])
  note r = example_runs [THEN conjunct1] example_runs [THEN conjunct2, THEN conjunct1]
  have w: "ctl_workId (example_session who g t) = ''w''" for who g t by (simp add: example_session_def)
  show "one_claim (snd (projr example_first))" "claim_of (snd (projr example_first)) ''w'' = Some (example_session ''a'' 1 ''x'')"
    using holds_only_claim [OF r(1) w] by simp_all
  show "claim_of (snd (projr example_second)) ''w'' = Some (example_session ''b'' 2 ''xx'')"
    using holds_only_claim [OF r(2) w] by simp
  show "requireControllerOwnershipAuthority (example_session ''a'' 1 ''x'') ''w'' = Inr
    \<lparr>oa_controllerId = ''a'', oa_controllerType = Ctl_codex, oa_principalId = ''a'', oa_controllerInstanceId = ''i'', oa_claimGeneration = 1\<rparr>"
    by code_simp
qed (simp add: controllerTerminalizationAuthorityMatches_def example_session_def)

text \<open>
  A live owner loses its Work only after it went silent: when a resumption gives a claimed Work to
  another controller, that controller had observed the generation it replaces, and the owner was
  not seen for five minutes (its session was invalidated that long ago, works on another Work, or
  shows no activity since).
\<close>

theorem takeover_needs_silence:
  assumes "one_claim x" and "resumeControllerSession H env x inp = Inr (s, y)" and "getControllerSession H env x (clm_workId inp) = Some c"
    and "ctl_controllerId s \<noteq> ctl_controllerId c \<or> ctl_controllerType s \<noteq> ctl_controllerType c"
  shows "clm_expectedClaimGeneration inp = Some (generation_of c) \<and> ctl_claimGeneration s = Some (max 0 (generation_of c) + 1) \<and>
     (let seen = peekExecutionSession env (ctl_sessionId c); gone = Option.bind seen xse_invalidatedAt in
      if truthy gone then \<exists>t. date_parse H (the gone) = Some t \<and> optionsNowMs H env - t \<ge> 300000
      else (\<exists>v. Option.bind seen xse_activeWorkId = Some v \<and> v \<noteq> ctl_workId c) \<or>
           (\<forall>t\<in>set (seen_times H seen c). optionsNowMs H env - t \<ge> 300000))"
proof -
  from resume_cases(2) [OF assms(2,1,3)] have c: "claim_of x (clm_workId inp) = Some c"
    and e: "assertExpectedGeneration inp (Some c) = Inr ()"
    and r: "stale_recovery_allowed H env inp c \<or> ctl_controllerId c = clm_controllerId inp \<and> ctl_controllerType c = clm_controllerType inp"
    by auto
  from persist_cases [OF resume_cases(1) [OF assms(2,1)]] c
  have s: "claimedSession H inp (sev_writeNow env) (Some c) = Inr s" by metis
  note f = claimed_fields [OF s]
  from assms(4) f(2,3) r have stale: "stale_recovery_allowed H env inp c" by auto
  have "\<not> same_owner inp c" using assms(4) f(2,3) by (auto simp: same_owner_def)
  then have g: "ctl_claimGeneration s = Some (max 0 (generation_of c) + 1)"
    using f(5) by (simp add: claim_generation_def generation_of_def)
  have x: "clm_expectedClaimGeneration inp = Some (generation_of c)"
    using e stale by (auto simp: assertExpectedGeneration_def stale_recovery_allowed_def generation_of_def Let_def split: option.splits)
  have silent: "\<not> sessionBlocksRecovery H env c (optionsNowMs H env) None" using stale by (simp add: stale_recovery_allowed_def)
  have grace: "recovery_grace None = 300000"
    by (simp add: recovery_grace_def DEFAULT_CONTROLLER_RECOVERY_GRACE_MS_def MAX_CONTROLLER_RECOVERY_GRACE_MS_def)
  let ?seen = "peekExecutionSession env (ctl_sessionId c)"
  let ?gone = "Option.bind ?seen xse_invalidatedAt"
  have "if truthy ?gone then \<exists>t. date_parse H (the ?gone) = Some t \<and> optionsNowMs H env - t \<ge> 300000
      else (\<exists>v. Option.bind ?seen xse_activeWorkId = Some v \<and> v \<noteq> ctl_workId c) \<or>
           (\<forall>t\<in>set (seen_times H ?seen c). optionsNowMs H env - t \<ge> 300000)"
  proof (cases "truthy ?gone")
    case True
    then show ?thesis using silent unfolding sessionBlocksRecovery_def Let_def grace by (auto split: option.splits)
  next
    case False
    show ?thesis
    proof (cases "truthy (Option.bind ?seen xse_activeWorkId) \<and> Option.bind ?seen xse_activeWorkId \<noteq> Some (ctl_workId c)")
      case True
      then show ?thesis using False by (auto elim: truthy.elims)
    next
      case active: False
      have "\<not> (case seen_times H ?seen c of [] \<Rightarrow> False | t # ts \<Rightarrow> optionsNowMs H env - foldl max t ts < 300000)"
        using silent False active unfolding sessionBlocksRecovery_def Let_def grace by (simp only: if_False not_False_eq_True)
      then show ?thesis using silent_times False by auto
    qed
  qed
  with g x show ?thesis by (simp add: Let_def)
qed

theorem takeover_needs_silence_witness:
  "generation_of (example_session ''a'' 1 ''x'') = 1 \<and> optionsNowMs tick_host (example_session_env ''xx'') - 400000 \<ge> 300000 \<and>
   ctl_claimGeneration (example_session ''b'' 2 ''xx'') = Some (max 0 (generation_of (example_session ''a'' 1 ''x'')) + 1)"
proof -
  note r = example_runs [THEN conjunct1] example_runs [THEN conjunct2, THEN conjunct1]
  let ?x = "snd (projr example_first)" and ?env = "example_session_env ''xx''"
  have w: "ctl_workId (example_session who g t) = ''w''" for who g t by (simp add: example_session_def)
  have x: "one_claim ?x" using holds_only_claim(1) [OF r(1) w] .
  have m: "resumeControllerSession tick_host ?env ?x (example_claim ''b'' (Some 1)) = Inr (example_session ''b'' 2 ''xx'', snd (projr example_second))"
    using holds_only_Inr(1) [OF r(1)] holds_only_Inr(1) [OF r(2)] unfolding example_second_def by (metis bindE_Inr case_prod_conv)
  have g: "getControllerSession tick_host ?env ?x (clm_workId (example_claim ''b'' (Some 1))) = Some (example_session ''a'' 1 ''x'')"
    using holds_only_Inr(2) [OF r(1)]
    by (simp add: getControllerSession_def activeSession_def example_claim_def example_session_def lease_live_def tick_host_def
        optionsNowMs_def example_session_env_def)
  have p: "peekExecutionSession ?env i = None" for i by (simp add: peekExecutionSession_def example_session_env_def Let_def)
  have s: "seen_times tick_host None (example_session ''a'' 1 ''x'') = [400000]"
    by (simp add: seen_times_def List.map_filter_def tick_host_def example_session_def)
  have f: "ctl_claimGeneration (example_session who g t) = Some g" "ctl_controllerId (example_session who g t) = who" for who g t
    by (simp_all add: example_session_def)
  from takeover_needs_silence [OF x m g] show ?thesis by (simp add: p s f generation_of_def)
qed

text \<open>
  A claim holds exactly for its lease, of one second at least and one hour at most: until then the
  claimant is the session every reader finds for the Work, and from then on there is none.
\<close>

theorem claim_holds_for_its_lease:
  assumes "claimControllerSession H env x inp = Inr (s, y)" and "one_claim x" and "host_dates H"
    and "date_parse H (sev_writeNow env) = Some t"
  shows "\<exists>ms. 1000 \<le> ms \<and> ms \<le> 3600000 \<and> (\<forall>reader. getControllerSession H reader y (clm_workId inp) =
     (if optionsNowMs H reader < t + ms then Some s else None))"
proof -
  note p = claim_cases [OF assms(1,2)]
  have s: "claim_of y (clm_workId inp) = Some s" "one_claim y" using persist_claims(1,2) [OF p assms(2)] by blast+
  from persist_cases [OF p] have "claimedSession H inp (sev_writeNow env) (claim_of x (clm_workId inp)) = Inr s" by blast
  from claimed_fields(7) [OF this] assms(3,4) have e: "date_parse H (ctl_leaseExpiresAt s) = Some (t + lease_ms (clm_leaseMs inp))"
    by (auto simp: host_dates_def)
  have "getControllerSession H reader y (clm_workId inp) = (if optionsNowMs H reader < t + lease_ms (clm_leaseMs inp) then Some s else None)" for reader
    unfolding getControllerSession_def active_of_claim [OF s(2,1)] by (simp add: lease_live_def e)
  moreover have "1000 \<le> lease_ms (clm_leaseMs inp)" "lease_ms (clm_leaseMs inp) \<le> 3600000"
    by (auto simp: lease_ms_def MAX_CONTROLLER_LEASE_MS_def)
  ultimately show ?thesis by blast
qed

theorem claim_holds_for_its_lease_witness:
  "\<exists>s y ms. claimControllerSession example_host (example_session_env ''7'') example_unclaimed (example_claim ''a'' None) = Inr (s, y) \<and>
     1000 \<le> ms \<and> ms \<le> 3600000 \<and> (\<forall>reader. getControllerSession example_host reader y ''w'' =
     (if optionsNowMs example_host reader < 7 + ms then Some s else None))"
proof -
  let ?r = "claimControllerSession example_host (example_session_env ''7'') example_unclaimed (example_claim ''a'' None)"
  have d: "date_parse example_host (sev_writeNow (example_session_env ''7'')) = Some 7"
    by (simp add: example_host_def parse_int_def digits_value_def example_session_env_def)
  then have "\<not> isl ?r"
    by (simp add: claimControllerSession_def assertIdentity_def assertWorkClaimable_def getWorkContract_def assertExpectedGeneration_def
        activeSession_def newest_claim_def persistClaim_def claimedSession_def example_claim_def example_unclaimed_def
        js_trim_def js_space_def example_session_env_def Let_def)
  then have r: "?r = Inr (fst (projr ?r), snd (projr ?r))" by (rule not_isl_Inr)
  have o: "one_claim example_unclaimed" by (simp add: one_claim_def example_unclaimed_def)
  have w: "clm_workId (example_claim ''a'' None) = ''w''" by (simp add: example_claim_def)
  from claim_holds_for_its_lease [OF r o example_host_dates d] r show ?thesis unfolding w by blast
qed

end
