(* ===== verification/Schedules.thy ===== *)
theory Schedules
  imports WorkContract
begin

text \<open>
  Schedules and their occurrences (\<open>packages/kernel/scheduler/domain/schedule.ts\<close>): what triggers
  a schedule, how often it may run and fail, what it does, and the record of each time it was due.
  Minutes are integers, as the configuration of a schedule truncates them.
\<close>

datatype schedule_priority = Schedule_P0 | Schedule_P1 | Schedule_P2 | Schedule_P3 | Schedule_P4

fun schedule_priority_str :: "schedule_priority \<Rightarrow> string" where
  "schedule_priority_str Schedule_P0 = ''P0''"
| "schedule_priority_str Schedule_P1 = ''P1''"
| "schedule_priority_str Schedule_P2 = ''P2''"
| "schedule_priority_str Schedule_P3 = ''P3''"
| "schedule_priority_str Schedule_P4 = ''P4''"

datatype schedule_claim_mode = Claims_read | Claims_write | Claims_exclusive

fun schedule_claim_mode_str :: "schedule_claim_mode \<Rightarrow> string" where
  "schedule_claim_mode_str Claims_read = ''read''"
| "schedule_claim_mode_str Claims_write = ''write''"
| "schedule_claim_mode_str Claims_exclusive = ''exclusive''"

record schedule_claim =
  scl_resourceKey :: string
  scl_mode :: schedule_claim_mode
  scl_quantity :: "int option"
  scl_scopeRef :: "scope_ref option"
  scl_executionPlacement :: "execution_placement option"
  scl_repoId :: "string option"
  scl_checkoutId :: "string option"
  scl_workId :: "string option"

datatype trigger_type =
    Trigger_interval | Trigger_cron | Trigger_calendar | Trigger_condition | Trigger_repository_event
  | Trigger_dependency_checkpoint | Trigger_manual

fun trigger_type_str :: "trigger_type \<Rightarrow> string" where
  "trigger_type_str Trigger_interval = ''interval''"
| "trigger_type_str Trigger_cron = ''cron''"
| "trigger_type_str Trigger_calendar = ''calendar''"
| "trigger_type_str Trigger_condition = ''condition''"
| "trigger_type_str Trigger_repository_event = ''repository-event''"
| "trigger_type_str Trigger_dependency_checkpoint = ''dependency-checkpoint''"
| "trigger_type_str Trigger_manual = ''manual''"

datatype condition_kind = Cond_repository_clean | Cond_job_succeeded | Cond_job_terminal

fun condition_kind_str :: "condition_kind \<Rightarrow> string" where
  "condition_kind_str Cond_repository_clean = ''repository_clean''"
| "condition_kind_str Cond_job_succeeded = ''job_succeeded''"
| "condition_kind_str Cond_job_terminal = ''job_terminal''"

record schedule_condition =
  scd_kind :: condition_kind
  scd_jobId :: "string option"

record schedule_trigger =
  tg_type :: trigger_type
  tg_everyMinutes :: "int option"
  tg_cronExpression :: "string option"
  tg_timezone :: "string option"
  tg_catchUpMinutes :: "int option"
  tg_calendarAt :: "string option"
  tg_condition :: "schedule_condition option"
  tg_eventName :: "string option"
  tg_dependencyJobIds :: "string list option"

datatype trigger_source = Src_timer | Src_manual | Src_repository_event | Src_dependency_checkpoint | Src_condition

fun trigger_source_str :: "trigger_source \<Rightarrow> string" where
  "trigger_source_str Src_timer = ''timer''"
| "trigger_source_str Src_manual = ''manual''"
| "trigger_source_str Src_repository_event = ''repository-event''"
| "trigger_source_str Src_dependency_checkpoint = ''dependency-checkpoint''"
| "trigger_source_str Src_condition = ''condition''"

record trigger_context =
  tc_source :: "trigger_source option"
  tc_eventName :: "string option"
  tc_eventId :: "string option"
  tc_data :: "(string \<times> json) list option"

record schedule_policy =
  sy_maxActiveOccurrences :: int
  sy_maxFailures :: int
  sy_cooldownMinutes :: int
  sy_dailyBudgetMinutes :: int
  sy_shadowMode :: bool
  sy_backoffBaseMinutes :: "int option"
  sy_backoffMaxMinutes :: "int option"

datatype action_target = Target_repository | Target_runtime | Target_controller | Target_external

fun action_target_str :: "action_target \<Rightarrow> string" where
  "action_target_str Target_repository = ''repository''"
| "action_target_str Target_runtime = ''runtime''"
| "action_target_str Target_controller = ''controller''"
| "action_target_str Target_external = ''external''"

record schedule_action =
  sca_operation :: string
  sca_target :: "action_target option"
  sca_arguments :: "(string \<times> json) list option"
  sca_priority :: "schedule_priority option"
  sca_resourceClaims :: "schedule_claim list option"

datatype observation_status = Obs_baseline | Obs_unchanged | Obs_changed | Obs_keepalive | Obs_auth_required

record schedule_identity =
  skd_revision :: int
  skd_scheduleId :: string
  skd_requestId :: string
  skd_repoId :: string
  skd_createdAt :: string
  skd_updatedAt :: string

record schedule_setup = schedule_identity +
  skd_scopeRef :: "scope_ref option"
  skd_executionPlacement :: "execution_placement option"
  skd_name :: string
  skd_enabled :: bool
  skd_trigger :: schedule_trigger
  skd_policy :: schedule_policy
  skd_action :: schedule_action
  skd_stopConditions :: "string list"

record repository_schedule = schedule_setup +
  skd_lastTriggeredAt :: "string option"
  skd_lastOccurrenceId :: "string option"
  skd_consecutiveFailures :: int
  skd_consecutiveNoops :: "int option"
  skd_nextEligibleAt :: "string option"
  skd_pausedReason :: "string option"
  skd_lastObservationAt :: "string option"
  skd_lastObservationFingerprint :: "string option"
  skd_lastObservationChangedAt :: "string option"
  skd_lastObservationStatus :: "observation_status option"

datatype schedule_decision_type =
    Decide_nothing_to_do | Decide_would_execute | Decide_execute | Decide_cooldown | Decide_budget_exhausted
  | Decide_active_occurrence | Decide_stopped | Decide_operation_blocked | Decide_maintenance_not_ready
  | Decide_trigger_not_due | Decide_condition_not_met | Decide_dependency_not_ready | Decide_event_not_matched

record schedule_decision =
  sd_revision :: int
  sd_decisionId :: string
  sd_occurrenceId :: string
  sd_scheduleId :: string
  sd_repoId :: string
  sd_requestId :: string
  sd_decision :: schedule_decision_type
  sd_reason :: "string option"
  sd_triggerContext :: "trigger_context option"
  sd_evidence :: "(string \<times> json) list option"
  sd_createdAt :: string

datatype occurrence_status =
    Occ_created | Occ_shadowed | Occ_queued | Occ_running | Occ_dispatched | Occ_succeeded | Occ_failed | Occ_skipped

record schedule_occurrence =
  soc_revision :: int
  soc_occurrenceId :: string
  soc_scheduleId :: string
  soc_repoId :: string
  soc_windowKey :: string
  soc_status :: occurrence_status
  soc_decision :: schedule_decision_type
  soc_decisionId :: "string option"
  soc_triggerContext :: "trigger_context option"
  soc_createdAt :: string
  soc_updatedAt :: string
  soc_jobId :: "string option"
  soc_handoffId :: "string option"
  soc_reason :: "string option"

end
