(* ===== verification/HandoffInbox.thy ===== *)
theory HandoffInbox
  imports WorkTypes JsonFiles
begin

text \<open>
  The inbox of handoffs (\<open>src/runtime/control-plane/facade/handoff-inbox-store.ts\<close>, with its types
  in \<open>facade/types.ts\<close> and \<open>packages/protocols/handoff/status.ts\<close>): the judgement points at which a
  person or a controller has to decide.  A write runs under the lock of the inbox, as one step.
  The file is the list of its items, newest first; an unreadable file reads as an empty inbox.
\<close>

section \<open>Data\<close>

datatype handoff_status =
    Handoff_pending | Handoff_acknowledged | Handoff_in_progress | Handoff_resolved | Handoff_dismissed
  | Handoff_superseded | Handoff_expired

definition isTerminalHandoffStatus :: "handoff_status \<Rightarrow> bool" where
  "isTerminalHandoffStatus s \<longleftrightarrow> s \<in> {Handoff_resolved, Handoff_dismissed, Handoff_superseded, Handoff_expired}"

datatype handoff_severity = Sev_info | Sev_needs_review | Sev_blocked | Sev_failed | Sev_ready_to_continue

datatype handoff_reason =
    Handoff_policy_approval_required | Handoff_ambiguous_outcome | Handoff_missing_authorization | Handoff_invalid_objective
  | Handoff_repeated_infrastructure_failure | Handoff_codex_worker_requires_review
  | Handoff_destructive_action_requires_confirmation

fun handoff_reason_str :: "handoff_reason \<Rightarrow> string" where
  "handoff_reason_str Handoff_policy_approval_required = ''policy_approval_required''"
| "handoff_reason_str Handoff_ambiguous_outcome = ''ambiguous_outcome''"
| "handoff_reason_str Handoff_missing_authorization = ''missing_authorization''"
| "handoff_reason_str Handoff_invalid_objective = ''invalid_objective''"
| "handoff_reason_str Handoff_repeated_infrastructure_failure = ''repeated_infrastructure_failure''"
| "handoff_reason_str Handoff_codex_worker_requires_review = ''codex_worker_requires_review''"
| "handoff_reason_str Handoff_destructive_action_requires_confirmation = ''destructive_action_requires_confirmation''"

record handoff_check =
  hc_checkId :: string
  hc_ok :: bool
  hc_summary :: "string option"
  hc_outcome :: "verification_outcome option"

record handoff_work_semantics =
  hw_phase :: work_phase
  hw_status :: work_contract_status
  hw_workKind :: work_kind
  hw_dispatchState :: dispatch_state
  hw_evidenceState :: evidence_state
  hw_completionOutcome :: "completion_outcome option"

record handoff_state =
  hs_repoId :: string
  hs_issueId :: "string option"
  hs_taskId :: "string option"
  hs_workId :: "string option"
  hs_mode :: "execution_mode option"
  hs_statusSummary :: string
  hs_blockedBy :: "string list option"
  hs_changedFiles :: "string list option"
  hs_checks :: "handoff_check list option"
  hs_workSemantics :: "handoff_work_semantics option"
  hs_reconciliationRequired :: "bool option"
  hs_nextSafeAction :: "string option"

datatype approval_operation = Approve_start | Approve_repair

record handoff_approval =
  ha_operation :: approval_operation
  ha_label :: string
  ha_summary :: string
  ha_risk :: action_risk
  ha_payload :: "(string \<times> json) list"

record handoff_item =
  hi_id :: string
  hi_repoId :: string
  hi_workId :: "string option"
  hi_issueId :: "string option"
  hi_taskId :: "string option"
  hi_title :: string
  hi_severity :: handoff_severity
  hi_status :: handoff_status
  hi_reason :: string
  hi_creationReason :: "handoff_reason option"
  hi_summary :: string
  hi_currentState :: handoff_state
  hi_attemptedActions :: "string list option"
  hi_evidenceRefs :: "evidence_ref list"
  hi_blockingDecision :: "string option"
  hi_recommendedDecision :: string
  hi_recommendedPrompt :: string
  hi_recommendedContinuationPrompt :: "string option"
  hi_approvalAction :: "handoff_approval option"
  hi_suggestedNextActions :: "suggested_action list"
  hi_decision :: "string option"
  hi_resolver :: "string option"
  hi_createdAt :: string
  hi_updatedAt :: string

record handoff_store =
  hb_updatedAt :: string
  hb_items :: "handoff_item list"

text \<open>What a caller gives to create an item: the item, with status and times left open.\<close>

record handoff_input =
  hin_item :: handoff_item
  hin_status :: "handoff_status option"
  hin_createdAt :: "string option"
  hin_updatedAt :: "string option"
  hin_evidenceRefs :: "evidence_ref list option"
  hin_suggestedNextActions :: "suggested_action list option"

section \<open>Operations\<close>

definition HANDOFF_ELIGIBLE_REASONS :: "handoff_reason list" where
  "HANDOFF_ELIGIBLE_REASONS = [Handoff_policy_approval_required, Handoff_ambiguous_outcome, Handoff_missing_authorization,
     Handoff_invalid_objective, Handoff_repeated_infrastructure_failure, Handoff_codex_worker_requires_review,
     Handoff_destructive_action_requires_confirmation]"

definition shouldCreateHandoff :: "handoff_reason option \<Rightarrow> bool" where
  "shouldCreateHandoff reason = (case reason of None \<Rightarrow> False | Some r \<Rightarrow> r \<in> set HANDOFF_ELIGIBLE_REASONS)"

definition new_handoff :: "string \<Rightarrow> handoff_input \<Rightarrow> handoff_item" where
  "new_handoff stamp inp =
     (let given = hin_item inp;
          at_time = coalesce (hin_createdAt inp) (coalesce (hin_updatedAt inp) stamp)
      in given\<lparr>hi_id := sanitizeFileComponent (hi_id given),
           hi_status := coalesce (hin_status inp) Handoff_pending,
           hi_attemptedActions := Some (take 20 (coalesce (hi_attemptedActions given) [])),
           hi_evidenceRefs := take 20 (coalesce (hin_evidenceRefs inp) []),
           hi_suggestedNextActions := take 8 (coalesce (hin_suggestedNextActions inp) []),
           hi_recommendedContinuationPrompt :=
             Some (coalesce (hi_recommendedContinuationPrompt given) (hi_recommendedPrompt given)),
           hi_createdAt := at_time,
           hi_updatedAt := coalesce (hin_updatedAt inp) at_time\<rparr>)"

definition createHandoffItem :: "string \<Rightarrow> handoff_store \<Rightarrow> handoff_input \<Rightarrow> (handoff_item \<times> handoff_store) res" where
  "createHandoffItem stamp store inp =
     (let reason = hi_creationReason (hin_item inp) in
      bindE (throw_if (reason \<noteq> None \<and> \<not> shouldCreateHandoff reason)
               (''handoff creation reason is not eligible: '' @ coalesce (map_option handoff_reason_str reason) [])) (\<lambda>_.
      let item = new_handoff stamp inp in
      bindE (throw_if (\<exists>existing\<in>set (hb_items store). hi_id existing = hi_id item)
               (''handoff already exists: '' @ hi_id item)) (\<lambda>_.
      Inr (item, \<lparr>hb_updatedAt = hi_updatedAt item, hb_items = item # hb_items store\<rparr>))))"

datatype handoff_filter = Handoffs_all | Handoffs_active | Handoffs_status handoff_status

fun handoff_selected :: "handoff_filter \<Rightarrow> handoff_item \<Rightarrow> bool" where
  "handoff_selected Handoffs_all item = True"
| "handoff_selected Handoffs_active item = (\<not> isTerminalHandoffStatus (hi_status item))"
| "handoff_selected (Handoffs_status s) item = (hi_status item = s)"

definition listHandoffItems :: "js_host \<Rightarrow> handoff_store \<Rightarrow> handoff_filter option \<Rightarrow> int option \<Rightarrow> handoff_item list" where
  "listHandoffItems H store status limit =
     take (nat (max 1 (min (coalesce limit 50) 100)))
       (sort_by (\<lambda>l r. locale_compare H (hi_updatedAt r) (hi_updatedAt l))
         (filter (handoff_selected (coalesce status (Handoffs_status Handoff_pending))) (hb_items store)))"

record handoff_summary =
  hu_id :: string
  hu_repoId :: string
  hu_workId :: "string option"
  hu_title :: string
  hu_severity :: handoff_severity
  hu_status :: handoff_status
  hu_reason :: string
  hu_creationReason :: "handoff_reason option"
  hu_updatedAt :: string
  hu_blockingDecision :: "string option"

definition summarizeHandoffItem :: "handoff_item \<Rightarrow> handoff_summary" where
  "summarizeHandoffItem item = \<lparr>hu_id = hi_id item, hu_repoId = hi_repoId item, hu_workId = hi_workId item,
     hu_title = hi_title item, hu_severity = hi_severity item, hu_status = hi_status item,
     hu_reason = take 240 (hi_reason item), hu_creationReason = hi_creationReason item,
     hu_updatedAt = hi_updatedAt item, hu_blockingDecision = hi_blockingDecision item\<rparr>"

definition getHandoffItem :: "handoff_store \<Rightarrow> string \<Rightarrow> handoff_item option" where
  "getHandoffItem store i = find (\<lambda>item. hi_id item = sanitizeFileComponent i) (hb_items store)"

text \<open>The patch of a status change; a field left out keeps its value.\<close>

definition setHandoffStatus ::
    "string \<Rightarrow> handoff_store \<Rightarrow> string \<Rightarrow> handoff_status \<Rightarrow> (string \<times> string) option \<Rightarrow> (handoff_item \<times> handoff_store) res" where
  "setHandoffStatus stamp store i status patch =
     (case find_index (\<lambda>item. hi_id item = sanitizeFileComponent i) (hb_items store) of
        None \<Rightarrow> throw (''handoff not found: '' @ sanitizeFileComponent i)
      | Some n \<Rightarrow>
          let old = hb_items store ! n;
              patched = (case patch of None \<Rightarrow> old
                | Some (decision, resolver) \<Rightarrow> old\<lparr>hi_decision := Some decision, hi_resolver := Some resolver\<rparr>);
              item = patched\<lparr>hi_status := status, hi_updatedAt := stamp\<rparr>
          in Inr (item, \<lparr>hb_updatedAt = stamp, hb_items = (hb_items store)[n := item]\<rparr>))"

definition acknowledgeHandoffItem :: "string \<Rightarrow> handoff_store \<Rightarrow> string \<Rightarrow> (handoff_item \<times> handoff_store) res" where
  "acknowledgeHandoffItem stamp store i = setHandoffStatus stamp store i Handoff_acknowledged None"

text \<open>A decision and its resolver, each of which an untyped caller may leave out.\<close>

record resolve_input =
  rvi_decision :: "string option"
  rvi_resolver :: "string option"

definition trimmed_or :: "string option \<Rightarrow> string \<Rightarrow> string" where
  "trimmed_or v d = or_str (opt_trim v) d"

definition resolveHandoffItem ::
    "string \<Rightarrow> handoff_store \<Rightarrow> string \<Rightarrow> resolve_input option \<Rightarrow> (handoff_item \<times> handoff_store) res" where
  "resolveHandoffItem stamp store i inp =
     (let decision = Option.bind inp rvi_decision; resolver = Option.bind inp rvi_resolver in
      if \<not> truthy (opt_trim decision) \<or> \<not> truthy (opt_trim resolver)
      then setHandoffStatus stamp store i Handoff_resolved (Some (trimmed_or decision ''resolved'', trimmed_or resolver ''system''))
      else setHandoffStatus stamp store i Handoff_resolved
        (Some (take 1000 (js_trim (the decision)), take 200 (js_trim (the resolver)))))"

definition dismissHandoffItem ::
    "string \<Rightarrow> handoff_store \<Rightarrow> string \<Rightarrow> resolve_input option \<Rightarrow> (handoff_item \<times> handoff_store) res" where
  "dismissHandoffItem stamp store i inp =
     setHandoffStatus stamp store i Handoff_dismissed
       (Some (or_str (map_option (take 1000) (opt_trim (Option.bind inp rvi_decision))) ''dismissed'',
              or_str (map_option (take 200) (opt_trim (Option.bind inp rvi_resolver))) ''system''))"

end
