(* ===== verification/Runs.thy ===== *)
theory Runs
  imports Prelude
begin

text \<open>
  Operations on files: a function of the state that returns a value or throws, and in both cases
  leaves a state, since a write made before the throw stays.
\<close>

type_synonym ('a, 's) run = "'s \<Rightarrow> 'a res \<times> 's"

definition returnS :: "'a \<Rightarrow> ('a, 's) run" where
  "returnS x s = (Inr x, s)"

definition throwS :: "string \<Rightarrow> ('a, 's) run" where
  "throwS m s = (throw m, s)"

definition bindS :: "('a, 's) run \<Rightarrow> ('a \<Rightarrow> ('b, 's) run) \<Rightarrow> ('b, 's) run" where
  "bindS m f s = (case m s of (Inl e, t) \<Rightarrow> (Inl e, t) | (Inr x, t) \<Rightarrow> f x t)"

definition getS :: "('s \<Rightarrow> 'a) \<Rightarrow> ('a, 's) run" where
  "getS f s = (Inr (f s), s)"

definition readS :: "('s \<Rightarrow> 'a res) \<Rightarrow> ('a, 's) run" where
  "readS f s = (f s, s)"

definition modifyS :: "('s \<Rightarrow> 's) \<Rightarrow> (unit, 's) run" where
  "modifyS f s = (Inr (), f s)"

text \<open>A statement \<open>if (c) throw new Error(m)\<close>, and \<open>try { m } catch {}\<close>.\<close>

definition throw_ifS :: "bool \<Rightarrow> string \<Rightarrow> (unit, 's) run" where
  "throw_ifS c m = (if c then throwS m else returnS ())"

definition quietS :: "('a, 's) run \<Rightarrow> (unit, 's) run" where
  "quietS m s = (Inr (), snd (m s))"

fun each_S :: "('a \<Rightarrow> (unit, 's) run) \<Rightarrow> 'a list \<Rightarrow> (unit, 's) run" where
  "each_S f [] = returnS ()"
| "each_S f (x # xs) = bindS (f x) (\<lambda>_. each_S f xs)"

lemma bindS_simps [simp]:
  "bindS (returnS x) f = f x" "bindS (throwS msg) f = throwS msg"
  "bindS m returnS = m" "bindS (bindS m f) g = bindS m (\<lambda>x. bindS (f x) g)"
  by (rule ext, simp add: bindS_def returnS_def throwS_def split: prod.split sum.split)+

lemma bindS_Inr: "bindS m f s = (Inr y, u) \<longleftrightarrow> (\<exists>x t. m s = (Inr x, t) \<and> f x t = (Inr y, u))"
  by (auto simp: bindS_def split: prod.splits sum.splits)

lemma bindS_Inl: "bindS m f s = (Inl e, u) \<longleftrightarrow> m s = (Inl e, u) \<or> (\<exists>x t. m s = (Inr x, t) \<and> f x t = (Inl e, u))"
  by (auto simp: bindS_def split: prod.splits sum.splits)

text \<open>What every operation of a program keeps, whether it returns or throws.\<close>

definition keepsS :: "('s \<Rightarrow> 's \<Rightarrow> bool) \<Rightarrow> ('a, 's) run \<Rightarrow> bool" where
  "keepsS R m \<longleftrightarrow> (\<forall>s. R s (snd (m s)))"

locale kept_relation =
  fixes R :: "'s \<Rightarrow> 's \<Rightarrow> bool"
  assumes R_refl: "R s s" and R_trans: "R s t \<Longrightarrow> R t u \<Longrightarrow> R s u"
begin

lemma keeps_pure: "keepsS R (returnS x)" "keepsS R (throwS m)" "keepsS R (getS f)" "keepsS R (readS g)" "keepsS R (throw_ifS c m)"
  by (simp_all add: keepsS_def returnS_def throwS_def getS_def readS_def throw_ifS_def R_refl)

lemma keeps_bind: "keepsS R m \<Longrightarrow> (\<And>x. keepsS R (f x)) \<Longrightarrow> keepsS R (bindS m f)"
proof (unfold keepsS_def, intro allI)
  fix s assume m: "\<forall>s. R s (snd (m s))" and f: "\<And>x. \<forall>s. R s (snd (f x s))"
  obtain r t where mt: "m s = (r, t)" by (cases "m s")
  then have t: "R s t" using m by (metis snd_conv)
  show "R s (snd (bindS m f s))"
  proof (cases r)
    case (Inl e)
    then show ?thesis using t by (simp add: bindS_def mt)
  next
    case (Inr x)
    then show ?thesis using R_trans [OF t] f by (simp add: bindS_def mt)
  qed
qed

lemma from_bind:
  assumes "R s (snd (m s))" and "\<And>x t. m s = (Inr x, t) \<Longrightarrow> R t (snd (f x t))"
  shows "R s (snd (bindS m f s))"
proof (cases "m s")
  case (Pair r t)
  then show ?thesis using assms R_trans by (cases r) (auto simp: bindS_def)
qed

lemma from_pure: "R s (snd (returnS x s))" "R s (snd (throwS msg s))" "R s (snd (getS f s))" "R s (snd (readS g s))"
  by (simp_all add: returnS_def throwS_def getS_def readS_def R_refl)

lemma from_quiet: "R s (snd (m s)) \<Longrightarrow> R s (snd (quietS m s))"
  by (simp add: quietS_def)

lemma keeps_modify: "(\<And>s. R s (f s)) \<Longrightarrow> keepsS R (modifyS f)"
  by (simp add: keepsS_def modifyS_def)

lemma keeps_quiet: "keepsS R m \<Longrightarrow> keepsS R (quietS m)"
  by (simp add: keepsS_def quietS_def)

lemma keeps_each: "(\<And>x. keepsS R (f x)) \<Longrightarrow> keepsS R (each_S f xs)"
  by (induction xs) (auto intro: keeps_pure keeps_bind)

lemma keeps_if: "keepsS R m \<Longrightarrow> keepsS R n \<Longrightarrow> keepsS R (if c then m else n)"
  by simp

lemma keeps_option: "keepsS R m \<Longrightarrow> (\<And>x. keepsS R (f x)) \<Longrightarrow> keepsS R (case v of None \<Rightarrow> m | Some x \<Rightarrow> f x)"
  by (cases v) auto

end

end
