(* ===== verification/ScheduleStore.thy ===== *)
theory ScheduleStore
  imports Schedules HandoffInbox Runs JsText
begin

text \<open>
  The files of the scheduler (\<open>packages/kernel/scheduler/infrastructure/schedule-store.ts\<close>): the
  schedules of a repository with their revisions and requests, the occurrences with their index,
  the decisions, and the handoffs of occurrences.  A directory is a list of names and contents in
  listing order, \<open>None\<close> the content of a file that cannot be read.  What an operation wrote before
  it throws stays written.  One operation reads the clock once and is one step; the code locks the
  schedule, so for the index, which all schedules share, that is an assumption.  The removal of
  history is in \<open>ScheduleHistory\<close>; the runtime event ledger is not modelled.
\<close>

section \<open>Files\<close>

type_synonym 'a files = "(string \<times> 'a option) list"

fun put_file :: "string \<Rightarrow> 'a \<Rightarrow> 'a files \<Rightarrow> 'a files" where
  "put_file name v [] = [(name, Some v)]"
| "put_file name v ((n, w) # fs) = (if n = name then (n, Some v) # fs else (n, w) # put_file name v fs)"

definition drop_file :: "string \<Rightarrow> 'a files \<Rightarrow> 'a files" where
  "drop_file name fs = filter (\<lambda>(n, _). n \<noteq> name) fs"

text \<open>\<open>readJsonFile\<close> without a fallback, and \<open>existsSync(path) ? readJsonFile(path) : undefined\<close>.\<close>

definition read_file :: "string \<Rightarrow> 'a files \<Rightarrow> 'a res" where
  "read_file name fs = (case map_of fs name of
     Some (Some v) \<Rightarrow> Inr v | Some None \<Rightarrow> throw (''unreadable: '' @ name) | None \<Rightarrow> throw (''ENOENT: '' @ name))"

definition read_existing :: "string \<Rightarrow> 'a files \<Rightarrow> 'a option res" where
  "read_existing name fs = (case map_of fs name of
     None \<Rightarrow> Inr None | Some None \<Rightarrow> throw (''unreadable: '' @ name) | Some (Some v) \<Rightarrow> Inr (Some v))"

record index_entry =
  ixe_occurrenceId :: string
  ixe_scheduleId :: string
  ixe_status :: occurrence_status
  ixe_createdAt :: string
  ixe_updatedAt :: string

record occurrence_index =
  ix_updatedAt :: string
  ix_active :: "index_entry list"
  ix_recent :: "index_entry list"

record schedule_request =
  srq_requestId :: string
  srq_semanticKey :: string
  srq_scheduleId :: string
  srq_repoId :: string
  srq_createdAt :: string

text \<open>A stored schedule; records from before revisions and request identifiers lack them.\<close>

record stored_schedule =
  ssd_schedule :: repository_schedule
  ssd_revision :: "int option"
  ssd_requestId :: "string option"

record schedule_world =
  scw_schedules :: "stored_schedule files"
  scw_requests :: "schedule_request files"
  scw_occurrences :: "schedule_occurrence files"
  scw_decisions :: "schedule_decision files"
  scw_index :: occurrence_index
  scw_inbox :: handoff_store

record schedule_env =
  sce_host :: js_host
  sce_now :: string
  sce_nowMs :: int
  sce_uuid :: string

type_synonym 'a sched = "('a, schedule_world) run"

section \<open>Reading a schedule\<close>

definition EXTERNAL_CONTROLLER_WAKE_MAX_FAILURES :: int where "EXTERNAL_CONTROLLER_WAKE_MAX_FAILURES = 3"
definition EXTERNAL_CONTROLLER_WAKE_DAILY_BUDGET_MINUTES :: int where "EXTERNAL_CONTROLLER_WAKE_DAILY_BUDGET_MINUTES = 60"
definition EXTERNAL_CONTROLLER_WAKE_MIN_COOLDOWN_MINUTES :: int where "EXTERNAL_CONTROLLER_WAKE_MIN_COOLDOWN_MINUTES = 10"
definition SCHEDULE_OCCURRENCE_RECENT_LIMIT :: nat where "SCHEDULE_OCCURRENCE_RECENT_LIMIT = 5000"

definition boundedSchedulePolicy :: "repository_schedule \<Rightarrow> schedule_policy" where
  "boundedSchedulePolicy schedule =
     (let given = skd_policy schedule;
          base = max 1 (coalesce (sy_backoffBaseMinutes given) (sy_cooldownMinutes given));
          policy = given\<lparr>sy_backoffBaseMinutes := Some base,
            sy_backoffMaxMinutes := Some (max 1 (coalesce (sy_backoffMaxMinutes given) (24 * 60)))\<rparr>
      in if sca_operation (skd_action schedule) \<noteq> ''external_controller_wake'' then policy
         else policy\<lparr>sy_maxFailures := max 1 (min (sy_maxFailures policy) EXTERNAL_CONTROLLER_WAKE_MAX_FAILURES),
           sy_dailyBudgetMinutes := max 1 (min (sy_dailyBudgetMinutes policy) EXTERNAL_CONTROLLER_WAKE_DAILY_BUDGET_MINUTES),
           sy_cooldownMinutes := max (sy_cooldownMinutes policy) EXTERNAL_CONTROLLER_WAKE_MIN_COOLDOWN_MINUTES,
           sy_backoffBaseMinutes := Some (max base EXTERNAL_CONTROLLER_WAKE_MIN_COOLDOWN_MINUTES)\<rparr>)"

definition hydrated :: "stored_schedule \<Rightarrow> repository_schedule" where
  "hydrated row =
     (let s = ssd_schedule row in
      s\<lparr>skd_revision := coalesce (ssd_revision row) 1,
        skd_requestId := or_str (ssd_requestId row) (''legacy-schedule:'' @ skd_scheduleId s),
        skd_policy := boundedSchedulePolicy s,
        skd_consecutiveNoops := Some (max 0 (coalesce (skd_consecutiveNoops s) 0))\<rparr>)"

definition getSchedule :: "string \<Rightarrow> repository_schedule sched" where
  "getSchedule scheduleId = readS (\<lambda>w. bindE (read_file scheduleId (scw_schedules w)) (\<lambda>row. Inr (hydrated row)))"

text \<open>One unreadable record makes the whole listing empty.\<close>

definition listSchedules :: "schedule_env \<Rightarrow> schedule_world \<Rightarrow> repository_schedule list" where
  "listSchedules env w =
     (case map_res (\<lambda>(name, _). fst (getSchedule name w)) (scw_schedules w) of
        Inl _ \<Rightarrow> []
      | Inr schedules \<Rightarrow>
          sort_by (\<lambda>a b. locale_compare (sce_host env) (skd_createdAt a) (skd_createdAt b)) schedules)"

section \<open>Semantic identity\<close>

fun canonical :: "js_host \<Rightarrow> json \<Rightarrow> json" where
  "canonical H (JArr xs) = JArr (map (canonical H) xs)"
| "canonical H (JObj ps) = JObj (sort_by (\<lambda>l r. locale_compare H (fst l) (fst r)) (map (\<lambda>(k, v). (k, canonical H v)) ps))"
| "canonical H v = v"

fun scope_kind_text :: "scope_kind \<Rightarrow> string" where
  "scope_kind_text Scope_workspace = ''workspace''"
| "scope_kind_text Scope_project = ''project''"
| "scope_kind_text Scope_requirement = ''requirement''"
| "scope_kind_text Scope_plan = ''plan''"
| "scope_kind_text Scope_plan_step = ''plan_step''"
| "scope_kind_text Scope_work = ''work''"

definition scope_json :: "scope_ref \<Rightarrow> json" where
  "scope_json s = JObj [(''schemaVersion'', JNum 1), (''kind'', JStr (scope_kind_text (sr_kind s))), (''id'', JStr (sr_id s))]"

definition placement_json :: "execution_placement \<Rightarrow> json" where
  "placement_json p = JObj ([(''schemaVersion'', JNum 1)] @ json_opt ''forgeInstanceId'' JStr (ep_forgeInstanceId p)
     @ json_opt ''repositoryId'' JStr (ep_repositoryId p) @ json_opt ''checkoutId'' JStr (ep_checkoutId p))"

definition claim_json :: "schedule_claim \<Rightarrow> json" where
  "claim_json c = JObj ([(''resourceKey'', JStr (scl_resourceKey c)), (''mode'', JStr (schedule_claim_mode_str (scl_mode c)))]
     @ json_opt ''quantity'' JNum (scl_quantity c) @ json_opt ''scopeRef'' scope_json (scl_scopeRef c)
     @ json_opt ''executionPlacement'' placement_json (scl_executionPlacement c) @ json_opt ''repoId'' JStr (scl_repoId c)
     @ json_opt ''checkoutId'' JStr (scl_checkoutId c) @ json_opt ''workId'' JStr (scl_workId c))"

definition condition_json :: "schedule_condition \<Rightarrow> json" where
  "condition_json c = JObj ([(''kind'', JStr (condition_kind_str (scd_kind c)))] @ json_opt ''jobId'' JStr (scd_jobId c))"

definition trigger_json :: "schedule_trigger \<Rightarrow> json" where
  "trigger_json t = JObj ([(''type'', JStr (trigger_type_str (tg_type t)))] @ json_opt ''everyMinutes'' JNum (tg_everyMinutes t)
     @ json_opt ''cronExpression'' JStr (tg_cronExpression t) @ json_opt ''timezone'' JStr (tg_timezone t)
     @ json_opt ''catchUpMinutes'' JNum (tg_catchUpMinutes t) @ json_opt ''calendarAt'' JStr (tg_calendarAt t)
     @ json_opt ''condition'' condition_json (tg_condition t) @ json_opt ''eventName'' JStr (tg_eventName t)
     @ json_opt ''dependencyJobIds'' json_strings (tg_dependencyJobIds t))"

definition policy_json :: "schedule_policy \<Rightarrow> json" where
  "policy_json p = JObj ([(''maxActiveOccurrences'', JNum (sy_maxActiveOccurrences p)), (''maxFailures'', JNum (sy_maxFailures p)),
     (''cooldownMinutes'', JNum (sy_cooldownMinutes p)), (''dailyBudgetMinutes'', JNum (sy_dailyBudgetMinutes p)),
     (''shadowMode'', JBool (sy_shadowMode p))] @ json_opt ''backoffBaseMinutes'' JNum (sy_backoffBaseMinutes p)
     @ json_opt ''backoffMaxMinutes'' JNum (sy_backoffMaxMinutes p))"

definition action_json :: "schedule_action \<Rightarrow> json" where
  "action_json a = JObj ([(''operation'', JStr (sca_operation a))]
     @ json_opt ''target'' (\<lambda>t. JStr (action_target_str t)) (sca_target a) @ json_opt ''arguments'' JObj (sca_arguments a)
     @ json_opt ''priority'' (\<lambda>p. JStr (schedule_priority_str p)) (sca_priority a)
     @ json_opt ''resourceClaims'' (\<lambda>cs. JArr (map claim_json cs)) (sca_resourceClaims a))"

definition semantic_json :: "string \<Rightarrow> repository_schedule \<Rightarrow> json" where
  "semantic_json name s = JObj [(''repoId'', JStr (skd_repoId s)), (''name'', JStr name), (''trigger'', trigger_json (skd_trigger s)),
     (''policy'', policy_json (skd_policy s)), (''action'', action_json (skd_action s)),
     (''stopConditions'', json_strings (skd_stopConditions s))]"

definition scheduleSemanticKey :: "js_host \<Rightarrow> repository_schedule \<Rightarrow> string" where
  "scheduleSemanticKey H inp = sha256_hex H (json_stringify (canonical H (semantic_json (skd_name inp) inp)))"

section \<open>Creating and updating\<close>

definition put_schedule :: "repository_schedule \<Rightarrow> schedule_world \<Rightarrow> schedule_world" where
  "put_schedule s w = w\<lparr>scw_schedules := put_file (skd_scheduleId s)
     \<lparr>ssd_schedule = s, ssd_revision = Some (skd_revision s), ssd_requestId = Some (skd_requestId s)\<rparr> (scw_schedules w)\<rparr>"

text \<open>\<open>SCH-<now>-<first eight of a fresh identifier>\<close>.\<close>

definition new_schedule :: "schedule_env \<Rightarrow> string \<Rightarrow> repository_schedule \<Rightarrow> repository_schedule" where
  "new_schedule env requestId inp =
     inp\<lparr>skd_requestId := requestId, skd_revision := 1,
         skd_scheduleId := ''SCH-'' @ int_str (sce_nowMs env) @ ''-'' @ take 8 (sce_uuid env),
         skd_createdAt := sce_now env, skd_updatedAt := sce_now env, skd_consecutiveFailures := 0\<rparr>"

definition createSchedule :: "schedule_env \<Rightarrow> repository_schedule \<Rightarrow> repository_schedule sched" where
  "createSchedule env inp =
     (let requestId = js_trim (skd_requestId inp); key = sha256_hex (sce_host env) requestId;
          semanticKey = scheduleSemanticKey (sce_host env) inp
      in
      bindS (throw_ifS (requestId = []) ''SCHEDULE_REQUEST_ID_REQUIRED'') (\<lambda>_.
      bindS (readS (\<lambda>w. read_existing key (scw_requests w))) (\<lambda>found.
      case found of
        Some r \<Rightarrow>
          bindS (throw_ifS (srq_semanticKey r \<noteq> semanticKey) (''SCHEDULE_REQUEST_ID_CONFLICT: '' @ requestId)) (\<lambda>_.
          getSchedule (srq_scheduleId r))
      | None \<Rightarrow>
          let schedule = new_schedule env requestId inp in
          bindS (modifyS (put_schedule schedule)) (\<lambda>_.
          bindS (modifyS (\<lambda>w. w\<lparr>scw_requests := put_file key
            \<lparr>srq_requestId = requestId, srq_semanticKey = semanticKey, srq_scheduleId = skd_scheduleId schedule,
             srq_repoId = skd_repoId schedule, srq_createdAt = sce_now env\<rparr> (scw_requests w)\<rparr>)) (\<lambda>_.
          returnS schedule)))))"

text \<open>Identity and revision are the current ones, whatever the candidate says.\<close>

definition revised_schedule :: "schedule_env \<Rightarrow> repository_schedule \<Rightarrow> repository_schedule \<Rightarrow> repository_schedule" where
  "revised_schedule env current candidate =
     candidate\<lparr>skd_revision := skd_revision current + 1, skd_scheduleId := skd_scheduleId current,
       skd_repoId := skd_repoId current, skd_requestId := skd_requestId current, skd_createdAt := skd_createdAt current,
       skd_updatedAt := sce_now env\<rparr>"

definition persistScheduleRevision ::
    "schedule_env \<Rightarrow> repository_schedule \<Rightarrow> repository_schedule \<Rightarrow> repository_schedule sched" where
  "persistScheduleRevision env current candidate =
     (let new = revised_schedule env current candidate in
      bindS (modifyS (put_schedule new)) (\<lambda>_. returnS new))"

definition saveSchedule :: "schedule_env \<Rightarrow> repository_schedule \<Rightarrow> repository_schedule sched" where
  "saveSchedule env schedule =
     bindS (getSchedule (skd_scheduleId schedule)) (\<lambda>current.
     bindS (throw_ifS (skd_revision schedule \<noteq> skd_revision current)
       (''SCHEDULE_REVISION_CONFLICT: '' @ skd_scheduleId schedule @ '':expected='' @ int_str (skd_revision schedule)
        @ '':actual='' @ int_str (skd_revision current))) (\<lambda>_.
     persistScheduleRevision env current schedule))"

text \<open>An update is given as what it does to the current schedule.\<close>

definition updateSchedule ::
    "schedule_env \<Rightarrow> string \<Rightarrow> (repository_schedule \<Rightarrow> repository_schedule) \<Rightarrow> repository_schedule sched" where
  "updateSchedule env scheduleId change =
     bindS (getSchedule scheduleId) (\<lambda>current. persistScheduleRevision env current (change current))"

section \<open>Occurrences and their index\<close>

definition activeOccurrenceStatus :: "occurrence_status \<Rightarrow> bool" where
  "activeOccurrenceStatus s \<longleftrightarrow> s = Occ_created \<or> s = Occ_queued \<or> s = Occ_running"

definition index_entry_of :: "schedule_occurrence \<Rightarrow> index_entry" where
  "index_entry_of occ = \<lparr>ixe_occurrenceId = soc_occurrenceId occ, ixe_scheduleId = soc_scheduleId occ, ixe_status = soc_status occ,
     ixe_createdAt = soc_createdAt occ, ixe_updatedAt = soc_updatedAt occ\<rparr>"

text \<open>\<open>xs.slice(-n)\<close>.\<close>

definition last_n :: "nat \<Rightarrow> 'a list \<Rightarrow> 'a list" where
  "last_n n xs = drop (length xs - n) xs"

text \<open>The index a save writes, from the index it read; the two are not one step across schedules.\<close>

definition upserted_index :: "schedule_env \<Rightarrow> schedule_occurrence \<Rightarrow> occurrence_index \<Rightarrow> occurrence_index" where
  "upserted_index env occ ix =
     (let H = sce_host env; other = (\<lambda>e. ixe_occurrenceId e \<noteq> soc_occurrenceId occ);
          active = filter other (ix_active ix) @ (if activeOccurrenceStatus (soc_status occ) then [index_entry_of occ] else []);
          recent = filter other (ix_recent ix) @ [index_entry_of occ]
      in \<lparr>ix_updatedAt = sce_now env,
          ix_active = last_n SCHEDULE_OCCURRENCE_RECENT_LIMIT
            (sort_by (\<lambda>a b. locale_compare H (ixe_updatedAt a) (ixe_updatedAt b)) active),
          ix_recent = take SCHEDULE_OCCURRENCE_RECENT_LIMIT
            (sort_by (\<lambda>a b. locale_compare H (ixe_createdAt b) (ixe_createdAt a)) recent)\<rparr>)"

definition getOccurrence :: "string \<Rightarrow> schedule_occurrence option sched" where
  "getOccurrence occurrenceId = readS (\<lambda>w. read_existing occurrenceId (scw_occurrences w))"

definition failure_of_schedule :: "string \<Rightarrow> handoff_item \<Rightarrow> bool" where
  "failure_of_schedule scheduleId item \<longleftrightarrow>
     hs_taskId (hi_currentState item) = Some scheduleId \<and> hi_creationReason item = Some Handoff_repeated_infrastructure_failure"

definition resolve_recovered :: "schedule_env \<Rightarrow> schedule_occurrence \<Rightarrow> handoff_item \<Rightarrow> unit sched" where
  "resolve_recovered env occ item w =
     (case resolveHandoffItem (sce_now env) (scw_inbox w) (hi_id item)
        (Some \<lparr>rvi_decision = Some (''Schedule '' @ soc_scheduleId occ @ '' recovered on occurrence '' @ soc_occurrenceId occ @ ''.''),
               rvi_resolver = Some ''schedule-runtime''\<rparr>) of
        Inl _ \<Rightarrow> (Inr (), w)
      | Inr (_, inbox) \<Rightarrow> (Inr (), w\<lparr>scw_inbox := inbox\<rparr>))"

definition resolveRecoveredScheduleFailureHandoffs :: "schedule_env \<Rightarrow> schedule_occurrence \<Rightarrow> unit sched" where
  "resolveRecoveredScheduleFailureHandoffs env occ =
     bindS (getS (\<lambda>w. filter (failure_of_schedule (soc_scheduleId occ))
       (listHandoffItems (sce_host env) (scw_inbox w) (Some Handoffs_active) (Some 100)))) (\<lambda>items.
     each_S (resolve_recovered env occ) items)"

text \<open>After the file of an occurrence is written: its index entry, the request of its schedule for
  the event, and the handoffs a recovery resolves.\<close>

definition occurrence_written :: "schedule_env \<Rightarrow> schedule_occurrence \<Rightarrow> schedule_occurrence sched" where
  "occurrence_written env saved =
     bindS (modifyS (\<lambda>w. w\<lparr>scw_index := upserted_index env saved (scw_index w)\<rparr>)) (\<lambda>_.
     bindS (getSchedule (soc_scheduleId saved)) (\<lambda>_.
     if soc_status saved = Occ_succeeded \<or> soc_status saved = Occ_dispatched
     then bindS (resolveRecoveredScheduleFailureHandoffs env saved) (\<lambda>_. returnS saved)
     else returnS saved))"

definition saveOccurrence :: "schedule_env \<Rightarrow> schedule_occurrence \<Rightarrow> schedule_occurrence sched" where
  "saveOccurrence env occ =
     bindS (getOccurrence (soc_occurrenceId occ)) (\<lambda>previous.
     let expected = coalesce (map_option soc_revision previous) 0 in
     bindS (throw_ifS (soc_revision occ \<noteq> expected)
       (''SCHEDULE_OCCURRENCE_REVISION_CONFLICT: '' @ soc_occurrenceId occ @ '':expected='' @ int_str (soc_revision occ)
        @ '':actual='' @ int_str expected)) (\<lambda>_.
     let saved = occ\<lparr>soc_revision := expected + 1, soc_updatedAt := sce_now env\<rparr> in
     bindS (modifyS (\<lambda>w. w\<lparr>scw_occurrences := put_file (soc_occurrenceId occ) saved (scw_occurrences w)\<rparr>)) (\<lambda>_.
     occurrence_written env saved)))"

fun occurrences_of :: "string list \<Rightarrow> schedule_occurrence list sched" where
  "occurrences_of [] = returnS []"
| "occurrences_of (i # is) =
     bindS (getOccurrence i) (\<lambda>found. bindS (occurrences_of is) (\<lambda>rest.
     returnS (case found of None \<Rightarrow> rest | Some occ \<Rightarrow> occ # rest)))"

definition listActiveOccurrences :: "string option \<Rightarrow> schedule_occurrence list sched" where
  "listActiveOccurrences scheduleId =
     bindS (getS (\<lambda>w. filter (\<lambda>e. \<not> truthy scheduleId \<or> scheduleId = Some (ixe_scheduleId e)) (ix_active (scw_index w)))) (\<lambda>entries.
     occurrences_of (map ixe_occurrenceId entries))"

definition deleteSchedule :: "schedule_env \<Rightarrow> string \<Rightarrow> repository_schedule sched" where
  "deleteSchedule env scheduleId =
     bindS (getSchedule scheduleId) (\<lambda>current.
     bindS (throw_ifS (skd_enabled current) (''SCHEDULE_DELETE_REQUIRES_PAUSED: '' @ scheduleId)) (\<lambda>_.
     bindS (listActiveOccurrences (Some scheduleId)) (\<lambda>active.
     bindS (throw_ifS (active \<noteq> []) (''SCHEDULE_DELETE_ACTIVE_OCCURRENCE: '' @ scheduleId)) (\<lambda>_.
     bindS (modifyS (\<lambda>w. w\<lparr>scw_schedules := drop_file scheduleId (scw_schedules w)\<rparr>)) (\<lambda>_.
     let key = sha256_hex (sce_host env) (skd_requestId current) in
     bindS (readS (\<lambda>w. read_existing key (scw_requests w))) (\<lambda>found.
     bindS (modifyS (\<lambda>w. case found of
         None \<Rightarrow> w
       | Some r \<Rightarrow> if srq_scheduleId r = scheduleId then w\<lparr>scw_requests := drop_file key (scw_requests w)\<rparr> else w)) (\<lambda>_.
     returnS current)))))))"

section \<open>Decisions\<close>

definition saveScheduleDecision :: "schedule_decision \<Rightarrow> schedule_decision sched" where
  "saveScheduleDecision d =
     bindS (readS (\<lambda>w. read_existing (sd_decisionId d) (scw_decisions w))) (\<lambda>found.
     case found of
       Some existing \<Rightarrow> returnS existing
     | None \<Rightarrow> bindS (modifyS (\<lambda>w. w\<lparr>scw_decisions := put_file (sd_decisionId d) d (scw_decisions w)\<rparr>)) (\<lambda>_. returnS d))"

section \<open>Handoffs of occurrences\<close>

record occurrence_handoff =
  ohi_title :: string
  ohi_summary :: string
  ohi_reason :: string
  ohi_creationReason :: handoff_reason
  ohi_blockingDecision :: string
  ohi_recommendedDecision :: string
  ohi_recommendedPrompt :: string
  ohi_statusSummary :: string
  ohi_blockedBy :: "string list option"
  ohi_attemptedActions :: "string list option"
  ohi_evidenceRefs :: "evidence_ref list option"

text \<open>\<open>/^([A-Z][A-Z0-9_]{2,})(?::|\b)/\<close>: the leading code of a message, ended by no further word character.\<close>

definition code_char :: "char \<Rightarrow> bool" where
  "code_char c \<longleftrightarrow> CHR ''A'' \<le> c \<and> c \<le> CHR ''Z'' \<or> is_digit c \<or> c = CHR ''_''"

definition word_char :: "char \<Rightarrow> bool" where
  "word_char c \<longleftrightarrow> code_char c \<or> CHR ''a'' \<le> c \<and> c \<le> CHR ''z''"

definition leading_code :: "string \<Rightarrow> string option" where
  "leading_code s =
     (let code = takeWhile code_char s; rest = dropWhile code_char s in
      if length code \<ge> 3 \<and> CHR ''A'' \<le> hd code \<and> hd code \<le> CHR ''Z'' \<and> (rest = [] \<or> \<not> word_char (hd rest)) then Some code else None)"

fun squeeze_spaces :: "bool \<Rightarrow> string \<Rightarrow> string" where
  "squeeze_spaces gap [] = []"
| "squeeze_spaces gap (c # s) =
     (if js_space c then (if gap then squeeze_spaces True s else CHR '' '' # squeeze_spaces True s) else c # squeeze_spaces False s)"

definition scheduleFailureClass :: "string \<Rightarrow> string" where
  "scheduleFailureClass reason =
     (let trimmed = js_trim reason in
      case leading_code trimmed of
        Some code \<Rightarrow> code
      | None \<Rightarrow> or_str (Some (take 120 (js_lower (js_trim (squeeze_spaces False (takeWhile (\<lambda>c. c \<noteq> CHR '':'') trimmed))))))
          ''unknown_failure'')"

definition activeScheduleFailureHandoff ::
    "schedule_env \<Rightarrow> schedule_world \<Rightarrow> string \<Rightarrow> handoff_reason \<Rightarrow> string \<Rightarrow> handoff_item option" where
  "activeScheduleFailureHandoff env w scheduleId creationReason reason =
     find (\<lambda>item. hs_taskId (hi_currentState item) = Some scheduleId \<and> hi_creationReason item = Some creationReason
         \<and> scheduleFailureClass (hi_reason item) = scheduleFailureClass reason)
       (listHandoffItems (sce_host env) (scw_inbox w) (Some Handoffs_active) (Some 100))"

definition stableScheduleFailureHandoffId ::
    "schedule_env \<Rightarrow> schedule_world \<Rightarrow> string \<Rightarrow> handoff_reason \<Rightarrow> string \<Rightarrow> string \<Rightarrow> string" where
  "stableScheduleFailureHandoffId env w scheduleId creationReason reason occurrenceId =
     (let H = sce_host env;
          digest = take 20 (sha256_hex H (scheduleId @ '':'' @ handoff_reason_str creationReason @ '':'' @ scheduleFailureClass reason));
          baseId = ''schedule-failure-'' @ digest
      in case getHandoffItem (scw_inbox w) baseId of
           None \<Rightarrow> baseId
         | Some _ \<Rightarrow> baseId @ ''-'' @ take 8 (sha256_hex H occurrenceId))"

definition occurrence_handoff_input ::
    "repository_schedule \<Rightarrow> schedule_occurrence \<Rightarrow> occurrence_handoff \<Rightarrow> string \<Rightarrow> handoff_input" where
  "occurrence_handoff_input schedule occ inp handoffId =
     \<lparr>hin_item = \<lparr>hi_id = handoffId, hi_repoId = soc_repoId occ, hi_workId = None, hi_issueId = None, hi_taskId = None,
        hi_title = ohi_title inp, hi_severity = Sev_blocked, hi_status = Handoff_pending, hi_reason = ohi_reason inp,
        hi_creationReason = Some (ohi_creationReason inp), hi_summary = ohi_summary inp,
        hi_currentState = \<lparr>hs_repoId = soc_repoId occ, hs_issueId = None, hs_taskId = Some (skd_scheduleId schedule), hs_workId = None,
          hs_mode = None, hs_statusSummary = ohi_statusSummary inp, hs_blockedBy = ohi_blockedBy inp, hs_changedFiles = None,
          hs_checks = None, hs_workSemantics = None, hs_reconciliationRequired = None, hs_nextSafeAction = None\<rparr>,
        hi_attemptedActions = Some (take 20 ([''schedule:'' @ skd_scheduleId schedule, ''occurrence:'' @ soc_occurrenceId occ]
          @ coalesce (ohi_attemptedActions inp) [])),
        hi_evidenceRefs = [], hi_blockingDecision = Some (ohi_blockingDecision inp),
        hi_recommendedDecision = ohi_recommendedDecision inp, hi_recommendedPrompt = ohi_recommendedPrompt inp,
        hi_recommendedContinuationPrompt = None, hi_approvalAction = None, hi_suggestedNextActions = [], hi_decision = None,
        hi_resolver = None, hi_createdAt = [], hi_updatedAt = []\<rparr>,
      hin_status = None, hin_createdAt = None, hin_updatedAt = None,
      hin_evidenceRefs = Some (take 20 (\<lparr>er_evidenceId = None, er_artifactId = None, er_title = ''Occurrence '' @ soc_occurrenceId occ,
          er_summary = Some (coalesce (soc_reason occ) (ohi_reason inp)), er_detailLevel = Some Detail_summary\<rparr>
        # coalesce (ohi_evidenceRefs inp) [])),
      hin_suggestedNextActions = Some [\<lparr>sa_label = ''Review handoff'', sa_tool = Tool_rh_inbox, sa_operation = ''get'',
        sa_payload = Some (JObj [(''handoff_id'', JStr handoffId)]), sa_risk = ARisk_readonly, sa_confidence = Some Confidence_high,
        sa_reason = Some ''Review the bounded occurrence handoff before resuming automatic maintenance.'', sa_fallback = None\<rparr>]\<rparr>"

definition create_handoff :: "schedule_env \<Rightarrow> handoff_input \<Rightarrow> handoff_item sched" where
  "create_handoff env inp w =
     (case createHandoffItem (sce_now env) (scw_inbox w) inp of
        Inl e \<Rightarrow> (Inl e, w)
      | Inr (item, inbox) \<Rightarrow> (Inr item, w\<lparr>scw_inbox := inbox\<rparr>))"

definition recordScheduleOccurrenceHandoff ::
    "schedule_env \<Rightarrow> repository_schedule \<Rightarrow> schedule_occurrence \<Rightarrow> occurrence_handoff \<Rightarrow> schedule_occurrence sched" where
  "recordScheduleOccurrenceHandoff env schedule occ inp =
     (if truthy (soc_handoffId occ) then returnS occ
      else
        let repeated = (ohi_creationReason inp = Handoff_repeated_infrastructure_failure) in
        bindS (getS (\<lambda>w. if repeated
          then activeScheduleFailureHandoff env w (skd_scheduleId schedule) (ohi_creationReason inp) (ohi_reason inp) else None)) (\<lambda>reusable.
        case reusable of
          Some item \<Rightarrow> saveOccurrence env (occ\<lparr>soc_handoffId := Some (hi_id item)\<rparr>)
        | None \<Rightarrow>
            bindS (getS (\<lambda>w. if repeated
              then stableScheduleFailureHandoffId env w (skd_scheduleId schedule) (ohi_creationReason inp) (ohi_reason inp)
                     (soc_occurrenceId occ)
              else ''schedule-'' @ soc_occurrenceId occ)) (\<lambda>handoffId.
            bindS (getS (\<lambda>w. getHandoffItem (scw_inbox w) handoffId)) (\<lambda>existing.
            bindS (case existing of
                Some item \<Rightarrow> returnS item
              | None \<Rightarrow> create_handoff env (occurrence_handoff_input schedule occ inp handoffId)) (\<lambda>item.
            saveOccurrence env (occ\<lparr>soc_handoffId := Some (hi_id item)\<rparr>))))))"

end
