(* ===== verification/ScheduleHistory.thy ===== *)
theory ScheduleHistory
  imports ScheduleStore
begin

text \<open>
  The history of the scheduler (\<open>packages/kernel/scheduler/infrastructure/schedule-store.ts\<close>):
  listing occurrences, removing what fell out of the bounded index, and pausing duplicates.
\<close>

section \<open>Listing\<close>

definition getScheduleDecision :: "string \<Rightarrow> schedule_decision option sched" where
  "getScheduleDecision decisionId = readS (\<lambda>w. read_existing decisionId (scw_decisions w))"

definition of_schedule :: "string option \<Rightarrow> string \<Rightarrow> bool" where
  "of_schedule wanted scheduleId \<longleftrightarrow> \<not> truthy wanted \<or> wanted = Some scheduleId"

text \<open>Occurrences from before the index: read from their files and entered into it.\<close>

definition backfilled :: "schedule_env \<Rightarrow> string option \<Rightarrow> nat \<Rightarrow> schedule_occurrence list sched" where
  "backfilled env scheduleId bounded w =
     (case map_res (\<lambda>(name, _). read_file name (scw_occurrences w)) (scw_occurrences w) of
        Inl _ \<Rightarrow> (Inr [], w)
      | Inr occs \<Rightarrow>
          let legacy = take bounded (sort_by (\<lambda>a b. locale_compare (sce_host env) (soc_createdAt b) (soc_createdAt a))
                (filter (\<lambda>occ. of_schedule scheduleId (soc_scheduleId occ)) occs))
          in (Inr legacy, w\<lparr>scw_index := fold (upserted_index env) legacy (scw_index w)\<rparr>))"

definition listOccurrences :: "schedule_env \<Rightarrow> string option \<Rightarrow> int option \<Rightarrow> schedule_occurrence list sched" where
  "listOccurrences env scheduleId limit =
     (let bounded = nat (max 1 (min (coalesce limit 100) 1000)) in
      bindS (getS (\<lambda>w. take bounded (filter (\<lambda>e. of_schedule scheduleId (ixe_scheduleId e)) (ix_recent (scw_index w))))) (\<lambda>entries.
      bindS (occurrences_of (map ixe_occurrenceId entries)) (\<lambda>indexed.
      if indexed \<noteq> [] then returnS indexed else backfilled env scheduleId bounded)))"

section \<open>Removing history\<close>

record cleanup_result =
  clr_removedOccurrencePaths :: "string list"
  clr_removedDecisionPaths :: "string list"
  clr_reclaimedBytes :: int
  clr_unknownReclaimedByteCount :: int
  clr_inspected :: int
  clr_eligible :: int
  clr_attempted :: int
  clr_retained :: int
  clr_budgetExhausted :: bool
  clr_skippedByReason :: "(string \<times> int) list"
  clr_errors :: "string list"

definition empty_cleanup :: cleanup_result where
  "empty_cleanup = \<lparr>clr_removedOccurrencePaths = [], clr_removedDecisionPaths = [], clr_reclaimedBytes = 0,
     clr_unknownReclaimedByteCount = 0, clr_inspected = 0, clr_eligible = 0, clr_attempted = 0, clr_retained = 0,
     clr_budgetExhausted = False, clr_skippedByReason = [], clr_errors = []\<rparr>"

definition retainedOccurrenceIds :: "occurrence_index \<Rightarrow> string set" where
  "retainedOccurrenceIds ix = set (map ixe_occurrenceId (ix_active ix @ ix_recent ix))"

fun bump :: "string \<Rightarrow> (string \<times> int) list \<Rightarrow> (string \<times> int) list" where
  "bump k [] = [(k, 1)]"
| "bump k ((j, n) # cs) = (if j = k then (j, n + 1) # cs else (j, n) # bump k cs)"

definition skip_history :: "string \<Rightarrow> cleanup_result \<Rightarrow> cleanup_result" where
  "skip_history reason r = r\<lparr>clr_retained := clr_retained r + 1, clr_skippedByReason := bump reason (clr_skippedByReason r)\<rparr>"

definition can_inspect :: "int \<Rightarrow> cleanup_result \<Rightarrow> bool \<times> cleanup_result" where
  "can_inspect maxEntries r =
     (if clr_inspected r \<ge> maxEntries then (False, r\<lparr>clr_budgetExhausted := True\<rparr>)
      else (True, r\<lparr>clr_inspected := clr_inspected r + 1\<rparr>))"

definition can_remove :: "int \<Rightarrow> cleanup_result \<Rightarrow> bool \<times> cleanup_result" where
  "can_remove maxRemovals r =
     (if clr_attempted r \<ge> maxRemovals then (False, r\<lparr>clr_budgetExhausted := True\<rparr>)
      else (True, r\<lparr>clr_attempted := clr_attempted r + 1\<rparr>))"

text \<open>The size of a file, where it can be read.\<close>

definition count_bytes :: "int option \<Rightarrow> cleanup_result \<Rightarrow> cleanup_result" where
  "count_bytes size_of r =
     (case size_of of
        Some n \<Rightarrow> r\<lparr>clr_reclaimedBytes := clr_reclaimedBytes r + n\<rparr>
      | None \<Rightarrow> r\<lparr>clr_unknownReclaimedByteCount := clr_unknownReclaimedByteCount r + 1\<rparr>)"

type_synonym cleanup_state = "cleanup_result \<times> schedule_world"

text \<open>Under the lock of its schedule an occurrence is looked at again before its file goes.\<close>

definition remove_occurrence :: "(string \<Rightarrow> int option) \<Rightarrow> string \<Rightarrow> schedule_occurrence \<Rightarrow> cleanup_state \<Rightarrow> cleanup_state" where
  "remove_occurrence size_of name occ st =
     (let (r, w) = st; path = ''occurrences/'' @ name @ ''.json'' in
      if soc_occurrenceId occ \<in> retainedOccurrenceIds (scw_index w) then (skip_history ''indexed_occurrence_recheck'' r, w)
      else case read_existing (soc_occurrenceId occ) (scw_occurrences w) of
        Inl (Error why) \<Rightarrow>
          (skip_history ''schedule_lock_or_cleanup_error''
             (r\<lparr>clr_errors := clr_errors r @ [''occurrence_cleanup_blocked:'' @ name @ ''.json:'' @ why]\<rparr>), w)
      | Inr None \<Rightarrow> (r, w)
      | Inr (Some current) \<Rightarrow>
          if activeOccurrenceStatus (soc_status current) then (skip_history ''active_occurrence_recheck'' r, w)
          else let r' = count_bytes (size_of path) (r\<lparr>clr_eligible := clr_eligible r + 1\<rparr>) in
            (r'\<lparr>clr_removedOccurrencePaths := clr_removedOccurrencePaths r' @ [path]\<rparr>,
             w\<lparr>scw_occurrences := drop_file name (scw_occurrences w)\<rparr>))"

text \<open>One file of the loop; the flag tells whether the loop goes on.\<close>

definition clean_occurrence ::
    "(string \<Rightarrow> int option) \<Rightarrow> int \<Rightarrow> int \<Rightarrow> string \<Rightarrow> cleanup_state \<Rightarrow> bool \<times> cleanup_state" where
  "clean_occurrence size_of maxEntries maxRemovals name st =
     (let (r, w) = st; (go, r) = can_inspect maxEntries r in
      if \<not> go then (False, r, w)
      else if name \<in> retainedOccurrenceIds (scw_index w) then (True, skip_history ''indexed_occurrence'' r, w)
      else case read_file name (scw_occurrences w) of
        Inl (Error why) \<Rightarrow>
          (True, skip_history ''occurrence_unreadable''
             (r\<lparr>clr_errors := clr_errors r @ [''occurrence_unreadable:'' @ name @ ''.json:'' @ why]\<rparr>), w)
      | Inr occ \<Rightarrow>
          if activeOccurrenceStatus (soc_status occ) then (True, skip_history ''active_occurrence_unindexed'' r, w)
          else let (room, r) = can_remove maxRemovals r in
            if \<not> room then (False, r, w) else (True, remove_occurrence size_of name occ (r, w)))"

definition remove_decision :: "(string \<Rightarrow> int option) \<Rightarrow> string \<Rightarrow> schedule_decision \<Rightarrow> cleanup_state \<Rightarrow> cleanup_state" where
  "remove_decision size_of name d st =
     (let (r, w) = st; path = ''decisions/'' @ name @ ''.json'' in
      if sd_occurrenceId d \<in> retainedOccurrenceIds (scw_index w) then (skip_history ''indexed_decision_recheck'' r, w)
      else case read_existing (sd_occurrenceId d) (scw_occurrences w) of
        Inl (Error why) \<Rightarrow>
          (skip_history ''schedule_lock_or_cleanup_error''
             (r\<lparr>clr_errors := clr_errors r @ [''decision_cleanup_blocked:'' @ name @ ''.json:'' @ why]\<rparr>), w)
      | Inr (Some _) \<Rightarrow> (skip_history ''decision_occurrence_reappeared'' r, w)
      | Inr None \<Rightarrow>
          if map_of (scw_decisions w) name = None then (r, w)
          else let r' = count_bytes (size_of path) (r\<lparr>clr_eligible := clr_eligible r + 1\<rparr>) in
            (r'\<lparr>clr_removedDecisionPaths := clr_removedDecisionPaths r' @ [path]\<rparr>,
             w\<lparr>scw_decisions := drop_file name (scw_decisions w)\<rparr>))"

text \<open>An unreadable occurrence of a decision ends the whole cleanup with its error.\<close>

definition clean_decision ::
    "(string \<Rightarrow> int option) \<Rightarrow> int \<Rightarrow> int \<Rightarrow> string \<Rightarrow> cleanup_state \<Rightarrow> (bool \<times> cleanup_state) res" where
  "clean_decision size_of maxEntries maxRemovals name st =
     (let (r, w) = st; (go, r) = can_inspect maxEntries r in
      if \<not> go then Inr (False, r, w)
      else case read_file name (scw_decisions w) of
        Inl (Error why) \<Rightarrow>
          Inr (True, skip_history ''decision_unreadable''
             (r\<lparr>clr_errors := clr_errors r @ [''decision_unreadable:'' @ name @ ''.json:'' @ why]\<rparr>), w)
      | Inr d \<Rightarrow>
          if sd_occurrenceId d \<in> retainedOccurrenceIds (scw_index w) then Inr (True, skip_history ''indexed_decision_occurrence'' r, w)
          else case read_existing (sd_occurrenceId d) (scw_occurrences w) of
            Inl e \<Rightarrow> Inl e
          | Inr (Some _) \<Rightarrow> Inr (True, skip_history ''decision_occurrence_still_present'' r, w)
          | Inr None \<Rightarrow>
              let (room, r) = can_remove maxRemovals r in
              if \<not> room then Inr (False, r, w) else Inr (True, remove_decision size_of name d (r, w)))"

fun clean_occurrences :: "(string \<Rightarrow> cleanup_state \<Rightarrow> bool \<times> cleanup_state) \<Rightarrow> string list \<Rightarrow> cleanup_state \<Rightarrow> cleanup_state" where
  "clean_occurrences step [] st = st"
| "clean_occurrences step (n # ns) st = (let (go, st') = step n st in if go then clean_occurrences step ns st' else st')"

text \<open>The loop over the decisions keeps the state it reached when it throws.\<close>

fun clean_decisions ::
    "(string \<Rightarrow> cleanup_state \<Rightarrow> (bool \<times> cleanup_state) res) \<Rightarrow> string list \<Rightarrow> cleanup_state \<Rightarrow> cleanup_result res \<times> schedule_world" where
  "clean_decisions step [] st = (Inr (fst st), snd st)"
| "clean_decisions step (n # ns) st =
     (case step n st of
        Inl e \<Rightarrow> (Inl e, snd st)
      | Inr (go, st') \<Rightarrow> if go then clean_decisions step ns st' else (Inr (fst st'), snd st'))"

definition file_names :: "'a files \<Rightarrow> string list" where
  "file_names fs = sort_by (\<lambda>a b. unit_cmp (a @ ''.json'') (b @ ''.json'')) (map fst fs)"

definition cleanupScheduleOccurrenceHistory ::
    "(string \<Rightarrow> int option) \<Rightarrow> int option \<Rightarrow> int option \<Rightarrow> cleanup_result sched" where
  "cleanupScheduleOccurrenceHistory size_of max_entries max_removals w =
     (let maxEntries = max 1 (coalesce max_entries 2000); maxRemovals = max 0 (coalesce max_removals 50);
          cleaned = clean_occurrences (clean_occurrence size_of maxEntries maxRemovals) (file_names (scw_occurrences w)) (empty_cleanup, w);
          (result, w') = clean_decisions (clean_decision size_of maxEntries maxRemovals) (file_names (scw_decisions (snd cleaned))) cleaned
      in (map_sum id (\<lambda>r. r\<lparr>clr_removedOccurrencePaths := sort_by unit_cmp (clr_removedOccurrencePaths r),
            clr_removedDecisionPaths := sort_by unit_cmp (clr_removedDecisionPaths r)\<rparr>) result, w'))"

section \<open>Duplicates\<close>

record duplicate_member =
  dpm_scheduleId :: string
  dpm_name :: string
  dpm_enabled :: bool
  dpm_createdAt :: string
  dpm_updatedAt :: string
  dpm_keep :: bool
  dpm_reason :: string

record duplicate_group =
  dpg_semanticKey :: string
  dpg_scheduleIds :: "string list"
  dpg_names :: "string list"
  dpg_enabledCount :: nat
  dpg_keepScheduleId :: string
  dpg_members :: "duplicate_member list"
  dpg_recommendation :: string

record dedupe_report =
  ddr_generatedAt :: string
  ddr_totalSchedules :: nat
  ddr_duplicateGroups :: "duplicate_group list"
  ddr_proposedDisableCount :: nat

record disabled_schedule =
  dds_scheduleId :: string
  dds_previousEnabled :: bool
  dds_pausedReason :: "string option"

record dedupe_apply_result =
  dda_appliedAt :: string
  dda_dryRun :: bool
  dda_report :: dedupe_report
  dda_disabled :: "disabled_schedule list"

definition scheduleDedupeKey :: "js_host \<Rightarrow> repository_schedule \<Rightarrow> string" where
  "scheduleDedupeKey H s = sha256_hex H (json_stringify (canonical H (semantic_json (js_lower (js_trim (skd_name s))) s)))"

definition keep_order :: "js_host \<Rightarrow> repository_schedule \<Rightarrow> repository_schedule \<Rightarrow> int" where
  "keep_order H left right =
     cmp_then (locale_compare H (coalesce (skd_lastTriggeredAt right) []) (coalesce (skd_lastTriggeredAt left) []))
      (cmp_then (locale_compare H (skd_updatedAt right) (skd_updatedAt left))
        (locale_compare H (skd_createdAt right) (skd_createdAt left)))"

definition chooseScheduleToKeep :: "js_host \<Rightarrow> repository_schedule list \<Rightarrow> repository_schedule" where
  "chooseScheduleToKeep H entries =
     (let enabled = filter skd_enabled entries in hd (sort_by (keep_order H) (if enabled \<noteq> [] then enabled else entries)))"

definition duplicate_member_of :: "repository_schedule \<Rightarrow> repository_schedule \<Rightarrow> duplicate_member" where
  "duplicate_member_of keep entry =
     (let kept = (skd_scheduleId entry = skd_scheduleId keep) in
      \<lparr>dpm_scheduleId = skd_scheduleId entry, dpm_name = skd_name entry, dpm_enabled = skd_enabled entry,
       dpm_createdAt = skd_createdAt entry, dpm_updatedAt = skd_updatedAt entry, dpm_keep = kept,
       dpm_reason = (if kept then ''newest enabled duplicate selected as canonical schedule''
         else if skd_enabled entry then ''enabled duplicate should be paused to prevent repeated execution''
         else ''already disabled duplicate'')\<rparr>)"

definition duplicateGroup :: "js_host \<Rightarrow> string \<Rightarrow> repository_schedule list \<Rightarrow> duplicate_group" where
  "duplicateGroup H semanticKey entries =
     (let keep = chooseScheduleToKeep H entries in
      \<lparr>dpg_semanticKey = semanticKey, dpg_scheduleIds = map skd_scheduleId entries, dpg_names = js_uniq (map skd_name entries),
       dpg_enabledCount = length (filter skd_enabled entries), dpg_keepScheduleId = skd_scheduleId keep,
       dpg_members = map (duplicate_member_of keep)
         (sort_by (\<lambda>a b. locale_compare H (skd_updatedAt b) (skd_updatedAt a)) entries),
       dpg_recommendation = ''Keep one canonical schedule enabled and pause older enabled duplicates with a dedupe reason.''\<rparr>)"

definition to_disable :: "duplicate_group \<Rightarrow> duplicate_member list" where
  "to_disable g = filter (\<lambda>m. dpm_enabled m \<and> \<not> dpm_keep m) (dpg_members g)"

text \<open>The entries of a \<open>Map\<close> from a key to the schedules that have it, in order of first appearance.\<close>

definition grouped :: "('a \<Rightarrow> string) \<Rightarrow> 'a list \<Rightarrow> (string \<times> 'a list) list" where
  "grouped key xs = map (\<lambda>k. (k, filter (\<lambda>x. key x = k) xs)) (js_uniq (map key xs))"

definition buildScheduleDedupeReport :: "schedule_env \<Rightarrow> schedule_world \<Rightarrow> dedupe_report" where
  "buildScheduleDedupeReport env w =
     (let H = sce_host env; schedules = listSchedules env w;
          duplicateGroups = sort_by (\<lambda>a b. int (length (dpg_scheduleIds b)) - int (length (dpg_scheduleIds a)))
            (map (\<lambda>(k, entries). duplicateGroup H k entries)
              (filter (\<lambda>(k, entries). length entries > 1) (grouped (scheduleDedupeKey H) schedules)))
      in \<lparr>ddr_generatedAt = sce_now env, ddr_totalSchedules = length schedules, ddr_duplicateGroups = duplicateGroups,
          ddr_proposedDisableCount = sum_list (map (\<lambda>g. length (to_disable g)) duplicateGroups)\<rparr>)"

definition dedupe_reason :: "duplicate_group \<Rightarrow> string" where
  "dedupe_reason g = ''duplicate schedule paused by schedule_dedupe_apply; kept '' @ dpg_keepScheduleId g"

definition disable_duplicate :: "schedule_env \<Rightarrow> duplicate_group \<Rightarrow> duplicate_member \<Rightarrow> disabled_schedule sched" where
  "disable_duplicate env g m =
     bindS (getSchedule (dpm_scheduleId m)) (\<lambda>current.
     bindS (saveSchedule env (current\<lparr>skd_enabled := False, skd_pausedReason := Some (dedupe_reason g)\<rparr>)) (\<lambda>_.
     returnS \<lparr>dds_scheduleId = skd_scheduleId current, dds_previousEnabled = skd_enabled current,
       dds_pausedReason = Some (dedupe_reason g)\<rparr>))"

fun all_S :: "('a \<Rightarrow> 'b sched) \<Rightarrow> 'a list \<Rightarrow> 'b list sched" where
  "all_S f [] = returnS []"
| "all_S f (x # xs) = bindS (f x) (\<lambda>y. bindS (all_S f xs) (\<lambda>ys. returnS (y # ys)))"

definition applyScheduleDedupe :: "schedule_env \<Rightarrow> bool \<Rightarrow> bool \<Rightarrow> dedupe_apply_result sched" where
  "applyScheduleDedupe env dryRun confirmed =
     bindS (throw_ifS (\<not> dryRun \<and> \<not> confirmed)
       ''SCHEDULE_DEDUPE_AUTHORIZATION_REQUIRED: confirm_authorization must be true to pause duplicate schedules'') (\<lambda>_.
     bindS (getS (buildScheduleDedupeReport env)) (\<lambda>report.
     bindS (if dryRun then returnS []
            else all_S (\<lambda>(g, m). disable_duplicate env g m)
              (concat (map (\<lambda>g. map (Pair g) (to_disable g)) (ddr_duplicateGroups report)))) (\<lambda>disabled.
     returnS \<lparr>dda_appliedAt = sce_now env, dda_dryRun = dryRun, dda_report = report, dda_disabled = disabled\<rparr>)))"

end
