(* ===== verification/ScheduleSettlement.thy ===== *)
theory ScheduleSettlement
  imports ScheduleStore
begin

text \<open>
  How the end of an occurrence is settled on its schedule
  (\<open>packages/kernel/scheduler/application/settlement.ts\<close>): failures are counted, delay the next
  run by a growing backoff and pause the schedule at its limit; a success clears them.
\<close>

definition TERMINAL_OCCURRENCE_STATUSES :: "occurrence_status list" where
  "TERMINAL_OCCURRENCE_STATUSES = [Occ_dispatched, Occ_succeeded, Occ_failed, Occ_shadowed, Occ_skipped]"

definition backoff_minutes :: "schedule_policy \<Rightarrow> int \<Rightarrow> int" where
  "backoff_minutes policy nextFailures =
     (let backoffBase = max 1 (coalesce (sy_backoffBaseMinutes policy) (sy_cooldownMinutes policy));
          backoffMax = max backoffBase (coalesce (sy_backoffMaxMinutes policy) (24 * 60));
          exponent = min 16 (max 0 (nextFailures - 1))
      in min backoffMax (backoffBase * 2 ^ nat exponent))"

definition computeScheduleBackoff :: "schedule_env \<Rightarrow> repository_schedule \<Rightarrow> int \<Rightarrow> string" where
  "computeScheduleBackoff env schedule nextFailures =
     iso_of_ms (sce_host env) (sce_nowMs env + backoff_minutes (skd_policy schedule) nextFailures * 60000)"

text \<open>The fields of a failure, written into the schedule.\<close>

definition computeScheduleFailureState :: "schedule_env \<Rightarrow> int \<Rightarrow> repository_schedule \<Rightarrow> repository_schedule" where
  "computeScheduleFailureState env nextFailures schedule =
     (let shouldPause = (nextFailures \<ge> sy_maxFailures (skd_policy schedule)) in
      schedule\<lparr>skd_consecutiveFailures := nextFailures,
        skd_nextEligibleAt := Some (computeScheduleBackoff env schedule nextFailures),
        skd_enabled := (if shouldPause then False else skd_enabled schedule),
        skd_pausedReason := (if shouldPause then Some ''Maximum consecutive failures reached.''
          else if skd_enabled schedule then None else skd_pausedReason schedule)\<rparr>)"

datatype failure_outcome = Outcome_failed | Outcome_skipped

fun outcome_status :: "failure_outcome \<Rightarrow> occurrence_status" where
  "outcome_status Outcome_failed = Occ_failed"
| "outcome_status Outcome_skipped = Occ_skipped"

record failure_options =
  fo_outcome :: failure_outcome
  fo_decision :: "schedule_decision_type option"
  fo_reason :: string
  fo_countFailure :: "bool option"
  fo_pauseReason :: "string option"
  fo_handoff :: "occurrence_handoff option"

text \<open>An occurrence that has ended keeps its outcome.\<close>

definition end_occurrence ::
    "schedule_env \<Rightarrow> occurrence_status \<Rightarrow> schedule_decision_type option \<Rightarrow> string \<Rightarrow> schedule_occurrence option \<Rightarrow>
     schedule_occurrence option sched" where
  "end_occurrence env status decision reason found =
     (case found of
        None \<Rightarrow> returnS None
      | Some occ \<Rightarrow>
          if soc_status occ \<in> set TERMINAL_OCCURRENCE_STATUSES then returnS (Some occ)
          else bindS (saveOccurrence env (occ\<lparr>soc_status := status, soc_decision := coalesce decision (soc_decision occ),
                 soc_reason := Some reason\<rparr>)) (\<lambda>saved. returnS (Some saved)))"

definition failure_counted :: "failure_options \<Rightarrow> bool" where
  "failure_counted options \<longleftrightarrow> fo_countFailure options \<noteq> Some False"

definition paused_schedule :: "string \<Rightarrow> bool \<Rightarrow> repository_schedule \<Rightarrow> repository_schedule" where
  "paused_schedule why counted current =
     current\<lparr>skd_enabled := False, skd_pausedReason := Some why, skd_nextEligibleAt := None,
       skd_consecutiveFailures := (if counted then skd_consecutiveFailures current + 1 else skd_consecutiveFailures current)\<rparr>"

text \<open>The two parts of a failure after its occurrence has ended: its handoff, and its schedule.\<close>

definition hand_ended ::
    "schedule_env \<Rightarrow> repository_schedule \<Rightarrow> occurrence_handoff option \<Rightarrow> schedule_occurrence option \<Rightarrow> schedule_occurrence option sched" where
  "hand_ended env schedule handoff ended =
     (case (ended, handoff) of
        (Some occ, Some h) \<Rightarrow> bindS (recordScheduleOccurrenceHandoff env schedule occ h) (\<lambda>o'. returnS (Some o'))
      | _ \<Rightarrow> returnS ended)"

definition failure_on_schedule :: "schedule_env \<Rightarrow> string \<Rightarrow> failure_options \<Rightarrow> repository_schedule sched" where
  "failure_on_schedule env scheduleId options =
     (if truthy (fo_pauseReason options)
      then updateSchedule env scheduleId (paused_schedule (the (fo_pauseReason options)) (failure_counted options))
      else if failure_counted options
        then updateSchedule env scheduleId (\<lambda>current. computeScheduleFailureState env (skd_consecutiveFailures current + 1) current)
      else getSchedule scheduleId)"

definition applyScheduleFailure ::
    "schedule_env \<Rightarrow> string \<Rightarrow> string \<Rightarrow> failure_options \<Rightarrow> (repository_schedule \<times> schedule_occurrence option) sched" where
  "applyScheduleFailure env scheduleId occurrenceId options =
     bindS (getSchedule scheduleId) (\<lambda>schedule.
     bindS (getOccurrence occurrenceId) (\<lambda>found.
     bindS (end_occurrence env (outcome_status (fo_outcome options)) (fo_decision options) (fo_reason options) found) (\<lambda>ended.
     bindS (hand_ended env schedule (fo_handoff options) ended) (\<lambda>nextOccurrence.
     bindS (failure_on_schedule env scheduleId options) (\<lambda>nextSchedule.
     returnS (nextSchedule, nextOccurrence))))))"

text \<open>A transient failure: it counts and backs off, and an uncounted one only backs off.\<close>

definition retryable_state :: "schedule_env \<Rightarrow> bool \<Rightarrow> repository_schedule \<Rightarrow> repository_schedule" where
  "retryable_state env counted current =
     (let nextFailures = (if counted then skd_consecutiveFailures current + 1 else skd_consecutiveFailures current) in
      if counted \<and> skd_enabled current then computeScheduleFailureState env nextFailures current
      else current\<lparr>skd_consecutiveFailures := nextFailures,
        skd_nextEligibleAt := (if counted then skd_nextEligibleAt current
          else Some (computeScheduleBackoff env current (max 1 nextFailures))),
        skd_pausedReason := (if skd_enabled current then None else skd_pausedReason current)\<rparr>)"

definition applyScheduleRetryableFailure ::
    "schedule_env \<Rightarrow> string \<Rightarrow> string \<Rightarrow> failure_options \<Rightarrow> (repository_schedule \<times> schedule_occurrence option) sched" where
  "applyScheduleRetryableFailure env scheduleId occurrenceId options =
     bindS (getOccurrence occurrenceId) (\<lambda>found.
     bindS (end_occurrence env (outcome_status (fo_outcome options)) (fo_decision options) (fo_reason options) found) (\<lambda>ended.
     bindS (updateSchedule env scheduleId (retryable_state env (failure_counted options))) (\<lambda>nextSchedule.
     returnS (nextSchedule, ended))))"

section \<open>The job of an occurrence\<close>

record scheduled_execution =
  sxe_type :: string
  sxe_repoId :: string
  sxe_jobId :: string
  sxe_payload :: "(string \<times> json) list"

definition payload_string :: "scheduled_execution \<Rightarrow> string \<Rightarrow> string option" where
  "payload_string job field = (case map_of (sxe_payload job) field of Some (JStr s) \<Rightarrow> Some s | _ \<Rightarrow> None)"

text \<open>\<open>String(v)\<close> of a JSON value.\<close>

fun js_string :: "json \<Rightarrow> string" where
  "js_string JNull = ''null''"
| "js_string (JBool b) = (if b then ''true'' else ''false'')"
| "js_string (JNum n) = int_str n"
| "js_string (JStr s) = s"
| "js_string (JArr xs) = js_join '','' (map (\<lambda>x. if x = JNull then [] else js_string x) xs)"
| "js_string (JObj ps) = ''[object Object]''"

definition payload_operation :: "scheduled_execution \<Rightarrow> string" where
  "payload_operation job =
     (case map_of (sxe_payload job) ''operation'' of None \<Rightarrow> ''unknown'' | Some JNull \<Rightarrow> ''unknown'' | Some v \<Rightarrow> js_string v)"

definition markScheduledExecutionRunning :: "schedule_env \<Rightarrow> scheduled_execution \<Rightarrow> unit sched" where
  "markScheduledExecutionRunning env job =
     (if sxe_type job \<noteq> ''scheduled-occurrence'' \<or> \<not> truthy (payload_string job ''occurrenceId'') then returnS ()
      else quietS (
        bindS (getOccurrence (the (payload_string job ''occurrenceId''))) (\<lambda>found.
        case found of
          None \<Rightarrow> returnS ()
        | Some occ \<Rightarrow>
            if soc_status occ = Occ_queued
            then bindS (saveOccurrence env (occ\<lparr>soc_status := Occ_running, soc_decision := Decide_execute,
                   soc_reason := Some ''Scheduled Worker started.''\<rparr>)) (\<lambda>_. returnS ())
            else returnS ())))"

definition failed_execution_handoff :: "string \<Rightarrow> string \<Rightarrow> string \<Rightarrow> scheduled_execution \<Rightarrow> occurrence_handoff" where
  "failed_execution_handoff scheduleId occurrenceId reason job =
     \<lparr>ohi_title = ''Scheduled maintenance occurrence '' @ occurrenceId @ '' failed'',
      ohi_summary = ''A bounded live maintenance occurrence failed and requires review before the schedule continues unattended.'',
      ohi_reason = reason, ohi_creationReason = Handoff_repeated_infrastructure_failure,
      ohi_blockingDecision = ''Review the failed maintenance occurrence and decide whether the schedule should continue automatically.'',
      ohi_recommendedDecision = ''Inspect the failed occurrence, fix the runtime blocker, then re-enable or retrigger the schedule intentionally.'',
      ohi_recommendedPrompt = ''Review schedule occurrence '' @ occurrenceId @ '' for '' @ scheduleId
        @ '', inspect the failed runtime maintenance action, and decide whether to resume automatic maintenance.'',
      ohi_statusSummary = ''Scheduled maintenance execution failed.'', ohi_blockedBy = Some [''scheduled_execution_failed''],
      ohi_attemptedActions = Some [''job:'' @ sxe_jobId job, ''operation:'' @ payload_operation job], ohi_evidenceRefs = None\<rparr>"

definition cleared_failures :: "repository_schedule \<Rightarrow> repository_schedule" where
  "cleared_failures current =
     current\<lparr>skd_consecutiveFailures := 0, skd_nextEligibleAt := None,
       skd_pausedReason := (if skd_enabled current then None else skd_pausedReason current)\<rparr>"

definition settleScheduledExecution :: "schedule_env \<Rightarrow> scheduled_execution \<Rightarrow> bool \<Rightarrow> string \<Rightarrow> unit sched" where
  "settleScheduledExecution env job succeeded reason =
     (let scheduleId = payload_string job ''scheduleId''; occurrenceId = payload_string job ''occurrenceId'' in
      if sxe_type job \<noteq> ''scheduled-occurrence'' \<or> \<not> truthy scheduleId \<or> \<not> truthy occurrenceId then returnS ()
      else quietS (
        bindS (getOccurrence (the occurrenceId)) (\<lambda>found.
        bindS (end_occurrence env (if succeeded then Occ_succeeded else Occ_failed) (Some Decide_execute) reason found) (\<lambda>_.
        if \<not> succeeded
        then bindS (applyScheduleFailure env (the scheduleId) (the occurrenceId)
               \<lparr>fo_outcome = Outcome_failed, fo_decision = Some Decide_execute, fo_reason = reason, fo_countFailure = None,
                fo_pauseReason = None,
                fo_handoff = Some (failed_execution_handoff (the scheduleId) (the occurrenceId) reason job)\<rparr>) (\<lambda>_. returnS ())
        else bindS (updateSchedule env (the scheduleId) cleared_failures) (\<lambda>_. returnS ())))))"

end
