(* ===== verification/ScheduleEligibility.thy ===== *)
theory ScheduleEligibility
  imports Schedules JsText
begin

text \<open>
  When a schedule is due and whether its occurrence is admitted
  (\<open>packages/kernel/scheduler/application/eligibility.ts\<close>).  The calendar of a time zone
  (\<open>Intl.DateTimeFormat\<close>) is given by the host, \<open>None\<close> for a zone it does not know, and so is the
  fresh identifier of a manual trigger.
\<close>

record zoned_date =
  zd_year :: int
  zd_month :: int
  zd_day :: int
  zd_hour :: int
  zd_minute :: int
  zd_weekday :: int

record schedule_host =
  skh_zoned :: "int \<Rightarrow> string \<Rightarrow> zoned_date option"
  skh_uuid :: string

record trigger_facts =
  tf_nowMs :: int
  tf_force :: bool
  tf_context :: "trigger_context option"
  tf_repositoryClean :: "bool option"
  tf_jobStatuses :: "string \<Rightarrow> string option"

record trigger_decision =
  td_due :: bool
  td_windowKey :: "string option"
  td_reason :: "string option"
  td_evidence :: "(string \<times> json) list option"

datatype admission_kind =
    Adm_eligible | Adm_stop_condition | Adm_active_occurrence | Adm_failure_limit | Adm_cooldown | Adm_budget_exhausted

record occurrence_facts =
  of_nowMs :: int
  of_force :: bool
  of_stopReason :: "string option"
  of_activeOccurrenceCount :: int
  of_dailyRuntimeMinutes :: "int option"

record occurrence_admission =
  oad_kind :: admission_kind
  oad_reason :: "string option"

section \<open>Windows\<close>

definition normalizedWindow :: "int \<Rightarrow> int \<Rightarrow> string" where
  "normalizedWindow minutes at_ms = int_str (at_ms div (max 1 minutes * 60000))"

definition zonedDateParts :: "schedule_host \<Rightarrow> int \<Rightarrow> string \<Rightarrow> zoned_date res" where
  "zonedDateParts S at_ms timezone =
     (case skh_zoned S at_ms timezone of
        None \<Rightarrow> throw (''SCHEDULE_TIMEZONE_INVALID: '' @ timezone)
      | Some parts \<Rightarrow> Inr parts)"

record fixed_time =
  fx_minute :: int
  fx_hour :: int

definition fixedCronTime :: "string option \<Rightarrow> fixed_time option" where
  "fixedCronTime expression =
     (if \<not> truthy expression then None
      else let fields = split_spaces (js_trim (the expression)) in
        if length fields \<noteq> 5 \<or> \<not> all_digits (fields ! 0) \<or> \<not> all_digits (fields ! 1) then None
        else let minute = int (digits_value (fields ! 0)); hour = int (digits_value (fields ! 1)) in
          if minute > 59 \<or> hour > 23 then None else Some \<lparr>fx_minute = minute, fx_hour = hour\<rparr>)"

definition day_text :: "zoned_date \<Rightarrow> string" where
  "day_text p = int_str (zd_year p) @ ''-'' @ pad2 (zd_month p) @ ''-'' @ pad2 (zd_day p)"

definition cronWindowKey :: "schedule_host \<Rightarrow> schedule_trigger \<Rightarrow> int \<Rightarrow> string res" where
  "cronWindowKey S t at_ms =
     (let timezone = coalesce (tg_timezone t) ''UTC'' in
      bindE (zonedDateParts S at_ms timezone) (\<lambda>parts.
      Inr (case fixedCronTime (tg_cronExpression t) of
        Some fixed \<Rightarrow> day_text parts @ ''@'' @ pad2 (fx_hour fixed) @ '':'' @ pad2 (fx_minute fixed) @ ''['' @ timezone @ '']''
      | None \<Rightarrow> day_text parts @ ''T'' @ pad2 (zd_hour parts) @ '':'' @ pad2 (zd_minute parts) @ ''['' @ timezone @ '']'')))"

definition context_event :: "trigger_context option \<Rightarrow> string" where
  "context_event context = coalesce (opt_trim (Option.bind context tc_eventId)) []"

definition scheduleTriggerWindowKey ::
    "js_host \<Rightarrow> schedule_host \<Rightarrow> schedule_trigger \<Rightarrow> trigger_context option \<Rightarrow> int \<Rightarrow> string res" where
  "scheduleTriggerWindowKey H S t context at_ms =
     (let event = context_event context in
      if Option.bind context tc_source = Some Src_manual \<and> tg_type t \<noteq> Trigger_manual
      then Inr (''manual:'' @ (if event = [] then skh_uuid S else event))
      else case tg_type t of
        Trigger_cron \<Rightarrow> cronWindowKey S t at_ms
      | Trigger_calendar \<Rightarrow> Inr (coalesce (tg_calendarAt t) (take 16 (iso_of_ms H at_ms)))
      | Trigger_repository_event \<Rightarrow>
          Inr (if event \<noteq> [] then event
               else coalesce (Option.bind context tc_eventName) (coalesce (tg_eventName t) ''event'') @ '':'' @ normalizedWindow 1 at_ms)
      | Trigger_dependency_checkpoint \<Rightarrow>
          Inr (take 20 (sha256_hex H (json_stringify (json_strings (coalesce (tg_dependencyJobIds t) [])))))
      | Trigger_manual \<Rightarrow> Inr (if event \<noteq> [] then event else normalizedWindow 1 at_ms)
      | _ \<Rightarrow> Inr (normalizedWindow (coalesce (tg_everyMinutes t) 60) at_ms))"

section \<open>Cron\<close>

text \<open>\<open>/^\*\/(\d+)$/\<close> and \<open>/^(\d+)-(\d+)(?:\/(\d+))?$/\<close>.\<close>

definition step_pattern :: "string \<Rightarrow> int option" where
  "step_pattern s =
     (if take 2 s = ''*/'' \<and> all_digits (drop 2 s) then Some (int (digits_value (drop 2 s))) else None)"

definition range_pattern :: "string \<Rightarrow> (int \<times> int \<times> int option) option" where
  "range_pattern s =
     (let first = takeWhile is_digit s; rest = dropWhile is_digit s in
      if first = [] \<or> rest = [] \<or> hd rest \<noteq> CHR ''-'' then None
      else let last_part = takeWhile is_digit (tl rest); more = dropWhile is_digit (tl rest) in
        if last_part = [] then None
        else if more = [] then Some (int (digits_value first), int (digits_value last_part), None)
        else if hd more = CHR ''/'' \<and> all_digits (tl more)
          then Some (int (digits_value first), int (digits_value last_part), Some (int (digits_value (tl more))))
        else None)"

definition cron_part_matches :: "int \<Rightarrow> int \<Rightarrow> int \<Rightarrow> string \<Rightarrow> bool" where
  "cron_part_matches v lo hi part =
     (let trimmed = js_trim part in
      if trimmed = ''*'' then True
      else case step_pattern trimmed of
        Some n \<Rightarrow> v mod max 1 n = 0
      | None \<Rightarrow>
          (case range_pattern trimmed of
             Some (first, last_part, step) \<Rightarrow>
               max lo first \<le> v \<and> v \<le> min hi last_part \<and> (v - max lo first) mod max 1 (coalesce step 1) = 0
           | None \<Rightarrow>
               (case js_integer trimmed of
                  None \<Rightarrow> False
                | Some exact \<Rightarrow> lo \<le> exact \<and> exact \<le> hi \<and> v = exact)))"

definition cronFieldMatches :: "int \<Rightarrow> string \<Rightarrow> int \<Rightarrow> int \<Rightarrow> bool" where
  "cronFieldMatches v field lo hi = (\<exists>part\<in>set (js_split CHR '','' field). cron_part_matches v lo hi part)"

definition cronDue :: "schedule_host \<Rightarrow> string option \<Rightarrow> int \<Rightarrow> string \<Rightarrow> int \<Rightarrow> bool res" where
  "cronDue S expression at_ms timezone catchUpMinutes =
     (if \<not> truthy expression then Inr False
      else
        let fields = split_spaces (js_trim (the expression)) in
        bindE (throw_if (length fields \<noteq> 5)
                 (''SCHEDULE_CRON_INVALID: expected five fields, received '' @ int_str (int (length fields)))) (\<lambda>_.
        bindE (zonedDateParts S at_ms timezone) (\<lambda>parts.
        Inr (if \<not> (cronFieldMatches (zd_day parts) (fields ! 2) 1 31 \<and> cronFieldMatches (zd_month parts) (fields ! 3) 1 12
                   \<and> cronFieldMatches (zd_weekday parts) (fields ! 4) 0 6) then False
             else if cronFieldMatches (zd_minute parts) (fields ! 0) 0 59 \<and> cronFieldMatches (zd_hour parts) (fields ! 1) 0 23 then True
             else case fixedCronTime expression of
               None \<Rightarrow> False
             | Some fixed \<Rightarrow>
                 let scheduledMinute = fx_hour fixed * 60 + fx_minute fixed;
                     currentMinute = zd_hour parts * 60 + zd_minute parts
                 in catchUpMinutes > 0 \<and> currentMinute \<ge> scheduledMinute
                    \<and> currentMinute - scheduledMinute \<le> min (24 * 60) catchUpMinutes))))"

section \<open>Eligibility\<close>

definition JOB_TERMINAL_STATUSES :: "string list" where
  "JOB_TERMINAL_STATUSES =
     [''succeeded'', ''failed'', ''timed_out'', ''cancelled'', ''orphaned'', ''stale'', ''human_attention_required'']"

type_synonym due_case = "bool \<times> string option \<times> (string \<times> json) list option"

definition due_or :: "bool \<Rightarrow> string \<Rightarrow> (string \<times> json) list option \<Rightarrow> due_case" where
  "due_or due reason evidence = (due, if due then None else Some reason, evidence)"

definition condition_due :: "schedule_condition \<Rightarrow> trigger_facts \<Rightarrow> due_case" where
  "condition_due c facts =
     (if scd_kind c = Cond_repository_clean
      then due_or (tf_repositoryClean facts = Some True) ''Repository is not clean.''
             (Some [(''clean'', JBool (tf_repositoryClean facts = Some True))])
      else
        let status = (if truthy (scd_jobId c) then tf_jobStatuses facts (the (scd_jobId c)) else None);
            terminal = (truthy status \<and> the status \<in> set JOB_TERMINAL_STATUSES)
        in due_or (if scd_kind c = Cond_job_succeeded then status = Some ''succeeded'' else terminal)
             (''Condition '' @ condition_kind_str (scd_kind c) @ '' is not met.'')
             (Some (json_opt ''jobId'' JStr (scd_jobId c) @ [(''status'', JStr (coalesce status ''missing''))])))"

definition dependency_json :: "trigger_facts \<Rightarrow> string \<Rightarrow> json" where
  "dependency_json facts i = JObj [(''jobId'', JStr i), (''status'', JStr (coalesce (tf_jobStatuses facts i) ''missing''))]"

definition trigger_due :: "js_host \<Rightarrow> schedule_host \<Rightarrow> schedule_trigger \<Rightarrow> trigger_facts \<Rightarrow> due_case res" where
  "trigger_due H S t facts =
     (case tg_type t of
        Trigger_manual \<Rightarrow> Inr (due_or (tf_force facts) ''Manual Schedule requires an explicit trigger.'' None)
      | Trigger_interval \<Rightarrow> Inr (True, None, None)
      | Trigger_cron \<Rightarrow>
          bindE (cronDue S (tg_cronExpression t) (tf_nowMs facts) (coalesce (tg_timezone t) ''UTC'') (coalesce (tg_catchUpMinutes t) 0)) (\<lambda>due.
          Inr (due_or due (''Cron expression is not due in the current '' @ coalesce (tg_timezone t) ''UTC'' @ '' minute or catch-up window.'') None))
      | Trigger_calendar \<Rightarrow>
          (case date_parse H (coalesce (tg_calendarAt t) []) of
             None \<Rightarrow> throw ''SCHEDULE_CALENDAR_INVALID: calendarAt must be an ISO-8601 timestamp''
           | Some at_ms \<Rightarrow> Inr (due_or (tf_nowMs facts \<ge> at_ms) ''Calendar trigger is not due yet.''
               (Some (json_opt ''calendarAt'' JStr (tg_calendarAt t)))))
      | Trigger_repository_event \<Rightarrow>
          let expected = opt_trim (tg_eventName t); actual = opt_trim (Option.bind (tf_context facts) tc_eventName) in
          Inr (due_or (Option.bind (tf_context facts) tc_source = Some Src_repository_event \<and> truthy actual
                 \<and> (\<not> truthy expected \<or> expected = actual)) ''Repository event did not match this Schedule.''
               (Some (json_opt ''expected'' JStr expected @ json_opt ''actual'' JStr actual
                 @ json_opt ''eventId'' JStr (Option.bind (tf_context facts) tc_eventId))))
      | Trigger_dependency_checkpoint \<Rightarrow>
          let ids = coalesce (tg_dependencyJobIds t) [] in
          if ids = [] then throw ''SCHEDULE_DEPENDENCY_REQUIRED: dependency checkpoint has no Job ids''
          else Inr (due_or (list_all (\<lambda>i. tf_jobStatuses facts i = Some ''succeeded'') ids) ''Dependency checkpoint is not ready.''
                 (Some [(''dependencies'', JArr (map (dependency_json facts) ids))]))
      | Trigger_condition \<Rightarrow>
          (case tg_condition t of
             None \<Rightarrow> throw ''SCHEDULE_CONDITION_REQUIRED''
           | Some c \<Rightarrow> Inr (condition_due c facts)))"

definition evaluateScheduleTriggerEligibility ::
    "js_host \<Rightarrow> schedule_host \<Rightarrow> repository_schedule \<Rightarrow> trigger_facts \<Rightarrow> trigger_decision res" where
  "evaluateScheduleTriggerEligibility H S schedule facts =
     (if \<not> skd_enabled schedule \<and> \<not> tf_force facts
      then Inr \<lparr>td_due = False, td_windowKey = None, td_reason = Some ''Schedule is disabled.'', td_evidence = None\<rparr>
      else
        let t = skd_trigger schedule in
        bindE (if tf_force facts \<and> tg_type t \<noteq> Trigger_repository_event then Inr (True, None, None)
               else trigger_due H S t facts) (\<lambda>(due, reason, evidence).
        if due
        then bindE (scheduleTriggerWindowKey H S t (tf_context facts) (tf_nowMs facts)) (\<lambda>key.
             Inr \<lparr>td_due = True, td_windowKey = Some key, td_reason = reason, td_evidence = evidence\<rparr>)
        else Inr \<lparr>td_due = False, td_windowKey = None, td_reason = reason, td_evidence = evidence\<rparr>))"

text \<open>A date that does not parse makes both comparisons with it false, and so does a sum of minutes
  that is not a number.\<close>

definition admission :: "admission_kind \<Rightarrow> string option \<Rightarrow> occurrence_admission" where
  "admission kind reason = \<lparr>oad_kind = kind, oad_reason = reason\<rparr>"

definition evaluateScheduleOccurrenceAdmission ::
    "js_host \<Rightarrow> repository_schedule \<Rightarrow> occurrence_facts \<Rightarrow> occurrence_admission" where
  "evaluateScheduleOccurrenceAdmission H schedule facts =
     (let policy = skd_policy schedule; parsed = (\<lambda>v. if truthy v then date_parse H (the v) else None) in
      if truthy (of_stopReason facts) then admission Adm_stop_condition (of_stopReason facts)
      else if of_activeOccurrenceCount facts \<ge> sy_maxActiveOccurrences policy
        then admission Adm_active_occurrence (Some ''Maximum active occurrences reached.'')
      else if skd_consecutiveFailures schedule \<ge> sy_maxFailures policy
        then admission Adm_failure_limit (Some ''Schedule paused after repeated failures.'')
      else if \<not> of_force facts \<and> (case parsed (skd_nextEligibleAt schedule) of None \<Rightarrow> False | Some t \<Rightarrow> t > of_nowMs facts)
        then admission Adm_cooldown (Some (''Schedule backoff remains active until '' @ coalesce (skd_nextEligibleAt schedule) [] @ ''.''))
      else if \<not> of_force facts \<and> (case parsed (skd_lastTriggeredAt schedule) of None \<Rightarrow> False
             | Some t \<Rightarrow> of_nowMs facts - t < sy_cooldownMinutes policy * 60000)
        then admission Adm_cooldown (Some ''Schedule is cooling down.'')
      else if (case of_dailyRuntimeMinutes facts of None \<Rightarrow> False | Some minutes \<Rightarrow> minutes \<ge> sy_dailyBudgetMinutes policy)
        then admission Adm_budget_exhausted (Some ''Daily schedule budget exhausted.'')
      else admission Adm_eligible None)"

end
