(* ===== verification/ScheduleEngine.thy ===== *)
theory ScheduleEngine
  imports ScheduleHistory ScheduleSettlement ScheduleEligibility
begin

text \<open>
  One evaluation of a schedule (\<open>src/runtime/workflow/schedules/engine.ts\<close>): whether it is due, the
  occurrence of its window, the decision to run, skip or hand it over, and the inline run of a
  maintenance operation.  What other parts answer during the evaluation (the job store, the
  repository projection, the state of the workspace, the maintenance preview and its application)
  is an input.  A wake of a controller and the browser and issue watchers, which leave the process,
  are where the model of an evaluation ends.
\<close>

section \<open>Inputs\<close>

record job_view =
  jv_status :: string
  jv_createdAt :: string
  jv_startedAt :: "string option"
  jv_finishedAt :: "string option"

record job_error =
  je_code :: string
  je_message :: string
  je_retryable :: bool

record recent_job =
  rj_jobId :: string
  rj_status :: string
  rj_createdAt :: string
  rj_error :: "job_error option"
  rj_claimWorkIds :: "string option list"
  rj_payload :: "(string \<times> json) list"

record repository_view =
  rpv_enabled :: bool
  rpv_removedAt :: "string option"

record maintenance_preview =
  mpv_actionId :: "string option"
  mpv_allowed :: bool
  mpv_noOp :: bool
  mpv_blockedReason :: "string option"
  mpv_blockedPermanently :: bool
  mpv_selectedCandidateIds :: "string list"
  mpv_selectedTypedCandidateIds :: "string list"
  mpv_readyForExecution :: bool

record engine_facts =
  egf_host :: schedule_host
  egf_job :: "string \<Rightarrow> job_view option"
  egf_workspaceDirty :: bool
  egf_attention :: bool
  egf_releaseFrozen :: bool
  egf_activeJobStatuses :: "string list"
  egf_workCreatedAt :: "string \<Rightarrow> string option"
  egf_repository :: "repository_view option"
  egf_recentJobs :: "recent_job list"
  egf_preview :: "maintenance_preview res"
  egf_applied :: "int res"

section \<open>Kinds of schedules\<close>

definition LIVE_MAINTENANCE_OPERATION :: string where "LIVE_MAINTENANCE_OPERATION = ''runtime_maintenance_apply''"
definition EXTERNAL_CONTROLLER_WAKE_OPERATION :: string where "EXTERNAL_CONTROLLER_WAKE_OPERATION = ''external_controller_wake''"
definition BROWSER_PROBE_OPERATION :: string where "BROWSER_PROBE_OPERATION = ''browser_probe''"
definition GITHUB_ISSUE_WATCH_OPERATION :: string where "GITHUB_ISSUE_WATCH_OPERATION = ''github_issue_watch''"

definition operation_of :: "repository_schedule \<Rightarrow> string" where
  "operation_of s = sca_operation (skd_action s)"

definition isDeterministicSchedule :: "repository_schedule \<Rightarrow> bool" where
  "isDeterministicSchedule s \<longleftrightarrow> operation_of s \<in>
     {LIVE_MAINTENANCE_OPERATION, EXTERNAL_CONTROLLER_WAKE_OPERATION, BROWSER_PROBE_OPERATION, GITHUB_ISSUE_WATCH_OPERATION}"

definition retiredScheduleReason :: "repository_schedule \<Rightarrow> string option" where
  "retiredScheduleReason s =
     (if operation_of s = ''chatgpt_browser_prompt'' then Some ''RETIRED_WORK_FREE_PROMPT_SCHEDULE''
      else if operation_of s = ''assistant_routine_execute'' then Some ''RETIRED_PERSONAL_ASSISTANT_SCHEDULE''
      else if map_option (\<lambda>c. condition_kind_str (scd_kind c)) (tg_condition (skd_trigger s)) = Some ''candidate_observation_threshold''
        then Some ''RETIRED_CANDIDATE_FINDING_SCHEDULE''
      else None)"

definition isLiveMaintenanceSchedule :: "repository_schedule \<Rightarrow> bool" where
  "isLiveMaintenanceSchedule s \<longleftrightarrow> operation_of s = LIVE_MAINTENANCE_OPERATION"

text \<open>An argument of the action, where it is a string.\<close>

definition argument_string :: "repository_schedule \<Rightarrow> string \<Rightarrow> string option" where
  "argument_string s field = (case map_of (coalesce (sca_arguments (skd_action s)) []) field of Some (JStr v) \<Rightarrow> Some v | _ \<Rightarrow> None)"

definition workBoundScheduleWorkId :: "repository_schedule \<Rightarrow> string option" where
  "workBoundScheduleWorkId s =
     (if operation_of s \<noteq> EXTERNAL_CONTROLLER_WAKE_OPERATION \<and> operation_of s \<noteq> BROWSER_PROBE_OPERATION then None
      else if truthy (opt_trim (argument_string s ''work_id'')) then opt_trim (argument_string s ''work_id'') else None)"

section \<open>Stop conditions\<close>

definition HUMAN_ONLY_HANDOFF_REASONS :: "handoff_reason list" where
  "HUMAN_ONLY_HANDOFF_REASONS = [Handoff_policy_approval_required, Handoff_missing_authorization, Handoff_invalid_objective,
     Handoff_destructive_action_requires_confirmation]"

definition handoffRequiresHumanReview :: "handoff_item \<Rightarrow> bool" where
  "handoffRequiresHumanReview item \<longleftrightarrow>
     hi_approvalAction item \<noteq> None \<or>
     (case hi_creationReason item of None \<Rightarrow> True | Some r \<Rightarrow> r \<in> set HUMAN_ONLY_HANDOFF_REASONS)"

definition human_review_stop :: "schedule_env \<Rightarrow> engine_facts \<Rightarrow> schedule_world \<Rightarrow> string option \<Rightarrow> string option" where
  "human_review_stop env F w workId =
     (case workId of
        Some i \<Rightarrow>
          map_option (\<lambda>item. ''Work '' @ i @ '' has active Handoff '' @ hi_id item @ '' requiring human review.'')
            (find (\<lambda>item. hi_workId item = Some i \<and> handoffRequiresHumanReview item)
              (listHandoffItems (sce_host env) (scw_inbox w) (Some Handoffs_active) (Some 100)))
      | None \<Rightarrow> if egf_attention F then Some ''Repository has jobs requiring human attention.'' else None)"

text \<open>\<open>executionJobBelongsToWork\<close> (\<open>src/runtime/execution/work-activity.ts\<close>).\<close>

definition executionJobBelongsToWork :: "recent_job \<Rightarrow> string \<Rightarrow> bool" where
  "executionJobBelongsToWork job workId \<longleftrightarrow>
     Some workId \<in> set (rj_claimWorkIds job) \<or>
     (let args = (case map_of (rj_payload job) ''arguments'' of Some (JObj ps) \<Rightarrow> ps | _ \<Rightarrow> []) in
      Some (JStr workId) \<in> {map_of (rj_payload job) ''workId'', map_of (rj_payload job) ''work_id'',
        map_of args ''workId'', map_of args ''work_id''})"

definition infrastructure_words :: "string list" where
  "infrastructure_words = [''network'', ''connection'', ''upstream'', ''external'', ''remote'', ''github'', ''tunnel'', ''502'', ''503'', ''timeout'']"

definition infrastructure_failure :: "js_host \<Rightarrow> engine_facts \<Rightarrow> string option \<Rightarrow> recent_job \<Rightarrow> bool" where
  "infrastructure_failure H F workId job \<longleftrightarrow>
     rj_status job \<in> {''failed'', ''timed_out'', ''orphaned''} \<and>
     (case rj_error job of
        None \<Rightarrow> False
      | Some e \<Rightarrow>
          (case workId of
             None \<Rightarrow> True
           | Some i \<Rightarrow>
               (case egf_workCreatedAt F i of
                  None \<Rightarrow> False
                | Some created \<Rightarrow>
                    \<not> (case (date_parse H (rj_createdAt job), date_parse H created) of (Some a, Some b) \<Rightarrow> a < b | _ \<Rightarrow> False))
               \<and> executionJobBelongsToWork job i)
          \<and> (je_retryable e \<or>
             (\<exists>word\<in>set infrastructure_words. js_includes word (js_lower (je_code e @ '' '' @ je_message e)))))"

definition external_blocker_stop :: "js_host \<Rightarrow> engine_facts \<Rightarrow> string option \<Rightarrow> string option" where
  "external_blocker_stop H F workId =
     (case egf_repository F of
        None \<Rightarrow> Some ''Repository registry is unavailable.''
      | Some r \<Rightarrow>
          if \<not> rpv_enabled r \<or> truthy (rpv_removedAt r) then Some ''Repository is disabled or removed.''
          else map_option (\<lambda>job. ''External or infrastructure blocker detected from Job '' @ rj_jobId job @ ''.'')
                 (find (infrastructure_failure H F workId) (egf_recentJobs F)))"

definition first_stop :: "string option \<Rightarrow> string option \<Rightarrow> string option" where
  "first_stop a b = (case a of None \<Rightarrow> b | Some s \<Rightarrow> Some s)"

definition stop_condition_when :: "bool \<Rightarrow> string option \<Rightarrow> string option" where
  "stop_condition_when c s = (if c then s else None)"

definition stopReason :: "schedule_env \<Rightarrow> engine_facts \<Rightarrow> schedule_world \<Rightarrow> repository_schedule \<Rightarrow> string option" where
  "stopReason env F w s =
     (let workId = workBoundScheduleWorkId s; wants = (\<lambda>c. c \<in> set (skd_stopConditions s)) in
      first_stop (stop_condition_when (wants ''human_review_required'') (human_review_stop env F w workId))
     (first_stop (stop_condition_when (wants ''release_ready'' \<and> egf_releaseFrozen F) (Some ''Repository is in release freeze.''))
     (first_stop (stop_condition_when (wants ''external_blocker'') (external_blocker_stop (sce_host env) F workId))
     (first_stop (stop_condition_when (''waiting_for_release_barrier'' \<in> set (egf_activeJobStatuses F))
        (Some ''Repository is waiting on a release barrier.''))
     (stop_condition_when (operation_of s \<noteq> LIVE_MAINTENANCE_OPERATION
          \<and> (\<exists>claim\<in>set (coalesce (sca_resourceClaims (skd_action s)) []). scl_mode claim \<noteq> Claims_read) \<and> egf_workspaceDirty F)
        (Some ''Workspace is dirty; automatic write occurrence was suppressed.''))))))"

section \<open>The daily budget\<close>

text \<open>\<open>Math.max(1, Math.ceil(Math.max(0, finished - started) / 60000))\<close>.\<close>

definition runtime_minutes :: "int \<Rightarrow> int \<Rightarrow> int" where
  "runtime_minutes started finished = max 1 (- (- max 0 (finished - started) div 60000))"

definition between_minutes :: "js_host \<Rightarrow> string \<Rightarrow> string \<Rightarrow> int option" where
  "between_minutes H started finished =
     (case (date_parse H started, date_parse H finished) of (Some a, Some b) \<Rightarrow> Some (runtime_minutes a b) | _ \<Rightarrow> None)"

definition occurrence_minutes :: "schedule_env \<Rightarrow> engine_facts \<Rightarrow> schedule_occurrence \<Rightarrow> int option" where
  "occurrence_minutes env F occ =
     (let H = sce_host env; job = (if truthy (soc_jobId occ) then egf_job F (the (soc_jobId occ)) else None) in
      case job of
        Some j \<Rightarrow> between_minutes H (coalesce (jv_startedAt j) (jv_createdAt j)) (coalesce (jv_finishedAt j) (sce_now env))
      | None \<Rightarrow> between_minutes H (soc_createdAt occ) (soc_updatedAt occ))"

definition add_minutes :: "int option \<Rightarrow> int option \<Rightarrow> int option" where
  "add_minutes a b = (case (a, b) of (Some m, Some n) \<Rightarrow> Some (m + n) | _ \<Rightarrow> None)"

definition dailyRuntimeMinutes :: "schedule_env \<Rightarrow> engine_facts \<Rightarrow> schedule_occurrence list \<Rightarrow> int option" where
  "dailyRuntimeMinutes env F occs =
     foldl (\<lambda>total occ. add_minutes total (occurrence_minutes env F occ)) (Some 0)
       (filter (\<lambda>occ. starts_with (take 10 (sce_now env)) (soc_createdAt occ)
          \<and> soc_status occ \<in> {Occ_succeeded, Occ_failed, Occ_queued, Occ_running}) occs)"

section \<open>Decisions\<close>

definition decision_record ::
    "schedule_env \<Rightarrow> repository_schedule \<Rightarrow> schedule_occurrence \<Rightarrow> schedule_decision_type \<Rightarrow> string option \<Rightarrow>
     (string \<times> json) list option \<Rightarrow> schedule_decision" where
  "decision_record env schedule occ decision reason evidence =
     \<lparr>sd_revision = 1, sd_decisionId = ''DEC-'' @ soc_occurrenceId occ, sd_occurrenceId = soc_occurrenceId occ,
      sd_scheduleId = soc_scheduleId occ, sd_repoId = soc_repoId occ,
      sd_requestId = skd_requestId schedule @ '':'' @ soc_windowKey occ, sd_decision = decision, sd_reason = reason,
      sd_triggerContext = soc_triggerContext occ, sd_evidence = evidence, sd_createdAt = sce_now env\<rparr>"

definition decideOccurrence ::
    "schedule_env \<Rightarrow> repository_schedule \<Rightarrow> schedule_occurrence \<Rightarrow> schedule_decision_type \<Rightarrow> occurrence_status \<Rightarrow> string option \<Rightarrow>
     (string \<times> json) list option \<Rightarrow> schedule_occurrence sched" where
  "decideOccurrence env schedule occ decision status reason evidence =
     bindS (saveScheduleDecision (decision_record env schedule occ decision reason evidence)) (\<lambda>_.
     saveOccurrence env (occ\<lparr>soc_decision := decision, soc_decisionId := Some (''DEC-'' @ soc_occurrenceId occ),
       soc_status := status, soc_reason := reason\<rparr>))"

section \<open>Handoffs of an evaluation\<close>

definition external_controller_handoff :: "repository_schedule \<Rightarrow> schedule_occurrence \<Rightarrow> occurrence_handoff" where
  "external_controller_handoff schedule occ =
     \<lparr>ohi_title = ''Schedule '' @ skd_name schedule @ '' requires an external Controller'',
      ohi_summary = ''The scheduled trigger was recorded without dispatching a Kernel Job.'',
      ohi_reason = ''Schedule execution is external-controller-owned.'', ohi_creationReason = Handoff_ambiguous_outcome,
      ohi_blockingDecision = ''Claim or create the related Work before executing the scheduled operation.'',
      ohi_recommendedDecision = ''Review the trigger evidence and continue it through an explicitly claimed external Controller session.'',
      ohi_recommendedPrompt = ''Review schedule '' @ skd_scheduleId schedule @ '' occurrence '' @ soc_occurrenceId occ
        @ ''; create or claim Work for '' @ operation_of schedule @ '' and continue through Process Runtime or Thin Launcher.'',
      ohi_statusSummary = ''Schedule trigger is waiting for external Controller ownership.'',
      ohi_blockedBy = Some [''external_controller_required''],
      ohi_attemptedActions = Some [''operation:'' @ operation_of schedule], ohi_evidenceRefs = None\<rparr>"

definition attempted :: "repository_schedule \<Rightarrow> string list option" where
  "attempted schedule = Some [''schedule:'' @ skd_scheduleId schedule, ''operation:'' @ operation_of schedule]"

definition stopped_handoff :: "repository_schedule \<Rightarrow> schedule_occurrence \<Rightarrow> string \<Rightarrow> occurrence_handoff" where
  "stopped_handoff schedule occ stop =
     \<lparr>ohi_title = ''Scheduled maintenance occurrence '' @ soc_occurrenceId occ @ '' stopped'',
      ohi_summary = ''A live maintenance occurrence was blocked by an explicit schedule stop condition and requires review before automation resumes.'',
      ohi_reason = stop, ohi_creationReason = Handoff_ambiguous_outcome,
      ohi_blockingDecision = ''Review the stop condition and decide whether automatic maintenance should stay paused.'',
      ohi_recommendedDecision = ''Resolve the stop condition, then explicitly re-enable or retrigger the maintenance schedule.'',
      ohi_recommendedPrompt = ''Review maintenance schedule '' @ skd_scheduleId schedule @ '' for repo '' @ skd_repoId schedule
        @ '', inspect stop condition '' @ stop @ '', and decide whether to resume the schedule.'',
      ohi_statusSummary = ''Scheduled maintenance occurrence stopped before dispatch.'',
      ohi_blockedBy = Some [''schedule_stop_condition''], ohi_attemptedActions = attempted schedule, ohi_evidenceRefs = None\<rparr>"

definition preview_decision :: "maintenance_preview \<Rightarrow> schedule_decision_type" where
  "preview_decision p = (if mpv_blockedPermanently p then Decide_operation_blocked else Decide_maintenance_not_ready)"

definition preview_reason :: "maintenance_preview \<Rightarrow> string" where
  "preview_reason p = coalesce (mpv_blockedReason p) ''Automatic maintenance preview blocked the occurrence.''"

definition blocked_handoff :: "repository_schedule \<Rightarrow> schedule_occurrence \<Rightarrow> maintenance_preview \<Rightarrow> occurrence_handoff" where
  "blocked_handoff schedule occ p =
     (let permanent = mpv_blockedPermanently p in
      \<lparr>ohi_title = ''Scheduled maintenance occurrence '' @ soc_occurrenceId occ @ '' blocked'',
       ohi_summary = ''A bounded live maintenance occurrence was blocked before dispatch and requires a human decision.'',
       ohi_reason = preview_reason p,
       ohi_creationReason = (if permanent then Handoff_missing_authorization else Handoff_ambiguous_outcome),
       ohi_blockingDecision = (if permanent
         then ''Fix the schedule operation or authorization before automatic maintenance can resume.''
         else ''Inspect runtime maintenance readiness before allowing another unattended attempt.''),
       ohi_recommendedDecision = (if permanent
         then ''Correct the automatic maintenance configuration and re-enable the schedule deliberately.''
         else ''Review the maintenance preview, resolve the blocker, and then retrigger the schedule intentionally.''),
       ohi_recommendedPrompt = ''Review blocked maintenance occurrence '' @ soc_occurrenceId occ @ '' for schedule '' @ skd_scheduleId schedule
         @ ''. Determine whether the schedule configuration or runtime maintenance readiness should be corrected before retrying.'',
       ohi_statusSummary = ''Scheduled maintenance occurrence blocked before dispatch.'',
       ohi_blockedBy = Some [if permanent then ''operation_blocked'' else ''maintenance_not_ready''],
       ohi_attemptedActions = attempted schedule, ohi_evidenceRefs = None\<rparr>)"

definition failed_maintenance_handoff :: "repository_schedule \<Rightarrow> schedule_occurrence \<Rightarrow> string \<Rightarrow> string option \<Rightarrow> occurrence_handoff" where
  "failed_maintenance_handoff schedule occ reason actionId =
     \<lparr>ohi_title = ''Scheduled maintenance occurrence '' @ soc_occurrenceId occ @ '' failed'',
      ohi_summary = ''A bounded live maintenance occurrence failed during deterministic apply and requires review before the schedule continues unattended.'',
      ohi_reason = reason, ohi_creationReason = Handoff_repeated_infrastructure_failure,
      ohi_blockingDecision = ''Review the failed maintenance occurrence and decide whether the schedule should continue automatically.'',
      ohi_recommendedDecision = ''Inspect the failed occurrence, fix the runtime blocker, then re-enable or retrigger the schedule intentionally.'',
      ohi_recommendedPrompt = ''Review schedule occurrence '' @ soc_occurrenceId occ @ '' for '' @ skd_scheduleId schedule
        @ '', inspect the failed runtime maintenance action, and decide whether to resume automatic maintenance.'',
      ohi_statusSummary = ''Scheduled maintenance execution failed.'', ohi_blockedBy = Some [''scheduled_execution_failed''],
      ohi_attemptedActions = Some [''schedule:'' @ skd_scheduleId schedule, ''operation:'' @ operation_of schedule,
        (if truthy actionId then ''action:'' @ the actionId else ''action:unknown'')],
      ohi_evidenceRefs = None\<rparr>"

end
