(* ===== verification/ScheduleEvaluation.thy ===== *)
theory ScheduleEvaluation
  imports ScheduleEngine
begin

text \<open>
  \<open>evaluateSchedule\<close> and its parts (\<open>src/runtime/workflow/schedules/engine.ts\<close>), in the order of
  the code: the window of a due schedule, the admission of its occurrence, the maintenance preview,
  and the inline run.  An evaluation ends with no occurrence, with one, or where a watcher or a
  wake of a controller takes over.
\<close>

datatype evaluation = No_occurrence | Recorded schedule_occurrence | Dispatching repository_schedule schedule_occurrence

section \<open>Touching the schedule\<close>

definition triggered :: "schedule_env \<Rightarrow> string \<Rightarrow> repository_schedule \<Rightarrow> repository_schedule" where
  "triggered env occurrenceId current =
     current\<lparr>skd_lastTriggeredAt := Some (sce_now env), skd_lastOccurrenceId := Some occurrenceId\<rparr>"

definition mark_triggered :: "schedule_env \<Rightarrow> repository_schedule \<Rightarrow> schedule_occurrence \<Rightarrow> repository_schedule sched" where
  "mark_triggered env schedule occ = updateSchedule env (skd_scheduleId schedule) (triggered env (soc_occurrenceId occ))"

definition limit_reached :: "repository_schedule \<Rightarrow> repository_schedule" where
  "limit_reached current = current\<lparr>skd_enabled := False,
     skd_pausedReason := (if skd_enabled current then Some ''Maximum consecutive failures reached.'' else skd_pausedReason current)\<rparr>"

definition ran_well :: "schedule_env \<Rightarrow> string \<Rightarrow> repository_schedule \<Rightarrow> repository_schedule" where
  "ran_well env occurrenceId current = cleared_failures (triggered env occurrenceId current)"

section \<open>The window\<close>

definition occurrence_id :: "js_host \<Rightarrow> repository_schedule \<Rightarrow> string \<Rightarrow> string" where
  "occurrence_id H schedule key = ''OCC-'' @ skd_scheduleId schedule @ ''-'' @ take 20 (sha256_hex H key)"

definition trigger_facts_of ::
    "schedule_env \<Rightarrow> engine_facts \<Rightarrow> repository_schedule \<Rightarrow> bool \<Rightarrow> trigger_context option \<Rightarrow> trigger_facts" where
  "trigger_facts_of env F schedule force context =
     (let condition = tg_condition (skd_trigger schedule); jobId = Option.bind condition scd_jobId;
          ids = set (coalesce (tg_dependencyJobIds (skd_trigger schedule)) []) \<union> (if truthy jobId then {the jobId} else {})
      in \<lparr>tf_nowMs = sce_nowMs env, tf_force = force, tf_context = context,
          tf_repositoryClean = (if map_option scd_kind condition = Some Cond_repository_clean then Some (\<not> egf_workspaceDirty F) else None),
          tf_jobStatuses = (\<lambda>i. if i \<in> ids then map_option jv_status (egf_job F i) else None)\<rparr>)"

definition new_occurrence ::
    "schedule_env \<Rightarrow> repository_schedule \<Rightarrow> string \<Rightarrow> bool \<Rightarrow> trigger_context option \<Rightarrow> schedule_occurrence" where
  "new_occurrence env schedule key force context =
     \<lparr>soc_revision = 0, soc_occurrenceId = occurrence_id (sce_host env) schedule key,
      soc_scheduleId = skd_scheduleId schedule, soc_repoId = skd_repoId schedule, soc_windowKey = key,
      soc_status = Occ_created, soc_decision = Decide_nothing_to_do, soc_decisionId = None,
      soc_triggerContext = Some (coalesce context \<lparr>tc_source = Some (if force then Src_manual else Src_timer),
        tc_eventName = None, tc_eventId = None, tc_data = None\<rparr>),
      soc_createdAt = sce_now env, soc_updatedAt = sce_now env, soc_jobId = None, soc_handoffId = None, soc_reason = None\<rparr>"

section \<open>Schedules no deterministic operation runs\<close>

definition hand_over :: "schedule_env \<Rightarrow> repository_schedule \<Rightarrow> schedule_occurrence \<Rightarrow> evaluation sched" where
  "hand_over env schedule occ =
     bindS (decideOccurrence env schedule occ Decide_operation_blocked Occ_skipped
       (Some ''Schedule execution is external-controller-owned; no ExecutionJob was created.'')
       (Some ((''operation'', JStr (operation_of schedule))
         # json_opt ''trigger'' (\<lambda>src. JStr (trigger_source_str src)) (Option.bind (soc_triggerContext occ) tc_source)))) (\<lambda>decided.
     bindS (recordScheduleOccurrenceHandoff env schedule decided (external_controller_handoff schedule occ)) (\<lambda>handed.
     bindS (mark_triggered env schedule occ) (\<lambda>_. returnS (Recorded handed))))"

section \<open>Refusals of the admission\<close>

definition ended_or :: "schedule_occurrence option \<Rightarrow> schedule_occurrence \<Rightarrow> evaluation sched" where
  "ended_or found other = returnS (Recorded (coalesce found other))"

definition stop_occurrence :: "schedule_env \<Rightarrow> repository_schedule \<Rightarrow> schedule_occurrence \<Rightarrow> string \<Rightarrow> evaluation sched" where
  "stop_occurrence env schedule occ stop =
     bindS (decideOccurrence env schedule occ Decide_stopped Occ_skipped (Some stop) None) (\<lambda>stopped.
     if \<not> isLiveMaintenanceSchedule schedule then returnS (Recorded stopped)
     else bindS (applyScheduleFailure env (skd_scheduleId schedule) (soc_occurrenceId occ)
       \<lparr>fo_outcome = Outcome_skipped, fo_decision = Some Decide_stopped, fo_reason = stop, fo_countFailure = Some False,
        fo_pauseReason = Some stop, fo_handoff = Some (stopped_handoff schedule occ stop)\<rparr>) (\<lambda>(_, found).
     ended_or found stopped))"

definition refuse_occurrence ::
    "schedule_env \<Rightarrow> repository_schedule \<Rightarrow> schedule_occurrence \<Rightarrow> schedule_decision_type \<Rightarrow> string option \<Rightarrow> evaluation sched" where
  "refuse_occurrence env schedule occ decision reason =
     bindS (decideOccurrence env schedule occ decision Occ_skipped reason None) (\<lambda>refused. returnS (Recorded refused))"

section \<open>Maintenance\<close>

definition preview_evidence :: "maintenance_preview \<Rightarrow> (string \<times> json) list" where
  "preview_evidence p = json_opt ''actionId'' JStr (mpv_actionId p)
     @ [(''safeCandidates'', JNum (int (length (mpv_selectedCandidateIds p)))),
        (''typedSafeCandidates'', JNum (int (length (mpv_selectedTypedCandidateIds p))))]"

definition preview_blocked :: "schedule_env \<Rightarrow> repository_schedule \<Rightarrow> schedule_occurrence \<Rightarrow> maintenance_preview \<Rightarrow> evaluation sched" where
  "preview_blocked env schedule occ p =
     bindS (decideOccurrence env schedule occ (preview_decision p) Occ_skipped (mpv_blockedReason p) (Some (preview_evidence p))) (\<lambda>blocked.
     bindS (applyScheduleFailure env (skd_scheduleId schedule) (soc_occurrenceId occ)
       \<lparr>fo_outcome = Outcome_skipped, fo_decision = Some (preview_decision p), fo_reason = preview_reason p,
        fo_countFailure = Some (\<not> mpv_blockedPermanently p),
        fo_pauseReason = (if mpv_blockedPermanently p then mpv_blockedReason p else None),
        fo_handoff = Some (blocked_handoff schedule occ p)\<rparr>) (\<lambda>(_, found).
     ended_or found blocked))"

text \<open>What is left when the preview allows the operation and finds something to repair.\<close>

definition with_preview ::
    "schedule_env \<Rightarrow> engine_facts \<Rightarrow> repository_schedule \<Rightarrow> schedule_occurrence \<Rightarrow> (maintenance_preview \<Rightarrow> evaluation sched) \<Rightarrow> evaluation sched" where
  "with_preview env F schedule occ go =
     bindS (readS (\<lambda>_. egf_preview F)) (\<lambda>p.
     if \<not> mpv_allowed p then preview_blocked env schedule occ p
     else if mpv_noOp p
       then bindS (decideOccurrence env schedule occ Decide_nothing_to_do Occ_skipped
              (Some ''Automatic maintenance preview found nothing safe to repair.'')
              (Some (json_opt ''actionId'' JStr (mpv_actionId p) @ [(''readyForExecution'', JBool (mpv_readyForExecution p))]))) (\<lambda>idle.
            returnS (Recorded idle))
     else go p)"

definition shadow_maintenance :: "schedule_env \<Rightarrow> engine_facts \<Rightarrow> repository_schedule \<Rightarrow> schedule_occurrence \<Rightarrow> evaluation sched" where
  "shadow_maintenance env F schedule occ =
     with_preview env F schedule occ (\<lambda>p.
       bindS (mark_triggered env schedule occ) (\<lambda>_.
       bindS (decideOccurrence env schedule occ Decide_would_execute Occ_shadowed
         (Some ''Shadow mode records the live maintenance decision without applying it.'') (Some (preview_evidence p))) (\<lambda>shadowed.
       returnS (Recorded shadowed))))"

definition maintenance_failed ::
    "schedule_env \<Rightarrow> repository_schedule \<Rightarrow> schedule_occurrence \<Rightarrow> schedule_occurrence \<Rightarrow> string option \<Rightarrow> string \<Rightarrow> evaluation sched" where
  "maintenance_failed env schedule occ decision actionId reason =
     bindS (applyScheduleFailure env (skd_scheduleId schedule) (soc_occurrenceId occ)
       \<lparr>fo_outcome = Outcome_failed, fo_decision = Some Decide_execute, fo_reason = reason, fo_countFailure = None,
        fo_pauseReason = None, fo_handoff = Some (failed_maintenance_handoff schedule occ reason actionId)\<rparr>) (\<lambda>(_, found).
     bindS (mark_triggered env schedule occ) (\<lambda>_.
     case found of
       Some ended \<Rightarrow> returnS (Recorded ended)
     | None \<Rightarrow>
         bindS (saveOccurrence env (decision\<lparr>soc_status := Occ_failed, soc_reason := Some reason\<rparr>)) (\<lambda>saved.
         returnS (Recorded saved))))"

text \<open>\<open>try { run } catch (error) { recover }\<close>.\<close>

definition recoverS :: "('a, 's) run \<Rightarrow> (string \<Rightarrow> ('a, 's) run) \<Rightarrow> ('a, 's) run" where
  "recoverS m h s = (case m s of (Inl (Error why), t) \<Rightarrow> h why t | (Inr x, t) \<Rightarrow> (Inr x, t))"

definition maintenance_action :: "repository_schedule \<Rightarrow> string option" where
  "maintenance_action schedule =
     (case argument_string schedule ''action_id'' of Some v \<Rightarrow> Some v | None \<Rightarrow> argument_string schedule ''actionId'')"

definition run_maintenance ::
    "schedule_env \<Rightarrow> engine_facts \<Rightarrow> repository_schedule \<Rightarrow> schedule_occurrence \<Rightarrow> (string \<times> json) list option \<Rightarrow> evaluation sched" where
  "run_maintenance env F schedule occ evidence =
     (let actionId = maintenance_action schedule in
      bindS (decideOccurrence env schedule occ Decide_execute Occ_running
        (Some ''Deterministic schedule occurrence executing inline without an ExecutionJob.'')
        (Some (coalesce evidence [] @ [(''operation'', JStr (operation_of schedule))] @ json_opt ''actionId'' JStr actionId))) (\<lambda>decision.
      recoverS
        (bindS (throw_ifS (\<not> truthy actionId)
           ''SCHEDULE_ACTION_ID_REQUIRED: deterministic maintenance schedules require action_id.'') (\<lambda>_.
         bindS (readS (\<lambda>_. egf_applied F)) (\<lambda>appliedCount.
         bindS (updateSchedule env (skd_scheduleId schedule) (ran_well env (soc_occurrenceId occ))) (\<lambda>_.
         bindS (saveOccurrence env (decision\<lparr>soc_status := Occ_succeeded,
           soc_reason := Some (''Deterministic maintenance applied '' @ int_str appliedCount @ '' candidate(s) for '' @ the actionId @ ''.'')\<rparr>)) (\<lambda>saved.
         returnS (Recorded saved))))))
        (maintenance_failed env schedule occ decision actionId)))"

section \<open>An evaluation\<close>

definition run_admitted ::
    "schedule_env \<Rightarrow> engine_facts \<Rightarrow> repository_schedule \<Rightarrow> schedule_occurrence \<Rightarrow> (string \<times> json) list option \<Rightarrow> evaluation sched" where
  "run_admitted env F schedule occ evidence =
     (if sy_shadowMode (skd_policy schedule) then
        if isLiveMaintenanceSchedule schedule then shadow_maintenance env F schedule occ
        else bindS (mark_triggered env schedule occ) (\<lambda>_.
          bindS (decideOccurrence env schedule occ Decide_would_execute Occ_shadowed
            (Some ''Shadow mode records the decision without modifying the repository.'') evidence) (\<lambda>shadowed.
          returnS (Recorded shadowed)))
      else if isLiveMaintenanceSchedule schedule
        then with_preview env F schedule occ (\<lambda>_. run_maintenance env F schedule occ evidence)
      else returnS (Dispatching schedule occ))"

definition admit_occurrence ::
    "schedule_env \<Rightarrow> engine_facts \<Rightarrow> repository_schedule \<Rightarrow> schedule_occurrence \<Rightarrow> bool \<Rightarrow> (string \<times> json) list option \<Rightarrow> evaluation sched" where
  "admit_occurrence env F schedule occ force evidence =
     bindS (listOccurrences env (Some (skd_scheduleId schedule)) (Some 1000)) (\<lambda>recent.
     bindS (listActiveOccurrences (Some (skd_scheduleId schedule))) (\<lambda>listed.
     bindS (getS (\<lambda>w. evaluateScheduleOccurrenceAdmission (sce_host env) schedule
       \<lparr>of_nowMs = sce_nowMs env, of_force = force, of_stopReason = stopReason env F w schedule,
        of_activeOccurrenceCount = int (length (filter (\<lambda>o'. soc_occurrenceId o' \<noteq> soc_occurrenceId occ) listed)),
        of_dailyRuntimeMinutes = dailyRuntimeMinutes env F recent\<rparr>)) (\<lambda>admission.
     case oad_kind admission of
       Adm_stop_condition \<Rightarrow> stop_occurrence env schedule occ (coalesce (oad_reason admission) ''Schedule stop condition is active.'')
     | Adm_active_occurrence \<Rightarrow> refuse_occurrence env schedule occ Decide_active_occurrence (oad_reason admission)
     | Adm_failure_limit \<Rightarrow>
         bindS (updateSchedule env (skd_scheduleId schedule) limit_reached) (\<lambda>_.
         refuse_occurrence env schedule occ Decide_stopped (oad_reason admission))
     | Adm_cooldown \<Rightarrow> refuse_occurrence env schedule occ Decide_cooldown (oad_reason admission)
     | Adm_budget_exhausted \<Rightarrow> refuse_occurrence env schedule occ Decide_budget_exhausted (oad_reason admission)
     | Adm_eligible \<Rightarrow> run_admitted env F schedule occ evidence)))"

definition evaluate_window ::
    "schedule_env \<Rightarrow> engine_facts \<Rightarrow> repository_schedule \<Rightarrow> bool \<Rightarrow> trigger_context option \<Rightarrow> trigger_decision \<Rightarrow> evaluation sched" where
  "evaluate_window env F schedule force context due =
     (if \<not> td_due due \<or> \<not> truthy (td_windowKey due) then returnS No_occurrence
      else let key = the (td_windowKey due) in
        bindS (getOccurrence (occurrence_id (sce_host env) schedule key)) (\<lambda>existing.
        case existing of
          Some occ \<Rightarrow> returnS (Recorded occ)
        | None \<Rightarrow>
            bindS (saveOccurrence env (new_occurrence env schedule key force context)) (\<lambda>occ.
            if \<not> isDeterministicSchedule schedule then hand_over env schedule occ
            else admit_occurrence env F schedule occ force (td_evidence due))))"

definition evaluateSchedule ::
    "schedule_env \<Rightarrow> engine_facts \<Rightarrow> string \<Rightarrow> bool \<Rightarrow> trigger_context option \<Rightarrow> evaluation sched" where
  "evaluateSchedule env F scheduleId force context =
     bindS (getSchedule scheduleId) (\<lambda>schedule.
     if truthy (retiredScheduleReason schedule) then returnS No_occurrence
     else bindS (readS (\<lambda>_. evaluateScheduleTriggerEligibility (sce_host env) (egf_host F) schedule
            (trigger_facts_of env F schedule force context))) (\<lambda>due.
       evaluate_window env F schedule force context due))"

end
