(* ===== verification/ScheduleFacts.thy ===== *)
theory ScheduleFacts
  imports ScheduleEvaluation Contracts
begin

text \<open>
  Facts on the scheduler: how reading follows writing in its directories, what each operation
  keeps (as relations every operation respects, whether it returns or throws), and what a
  settlement leaves of a schedule.
\<close>

section \<open>Files\<close>

lemma map_of_put: "map_of (put_file n v fs) = (map_of fs)(n \<mapsto> Some v)"
  by (induction fs) auto

lemma map_of_drop: "map_of (drop_file n fs) = (map_of fs)(n := None)"
proof (induction fs)
  case (Cons f fs)
  then show ?case by (cases f) (auto simp: drop_file_def fun_eq_iff)
qed (simp add: drop_file_def fun_eq_iff)

section \<open>Reading a schedule that was written\<close>

definition schedule_at :: "string \<Rightarrow> schedule_world \<Rightarrow> repository_schedule option" where
  "schedule_at i w = (case fst (getSchedule i w) of Inl _ \<Rightarrow> None | Inr s \<Rightarrow> Some s)"

definition occurrence_at :: "string \<Rightarrow> schedule_world \<Rightarrow> schedule_occurrence option" where
  "occurrence_at i w = (case map_of (scw_occurrences w) i of Some (Some occ) \<Rightarrow> Some occ | _ \<Rightarrow> None)"

lemma schedule_at_file:
  "schedule_at i w = (case map_of (scw_schedules w) i of Some (Some row) \<Rightarrow> Some (hydrated row) | _ \<Rightarrow> None)"
  by (simp add: schedule_at_def getSchedule_def readS_def read_file_def split: option.split)

lemma getSchedule_Some: "schedule_at i w = Some s \<Longrightarrow> getSchedule i w = (Inr s, w)"
  by (simp add: schedule_at_def getSchedule_def readS_def split: sum.splits)

lemma getSchedule_InrD: "getSchedule i w = (Inr s, t) \<Longrightarrow> schedule_at i w = Some s \<and> t = w"
  by (auto simp: schedule_at_def getSchedule_def readS_def)

lemma getSchedule_None: "schedule_at i w = None \<Longrightarrow> \<exists>e. getSchedule i w = (Inl e, w)"
  by (simp add: schedule_at_def getSchedule_def readS_def split: sum.splits)

text \<open>A schedule as it is read back.\<close>

definition reread :: "repository_schedule \<Rightarrow> repository_schedule" where
  "reread s = hydrated \<lparr>ssd_schedule = s, ssd_revision = Some (skd_revision s), ssd_requestId = Some (skd_requestId s)\<rparr>"

lemma schedule_at_put:
  "schedule_at i (put_schedule s w) = (if i = skd_scheduleId s then Some (reread s) else schedule_at i w)"
  by (simp add: schedule_at_file put_schedule_def map_of_put reread_def)

lemma occurrence_at_put [simp]: "occurrence_at i (put_schedule s w) = occurrence_at i w"
  by (simp add: occurrence_at_def put_schedule_def)

lemma reread_fields [simp]:
  "skd_scheduleId (reread s) = skd_scheduleId s" "skd_enabled (reread s) = skd_enabled s"
  "skd_consecutiveFailures (reread s) = skd_consecutiveFailures s" "skd_revision (reread s) = skd_revision s"
  "skd_repoId (reread s) = skd_repoId s" "skd_createdAt (reread s) = skd_createdAt s" "skd_action (reread s) = skd_action s"
  "skd_trigger (reread s) = skd_trigger s" "skd_nextEligibleAt (reread s) = skd_nextEligibleAt s"
  "skd_policy (reread s) = boundedSchedulePolicy s"
  by (simp_all add: reread_def hydrated_def Let_def)

lemma hydrated_policy: "skd_policy (hydrated row) = boundedSchedulePolicy (ssd_schedule row)"
  by (simp add: hydrated_def Let_def)

text \<open>Reading bounds the policy once and for all.\<close>

lemma bounded_again:
  assumes "skd_policy t = boundedSchedulePolicy s" and "skd_action t = skd_action s"
  shows "boundedSchedulePolicy t = boundedSchedulePolicy s"
  using assms by (simp add: boundedSchedulePolicy_def Let_def EXTERNAL_CONTROLLER_WAKE_MIN_COOLDOWN_MINUTES_def
      EXTERNAL_CONTROLLER_WAKE_MAX_FAILURES_def EXTERNAL_CONTROLLER_WAKE_DAILY_BUDGET_MINUTES_def)

lemma read_policy:
  assumes "schedule_at i w = Some s" and "skd_policy t = skd_policy s" and "skd_action t = skd_action s"
  shows "boundedSchedulePolicy t = skd_policy s"
proof -
  obtain row where row: "s = hydrated row" using assms(1) by (auto simp: schedule_at_file split: option.splits)
  have "skd_action s = skd_action (ssd_schedule row)" by (simp add: row hydrated_def Let_def)
  then show ?thesis using bounded_again [of t "ssd_schedule row"] assms(2,3) by (simp add: row hydrated_policy)
qed

lemma updateSchedule_run:
  "schedule_at i w = Some s \<Longrightarrow>
     updateSchedule env i f w = (Inr (revised_schedule env s (f s)), put_schedule (revised_schedule env s (f s)) w)"
  by (simp add: updateSchedule_def bindS_def getSchedule_Some persistScheduleRevision_def modifyS_def returnS_def Let_def)

lemma updateSchedule_None: "schedule_at i w = None \<Longrightarrow> snd (updateSchedule env i f w) = w"
  using getSchedule_None [of i w] by (auto simp: updateSchedule_def bindS_def)

lemma updateSchedule_InrD:
  assumes "updateSchedule env i f w = (Inr r, t)"
  obtains s where "schedule_at i w = Some s" "r = revised_schedule env s (f s)" "t = put_schedule r w"
proof (cases "schedule_at i w")
  case None
  then obtain e where "getSchedule i w = (Inl e, w)" using getSchedule_None by blast
  then show ?thesis using assms by (simp add: updateSchedule_def bindS_def)
next
  case (Some s)
  then show ?thesis using that [OF Some] assms by (auto simp: updateSchedule_run)
qed

section \<open>What operations keep\<close>

text \<open>The directory of schedules as it was.\<close>

definition same_schedules :: "schedule_world \<Rightarrow> schedule_world \<Rightarrow> bool" where
  "same_schedules w t \<longleftrightarrow> scw_schedules t = scw_schedules w"

interpretation schedules_kept: kept_relation same_schedules
  by unfold_locales (auto simp: same_schedules_def)

lemma same_schedules_at: "same_schedules w t \<Longrightarrow> schedule_at i t = schedule_at i w"
  by (simp add: same_schedules_def schedule_at_file)

lemma sched_keepers: "keepsS same_schedules (getSchedule i)" "keepsS same_schedules (getOccurrence i)"
  by (simp_all add: getSchedule_def getOccurrence_def schedules_kept.keeps_pure)

lemmas schedules_rules = schedules_kept.keeps_bind schedules_kept.keeps_pure schedules_kept.keeps_option schedules_kept.keeps_if
  sched_keepers

lemma recovery_keeps: "keepsS same_schedules (resolveRecoveredScheduleFailureHandoffs env occ)"
proof -
  have "keepsS same_schedules (resolve_recovered env occ item)" for item
    by (auto simp: keepsS_def resolve_recovered_def same_schedules_def split: sum.split)
  then show ?thesis unfolding resolveRecoveredScheduleFailureHandoffs_def
    by (intro schedules_rules schedules_kept.keeps_each)
qed

lemma saveOccurrence_keeps: "keepsS same_schedules (saveOccurrence env occ)"
  unfolding saveOccurrence_def occurrence_written_def Let_def
  by (intro schedules_rules schedules_kept.keeps_modify recovery_keeps; simp add: same_schedules_def)

lemma handoff_keeps: "keepsS same_schedules (create_handoff env inp)"
  by (auto simp: keepsS_def create_handoff_def same_schedules_def split: sum.split prod.split)

lemma record_handoff_keeps: "keepsS same_schedules (recordScheduleOccurrenceHandoff env schedule occ inp)"
  unfolding recordScheduleOccurrenceHandoff_def Let_def by (intro schedules_rules saveOccurrence_keeps handoff_keeps)

lemma end_occurrence_keeps: "keepsS same_schedules (end_occurrence env status d reason found)"
  unfolding end_occurrence_def by (intro schedules_rules saveOccurrence_keeps)

section \<open>What a settlement leaves of a schedule\<close>

lemma keepsSD: "keepsS R m \<Longrightarrow> m s = (r, t) \<Longrightarrow> R s t"
  by (metis keepsS_def snd_conv)

definition failed_schedule :: "schedule_env \<Rightarrow> failure_options \<Rightarrow> repository_schedule \<Rightarrow> repository_schedule" where
  "failed_schedule env options current =
     (if truthy (fo_pauseReason options) then paused_schedule (the (fo_pauseReason options)) (failure_counted options) current
      else computeScheduleFailureState env (skd_consecutiveFailures current + 1) current)"

lemma hand_ended_keeps: "keepsS same_schedules (hand_ended env s h e)"
  unfolding hand_ended_def by (auto split: option.split intro!: schedules_rules record_handoff_keeps)

lemma applyScheduleFailure_schedule:
  assumes run: "applyScheduleFailure env i occ options w = (Inr r, t)" and counted: "failure_counted options"
  obtains s u where "schedule_at i w = Some s" "same_schedules w u"
    "t = put_schedule (revised_schedule env s (failed_schedule env options s)) u"
proof -
  let ?f = "failed_schedule env options"
  have f: "failure_on_schedule env i options = updateSchedule env i ?f"
    using counted by (auto simp: failure_on_schedule_def failed_schedule_def updateSchedule_def)
  from run obtain s0 w0 found w1 ended w2 o' u s' where
      s0: "getSchedule i w = (Inr s0, w0)" and w1: "getOccurrence occ w0 = (Inr found, w1)"
    and w2: "end_occurrence env (outcome_status (fo_outcome options)) (fo_decision options) (fo_reason options) found w1 = (Inr ended, w2)"
    and u: "hand_ended env s0 (fo_handoff options) ended w2 = (Inr o', u)"
    and t: "updateSchedule env i ?f u = (Inr s', t)"
    unfolding applyScheduleFailure_def f by (fastforce simp: bindS_Inr returnS_def)
  have same: "same_schedules w u"
    using keepsSD [OF sched_keepers(1) s0] keepsSD [OF sched_keepers(2) w1] keepsSD [OF end_occurrence_keeps w2]
      keepsSD [OF hand_ended_keeps u] by (simp add: same_schedules_def)
  from t show ?thesis
  proof (rule updateSchedule_InrD)
    fix s assume "schedule_at i u = Some s" "s' = revised_schedule env s (?f s)" "t = put_schedule s' u"
    then show ?thesis using that same by (simp add: same_schedules_at)
  qed
qed

lemma applyScheduleRetryable_schedule:
  assumes "applyScheduleRetryableFailure env i occ options w = (Inr r, t)"
  obtains s u where "schedule_at i w = Some s" "same_schedules w u"
    "t = put_schedule (revised_schedule env s (retryable_state env (failure_counted options) s)) u"
proof -
  from assms obtain found w1 ended u s' where
      w1: "getOccurrence occ w = (Inr found, w1)"
    and u: "end_occurrence env (outcome_status (fo_outcome options)) (fo_decision options) (fo_reason options) found w1 = (Inr ended, u)"
    and t: "updateSchedule env i (retryable_state env (failure_counted options)) u = (Inr s', t)"
    unfolding applyScheduleRetryableFailure_def by (fastforce simp: bindS_Inr returnS_def)
  have same: "same_schedules w u"
    using keepsSD [OF sched_keepers(2) w1] keepsSD [OF end_occurrence_keeps u] by (simp add: same_schedules_def)
  from t show ?thesis
  proof (rule updateSchedule_InrD)
    fix s assume "schedule_at i u = Some s" "s' = revised_schedule env s (retryable_state env (failure_counted options) s)"
      "t = put_schedule s' u"
    then show ?thesis using that same by (simp add: same_schedules_at)
  qed
qed

section \<open>Runs that fail\<close>

text \<open>
  One unattended run of a schedule that fails: the schedule is enabled, the failure is settled and
  counted, and the schedule may be marked as triggered, as \<open>evaluateSchedule\<close> does.
\<close>

definition marked :: "schedule_env \<Rightarrow> string \<Rightarrow> string option \<Rightarrow> schedule_world \<Rightarrow> schedule_world" where
  "marked env i mark w = (case mark of None \<Rightarrow> w | Some occ \<Rightarrow> snd (updateSchedule env i (triggered env occ) w))"

inductive failed_run :: "string \<Rightarrow> schedule_world \<Rightarrow> schedule_world \<Rightarrow> bool" for i where
  failure: "schedule_at i w = Some s \<Longrightarrow> skd_enabled s \<Longrightarrow> failure_counted options \<Longrightarrow>
    applyScheduleFailure env i occ options w = (Inr r, t) \<Longrightarrow> failed_run i w (marked env' i mark t)"
| retryable: "schedule_at i w = Some s \<Longrightarrow> skd_enabled s \<Longrightarrow> failure_counted options \<Longrightarrow>
    applyScheduleRetryableFailure env i occ options w = (Inr r, t) \<Longrightarrow> failed_run i w (marked env' i mark t)"

text \<open>The runs a schedule has left: none when it is paused, and at least one when it is not.\<close>

definition runs_left :: "repository_schedule \<Rightarrow> int" where
  "runs_left s = (if skd_enabled s then max 1 (sy_maxFailures (skd_policy s) - skd_consecutiveFailures s) else 0)"

lemma revised_fields [simp]:
  "skd_scheduleId (revised_schedule env s c) = skd_scheduleId s" "skd_enabled (revised_schedule env s c) = skd_enabled c"
  "skd_consecutiveFailures (revised_schedule env s c) = skd_consecutiveFailures c"
  "skd_policy (revised_schedule env s c) = skd_policy c" "skd_action (revised_schedule env s c) = skd_action c"
  "skd_trigger (revised_schedule env s c) = skd_trigger c" "skd_revision (revised_schedule env s c) = skd_revision s + 1"
  "skd_repoId (revised_schedule env s c) = skd_repoId s" "skd_requestId (revised_schedule env s c) = skd_requestId s"
  "skd_createdAt (revised_schedule env s c) = skd_createdAt s" "skd_nextEligibleAt (revised_schedule env s c) = skd_nextEligibleAt c"
  by (simp_all add: revised_schedule_def)

lemma schedule_after_update:
  assumes "schedule_at i w = Some s" and "skd_scheduleId s = i"
    and "skd_policy c = skd_policy s" and "skd_action c = skd_action s"
  shows "\<exists>s'. schedule_at i (put_schedule (revised_schedule env s c) u) = Some s' \<and> skd_scheduleId s' = i \<and>
    skd_policy s' = skd_policy s \<and> skd_action s' = skd_action s \<and> skd_enabled s' = skd_enabled c \<and>
    skd_consecutiveFailures s' = skd_consecutiveFailures c"
proof -
  let ?n = "revised_schedule env s c"
  have "skd_policy (reread ?n) = skd_policy s" using read_policy [OF assms(1), of ?n] assms(3,4) by simp
  then show ?thesis using assms(2,4) by (simp add: schedule_at_put)
qed

lemma failed_state_fields:
  "skd_policy (failed_schedule env options s) = skd_policy s" "skd_action (failed_schedule env options s) = skd_action s"
  "skd_policy (retryable_state env c s) = skd_policy s" "skd_action (retryable_state env c s) = skd_action s"
  "skd_policy (triggered env occ s) = skd_policy s" "skd_action (triggered env occ s) = skd_action s"
  by (simp_all add: failed_schedule_def paused_schedule_def computeScheduleFailureState_def retryable_state_def triggered_def Let_def)

lemma failed_state_runs:
  assumes "skd_enabled s"
  shows "skd_enabled s' = skd_enabled c \<Longrightarrow> skd_consecutiveFailures s' = skd_consecutiveFailures c \<Longrightarrow> skd_policy s' = skd_policy s \<Longrightarrow>
    c = failed_schedule env options s \<or> c = retryable_state env True s \<Longrightarrow> runs_left s' < runs_left s"
  using assms by (auto simp: runs_left_def failed_schedule_def paused_schedule_def computeScheduleFailureState_def retryable_state_def Let_def
      split: if_splits)

lemma marked_schedule:
  assumes "schedule_at i t = Some s" and "skd_scheduleId s = i"
  shows "\<exists>s'. schedule_at i (marked env i mark t) = Some s' \<and> skd_scheduleId s' = i \<and> skd_policy s' = skd_policy s \<and>
    skd_action s' = skd_action s \<and> runs_left s' = runs_left s \<and> skd_consecutiveFailures s' = skd_consecutiveFailures s"
proof (cases mark)
  case None
  then show ?thesis using assms by (auto simp: marked_def)
next
  case (Some occ)
  have f: "skd_enabled (triggered env occ s) = skd_enabled s" "skd_consecutiveFailures (triggered env occ s) = skd_consecutiveFailures s"
    by (simp_all add: triggered_def)
  have "marked env i mark t = put_schedule (revised_schedule env s (triggered env occ s)) t"
    using Some assms(1) by (simp add: marked_def updateSchedule_run)
  with schedule_after_update [OF assms failed_state_fields(5,6) [of env occ s], of env t] show ?thesis
    by (auto simp: runs_left_def f)
qed

lemma failed_run_left:
  assumes "failed_run i w t" and "schedule_at i w = Some s" and "skd_scheduleId s = i"
  shows "\<exists>s'. schedule_at i t = Some s' \<and> skd_scheduleId s' = i \<and> runs_left s' < runs_left s \<and> 0 < runs_left s"
  using assms(1)
proof cases
  case (failure s0 options env occ r u env' mark)
  have s0: "s0 = s" using failure(2) assms(2) by simp
  obtain v where v: "u = put_schedule (revised_schedule env s (failed_schedule env options s)) v"
    using applyScheduleFailure_schedule [OF failure(5,4)] assms(2) by (metis option.inject)
  obtain s1 where s1: "schedule_at i u = Some s1" "skd_scheduleId s1 = i" "runs_left s1 < runs_left s"
    using schedule_after_update [OF assms(2,3) failed_state_fields(1,2) [of env options s], of env v] failed_state_runs
      failure(3) unfolding v s0 by metis
  from marked_schedule [OF s1(1,2), of env' mark] s1(3) failure(1,3) s0 show ?thesis
    by (auto simp: runs_left_def)
next
  case (retryable s0 options env occ r u env' mark)
  have s0: "s0 = s" using retryable(2) assms(2) by simp
  obtain v where v: "u = put_schedule (revised_schedule env s (retryable_state env True s)) v"
    using applyScheduleRetryable_schedule [OF retryable(5)] assms(2) retryable(4) by (metis (full_types) option.inject)
  obtain s1 where s1: "schedule_at i u = Some s1" "skd_scheduleId s1 = i" "runs_left s1 < runs_left s"
    using schedule_after_update [OF assms(2,3) failed_state_fields(3,4) [of env True s], of env v] failed_state_runs
      retryable(3) unfolding v s0 by metis
  from marked_schedule [OF s1(1,2), of env' mark] s1(3) retryable(1,3) s0 show ?thesis
    by (auto simp: runs_left_def)
qed

lemma failed_runs_left:
  "(failed_run i ^^ n) w t \<Longrightarrow> schedule_at i w = Some s \<Longrightarrow> skd_scheduleId s = i \<Longrightarrow>
     int n \<le> runs_left s \<and> (\<exists>s'. schedule_at i t = Some s' \<and> skd_scheduleId s' = i \<and> runs_left s' \<le> runs_left s - int n)"
proof (induction n arbitrary: t)
  case (Suc n)
  then obtain u where u: "(failed_run i ^^ n) w u" "failed_run i u t" by auto
  with Suc obtain s1 where s1: "schedule_at i u = Some s1" "skd_scheduleId s1 = i" "runs_left s1 \<le> runs_left s - int n"
    by blast
  from failed_run_left [OF u(2) s1(1,2)] s1(3) show ?case by force
qed (auto simp: runs_left_def)

end
