(* ===== verification/ScheduleActivity.thy ===== *)
theory ScheduleActivity
  imports ScheduleFacts
begin

text \<open>
  The scheduler as a step relation: every operation on schedules and occurrences, whether it
  returns or throws, and what any sequence of them keeps.  Deleting a schedule and removing history
  are apart, since they take records away.
\<close>

inductive schedule_activity :: "schedule_world \<Rightarrow> schedule_world \<Rightarrow> bool" where
  create: "map_of (scw_schedules w) (skd_scheduleId (new_schedule env (js_trim (skd_requestId inp)) inp)) = None \<Longrightarrow>
    schedule_activity w (snd (createSchedule env inp w))"
| save: "schedule_activity w (snd (saveSchedule env s w))"
| update: "schedule_activity w (snd (updateSchedule env i change w))"
| occurrence: "schedule_activity w (snd (saveOccurrence env occ w))"
| decision: "schedule_activity w (snd (saveScheduleDecision d w))"
| handoff: "schedule_activity w (snd (recordScheduleOccurrenceHandoff env s occ inp w))"
| failure: "schedule_activity w (snd (applyScheduleFailure env i oid options w))"
| retryable: "schedule_activity w (snd (applyScheduleRetryableFailure env i oid options w))"
| started: "schedule_activity w (snd (markScheduledExecutionRunning env job w))"
| settled: "schedule_activity w (snd (settleScheduledExecution env job ok reason w))"
| listed: "schedule_activity w (snd (listOccurrences env wanted limit w))"
| evaluated: "schedule_activity w (snd (evaluateSchedule env F i force context w))"
| deduped: "schedule_activity w (snd (applyScheduleDedupe env dryRun confirmed w))"

section \<open>What every operation keeps\<close>

text \<open>
  A relation between states that the writes of the scheduler respect: of an occurrence, of the index,
  the inbox and the decisions, of a request that has none yet, of a schedule under a free name, and
  of the next revision of a schedule that is there.
\<close>

locale schedule_kept = kept_relation R for R :: "schedule_world \<Rightarrow> schedule_world \<Rightarrow> bool" +
  assumes put_occurrence: "R w (w\<lparr>scw_occurrences := put_file n v (scw_occurrences w)\<rparr>)"
    and put_index: "R w (w\<lparr>scw_index := ix\<rparr>)"
    and put_inbox: "R w (w\<lparr>scw_inbox := b\<rparr>)"
    and put_decision: "R w (w\<lparr>scw_decisions := ds\<rparr>)"
    and put_request: "map_of (scw_requests w) k = None \<Longrightarrow> R w (w\<lparr>scw_requests := put_file k q (scw_requests w)\<rparr>)"
    and add_schedule: "map_of (scw_schedules w) (skd_scheduleId s) = None \<Longrightarrow> R w (put_schedule s w)"
    and revise_schedule: "schedule_at i w = Some s \<Longrightarrow> R w (put_schedule (revised_schedule env s c) w)"
begin

lemma reading: "keepsS R (getSchedule i)" "keepsS R (getOccurrence i)"
  by (simp_all add: getSchedule_def getOccurrence_def keeps_pure)

lemma pairs: "(\<And>a b. keepsS R (f a b)) \<Longrightarrow> keepsS R (case p of (a, b) \<Rightarrow> f a b)"
  by (cases p) auto

lemmas basics = keeps_bind keeps_pure keeps_option keeps_if pairs reading

lemma occurrence_kept: "keepsS R (saveOccurrence env occ)"
proof -
  have "keepsS R (resolve_recovered env o' item)" for o' item
    by (auto simp: keepsS_def resolve_recovered_def R_refl put_inbox split: sum.split)
  then have "keepsS R (resolveRecoveredScheduleFailureHandoffs env o')" for o'
    unfolding resolveRecoveredScheduleFailureHandoffs_def by (intro basics keeps_each)
  then show ?thesis unfolding saveOccurrence_def occurrence_written_def Let_def
    by (intro basics keeps_modify put_occurrence put_index)
qed

lemma update_kept: "keepsS R (updateSchedule env i f)"
proof -
  have "R w (snd (updateSchedule env i f w))" for w
    by (cases "schedule_at i w") (auto simp: updateSchedule_None updateSchedule_run R_refl intro: revise_schedule)
  then show ?thesis by (simp add: keepsS_def)
qed

lemma save_kept: "keepsS R (saveSchedule env s)"
proof -
  have "R w (snd (saveSchedule env s w))" for w
  proof (cases "schedule_at (skd_scheduleId s) w")
    case None
    then show ?thesis using getSchedule_None [OF None] by (auto simp: saveSchedule_def bindS_def R_refl)
  next
    case (Some cur)
    then show ?thesis by (auto simp: saveSchedule_def bindS_def getSchedule_Some throw_ifS_def throwS_def returnS_def R_refl
          persistScheduleRevision_def modifyS_def Let_def intro: revise_schedule)
  qed
  then show ?thesis by (simp add: keepsS_def)
qed

lemma create_kept:
  assumes "map_of (scw_schedules w) (skd_scheduleId (new_schedule env (js_trim (skd_requestId inp)) inp)) = None"
  shows "R w (snd (createSchedule env inp w))"
proof (cases "js_trim (skd_requestId inp) = []")
  case True
  then show ?thesis by (simp add: createSchedule_def bindS_def throw_ifS_def throwS_def R_refl Let_def)
next
  case False
  let ?key = "sha256_hex (sce_host env) (js_trim (skd_requestId inp))"
  let ?s = "new_schedule env (js_trim (skd_requestId inp)) inp"
  show ?thesis
  proof (cases "map_of (scw_requests w) ?key")
    case None
    have "R w (put_schedule ?s w)" using assms by (rule add_schedule)
    moreover have "map_of (scw_requests (put_schedule ?s w)) ?key = None" using None by (simp add: put_schedule_def)
    ultimately have "R w (put_schedule ?s w\<lparr>scw_requests := put_file ?key q (scw_requests (put_schedule ?s w))\<rparr>)" for q
      using put_request R_trans by blast
    then show ?thesis using False None
      by (simp add: createSchedule_def bindS_def throw_ifS_def returnS_def readS_def read_existing_def modifyS_def Let_def)
  next
    case (Some f)
    then show ?thesis using False
      by (cases f) (simp_all add: createSchedule_def bindS_def throw_ifS_def throwS_def returnS_def readS_def read_existing_def
          getSchedule_def R_refl Let_def)
  qed
qed

lemma decision_kept: "keepsS R (saveScheduleDecision d)"
  unfolding saveScheduleDecision_def by (intro basics keeps_modify put_decision)

lemma handoff_kept: "keepsS R (recordScheduleOccurrenceHandoff env schedule occ inp)"
proof -
  have "keepsS R (create_handoff env h)" for h
    by (auto simp: keepsS_def create_handoff_def R_refl put_inbox split: sum.split prod.split)
  then show ?thesis unfolding recordScheduleOccurrenceHandoff_def Let_def by (intro basics occurrence_kept)
qed

lemma end_kept: "keepsS R (end_occurrence env status d reason found)"
  unfolding end_occurrence_def by (intro basics occurrence_kept)

lemma failure_kept: "keepsS R (applyScheduleFailure env i oid options)"
  unfolding applyScheduleFailure_def failure_on_schedule_def hand_ended_def
  by (intro basics end_kept update_kept) (auto split: option.split intro!: basics handoff_kept)

lemma retryable_kept: "keepsS R (applyScheduleRetryableFailure env i oid options)"
  unfolding applyScheduleRetryableFailure_def by (intro basics end_kept update_kept)

lemma mark_kept: "keepsS R (markScheduledExecutionRunning env job)"
  unfolding markScheduledExecutionRunning_def by (intro basics keeps_quiet occurrence_kept)

lemma settle_kept: "keepsS R (settleScheduledExecution env job ok reason)"
  unfolding settleScheduledExecution_def Let_def by (intro basics keeps_quiet end_kept update_kept failure_kept)

lemma found_kept: "keepsS R (occurrences_of is)"
  by (induction "is") (auto intro!: basics)

lemma backfilled_kept: "keepsS R (backfilled env wanted n)"
  by (auto simp: keepsS_def backfilled_def R_refl put_index Let_def split: sum.split)

lemma list_kept: "keepsS R (listOccurrences env wanted limit)" "keepsS R (listActiveOccurrences wanted)"
  unfolding listOccurrences_def listActiveOccurrences_def Let_def by (intro basics found_kept backfilled_kept)+

lemma all_kept: "(\<And>x. keepsS R (f x)) \<Longrightarrow> keepsS R (all_S f xs)"
  by (induction xs) (auto intro!: basics)

lemma dedupe_kept: "keepsS R (applyScheduleDedupe env dryRun confirmed)"
  unfolding applyScheduleDedupe_def disable_duplicate_def by (intro basics all_kept save_kept)

lemma decide_kept: "keepsS R (decideOccurrence env s occ d status reason evidence)"
  unfolding decideOccurrence_def by (intro basics decision_kept occurrence_kept)

lemma recover_kept: "keepsS R m \<Longrightarrow> (\<And>why. keepsS R (h why)) \<Longrightarrow> keepsS R (recoverS m h)"
  unfolding keepsS_def
proof (intro allI)
  fix w assume m: "\<forall>s. R s (snd (m s))" and h: "\<And>why. \<forall>s. R s (snd (h why s))"
  obtain r t where r: "m w = (r, t)" by (cases "m w")
  then have t: "R w t" using m by (metis snd_conv)
  show "R w (snd (recoverS m h w))"
  proof (cases r)
    case (Inl e)
    then show ?thesis using t h r by (cases e) (auto simp: recoverS_def intro: R_trans)
  qed (use t r in \<open>simp add: recoverS_def\<close>)
qed

lemmas evaluation_rules = basics decide_kept handoff_kept update_kept failure_kept occurrence_kept list_kept recover_kept

lemma preview_kept: "(\<And>p. keepsS R (go p)) \<Longrightarrow> keepsS R (with_preview env F s occ go)"
  unfolding with_preview_def preview_blocked_def ended_or_def by (intro evaluation_rules)

lemma run_kept: "keepsS R (run_admitted env F s occ evidence)"
  unfolding run_admitted_def shadow_maintenance_def run_maintenance_def maintenance_failed_def mark_triggered_def Let_def
  by (intro evaluation_rules preview_kept)

lemma admit_kept: "keepsS R (admit_occurrence env F s occ force evidence)"
  unfolding admit_occurrence_def
  by (intro evaluation_rules)
    (auto split: admission_kind.split simp: stop_occurrence_def refuse_occurrence_def ended_or_def intro!: evaluation_rules run_kept)

lemma evaluate_kept: "keepsS R (evaluateSchedule env F i force context)"
  unfolding evaluateSchedule_def evaluate_window_def hand_over_def mark_triggered_def Let_def
  by (intro evaluation_rules admit_kept)

lemma activity_kept: "schedule_activity w t \<Longrightarrow> R w t"
  by (induction rule: schedule_activity.induct)
    (simp_all add: create_kept save_kept [unfolded keepsS_def] update_kept [unfolded keepsS_def]
      occurrence_kept [unfolded keepsS_def] decision_kept [unfolded keepsS_def] handoff_kept [unfolded keepsS_def]
      failure_kept [unfolded keepsS_def] retryable_kept [unfolded keepsS_def] mark_kept [unfolded keepsS_def]
      settle_kept [unfolded keepsS_def] list_kept [unfolded keepsS_def] evaluate_kept [unfolded keepsS_def]
      dedupe_kept [unfolded keepsS_def])

lemma activities_kept: "schedule_activity\<^sup>*\<^sup>* w t \<Longrightarrow> R w t"
  by (induction rule: rtranclp_induct) (auto intro: R_refl R_trans activity_kept)

end

section \<open>Occurrences stay\<close>

definition occurrences_stay :: "schedule_world \<Rightarrow> schedule_world \<Rightarrow> bool" where
  "occurrences_stay w t \<longleftrightarrow> (\<forall>i. occurrence_at i w \<noteq> None \<longrightarrow> occurrence_at i t \<noteq> None)"

interpretation occurrences_kept: schedule_kept occurrences_stay
  by unfold_locales (auto simp: occurrences_stay_def occurrence_at_def map_of_put put_schedule_def)

section \<open>Schedules keep their identity and their revisions grow\<close>

definition schedules_named :: "schedule_world \<Rightarrow> bool" where
  "schedules_named w \<longleftrightarrow> (\<forall>i s. schedule_at i w = Some s \<longrightarrow> skd_scheduleId s = i)"

definition same_identity :: "repository_schedule \<Rightarrow> repository_schedule \<Rightarrow> bool" where
  "same_identity s t \<longleftrightarrow> skd_scheduleId t = skd_scheduleId s \<and> skd_repoId t = skd_repoId s \<and>
     skd_requestId t = skd_requestId s \<and> skd_createdAt t = skd_createdAt s"

definition revisions_grow :: "schedule_world \<Rightarrow> schedule_world \<Rightarrow> bool" where
  "revisions_grow w t \<longleftrightarrow> (schedules_named w \<longrightarrow> schedules_named t \<and>
     (\<forall>i s. schedule_at i w = Some s \<longrightarrow>
        (\<exists>s'. schedule_at i t = Some s' \<and> same_identity s s' \<and> skd_revision s \<le> skd_revision s' \<and>
           (skd_revision s' = skd_revision s \<longrightarrow> s' = s))))"

lemma revisions_growI:
  assumes "scw_schedules t = scw_schedules w" shows "revisions_grow w t"
  using assms by (simp add: revisions_grow_def schedules_named_def schedule_at_file same_identity_def)

lemma request_never_empty: "schedule_at i w = Some s \<Longrightarrow> skd_requestId s \<noteq> []"
  by (auto simp: schedule_at_file hydrated_def or_str_def Let_def truthy_iff split: option.splits if_splits)

lemma revisions_grow_revised:
  assumes "schedule_at i w = Some s" shows "revisions_grow w (put_schedule (revised_schedule env s c) w)"
proof -
  let ?n = "revised_schedule env s c"
  have same: "same_identity s (reread ?n)"
    using request_never_empty [OF assms]
    by (simp add: same_identity_def) (simp add: reread_def hydrated_def Let_def or_str_def truthy_iff)
  show ?thesis
    unfolding revisions_grow_def
  proof (intro impI conjI allI)
    assume named: "schedules_named w"
    then have i: "skd_scheduleId s = i" using assms by (simp add: schedules_named_def)
    show "schedules_named (put_schedule ?n w)" using named by (auto simp: schedules_named_def schedule_at_put)
    fix j u assume u: "schedule_at j w = Some u"
    show "\<exists>s'. schedule_at j (put_schedule ?n w) = Some s' \<and> same_identity u s' \<and> skd_revision u \<le> skd_revision s' \<and>
       (skd_revision s' = skd_revision u \<longrightarrow> s' = u)"
    proof (cases "j = i")
      case True
      then show ?thesis using u assms i same by (simp add: schedule_at_put)
    next
      case False
      then show ?thesis using u i by (simp add: schedule_at_put same_identity_def)
    qed
  qed
qed

lemma revisions_grow_added:
  assumes "map_of (scw_schedules w) (skd_scheduleId s) = None" shows "revisions_grow w (put_schedule s w)"
proof -
  have "schedule_at (skd_scheduleId s) w = None" using assms by (simp add: schedule_at_file)
  then show ?thesis by (auto simp: revisions_grow_def schedules_named_def schedule_at_put same_identity_def)
qed

lemma revisions_grow_trans:
  assumes "revisions_grow u v" and "revisions_grow v w" shows "revisions_grow u w"
  unfolding revisions_grow_def
proof (intro impI conjI allI)
  assume u: "schedules_named u"
  then have v: "schedules_named v" using assms(1) by (simp add: revisions_grow_def)
  then show "schedules_named w" using assms(2) by (simp add: revisions_grow_def)
  fix i s assume s: "schedule_at i u = Some s"
  from assms(1) u s obtain t where t: "schedule_at i v = Some t" "same_identity s t" "skd_revision s \<le> skd_revision t"
      "skd_revision t = skd_revision s \<longrightarrow> t = s" unfolding revisions_grow_def by blast
  from assms(2) v t(1) obtain r where r: "schedule_at i w = Some r" "same_identity t r" "skd_revision t \<le> skd_revision r"
      "skd_revision r = skd_revision t \<longrightarrow> r = t" unfolding revisions_grow_def by blast
  from t r show "\<exists>s'. schedule_at i w = Some s' \<and> same_identity s s' \<and> skd_revision s \<le> skd_revision s' \<and>
     (skd_revision s' = skd_revision s \<longrightarrow> s' = s)" by (auto simp: same_identity_def)
qed

interpretation revisions_kept: schedule_kept revisions_grow
  by unfold_locales
    (auto intro: revisions_growI revisions_grow_trans revisions_grow_added revisions_grow_revised)

section \<open>Requests stay\<close>

definition requests_stay :: "schedule_world \<Rightarrow> schedule_world \<Rightarrow> bool" where
  "requests_stay w t \<longleftrightarrow> (\<forall>k q. map_of (scw_requests w) k = Some q \<longrightarrow> map_of (scw_requests t) k = Some q)"

interpretation requests_kept: schedule_kept requests_stay
  by unfold_locales (auto simp: requests_stay_def map_of_put put_schedule_def)

end
