(* ===== verification/ScheduleOutcomes.thy ===== *)
theory ScheduleOutcomes
  imports ScheduleActivity
begin

text \<open>
  What saving and settling do to the occurrences: the exact effect of a save, what a decision
  returns, and that the outcome of an occurrence that has ended stays.
\<close>

section \<open>A save\<close>

definition same_occurrences :: "schedule_world \<Rightarrow> schedule_world \<Rightarrow> bool" where
  "same_occurrences w t \<longleftrightarrow> scw_occurrences t = scw_occurrences w"

interpretation occurrence_files: kept_relation same_occurrences
  by unfold_locales (auto simp: same_occurrences_def)

lemma recovery_same: "keepsS same_occurrences (resolveRecoveredScheduleFailureHandoffs env occ)"
proof -
  have "keepsS same_occurrences (resolve_recovered env o' item)" for o' item
    by (auto simp: keepsS_def resolve_recovered_def same_occurrences_def split: sum.split)
  then show ?thesis unfolding resolveRecoveredScheduleFailureHandoffs_def
    by (intro occurrence_files.keeps_bind occurrence_files.keeps_pure occurrence_files.keeps_each)
qed

definition saved_occurrence :: "schedule_env \<Rightarrow> schedule_occurrence \<Rightarrow> schedule_occurrence" where
  "saved_occurrence env occ = occ\<lparr>soc_revision := soc_revision occ + 1, soc_updatedAt := sce_now env\<rparr>"

lemma saved_fields [simp]:
  "soc_occurrenceId (saved_occurrence env occ) = soc_occurrenceId occ" "soc_status (saved_occurrence env occ) = soc_status occ"
  "soc_decision (saved_occurrence env occ) = soc_decision occ" "soc_reason (saved_occurrence env occ) = soc_reason occ"
  "soc_scheduleId (saved_occurrence env occ) = soc_scheduleId occ" "soc_handoffId (saved_occurrence env occ) = soc_handoffId occ"
  by (simp_all add: saved_occurrence_def)

text \<open>Either nothing happens to the files of the occurrences, or the new revision is written.\<close>

definition stored_revision :: "string \<Rightarrow> schedule_world \<Rightarrow> int" where
  "stored_revision i w = (case occurrence_at i w of None \<Rightarrow> 0 | Some occ \<Rightarrow> soc_revision occ)"

lemma written_files: "scw_occurrences (snd (occurrence_written env saved w)) = scw_occurrences w"
proof -
  have "keepsS same_occurrences (occurrence_written env saved)"
    unfolding occurrence_written_def
    by (intro occurrence_files.keeps_bind occurrence_files.keeps_if occurrence_files.keeps_pure occurrence_files.keeps_modify
        recovery_same) (simp_all add: same_occurrences_def getSchedule_def occurrence_files.keeps_pure)
  then show ?thesis by (simp add: keepsS_def same_occurrences_def)
qed

lemma written_result: "occurrence_written env saved w = (Inr x, t) \<Longrightarrow> x = saved"
  by (auto simp: occurrence_written_def bindS_Inr returnS_def split: if_splits)

lemma saveOccurrence_files:
  "scw_occurrences (snd (saveOccurrence env occ w)) = scw_occurrences w \<or>
     soc_revision occ = stored_revision (soc_occurrenceId occ) w \<and>
     scw_occurrences (snd (saveOccurrence env occ w)) = put_file (soc_occurrenceId occ) (saved_occurrence env occ) (scw_occurrences w)"
  and saveOccurrence_result: "saveOccurrence env occ w = (Inr o', t) \<Longrightarrow> o' = saved_occurrence env occ \<and>
     scw_occurrences t = put_file (soc_occurrenceId occ) (saved_occurrence env occ) (scw_occurrences w)"
proof -
  let ?i = "soc_occurrenceId occ"
  let ?saved = "\<lambda>n. occ\<lparr>soc_revision := n + 1, soc_updatedAt := sce_now env\<rparr>"
  let ?put = "\<lambda>n. w\<lparr>scw_occurrences := put_file ?i (?saved n) (scw_occurrences w)\<rparr>"
  have run: "saveOccurrence env occ w =
      (case getOccurrence ?i w of (Inl e, v) \<Rightarrow> (Inl e, v)
       | (Inr previous, v) \<Rightarrow>
          let n = coalesce (map_option soc_revision previous) 0 in
          if soc_revision occ \<noteq> n then throwS (''SCHEDULE_OCCURRENCE_REVISION_CONFLICT: '' @ ?i @ '':expected='' @ int_str (soc_revision occ)
            @ '':actual='' @ int_str n) v
          else occurrence_written env (?saved n) (?put n))"
    by (simp add: saveOccurrence_def bindS_def getOccurrence_def readS_def throw_ifS_def throwS_def returnS_def modifyS_def Let_def
        split: sum.split)
  have got: "getOccurrence ?i w = (Inr previous, v) \<Longrightarrow> v = w \<and> coalesce (map_option soc_revision previous) 0 = stored_revision ?i w"
    "getOccurrence ?i w = (Inl e, v) \<Longrightarrow> v = w" for previous v e
    by (auto simp: getOccurrence_def readS_def read_existing_def stored_revision_def occurrence_at_def split: option.splits)
  have n: "soc_revision occ = n \<Longrightarrow> ?saved n = saved_occurrence env occ" for n by (simp add: saved_occurrence_def)
  show "scw_occurrences (snd (saveOccurrence env occ w)) = scw_occurrences w \<or>
     soc_revision occ = stored_revision ?i w \<and>
     scw_occurrences (snd (saveOccurrence env occ w)) = put_file ?i (saved_occurrence env occ) (scw_occurrences w)"
  proof (cases "getOccurrence ?i w")
    case (Pair r v)
    then show ?thesis
      by (cases r) (auto simp: run Let_def written_files n throwS_def dest: got)
  qed
  assume eq: "saveOccurrence env occ w = (Inr o', t)"
  then obtain previous v where g: "getOccurrence ?i w = (Inr previous, v)" "soc_revision occ = coalesce (map_option soc_revision previous) 0"
    and r: "occurrence_written env (?saved (soc_revision occ)) (?put (soc_revision occ)) = (Inr o', t)"
    by (auto simp: run Let_def throwS_def split: prod.splits sum.splits if_splits)
  show "o' = saved_occurrence env occ \<and> scw_occurrences t = put_file ?i (saved_occurrence env occ) (scw_occurrences w)"
    using written_result [OF r] written_files [of env "?saved (soc_revision occ)" "?put (soc_revision occ)"] r n by simp
qed

section \<open>Outcomes stay\<close>

definition ended :: "schedule_occurrence \<Rightarrow> bool" where
  "ended occ \<longleftrightarrow> soc_status occ \<in> set TERMINAL_OCCURRENCE_STATUSES"

definition same_outcome :: "schedule_occurrence \<Rightarrow> schedule_occurrence \<Rightarrow> bool" where
  "same_outcome a b \<longleftrightarrow> soc_occurrenceId b = soc_occurrenceId a \<and> soc_status b = soc_status a \<and>
     soc_decision b = soc_decision a \<and> soc_reason b = soc_reason a"

definition outcomes_stay :: "schedule_world \<Rightarrow> schedule_world \<Rightarrow> bool" where
  "outcomes_stay w t \<longleftrightarrow> (\<forall>i occ. occurrence_at i w = Some occ \<longrightarrow> ended occ \<longrightarrow>
     (\<exists>o'. occurrence_at i t = Some o' \<and> same_outcome occ o'))"

interpretation outcomes: kept_relation outcomes_stay
proof
  show "outcomes_stay u w" if uv: "outcomes_stay u v" and vw: "outcomes_stay v w" for u v w
    unfolding outcomes_stay_def
  proof (intro allI impI)
    fix i occ assume "occurrence_at i u = Some occ" "ended occ"
    then obtain p where p: "occurrence_at i v = Some p" "same_outcome occ p" using uv by (auto simp: outcomes_stay_def)
    with \<open>ended occ\<close> have "ended p" by (simp add: ended_def same_outcome_def)
    with p(1) vw obtain q where "occurrence_at i w = Some q" "same_outcome p q" by (auto simp: outcomes_stay_def)
    with p(2) show "\<exists>o'. occurrence_at i w = Some o' \<and> same_outcome occ o'" by (auto simp: same_outcome_def)
  qed
qed (auto simp: outcomes_stay_def same_outcome_def)

lemma outcomes_same: "scw_occurrences t = scw_occurrences w \<Longrightarrow> outcomes_stay w t"
  by (simp add: outcomes_stay_def occurrence_at_def same_outcome_def)

lemma occurrence_at_written:
  "scw_occurrences t = put_file i occ (scw_occurrences w) \<Longrightarrow> occurrence_at j t = (if j = i then Some occ else occurrence_at j w)"
  by (simp add: occurrence_at_def map_of_put)

lemma save_outcomes:
  assumes "\<And>p. occurrence_at (soc_occurrenceId occ) w = Some p \<Longrightarrow> ended p \<Longrightarrow> same_outcome p occ"
  shows "outcomes_stay w (snd (saveOccurrence env occ w))"
  using saveOccurrence_files [of env occ w]
proof
  assume "scw_occurrences (snd (saveOccurrence env occ w)) = scw_occurrences w"
  then show ?thesis by (rule outcomes_same)
next
  let ?t = "snd (saveOccurrence env occ w)"
  assume "soc_revision occ = stored_revision (soc_occurrenceId occ) w \<and>
    scw_occurrences ?t = put_file (soc_occurrenceId occ) (saved_occurrence env occ) (scw_occurrences w)"
  then have put: "scw_occurrences ?t = put_file (soc_occurrenceId occ) (saved_occurrence env occ) (scw_occurrences w)" by blast
  have "\<exists>o'. occurrence_at i ?t = Some o' \<and> same_outcome p o'" if p: "occurrence_at i w = Some p" "ended p" for i p
  proof (cases "i = soc_occurrenceId occ")
    case True
    then have "same_outcome p occ" using assms p by simp
    then show ?thesis using True by (auto simp: occurrence_at_written [OF put] same_outcome_def)
  next
    case False
    then show ?thesis using p(1) by (simp add: occurrence_at_written [OF put] same_outcome_def)
  qed
  then show ?thesis unfolding outcomes_stay_def by blast
qed

lemma update_occurrences: "scw_occurrences (snd (updateSchedule env i f w)) = scw_occurrences w"
  by (cases "schedule_at i w") (simp_all add: updateSchedule_None updateSchedule_run put_schedule_def)

lemma getOccurrence_run:
  "snd (getOccurrence i w) = w" "getOccurrence i w = (Inr found, t) \<Longrightarrow> t = w \<and> found = occurrence_at i w"
  by (auto simp: getOccurrence_def readS_def read_existing_def occurrence_at_def split: option.splits)

lemma getSchedule_same: "snd (getSchedule i w) = w"
  by (simp add: getSchedule_def readS_def)

lemma create_handoff_occurrences: "scw_occurrences (snd (create_handoff env inp w)) = scw_occurrences w"
  by (simp add: create_handoff_def split: sum.split prod.split)

lemma handoff_outcomes:
  assumes "occurrence_at (soc_occurrenceId occ) w = Some occ"
  shows "outcomes_stay w (snd (recordScheduleOccurrenceHandoff env s occ inp w))"
proof -
  have save: "outcomes_stay v (snd (saveOccurrence env (occ\<lparr>soc_handoffId := h\<rparr>) v))" if "scw_occurrences v = scw_occurrences w" for v h
    using assms that by (intro save_outcomes) (auto simp: occurrence_at_def same_outcome_def)
  have made: "outcomes_stay w (snd (bindS (create_handoff env inp') (\<lambda>item. saveOccurrence env (occ\<lparr>soc_handoffId := Some (hi_id item)\<rparr>)) w))"
    for inp'
  proof (rule outcomes.from_bind)
    show "outcomes_stay w (snd (create_handoff env inp' w))" by (rule outcomes_same) (rule create_handoff_occurrences)
    fix item t assume "create_handoff env inp' w = (Inr item, t)"
    then have "scw_occurrences t = scw_occurrences w" using create_handoff_occurrences [of env inp' w] by simp
    then show "outcomes_stay t (snd (saveOccurrence env (occ\<lparr>soc_handoffId := Some (hi_id item)\<rparr>) t))"
      using assms by (intro save_outcomes) (auto simp: occurrence_at_def same_outcome_def)
  qed
  show ?thesis
    unfolding recordScheduleOccurrenceHandoff_def Let_def
    by (auto simp: bindS_def [of "getS f" for f] getS_def returnS_def outcomes.R_refl save made bindS_simps(1) [unfolded returnS_def]
        split: option.split)
qed

text \<open>Ending an occurrence that was just read returns what is stored.\<close>

lemma end_result:
  assumes "end_occurrence env status d reason found w = (Inr e, t)" and "found = occurrence_at i w"
    and "\<And>occ. found = Some occ \<Longrightarrow> soc_occurrenceId occ = i"
  shows "e = occurrence_at i t \<and> (\<forall>occ. e = Some occ \<longrightarrow> soc_occurrenceId occ = i \<and> (ended occ \<or> soc_status occ = status))"
  using assms
  by (auto simp: end_occurrence_def returnS_def bindS_Inr ended_def occurrence_at_written split: option.splits if_splits
      dest!: saveOccurrence_result)

lemma end_outcomes:
  assumes "found = occurrence_at i w" and "\<And>occ. found = Some occ \<Longrightarrow> soc_occurrenceId occ = i"
  shows "outcomes_stay w (snd (end_occurrence env status d reason found w))"
proof (cases found)
  case None
  then show ?thesis by (simp add: end_occurrence_def returnS_def outcomes.R_refl)
next
  case (Some occ)
  show ?thesis
  proof (cases "soc_status occ \<in> set TERMINAL_OCCURRENCE_STATUSES")
    case True
    then show ?thesis by (simp add: end_occurrence_def Some returnS_def outcomes.R_refl)
  next
    case False
    let ?o = "occ\<lparr>soc_status := status, soc_decision := coalesce d (soc_decision occ), soc_reason := Some reason\<rparr>"
    have "outcomes_stay w (snd (saveOccurrence env ?o w))"
      using assms False Some by (intro save_outcomes) (auto simp: ended_def)
    then show ?thesis using False
      by (auto simp: end_occurrence_def Some intro!: outcomes.from_bind) (simp add: returnS_def outcomes.R_refl)
  qed
qed

section \<open>Settlements keep the outcomes\<close>

definition named_occurrence :: "string \<Rightarrow> schedule_world \<Rightarrow> bool" where
  "named_occurrence i w \<longleftrightarrow> (\<forall>occ. occurrence_at i w = Some occ \<longrightarrow> soc_occurrenceId occ = i)"

lemma update_outcomes: "outcomes_stay w (snd (updateSchedule env i f w))"
  by (rule outcomes_same) (rule update_occurrences)

lemma handed_outcomes:
  assumes "\<And>occ. e = Some occ \<Longrightarrow> occurrence_at (soc_occurrenceId occ) w = Some occ"
  shows "outcomes_stay w (snd (hand_ended env s h e w))"
  using assms unfolding hand_ended_def
  by (auto split: option.split intro!: outcomes.from_bind outcomes.from_pure handoff_outcomes)

lemma schedule_failure_outcomes: "outcomes_stay w (snd (failure_on_schedule env i options w))"
  by (simp add: failure_on_schedule_def update_outcomes getSchedule_same outcomes.R_refl)

text \<open>Reading an occurrence and ending it, then going on from what is stored.\<close>

lemma ended_then:
  assumes "named_occurrence oid w"
    and "\<And>e v. \<lbrakk>e = occurrence_at oid v; named_occurrence oid v; scw_schedules v = scw_schedules w\<rbrakk> \<Longrightarrow> outcomes_stay v (snd (rest e v))"
  shows "outcomes_stay w (snd (bindS (getOccurrence oid) (\<lambda>found. bindS (end_occurrence env status d reason found) rest) w))"
proof (rule outcomes.from_bind)
  show "outcomes_stay w (snd (getOccurrence oid w))" by (simp add: getOccurrence_run outcomes.R_refl)
  fix found u assume "getOccurrence oid w = (Inr found, u)"
  then have u: "u = w" "found = occurrence_at oid w" using getOccurrence_run(2) by metis+
  have named: "\<And>occ. found = Some occ \<Longrightarrow> soc_occurrenceId occ = oid" using assms(1) u by (simp add: named_occurrence_def)
  show "outcomes_stay u (snd (bindS (end_occurrence env status d reason found) rest u))"
  proof (rule outcomes.from_bind)
    show "outcomes_stay u (snd (end_occurrence env status d reason found u))" using u named by (intro end_outcomes) auto
    fix e v assume e: "end_occurrence env status d reason found u = (Inr e, v)"
    have "e = occurrence_at oid v" "named_occurrence oid v"
      using end_result [OF e, of oid] u named by (auto simp: named_occurrence_def)
    moreover have "scw_schedules v = scw_schedules w"
      using keepsSD [OF end_occurrence_keeps e] u(1) by (simp add: same_schedules_def)
    ultimately show "outcomes_stay v (snd (rest e v))" by (rule assms(2))
  qed
qed

lemma failure_outcomes:
  assumes "named_occurrence oid w" shows "outcomes_stay w (snd (applyScheduleFailure env i oid options w))"
  unfolding applyScheduleFailure_def
proof (rule outcomes.from_bind)
  show "outcomes_stay w (snd (getSchedule i w))" by (simp add: getSchedule_same outcomes.R_refl)
  fix s t assume "getSchedule i w = (Inr s, t)"
  then have t: "t = w" by (simp add: getSchedule_InrD)
  show "outcomes_stay t (snd (bindS (getOccurrence oid) (\<lambda>found.
     bindS (end_occurrence env (outcome_status (fo_outcome options)) (fo_decision options) (fo_reason options) found) (\<lambda>ended.
     bindS (hand_ended env s (fo_handoff options) ended) (\<lambda>nextOccurrence.
     bindS (failure_on_schedule env i options) (\<lambda>nextSchedule. returnS (nextSchedule, nextOccurrence))))) t))"
    unfolding t
  proof (rule ended_then [OF assms])
    fix e v assume e: "e = occurrence_at oid v" "named_occurrence oid v"
    then have "\<And>occ. e = Some occ \<Longrightarrow> occurrence_at (soc_occurrenceId occ) v = Some occ" by (simp add: named_occurrence_def)
    then show "outcomes_stay v (snd (bindS (hand_ended env s (fo_handoff options) e) (\<lambda>nextOccurrence.
       bindS (failure_on_schedule env i options) (\<lambda>nextSchedule. returnS (nextSchedule, nextOccurrence))) v))"
      by (intro outcomes.from_bind handed_outcomes schedule_failure_outcomes outcomes.from_pure)
  qed
qed

lemma retryable_outcomes:
  assumes "named_occurrence oid w" shows "outcomes_stay w (snd (applyScheduleRetryableFailure env i oid options w))"
  unfolding applyScheduleRetryableFailure_def
  by (intro ended_then assms outcomes.from_bind update_outcomes outcomes.from_pure)

lemma mark_outcomes:
  assumes "truthy (payload_string job ''occurrenceId'') \<Longrightarrow> named_occurrence (the (payload_string job ''occurrenceId'')) w"
  shows "outcomes_stay w (snd (markScheduledExecutionRunning env job w))"
proof -
  let ?oid = "the (payload_string job ''occurrenceId'')"
  have "outcomes_stay w (snd (bindS (getOccurrence ?oid) (\<lambda>found. case found of None \<Rightarrow> returnS ()
        | Some occ \<Rightarrow> if soc_status occ = Occ_queued
            then bindS (saveOccurrence env (occ\<lparr>soc_status := Occ_running, soc_decision := Decide_execute,
                   soc_reason := Some ''Scheduled Worker started.''\<rparr>)) (\<lambda>_. returnS ())
            else returnS ()) w))" if named: "named_occurrence ?oid w"
  proof (rule outcomes.from_bind)
    show "outcomes_stay w (snd (getOccurrence ?oid w))" by (simp add: getOccurrence_run outcomes.R_refl)
    fix found u assume "getOccurrence ?oid w = (Inr found, u)"
    then have u: "u = w" "found = occurrence_at ?oid w" using getOccurrence_run(2) by metis+
    have "outcomes_stay w (snd (saveOccurrence env (occ\<lparr>soc_status := Occ_running, soc_decision := Decide_execute,
        soc_reason := Some ''Scheduled Worker started.''\<rparr>) w))" if "found = Some occ" "soc_status occ = Occ_queued" for occ
      using that u named by (intro save_outcomes) (auto simp: named_occurrence_def ended_def TERMINAL_OCCURRENCE_STATUSES_def)
    then show "outcomes_stay u (snd ((case found of None \<Rightarrow> returnS ()
        | Some occ \<Rightarrow> if soc_status occ = Occ_queued
            then bindS (saveOccurrence env (occ\<lparr>soc_status := Occ_running, soc_decision := Decide_execute,
                   soc_reason := Some ''Scheduled Worker started.''\<rparr>)) (\<lambda>_. returnS ())
            else returnS ()) u))"
      unfolding u(1) by (auto split: option.split intro!: outcomes.from_bind outcomes.from_pure)
  qed
  then show ?thesis using assms
    by (auto simp: markScheduledExecutionRunning_def outcomes.from_pure intro!: outcomes.from_quiet)
qed

lemma settle_outcomes:
  assumes "truthy (payload_string job ''occurrenceId'') \<Longrightarrow> named_occurrence (the (payload_string job ''occurrenceId'')) w"
  shows "outcomes_stay w (snd (settleScheduledExecution env job ok reason w))"
proof (cases "sxe_type job \<noteq> ''scheduled-occurrence'' \<or> \<not> truthy (payload_string job ''scheduleId'')
    \<or> \<not> truthy (payload_string job ''occurrenceId'')")
  case True
  then show ?thesis by (simp add: settleScheduledExecution_def Let_def outcomes.from_pure)
next
  case False
  then have named: "named_occurrence (the (payload_string job ''occurrenceId'')) w" using assms by blast
  from False show ?thesis
    unfolding settleScheduledExecution_def Let_def if_not_P [OF False]
    by (auto intro!: outcomes.from_quiet ended_then [OF named] outcomes.from_bind update_outcomes outcomes.from_pure failure_outcomes)
qed

end
