(* ===== verification/ScheduleLimits.thy ===== *)
theory ScheduleLimits
  imports ScheduleOutcomes
begin

text \<open>
  What an evaluation returns: the occurrence of a window that has one, and, for a schedule that has
  reached its failure limit, an occurrence that is skipped.
\<close>

section \<open>A window that has its occurrence\<close>

definition due_for ::
    "schedule_env \<Rightarrow> engine_facts \<Rightarrow> repository_schedule \<Rightarrow> bool \<Rightarrow> trigger_context option \<Rightarrow> string \<Rightarrow> bool" where
  "due_for env F s force context key \<longleftrightarrow> \<not> truthy (retiredScheduleReason s) \<and> key \<noteq> [] \<and>
     (\<exists>due. evaluateScheduleTriggerEligibility (sce_host env) (egf_host F) s (trigger_facts_of env F s force context) = Inr due
        \<and> td_due due \<and> td_windowKey due = Some key)"

lemma evaluate_due:
  assumes "schedule_at i w = Some s" and "due_for env F s force context key"
  obtains due where "td_due due" "td_windowKey due = Some key"
    "evaluateSchedule env F i force context w = evaluate_window env F s force context due w"
proof -
  from assms(2) obtain due where due: "\<not> truthy (retiredScheduleReason s)" "td_due due" "td_windowKey due = Some key"
      "evaluateScheduleTriggerEligibility (sce_host env) (egf_host F) s (trigger_facts_of env F s force context) = Inr due"
    by (auto simp: due_for_def)
  have "evaluateSchedule env F i force context w = evaluate_window env F s force context due w"
    by (simp add: evaluateSchedule_def bindS_def getSchedule_Some [OF assms(1)] due(1,4) readS_def)
  then show ?thesis using that due(2,3) by blast
qed

lemma getOccurrence_found: "occurrence_at i w = Some occ \<Longrightarrow> getOccurrence i w = (Inr (Some occ), w)"
  by (auto simp: occurrence_at_def getOccurrence_def readS_def read_existing_def split: option.splits)

lemma evaluate_known:
  assumes "schedule_at i w = Some s" and "due_for env F s force context key"
    and "occurrence_at (occurrence_id (sce_host env) s key) w = Some occ"
  shows "evaluateSchedule env F i force context w = (Inr (Recorded occ), w)"
proof -
  from assms(1,2) obtain due where due: "td_due due" "td_windowKey due = Some key"
      "evaluateSchedule env F i force context w = evaluate_window env F s force context due w"
    by (rule evaluate_due)
  moreover have "key \<noteq> []" using assms(2) by (simp add: due_for_def)
  ultimately show ?thesis
    by (simp add: evaluate_window_def Let_def bindS_def getOccurrence_found [OF assms(3)] returnS_def)
qed

lemma save_present: "saveOccurrence env occ w = (Inr o', t) \<Longrightarrow> occurrence_at (soc_occurrenceId occ) t = Some o' \<and> o' = saved_occurrence env occ"
  by (auto dest!: saveOccurrence_result simp: occurrence_at_written)

lemma evaluate_records:
  assumes "schedule_at i w = Some s" and "due_for env F s force context key"
    and run: "evaluateSchedule env F i force context w = (Inr r, t)"
  shows "occurrence_at (occurrence_id (sce_host env) s key) t \<noteq> None"
proof -
  let ?id = "occurrence_id (sce_host env) s key"
  from assms(1,2) obtain due where due: "td_due due" "td_windowKey due = Some key"
      "evaluateSchedule env F i force context w = evaluate_window env F s force context due w"
    by (rule evaluate_due)
  have key: "key \<noteq> []" using assms(2) by (simp add: due_for_def)
  show ?thesis
  proof (cases "occurrence_at ?id w")
    case (Some occ)
    then show ?thesis using evaluate_known [OF assms(1,2) Some] run by simp
  next
    case None
    obtain occ u where occ: "saveOccurrence env (new_occurrence env s key force context) w = (Inr occ, u)"
      and rest: "(if \<not> isDeterministicSchedule s then hand_over env s occ else admit_occurrence env F s occ force (td_evidence due)) u = (Inr r, t)"
      using run due key None
      by (auto simp: evaluate_window_def Let_def bindS_Inr dest!: getOccurrence_run(2) split: option.splits)
    have "occurrence_at ?id u \<noteq> None" using save_present [OF occ] by (simp add: new_occurrence_def)
    have "keepsS occurrences_stay (if \<not> isDeterministicSchedule s then hand_over env s occ
        else admit_occurrence env F s occ force (td_evidence due))"
      unfolding hand_over_def mark_triggered_def by (intro occurrences_kept.evaluation_rules occurrences_kept.admit_kept)
    then have "occurrences_stay u t" using keepsSD [where s = u and r = "Inr r" and t = t] rest by blast
    with \<open>occurrence_at ?id u \<noteq> None\<close> show ?thesis by (auto simp: occurrences_stay_def)
  qed
qed

section \<open>At the failure limit\<close>

lemma decide_result:
  assumes "decideOccurrence env s occ d status reason evidence w = (Inr o', t)"
  shows "soc_status o' = status \<and> soc_occurrenceId o' = soc_occurrenceId occ \<and> occurrence_at (soc_occurrenceId occ) t = Some o'"
proof -
  from assms obtain v where "saveOccurrence env (occ\<lparr>soc_decision := d, soc_decisionId := Some (''DEC-'' @ soc_occurrenceId occ),
       soc_status := status, soc_reason := reason\<rparr>) v = (Inr o', t)"
    unfolding decideOccurrence_def by (auto simp: bindS_Inr)
  from save_present [OF this] show ?thesis by simp
qed

lemma handoff_result:
  assumes "recordScheduleOccurrenceHandoff env s occ inp w = (Inr o', t)" shows "soc_status o' = soc_status occ"
proof -
  have "soc_status o' = soc_status occ" if "saveOccurrence env (occ\<lparr>soc_handoffId := h\<rparr>) v = (Inr o', t)" for h v
    using save_present [OF that] by simp
  then show ?thesis using assms unfolding recordScheduleOccurrenceHandoff_def Let_def
    by (auto simp: bindS_Inr returnS_def split: if_splits option.splits)
qed

text \<open>A failure settled on an occurrence that has ended returns it with its status.\<close>

lemma failure_result:
  assumes "applyScheduleFailure env i oid options w = (Inr (s, found), t)" and "occurrence_at oid w = Some occ" and "ended occ"
  shows "\<exists>o'. found = Some o' \<and> soc_status o' = soc_status occ"
proof -
  from assms(1) obtain s0 w0 found0 w1 e w2 u where
      s0: "getSchedule i w = (Inr s0, w0)" and w1: "getOccurrence oid w0 = (Inr found0, w1)"
    and e: "end_occurrence env (outcome_status (fo_outcome options)) (fo_decision options) (fo_reason options) found0 w1 = (Inr e, w2)"
    and u: "hand_ended env s0 (fo_handoff options) e w2 = (Inr found, u)"
    unfolding applyScheduleFailure_def by (fastforce simp: bindS_Inr returnS_def)
  have "found0 = Some occ" using getSchedule_InrD [OF s0] getOccurrence_run(2) [OF w1] assms(2) by simp
  then have "e = Some occ" using e assms(3) by (simp add: end_occurrence_def ended_def returnS_def)
  then show ?thesis using u
    by (auto simp: hand_ended_def returnS_def bindS_Inr split: option.splits dest: handoff_result)
qed

definition skipped_only :: "evaluation \<Rightarrow> bool" where
  "skipped_only r \<longleftrightarrow> (\<exists>occ. r = Recorded occ \<and> soc_status occ = Occ_skipped)"

lemma refuse_result: "refuse_occurrence env s occ d reason w = (Inr r, t) \<Longrightarrow> skipped_only r"
  by (auto simp: refuse_occurrence_def bindS_Inr returnS_def skipped_only_def dest!: decide_result)

lemma stop_result:
  assumes "stop_occurrence env s occ stop w = (Inr r, t)" shows "skipped_only r"
proof -
  from assms obtain stopped v where stopped: "decideOccurrence env s occ Decide_stopped Occ_skipped (Some stop) None w = (Inr stopped, v)"
    and rest: "(if \<not> isLiveMaintenanceSchedule s then returnS (Recorded stopped)
     else bindS (applyScheduleFailure env (skd_scheduleId s) (soc_occurrenceId occ)
       \<lparr>fo_outcome = Outcome_skipped, fo_decision = Some Decide_stopped, fo_reason = stop, fo_countFailure = Some False,
        fo_pauseReason = Some stop, fo_handoff = Some (stopped_handoff s occ stop)\<rparr>) (\<lambda>(_, found). ended_or found stopped)) v = (Inr r, t)"
    unfolding stop_occurrence_def by (auto simp: bindS_Inr)
  note st = decide_result [OF stopped]
  then have "ended stopped" by (simp add: ended_def TERMINAL_OCCURRENCE_STATUSES_def)
  with st rest show ?thesis
    by (auto simp: returnS_def skipped_only_def bindS_Inr ended_or_def split: if_splits dest!: failure_result)
qed

lemma limit_admission:
  assumes "skd_consecutiveFailures s \<ge> sy_maxFailures (skd_policy s)"
  shows "oad_kind (evaluateScheduleOccurrenceAdmission H s facts) \<in> {Adm_stop_condition, Adm_active_occurrence, Adm_failure_limit}"
  using assms by (simp add: evaluateScheduleOccurrenceAdmission_def admission_def Let_def)

lemma limit_result:
  assumes run: "admit_occurrence env F s occ force evidence w = (Inr r, t)"
    and limit: "skd_consecutiveFailures s \<ge> sy_maxFailures (skd_policy s)"
  shows "skipped_only r"
proof -
  from run obtain facts v where rest: "(case oad_kind (evaluateScheduleOccurrenceAdmission (sce_host env) s facts) of
       Adm_stop_condition \<Rightarrow> stop_occurrence env s occ (coalesce (oad_reason (evaluateScheduleOccurrenceAdmission (sce_host env) s facts)) ''Schedule stop condition is active.'')
     | Adm_active_occurrence \<Rightarrow> refuse_occurrence env s occ Decide_active_occurrence (oad_reason (evaluateScheduleOccurrenceAdmission (sce_host env) s facts))
     | Adm_failure_limit \<Rightarrow>
         bindS (updateSchedule env (skd_scheduleId s) limit_reached) (\<lambda>_.
         refuse_occurrence env s occ Decide_stopped (oad_reason (evaluateScheduleOccurrenceAdmission (sce_host env) s facts)))
     | Adm_cooldown \<Rightarrow> refuse_occurrence env s occ Decide_cooldown (oad_reason (evaluateScheduleOccurrenceAdmission (sce_host env) s facts))
     | Adm_budget_exhausted \<Rightarrow> refuse_occurrence env s occ Decide_budget_exhausted (oad_reason (evaluateScheduleOccurrenceAdmission (sce_host env) s facts))
     | Adm_eligible \<Rightarrow> run_admitted env F s occ evidence) v = (Inr r, t)"
    unfolding admit_occurrence_def by (auto simp: bindS_Inr getS_def)
  show ?thesis using limit_admission [OF limit, of "sce_host env" facts] rest
    by (auto dest: stop_result refuse_result simp: bindS_Inr)
qed

end
