(* ===== verification/ScheduleHistoryFacts.thy ===== *)
theory ScheduleHistoryFacts
  imports ScheduleHistory ScheduleFacts
begin

text \<open>
  What removing history keeps: the index, every occurrence that is indexed, active or unreadable,
  and every decision whose occurrence is there; and the budgets it respects.
\<close>

definition within_budget :: "int \<Rightarrow> int \<Rightarrow> cleanup_result \<Rightarrow> bool" where
  "within_budget maxEntries maxRemovals r \<longleftrightarrow>
     int (length (clr_removedOccurrencePaths r)) + int (length (clr_removedDecisionPaths r)) = clr_eligible r \<and>
     clr_eligible r \<le> clr_attempted r \<and> clr_attempted r \<le> maxRemovals \<and> clr_inspected r \<le> maxEntries"

lemma skip_budget [simp]: "within_budget m n (skip_history why r) = within_budget m n r"
  by (simp add: within_budget_def skip_history_def)

lemma error_budget [simp]: "within_budget m n (r\<lparr>clr_errors := e\<rparr>) = within_budget m n r"
  by (simp add: within_budget_def)

lemma inspect_budget: "within_budget m n r \<Longrightarrow> can_inspect m r = (go, r') \<Longrightarrow> within_budget m n r'"
  by (auto simp: within_budget_def can_inspect_def split: if_splits)

text \<open>With one more attempt than files removed.\<close>

definition one_attempt :: "int \<Rightarrow> int \<Rightarrow> cleanup_result \<Rightarrow> bool" where
  "one_attempt m n r \<longleftrightarrow> within_budget m n r \<and> clr_eligible r < clr_attempted r"

lemma remove_budget: "within_budget m n r \<Longrightarrow> can_remove n r = (room, r') \<Longrightarrow> room \<Longrightarrow> one_attempt m n r'"
  "within_budget m n r \<Longrightarrow> can_remove n r = (False, r') \<Longrightarrow> within_budget m n r'"
  by (auto simp: within_budget_def one_attempt_def can_remove_def split: if_splits)

lemma counted_budget:
  "one_attempt m n r \<Longrightarrow> within_budget m n ((count_bytes sz (r\<lparr>clr_eligible := clr_eligible r + 1\<rparr>))
     \<lparr>clr_removedOccurrencePaths := clr_removedOccurrencePaths (count_bytes sz (r\<lparr>clr_eligible := clr_eligible r + 1\<rparr>)) @ [path]\<rparr>)"
  "one_attempt m n r \<Longrightarrow> within_budget m n ((count_bytes sz (r\<lparr>clr_eligible := clr_eligible r + 1\<rparr>))
     \<lparr>clr_removedDecisionPaths := clr_removedDecisionPaths (count_bytes sz (r\<lparr>clr_eligible := clr_eligible r + 1\<rparr>)) @ [path]\<rparr>)"
  by (auto simp: one_attempt_def within_budget_def count_bytes_def split: option.splits)

text \<open>One step of the loop over the occurrences.\<close>

definition disposable :: "schedule_world \<Rightarrow> string \<Rightarrow> bool" where
  "disposable w name \<longleftrightarrow> name \<notin> retainedOccurrenceIds (scw_index w) \<and>
     (\<exists>occ. occurrence_at name w = Some occ \<and> \<not> activeOccurrenceStatus (soc_status occ))"

definition trimmed_occurrences :: "schedule_world \<Rightarrow> schedule_world \<Rightarrow> bool" where
  "trimmed_occurrences w t \<longleftrightarrow> scw_index t = scw_index w \<and> scw_decisions t = scw_decisions w \<and> scw_schedules t = scw_schedules w \<and>
     (\<forall>i. map_of (scw_occurrences t) i = map_of (scw_occurrences w) i \<or>
        disposable w i \<and> map_of (scw_occurrences t) i = None)"

lemma trimmed_refl [simp]: "trimmed_occurrences w w"
  by (simp add: trimmed_occurrences_def)

lemma trimmed_trans: "trimmed_occurrences u v \<Longrightarrow> trimmed_occurrences v w \<Longrightarrow> trimmed_occurrences u w"
  unfolding trimmed_occurrences_def disposable_def occurrence_at_def by (metis option.simps(4) option.distinct(1))

lemma read_file_at: "read_file n (scw_occurrences w) = Inr occ \<longleftrightarrow> occurrence_at n w = Some occ"
  by (auto simp: read_file_def occurrence_at_def split: option.splits)

lemma clean_occurrence_step:
  assumes "clean_occurrence size_of m n name (r, w) = (go, r', w')" and "within_budget m n r"
  shows "within_budget m n r' \<and> trimmed_occurrences w w'"
proof -
  obtain ok r1 where i: "can_inspect m r = (ok, r1)" by (cases "can_inspect m r")
  then have r1: "within_budget m n r1" using assms(2) inspect_budget by blast
  show ?thesis
  proof (cases "\<not> ok \<or> name \<in> retainedOccurrenceIds (scw_index w)")
    case True
    then show ?thesis using assms(1) i r1 by (auto simp: clean_occurrence_def split: if_splits)
  next
    case False
    then have name: "name \<notin> retainedOccurrenceIds (scw_index w)" by simp
    show ?thesis
    proof (cases "occurrence_at name w")
      case None
      then have "\<exists>e. read_file name (scw_occurrences w) = Inl e"
        by (metis read_file_at old.sum.exhaust option.distinct(1))
      then show ?thesis using assms(1) i r1 False by (auto simp: clean_occurrence_def split: error.splits)
    next
      case (Some occ)
      then have read: "read_file name (scw_occurrences w) = Inr occ" by (simp add: read_file_at)
      show ?thesis
      proof (cases "activeOccurrenceStatus (soc_status occ)")
        case True
        then show ?thesis using assms(1) i r1 False by (auto simp: clean_occurrence_def read)
      next
        case idle: False
        obtain room r2 where rm: "can_remove n r1 = (room, r2)" by (cases "can_remove n r1")
        show ?thesis
        proof (cases room)
          case False
          then show ?thesis using assms(1) i r1 rm \<open>\<not> (\<not> ok \<or> name \<in> retainedOccurrenceIds (scw_index w))\<close> idle remove_budget(2)
            by (auto simp: clean_occurrence_def read)
        next
          case True
          then have r2: "one_attempt m n r2" using r1 rm remove_budget(1) by blast
          then have r2': "within_budget m n r2" by (simp add: one_attempt_def)
          have st: "(r', w') = remove_occurrence size_of name occ (r2, w)"
            using assms(1) i rm True \<open>\<not> (\<not> ok \<or> name \<in> retainedOccurrenceIds (scw_index w))\<close> idle
            by (auto simp: clean_occurrence_def read)
          have "trimmed_occurrences w (w\<lparr>scw_occurrences := drop_file name (scw_occurrences w)\<rparr>)"
            using name Some idle by (auto simp: trimmed_occurrences_def disposable_def map_of_drop)
          then show ?thesis using st r2 r2' counted_budget(1)
            by (auto simp: remove_occurrence_def Let_def split: if_splits sum.splits option.splits error.splits)
        qed
      qed
    qed
  qed
qed

lemma clean_occurrences_kept:
  "clean_occurrences (clean_occurrence size_of m n) names (r, w) = (r', w') \<Longrightarrow> within_budget m n r \<Longrightarrow>
     within_budget m n r' \<and> trimmed_occurrences w w'"
proof (induction names arbitrary: r w)
  case (Cons name names)
  obtain go r1 w1 where st: "clean_occurrence size_of m n name (r, w) = (go, r1, w1)" by (metis prod_cases3)
  then have one: "within_budget m n r1 \<and> trimmed_occurrences w w1" using Cons.prems(2) by (rule clean_occurrence_step)
  show ?case
  proof (cases go)
    case True
    then have "clean_occurrences (clean_occurrence size_of m n) names (r1, w1) = (r', w')" using Cons.prems(1) st by simp
    from Cons.IH [OF this] one trimmed_trans show ?thesis by blast
  next
    case False
    then show ?thesis using Cons.prems(1) st one by simp
  qed
qed simp

text \<open>The loop over the decisions.\<close>

definition trimmed_decisions :: "schedule_world \<Rightarrow> schedule_world \<Rightarrow> bool" where
  "trimmed_decisions w t \<longleftrightarrow> scw_index t = scw_index w \<and> scw_occurrences t = scw_occurrences w \<and> scw_schedules t = scw_schedules w \<and>
     (\<forall>i. map_of (scw_decisions t) i = map_of (scw_decisions w) i \<or>
        (\<exists>d. map_of (scw_decisions w) i = Some (Some d) \<and> sd_occurrenceId d \<notin> retainedOccurrenceIds (scw_index w) \<and>
           map_of (scw_occurrences w) (sd_occurrenceId d) = None))"

lemma trimmed_decisions_trans: "trimmed_decisions u v \<Longrightarrow> trimmed_decisions v w \<Longrightarrow> trimmed_decisions u w"
  unfolding trimmed_decisions_def by metis

lemma trimmed_decisions_refl [simp]: "trimmed_decisions w w"
  by (simp add: trimmed_decisions_def)

lemma read_existing_None: "read_existing n fs = Inr None \<longleftrightarrow> map_of fs n = None"
  by (auto simp: read_existing_def split: option.splits)

lemma clean_decision_step:
  assumes "clean_decision size_of m n name (r, w) = Inr (go, r', w')" and "within_budget m n r"
  shows "within_budget m n r' \<and> trimmed_decisions w w'"
proof -
  obtain ok r1 where i: "can_inspect m r = (ok, r1)" by (cases "can_inspect m r")
  then have r1: "within_budget m n r1" using assms(2) inspect_budget by blast
  obtain room r2 where rm: "can_remove n r1 = (room, r2)" by (cases "can_remove n r1")
  show ?thesis
  proof (cases "\<exists>d. ok \<and> read_file name (scw_decisions w) = Inr d \<and> sd_occurrenceId d \<notin> retainedOccurrenceIds (scw_index w)
      \<and> read_existing (sd_occurrenceId d) (scw_occurrences w) = Inr None \<and> room")
    case False
    then show ?thesis using assms(1) i r1 rm remove_budget(2) [OF r1]
      by (auto simp: clean_decision_def split: if_splits sum.splits option.splits error.splits)
  next
    case True
    then obtain d where d: "ok" "read_file name (scw_decisions w) = Inr d" "sd_occurrenceId d \<notin> retainedOccurrenceIds (scw_index w)"
        "read_existing (sd_occurrenceId d) (scw_occurrences w) = Inr None" room by blast
    have r2: "one_attempt m n r2" using r1 rm d(5) remove_budget(1) by blast
    then have r2': "within_budget m n r2" by (simp add: one_attempt_def)
    have st: "(r', w') = remove_decision size_of name d (r2, w)"
      using assms(1) i rm d by (auto simp: clean_decision_def)
    have "map_of (scw_decisions w) name = Some (Some d)" using d(2) by (auto simp: read_file_def split: option.splits)
    then have "trimmed_decisions w (w\<lparr>scw_decisions := drop_file name (scw_decisions w)\<rparr>)"
      using d(3,4) by (auto simp: trimmed_decisions_def map_of_drop read_existing_None)
    then show ?thesis using st r2 r2' counted_budget(2) d(3,4)
      by (auto simp: remove_decision_def Let_def split: if_splits sum.splits option.splits error.splits)
  qed
qed

lemma clean_decisions_kept:
  "clean_decisions (clean_decision size_of m n) names (r, w) = (res, w') \<Longrightarrow> within_budget m n r \<Longrightarrow>
     (\<forall>r'. res = Inr r' \<longrightarrow> within_budget m n r') \<and> trimmed_decisions w w'"
proof (induction names arbitrary: r w)
  case (Cons name names)
  show ?case
  proof (cases "clean_decision size_of m n name (r, w)")
    case (Inl e)
    then show ?thesis using Cons.prems(1) by auto
  next
    case (Inr st)
    obtain go r1 w1 where st: "clean_decision size_of m n name (r, w) = Inr (go, r1, w1)" using Inr by (metis prod_cases3)
    then have one: "within_budget m n r1 \<and> trimmed_decisions w w1" using Cons.prems(2) by (rule clean_decision_step)
    show ?thesis
    proof (cases go)
      case True
      then have "clean_decisions (clean_decision size_of m n) names (r1, w1) = (res, w')" using Cons.prems(1) st by simp
      from Cons.IH [OF this] one trimmed_decisions_trans show ?thesis by blast
    next
      case False
      then show ?thesis using Cons.prems(1) st one by auto
    qed
  qed
qed auto

end
