(* ===== verification/ScheduleWindows.thy ===== *)
theory ScheduleWindows
  imports ScheduleEligibility
begin

text \<open>
  The windows of a cron expression that names one time of day: their keys name the day.
\<close>

lemma digits_split:
  assumes "\<forall>c\<in>set a. is_digit c" and "\<forall>c\<in>set b. is_digit c" and "\<not> is_digit d"
  shows "a @ d # x = b @ d # y \<longleftrightarrow> a = b \<and> x = y"
proof
  assume eq: "a @ d # x = b @ d # y"
  have "takeWhile is_digit (a @ d # x) = a" "takeWhile is_digit (b @ d # y) = b" using assms by (simp_all add: takeWhile_append2)
  then have "a = b" using eq by metis
  with eq show "a = b \<and> x = y" by simp
qed simp

lemma int_digits: "0 \<le> n \<Longrightarrow> \<forall>c\<in>set (int_str n). is_digit c"
  by (simp add: int_str_def nat_digits_digit)

lemma pad2_digits: "0 \<le> n \<Longrightarrow> \<forall>c\<in>set (pad2 n). is_digit c"
  using int_digits [of n] by (auto simp: pad2_def Let_def is_digit_def)

lemma int_str_value: "0 \<le> n \<Longrightarrow> digits_value (int_str n) = nat n"
  by (simp add: int_str_def digits_value_nat_digits)

lemma zeros_value: "digits_value (replicate k CHR ''0'' @ s) = digits_value s"
  by (induction k) (simp_all add: digits_value_def)

lemma pad2_value: "0 \<le> n \<Longrightarrow> digits_value (pad2 n) = nat n"
  by (simp add: pad2_def Let_def zeros_value int_str_value)

lemma pad2_eq: "0 \<le> m \<Longrightarrow> 0 \<le> n \<Longrightarrow> pad2 m = pad2 n \<longleftrightarrow> m = n"
  using pad2_value [of m] pad2_value [of n] by auto

lemma int_str_eq: "0 \<le> m \<Longrightarrow> 0 \<le> n \<Longrightarrow> int_str m = int_str n \<longleftrightarrow> m = n"
  using int_str_value [of m] int_str_value [of n] by auto

definition proper_date :: "zoned_date \<Rightarrow> bool" where
  "proper_date p \<longleftrightarrow> 0 \<le> zd_year p \<and> 0 \<le> zd_month p \<and> 0 \<le> zd_day p"

definition same_day :: "zoned_date \<Rightarrow> zoned_date \<Rightarrow> bool" where
  "same_day p q \<longleftrightarrow> zd_year p = zd_year q \<and> zd_month p = zd_month q \<and> zd_day p = zd_day q"

lemma day_text_eq:
  assumes "proper_date p" and "proper_date q" and "\<not> is_digit d"
  shows "day_text p @ d # x = day_text q @ d # x \<longleftrightarrow> same_day p q"
proof -
  have minus: "\<not> is_digit CHR ''-''" by (simp add: is_digit_def)
  show ?thesis using assms
    by (auto simp: day_text_def proper_date_def same_day_def digits_split [OF int_digits int_digits minus]
        digits_split [OF pad2_digits pad2_digits minus] digits_split [OF pad2_digits pad2_digits assms(3)] int_str_eq pad2_eq)
qed

lemma fixed_cron_key:
  assumes "fixedCronTime (tg_cronExpression t) = Some f" and "skh_zoned S at_ms (coalesce (tg_timezone t) ''UTC'') = Some p"
  shows "cronWindowKey S t at_ms = Inr (day_text p @ CHR ''@'' # pad2 (fx_hour f) @ '':'' @ pad2 (fx_minute f) @ ''[''
    @ coalesce (tg_timezone t) ''UTC'' @ '']'')"
  using assms by (simp add: cronWindowKey_def zonedDateParts_def Let_def)

end
