(* ===== verification/ScheduleProperties.thy ===== *)
theory ScheduleProperties
  imports ScheduleLimits ScheduleHistoryFacts ScheduleWindows ExampleHost
begin

text \<open>
  The properties of the scheduler, each with a run of a small repository: one schedule that
  publishes a report every hour, whose owner is an external controller.
\<close>

section \<open>A repository with one schedule\<close>

definition hourly_trigger :: schedule_trigger where
  "hourly_trigger = \<lparr>tg_type = Trigger_interval, tg_everyMinutes = Some 60, tg_cronExpression = None, tg_timezone = None,
     tg_catchUpMinutes = None, tg_calendarAt = None, tg_condition = None, tg_eventName = None, tg_dependencyJobIds = None\<rparr>"

definition three_failures :: schedule_policy where
  "three_failures = \<lparr>sy_maxActiveOccurrences = 1, sy_maxFailures = 3, sy_cooldownMinutes = 5, sy_dailyBudgetMinutes = 60,
     sy_shadowMode = False, sy_backoffBaseMinutes = Some 5, sy_backoffMaxMinutes = Some 60\<rparr>"

definition action_named :: "string \<Rightarrow> schedule_action" where
  "action_named operation = \<lparr>sca_operation = operation, sca_target = None, sca_arguments = None, sca_priority = None,
     sca_resourceClaims = None\<rparr>"

definition hourly :: "string \<Rightarrow> int \<Rightarrow> repository_schedule" where
  "hourly operation failures =
     \<lparr>skd_revision = 1, skd_scheduleId = ''S'', skd_requestId = ''R'', skd_repoId = ''repo'', skd_createdAt = ''0'', skd_updatedAt = ''0'',
      skd_scopeRef = None, skd_executionPlacement = None, skd_name = ''report'', skd_enabled = True, skd_trigger = hourly_trigger,
      skd_policy = three_failures, skd_action = action_named operation, skd_stopConditions = [],
      skd_lastTriggeredAt = None, skd_lastOccurrenceId = None, skd_consecutiveFailures = failures, skd_consecutiveNoops = Some 0,
      skd_nextEligibleAt = None, skd_pausedReason = None, skd_lastObservationAt = None, skd_lastObservationFingerprint = None,
      skd_lastObservationChangedAt = None, skd_lastObservationStatus = None\<rparr>"

definition repository_of :: "repository_schedule \<Rightarrow> schedule_world" where
  "repository_of s = \<lparr>scw_schedules = [(skd_scheduleId s, Some \<lparr>ssd_schedule = s, ssd_revision = Some (skd_revision s),
       ssd_requestId = Some (skd_requestId s)\<rparr>)],
     scw_requests = [], scw_occurrences = [], scw_decisions = [],
     scw_index = \<lparr>ix_updatedAt = ''0'', ix_active = [], ix_recent = []\<rparr>, scw_inbox = \<lparr>hb_updatedAt = ''0'', hb_items = []\<rparr>\<rparr>"

definition clock :: "int \<Rightarrow> schedule_env" where
  "clock ms = \<lparr>sce_host = example_host, sce_now = int_str ms, sce_nowMs = ms, sce_uuid = ''12345678-aaaa''\<rparr>"

definition quiet_facts :: engine_facts where
  "quiet_facts = \<lparr>egf_host = \<lparr>skh_zoned = (\<lambda>_ _. None), skh_uuid = ''u''\<rparr>, egf_job = (\<lambda>_. None), egf_workspaceDirty = False,
     egf_attention = False, egf_releaseFrozen = False, egf_activeJobStatuses = [], egf_workCreatedAt = (\<lambda>_. None),
     egf_repository = None, egf_recentJobs = [], egf_preview = throw ''none'', egf_applied = throw ''none''\<rparr>"

lemma repository_schedule [simp]: "schedule_at i (repository_of s) = (if i = skd_scheduleId s then Some (reread s) else None)"
  by (simp add: schedule_at_file repository_of_def reread_def)

lemma repository_named: "schedules_named (repository_of s)"
  by (simp add: schedules_named_def)

text \<open>The evaluation of a maintenance schedule in this repository, whose preview finds nothing to do.\<close>

definition maintained :: "int \<Rightarrow> repository_schedule" where
  "maintained failures = hourly ''runtime_maintenance_apply'' failures"

definition idle_facts :: engine_facts where
  "idle_facts = quiet_facts\<lparr>egf_preview := Inr \<lparr>mpv_actionId = None, mpv_allowed = True, mpv_noOp = True,
     mpv_blockedReason = None, mpv_blockedPermanently = False, mpv_selectedCandidateIds = [], mpv_selectedTypedCandidateIds = [],
     mpv_readyForExecution = True\<rparr>\<rparr>"

lemma window_zero [simp]: "int_str 0 = ''0''"
  by code_simp

lemma example_dates: "date_parse example_host (int_str n) = Some n" "starts_with (take 10 (int_str 1000)) (int_str 1000)"
  subgoal by (simp add: example_host_def parse_int_int_str)
  subgoal by code_simp
  done

lemma clock_fields [simp]: "sce_host (clock ms) = example_host" "sce_nowMs (clock ms) = ms" "sce_now (clock ms) = int_str ms"
  by (simp_all add: clock_def)

lemma hourly_fields [simp]:
  "skd_scheduleId (hourly operation n) = ''S''" "skd_consecutiveFailures (hourly operation n) = n"
  "skd_repoId (hourly operation n) = ''repo''" "skd_stopConditions (reread (hourly operation n)) = []"
  "skd_policy (hourly operation n) = three_failures" "skd_action (hourly operation n) = action_named operation"
  "skd_nextEligibleAt (hourly operation n) = None" "skd_lastTriggeredAt (reread (hourly operation n)) = None"
  "skd_trigger (hourly operation n) = hourly_trigger" "skd_enabled (hourly operation n)"
  by (simp_all add: hourly_def reread_def hydrated_def Let_def)


lemma first_hour:
  assumes "skd_trigger s = hourly_trigger" and "skd_enabled s \<or> force" and "ms div 3600000 = 0"
  shows "evaluateScheduleTriggerEligibility example_host S s (trigger_facts_of (clock ms) F s force None)
     = Inr \<lparr>td_due = True, td_windowKey = Some ''0'', td_reason = None, td_evidence = None\<rparr>"
  using assms by (auto simp: evaluateScheduleTriggerEligibility_def hourly_trigger_def trigger_due_def scheduleTriggerWindowKey_def
      trigger_facts_of_def context_event_def normalizedWindow_def Let_def)

lemma maintenance_not_retired:
  "skd_action s = action_named ''runtime_maintenance_apply'' \<Longrightarrow> skd_trigger s = hourly_trigger \<Longrightarrow> retiredScheduleReason s = None"
  by (simp add: retiredScheduleReason_def operation_of_def action_named_def hourly_trigger_def)

lemma nothing_stops:
  "egf_activeJobStatuses F = [] \<Longrightarrow> stopReason env F w (reread (hourly ''runtime_maintenance_apply'' n)) = None"
  by (simp add: stopReason_def Let_def first_stop_def stop_condition_when_def operation_of_def action_named_def
      LIVE_MAINTENANCE_OPERATION_def)

lemmas evaluating = evaluateSchedule_def bindS_def getSchedule_Some maintenance_not_retired readS_def first_hour
  evaluate_window_def getOccurrence_def read_existing_def repository_of_def Let_def saveOccurrence_def new_occurrence_def
  throw_ifS_def returnS_def modifyS_def occurrence_written_def schedule_at_file admit_occurrence_def isDeterministicSchedule_def
  operation_of_def action_named_def LIVE_MAINTENANCE_OPERATION_def reread_def [symmetric] upserted_index_def
  activeOccurrenceStatus_def index_entry_of_def last_n_def SCHEDULE_OCCURRENCE_RECENT_LIMIT_def listOccurrences_def getS_def
  of_schedule_def listActiveOccurrences_def nothing_stops evaluateScheduleOccurrenceAdmission_def admission_def
  boundedSchedulePolicy_def three_failures_def updateSchedule_run refuse_occurrence_def put_schedule_def decideOccurrence_def
  saveScheduleDecision_def decision_record_def dailyRuntimeMinutes_def add_minutes_def occurrence_minutes_def
  between_minutes_def runtime_minutes_def run_admitted_def with_preview_def isLiveMaintenanceSchedule_def example_dates

lemma idle_run:
  obtains occ t where "evaluateSchedule (clock 1000) idle_facts ''S'' False None (repository_of (maintained 0)) = (Inr (Recorded occ), t)"
    and "schedule_at ''S'' t = Some (reread (maintained 0))"
proof -
  have "\<exists>occ t. evaluateSchedule (clock 1000) idle_facts ''S'' False None (repository_of (maintained 0)) = (Inr (Recorded occ), t) \<and>
      schedule_at ''S'' t = Some (reread (maintained 0))"
    by (simp add: evaluating maintained_def idle_facts_def quiet_facts_def)
  then show ?thesis using that by blast
qed

section \<open>Windows\<close>

text \<open>
  C7.  A schedule runs once in each window: in a store whose schedules are filed under their
  identifiers, when an evaluation found a schedule due in a window and returned, then whatever else
  ran on the schedules and occurrences (new schedules under new identifiers; deleting a schedule and
  removing history apart), every later evaluation in the same window, forced or not, returns the
  occurrence of that window and writes nothing.
\<close>

theorem window_runs_once:
  assumes "schedules_named w" and "schedule_at i w = Some s" and "due_for env F s force context key"
    and "evaluateSchedule env F i force context w = (Inr r, w1)"
    and "schedule_activity\<^sup>*\<^sup>* w1 w2"
    and "schedule_at i w2 = Some s2" and "due_for env2 F2 s2 force2 context2 key" and "sce_host env2 = sce_host env"
  shows "\<exists>occ. occurrence_at (occurrence_id (sce_host env) s key) w2 = Some occ \<and>
     evaluateSchedule env2 F2 i force2 context2 w2 = (Inr (Recorded occ), w2)"
proof -
  have "schedule_activity w w1" using assms(4) by (metis evaluated snd_conv)
  then have all: "schedule_activity\<^sup>*\<^sup>* w w2" using assms(5) by (rule converse_rtranclp_into_rtranclp)
  have id: "skd_scheduleId s2 = skd_scheduleId s"
    using revisions_kept.activities_kept [OF all] assms(1,2,6) unfolding revisions_grow_def schedules_named_def by metis
  have "occurrence_at (occurrence_id (sce_host env) s key) w1 \<noteq> None" using assms(2-4) by (rule evaluate_records)
  then obtain occ where occ: "occurrence_at (occurrence_id (sce_host env) s key) w2 = Some occ"
    using occurrences_kept.activities_kept [OF assms(5)] by (auto simp: occurrences_stay_def)
  have "evaluateSchedule env2 F2 i force2 context2 w2 = (Inr (Recorded occ), w2)"
    using assms(6,7) by (rule evaluate_known) (use occ id assms(8) in \<open>simp add: occurrence_id_def\<close>)
  with occ show ?thesis by blast
qed

text \<open>The schedule is paused after the first evaluation and forced in the same hour.\<close>

definition idle_world :: schedule_world where
  "idle_world = snd (evaluateSchedule (clock 1000) idle_facts ''S'' False None (repository_of (maintained 0)))"

definition pausing :: "repository_schedule \<Rightarrow> repository_schedule" where
  "pausing s = s\<lparr>skd_enabled := False\<rparr>"

definition paused_world :: schedule_world where
  "paused_world = snd (updateSchedule (clock 1500) ''S'' pausing idle_world)"

definition paused :: repository_schedule where
  "paused = reread (revised_schedule (clock 1500) (reread (maintained 0)) (pausing (reread (maintained 0))))"

lemma idle_evaluation: "\<exists>occ. evaluateSchedule (clock 1000) idle_facts ''S'' False None (repository_of (maintained 0)) = (Inr (Recorded occ), idle_world)"
  by (rule idle_run) (auto simp: idle_world_def)

lemma paused_schedule_at: "schedule_at ''S'' paused_world = Some paused"
proof -
  have "schedule_at ''S'' idle_world = Some (reread (maintained 0))"
    by (rule idle_run) (auto simp: idle_world_def)
  then show ?thesis
    by (simp add: paused_world_def paused_def updateSchedule_run schedule_at_put) (simp add: maintained_def)
qed

theorem window_runs_once_witness:
  "\<exists>occ. occurrence_at (occurrence_id example_host (reread (maintained 0)) ''0'') paused_world = Some occ \<and>
     evaluateSchedule (clock 2000) idle_facts ''S'' True None paused_world = (Inr (Recorded occ), paused_world)"
proof -
  obtain occ where run: "evaluateSchedule (clock 1000) idle_facts ''S'' False None (repository_of (maintained 0)) = (Inr (Recorded occ), idle_world)"
    using idle_evaluation by blast
  have at_S: "schedule_at ''S'' (repository_of (maintained 0)) = Some (reread (maintained 0))" by (simp add: maintained_def)
  have due: "due_for (clock 1000) idle_facts (reread (maintained 0)) False None ''0''"
    "due_for (clock 2000) idle_facts paused True None ''0''"
    by (simp_all add: due_for_def first_hour maintenance_not_retired paused_def maintained_def revised_schedule_def pausing_def)
  have "schedule_activity\<^sup>*\<^sup>* idle_world paused_world"
    unfolding paused_world_def by (rule r_into_rtranclp [of schedule_activity]) (rule update)
  from window_runs_once [OF repository_named at_S due(1) run this paused_schedule_at due(2)] show ?thesis by simp
qed

section \<open>Failures\<close>

text \<open>
  C29.  Failures in a row end: an enabled schedule fails at most as often as its policy still allows,
  and once when the policy allows no more (a wake of a controller at most three times), counted from
  any state in which it is read, when no success comes in between; the failure that uses up the last
  run pauses it, and from then on an unforced evaluation returns no occurrence and writes nothing.
\<close>

theorem failing_schedule_is_paused:
  assumes "schedule_at i w = Some s" and "skd_scheduleId s = i" and "(failed_run i ^^ n) w t"
  shows "int n \<le> runs_left s \<and>
    (operation_of s = EXTERNAL_CONTROLLER_WAKE_OPERATION \<and> 0 \<le> skd_consecutiveFailures s \<longrightarrow> n \<le> 3) \<and>
    (int n = runs_left s \<longrightarrow> evaluateSchedule env F i False context t = (Inr No_occurrence, t))"
proof (intro conjI impI)
  from failed_runs_left [OF assms(3,1,2)] obtain s' where left: "int n \<le> runs_left s"
      and s': "schedule_at i t = Some s'" "runs_left s' \<le> runs_left s - int n" by blast
  show "int n \<le> runs_left s" by (rule left)
  obtain row where row: "s = hydrated row" using assms(1) by (auto simp: schedule_at_file split: option.splits)
  show "n \<le> 3" if wake: "operation_of s = EXTERNAL_CONTROLLER_WAKE_OPERATION \<and> 0 \<le> skd_consecutiveFailures s"
  proof -
    have "sy_maxFailures (skd_policy s) \<le> 3"
      using wake by (simp add: row hydrated_policy boundedSchedulePolicy_def operation_of_def hydrated_def Let_def
          EXTERNAL_CONTROLLER_WAKE_OPERATION_def EXTERNAL_CONTROLLER_WAKE_MAX_FAILURES_def)
    then show ?thesis using left wake by (auto simp: runs_left_def split: if_splits)
  qed
  show "evaluateSchedule env F i False context t = (Inr No_occurrence, t)" if "int n = runs_left s"
  proof -
    have "\<not> skd_enabled s'" using s'(2) that by (auto simp: runs_left_def split: if_splits)
    then show ?thesis
      by (simp add: evaluateSchedule_def bindS_def getSchedule_Some [OF s'(1)] returnS_def readS_def
          evaluateScheduleTriggerEligibility_def trigger_facts_of_def Let_def evaluate_window_def)
  qed
qed

text \<open>The third failure of a schedule that may fail three times.\<close>

definition plain_failure :: failure_options where
  "plain_failure = \<lparr>fo_outcome = Outcome_failed, fo_decision = Some Decide_execute, fo_reason = ''why'', fo_countFailure = None,
     fo_pauseReason = None, fo_handoff = None\<rparr>"

definition failed_world :: schedule_world where
  "failed_world = snd (applyScheduleFailure (clock 1000) ''S'' ''O'' plain_failure (repository_of (maintained 2)))"

theorem failing_schedule_is_paused_witness:
  "runs_left (reread (maintained 2)) = 1 \<and>
   evaluateSchedule (clock 2000) quiet_facts ''S'' False None failed_world = (Inr No_occurrence, failed_world)"
proof -
  let ?w = "repository_of (maintained 2)"
  have s: "schedule_at ''S'' ?w = Some (reread (maintained 2))" "skd_scheduleId (reread (maintained 2)) = ''S''"
    "skd_enabled (reread (maintained 2))" by (simp_all add: maintained_def)
  have left: "runs_left (reread (maintained 2)) = 1"
    by (simp add: runs_left_def maintained_def boundedSchedulePolicy_def three_failures_def action_named_def Let_def)
  have "getOccurrence ''O'' ?w = (Inr None, ?w)"
    by (simp add: getOccurrence_def readS_def read_existing_def repository_of_def)
  then have "\<exists>r. applyScheduleFailure (clock 1000) ''S'' ''O'' plain_failure ?w = (Inr r, failed_world)"
    unfolding failed_world_def applyScheduleFailure_def
    by (simp add: bindS_def getSchedule_Some [OF s(1)] end_occurrence_def hand_ended_def returnS_def
        failure_on_schedule_def plain_failure_def failure_counted_def updateSchedule_run [OF s(1)])
  then obtain r where "applyScheduleFailure (clock 1000) ''S'' ''O'' plain_failure ?w = (Inr r, failed_world)" by blast
  then have "failed_run ''S'' ?w (marked env ''S'' None failed_world)" for env
    by (rule failed_run.failure [OF s(1,3), of plain_failure, rotated]) (simp add: failure_counted_def plain_failure_def)
  then have "(failed_run ''S'' ^^ 1) ?w failed_world" by (auto simp: marked_def)
  from failing_schedule_is_paused [OF s(1,2) this] left show ?thesis by simp
qed



text \<open>
  The delay after a failure is bounded and doubles: for a schedule as it is read it lies between the
  base and the maximum of its policy (at least ten minutes for a wake of a controller), never
  shrinks as failures grow, and up to the sixteenth failure in a row is twice the last, cut off
  at the maximum.
\<close>

theorem backoff_is_bounded:
  fixes m n :: int
  assumes "schedule_at i w = Some s" and "sy_backoffBaseMinutes (skd_policy s) = Some base"
    and "sy_backoffMaxMinutes (skd_policy s) = Some limit"
  shows "1 \<le> base \<and> (operation_of s = EXTERNAL_CONTROLLER_WAKE_OPERATION \<longrightarrow> 10 \<le> base) \<and>
    base \<le> backoff_minutes (skd_policy s) n \<and> backoff_minutes (skd_policy s) n \<le> max base limit \<and>
    (m \<le> n \<longrightarrow> backoff_minutes (skd_policy s) m \<le> backoff_minutes (skd_policy s) n) \<and>
    (1 \<le> n \<and> n \<le> 16 \<longrightarrow>
      backoff_minutes (skd_policy s) (n + 1) = min (max base limit) (2 * backoff_minutes (skd_policy s) n))"
proof -
  obtain row where row: "s = hydrated row" using assms(1) by (auto simp: schedule_at_file split: option.splits)
  have base: "1 \<le> base" and wake: "operation_of s = EXTERNAL_CONTROLLER_WAKE_OPERATION \<Longrightarrow> 10 \<le> base"
    using assms(2) by (auto simp: row hydrated_policy boundedSchedulePolicy_def Let_def operation_of_def hydrated_def
        EXTERNAL_CONTROLLER_WAKE_OPERATION_def EXTERNAL_CONTROLLER_WAKE_MIN_COOLDOWN_MINUTES_def split: if_splits)
  let ?e = "\<lambda>n. nat (min 16 (max 0 (n - 1)))"
  have eq: "backoff_minutes (skd_policy s) n = min (max base limit) (base * 2 ^ ?e n)" for n
    using base by (simp add: backoff_minutes_def assms(2,3) Let_def)
  have pow: "base \<le> base * 2 ^ k" for k :: nat using base by simp
  have low: "base \<le> backoff_minutes (skd_policy s) n" using pow by (simp add: eq)
  have high: "backoff_minutes (skd_policy s) n \<le> max base limit" by (simp add: eq)
  have mono: "backoff_minutes (skd_policy s) m \<le> backoff_minutes (skd_policy s) n" if "m \<le> n"
  proof -
    have "?e m \<le> ?e n" using that by (simp add: nat_mono min_def max_def)
    then have "base * 2 ^ ?e m \<le> base * 2 ^ ?e n" using base by (simp add: power_increasing)
    then show ?thesis by (simp add: eq min.coboundedI2)
  qed
  have cut: "0 \<le> M \<Longrightarrow> min M (2 * x) = min M (2 * min M x)" for M x :: int by (simp add: min_def)
  have twice: "backoff_minutes (skd_policy s) (n + 1) = min (max base limit) (2 * backoff_minutes (skd_policy s) n)" if "1 \<le> n" "n \<le> 16"
  proof -
    have "?e (n + 1) = Suc (?e n)" using that by (simp add: nat_diff_distrib Suc_nat_eq_nat_zadd1 min_def)
    then have "backoff_minutes (skd_policy s) (n + 1) = min (max base limit) (base * 2 ^ Suc (?e n))" by (simp only: eq)
    also have "\<dots> = min (max base limit) (2 * (base * 2 ^ ?e n))" by (simp only: power_Suc mult.left_commute)
    also have "\<dots> = min (max base limit) (2 * min (max base limit) (base * 2 ^ ?e n))" by (rule cut) (use base in simp)
    also have "min (max base limit) (base * 2 ^ ?e n) = backoff_minutes (skd_policy s) n" by (rule eq [symmetric])
    finally show ?thesis .
  qed
  from base wake low high mono twice show ?thesis by blast
qed

section \<open>Outcomes\<close>

text \<open>
  C28.  The outcome of an occurrence is final: once it has ended, no settlement of a job, no start of a job
  and no failure changes its status, its decision or its reason, whatever it is settled as, in a
  store whose occurrences are filed under their identifiers.
\<close>

theorem settled_outcome_is_final:
  assumes "occurrence_at j w = Some occ" and "ended occ" and "\<forall>i. named_occurrence i w"
    and "t \<in> {snd (applyScheduleFailure env i oid options w), snd (applyScheduleRetryableFailure env i oid options w),
      snd (markScheduledExecutionRunning env job w), snd (settleScheduledExecution env job ok reason w)}"
  shows "\<exists>o'. occurrence_at j t = Some o' \<and> same_outcome occ o'"
proof -
  have "outcomes_stay w t"
    using assms(3,4) failure_outcomes [of oid w] retryable_outcomes [of oid w] mark_outcomes [of job w] settle_outcomes [of job w] by blast
  then show ?thesis using assms(1,2) by (simp add: outcomes_stay_def)
qed

definition ended_occurrence :: schedule_occurrence where
  "ended_occurrence = \<lparr>soc_revision = 2, soc_occurrenceId = ''O'', soc_scheduleId = ''S'', soc_repoId = ''repo'', soc_windowKey = ''0'',
     soc_status = Occ_failed, soc_decision = Decide_execute, soc_decisionId = None, soc_triggerContext = None,
     soc_createdAt = ''1'', soc_updatedAt = ''2'', soc_jobId = Some ''J'', soc_handoffId = None, soc_reason = Some ''why''\<rparr>"

definition settling_job :: scheduled_execution where
  "settling_job = \<lparr>sxe_type = ''scheduled-occurrence'', sxe_repoId = ''repo'', sxe_jobId = ''J'',
     sxe_payload = [(''scheduleId'', JStr ''S''), (''occurrenceId'', JStr ''O'')]\<rparr>"

definition ended_world :: schedule_world where
  "ended_world = (repository_of (maintained 1))\<lparr>scw_occurrences := [(''O'', Some ended_occurrence)]\<rparr>"

theorem settled_outcome_is_final_witness:
  "\<exists>o'. occurrence_at ''O'' (snd (settleScheduledExecution (clock 2000) settling_job True ''late'' ended_world)) = Some o' \<and>
     same_outcome ended_occurrence o'"
proof (rule settled_outcome_is_final)
  show "occurrence_at ''O'' ended_world = Some ended_occurrence" by (simp add: occurrence_at_def ended_world_def)
  show "ended ended_occurrence" by (simp add: ended_def ended_occurrence_def TERMINAL_OCCURRENCE_STATUSES_def)
  show "\<forall>i. named_occurrence i ended_world"
    by (simp add: named_occurrence_def occurrence_at_def ended_world_def ended_occurrence_def)
qed blast

text \<open>
  Settling a failed job a second time leaves its occurrence and the inbox as they are, but counts the
  failure again: the schedule has one more consecutive failure.
\<close>

definition occurrence_job :: "string \<Rightarrow> string \<Rightarrow> scheduled_execution \<Rightarrow> bool" where
  "occurrence_job i oid job \<longleftrightarrow> sxe_type job = ''scheduled-occurrence'' \<and> i \<noteq> [] \<and> oid \<noteq> [] \<and>
     payload_string job ''scheduleId'' = Some i \<and> payload_string job ''occurrenceId'' = Some oid"

theorem repeated_settlement_counts_again:
  assumes "schedule_at i w = Some s" and "skd_scheduleId s = i" and "occurrence_at oid w = Some occ" and "ended occ"
    and "truthy (soc_handoffId occ)" and "occurrence_job i oid job" and "t = snd (settleScheduledExecution env job False reason w)"
  shows "scw_occurrences t = scw_occurrences w \<and> scw_inbox t = scw_inbox w \<and>
    (\<exists>s'. schedule_at i t = Some s' \<and> skd_consecutiveFailures s' = skd_consecutiveFailures s + 1)"
proof -
  let ?o = "\<lparr>fo_outcome = Outcome_failed, fo_decision = Some Decide_execute, fo_reason = reason, fo_countFailure = None,
    fo_pauseReason = None, fo_handoff = Some (failed_execution_handoff i oid reason job)\<rparr>"
  let ?n = "revised_schedule env s (computeScheduleFailureState env (skd_consecutiveFailures s + 1) s)"
  have e: "end_occurrence env st d why (Some occ) v = (Inr (Some occ), v)" for st d why v
    using assms(4) by (simp add: end_occurrence_def ended_def returnS_def)
  have h: "hand_ended env s' (Some hnd) (Some occ) v = (Inr (Some occ), v)" for s' hnd v
    using assms(5) by (simp add: hand_ended_def recordScheduleOccurrenceHandoff_def returnS_def)
  have "applyScheduleFailure env i oid ?o w = (Inr (?n, Some occ), put_schedule ?n w)"
    by (simp add: applyScheduleFailure_def bindS_def getSchedule_Some [OF assms(1)] getOccurrence_found [OF assms(3)] e h
        failure_on_schedule_def failure_counted_def updateSchedule_run [OF assms(1)] returnS_def)
  then have t: "t = put_schedule ?n w"
    using assms(6,7) by (simp add: settleScheduledExecution_def occurrence_job_def Let_def quietS_def bindS_def
        getOccurrence_found [OF assms(3)] e returnS_def)
  have "skd_consecutiveFailures ?n = skd_consecutiveFailures s + 1" "skd_scheduleId ?n = i"
    using assms(2) by (simp_all add: computeScheduleFailureState_def Let_def)
  then show ?thesis by (simp add: t schedule_at_put) (simp add: put_schedule_def)
qed

section \<open>Revisions and requests\<close>

text \<open>
  C33.  However the scheduler goes on, a schedule keeps its identity (its identifier, repository, request
  and creation time), its revision never falls, and a schedule whose revision is what it was is
  what it was; so a save of a snapshot that is not the current revision is refused and changes
  nothing, also when the snapshot was current before.
\<close>

theorem stale_schedule_save_is_refused:
  assumes "schedules_named w" and "schedule_at i w = Some s" and "schedule_activity\<^sup>*\<^sup>* w t"
  shows "\<exists>s'. schedule_at i t = Some s' \<and> same_identity s s' \<and> skd_revision s \<le> skd_revision s' \<and>
    (skd_revision s' = skd_revision s \<longrightarrow> s' = s) \<and>
    (\<forall>draft. skd_scheduleId draft = i \<longrightarrow> skd_revision draft = skd_revision s \<longrightarrow> s' \<noteq> s \<longrightarrow>
       (\<exists>why. saveSchedule env draft t = (throw (''SCHEDULE_REVISION_CONFLICT: '' @ why), t)))"
proof -
  from revisions_kept.activities_kept [OF assms(3)] assms(1,2) obtain s' where s': "schedule_at i t = Some s'" "same_identity s s'"
      "skd_revision s \<le> skd_revision s'" "skd_revision s' = skd_revision s \<longrightarrow> s' = s"
    unfolding revisions_grow_def by blast
  have "\<exists>why. saveSchedule env draft t = (throw (''SCHEDULE_REVISION_CONFLICT: '' @ why), t)"
    if "skd_scheduleId draft = i" "skd_revision draft = skd_revision s" "s' \<noteq> s" for draft
  proof -
    have "skd_revision draft \<noteq> skd_revision s'" using that(2,3) s'(4) by auto
    then show ?thesis using s'(1) that(1)
      by (simp add: saveSchedule_def bindS_def getSchedule_Some throw_ifS_def throwS_def)
  qed
  with s' show ?thesis by blast
qed

theorem stale_schedule_save_is_refused_witness:
  "\<exists>why. saveSchedule (clock 2000) (reread (maintained 0)) (snd (updateSchedule (clock 1500) ''S'' pausing (repository_of (maintained 0))))
     = (throw (''SCHEDULE_REVISION_CONFLICT: '' @ why), snd (updateSchedule (clock 1500) ''S'' pausing (repository_of (maintained 0))))"
proof -
  let ?w = "repository_of (maintained 0)"
  let ?t = "snd (updateSchedule (clock 1500) ''S'' pausing ?w)"
  have s: "schedule_at ''S'' ?w = Some (reread (maintained 0))" "skd_scheduleId (reread (maintained 0)) = ''S''"
    by (simp_all add: maintained_def)
  have t: "schedule_activity\<^sup>*\<^sup>* ?w ?t" by (rule r_into_rtranclp [of schedule_activity]) (rule update)
  have "schedule_at ''S'' ?t = Some paused"
    by (simp add: updateSchedule_run [OF s(1)] schedule_at_put paused_def) (simp add: maintained_def)
  moreover have "paused \<noteq> reread (maintained 0)"
  proof
    assume "paused = reread (maintained 0)"
    then have "skd_enabled paused = skd_enabled (reread (maintained 0))" by simp
    then show False by (simp add: paused_def pausing_def maintained_def)
  qed
  ultimately show ?thesis
    using stale_schedule_save_is_refused [OF repository_named s(1) t, of "clock 2000"] s(2) by fastforce
qed

text \<open>
  A request names one schedule: once a request has created its schedule, then however the scheduler
  goes on, creating again under the same request returns that schedule as it is by then, for the
  same definition, or is refused as a conflict, for another; neither changes anything.
\<close>

theorem schedule_request_names_one_schedule:
  assumes "schedules_named w" and "createSchedule env inp w = (Inr s, w1)"
    and "map_of (scw_schedules w) (skd_scheduleId (new_schedule env (js_trim (skd_requestId inp)) inp)) = None"
    and "map_of (scw_requests w) (sha256_hex (sce_host env) (js_trim (skd_requestId inp))) = None"
    and "schedule_activity\<^sup>*\<^sup>* w1 w2" and "sce_host env2 = sce_host env" and "js_trim (skd_requestId inp2) = js_trim (skd_requestId inp)"
  shows "if scheduleSemanticKey (sce_host env) inp2 = scheduleSemanticKey (sce_host env) inp
    then \<exists>s2. createSchedule env2 inp2 w2 = (Inr s2, w2) \<and> schedule_at (skd_scheduleId s) w2 = Some s2 \<and> skd_scheduleId s2 = skd_scheduleId s
    else createSchedule env2 inp2 w2 = (throw (''SCHEDULE_REQUEST_ID_CONFLICT: '' @ js_trim (skd_requestId inp)), w2)"
proof -
  let ?r = "js_trim (skd_requestId inp)" let ?key = "sha256_hex (sce_host env) ?r"
  let ?s = "new_schedule env ?r inp"
  let ?q = "\<lparr>srq_requestId = ?r, srq_semanticKey = scheduleSemanticKey (sce_host env) inp, srq_scheduleId = skd_scheduleId ?s,
    srq_repoId = skd_repoId ?s, srq_createdAt = sce_now env\<rparr>"
  have r: "?r \<noteq> []" using assms(2) by (auto simp: createSchedule_def bindS_def throw_ifS_def throwS_def Let_def)
  have run: "createSchedule env inp w = (Inr ?s, put_schedule ?s w\<lparr>scw_requests := put_file ?key ?q (scw_requests w)\<rparr>)"
    using r assms(4) by (simp add: createSchedule_def bindS_def throw_ifS_def returnS_def readS_def read_existing_def modifyS_def Let_def)
      (simp add: put_schedule_def)
  then have s: "s = ?s" and w1: "w1 = put_schedule ?s w\<lparr>scw_requests := put_file ?key ?q (scw_requests w)\<rparr>" using assms(2) by simp_all
  have "schedule_activity w w1" using create [OF assms(3)] assms(2) by simp
  then have named: "schedules_named w1"
    using revisions_kept.activity_kept assms(1) by (auto simp: revisions_grow_def)
  have "schedule_at (skd_scheduleId ?s) w1 \<noteq> None" by (simp add: w1 schedule_at_file put_schedule_def map_of_put)
  then obtain s1 where s1: "schedule_at (skd_scheduleId ?s) w1 = Some s1" "skd_scheduleId s1 = skd_scheduleId ?s"
    using named by (auto simp: schedules_named_def)
  from revisions_kept.activities_kept [OF assms(5)] named s1 obtain s2 where
      s2: "schedule_at (skd_scheduleId ?s) w2 = Some s2" "skd_scheduleId s2 = skd_scheduleId ?s"
    unfolding revisions_grow_def same_identity_def by metis
  have "map_of (scw_requests w1) ?key = Some (Some ?q)" by (simp add: w1 map_of_put)
  then have q: "map_of (scw_requests w2) ?key = Some (Some ?q)"
    using requests_kept.activities_kept [OF assms(5)] by (simp add: requests_stay_def)
  show ?thesis using r q s2 assms(6,7) getSchedule_Some [OF s2(1)]
    by (simp add: createSchedule_def bindS_def throw_ifS_def throwS_def returnS_def readS_def read_existing_def Let_def s)
qed

section \<open>Cron and history\<close>

text \<open>
  A cron expression of one time of day has one window a day: whenever its evaluations happen, two of
  them have the same window exactly when they are on the same day of the schedule's time zone.
\<close>

theorem daily_cron_window_is_the_day:
  assumes "tg_type t = Trigger_cron" and "fixedCronTime (tg_cronExpression t) \<noteq> None"
    and "Option.bind c tc_source \<noteq> Some Src_manual" and "Option.bind c' tc_source \<noteq> Some Src_manual"
    and "skh_zoned S a (coalesce (tg_timezone t) ''UTC'') = Some p" and "skh_zoned S b (coalesce (tg_timezone t) ''UTC'') = Some q"
    and "proper_date p" and "proper_date q"
  shows "scheduleTriggerWindowKey H S t c a = scheduleTriggerWindowKey H S t c' b \<longleftrightarrow> same_day p q"
proof -
  obtain f where f: "fixedCronTime (tg_cronExpression t) = Some f" using assms(2) by blast
  let ?rest = "pad2 (fx_hour f) @ '':'' @ pad2 (fx_minute f) @ ''['' @ coalesce (tg_timezone t) ''UTC'' @ '']''"
  have "scheduleTriggerWindowKey H S t c a = Inr (day_text p @ CHR ''@'' # ?rest)"
    "scheduleTriggerWindowKey H S t c' b = Inr (day_text q @ CHR ''@'' # ?rest)"
    using assms(1,3,4) fixed_cron_key [OF f assms(5)] fixed_cron_key [OF f assms(6)]
    by (simp_all add: scheduleTriggerWindowKey_def Let_def)
  moreover have "\<not> is_digit CHR ''@''" by (simp add: is_digit_def)
  ultimately show ?thesis using day_text_eq [OF assms(7,8)] by simp
qed

text \<open>
  Removing history removes no live record: every occurrence that the index names, that is active, or
  that cannot be read stays as it is, and so does every decision whose occurrence is indexed or
  still there; and at most the number of files the budget allows is removed.
\<close>

theorem history_cleanup_keeps_live_records:
  assumes "cleanupScheduleOccurrenceHistory size_of entries removals w = (res, t)"
  shows "scw_index t = scw_index w \<and> scw_schedules t = scw_schedules w \<and>
    (\<forall>i. map_of (scw_occurrences t) i = map_of (scw_occurrences w) i \<or> disposable w i) \<and>
    (\<forall>i d. map_of (scw_decisions w) i = Some (Some d) \<and>
       (sd_occurrenceId d \<in> retainedOccurrenceIds (scw_index w) \<or> map_of (scw_occurrences t) (sd_occurrenceId d) \<noteq> None) \<longrightarrow>
       map_of (scw_decisions t) i = Some (Some d)) \<and>
    (\<forall>r. res = Inr r \<longrightarrow> int (length (clr_removedOccurrencePaths r)) + int (length (clr_removedDecisionPaths r))
       \<le> max 0 (coalesce removals 50))"
proof -
  let ?m = "max 1 (coalesce entries 2000)" and ?n = "max 0 (coalesce removals 50)"
  obtain r1 w1 where c: "clean_occurrences (clean_occurrence size_of ?m ?n) (file_names (scw_occurrences w)) (empty_cleanup, w) = (r1, w1)"
    by (metis surj_pair)
  obtain r2 w2 where d: "clean_decisions (clean_decision size_of ?m ?n) (file_names (scw_decisions w1)) (r1, w1) = (r2, w2)"
    by (metis surj_pair)
  have t: "t = w2" and res: "res = map_sum id (\<lambda>r. r\<lparr>clr_removedOccurrencePaths := sort_by unit_cmp (clr_removedOccurrencePaths r),
            clr_removedDecisionPaths := sort_by unit_cmp (clr_removedDecisionPaths r)\<rparr>) r2"
    using assms c d by (simp_all add: cleanupScheduleOccurrenceHistory_def Let_def)
  have "within_budget ?m ?n empty_cleanup" by (simp add: within_budget_def empty_cleanup_def)
  from clean_occurrences_kept [OF c this] have one: "within_budget ?m ?n r1" "trimmed_occurrences w w1" by simp_all
  from clean_decisions_kept [OF d one(1)] have two: "\<forall>r. r2 = Inr r \<longrightarrow> within_budget ?m ?n r" "trimmed_decisions w1 w2" by simp_all
  have "\<forall>r. res = Inr r \<longrightarrow> int (length (clr_removedOccurrencePaths r)) + int (length (clr_removedDecisionPaths r)) \<le> ?n"
    using two(1) by (cases r2) (auto simp: res within_budget_def)
  moreover have "map_of (scw_decisions t) i = Some (Some d)"
    if "map_of (scw_decisions w) i = Some (Some d)"
      "sd_occurrenceId d \<in> retainedOccurrenceIds (scw_index w) \<or> map_of (scw_occurrences t) (sd_occurrenceId d) \<noteq> None" for i d
    using that one(2) two(2) unfolding t trimmed_occurrences_def trimmed_decisions_def by (metis option.inject)
  ultimately show ?thesis
    using one(2) two(2) unfolding t trimmed_occurrences_def trimmed_decisions_def by metis
qed

end
