(* ===== verification/Spec2Isabelle.thy ===== *)
theory Spec2Isabelle
  imports ReviewProperties WorkProperties LeaseProperties EngineeringProperties ConcurrencyProperties
    GoalProperties PlanLineageProperties ControlRecordProperties ControllerSessionProperties ScheduleProperties
begin

text \<open>
  Work governance of the Forge controller runtime.

  The runtime lets several controllers (people and language models) change one repository.  What
  keeps them from each other's way and a half-done change from counting as done is the control
  plane of \<open>packages/kernel\<close> and \<open>src/runtime\<close>, which this development models: the records it keeps,
  every operation that changes them, and the decisions it makes from them.

  How the parts work together.  A \<open>requirement\<close> is answered by a \<open>plan\<close> of steps with dependencies;
  a step that may start is claimed by a \<open>Work\<close>.  A Work is a contract with phases (implementation
  to cleanup), a dispatch state and an evidence state.  To change files it needs engineering receipts
  that admit its risk class, compatibility with the Works already active, and leases on the
  resources it writes.  Its implementation is reviewed, the review is checked again at delivery,
  and a completion receipt ends it, which completes the step of its plan and, step by step, the
  plan and the goal.  A controller holds a Work by a claim with a lease of its own; terminal
  operations pass a fence that checks the claim.  Schedules run maintenance and hand over to
  controllers in windows; what a person has to decide goes to the inbox of handoffs.  All records
  live in one store with a revision for each record and an audit of the revisions.

  Which theory models what.

  \<^item> \<open>Prelude\<close>, \<open>JsJson\<close>, \<open>JsText\<close>, \<open>JsonFiles\<close>, \<open>Runs\<close>: results (\<open>Inl\<close> an error with its code and
    message, \<open>Inr\<close> a value), the parts of the language's library that the sources use,
    \<open>JSON.stringify\<close> with its injectivity, names of files (\<open>src/runtime/shared/json-files.ts\<close>), and
    operations that leave a state also when they throw.
  \<^item> \<open>Contracts\<close>: the interfaces, see below.  \<open>ExampleHost\<close>: a concrete host for the witnesses.
  \<^item> \<open>WorkTypes\<close>, \<open>WorkContract\<close>: the data of \<open>packages/kernel/work/domain/types.ts\<close> and of the receipts
    it holds; a \<open>WorkContract\<close> is the record \<open>work_contract\<close>, its literal unions are datatypes.
  \<^item> \<open>WorkStateMachine\<close>, \<open>WorkStateFacts\<close>, \<open>WorkProperties\<close>: \<open>work/domain/state-machine.ts\<close>.
  \<^item> \<open>ImplementationReview\<close>, \<open>ReviewFacts\<close>, \<open>ReviewProperties\<close>: \<open>work/domain/implementation-review.ts\<close>.
  \<^item> \<open>EngineeringDesign\<close>, \<open>EngineeringContracts\<close>, \<open>ProjectContract\<close>, \<open>EngineeringProfile\<close> with
    \<open>EngineeringFacts\<close>, \<open>ProjectContractFacts\<close>, \<open>EngineeringProperties\<close>: the engineering receipts and
    admission (\<open>work/domain/engineering-*.ts\<close>, \<open>project-engineering-contract.ts\<close>,
    \<open>context-closure-receipt.ts\<close>).
  \<^item> \<open>WorkConcurrency\<close>, \<open>ConcurrencyProperties\<close>: \<open>work/domain/execution-concurrency.ts\<close> and
    \<open>admission-policy.ts\<close>.
  \<^item> \<open>WorkPatch\<close>, \<open>WorkContractStore\<close>, \<open>WorkContractUpdates\<close>, \<open>WorkContractLineage\<close> with \<open>WorkStoreFacts\<close>
    and \<open>WorkStoreProperties\<close>: \<open>work/infrastructure/work-contract-store.ts\<close>.  The state \<open>work_store\<close> is
    the list of stored rows.
  \<^item> \<open>ClaimConflicts\<close>, \<open>LeaseStore\<close> with \<open>ClaimFacts\<close>, \<open>LeaseFacts\<close>, \<open>LeaseProperties\<close>:
    \<open>src/runtime/resources/claims/conflicts.ts\<close> and \<open>resources/leases/store.ts\<close>.  The state
    \<open>lease_store\<close> is the lease files, the fencing counters and the effects sent.
  \<^item> \<open>GoalProgression\<close>, \<open>GoalFacts\<close>, \<open>GoalProperties\<close>: \<open>packages/kernel/goal\<close> and
    \<open>packages/kernel/progression/application/projector.ts\<close>.
  \<^item> \<open>PlanContracts\<close>, \<open>PlanSteps\<close>, \<open>PlanCarries\<close>, \<open>PlanLineage\<close> with \<open>PlanFacts\<close>, \<open>PlanProgression\<close>,
    \<open>PlanLineageFacts\<close>, \<open>PlanProperties\<close>, \<open>PlanLineageProperties\<close>:
    \<open>src/runtime/control-plane/facade/plan-contract-store.ts\<close>, \<open>semantic-admission.ts\<close> and the
    progression snapshot of \<open>goal-workloop.ts\<close>.  The state \<open>plan_world\<close> is the plans with the Works.
  \<^item> \<open>ControlRecords\<close>, \<open>ControlRecordFacts\<close>, \<open>ControlRecordProperties\<close>:
    \<open>src/runtime/control-plane/persistence/sqlite-store.ts\<close>, a table of records and the audit.
  \<^item> \<open>ControllerSessions\<close>, \<open>ControllerSessionFacts\<close>, \<open>ControllerSessionProperties\<close>:
    \<open>packages/kernel/controller\<close>, the claims of Works and the retained identities.
  \<^item> \<open>HandoffInbox\<close>: \<open>src/runtime/control-plane/facade/handoff-inbox-store.ts\<close>.
  \<^item> \<open>Schedules\<close>, \<open>ScheduleEligibility\<close>, \<open>ScheduleStore\<close>, \<open>ScheduleHistory\<close>, \<open>ScheduleSettlement\<close>,
    \<open>ScheduleEngine\<close>, \<open>ScheduleEvaluation\<close> with \<open>ScheduleFacts\<close>, \<open>ScheduleActivity\<close>,
    \<open>ScheduleOutcomes\<close>, \<open>ScheduleLimits\<close>, \<open>ScheduleHistoryFacts\<close>, \<open>ScheduleWindows\<close> and
    \<open>ScheduleProperties\<close>: \<open>packages/kernel/scheduler\<close> and
    \<open>src/runtime/workflow/schedules/engine.ts\<close>.  The state \<open>schedule_world\<close> is the directories of
    schedules, requests, occurrences and decisions, the index and the inbox.

  The interfaces, and who provides them.

  \<^item> \<open>append_log\<close> (a log whose accepted replacements extend it): the review history.
  \<^item> \<open>transition_table\<close>: the tables of dispatch, evidence and requirement states.
  \<^item> \<open>invariant_steps\<close> (steps that keep an invariant): leases, active Works, plans, blockers of a
    design, Work contracts, the audit, the claims of Works.
  \<^item> \<open>progress_steps\<close> (from every state that is not done some step makes a measure smaller): the
    delivery of a plan.
  \<^item> \<open>viewed_steps\<close> (a detailed step relation whose view moves by an abstract one): the Work store and
    the plan operations over the steps of the Work state machine, the record store, the claims.
  \<^item> \<open>ownership\<close> (a symmetric conflict, and the holders it keeps apart): leases, active Works.
  \<^item> \<open>receipt_kind\<close> (a sealed receipt that its validator rebuilds): the four engineering receipts.
  \<^item> \<open>kept_relation\<close>, extended by \<open>schedule_kept\<close> (what every operation keeps, whether it returns or
    throws): the schedules, the occurrences with their outcomes, the revisions, the requests.

  What the lemmas show.  Each facts theory first says when an operation of its component succeeds
  and what it leaves, then proves the laws of the interfaces; the properties follow from the
  interpretations.  Abstract specifications are the Work state machine (\<open>work_step\<close>), which the
  operations on stored Works and on plans refine; the audit as the list of revisions from 1 on; the
  exclusive holding of leases and scopes; and the count of operations a plan still needs.

  Termination and bounds.  Definitions are total and use no fuel.  The one recursion that needs a
  measure of its own, the walk along supersession edges, ends because no Work is visited twice.  Bounds of
  the code (256 reviews, 500 changed paths, 5,000 recent occurrences and the like) are definitions with
  the names or the literals of the code.  Numbers are integers: the code keeps them far inside the
  exact range of a double, and where that matters (revisions up to \<open>2 ^ 53\<close>) it is a hypothesis.

  The environment.  What the process is told by the host is an argument: the record \<open>js_host\<close>
  (collation, digests, dates), readings of the clock, fresh identifiers, the outcome of taking a
  lock, the verdict of the write fence, Git facts and answers of other parts.  A digest is any
  function; properties about identifiers hold up to its collisions.

  Steps.  An operation is one step.  The code runs an operation in one synchronous call, mostly under
  a lock or in a database transaction, so this is what one process does.  Between processes it is an
  assumption wherever a record is read before the lock is taken or a lock does not cover all it
  protects: the Work store against the plan operations and against its own completion
  (\<open>record_completion_seen\<close> keeps the two reads apart, and \<open>stale_completion_overwrites\<close> shows the lost
  receipt), the record of all claims, the index of occurrences.  Each theory says so where it applies.

  Not modelled: the one-time imports of legacy index files and the limit of 5,000 rows of the Work
  store, row order beyond the order of the lists, locks, the events sent to the runtime ledger; the
  dispatch of controller wakes and of browser and issue watchers, the tick over repositories, and
  continuation schedules (they drive external processes); rounds and bindings of controllers; the
  daemon, job and process supervision, the command line, the adapters, plugins, recovery,
  installation and the mobile application, which are input and output around the modelled core.
\<close>

end
